(* ===== verification/Prelude.thy ===== *)
theory Prelude
  imports Main "HOL-Library.AList" "HOL-Library.Sublist" "HOL-Library.Char_ord"
begin

text \<open>
  Shared vocabulary of the development: Go's maps and the \<^verbatim>\<open>strings\<close> package as
  the program uses them, the fact collections that the component theories fill and
  consult, and the generic locales (an invariant carried along a run of operations, a
  chain of rules of which the first match decides) that several components instantiate.

  A Go map is an association list with the order in which one \<^verbatim>\<open>range\<close> loop would
  visit it; where the order matters the statements quantify over every such list.
  Strings are lists of bytes; \<^verbatim>\<open>strings.ToLower\<close> and \<^verbatim>\<open>strings.TrimSpace\<close> are
  written out for the ASCII range, which covers every token the program compares with.
\<close>

named_theorems bff_defs \<open>definitions that a component's proofs unfold\<close>
named_theorems bff_inv \<open>every operation keeps the component's invariant\<close>

section \<open>Go maps\<close>

type_synonym 'v gomap = "(string \<times> 'v) list"

definition gomap_get :: "'v gomap \<Rightarrow> string \<Rightarrow> 'v option" where
  "gomap_get m k = map_of m k"

definition gomap_put :: "string \<Rightarrow> 'v \<Rightarrow> 'v gomap \<Rightarrow> 'v gomap" where
  "gomap_put k v m = AList.update k v m"

definition gomap_del :: "string \<Rightarrow> 'v gomap \<Rightarrow> 'v gomap" where
  "gomap_del k m = AList.delete k m"

lemma gomap_get_Nil [simp]: "gomap_get [] k = None"
  by (simp add: gomap_get_def)

lemma gomap_get_Cons [simp]:
  "gomap_get ((k', v) # m) k = (if k = k' then Some v else gomap_get m k)"
  by (simp add: gomap_get_def)

lemma gomap_get_put [simp]:
  "gomap_get (gomap_put k v m) k' = (if k' = k then Some v else gomap_get m k')"
  by (simp add: gomap_get_def gomap_put_def update_conv')

lemma gomap_get_del [simp]:
  "gomap_get (gomap_del k m) k' = (if k' = k then None else gomap_get m k')"
  by (simp add: gomap_get_def gomap_del_def delete_conv')

lemma gomap_distinct_put [intro, simp]:
  "distinct (map fst m) \<Longrightarrow> distinct (map fst (gomap_put k v m))"
  by (simp add: gomap_put_def distinct_update)

lemma gomap_distinct_del [intro, simp]:
  "distinct (map fst m) \<Longrightarrow> distinct (map fst (gomap_del k m))"
  by (simp add: gomap_del_def distinct_delete)

lemma gomap_length_put:
  "length (gomap_put k v m) = (if gomap_get m k = None then Suc (length m) else length m)"
  unfolding gomap_put_def gomap_get_def by (induction m) auto

lemma gomap_length_del: "length (gomap_del k m) \<le> length m"
  by (simp add: gomap_del_def length_delete_le)

lemma gomap_get_in_set: "gomap_get m k = Some v \<Longrightarrow> (k, v) \<in> set m"
  by (simp add: gomap_get_def map_of_SomeD)

lemma gomap_get_of_set: "distinct (map fst m) \<Longrightarrow> (k, v) \<in> set m \<Longrightarrow> gomap_get m k = Some v"
  by (simp add: gomap_get_def)

section \<open>The strings package\<close>

definition char_lower :: "char \<Rightarrow> char" where
  "char_lower c = (let n = (of_char c :: nat) in if 65 \<le> n \<and> n \<le> 90 then char_of (n + 32) else c)"

definition char_upper :: "char \<Rightarrow> char" where
  "char_upper c = (let n = (of_char c :: nat) in if 97 \<le> n \<and> n \<le> 122 then char_of (n - 32) else c)"

definition is_space :: "char \<Rightarrow> bool" where
  "is_space c = (let n = (of_char c :: nat) in n = 32 \<or> (9 \<le> n \<and> n \<le> 13))"

definition strings_ToLower :: "string \<Rightarrow> string" where
  "strings_ToLower s = map char_lower s"

definition strings_ToUpper :: "string \<Rightarrow> string" where
  "strings_ToUpper s = map char_upper s"

definition strings_TrimSpace :: "string \<Rightarrow> string" where
  "strings_TrimSpace s = rev (dropWhile is_space (rev (dropWhile is_space s)))"

definition strings_EqualFold :: "string \<Rightarrow> string \<Rightarrow> bool" where
  "strings_EqualFold s t \<longleftrightarrow> strings_ToLower s = strings_ToLower t"

definition strings_HasPrefix :: "string \<Rightarrow> string \<Rightarrow> bool" where
  "strings_HasPrefix s p \<longleftrightarrow> prefix p s"

lemmas strings_defs = strings_ToLower_def strings_ToUpper_def strings_TrimSpace_def
  strings_EqualFold_def strings_HasPrefix_def char_lower_def char_upper_def is_space_def Let_def

text \<open>The same functions on the bits of a character, by which evaluation is fast.\<close>

lemma char_lower_code [code]:
  "char_lower (Char b0 b1 b2 b3 b4 b5 b6 b7) =
     (if \<not> b7 \<and> b6 \<and> \<not> b5 \<and> (b0 \<or> b1 \<or> b2 \<or> b3 \<or> b4) \<and> \<not> (b4 \<and> b3 \<and> (b2 \<or> b1 \<and> b0))
      then Char b0 b1 b2 b3 b4 True b6 b7 else Char b0 b1 b2 b3 b4 b5 b6 b7)"
  by (cases b0; cases b1; cases b2; cases b3; cases b4; cases b5; cases b6; cases b7)
    (simp_all add: char_lower_def char_of_def of_char_def Let_def bit_0)

lemma is_space_code [code]:
  "is_space (Char b0 b1 b2 b3 b4 b5 b6 b7) \<longleftrightarrow> \<not> b7 \<and> \<not> b6 \<and> \<not> b4 \<and>
     (if b5 then \<not> b0 \<and> \<not> b1 \<and> \<not> b2 \<and> \<not> b3 else b3 \<and> (b0 \<or> b1 \<or> b2) \<and> \<not> (b2 \<and> b1))"
  by (cases b0; cases b1; cases b2; cases b3; cases b4; cases b5; cases b6; cases b7)
    (simp_all add: is_space_def of_char_def Let_def)

lemma char_upper_code [code]:
  "char_upper (Char b0 b1 b2 b3 b4 b5 b6 b7) =
     (if \<not> b7 \<and> b6 \<and> b5 \<and> (b0 \<or> b1 \<or> b2 \<or> b3 \<or> b4) \<and> \<not> (b4 \<and> b3 \<and> (b2 \<or> b1 \<and> b0))
      then Char b0 b1 b2 b3 b4 False b6 b7 else Char b0 b1 b2 b3 b4 b5 b6 b7)"
  by (cases b0; cases b1; cases b2; cases b3; cases b4; cases b5; cases b6; cases b7)
    (simp_all add: char_upper_def char_of_def of_char_def Let_def bit_0)

lemma ToLower_Nil [simp]: "strings_ToLower [] = []"
  by (simp add: strings_ToLower_def)

lemma TrimSpace_Nil [simp]: "strings_TrimSpace [] = []"
  by (simp add: strings_TrimSpace_def)

lemma length_ToLower [simp]: "length (strings_ToLower s) = length s"
  by (simp add: strings_ToLower_def)

lemma is_space_lower [simp]: "is_space (char_lower c) = is_space c"
  by (cases c) (auto simp: char_lower_code is_space_code)

lemma TrimSpace_id: "\<forall>c \<in> set s. \<not> is_space c \<Longrightarrow> strings_TrimSpace s = s"
proof -
  have d: "dropWhile is_space xs = xs" if "\<forall>c \<in> set xs. \<not> is_space c" for xs
    using that by (cases xs) auto
  assume s: "\<forall>c \<in> set s. \<not> is_space c"
  then have "\<forall>c \<in> set (rev s). \<not> is_space c" by simp
  from d[OF s] d[OF this] show "strings_TrimSpace s = s" by (simp add: strings_TrimSpace_def)
qed

lemma TrimSpace_of_lower:
  "strings_ToLower s = t \<Longrightarrow> list_all (\<lambda>c. \<not> is_space c) t \<Longrightarrow> strings_TrimSpace s = s"
  by (rule TrimSpace_id) (auto simp: strings_ToLower_def list_all_iff)

section \<open>An invariant along a run of operations\<close>

text \<open>
  A component guarded by a mutex is a state and one function per exported method; every
  interleaving of its callers is some sequence of whole methods. \<^term>\<open>fold\<close> of the step
  function over a list of operations is such a sequence.
\<close>

locale guarded_component =
  fixes step :: "'op \<Rightarrow> 's \<Rightarrow> 's"
    and inv :: "'s \<Rightarrow> bool"
  assumes step_inv: "inv s \<Longrightarrow> inv (step a s)"
begin

lemma run_inv: "inv s \<Longrightarrow> inv (fold step ops s)"
  by (induction ops arbitrary: s) (auto intro: step_inv)

lemma run_inv_every_prefix: "inv s \<Longrightarrow> inv (fold step (take n ops) s)"
  by (rule run_inv)

end

section \<open>A chain of rules: the first match decides\<close>

text \<open>
  \<open>chain rs st\<close> runs the rules of \<open>rs\<close> in order on a working state that each of them
  may change, and stops at the first that produces a decision.
\<close>

fun chain :: "('s \<Rightarrow> 'd option \<times> 's) list \<Rightarrow> 's \<Rightarrow> 'd option \<times> 's" where
  "chain [] s = (None, s)"
| "chain (r # rs) s = (case r s of (Some d, s') \<Rightarrow> (Some d, s') | (None, s') \<Rightarrow> chain rs s')"

lemma chain_append:
  "chain (rs @ qs) s = (case chain rs s of (Some d, s') \<Rightarrow> (Some d, s') | (None, s') \<Rightarrow> chain qs s')"
  by (induction rs arbitrary: s) (auto split: prod.splits option.splits)

lemma chain_invariant:
  assumes "P s" and "\<And>r s d s'. r \<in> set rs \<Longrightarrow> P s \<Longrightarrow> r s = (d, s') \<Longrightarrow> P s'"
    and "chain rs s = (d, s')"
  shows "P s'"
  using assms
proof (induction rs arbitrary: s)
  case Nil
  then show ?case by simp
next
  case (Cons r rs)
  obtain d1 s1 where r: "r s = (d1, s1)" by (cases "r s") auto
  have P1: "P s1" using Cons.prems(2)[of r s d1 s1] Cons.prems(1) r by simp
  show ?case
  proof (cases d1)
    case None
    have "chain rs s1 = (d, s')" using Cons.prems(3) r None by simp
    then show ?thesis using Cons.IH[OF P1] Cons.prems(2) by (meson list.set_intros(2))
  next
    case (Some x)
    then show ?thesis using Cons.prems(3) r P1 by simp
  qed
qed

lemma chain_last_decides:
  assumes "\<And>s. fst (r s) \<noteq> None"
  shows "\<exists>d s'. chain (rs @ [r]) s = (Some d, s')"
proof -
  obtain d s' where c: "chain rs s = (d, s')" by (cases "chain rs s") auto
  show ?thesis
  proof (cases d)
    case None
    obtain d2 s2 where r: "r s' = (d2, s2)" by (cases "r s'") auto
    with assms[of s'] obtain x where "d2 = Some x" by auto
    with r c None show ?thesis by (simp add: chain_append)
  qed (use c in \<open>simp add: chain_append\<close>)
qed

end
