(* ===== verification/GoTime.thy ===== *)
theory GoTime
  imports Prelude Complex_Main
begin

text \<open>
  Go's \<^verbatim>\<open>time.Duration\<close> and \<^verbatim>\<open>time.Time\<close>, and the \<^verbatim>\<open>float64\<close> arithmetic the
  program mixes with them.

  A \<^verbatim>\<open>time.Duration\<close> is a signed 64-bit count of nanoseconds, kept here as an integer
  in that range: every operation that can leave the range wraps explicitly through
  \<open>wrap64\<close>. A \<^verbatim>\<open>time.Time\<close> is an integer count of nanoseconds since the zero time
  (year 1), so \<^verbatim>\<open>IsZero\<close> is equality with 0; \<^verbatim>\<open>Time.Sub\<close> saturates at the ends of
  the duration range, as the library documents. A \<^verbatim>\<open>float64\<close> is the rational number it
  denotes; \<open>f64\<close> rounds a rational to the nearest representable one, ties to even
  (finite, normal range: no value of the program comes near the ends of the exponent
  range).
\<close>

type_synonym duration = int
type_synonym time = int

section \<open>64-bit signed arithmetic\<close>

definition wrap64 :: "int \<Rightarrow> int" where
  "wrap64 x = (x + 2 ^ 63) mod 2 ^ 64 - 2 ^ 63"

definition minDuration :: duration where "minDuration = - (2 ^ 63)"
definition maxDuration :: duration where "maxDuration = 2 ^ 63 - 1"

definition in_int64 :: "int \<Rightarrow> bool" where
  "in_int64 x \<longleftrightarrow> minDuration \<le> x \<and> x \<le> maxDuration"

lemma wrap64_id [simp]: "in_int64 x \<Longrightarrow> wrap64 x = x"
  by (simp add: wrap64_def in_int64_def minDuration_def maxDuration_def)

lemma wrap64_in_int64 [simp]: "in_int64 (wrap64 x)"
proof -
  have "0 \<le> (x + 2 ^ 63) mod 2 ^ 64" "(x + 2 ^ 63) mod 2 ^ 64 < (2 ^ 64 :: int)" by simp_all
  then show ?thesis
    unfolding wrap64_def in_int64_def minDuration_def maxDuration_def by simp
qed

lemma in_int64_small: "0 \<le> x \<Longrightarrow> x \<le> maxDuration \<Longrightarrow> in_int64 x"
  by (simp add: in_int64_def minDuration_def)

definition dur_neg :: "duration \<Rightarrow> duration" where "dur_neg d = wrap64 (- d)"
definition dur_add :: "duration \<Rightarrow> duration \<Rightarrow> duration" where "dur_add a b = wrap64 (a + b)"
definition dur_sub :: "duration \<Rightarrow> duration \<Rightarrow> duration" where "dur_sub a b = wrap64 (a - b)"

lemma dur_neg_minDuration: "dur_neg minDuration = minDuration"
  by (simp add: dur_neg_def minDuration_def wrap64_def)

lemma dur_neg_id [simp]: "in_int64 d \<Longrightarrow> d \<noteq> minDuration \<Longrightarrow> dur_neg d = - d"
  unfolding dur_neg_def by (rule wrap64_id) (auto simp: in_int64_def minDuration_def maxDuration_def)

lemma dur_add_id: "in_int64 (a + b) \<Longrightarrow> dur_add a b = a + b"
  by (simp add: dur_add_def)

text \<open>Go's integer division truncates towards zero.\<close>

definition go_quot :: "int \<Rightarrow> int \<Rightarrow> int" where
  "go_quot a b = sgn a * sgn b * (\<bar>a\<bar> div \<bar>b\<bar>)"

lemma go_quot_nonneg: "0 \<le> a \<Longrightarrow> 0 < b \<Longrightarrow> go_quot a b = a div b"
  by (cases "a = 0") (auto simp: go_quot_def)

lemma go_quot_neg: "a < 0 \<Longrightarrow> 0 < b \<Longrightarrow> go_quot a b \<le> 0"
  by (simp add: go_quot_def pos_imp_zdiv_nonneg_iff)

definition go_rem :: "int \<Rightarrow> int \<Rightarrow> int" where
  "go_rem a b = a - b * go_quot a b"

section \<open>Durations in units\<close>

definition nanosecond :: duration where "nanosecond = 1"
definition millisecond :: duration where "millisecond = 1000000"
definition second :: duration where "second = 1000000000"
definition minute :: duration where "minute = 60 * second"

lemmas dur_units = millisecond_def second_def minute_def

definition dur_Milliseconds :: "duration \<Rightarrow> int" where
  "dur_Milliseconds d = go_quot d millisecond"

section \<open>Instants\<close>

definition time_IsZero :: "time \<Rightarrow> bool" where "time_IsZero t \<longleftrightarrow> t = 0"

definition time_Sub :: "time \<Rightarrow> time \<Rightarrow> duration" where
  "time_Sub t u =
     (if t - u < minDuration then minDuration
      else if t - u > maxDuration then maxDuration else t - u)"

definition time_Add :: "time \<Rightarrow> duration \<Rightarrow> time" where "time_Add t d = t + d"
definition time_After :: "time \<Rightarrow> time \<Rightarrow> bool" where "time_After t u \<longleftrightarrow> u < t"
definition time_Before :: "time \<Rightarrow> time \<Rightarrow> bool" where "time_Before t u \<longleftrightarrow> t < u"

lemmas time_defs = time_IsZero_def time_Sub_def time_Add_def time_After_def time_Before_def

lemma time_Sub_in_int64 [simp]: "in_int64 (time_Sub t u)"
  by (simp add: time_Sub_def in_int64_def minDuration_def maxDuration_def)

lemma time_Sub_exact: "in_int64 (t - u) \<Longrightarrow> time_Sub t u = t - u"
  by (auto simp: time_Sub_def in_int64_def)

lemma time_Sub_nonneg_iff: "0 \<le> time_Sub t u \<longleftrightarrow> u \<le> t"
  by (auto simp: time_Sub_def minDuration_def maxDuration_def)

lemma time_Sub_mono: "t \<le> t' \<Longrightarrow> time_Sub t u \<le> time_Sub t' u"
  by (auto simp: time_Sub_def minDuration_def maxDuration_def)

section \<open>float64\<close>

text \<open>
  \<open>pow2_up n d\<close> and \<open>pow2_down n d\<close> bring the positive fraction \<open>n / d\<close> into the
  interval from \<open>2 ^ 52\<close> (inclusive) to \<open>2 ^ 53\<close> (exclusive) by doubling or halving;
  \<open>round_half_even\<close> is the rounding of the mantissa.
\<close>

definition round_half_even :: "int \<Rightarrow> int \<Rightarrow> int" where
  "round_half_even n d =
     (let q = n div d; r = n mod d
      in if 2 * r < d then q else if 2 * r > d then q + 1
         else if even q then q else q + 1)"

function f64_pos :: "int \<Rightarrow> int \<Rightarrow> rat" where
  "f64_pos n d =
     (if n \<le> 0 \<or> d \<le> 0 then 0
      else if n < 2 ^ 52 * d then f64_pos (2 * n) d / 2
      else if n \<ge> 2 ^ 53 * d then 2 * f64_pos n (2 * d)
      else of_int (round_half_even n d))"
  by pat_completeness auto
termination
proof (relation "measure (\<lambda>(n, d). nat (2 ^ 52 * d - n) + nat (n - 2 ^ 53 * d + 1))", goal_cases)
  case 1
  show ?case by simp
next
  case (2 n d)
  then show ?case by simp
next
  case (3 n d)
  then show ?case by simp
qed

declare f64_pos.simps [simp del]

definition f64 :: "rat \<Rightarrow> rat" where
  "f64 q = (case quotient_of q of (n, d) \<Rightarrow>
     if n = 0 then 0 else if n > 0 then f64_pos n d else - f64_pos (- n) d)"

text \<open>Conversion of a float to an integer type truncates towards zero.\<close>

definition f64_to_int :: "rat \<Rightarrow> int" where
  "f64_to_int q = (if 0 \<le> q then \<lfloor>q\<rfloor> else \<lceil>q\<rceil>)"

definition f64_of_int :: "int \<Rightarrow> rat" where "f64_of_int n = f64 (of_int n)"
definition f64_div :: "rat \<Rightarrow> rat \<Rightarrow> rat" where "f64_div a b = f64 (a / b)"
definition f64_mul :: "rat \<Rightarrow> rat \<Rightarrow> rat" where "f64_mul a b = f64 (a * b)"
definition f64_add :: "rat \<Rightarrow> rat \<Rightarrow> rat" where "f64_add a b = f64 (a + b)"
definition f64_sub :: "rat \<Rightarrow> rat \<Rightarrow> rat" where "f64_sub a b = f64 (a - b)"

lemmas f64_ops = f64_of_int_def f64_div_def f64_mul_def f64_add_def f64_sub_def

lemma f64_0 [simp]: "f64 0 = 0"
  by (simp add: f64_def)

text \<open>\<^verbatim>\<open>Duration.Seconds\<close>, as the library computes it.\<close>

definition dur_Seconds :: "duration \<Rightarrow> rat" where
  "dur_Seconds d =
     f64_add (f64_of_int (go_quot d second)) (f64_div (f64_of_int (go_rem d second)) 1000000000)"

end
