(* ===== verification/Config.thy ===== *)
theory Config
  imports GoTime
begin

text \<open>
  The configuration tree of \<^verbatim>\<open>internal/config/config.go\<close>, one record per struct. Durations are
  nanosecond counts, a \<^verbatim>\<open>float64\<close> is the rational it denotes, a Go map is an association list.
  A pointer or a map whose \<^verbatim>\<open>nil\<close> is told apart from its empty value is an option.
\<close>

section \<open>Security\<close>

record RateLimitConfig =
  rl_Enabled :: bool
  rl_RPS :: int
  rl_Burst :: int
  rl_PerTenant :: bool
  rl_MaxTenants :: int

record JWTConfig =
  jwt_Issuer :: string
  jwt_Audience :: string
  jwt_JWKSURL :: string
  jwt_JWKSTTL :: duration
  jwt_HS256SecretEnv :: string
  jwt_Leeway :: duration
  jwt_TenantClaim :: string
  jwt_RolesClaim :: string
  jwt_RequiredClaims :: "string list"

record RBACConfig =
  rbac_Roles :: "string list gomap"
  rbac_DefaultDeny :: bool

record SecurityConfig =
  sec_JWT :: JWTConfig
  sec_RBAC :: RBACConfig
  sec_RateLimit :: RateLimitConfig
  sec_AllowInsecureNoAuth :: bool

section \<open>Sources\<close>

record RetryConfig =
  rt_Enabled :: bool
  rt_MaxAttempts :: int
  rt_BaseBackoff :: duration
  rt_MaxBackoff :: duration
  rt_JitterFraction :: rat
  rt_PerAttemptTimeout :: duration
  rt_BudgetRatio :: rat

record BreakerConfig =
  br_Enabled :: bool
  br_FailureThreshold :: rat
  br_MinimumRequests :: int
  br_Window :: duration
  br_OpenTimeout :: duration
  br_HalfOpenMaxCalls :: int
  br_HalfOpenSuccesses :: int

record BulkheadConfig =
  bh_Enabled :: bool
  bh_MaxConcurrent :: int
  bh_AcquireTimeout :: duration
  bh_MaxQueue :: int

record TLSConfig =
  tls_Enabled :: bool
  tls_InsecureSkipVerify :: bool
  tls_CAFile :: string
  tls_CertFile :: string
  tls_KeyFile :: string
  tls_ServerName :: string

definition zero_TLSConfig :: TLSConfig where
  "zero_TLSConfig = \<lparr>tls_Enabled = False, tls_InsecureSkipVerify = False, tls_CAFile = [],
     tls_CertFile = [], tls_KeyFile = [], tls_ServerName = []\<rparr>"

record SourceCommon =
  sc_CallTimeout :: duration
  sc_Retry :: RetryConfig
  sc_Breaker :: BreakerConfig
  sc_Bulkhead :: BulkheadConfig
  sc_TLS :: TLSConfig
  sc_AcceptedSchemaVersions :: "string list"

record OperationalSourceConfig =
  ops_Common :: SourceCommon
  ops_Addr :: string
  ops_DialTimeout :: duration
  ops_ProbeTimeout :: duration
  ops_KeepaliveTime :: duration
  ops_KeepaliveTimeout :: duration
  ops_MaxRecvMsgBytes :: int
  ops_UseRoundRobin :: bool
  ops_WaitForReadyCalls :: bool

record ExecutionSourceConfig =
  exs_Common :: SourceCommon
  exs_BaseURL :: string
  exs_MaxIdleConns :: int
  exs_MaxIdleConnsPerHost :: int
  exs_IdleConnTimeout :: duration
  exs_HistoryPageSize :: int
  exs_MaxHistoryItems :: int

record SourcesConfig =
  src_Operational :: OperationalSourceConfig
  src_Execution :: ExecutionSourceConfig

section \<open>Cache\<close>

record RedisConfig =
  rds_Addr :: string
  rds_DB :: int
  rds_Username :: string
  rds_PasswordEnv :: string
  rds_PoolSize :: int
  rds_MinIdle :: int
  rds_DialTimeout :: duration
  rds_ReadTimeout :: duration
  rds_WriteTimeout :: duration
  rds_TLS :: TLSConfig

record L1Config =
  l1_Enabled :: bool
  l1_MaxEntries :: int
  l1_TTL :: duration

record StampedeConfig =
  st_Enabled :: bool
  st_LockTTL :: duration
  st_EarlyRefreshRatio :: rat

record CacheConfig =
  cc_Enabled :: bool
  cc_Backend :: string
  cc_Redis :: RedisConfig
  cc_L1 :: L1Config
  cc_KeyPrefix :: string
  cc_NegativeTTL :: duration
  cc_StaleGrace :: duration
  cc_Stampede :: StampedeConfig
  cc_FailOpen :: bool

section \<open>Routing and precedence\<close>

record RoutingDefaults =
  df_OnUnknownFreshness :: string
  df_ClockSkewTolerance :: duration
  df_AllowStale :: "bool option"
  df_MaxStale :: duration
  df_ProbeEnabled :: "bool option"
  df_ProbeCacheTTL :: duration
  df_ResolveInFlightExecution :: "bool option"
  df_InFlightLookupTimeout :: duration

record RoutingRule =
  ru_PreferredSource :: string
  ru_TTL :: duration
  ru_CacheTTL :: duration
  ru_Fallback :: string
  ru_AllowStale :: bool
  ru_MaxStale :: duration
  ru_Consistency :: string
  ru_RequiredSources :: "bool gomap option"
  ru_PerSourceTimeout :: "duration gomap option"
  ru_RequiredFields :: "string list"
  ru_MaxLatency :: duration

definition zero_RoutingRule :: RoutingRule where
  "zero_RoutingRule = \<lparr>ru_PreferredSource = [], ru_TTL = 0, ru_CacheTTL = 0, ru_Fallback = [],
     ru_AllowStale = False, ru_MaxStale = 0, ru_Consistency = [], ru_RequiredSources = None,
     ru_PerSourceTimeout = None, ru_RequiredFields = [], ru_MaxLatency = 0\<rparr>"

record RoutingConfig =
  rc_Defaults :: RoutingDefaults
  rc_RequestTypes :: "RoutingRule gomap"

definition boolOr :: "bool option \<Rightarrow> bool \<Rightarrow> bool" where
  "boolOr p fallback = (case p of None \<Rightarrow> fallback | Some b \<Rightarrow> b)"

definition StaleAllowed :: "RoutingDefaults \<Rightarrow> bool" where
  "StaleAllowed d = boolOr (df_AllowStale d) True"

definition ProbesEnabled :: "RoutingDefaults \<Rightarrow> bool" where
  "ProbesEnabled d = boolOr (df_ProbeEnabled d) True"

definition InFlightResolutionEnabled :: "RoutingDefaults \<Rightarrow> bool" where
  "InFlightResolutionEnabled d = boolOr (df_ResolveInFlightExecution d) True"

record PrecedenceConfig =
  pc_Fields :: "string list gomap"
  pc_ExecutionOverridesWhenRunning :: "string list"
  pc_ConflictWarning :: bool

section \<open>Observability, server, tenants\<close>

record OTLPConfig =
  otlp_Enabled :: bool
  otlp_Endpoint :: string
  otlp_Insecure :: bool
  otlp_Timeout :: duration
  otlp_Headers :: "string gomap"

record LogConfig =
  log_Level :: string
  log_Format :: string
  log_AddSource :: bool
  log_RedactKeys :: "string list"

record ObservabilityConfig =
  obs_ServiceName :: string
  obs_ServiceVersion :: string
  obs_Environment :: string
  obs_OTLP :: OTLPConfig
  obs_TraceSampleRatio :: rat
  obs_MetricsInterval :: duration
  obs_Log :: LogConfig
  obs_PrometheusEndpoint :: bool

record ServerConfig =
  srv_HTTPAddr :: string
  srv_AdminAddr :: string
  srv_ReadTimeout :: duration
  srv_WriteTimeout :: duration
  srv_IdleTimeout :: duration
  srv_HeaderTimeout :: duration
  srv_ShutdownGrace :: duration
  srv_MaxBodyBytes :: int
  srv_RequestTimeout :: duration

record CacheOverride =
  co_Enabled :: "bool option"
  co_NegativeTTL :: "duration option"

record SecurityOverride =
  so_RateLimit :: "RateLimitConfig option"

record Override =
  ov_Routing :: "RoutingConfig option"
  ov_Cache :: "CacheOverride option"
  ov_Security :: "SecurityOverride option"
  ov_Precedence :: "PrecedenceConfig option"

record Config =
  cfg_Server :: ServerConfig
  cfg_Security :: SecurityConfig
  cfg_Sources :: SourcesConfig
  cfg_Cache :: CacheConfig
  cfg_Routing :: RoutingConfig
  cfg_Precedence :: PrecedenceConfig
  cfg_Tenants :: "Override gomap"
  cfg_Observability :: ObservabilityConfig

section \<open>Resolution for a tenant\<close>

definition mergeTenantRule :: "RoutingRule \<Rightarrow> RoutingRule \<Rightarrow> RoutingRule" where
  "mergeTenantRule base tr = base\<lparr>
     ru_PreferredSource := if ru_PreferredSource tr \<noteq> [] then ru_PreferredSource tr else ru_PreferredSource base,
     ru_Fallback := if ru_Fallback tr \<noteq> [] then ru_Fallback tr else ru_Fallback base,
     ru_Consistency := if ru_Consistency tr \<noteq> [] then ru_Consistency tr else ru_Consistency base,
     ru_TTL := if ru_TTL tr \<noteq> 0 then ru_TTL tr else ru_TTL base,
     ru_CacheTTL := if ru_CacheTTL tr \<noteq> 0 then ru_CacheTTL tr else ru_CacheTTL base,
     ru_MaxStale := if ru_MaxStale tr \<noteq> 0 then ru_MaxStale tr else ru_MaxStale base,
     ru_MaxLatency := if ru_MaxLatency tr \<noteq> 0 then ru_MaxLatency tr else ru_MaxLatency base,
     ru_RequiredSources := if ru_RequiredSources tr \<noteq> None then ru_RequiredSources tr else ru_RequiredSources base,
     ru_PerSourceTimeout := if ru_PerSourceTimeout tr \<noteq> None then ru_PerSourceTimeout tr else ru_PerSourceTimeout base,
     ru_RequiredFields := if length (ru_RequiredFields tr) > 0 then ru_RequiredFields tr else ru_RequiredFields base,
     ru_AllowStale := if ru_MaxStale tr \<noteq> 0 then ru_AllowStale tr else ru_AllowStale base\<rparr>"

definition ResolveRule :: "Config \<Rightarrow> string \<Rightarrow> string \<Rightarrow> RoutingRule \<times> bool" where
  "ResolveRule c tenantID requestType =
     (case gomap_get (rc_RequestTypes (cfg_Routing c)) requestType of
        None \<Rightarrow> (zero_RoutingRule, False)
      | Some base \<Rightarrow>
          (case gomap_get (cfg_Tenants c) tenantID of None \<Rightarrow> (base, True)
           | Some ov \<Rightarrow> (case ov_Routing ov of None \<Rightarrow> (base, True)
              | Some r \<Rightarrow> (case gomap_get (rc_RequestTypes r) requestType of None \<Rightarrow> (base, True)
                 | Some tr \<Rightarrow> (mergeTenantRule base tr, True)))))"

definition mergeTenantDefaults :: "RoutingDefaults \<Rightarrow> RoutingDefaults \<Rightarrow> RoutingDefaults" where
  "mergeTenantDefaults d td = d\<lparr>
     df_OnUnknownFreshness := if df_OnUnknownFreshness td \<noteq> [] then df_OnUnknownFreshness td else df_OnUnknownFreshness d,
     df_ClockSkewTolerance := if df_ClockSkewTolerance td \<noteq> 0 then df_ClockSkewTolerance td else df_ClockSkewTolerance d,
     df_MaxStale := if df_MaxStale td \<noteq> 0 then df_MaxStale td else df_MaxStale d,
     df_AllowStale := if df_AllowStale td \<noteq> None then df_AllowStale td else df_AllowStale d,
     df_ProbeCacheTTL := if df_ProbeCacheTTL td \<noteq> 0 then df_ProbeCacheTTL td else df_ProbeCacheTTL d,
     df_ProbeEnabled := if df_ProbeEnabled td \<noteq> None then df_ProbeEnabled td else df_ProbeEnabled d,
     df_InFlightLookupTimeout := if df_InFlightLookupTimeout td \<noteq> 0 then df_InFlightLookupTimeout td
        else df_InFlightLookupTimeout d,
     df_ResolveInFlightExecution := if df_ResolveInFlightExecution td \<noteq> None
        then df_ResolveInFlightExecution td else df_ResolveInFlightExecution d\<rparr>"

definition ResolveDefaults :: "Config \<Rightarrow> string \<Rightarrow> RoutingDefaults" where
  "ResolveDefaults c tenantID =
     (let d = rc_Defaults (cfg_Routing c)
      in case gomap_get (cfg_Tenants c) tenantID of None \<Rightarrow> d
         | Some ov \<Rightarrow> (case ov_Routing ov of None \<Rightarrow> d
            | Some r \<Rightarrow> mergeTenantDefaults d (rc_Defaults r)))"

definition ResolvePrecedence :: "Config \<Rightarrow> string \<Rightarrow> PrecedenceConfig" where
  "ResolvePrecedence c tenantID =
     (case gomap_get (cfg_Tenants c) tenantID of None \<Rightarrow> cfg_Precedence c
      | Some ov \<Rightarrow> (case ov_Precedence ov of None \<Rightarrow> cfg_Precedence c
         | Some p \<Rightarrow> if length (pc_Fields p) = 0 then p\<lparr>pc_Fields := pc_Fields (cfg_Precedence c)\<rparr> else p))"

definition ResolveRateLimit :: "Config \<Rightarrow> string \<Rightarrow> RateLimitConfig" where
  "ResolveRateLimit c tenantID =
     (case gomap_get (cfg_Tenants c) tenantID of None \<Rightarrow> sec_RateLimit (cfg_Security c)
      | Some ov \<Rightarrow> (case ov_Security ov of None \<Rightarrow> sec_RateLimit (cfg_Security c)
         | Some s \<Rightarrow> (case so_RateLimit s of None \<Rightarrow> sec_RateLimit (cfg_Security c)
            | Some r \<Rightarrow> r)))"

definition RequestTypes :: "Config \<Rightarrow> string list" where
  "RequestTypes c = map fst (rc_RequestTypes (cfg_Routing c))"

definition mask :: "string \<Rightarrow> string" where
  "mask s = (if s = [] then [] else ''***'')"

definition Redacted :: "Config \<Rightarrow> Config" where
  "Redacted c = c\<lparr>cfg_Cache := (cfg_Cache c)\<lparr>cc_Redis :=
     (cc_Redis (cfg_Cache c))\<lparr>rds_Username := mask (rds_Username (cc_Redis (cfg_Cache c)))\<rparr>\<rparr>\<rparr>"

section \<open>Lemmas\<close>

lemma boolOr_simps [simp]: "boolOr None b = b" "boolOr (Some a) b = a"
  by (simp_all add: boolOr_def)

lemma mergeTenantRule_zero: "mergeTenantRule base zero_RoutingRule = base"
  by (simp add: mergeTenantRule_def zero_RoutingRule_def)

lemma ResolveRule_found_iff:
  "snd (ResolveRule c t q) \<longleftrightarrow> gomap_get (rc_RequestTypes (cfg_Routing c)) q \<noteq> None"
  by (auto simp: ResolveRule_def split: option.splits)

lemma ResolveRule_no_override:
  "gomap_get (cfg_Tenants c) t = None
   \<Longrightarrow> ResolveRule c t q = (case gomap_get (rc_RequestTypes (cfg_Routing c)) q of
        None \<Rightarrow> (zero_RoutingRule, False) | Some r \<Rightarrow> (r, True))"
  by (simp add: ResolveRule_def split: option.splits)

text \<open>The rule a tenant sees is the base rule or the base rule patched by that tenant's own
  override: no other tenant's block can show through.\<close>

lemma ResolveRule_cases:
  assumes "ResolveRule c t q = (r, True)"
  obtains base where "gomap_get (rc_RequestTypes (cfg_Routing c)) q = Some base" "r = base"
  | base ov rc tr where "gomap_get (rc_RequestTypes (cfg_Routing c)) q = Some base"
      "gomap_get (cfg_Tenants c) t = Some ov" "ov_Routing ov = Some rc"
      "gomap_get (rc_RequestTypes rc) q = Some tr" "r = mergeTenantRule base tr"
  using assms by (auto simp: ResolveRule_def split: option.splits)

end
