(* ===== verification/Errs.thy ===== *)
theory Errs
  imports Prelude
begin

text \<open>
  The error taxonomy of \<^verbatim>\<open>pkg/errs/errs.go\<close>: the closed set of codes, the class and the
  HTTP status each code implies, and the predicates by which the retrier, the breaker,
  the fallback and the stale-serve rung decide. An error value is a chain: a taxonomy
  error with an optional cause, one of the two context errors, or an opaque error that
  may wrap another one. \<^verbatim>\<open>nil\<close> is \<^term>\<open>None\<close>.
\<close>

section \<open>Codes and classes\<close>

datatype code =
    CodeInvalidRequest | CodeUnauthenticated | CodeForbidden | CodeTenantMismatch
  | CodeNotFound | CodeRateLimited | CodeRequestTooLarge | CodeUpstreamTimeout
  | CodeUpstreamUnavailable | CodeUpstreamInvalidPayload | CodeSchemaVersionMismatch
  | CodeNoSourceAvailable | CodeInternal

fun code_String :: "code \<Rightarrow> string" where
  "code_String CodeInvalidRequest = ''INVALID_REQUEST''"
| "code_String CodeUnauthenticated = ''UNAUTHENTICATED''"
| "code_String CodeForbidden = ''FORBIDDEN''"
| "code_String CodeTenantMismatch = ''TENANT_MISMATCH''"
| "code_String CodeNotFound = ''NOT_FOUND''"
| "code_String CodeRateLimited = ''RATE_LIMITED''"
| "code_String CodeRequestTooLarge = ''REQUEST_TOO_LARGE''"
| "code_String CodeUpstreamTimeout = ''UPSTREAM_TIMEOUT''"
| "code_String CodeUpstreamUnavailable = ''UPSTREAM_UNAVAILABLE''"
| "code_String CodeUpstreamInvalidPayload = ''UPSTREAM_INVALID_RESPONSE''"
| "code_String CodeSchemaVersionMismatch = ''SCHEMA_VERSION_MISMATCH''"
| "code_String CodeNoSourceAvailable = ''NO_SOURCE_AVAILABLE''"
| "code_String CodeInternal = ''INTERNAL''"

datatype err_class = ClassClient | ClassTransient | ClassDegradable | ClassTerminal

fun httpStatusByCode :: "code \<Rightarrow> nat" where
  "httpStatusByCode CodeInvalidRequest = 400"
| "httpStatusByCode CodeUnauthenticated = 401"
| "httpStatusByCode CodeForbidden = 403"
| "httpStatusByCode CodeTenantMismatch = 403"
| "httpStatusByCode CodeNotFound = 404"
| "httpStatusByCode CodeRateLimited = 429"
| "httpStatusByCode CodeRequestTooLarge = 413"
| "httpStatusByCode CodeUpstreamTimeout = 504"
| "httpStatusByCode CodeUpstreamUnavailable = 503"
| "httpStatusByCode CodeUpstreamInvalidPayload = 502"
| "httpStatusByCode CodeSchemaVersionMismatch = 502"
| "httpStatusByCode CodeNoSourceAvailable = 503"
| "httpStatusByCode CodeInternal = 500"

fun classByCode :: "code \<Rightarrow> err_class" where
  "classByCode CodeInvalidRequest = ClassClient"
| "classByCode CodeUnauthenticated = ClassClient"
| "classByCode CodeForbidden = ClassClient"
| "classByCode CodeTenantMismatch = ClassClient"
| "classByCode CodeRequestTooLarge = ClassClient"
| "classByCode CodeNotFound = ClassTerminal"
| "classByCode CodeRateLimited = ClassTransient"
| "classByCode CodeUpstreamTimeout = ClassDegradable"
| "classByCode CodeUpstreamUnavailable = ClassDegradable"
| "classByCode CodeUpstreamInvalidPayload = ClassTerminal"
| "classByCode CodeSchemaVersionMismatch = ClassTerminal"
| "classByCode CodeNoSourceAvailable = ClassTerminal"
| "classByCode CodeInternal = ClassTerminal"

section \<open>Error values\<close>

datatype detail = DStr string | DInt int | DStrs "string list"

datatype goerr =
    Tax (Code: code) (Message: string) (Source: string) (Op: string) (Retryable: bool)
        (Cause: "goerr option") (Details: "detail gomap")
  | ContextDeadlineExceeded
  | ContextCanceled
  | Opaque string "goerr option"

definition defaultRetryable :: "code \<Rightarrow> bool" where
  "defaultRetryable c = (case c of
      CodeUpstreamTimeout \<Rightarrow> True | CodeUpstreamUnavailable \<Rightarrow> True
    | CodeRateLimited \<Rightarrow> True | CodeNoSourceAvailable \<Rightarrow> True | _ \<Rightarrow> False)"

definition err_New :: "code \<Rightarrow> string \<Rightarrow> goerr" where
  "err_New c msg = Tax c msg [] [] (defaultRetryable c) None []"

definition err_Wrap :: "code \<Rightarrow> string \<Rightarrow> goerr \<Rightarrow> goerr" where
  "err_Wrap c msg cause = Tax c msg [] [] (defaultRetryable c) (Some cause) []"

fun WithSource :: "string \<Rightarrow> goerr \<Rightarrow> goerr" where
  "WithSource s (Tax c m _ p r ca d) = Tax c m s p r ca d"
| "WithSource s e = e"

fun WithOp :: "string \<Rightarrow> goerr \<Rightarrow> goerr" where
  "WithOp p (Tax c m s _ r ca d) = Tax c m s p r ca d"
| "WithOp p e = e"

fun WithDetail :: "string \<Rightarrow> detail \<Rightarrow> goerr \<Rightarrow> goerr" where
  "WithDetail k v (Tax c m s p r ca d) = Tax c m s p r ca (gomap_put k v d)"
| "WithDetail k v e = e"

fun NotRetryable :: "goerr \<Rightarrow> goerr" where
  "NotRetryable (Tax c m s p _ ca d) = Tax c m s p False ca d"
| "NotRetryable e = e"

text \<open>\<^verbatim>\<open>errors.As\<close> finds the first taxonomy error of the chain; \<^verbatim>\<open>errors.Is\<close> looks for a
  sentinel anywhere in it.\<close>

fun err_As :: "goerr \<Rightarrow> goerr option" where
  "err_As (Tax c m s p r ca d) = Some (Tax c m s p r ca d)"
| "err_As ContextDeadlineExceeded = None"
| "err_As ContextCanceled = None"
| "err_As (Opaque m None) = None"
| "err_As (Opaque m (Some e)) = err_As e"

fun err_Is :: "goerr \<Rightarrow> goerr \<Rightarrow> bool" where
  "err_Is target (Tax c m s p r None d) \<longleftrightarrow> target = Tax c m s p r None d"
| "err_Is target (Tax c m s p r (Some e) d) \<longleftrightarrow> target = Tax c m s p r (Some e) d \<or> err_Is target e"
| "err_Is target (Opaque m None) \<longleftrightarrow> target = Opaque m None"
| "err_Is target (Opaque m (Some e)) \<longleftrightarrow> target = Opaque m (Some e) \<or> err_Is target e"
| "err_Is target e \<longleftrightarrow> target = e"

definition err_Class :: "goerr \<Rightarrow> err_class" where
  "err_Class e = (case e of Tax c _ _ _ _ _ _ \<Rightarrow> classByCode c | _ \<Rightarrow> ClassTerminal)"

definition err_HTTPStatus :: "goerr \<Rightarrow> nat" where
  "err_HTTPStatus e = (case e of Tax c _ _ _ _ _ _ \<Rightarrow> httpStatusByCode c | _ \<Rightarrow> 500)"

section \<open>Predicates over any error\<close>

text \<open>\<^verbatim>\<open>CodeOf(nil)\<close> is the empty code, here \<^term>\<open>None\<close>.\<close>

definition CodeOf :: "goerr option \<Rightarrow> code option" where
  "CodeOf err = (case err of None \<Rightarrow> None
    | Some e \<Rightarrow> (case err_As e of Some t \<Rightarrow> Some (Code t)
       | None \<Rightarrow> if err_Is ContextDeadlineExceeded e then Some CodeUpstreamTimeout
                 else if err_Is ContextCanceled e then Some CodeUpstreamUnavailable
                 else Some CodeInternal))"

definition IsRetryable :: "goerr option \<Rightarrow> bool" where
  "IsRetryable err = (case err of None \<Rightarrow> False
    | Some e \<Rightarrow> if err_Is ContextCanceled e then False
       else (case err_As e of Some t \<Rightarrow> Retryable t | None \<Rightarrow> err_Is ContextDeadlineExceeded e))"

definition IsDegradable :: "goerr option \<Rightarrow> bool" where
  "IsDegradable err = (case err of None \<Rightarrow> False
    | Some e \<Rightarrow> (case err_As e of Some t \<Rightarrow> err_Class t = ClassDegradable
       | None \<Rightarrow> err_Is ContextDeadlineExceeded e))"

definition SourceUnusable :: "goerr option \<Rightarrow> bool" where
  "SourceUnusable err = (case CodeOf err of
      Some CodeUpstreamTimeout \<Rightarrow> True | Some CodeUpstreamUnavailable \<Rightarrow> True
    | Some CodeUpstreamInvalidPayload \<Rightarrow> True | Some CodeSchemaVersionMismatch \<Rightarrow> True
    | _ \<Rightarrow> False)"

definition IsNotFound :: "goerr option \<Rightarrow> bool" where
  "IsNotFound err \<longleftrightarrow> CodeOf err = Some CodeNotFound"

definition HTTPStatusOf :: "goerr option \<Rightarrow> nat" where
  "HTTPStatusOf err = (case err of None \<Rightarrow> 200
    | Some e \<Rightarrow> (case err_As e of Some t \<Rightarrow> err_HTTPStatus t
       | None \<Rightarrow> (case CodeOf err of Some c \<Rightarrow> httpStatusByCode c | None \<Rightarrow> 500)))"

definition ErrNotFound :: goerr where "ErrNotFound = err_New CodeNotFound ''resource not found''"
definition ErrCircuitOpen :: goerr where
  "ErrCircuitOpen = err_New CodeUpstreamUnavailable ''data source temporarily unavailable''"
definition ErrBulkheadFull :: goerr where
  "ErrBulkheadFull = err_New CodeUpstreamUnavailable ''data source concurrency limit reached''"
definition ErrRateLimited :: goerr where
  "ErrRateLimited = err_New CodeRateLimited ''request rate limit exceeded''"
definition ErrTenantMismatch :: goerr where
  "ErrTenantMismatch = err_New CodeTenantMismatch ''tenant context does not match credentials''"
definition ErrUnauthenticated :: goerr where
  "ErrUnauthenticated = err_New CodeUnauthenticated ''missing or invalid credentials''"

lemmas err_ctors = err_New_def err_Wrap_def ErrNotFound_def ErrCircuitOpen_def ErrBulkheadFull_def
  ErrRateLimited_def ErrTenantMismatch_def ErrUnauthenticated_def defaultRetryable_def

section \<open>Lemmas\<close>

lemma Code_annotations [simp]:
  "\<exists>c m s p r ca d. e = Tax c m s p r ca d \<Longrightarrow> Code (WithSource x e) = Code e"
  "\<exists>c m s p r ca d. e = Tax c m s p r ca d \<Longrightarrow> Code (WithOp x e) = Code e"
  "\<exists>c m s p r ca d. e = Tax c m s p r ca d \<Longrightarrow> Code (WithDetail x v e) = Code e"
  "\<exists>c m s p r ca d. e = Tax c m s p r ca d \<Longrightarrow> Code (NotRetryable e) = Code e"
  by auto

lemma CodeOf_Tax [simp]: "CodeOf (Some (Tax c m s p r ca d)) = Some c"
  by (simp add: CodeOf_def)

lemma CodeOf_None [simp]: "CodeOf None = None"
  by (simp add: CodeOf_def)

lemma CodeOf_New [simp]: "CodeOf (Some (err_New c m)) = Some c"
  by (simp add: err_New_def)

lemma CodeOf_Wrap [simp]: "CodeOf (Some (err_Wrap c m e)) = Some c"
  by (simp add: err_Wrap_def)

lemma CodeOf_WithSource [simp]: "CodeOf (Some (WithSource x e)) = CodeOf (Some e)"
  by (cases e) simp_all

lemma CodeOf_WithOp [simp]: "CodeOf (Some (WithOp x e)) = CodeOf (Some e)"
  by (cases e) simp_all

lemma CodeOf_WithDetail [simp]: "CodeOf (Some (WithDetail k v e)) = CodeOf (Some e)"
  by (cases e) simp_all

lemma CodeOf_NotRetryable [simp]: "CodeOf (Some (NotRetryable e)) = CodeOf (Some e)"
  by (cases e) simp_all

lemma CodeOf_eq_None_iff [simp]: "CodeOf err = None \<longleftrightarrow> err = None"
  by (auto simp: CodeOf_def split: option.splits)

lemma CodeOf_sentinels [simp]:
  "CodeOf (Some ErrNotFound) = Some CodeNotFound"
  "CodeOf (Some ErrCircuitOpen) = Some CodeUpstreamUnavailable"
  "CodeOf (Some ErrBulkheadFull) = Some CodeUpstreamUnavailable"
  "CodeOf (Some ErrRateLimited) = Some CodeRateLimited"
  "CodeOf (Some ErrTenantMismatch) = Some CodeTenantMismatch"
  "CodeOf (Some ErrUnauthenticated) = Some CodeUnauthenticated"
  by (simp_all add: err_ctors)

lemma err_As_is_Tax: "err_As e = Some t \<Longrightarrow> \<exists>c m s p r ca d. t = Tax c m s p r ca d"
  by (induction e rule: err_As.induct) auto

lemma IsNotFound_not_SourceUnusable: "IsNotFound err \<Longrightarrow> \<not> SourceUnusable err"
  by (simp add: IsNotFound_def SourceUnusable_def)

lemma code_String_inject: "code_String a = code_String b \<longleftrightarrow> a = b"
  by (cases a; cases b; simp)

lemma HTTPStatusOf_CodeOf:
  "HTTPStatusOf err = (case CodeOf err of None \<Rightarrow> 200 | Some c \<Rightarrow> httpStatusByCode c)"
  by (auto simp: HTTPStatusOf_def err_HTTPStatus_def CodeOf_def dest: err_As_is_Tax
      split: option.splits goerr.splits)

lemma IsDegradable_imp_unusable: "IsDegradable err \<Longrightarrow> SourceUnusable err"
proof -
  assume "IsDegradable err"
  then obtain e where e: "err = Some e" by (auto simp: IsDegradable_def split: option.splits)
  show ?thesis
  proof (cases "err_As e")
    case None
    with \<open>IsDegradable err\<close> e show ?thesis by (simp add: IsDegradable_def SourceUnusable_def CodeOf_def)
  next
    case (Some t)
    then obtain c m s p r ca d where t: "t = Tax c m s p r ca d" using err_As_is_Tax by blast
    with \<open>IsDegradable err\<close> e Some have "classByCode c = ClassDegradable"
      by (simp add: IsDegradable_def err_Class_def)
    then have "c = CodeUpstreamTimeout \<or> c = CodeUpstreamUnavailable" by (cases c) simp_all
    with e Some t show ?thesis by (auto simp: SourceUnusable_def CodeOf_def)
  qed
qed

end
