(* ===== verification/Breaker.thy ===== *)
theory Breaker
  imports Config Errs
begin

text \<open>
  \<^verbatim>\<open>internal/resilience/breaker.go\<close>: the three-state circuit breaker over a ring of ten time buckets.
  Every method runs under the breaker's mutex, so a concurrent execution is a sequence of whole
  methods; a guarded call is \<^verbatim>\<open>Allow\<close> before the call and \<^verbatim>\<open>Record\<close> or \<^verbatim>\<open>Abstain\<close> after it, with
  the methods of other callers in between. The clock is read afresh at each place that reads
  it: \<open>BreakerClock\<close> names those readings within one method. The transition hook is not
  modelled.
\<close>

section \<open>State\<close>

datatype State = StateClosed | StateOpen | StateHalfOpen

fun state_String :: "State \<Rightarrow> string" where
  "state_String StateClosed = ''closed''"
| "state_String StateOpen = ''open''"
| "state_String StateHalfOpen = ''half-open''"

record bucket =
  bk_index :: int
  bk_success :: int
  bk_failure :: int
  bk_rejected :: int

definition fresh_bucket :: "int \<Rightarrow> bucket" where
  "fresh_bucket idx = \<lparr>bk_index = idx, bk_success = 0, bk_failure = 0, bk_rejected = 0\<rparr>"

definition bucketsPerWindow :: nat where "bucketsPerWindow = 10"

record Breaker =
  b_name :: string
  b_cfg :: BreakerConfig
  b_state :: State
  b_buckets :: "bucket list"
  b_bucketDur :: duration
  b_startedAt :: time
  b_openedAt :: time
  b_halfOpenCalls :: int
  b_halfOpenOK :: int

record BreakerClock =
  bc_current :: time
  bc_record :: time
  bc_trip :: time
  bc_open :: time

definition NewBreaker :: "string \<Rightarrow> BreakerConfig \<Rightarrow> time \<Rightarrow> Breaker" where
  "NewBreaker name cfg now =
     (let d = go_quot (br_Window cfg) (int bucketsPerWindow)
      in \<lparr>b_name = name, b_cfg = cfg, b_state = StateClosed,
          b_buckets = replicate bucketsPerWindow (fresh_bucket (- 1)),
          b_bucketDur = if d \<le> 0 then second else d, b_startedAt = now, b_openedAt = 0,
          b_halfOpenCalls = 0, b_halfOpenOK = 0\<rparr>)"

section \<open>Internals\<close>

definition decr :: "int \<Rightarrow> int" where
  "decr n = (if n \<le> 0 then 0 else n - 1)"

definition bucketIndex :: "Breaker \<Rightarrow> time \<Rightarrow> int" where
  "bucketIndex b t = (let idx = go_quot (time_Sub t (b_startedAt b)) (b_bucketDur b) in if idx < 0 then 0 else idx)"

definition recordLocked :: "(bucket \<Rightarrow> bucket) \<Rightarrow> time \<Rightarrow> Breaker \<Rightarrow> Breaker" where
  "recordLocked fn now b =
     (let idx = bucketIndex b now;
          slot = nat (idx mod int bucketsPerWindow);
          bk = b_buckets b ! slot;
          bk' = (if bk_index bk \<noteq> idx then fresh_bucket idx else bk)
      in b\<lparr>b_buckets := (b_buckets b)[slot := fn bk']\<rparr>)"

definition transitionLocked :: "State \<Rightarrow> time \<Rightarrow> Breaker \<Rightarrow> Breaker" where
  "transitionLocked to now b =
     (if b_state b = to then b
      else case to of
        StateOpen \<Rightarrow> b\<lparr>b_state := StateOpen, b_openedAt := now, b_halfOpenCalls := 0, b_halfOpenOK := 0\<rparr>
      | StateHalfOpen \<Rightarrow> b\<lparr>b_state := StateHalfOpen, b_halfOpenCalls := 0, b_halfOpenOK := 0\<rparr>
      | StateClosed \<Rightarrow> b\<lparr>b_state := StateClosed, b_halfOpenCalls := 0, b_halfOpenOK := 0,
          b_buckets := replicate (length (b_buckets b)) (fresh_bucket (- 1))\<rparr>)"

definition currentLocked :: "time \<Rightarrow> Breaker \<Rightarrow> Breaker" where
  "currentLocked now b =
     (if b_state b = StateOpen \<and> time_Sub now (b_openedAt b) \<ge> br_OpenTimeout (b_cfg b)
      then transitionLocked StateHalfOpen now b else b)"

definition in_window :: "int \<Rightarrow> bucket \<Rightarrow> bool" where
  "in_window idx bk \<longleftrightarrow> \<not> (bk_index bk < idx - int bucketsPerWindow + 1 \<or> bk_index bk > idx)"

definition window_sum :: "(bucket \<Rightarrow> int) \<Rightarrow> int \<Rightarrow> bucket list \<Rightarrow> int" where
  "window_sum f idx bks = sum_list (map f (filter (in_window idx) bks))"

text \<open>Dividing zero by zero gives NaN, and no comparison with NaN holds.\<close>

definition shouldTripLocked :: "time \<Rightarrow> Breaker \<Rightarrow> bool" where
  "shouldTripLocked now b =
     (let idx = bucketIndex b now;
          success = window_sum bk_success idx (b_buckets b);
          failure = window_sum bk_failure idx (b_buckets b);
          total = success + failure
      in if total < br_MinimumRequests (b_cfg b) then False
         else if total = 0 then False
         else f64_div (f64_of_int failure) (f64_of_int total) \<ge> br_FailureThreshold (b_cfg b))"

section \<open>Methods\<close>

definition breaker_State :: "time \<Rightarrow> Breaker \<Rightarrow> State \<times> Breaker" where
  "breaker_State now b = (let b' = currentLocked now b in (b_state b', b'))"

definition add_rejected :: "bucket \<Rightarrow> bucket" where "add_rejected bk = bk\<lparr>bk_rejected := bk_rejected bk + 1\<rparr>"
definition add_success :: "bucket \<Rightarrow> bucket" where "add_success bk = bk\<lparr>bk_success := bk_success bk + 1\<rparr>"
definition add_failure :: "bucket \<Rightarrow> bucket" where "add_failure bk = bk\<lparr>bk_failure := bk_failure bk + 1\<rparr>"

definition Allow :: "BreakerClock \<Rightarrow> Breaker \<Rightarrow> goerr option \<times> Breaker" where
  "Allow clk b =
     (if \<not> br_Enabled (b_cfg b) then (None, b)
      else let b1 = currentLocked (bc_current clk) b
        in case b_state b1 of
             StateOpen \<Rightarrow> (Some (WithOp ''breaker.allow'' (WithSource (b_name b) ErrCircuitOpen)),
                recordLocked add_rejected (bc_record clk) b1)
           | StateHalfOpen \<Rightarrow>
               if b_halfOpenCalls b1 \<ge> br_HalfOpenMaxCalls (b_cfg b)
               then (Some (WithOp ''breaker.half_open_saturated'' (WithSource (b_name b) ErrCircuitOpen)),
                 recordLocked add_rejected (bc_record clk) b1)
               else (None, b1\<lparr>b_halfOpenCalls := b_halfOpenCalls b1 + 1\<rparr>)
           | StateClosed \<Rightarrow> (None, b1))"

definition Record :: "BreakerClock \<Rightarrow> goerr option \<Rightarrow> Breaker \<Rightarrow> Breaker" where
  "Record clk err b =
     (if \<not> br_Enabled (b_cfg b) then b
      else let b1 = currentLocked (bc_current clk) b; st = b_state b1
        in if err = None then
             (let b2 = recordLocked add_success (bc_record clk) b1
              in if st = StateHalfOpen then
                   (let b3 = b2\<lparr>b_halfOpenOK := b_halfOpenOK b2 + 1, b_halfOpenCalls := decr (b_halfOpenCalls b2)\<rparr>
                    in if b_halfOpenOK b3 \<ge> br_HalfOpenSuccesses (b_cfg b)
                       then transitionLocked StateClosed (bc_open clk) b3 else b3)
                 else b2)
           else
             (let b2 = recordLocked add_failure (bc_record clk) b1
              in case st of
                   StateHalfOpen \<Rightarrow> transitionLocked StateOpen (bc_open clk)
                      (b2\<lparr>b_halfOpenCalls := decr (b_halfOpenCalls b2)\<rparr>)
                 | StateClosed \<Rightarrow> if shouldTripLocked (bc_trip clk) b2
                      then transitionLocked StateOpen (bc_open clk) b2 else b2
                 | StateOpen \<Rightarrow> b2))"

definition Abstain :: "Breaker \<Rightarrow> Breaker" where
  "Abstain b =
     (if \<not> br_Enabled (b_cfg b) then b
      else if b_state b = StateHalfOpen then b\<lparr>b_halfOpenCalls := decr (b_halfOpenCalls b)\<rparr> else b)"

definition isClientFault :: "goerr \<Rightarrow> bool" where
  "isClientFault err = (case err_As err of None \<Rightarrow> False
     | Some e \<Rightarrow> Code e \<in> {CodeNotFound, CodeInvalidRequest, CodeForbidden, CodeUnauthenticated,
         CodeTenantMismatch, CodeSchemaVersionMismatch})"

text \<open>The part of \<^verbatim>\<open>Do\<close> after the call, and \<^verbatim>\<open>Do\<close> with nobody else at the breaker during the call:
  \<open>result\<close> is what the guarded function returns if it is called.\<close>

definition report :: "BreakerClock \<Rightarrow> goerr option \<Rightarrow> Breaker \<Rightarrow> Breaker" where
  "report clk err b = (case err of Some e \<Rightarrow> if isClientFault e then Abstain b else Record clk err b
     | None \<Rightarrow> Record clk None b)"

definition Do :: "BreakerClock \<Rightarrow> BreakerClock \<Rightarrow> goerr option \<Rightarrow> Breaker \<Rightarrow> goerr option \<times> Breaker" where
  "Do clk1 clk2 result b =
     (case Allow clk1 b of (Some e, b') \<Rightarrow> (Some e, b') | (None, b') \<Rightarrow> (result, report clk2 result b'))"

definition Counts :: "time \<Rightarrow> Breaker \<Rightarrow> int \<times> int \<times> int" where
  "Counts now b = (let idx = bucketIndex b now in (window_sum bk_success idx (b_buckets b),
     window_sum bk_failure idx (b_buckets b), window_sum bk_rejected idx (b_buckets b)))"

section \<open>The invariant\<close>

definition breaker_cfg_ok :: "BreakerConfig \<Rightarrow> bool" where
  "breaker_cfg_ok c \<longleftrightarrow> 1 \<le> br_MinimumRequests c \<and> 1 \<le> br_HalfOpenMaxCalls c \<and> 1 \<le> br_HalfOpenSuccesses c
     \<and> 0 < br_OpenTimeout c \<and> 0 < br_FailureThreshold c"

definition breaker_ok :: "Breaker \<Rightarrow> bool" where
  "breaker_ok b \<longleftrightarrow> breaker_cfg_ok (b_cfg b) \<and> length (b_buckets b) = bucketsPerWindow
     \<and> (if b_state b = StateHalfOpen
        then 0 \<le> b_halfOpenCalls b \<and> b_halfOpenCalls b \<le> br_HalfOpenMaxCalls (b_cfg b)
           \<and> 0 \<le> b_halfOpenOK b \<and> b_halfOpenOK b < br_HalfOpenSuccesses (b_cfg b)
        else b_halfOpenCalls b = 0 \<and> b_halfOpenOK b = 0)"

datatype breaker_op = OpState time | OpAllow BreakerClock | OpRecord BreakerClock "goerr option" | OpAbstain

fun breaker_step :: "breaker_op \<Rightarrow> Breaker \<Rightarrow> Breaker" where
  "breaker_step (OpState now) b = snd (breaker_State now b)"
| "breaker_step (OpAllow clk) b = snd (Allow clk b)"
| "breaker_step (OpRecord clk err) b = Record clk err b"
| "breaker_step OpAbstain b = Abstain b"

lemma recordLocked_sel [simp]:
  "b_cfg (recordLocked f t b) = b_cfg b" "b_state (recordLocked f t b) = b_state b"
  "b_openedAt (recordLocked f t b) = b_openedAt b" "b_halfOpenCalls (recordLocked f t b) = b_halfOpenCalls b"
  "b_halfOpenOK (recordLocked f t b) = b_halfOpenOK b" "length (b_buckets (recordLocked f t b)) = length (b_buckets b)"
  "b_startedAt (recordLocked f t b) = b_startedAt b" "b_bucketDur (recordLocked f t b) = b_bucketDur b"
  "b_name (recordLocked f t b) = b_name b"
  by (simp_all add: recordLocked_def Let_def)

lemma transitionLocked_sel [simp]:
  "b_cfg (transitionLocked to t b) = b_cfg b" "b_state (transitionLocked to t b) = to"
  "length (b_buckets (transitionLocked to t b)) = length (b_buckets b)"
  "b_startedAt (transitionLocked to t b) = b_startedAt b" "b_bucketDur (transitionLocked to t b) = b_bucketDur b"
  "b_name (transitionLocked to t b) = b_name b"
  by (auto simp: transitionLocked_def split: State.splits)

lemma transitionLocked_counters:
  "b_state b \<noteq> to \<Longrightarrow> b_halfOpenCalls (transitionLocked to t b) = 0 \<and> b_halfOpenOK (transitionLocked to t b) = 0"
  by (auto simp: transitionLocked_def split: State.splits)

lemma currentLocked_sel [simp]:
  "b_cfg (currentLocked t b) = b_cfg b" "length (b_buckets (currentLocked t b)) = length (b_buckets b)"
  "b_startedAt (currentLocked t b) = b_startedAt b" "b_bucketDur (currentLocked t b) = b_bucketDur b"
  "b_name (currentLocked t b) = b_name b"
  by (simp_all add: currentLocked_def)

lemma breaker_ok_current [bff_inv]: "breaker_ok b \<Longrightarrow> breaker_ok (currentLocked t b)"
  by (auto simp: breaker_ok_def currentLocked_def transitionLocked_counters breaker_cfg_ok_def)

lemma breaker_ok_record [bff_inv]: "breaker_ok b \<Longrightarrow> breaker_ok (recordLocked f t b)"
  by (simp add: breaker_ok_def)

lemma breaker_ok_open [bff_inv]: "breaker_ok b \<Longrightarrow> breaker_ok (transitionLocked StateOpen t b)"
  by (cases "b_state b = StateOpen") (auto simp: breaker_ok_def transitionLocked_counters transitionLocked_def)

lemma breaker_ok_New: "breaker_cfg_ok cfg \<Longrightarrow> breaker_ok (NewBreaker name cfg now)"
  by (simp add: breaker_ok_def NewBreaker_def Let_def)

lemma breaker_ok_Allow [bff_inv]:
  assumes "breaker_ok b"
  shows "breaker_ok (snd (Allow clk b))"
proof -
  let ?b1 = "currentLocked (bc_current clk) b"
  have "breaker_ok ?b1" using assms by (rule bff_inv)
  moreover from this have "breaker_ok (recordLocked add_rejected (bc_record clk) ?b1)" by (rule bff_inv)
  ultimately show ?thesis using assms
    by (auto simp: Allow_def Let_def breaker_ok_def split: State.splits)
qed

lemma breaker_ok_Abstain [bff_inv]: "breaker_ok b \<Longrightarrow> breaker_ok (Abstain b)"
  by (auto simp: Abstain_def breaker_ok_def decr_def)

lemma breaker_ok_Record [bff_inv]:
  assumes "breaker_ok b"
  shows "breaker_ok (Record clk err b)"
proof -
  let ?b1 = "currentLocked (bc_current clk) b"
  have b1: "breaker_ok ?b1" using assms by (rule bff_inv)
  have s: "breaker_ok (recordLocked add_success (bc_record clk) ?b1)"
    and f: "breaker_ok (recordLocked add_failure (bc_record clk) ?b1)"
    using b1 by (auto intro: bff_inv)
  have f': "breaker_ok ((recordLocked add_failure (bc_record clk) ?b1)\<lparr>b_halfOpenCalls := decr (b_halfOpenCalls ?b1)\<rparr>)"
    if "b_state ?b1 = StateHalfOpen"
    using that f by (auto simp: breaker_ok_def decr_def)
  show ?thesis
    using assms b1 s f f' breaker_ok_open[OF f] breaker_ok_open[OF f']
    by (auto simp: Record_def Let_def breaker_ok_def transitionLocked_counters decr_def split: State.splits)
qed

interpretation breaker: guarded_component breaker_step breaker_ok
proof unfold_locales
  fix b a assume "breaker_ok b"
  then show "breaker_ok (breaker_step a b)"
    by (cases a) (auto simp: breaker_State_def Let_def intro: bff_inv)
qed

end
