(* ===== verification/BreakerProps.thy ===== *)
theory BreakerProps
  imports Breaker
begin

text \<open>
  Properties of the circuit breaker: the ring of buckets refines a log of timestamped outcomes,
  an open circuit admits nothing before its timeout, half-open probing is bounded and reopens on
  the first failure, enough successes close it again, and client faults are no evidence.
\<close>

section \<open>The ring of buckets refines a log\<close>

datatype outcome = OSuccess | OFailure | ORejected

fun tally :: "outcome \<Rightarrow> bucket \<Rightarrow> int" where
  "tally OSuccess = bk_success"
| "tally OFailure = bk_failure"
| "tally ORejected = bk_rejected"

fun add_outcome :: "outcome \<Rightarrow> bucket \<Rightarrow> bucket" where
  "add_outcome OSuccess = add_success"
| "add_outcome OFailure = add_failure"
| "add_outcome ORejected = add_rejected"

type_synonym event_log = "(int \<times> outcome) list"

definition log_count :: "outcome \<Rightarrow> int \<Rightarrow> event_log \<Rightarrow> int" where
  "log_count out w L = int (length (filter (\<lambda>(j, k). k = out \<and> w - 10 < j \<and> j \<le> w) L))"

definition ring_put :: "outcome \<Rightarrow> int \<Rightarrow> bucket list \<Rightarrow> bucket list" where
  "ring_put out idx bks = (let slot = nat (idx mod 10); bk = bks ! slot
     in bks[slot := add_outcome out (if bk_index bk \<noteq> idx then fresh_bucket idx else bk)])"

lemma recordLocked_ring:
  "b_buckets (recordLocked (add_outcome out) t b) = ring_put out (bucketIndex b t) (b_buckets b)"
  by (simp add: recordLocked_def ring_put_def Let_def bucketsPerWindow_def)

text \<open>What a slot knows of the log: nothing yet, or exactly the events of the latest index that
  falls into it.\<close>

definition slot_ok :: "nat \<Rightarrow> bucket \<Rightarrow> event_log \<Rightarrow> bool" where
  "slot_ok i bk L \<longleftrightarrow>
     (if bk_index bk = - 1
      then (\<forall>(j, k) \<in> set L. nat (j mod 10) \<noteq> i) \<and> (\<forall>out. tally out bk = 0)
      else nat (bk_index bk mod 10) = i \<and> (\<exists>k. (bk_index bk, k) \<in> set L)
         \<and> (\<forall>(j, k) \<in> set L. nat (j mod 10) = i \<longrightarrow> j \<le> bk_index bk)
         \<and> (\<forall>out. tally out bk = int (count_list L (bk_index bk, out))))"

definition ring_inv :: "bucket list \<Rightarrow> event_log \<Rightarrow> bool" where
  "ring_inv bks L \<longleftrightarrow> length bks = 10 \<and> (\<forall>i < 10. slot_ok i (bks ! i) L) \<and> (\<forall>(j, k) \<in> set L. 0 \<le> j)"

lemma ring_inv_empty: "ring_inv (replicate 10 (fresh_bucket (- 1))) []"
proof -
  have "tally out (fresh_bucket (- 1)) = 0" for out by (cases out) (simp_all add: fresh_bucket_def)
  then show ?thesis by (simp add: ring_inv_def slot_ok_def fresh_bucket_def)
qed

lemma tally_add: "tally k (add_outcome out bk) = tally k bk + (if k = out then 1 else 0)"
  by (cases k; cases out) (simp_all add: add_success_def add_failure_def add_rejected_def)

lemma index_add [simp]: "bk_index (add_outcome out bk) = bk_index bk"
  by (cases out) (simp_all add: add_success_def add_failure_def add_rejected_def)

lemma tally_fresh [simp]: "tally k (fresh_bucket i) = 0" "bk_index (fresh_bucket i) = i"
  by (cases k) (simp_all add: fresh_bucket_def)

lemma count_list_snoc: "count_list (L @ [x]) y = count_list L y + (if x = y then 1 else 0)"
  by simp

lemma slot_ok_other: "slot_ok i bk L \<Longrightarrow> nat (idx mod 10) \<noteq> i \<Longrightarrow> slot_ok i bk (L @ [(idx, out)])"
  by (auto simp: slot_ok_def split: if_splits)

lemma slot_ok_put:
  assumes "slot_ok (nat (idx mod 10)) bk L" "\<forall>(j, k) \<in> set L. j \<le> idx" "0 \<le> idx"
  shows "slot_ok (nat (idx mod 10)) (add_outcome out (if bk_index bk \<noteq> idx then fresh_bucket idx else bk)) (L @ [(idx, out)])"
proof (cases "bk_index bk = idx")
  case True
  then show ?thesis using assms by (auto simp: slot_ok_def tally_add split: if_splits)
next
  case False
  have "(idx, k) \<notin> set L" for k
  proof (cases "bk_index bk = - 1")
    case True
    then show ?thesis using assms(1) by (auto simp: slot_ok_def)
  next
    case f: False
    then have "bk_index bk \<le> idx" using assms(1,2) by (auto simp: slot_ok_def)
    with False have "bk_index bk < idx" by simp
    then show ?thesis using assms(1) f by (force simp: slot_ok_def)
  qed
  then have "count_list L (idx, k) = 0" for k by (simp add: count_list_0_iff)
  then show ?thesis using False assms by (auto simp: slot_ok_def tally_add)
qed

lemma ring_inv_put:
  assumes "ring_inv bks L" "\<forall>(j, k) \<in> set L. j \<le> idx" "0 \<le> idx"
  shows "ring_inv (ring_put out idx bks) (L @ [(idx, out)])"
proof -
  have s: "nat (idx mod 10) < 10" by (simp add: nat_less_iff)
  have "slot_ok i (ring_put out idx bks ! i) (L @ [(idx, out)])" if "i < 10" for i
  proof (cases "i = nat (idx mod 10)")
    case True
    then show ?thesis using assms slot_ok_put[of idx "bks ! i" L out] that
      by (auto simp: ring_inv_def ring_put_def Let_def)
  next
    case False
    then show ?thesis using assms(1) that slot_ok_other[of i "bks ! i" L idx out]
      by (simp add: ring_inv_def ring_put_def Let_def)
  qed
  then show ?thesis using assms s by (auto simp: ring_inv_def ring_put_def Let_def)
qed

text \<open>Splitting the log by slot.\<close>

lemma filter_by_slot:
  "int (length (filter P L)) = (\<Sum>i<10. int (length (filter (\<lambda>e. P e \<and> nat (fst e mod 10) = i) L)))"
proof (induction L)
  case (Cons e L)
  have s: "nat (fst e mod 10) < 10" by (simp add: nat_less_iff)
  have "(\<Sum>i<10. int (length (filter (\<lambda>e. P e \<and> nat (fst e mod 10) = i) (e # L))))
      = (\<Sum>i<10. int (length (filter (\<lambda>e. P e \<and> nat (fst e mod 10) = i) L)) + (if nat (fst e mod 10) = i then of_bool (P e) else 0))"
    by (intro sum.cong) auto
  also have "\<dots> = int (length (filter P L)) + of_bool (P e)"
    using s Cons.IH by (simp add: sum.distrib sum.delta)
  finally show ?case by simp
qed simp

lemma same_slot_near:
  fixes j b :: int
  assumes "j mod 10 = b mod 10" "j \<le> b" "b < j + 10"
  shows "j = b"
proof (rule ccontr)
  assume "j \<noteq> b"
  then have "0 < b - j" "b - j < 10" using assms by auto
  moreover have "10 dvd b - j" using assms(1) by (metis mod_eq_dvd_iff)
  ultimately show False using zdvd_not_zless by blast
qed

lemma slot_window:
  assumes "slot_ok i bk L" "\<forall>(j, k) \<in> set L. 0 \<le> j \<and> j \<le> w" "i < 10"
  shows "int (length (filter (\<lambda>e. (case e of (j, k) \<Rightarrow> k = out \<and> w - 10 < j \<and> j \<le> w) \<and> nat (fst e mod 10) = i) L))
       = (if in_window w bk then tally out bk else 0)"
proof (cases "bk_index bk = - 1")
  case True
  have "filter (\<lambda>e. (case e of (j, k) \<Rightarrow> k = out \<and> w - 10 < j \<and> j \<le> w) \<and> nat (fst e mod 10) = i) L = []"
    using True assms(1) by (fastforce simp: slot_ok_def filter_empty_conv)
  then show ?thesis using True assms(1) by (simp add: slot_ok_def)
next
  case False
  note ok = assms(1)[unfolded slot_ok_def if_not_P[OF False]]
  have bi: "nat (bk_index bk mod 10) = i" using ok by blast
  have idx: "0 \<le> bk_index bk" "bk_index bk \<le> w" using ok assms(2) by auto
  have same: "j = bk_index bk" if e: "(j, k) \<in> set L" "nat (j mod 10) = i" "w - 10 < j" for j k
  proof -
    have "j \<le> bk_index bk" "0 \<le> j" using ok e assms(2) by auto
    moreover have "j mod 10 = bk_index bk mod 10"
      using e(2) bi eq_nat_nat_iff[of "j mod 10" "bk_index bk mod 10"] by simp
    ultimately show ?thesis using idx e(3) same_slot_near[of j "bk_index bk"] by linarith
  qed
  show ?thesis
  proof (cases "in_window w bk")
    case True
    have w: "w - 10 < bk_index bk" using True by (simp add: in_window_def bucketsPerWindow_def)
    have "filter (\<lambda>e. (case e of (j, k) \<Rightarrow> k = out \<and> w - 10 < j \<and> j \<le> w) \<and> nat (fst e mod 10) = i) L
        = filter (\<lambda>e. (bk_index bk, out) = e) L"
      by (rule filter_cong) (use bi idx w in \<open>auto dest: same[symmetric]\<close>)
    then show ?thesis using True ok by (simp add: count_list_eq_length_filter)
  next
    case False
    have "filter (\<lambda>e. (case e of (j, k) \<Rightarrow> k = out \<and> w - 10 < j \<and> j \<le> w) \<and> nat (fst e mod 10) = i) L = []"
      using False same idx by (fastforce simp: filter_empty_conv in_window_def bucketsPerWindow_def)
    with False show ?thesis by simp
  qed
qed

lemma ring_counts:
  assumes "ring_inv bks L" "\<forall>(j, k) \<in> set L. j \<le> w"
  shows "window_sum (tally out) w bks = log_count out w L"
proof -
  have len: "length bks = 10" and slots: "\<And>i. i < 10 \<Longrightarrow> slot_ok i (bks ! i) L"
    using assms(1) by (simp_all add: ring_inv_def)
  have range: "\<forall>(j, k) \<in> set L. 0 \<le> j \<and> j \<le> w" using assms by (auto simp: ring_inv_def)
  have "window_sum (tally out) w bks = sum_list (map (\<lambda>bk. if in_window w bk then tally out bk else 0) bks)"
    unfolding window_sum_def by (rule sum_list_map_filter')
  also have "\<dots> = (\<Sum>i<10. if in_window w (bks ! i) then tally out (bks ! i) else 0)"
    using len by (simp add: sum_list_sum_nth atLeast0LessThan)
  also have "\<dots> = (\<Sum>i<10. int (length (filter (\<lambda>e. (case e of (j, k) \<Rightarrow> k = out \<and> w - 10 < j \<and> j \<le> w)
      \<and> nat (fst e mod 10) = i) L)))"
    by (rule sum.cong[OF refl]) (simp only: lessThan_iff slot_window[OF slots range])
  also have "\<dots> = log_count out w L" unfolding log_count_def by (rule filter_by_slot[symmetric])
  finally show ?thesis .
qed

section \<open>The log of a run\<close>

text \<open>The event an operation leaves in the window, and the log a run leaves: emptied when the
  circuit closes, as the ring is.\<close>

fun events :: "breaker_op \<Rightarrow> Breaker \<Rightarrow> event_log" where
  "events (OpAllow clk) b = (if fst (Allow clk b) \<noteq> None then [(bucketIndex b (bc_record clk), ORejected)] else [])"
| "events (OpRecord clk err) b =
     (if br_Enabled (b_cfg b) then [(bucketIndex b (bc_record clk), if err = None then OSuccess else OFailure)] else [])"
| "events (OpState now) b = []"
| "events OpAbstain b = []"

definition log_step :: "breaker_op \<Rightarrow> Breaker \<times> event_log \<Rightarrow> Breaker \<times> event_log" where
  "log_step a bl = (case bl of (b, L) \<Rightarrow>
     (breaker_step a b, if b_state b \<noteq> StateClosed \<and> b_state (breaker_step a b) = StateClosed then [] else L @ events a b))"

fun op_instants :: "breaker_op \<Rightarrow> time list" where
  "op_instants (OpAllow clk) = [bc_record clk]"
| "op_instants (OpRecord clk err) = [bc_record clk]"
| "op_instants _ = []"

definition log_inv :: "time \<Rightarrow> Breaker \<times> event_log \<Rightarrow> bool" where
  "log_inv t bl = (case bl of (b, L) \<Rightarrow> ring_inv (b_buckets b) L \<and> 0 < b_bucketDur b
     \<and> (\<forall>(j, k) \<in> set L. j \<le> bucketIndex b t))"

lemma bucketIndex_alt:
  "0 < b_bucketDur b \<Longrightarrow> bucketIndex b t =
     (if t < b_startedAt b then 0 else time_Sub t (b_startedAt b) div b_bucketDur b)"
proof -
  assume d: "0 < b_bucketDur b"
  show ?thesis
  proof (cases "t < b_startedAt b")
    case True
    then have "time_Sub t (b_startedAt b) < 0" using time_Sub_nonneg_iff[of t "b_startedAt b"] by linarith
    from go_quot_neg[OF this d] True show ?thesis by (auto simp: bucketIndex_def Let_def)
  next
    case False
    then have "0 \<le> time_Sub t (b_startedAt b)" by (simp add: time_Sub_nonneg_iff)
    with d False show ?thesis by (simp add: bucketIndex_def Let_def go_quot_nonneg pos_imp_zdiv_nonneg_iff not_less)
  qed
qed

lemma bucketIndex_nonneg: "0 \<le> bucketIndex b t"
  by (simp add: bucketIndex_def Let_def)

lemma bucketIndex_mono: "0 < b_bucketDur b \<Longrightarrow> t \<le> u \<Longrightarrow> bucketIndex b t \<le> bucketIndex b u"
  by (auto simp: bucketIndex_alt time_Sub_mono zdiv_mono1 pos_imp_zdiv_nonneg_iff time_Sub_nonneg_iff)

lemma breaker_step_clock [simp]:
  "b_startedAt (breaker_step a b) = b_startedAt b" "b_bucketDur (breaker_step a b) = b_bucketDur b"
  "b_cfg (breaker_step a b) = b_cfg b"
  by (cases a; auto simp: breaker_State_def Allow_def Record_def Abstain_def Let_def split: State.splits)+

lemma bucketIndex_step [simp]: "bucketIndex (breaker_step a b) t = bucketIndex b t"
  by (simp add: bucketIndex_def)

lemma bucketIndex_current [simp]: "bucketIndex (currentLocked u b) t = bucketIndex b t"
  by (simp add: bucketIndex_def)

lemma currentLocked_buckets [simp]: "b_buckets (currentLocked t b) = b_buckets b"
  by (simp add: currentLocked_def transitionLocked_def)

lemma currentLocked_closed_iff: "b_state (currentLocked t b) = StateClosed \<longleftrightarrow> b_state b = StateClosed"
  by (simp add: currentLocked_def)

lemmas recordLocked_rings = recordLocked_ring[of OSuccess, simplified] recordLocked_ring[of OFailure, simplified]
  recordLocked_ring[of ORejected, simplified]

text \<open>Unless the circuit closes, an operation puts its events into the ring and nothing else.\<close>

lemma step_buckets:
  assumes "\<not> (b_state b \<noteq> StateClosed \<and> b_state (breaker_step a b) = StateClosed)"
  shows "b_buckets (breaker_step a b) =
    (case events a b of [] \<Rightarrow> b_buckets b | (idx, out) # _ \<Rightarrow> ring_put out idx (b_buckets b))"
proof (cases a)
  case (OpRecord clk err)
  then show ?thesis using assms currentLocked_closed_iff[of "bc_current clk" b]
    by (auto simp: Record_def Let_def recordLocked_rings transitionLocked_def
        split: State.splits if_splits)
qed (auto simp: breaker_State_def Allow_def Abstain_def Let_def recordLocked_rings split: State.splits)

lemma step_closes_buckets:
  assumes "b_state b \<noteq> StateClosed" "b_state (breaker_step a b) = StateClosed"
  shows "b_buckets (breaker_step a b) = replicate (length (b_buckets b)) (fresh_bucket (- 1))"
proof (cases a)
  case (OpRecord clk err)
  then show ?thesis using assms currentLocked_closed_iff[of "bc_current clk" b]
    by (auto simp: Record_def Let_def transitionLocked_def split: State.splits if_splits)
qed (use assms in \<open>auto simp: breaker_State_def Allow_def Abstain_def Let_def currentLocked_def split: State.splits if_splits\<close>)

lemma events_instants:
  "events a b = [] \<or> (\<exists>t out. op_instants a = [t] \<and> events a b = [(bucketIndex b t, out)])"
  by (cases a) auto

lemma log_inv_step:
  assumes "log_inv t (b, L)" "\<forall>u \<in> set (op_instants a). t \<le> u \<and> u \<le> t'" "t \<le> t'"
  shows "log_inv t' (log_step a (b, L))"
proof -
  have d: "0 < b_bucketDur b" and r: "ring_inv (b_buckets b) L" and le: "\<forall>(j, k) \<in> set L. j \<le> bucketIndex b t"
    using assms(1) by (auto simp: log_inv_def)
  have le': "\<forall>(j, k) \<in> set L. j \<le> bucketIndex b t'"
    using le bucketIndex_mono[OF d assms(3)] by fastforce
  show ?thesis
  proof (cases "b_state b \<noteq> StateClosed \<and> b_state (breaker_step a b) = StateClosed")
    case True
    have "length (b_buckets b) = 10" using r by (simp add: ring_inv_def)
    then show ?thesis using True d step_closes_buckets[of b a] ring_inv_empty
      by (simp add: log_step_def log_inv_def)
  next
    case False
    show ?thesis
    proof (cases "events a b = []")
      case True
      then show ?thesis using False d r le' step_buckets[OF False] by (auto simp: log_step_def log_inv_def)
    next
      case ev: False
      then obtain u out where u: "op_instants a = [u]" "events a b = [(bucketIndex b u, out)]"
        using events_instants by blast
      have "\<forall>(j, k) \<in> set L. j \<le> bucketIndex b u"
        using le bucketIndex_mono[OF d, of t u] assms(2) u(1) by fastforce
      from ring_inv_put[OF r this bucketIndex_nonneg] have "ring_inv (b_buckets (breaker_step a b)) (L @ events a b)"
        using step_buckets[OF False] u(2) by simp
      moreover have "bucketIndex b u \<le> bucketIndex b t'" using bucketIndex_mono[OF d] assms(2) u(1) by simp
      ultimately show ?thesis using False d le' u(2) by (auto simp: log_step_def log_inv_def)
    qed
  qed
qed

lemma log_inv_run:
  "log_inv t bl \<Longrightarrow> sorted (t # concat (map op_instants ops) @ [now]) \<Longrightarrow> log_inv now (fold log_step ops bl)"
proof (induction ops arbitrary: t bl)
  case Nil
  then have "t \<le> now" by simp
  with Nil.prems(1) show ?case using log_inv_step[of t "fst bl" "snd bl" "OpAbstain" now]
    by (cases bl) (fastforce simp: log_inv_def dest: bucketIndex_mono)
next
  case (Cons a ops)
  define t' where "t' = (if op_instants a = [] then t else last (op_instants a))"
  obtain b L where bl: "bl = (b, L)" by (cases bl)
  have "(\<forall>u \<in> set (op_instants a). t \<le> u \<and> u \<le> t') \<and> t \<le> t' \<and> sorted (t' # concat (map op_instants ops) @ [now])"
    using Cons.prems(2) unfolding t'_def by (cases a) (auto simp: sorted_append)
  then show ?case using Cons.IH[of t' "log_step a bl"] log_inv_step[of t b L a t'] Cons.prems(1) bl by simp
qed

lemma log_run_breaker: "fst (fold log_step ops (b, L)) = fold breaker_step ops b"
  by (induction ops arbitrary: b L) (simp_all add: log_step_def)

lemma log_inv_New: "log_inv t (NewBreaker name cfg now, [])"
  using ring_inv_empty by (simp add: log_inv_def NewBreaker_def Let_def bucketsPerWindow_def second_def)

section \<open>An open circuit\<close>

fun current_instants :: "breaker_op \<Rightarrow> time list" where
  "current_instants (OpAllow clk) = [bc_current clk]"
| "current_instants (OpRecord clk err) = [bc_current clk]"
| "current_instants (OpState now) = [now]"
| "current_instants OpAbstain = []"

definition before_timeout :: "Breaker \<Rightarrow> time \<Rightarrow> bool" where
  "before_timeout b t \<longleftrightarrow> time_Sub t (b_openedAt b) < br_OpenTimeout (b_cfg b)"

lemma open_step:
  assumes "b_state b = StateOpen" "\<forall>t \<in> set (current_instants a). before_timeout b t"
  shows "b_state (breaker_step a b) = StateOpen \<and> b_openedAt (breaker_step a b) = b_openedAt b"
  using assms
  by (cases a) (auto simp: before_timeout_def breaker_State_def Allow_def Record_def Abstain_def currentLocked_def Let_def)

lemma open_run:
  "b_state b = StateOpen \<Longrightarrow> \<forall>a \<in> set ops. \<forall>t \<in> set (current_instants a). before_timeout b t \<Longrightarrow>
     b_state (fold breaker_step ops b) = StateOpen \<and> b_openedAt (fold breaker_step ops b) = b_openedAt b
   \<and> b_cfg (fold breaker_step ops b) = b_cfg b"
proof (induction ops arbitrary: b)
  case (Cons a ops)
  have s: "b_state (breaker_step a b) = StateOpen \<and> b_openedAt (breaker_step a b) = b_openedAt b"
    using Cons.prems by (intro open_step) auto
  moreover have "\<forall>a' \<in> set ops. \<forall>t \<in> set (current_instants a'). before_timeout (breaker_step a b) t"
    using Cons.prems(2) s by (simp add: before_timeout_def)
  ultimately show ?case using Cons.IH[of "breaker_step a b"] by simp
qed simp

section \<open>Recovery\<close>

definition probe_round :: "BreakerClock \<times> BreakerClock \<Rightarrow> Breaker \<Rightarrow> Breaker option" where
  "probe_round c b = (case Allow (fst c) b of (None, b') \<Rightarrow> Some (Record (snd c) None b') | (Some _, _) \<Rightarrow> None)"

text \<open>Successful probes one after the other; \<open>None\<close> as soon as one of them is refused.\<close>

fun probe_run :: "(BreakerClock \<times> BreakerClock) list \<Rightarrow> Breaker \<Rightarrow> Breaker option" where
  "probe_run [] b = Some b"
| "probe_run (c # cs) b = (case probe_round c b of None \<Rightarrow> None | Some b' \<Rightarrow> probe_run cs b')"

text \<open>One probe that succeeds, with no other call outstanding.\<close>

lemma half_open_round:
  assumes "breaker_ok b" "br_Enabled (b_cfg b)" "b_state (currentLocked (bc_current (fst c)) b) = StateHalfOpen"
    and "b_halfOpenCalls (currentLocked (bc_current (fst c)) b) = 0"
  shows "\<exists>b'. probe_round c b = Some b' \<and> b_cfg b' = b_cfg b \<and> breaker_ok b' \<and>
     (if b_halfOpenOK (currentLocked (bc_current (fst c)) b) + 1 \<ge> br_HalfOpenSuccesses (b_cfg b) then b_state b' = StateClosed
      else b_state b' = StateHalfOpen \<and> b_halfOpenCalls b' = 0
         \<and> b_halfOpenOK b' = b_halfOpenOK (currentLocked (bc_current (fst c)) b) + 1)"
proof -
  let ?b1 = "currentLocked (bc_current (fst c)) b"
  let ?r = "Record (snd c) None (?b1\<lparr>b_halfOpenCalls := 1\<rparr>)"
  have m: "1 \<le> br_HalfOpenMaxCalls (b_cfg b)" using assms(1) by (simp add: breaker_ok_def breaker_cfg_ok_def)
  have a: "Allow (fst c) b = (None, ?b1\<lparr>b_halfOpenCalls := 1\<rparr>)"
    using assms m by (simp add: Allow_def Let_def)
  have h: "currentLocked t (?b1\<lparr>b_halfOpenCalls := 1\<rparr>) = ?b1\<lparr>b_halfOpenCalls := 1\<rparr>" for t
    using assms(3) by (simp add: currentLocked_def)
  have r: "probe_round c b = Some ?r" using a by (simp add: probe_round_def)
  have ok: "breaker_ok (Record (snd c) None (snd (Allow (fst c) b)))" using assms(1) by (intro bff_inv)
  have "b_cfg ?r = b_cfg b" by (simp add: Record_def Let_def)
  moreover have "b_halfOpenOK ?b1 + 1 \<ge> br_HalfOpenSuccesses (b_cfg b) \<Longrightarrow> b_state ?r = StateClosed"
    using assms(2,3) h by (simp add: Record_def Let_def)
  moreover have "b_halfOpenOK ?b1 + 1 < br_HalfOpenSuccesses (b_cfg b) \<Longrightarrow> b_state ?r = StateHalfOpen
      \<and> b_halfOpenCalls ?r = 0 \<and> b_halfOpenOK ?r = b_halfOpenOK ?b1 + 1"
    using assms(2,3) h by (simp add: Record_def Let_def decr_def)
  ultimately show ?thesis using r ok a by auto
qed

lemma recovery_half_open:
  assumes "breaker_ok b" "br_Enabled (b_cfg b)" "b_state b = StateHalfOpen" "b_halfOpenCalls b = 0"
    and "int (length cs) = br_HalfOpenSuccesses (b_cfg b) - b_halfOpenOK b"
  shows "\<exists>b'. probe_run cs b = Some b' \<and> b_state b' = StateClosed"
  using assms
proof (induction cs arbitrary: b)
  case Nil
  then show ?case by (simp add: breaker_ok_def)
next
  case (Cons c cs)
  have cur: "currentLocked t b = b" for t using Cons.prems(3) by (simp add: currentLocked_def)
  obtain b' where r: "probe_round c b = Some b'" "b_cfg b' = b_cfg b" "breaker_ok b'"
    "if b_halfOpenOK b + 1 \<ge> br_HalfOpenSuccesses (b_cfg b) then b_state b' = StateClosed
     else b_state b' = StateHalfOpen \<and> b_halfOpenCalls b' = 0 \<and> b_halfOpenOK b' = b_halfOpenOK b + 1"
    using half_open_round[OF Cons.prems(1,2), of c, unfolded cur, OF Cons.prems(3,4)] by blast
  show ?case
  proof (cases "cs = []")
    case True
    then show ?thesis using r Cons.prems(5) by simp
  next
    case False
    then have "b_halfOpenOK b + 1 < br_HalfOpenSuccesses (b_cfg b)"
      using Cons.prems(5) by (cases cs) auto
    then show ?thesis using Cons.IH[of b'] r Cons.prems(2,5) by simp
  qed
qed

section \<open>Properties\<close>

text \<open>C20: The ring of ten buckets refines a log of timestamped outcomes: after any sequence of calls with a
  clock that does not run backwards, \<^verbatim>\<open>Counts\<close> equals the number of successes, failures and
  rejections the log holds for the last ten bucket widths (the log restarts when the circuit
  closes).\<close>

theorem breaker_ring_refines_log:
  assumes "sorted (t0 # concat (map op_instants ops) @ [now])"
    and "fold log_step ops (NewBreaker name cfg t0, []) = (b, L)"
  shows "b = fold breaker_step ops (NewBreaker name cfg t0)
    \<and> Counts now b = (log_count OSuccess (bucketIndex b now) L, log_count OFailure (bucketIndex b now) L,
        log_count ORejected (bucketIndex b now) L)"
proof -
  have "log_inv now (b, L)" using log_inv_run[OF log_inv_New assms(1)] assms(2) by metis
  then have "window_sum (tally out) (bucketIndex b now) (b_buckets b) = log_count out (bucketIndex b now) L" for out
    by (intro ring_counts) (auto simp: log_inv_def)
  from this[of OSuccess] this[of OFailure] this[of ORejected] show ?thesis
    using log_run_breaker[of ops "NewBreaker name cfg t0" "[]"] assms(2) by (simp add: Counts_def Let_def)
qed

definition example_breaker_cfg :: BreakerConfig where
  "example_breaker_cfg = \<lparr>br_Enabled = True, br_FailureThreshold = 1 / 2, br_MinimumRequests = 2, br_Window = 10 * second,
     br_OpenTimeout = 5 * second, br_HalfOpenMaxCalls = 1, br_HalfOpenSuccesses = 2\<rparr>"

definition at_time :: "time \<Rightarrow> BreakerClock" where
  "at_time t = \<lparr>bc_current = t, bc_record = t, bc_trip = t, bc_open = t\<rparr>"

definition example_ops :: "breaker_op list" where
  "example_ops = [OpRecord (at_time (1 * second)) None, OpRecord (at_time (12 * second)) (Some ErrNotFound)]"

theorem breaker_ring_refines_log_witness:
  "Counts (12 * second) (fold breaker_step example_ops (NewBreaker ''ods'' example_breaker_cfg 0)) = (0, 1, 0)"
proof -
  have s: "sorted (0 # concat (map op_instants example_ops) @ [12 * second])" by code_simp
  obtain b L where bl: "fold log_step example_ops (NewBreaker ''ods'' example_breaker_cfg 0, []) = (b, L)" by fastforce
  have L: "L = snd (fold log_step example_ops (NewBreaker ''ods'' example_breaker_cfg 0, []))" using bl by simp
  have L': "L = [(1, OSuccess), (12, OFailure)]" unfolding L by code_simp
  have i: "bucketIndex (fold breaker_step example_ops (NewBreaker ''ods'' example_breaker_cfg 0)) (12 * second) = 12" by code_simp
  have c: "fold breaker_step example_ops (NewBreaker ''ods'' example_breaker_cfg 0) = b"
    and "Counts (12 * second) b = (log_count OSuccess (bucketIndex b (12 * second)) L,
      log_count OFailure (bucketIndex b (12 * second)) L, log_count ORejected (bucketIndex b (12 * second)) L)"
    using breaker_ring_refines_log[OF s bl] by blast+
  moreover have "bucketIndex b (12 * second) = 12" using i unfolding c .
  ultimately show ?thesis unfolding c L' by (simp add: log_count_def)
qed

text \<open>C21: When a closed circuit records a failure it opens exactly if the window, that failure included,
  holds at least \<^verbatim>\<open>minimum_requests\<close> outcomes and the \<^verbatim>\<open>float64\<close> failure ratio reaches the
  threshold; in particular it never opens below the minimum.\<close>

theorem breaker_trips_exactly:
  assumes "sorted (t0 # concat (map op_instants ops) @ [bc_record clk, bc_trip clk])"
    and "fold log_step ops (NewBreaker name cfg t0, []) = (b, L)" "b_state b = StateClosed"
    and "br_Enabled cfg" "breaker_cfg_ok cfg"
  defines "w \<equiv> bucketIndex b (bc_trip clk)" and "L' \<equiv> L @ [(bucketIndex b (bc_record clk), OFailure)]"
  shows "b_state (Record clk (Some e) b) = StateOpen \<longleftrightarrow>
     br_MinimumRequests cfg \<le> log_count OSuccess w L' + log_count OFailure w L'
   \<and> br_FailureThreshold cfg \<le> f64_div (f64_of_int (log_count OFailure w L'))
        (f64_of_int (log_count OSuccess w L' + log_count OFailure w L'))"
proof -
  let ?a = "OpRecord clk (Some e)"
  let ?b2 = "recordLocked add_failure (bc_record clk) b"
  have cfg: "b_cfg b = cfg"
  proof -
    have "b_cfg (fold breaker_step ops b0) = b_cfg b0" for b0 by (induction ops arbitrary: b0) simp_all
    then show ?thesis
      using log_run_breaker[of ops "NewBreaker name cfg t0" "[]"] assms(2) by (simp add: NewBreaker_def Let_def)
  qed
  have inv: "log_inv (bc_record clk) (b, L)"
    using log_inv_run[OF log_inv_New, of t0 ops "bc_record clk" name cfg t0] assms(1,2) by (simp add: sorted_append)
  have "log_inv (bc_trip clk) (b, L)" using log_inv_run[OF log_inv_New, of t0 ops "bc_trip clk" name cfg t0] assms(1,2)
    by (simp add: sorted_append)
  moreover have "bc_record clk \<le> bc_trip clk" using assms(1) by (simp add: sorted_append)
  ultimately have le: "\<forall>(j, k) \<in> set L'. j \<le> w" and d: "0 < b_bucketDur b"
    using bucketIndex_mono[of b "bc_record clk" "bc_trip clk"] by (auto simp: log_inv_def L'_def w_def)
  have "ring_inv (b_buckets ?b2) L'"
    unfolding L'_def recordLocked_rings using inv by (intro ring_inv_put) (auto simp: log_inv_def bucketIndex_nonneg)
  from ring_counts[OF this le] have c: "window_sum (tally out) w (b_buckets ?b2) = log_count out w L'" for out by blast
  have w: "bucketIndex ?b2 (bc_trip clk) = w" by (simp add: w_def bucketIndex_def)
  have "b_state (Record clk (Some e) b) = StateOpen \<longleftrightarrow> shouldTripLocked (bc_trip clk) ?b2"
    using assms(3,4) cfg by (simp add: Record_def Let_def currentLocked_def)
  also have "\<dots> \<longleftrightarrow> br_MinimumRequests cfg \<le> log_count OSuccess w L' + log_count OFailure w L'
   \<and> br_FailureThreshold cfg \<le> f64_div (f64_of_int (log_count OFailure w L'))
        (f64_of_int (log_count OSuccess w L' + log_count OFailure w L'))"
    using c[of OSuccess] c[of OFailure] w cfg assms(5)
    by (auto simp: shouldTripLocked_def Let_def breaker_cfg_ok_def)
  finally show ?thesis .
qed

theorem breaker_trips_exactly_witness:
  "b_state (Record (at_time (13 * second)) (Some ErrCircuitOpen)
      (fold breaker_step [OpRecord (at_time (12 * second)) (Some ErrCircuitOpen)] (NewBreaker ''ods'' example_breaker_cfg 0))) = StateOpen"
proof -
  let ?ops = "[OpRecord (at_time (12 * second)) (Some ErrCircuitOpen)]"
  let ?bl = "fold log_step ?ops (NewBreaker ''ods'' example_breaker_cfg 0, [])"
  obtain b L where bl: "?bl = (b, L)" by fastforce
  have s: "sorted (0 # concat (map op_instants ?ops) @ [bc_record (at_time (13 * second)), bc_trip (at_time (13 * second))])"
    by code_simp
  have 1: "b_state (fst ?bl) = StateClosed" by code_simp
  have 2: "L = [(12, OFailure)]"
  proof -
    have "snd ?bl = [(12, OFailure)]" by code_simp
    then show ?thesis unfolding bl snd_conv .
  qed
  have 3: "bucketIndex (fst ?bl) (13 * second) = 13" by code_simp
  have 4: "br_Enabled example_breaker_cfg" "breaker_cfg_ok example_breaker_cfg" by code_simp+
  have 5: "br_FailureThreshold example_breaker_cfg \<le> f64_div (f64_of_int 2) (f64_of_int 2)" by code_simp
  have 6: "br_MinimumRequests example_breaker_cfg = 2" by code_simp
  have b: "b = fold breaker_step ?ops (NewBreaker ''ods'' example_breaker_cfg 0)"
    using log_run_breaker[of ?ops "NewBreaker ''ods'' example_breaker_cfg 0" "[]"] bl by simp
  have i: "bucketIndex b (bc_trip (at_time (13 * second))) = 13" "bucketIndex b (bc_record (at_time (13 * second))) = 13"
    using 3 unfolding bl fst_conv by (simp_all add: at_time_def)
  have st: "b_state b = StateClosed" using 1 unfolding bl fst_conv .
  show ?thesis unfolding b[symmetric]
    using breaker_trips_exactly[OF s bl st 4, of ErrCircuitOpen] 5 6 unfolding i 2 by (simp add: log_count_def)
qed

text \<open>While an open circuit's timeout has not passed at any instant an operation looks at the clock, no
  sequence of calls (probes, late outcomes, abstentions) changes the state or the opening time,
  and every \<^verbatim>\<open>Allow\<close> is refused with the circuit-open error.\<close>

theorem open_circuit_admits_nothing:
  assumes "b_state b = StateOpen" "br_Enabled (b_cfg b)"
    and "\<forall>a \<in> set ops. \<forall>t \<in> set (current_instants a). before_timeout b t"
    and "before_timeout b (bc_current clk)"
  shows "b_state (fold breaker_step ops b) = StateOpen \<and> b_openedAt (fold breaker_step ops b) = b_openedAt b
    \<and> CodeOf (fst (Allow clk (fold breaker_step ops b))) = Some CodeUpstreamUnavailable"
  using open_run[OF assms(1,3)] assms(2,4)
  by (simp add: Allow_def Let_def currentLocked_def before_timeout_def)

definition example_open_breaker :: Breaker where
  "example_open_breaker = (NewBreaker ''ods'' example_breaker_cfg 0)\<lparr>b_state := StateOpen, b_openedAt := 100 * second\<rparr>"

theorem open_circuit_admits_nothing_witness:
  "CodeOf (fst (Allow (at_time (104 * second))
      (fold breaker_step [OpAllow (at_time (101 * second)), OpRecord (at_time (102 * second)) None, OpAbstain]
         example_open_breaker))) = Some CodeUpstreamUnavailable"
proof -
  have "b_state example_open_breaker = StateOpen" "br_Enabled (b_cfg example_open_breaker)"
    "\<forall>a \<in> set [OpAllow (at_time (101 * second)), OpRecord (at_time (102 * second)) None, OpAbstain].
       \<forall>t \<in> set (current_instants a). before_timeout example_open_breaker t"
    "before_timeout example_open_breaker (bc_current (at_time (104 * second)))"
    by code_simp+
  from open_circuit_admits_nothing[OF this] show ?thesis by blast
qed

text \<open>Half-open probing is bounded and unforgiving. In every state reachable from a new breaker with a
  valid configuration the outstanding probes stay within \<^verbatim>\<open>half_open_max_calls\<close> and fewer than
  \<^verbatim>\<open>half_open_successes\<close> successes are counted; a probe beyond the bound is refused; and the first
  failure recorded while half-open reopens the circuit, restarting its timeout.\<close>

theorem half_open_bounded:
  assumes "breaker_cfg_ok cfg" "b = fold breaker_step ops (NewBreaker name cfg now)"
  shows "breaker_ok b
    \<and> (b_state b = StateHalfOpen \<and> br_Enabled (b_cfg b) \<longrightarrow>
         (fst (Allow clk b) = None \<longleftrightarrow> b_halfOpenCalls b < br_HalfOpenMaxCalls (b_cfg b))
       \<and> b_state (Record clk (Some e) b) = StateOpen \<and> b_openedAt (Record clk (Some e) b) = bc_open clk
       \<and> b_halfOpenOK (Record clk (Some e) b) = 0)"
proof -
  have "breaker_ok b" unfolding assms(2) by (rule breaker.run_inv) (rule breaker_ok_New[OF assms(1)])
  then show ?thesis
    by (auto simp: Allow_def Record_def currentLocked_def Let_def transitionLocked_counters)
      (simp add: transitionLocked_def)
qed

theorem half_open_bounded_witness:
  "breaker_ok (fold breaker_step example_ops (NewBreaker ''ods'' example_breaker_cfg 0))"
proof -
  have "breaker_cfg_ok example_breaker_cfg" by code_simp
  from half_open_bounded[OF this refl] show ?thesis by blast
qed

text \<open>C22: Recovery is live: once the open timeout has passed at the first probe's reading of the clock, \<^verbatim>\<open>half_open_successes\<close> successful
  probes one after the other, with no other call in between, are each admitted and close the circuit, whatever the clock does
  from then on.\<close>

theorem open_circuit_recovers:
  assumes "breaker_ok b" "br_Enabled (b_cfg b)" "b_state b = StateOpen"
    and "\<not> before_timeout b (bc_current (fst c))"
    and "int (length cs) + 1 = br_HalfOpenSuccesses (b_cfg b)"
  shows "\<exists>b'. probe_run (c # cs) b = Some b' \<and> b_state b' = StateClosed"
proof -
  have h: "b_state (currentLocked (bc_current (fst c)) b) = StateHalfOpen"
    "b_halfOpenCalls (currentLocked (bc_current (fst c)) b) = 0" "b_halfOpenOK (currentLocked (bc_current (fst c)) b) = 0"
    using assms(3,4) by (simp_all add: currentLocked_def before_timeout_def transitionLocked_counters)
  obtain b1 where r: "probe_round c b = Some b1" "b_cfg b1 = b_cfg b" "breaker_ok b1"
    "if 1 \<ge> br_HalfOpenSuccesses (b_cfg b) then b_state b1 = StateClosed
     else b_state b1 = StateHalfOpen \<and> b_halfOpenCalls b1 = 0 \<and> b_halfOpenOK b1 = 1"
    using half_open_round[OF assms(1,2) h(1,2)] h(3) by auto
  show ?thesis
  proof (cases "cs = []")
    case True
    then show ?thesis using r assms(5) by simp
  next
    case False
    then have "1 < br_HalfOpenSuccesses (b_cfg b)" using assms(5) by (cases cs) auto
    then show ?thesis using recovery_half_open[of b1 cs] r assms(2,5) by simp
  qed
qed

theorem open_circuit_recovers_witness:
  "\<exists>b'. probe_run [(at_time (105 * second), at_time (106 * second)), (at_time (107 * second), at_time (108 * second))]
      example_open_breaker = Some b' \<and> b_state b' = StateClosed"
proof -
  have "breaker_ok example_open_breaker" "br_Enabled (b_cfg example_open_breaker)" "b_state example_open_breaker = StateOpen"
    "\<not> before_timeout example_open_breaker (bc_current (fst (at_time (105 * second), at_time (106 * second))))"
    "int (length [(at_time (107 * second), at_time (108 * second))]) + 1 = br_HalfOpenSuccesses (b_cfg example_open_breaker)"
    by code_simp+
  from open_circuit_recovers[OF this] show ?thesis .
qed

text \<open>A call that ends in a client fault (not found, bad request, denied, schema mismatch) is no
  evidence: under a closed circuit the breaker is left exactly as it was; under a half-open one
  the probe slot is returned and neither the window nor the success count moves.\<close>

theorem client_fault_is_no_evidence:
  assumes "breaker_ok b" "isClientFault e" "Allow clk1 b = (None, b1)"
  shows "fst (Do clk1 clk2 (Some e) b) = Some e
    \<and> b_buckets (snd (Do clk1 clk2 (Some e) b)) = b_buckets b
    \<and> b_state (snd (Do clk1 clk2 (Some e) b)) = b_state b1
    \<and> b_halfOpenOK (snd (Do clk1 clk2 (Some e) b)) = b_halfOpenOK b1
    \<and> (b_state b = StateClosed \<longrightarrow> snd (Do clk1 clk2 (Some e) b) = b)
    \<and> (br_Enabled (b_cfg b) \<and> b_state b1 = StateHalfOpen \<longrightarrow> b_halfOpenCalls (snd (Do clk1 clk2 (Some e) b)) = b_halfOpenCalls b1 - 1)"
proof -
  have d: "Do clk1 clk2 (Some e) b = (Some e, Abstain b1)" using assms(2,3) by (simp add: Do_def report_def)
  have ok1: "breaker_ok (currentLocked (bc_current clk1) b)" using assms(1) by (rule bff_inv)
  show ?thesis using assms(3) ok1 unfolding d
    by (auto simp: Allow_def Abstain_def Let_def decr_def currentLocked_def breaker_ok_def transitionLocked_def
        split: if_splits State.splits)
qed

theorem client_fault_is_no_evidence_witness:
  "snd (Do (at_time 1) (at_time 2) (Some ErrNotFound) (NewBreaker ''ods'' example_breaker_cfg 0))
     = NewBreaker ''ods'' example_breaker_cfg 0"
proof -
  have "breaker_ok (NewBreaker ''ods'' example_breaker_cfg 0)" "isClientFault ErrNotFound"
    "Allow (at_time 1) (NewBreaker ''ods'' example_breaker_cfg 0) = (None, NewBreaker ''ods'' example_breaker_cfg 0)"
    "b_state (NewBreaker ''ods'' example_breaker_cfg 0) = StateClosed"
    by code_simp+
  with client_fault_is_no_evidence[OF this(1-3)] show ?thesis by blast
qed

end
