(* ===== verification/Domain.thy ===== *)
theory Domain
  imports GoTime "HOL-Library.Word" "HOL-Library.Multiset"
begin

text \<open>
  The canonical model of \<^verbatim>\<open>internal/domain/domain.go\<close>: source kinds, freshness, resources,
  executions and the response metadata. A Go string type with named constants is a
  datatype with one constructor per constant and one for the zero value \<^verbatim>\<open>""\<close>; a nil
  pointer is \<^term>\<open>None\<close>.
\<close>

section \<open>Source identity\<close>

datatype SourceKind = SourceUnset | SourceNone | SourceOperational | SourceExecution | SourceCache

fun source_string :: "SourceKind \<Rightarrow> string" where
  "source_string SourceUnset = ''''"
| "source_string SourceNone = ''NONE''"
| "source_string SourceOperational = ''OPERATIONAL''"
| "source_string SourceExecution = ''EXECUTION''"
| "source_string SourceCache = ''CACHE''"

definition source_IsNone :: "SourceKind \<Rightarrow> bool" where
  "source_IsNone s \<longleftrightarrow> s = SourceUnset \<or> s = SourceNone"

definition source_Valid :: "SourceKind \<Rightarrow> bool" where
  "source_Valid s = (case s of SourceNone \<Rightarrow> True | SourceOperational \<Rightarrow> True
     | SourceExecution \<Rightarrow> True | SourceCache \<Rightarrow> True | SourceUnset \<Rightarrow> False)"

definition ParseSourceKind :: "string \<Rightarrow> SourceKind \<times> bool" where
  "ParseSourceKind s =
     (let t = strings_ToLower (strings_TrimSpace s)
      in if t = ''operational'' \<or> t = ''ods'' then (SourceOperational, True)
         else if t = ''execution'' \<or> t = ''eds'' then (SourceExecution, True)
         else if t = ''cache'' then (SourceCache, True)
         else if t = '''' \<or> t = ''none'' then (SourceNone, True)
         else (SourceNone, False))"

lemma source_IsNone_simps [simp]:
  "source_IsNone SourceUnset" "source_IsNone SourceNone" "\<not> source_IsNone SourceOperational"
  "\<not> source_IsNone SourceExecution" "\<not> source_IsNone SourceCache"
  by (simp_all add: source_IsNone_def)

lemma ParseSourceKind_not_unset: "fst (ParseSourceKind s) \<noteq> SourceUnset"
  by (simp add: ParseSourceKind_def Let_def)

section \<open>Freshness\<close>

datatype FreshnessState = FreshnessUnset | FreshnessUnknown | FreshnessFresh | FreshnessStale

record Freshness =
  fr_State :: FreshnessState
  fr_Age :: duration
  fr_TTL :: duration
  fr_ObservedAt :: time
  fr_EvaluatedAt :: time
  fr_Source :: SourceKind
  fr_SkewCorrected :: bool
  fr_Version :: "64 word"

definition zero_Freshness :: Freshness where
  "zero_Freshness = \<lparr>fr_State = FreshnessUnset, fr_Age = 0, fr_TTL = 0, fr_ObservedAt = 0,
     fr_EvaluatedAt = 0, fr_Source = SourceUnset, fr_SkewCorrected = False, fr_Version = 0\<rparr>"

definition fr_IsFresh :: "Freshness \<Rightarrow> bool" where "fr_IsFresh f \<longleftrightarrow> fr_State f = FreshnessFresh"
definition fr_AgeSeconds :: "Freshness \<Rightarrow> rat" where "fr_AgeSeconds f = dur_Seconds (fr_Age f)"
definition fr_TTLSeconds :: "Freshness \<Rightarrow> rat" where "fr_TTLSeconds f = dur_Seconds (fr_TTL f)"

text \<open>
  The wire form of a freshness: the fields tagged for JSON, with the age and the TTL as
  seconds. \<^verbatim>\<open>encoding/json\<close> writes a \<^verbatim>\<open>float64\<close> so that reading it back gives the same
  value, so the two numbers travel unchanged.
\<close>

record FreshnessWire =
  fw_State :: FreshnessState
  fw_ObservedAt :: time
  fw_EvaluatedAt :: time
  fw_Source :: SourceKind
  fw_SkewCorrected :: bool
  fw_Version :: "64 word"
  fw_AgeSeconds :: rat
  fw_TTLSeconds :: rat

definition fr_MarshalJSON :: "Freshness \<Rightarrow> FreshnessWire" where
  "fr_MarshalJSON f = \<lparr>fw_State = fr_State f, fw_ObservedAt = fr_ObservedAt f,
     fw_EvaluatedAt = fr_EvaluatedAt f, fw_Source = fr_Source f,
     fw_SkewCorrected = fr_SkewCorrected f, fw_Version = fr_Version f,
     fw_AgeSeconds = dur_Seconds (fr_Age f), fw_TTLSeconds = dur_Seconds (fr_TTL f)\<rparr>"

definition fr_UnmarshalJSON :: "FreshnessWire \<Rightarrow> Freshness" where
  "fr_UnmarshalJSON w = \<lparr>fr_State = fw_State w,
     fr_Age = f64_to_int (f64_mul (fw_AgeSeconds w) (f64_of_int second)),
     fr_TTL = f64_to_int (f64_mul (fw_TTLSeconds w) (f64_of_int second)),
     fr_ObservedAt = fw_ObservedAt w, fr_EvaluatedAt = fw_EvaluatedAt w,
     fr_Source = fw_Source w, fr_SkewCorrected = fw_SkewCorrected w, fr_Version = fw_Version w\<rparr>"

section \<open>Resources\<close>

datatype ResourceStatus = StatusUnset | StatusUnknown | StatusPending | StatusActive
  | StatusSuspended | StatusDegraded | StatusTerminating | StatusTerminated | StatusError

record Owner =
  ow_ID :: string
  ow_Type :: string
  ow_Email :: string
  ow_CostCentre :: string

record Metric =
  me_Name :: string
  me_Value :: rat
  me_Unit :: string
  me_SampledAt :: time

record Topology =
  to_Region :: string
  to_Zone :: string
  to_Cluster :: string
  to_Upstream :: "string list"
  to_Downstream :: "string list"

record Resource =
  re_TenantID :: string
  re_ResourceID :: string
  re_CustomerID :: string
  re_Type :: string
  re_Status :: ResourceStatus
  re_SubState :: string
  re_Owner :: "Owner option"
  re_Configuration :: "string gomap"
  re_Metrics :: "Metric list"
  re_Topology :: "Topology option"
  re_Labels :: "string gomap"
  re_Metadata :: "string gomap"
  re_InFlightExecutionID :: string
  re_ObservedAt :: time
  re_SchemaVersion :: string

definition zero_Resource :: Resource where
  "zero_Resource = \<lparr>re_TenantID = [], re_ResourceID = [], re_CustomerID = [], re_Type = [],
     re_Status = StatusUnset, re_SubState = [], re_Owner = None, re_Configuration = [],
     re_Metrics = [], re_Topology = None, re_Labels = [], re_Metadata = [],
     re_InFlightExecutionID = [], re_ObservedAt = 0, re_SchemaVersion = []\<rparr>"

definition re_IsZero :: "Resource option \<Rightarrow> bool" where
  "re_IsZero r = (case r of None \<Rightarrow> True
    | Some r \<Rightarrow> re_ResourceID r = [] \<and> re_Status r = StatusUnset
               \<and> length (re_Configuration r) = 0 \<and> length (re_Metrics r) = 0)"

definition re_present :: "Resource \<Rightarrow> nat" where
  "re_present r =
     (if re_ResourceID r \<noteq> [] then 1 else 0) + (if re_CustomerID r \<noteq> [] then 1 else 0)
   + (if re_Type r \<noteq> [] then 1 else 0)
   + (if re_Status r \<noteq> StatusUnset \<and> re_Status r \<noteq> StatusUnknown then 1 else 0)
   + (case re_Owner r of Some o' \<Rightarrow> if ow_ID o' \<noteq> [] then 1 else 0 | None \<Rightarrow> 0)
   + (if length (re_Configuration r) > 0 then 1 else 0) + (if length (re_Metrics r) > 0 then 1 else 0)
   + (case re_Topology r of Some t \<Rightarrow> if to_Region t \<noteq> [] then 1 else 0 | None \<Rightarrow> 0)"

definition re_Completeness :: "Resource option \<Rightarrow> rat" where
  "re_Completeness r = (case r of None \<Rightarrow> 0
    | Some r \<Rightarrow> f64_div (f64_of_int (int (re_present r))) (f64_of_int 8))"

section \<open>Executions\<close>

datatype ExecutionStatus = ExecUnset | ExecUnknown | ExecQueued | ExecRunning | ExecCompleted
  | ExecFailed | ExecCancelled | ExecTimedOut

definition exec_Terminal :: "ExecutionStatus \<Rightarrow> bool" where
  "exec_Terminal s = (case s of ExecCompleted \<Rightarrow> True | ExecFailed \<Rightarrow> True | ExecCancelled \<Rightarrow> True
     | ExecTimedOut \<Rightarrow> True | _ \<Rightarrow> False)"

definition exec_InProgress :: "ExecutionStatus \<Rightarrow> bool" where
  "exec_InProgress s \<longleftrightarrow> s = ExecQueued \<or> s = ExecRunning"

record ExecutionError =
  ee_Code :: string
  ee_Message :: string
  ee_Retryable :: bool
  ee_Step :: string

record WorkflowStep =
  ws_ID :: string
  ws_Name :: string
  ws_Sequence :: int
  ws_Status :: ExecutionStatus
  ws_StartedAt :: time
  ws_CompletedAt :: time
  ws_Attempt :: int
  ws_Error :: "ExecutionError option"

record Action =
  ac_ID :: string
  ac_Type :: string
  ac_Target :: string
  ac_Outcome :: string
  ac_PerformedAt :: time
  ac_PerformedBy :: string

record ExecutionResult =
  er_Outcome :: string
  er_Summary :: string
  er_Values :: "string gomap"

record AuditEntry =
  ae_At :: time
  ae_Actor :: string
  ae_Action :: string
  ae_Details :: string

record Execution =
  ex_ExecutionID :: string
  ex_TenantID :: string
  ex_ResourceID :: string
  ex_CustomerID :: string
  ex_Operation :: string
  ex_Status :: ExecutionStatus
  ex_Steps :: "WorkflowStep list"
  ex_Actions :: "Action list"
  ex_Result :: "ExecutionResult option"
  ex_Error :: "ExecutionError option"
  ex_Audit :: "AuditEntry list"
  ex_StartedAt :: time
  ex_CompletedAt :: time
  ex_UpdatedAt :: time
  ex_ResourceStatusAfter :: ResourceStatus
  ex_SchemaVersion :: string

definition zero_Execution :: Execution where
  "zero_Execution = \<lparr>ex_ExecutionID = [], ex_TenantID = [], ex_ResourceID = [], ex_CustomerID = [],
     ex_Operation = [], ex_Status = ExecUnset, ex_Steps = [], ex_Actions = [], ex_Result = None,
     ex_Error = None, ex_Audit = [], ex_StartedAt = 0, ex_CompletedAt = 0, ex_UpdatedAt = 0,
     ex_ResourceStatusAfter = StatusUnset, ex_SchemaVersion = []\<rparr>"

definition executionOrderKey :: "Execution \<Rightarrow> time" where
  "executionOrderKey e =
     (if \<not> time_IsZero (ex_UpdatedAt e) then ex_UpdatedAt e
      else if \<not> time_IsZero (ex_CompletedAt e) then ex_CompletedAt e
      else ex_StartedAt e)"

text \<open>\<^verbatim>\<open>sort.SliceStable\<close> with "after" as its less-than: a stable sort, newest first.\<close>

definition SortExecutionsByRecency :: "Execution list \<Rightarrow> Execution list" where
  "SortExecutionsByRecency execs = sort_key (\<lambda>e. - executionOrderKey e) execs"

section \<open>Aggregate views\<close>

record ResourceDetails =
  rd_Resource :: Resource
  rd_LatestExecution :: "Execution option"
  rd_ExecutionHistory :: "Execution list"

record ExecutionList =
  el_ResourceID :: string
  el_Items :: "Execution list"
  el_Total :: int
  el_NextCursor :: string

section \<open>Response metadata\<close>

datatype WarningCode = WarnSourceUnavailable | WarnSourceTimeout | WarnStaleData | WarnPartialData
  | WarnConflictResolved | WarnSchemaMismatch | WarnClockSkew | WarnCacheUnavailable

record Warning =
  wa_Code :: WarningCode
  wa_Message :: string
  wa_Source :: SourceKind

datatype CacheLayer = CacheNone | CacheL1 | CacheL2

record CacheInfo =
  ci_Hit :: bool
  ci_Layer :: CacheLayer
  ci_AgeMS :: int

record ResponseMeta =
  rm_CorrelationID :: string
  rm_RoutingDecision :: string
  rm_RoutingRule :: string
  rm_Sources :: "SourceKind list"
  rm_Freshness :: Freshness
  rm_Degraded :: bool
  rm_Partial :: bool
  rm_Cache :: CacheInfo
  rm_Provenance :: "SourceKind gomap"
  rm_Warnings :: "Warning list"
  rm_ElapsedMS :: int

definition zero_ResponseMeta :: ResponseMeta where
  "zero_ResponseMeta = \<lparr>rm_CorrelationID = [], rm_RoutingDecision = [], rm_RoutingRule = [],
     rm_Sources = [], rm_Freshness = zero_Freshness, rm_Degraded = False, rm_Partial = False,
     rm_Cache = \<lparr>ci_Hit = False, ci_Layer = CacheNone, ci_AgeMS = 0\<rparr>, rm_Provenance = [],
     rm_Warnings = [], rm_ElapsedMS = 0\<rparr>"

definition AddWarning :: "Warning \<Rightarrow> ResponseMeta \<Rightarrow> ResponseMeta" where
  "AddWarning w m =
     (if list_ex (\<lambda>x. wa_Code x = wa_Code w \<and> wa_Source x = wa_Source w) (rm_Warnings m) then m
      else m\<lparr>rm_Warnings := rm_Warnings m @ [w]\<rparr>)"

definition AddSource :: "SourceKind \<Rightarrow> ResponseMeta \<Rightarrow> ResponseMeta" where
  "AddSource s m =
     (if s = SourceNone \<or> s = SourceUnset then m
      else if list_ex (\<lambda>x. x = s) (rm_Sources m) then m
      else m\<lparr>rm_Sources := rm_Sources m @ [s]\<rparr>)"

definition SetProvenance :: "string \<Rightarrow> SourceKind \<Rightarrow> ResponseMeta \<Rightarrow> ResponseMeta" where
  "SetProvenance field s m = m\<lparr>rm_Provenance := gomap_put field s (rm_Provenance m)\<rparr>"

section \<open>The metadata invariant\<close>

text \<open>The response lists every source and every (code, source) warning at most once, and
  never lists an absent source.\<close>

definition warning_key :: "Warning \<Rightarrow> WarningCode \<times> SourceKind" where
  "warning_key w = (wa_Code w, wa_Source w)"

definition meta_ok :: "ResponseMeta \<Rightarrow> bool" where
  "meta_ok m \<longleftrightarrow> distinct (rm_Sources m) \<and> (\<forall>s \<in> set (rm_Sources m). \<not> source_IsNone s)
     \<and> distinct (map warning_key (rm_Warnings m))"

lemma meta_ok_zero [bff_inv]: "meta_ok zero_ResponseMeta"
  by (simp add: meta_ok_def zero_ResponseMeta_def)

lemma meta_ok_AddWarning [bff_inv]: "meta_ok m \<Longrightarrow> meta_ok (AddWarning w m)"
  by (auto simp: meta_ok_def AddWarning_def warning_key_def list_ex_iff)

lemma meta_ok_AddSource [bff_inv]: "meta_ok m \<Longrightarrow> meta_ok (AddSource s m)"
  by (auto simp: meta_ok_def AddSource_def source_IsNone_def list_ex_iff)

lemma meta_ok_SetProvenance [bff_inv]: "meta_ok m \<Longrightarrow> meta_ok (SetProvenance f s m)"
  by (simp add: meta_ok_def SetProvenance_def)

datatype meta_op = MAddWarning Warning | MAddSource SourceKind | MSetProvenance string SourceKind

fun meta_step :: "meta_op \<Rightarrow> ResponseMeta \<Rightarrow> ResponseMeta" where
  "meta_step (MAddWarning w) m = AddWarning w m"
| "meta_step (MAddSource s) m = AddSource s m"
| "meta_step (MSetProvenance f s) m = SetProvenance f s m"

interpretation response_meta: guarded_component meta_step meta_ok
proof unfold_locales
  fix m :: ResponseMeta and a
  assume "meta_ok m"
  then show "meta_ok (meta_step a m)" by (cases a) (auto intro: bff_inv)
qed

section \<open>Executions, newest first\<close>

lemma SortExecutionsByRecency_sorted:
  "sorted_wrt (\<lambda>a b. executionOrderKey b \<le> executionOrderKey a) (SortExecutionsByRecency es)"
proof -
  have "sorted (map (\<lambda>e. - executionOrderKey e) (SortExecutionsByRecency es))"
    by (simp add: SortExecutionsByRecency_def)
  then show ?thesis by (simp add: sorted_map)
qed

lemma SortExecutionsByRecency_mset [simp]: "mset (SortExecutionsByRecency es) = mset es"
  by (simp add: SortExecutionsByRecency_def)

lemma SortExecutionsByRecency_stable:
  "filter (\<lambda>e. executionOrderKey e = k) (SortExecutionsByRecency es)
     = filter (\<lambda>e. executionOrderKey e = k) es"
proof -
  have "filter (\<lambda>e. - executionOrderKey e = - k) (sort_key (\<lambda>e. - executionOrderKey e) es)
      = filter (\<lambda>e. - executionOrderKey e = - k) es"
    by (rule sort_key_stable)
  then show ?thesis by (simp add: SortExecutionsByRecency_def)
qed

lemma SortExecutionsByRecency_set [simp]: "set (SortExecutionsByRecency es) = set es"
  by (simp add: SortExecutionsByRecency_def)

end
