(* ===== verification/Jwk.thy ===== *)
theory Jwk
  imports Prelude
begin

text \<open>
  \<^verbatim>\<open>internal/security/jwk.go\<close>: public keys from JSON web keys. Decoding the JSON text into the fields of a \<open>jwk\<close> is
  the caller's argument; the base64url decoding of the key parameters (\<^verbatim>\<open>base64.RawURLEncoding\<close>) is written out
  and shown to invert the encoding of RFC 4648.
\<close>

section \<open>Base64url without padding\<close>

definition b64_alphabet :: string where
  "b64_alphabet = ''ABCDEFGHIJKLMNOPQRSTUVWXYZabcdefghijklmnopqrstuvwxyz0123456789-_''"

fun index_of :: "'a \<Rightarrow> 'a list \<Rightarrow> nat option" where
  "index_of x [] = None"
| "index_of x (y # ys) = (if x = y then Some 0 else map_option Suc (index_of x ys))"

definition b64_digit :: "char \<Rightarrow> nat option" where
  "b64_digit c = index_of c b64_alphabet"

text \<open>Four digits give three bytes; a tail of two or three digits gives one or two, and the bits left over are dropped; a
  tail of one digit is malformed. Line breaks are skipped.\<close>

fun b64_groups :: "nat list \<Rightarrow> nat list option" where
  "b64_groups [] = Some []"
| "b64_groups [a] = None"
| "b64_groups [a, b] = Some [(a * 64 + b) div 16]"
| "b64_groups [a, b, c] = (let v = (a * 64 + b) * 64 + c in Some [v div 1024, v div 4 mod 256])"
| "b64_groups (a # b # c # d # ds) =
     (let v = ((a * 64 + b) * 64 + c) * 64 + d
      in map_option (\<lambda>bs. [v div 65536, v div 256 mod 256, v mod 256] @ bs) (b64_groups ds))"

definition RawURLEncoding_DecodeString :: "string \<Rightarrow> nat list option" where
  "RawURLEncoding_DecodeString s =
     Option.bind (those (map b64_digit (filter (\<lambda>c. of_char c \<noteq> (10 :: nat) \<and> of_char c \<noteq> (13 :: nat)) s))) b64_groups"

text \<open>Big-endian, as \<^verbatim>\<open>big.Int.SetBytes\<close>.\<close>

definition SetBytes :: "nat list \<Rightarrow> nat" where
  "SetBytes bs = foldl (\<lambda>n b. n * 256 + b) 0 bs"

section \<open>Keys\<close>

record jwk =
  jwk_Kty :: string
  jwk_Kid :: string
  jwk_Use :: string
  jwk_Alg :: string
  jwk_N :: string
  jwk_E :: string
  jwk_Crv :: string
  jwk_X :: string
  jwk_Y :: string

datatype curve = P256 | P384 | P521

datatype public_key = RSAKey nat int | ECKey curve nat nat

definition b64uint :: "string \<Rightarrow> string + nat" where
  "b64uint s =
     (if s = [] then Inl ''security: empty JWK parameter''
      else case RawURLEncoding_DecodeString s of
             None \<Rightarrow> Inl ''security: decode JWK parameter''
           | Some b \<Rightarrow> Inr (SetBytes b))"

definition ec_curve :: "string \<Rightarrow> curve option" where
  "ec_curve s = (if s = ''P-256'' then Some P256 else if s = ''P-384'' then Some P384 else if s = ''P-521'' then Some P521 else None)"

definition parseJWK :: "string + jwk \<Rightarrow> string + (string \<times> public_key)" where
  "parseJWK raw =
     (case raw of
        Inl e \<Rightarrow> Inl (''security: decode JWK: '' @ e)
      | Inr k \<Rightarrow>
          if jwk_Use k \<noteq> [] \<and> jwk_Use k \<noteq> ''sig'' then Inl ''security: JWK is not a signature key''
          else if jwk_Kty k = ''RSA'' then
            (case b64uint (jwk_N k) of Inl e \<Rightarrow> Inl e
             | Inr n \<Rightarrow> (case b64uint (jwk_E k) of Inl e \<Rightarrow> Inl e
                | Inr e \<Rightarrow> if \<not> e < 2 ^ 63 \<or> e = 0 then Inl ''security: RSA exponent out of range''
                           else Inr (jwk_Kid k, RSAKey n (int e))))
          else if jwk_Kty k = ''EC'' then
            (case ec_curve (jwk_Crv k) of None \<Rightarrow> Inl (''security: unsupported EC curve '' @ jwk_Crv k)
             | Some cv \<Rightarrow> (case b64uint (jwk_X k) of Inl e \<Rightarrow> Inl e
                | Inr x \<Rightarrow> (case b64uint (jwk_Y k) of Inl e \<Rightarrow> Inl e
                   | Inr y \<Rightarrow> Inr (jwk_Kid k, ECKey cv x y))))
          else Inl (''security: unsupported key type '' @ jwk_Kty k))"

section \<open>The encoding of RFC 4648\<close>

fun b64_digits :: "nat list \<Rightarrow> nat list" where
  "b64_digits [] = []"
| "b64_digits [x] = [x div 4, x mod 4 * 16]"
| "b64_digits [x, y] = [x div 4, x mod 4 * 16 + y div 16, y mod 16 * 4]"
| "b64_digits (x # y # z # bs) = [x div 4, x mod 4 * 16 + y div 16, y mod 16 * 4 + z div 64, z mod 64] @ b64_digits bs"

definition base64url :: "nat list \<Rightarrow> string" where
  "base64url bs = map (\<lambda>d. b64_alphabet ! d) (b64_digits bs)"

fun bytes_of :: "nat \<Rightarrow> nat list" where
  "bytes_of n = (if n = 0 then [] else bytes_of (n div 256) @ [n mod 256])"

declare bytes_of.simps [simp del]

section \<open>Lemmas\<close>

lemma index_of_nth: "distinct xs \<Longrightarrow> i < length xs \<Longrightarrow> index_of (xs ! i) xs = Some i"
proof (induction xs arbitrary: i)
  case (Cons x xs)
  then show ?case by (cases i) (auto simp: nth_Cons')
qed simp

lemma b64_alphabet_facts: "length b64_alphabet = 64" "distinct b64_alphabet"
  "list_all (\<lambda>c. of_char c \<noteq> (10 :: nat) \<and> of_char c \<noteq> (13 :: nat)) b64_alphabet"
  by code_simp+

lemma b64_digit_nth: "d < 64 \<Longrightarrow> b64_digit (b64_alphabet ! d) = Some d"
  using index_of_nth[OF b64_alphabet_facts(2)] by (simp add: b64_digit_def b64_alphabet_facts(1))

lemma b64_digits_small: "list_all (\<lambda>b. b < 256) bs \<Longrightarrow> list_all (\<lambda>d. d < 64) (b64_digits bs)"
  by (induction bs rule: b64_digits.induct) (auto simp: less_mult_imp_div_less)

lemma bytes_glue:
  fixes x y z :: nat
  assumes "y < 256" "z < 256"
  shows "((x div 4 * 64 + (x mod 4 * 16 + y div 16)) * 64 + (y mod 16 * 4 + z div 64)) * 64 + z mod 64 = (x * 256 + y) * 256 + z"
    "((x * 256 + y) * 256 + z) div 65536 = x" "((x * 256 + y) * 256 + z) div 256 mod 256 = y" "((x * 256 + y) * 256 + z) mod 256 = z"
proof -
  have "((a * 64 + (b * 16 + c)) * 64 + (d * 4 + e)) * 64 + f = ((a * 4 + b) * 256 + (c * 16 + d)) * 256 + (e * 64 + f)" for a b c d e f :: nat
    by simp
  from this[of "x div 4" "x mod 4" "y div 16" "y mod 16" "z div 64" "z mod 64"]
  show "((x div 4 * 64 + (x mod 4 * 16 + y div 16)) * 64 + (y mod 16 * 4 + z div 64)) * 64 + z mod 64 = (x * 256 + y) * 256 + z"
    by (simp only: div_mult_mod_eq)
  have w: "((x * 256 + y) * 256 + z) div 256 = x * 256 + y" "((x * 256 + y) * 256 + z) mod 256 = z"
    using assms by (simp_all only: mod_mult_self3 div_mult_self3 mod_less)
  then have "((x * 256 + y) * 256 + z) div 256 div 256 = x" using assms by simp
  then show "((x * 256 + y) * 256 + z) div 65536 = x" by (simp add: div_mult2_eq[symmetric])
  show "((x * 256 + y) * 256 + z) div 256 mod 256 = y" "((x * 256 + y) * 256 + z) mod 256 = z" using w assms by simp_all
qed

lemma groups_digits: "list_all (\<lambda>b. b < 256) bs \<Longrightarrow> b64_groups (b64_digits bs) = Some bs"
proof (induction bs rule: b64_digits.induct)
  case (2 x)
  have "a * 64 + b * 16 = (a * 4 + b) * 16" for a b :: nat by simp
  from this[of "x div 4" "x mod 4"] have "x div 4 * 64 + x mod 4 * 16 = x * 16" by (simp only: div_mult_mod_eq)
  then show ?case by simp
next
  case (3 x y)
  have "y < 256" using 3 by simp
  note g = bytes_glue[OF this, of 0 x]
  let ?v = "(x div 4 * 64 + (x mod 4 * 16 + y div 16)) * 64 + y mod 16 * 4"
  have "?v = (x * 256 + y) * 4" using g(1) by simp
  then have "?v div 1024 = x" "?v div 4 mod 256 = y" using \<open>y < 256\<close> by simp_all
  then show ?case by (simp add: Let_def)
next
  case (4 x y z bs)
  then have "y < 256" "z < 256" "b64_groups (b64_digits bs) = Some bs" by simp_all
  then show ?case by (simp add: Let_def bytes_glue del: mult_numeral_1 distrib_right_numeral distrib_left_numeral add_mult_distrib)
qed simp

lemma those_map_Some: "(\<And>x. x \<in> set xs \<Longrightarrow> f x = Some (g x)) \<Longrightarrow> those (map f xs) = Some (map g xs)"
  by (induction xs) auto

lemma decode_base64url:
  assumes "list_all (\<lambda>b. b < 256) bs"
  shows "RawURLEncoding_DecodeString (base64url bs) = Some bs"
proof -
  have d: "d < 64" if "d \<in> set (b64_digits bs)" for d using b64_digits_small[OF assms] that by (simp add: list_all_iff)
  have "of_char (b64_alphabet ! d) \<noteq> (10 :: nat) \<and> of_char (b64_alphabet ! d) \<noteq> (13 :: nat)" if "d < 64" for d
    using b64_alphabet_facts that by (simp add: list_all_length)
  then have "filter (\<lambda>c. of_char c \<noteq> (10 :: nat) \<and> of_char c \<noteq> (13 :: nat)) (base64url bs) = base64url bs"
    using d by (auto simp: base64url_def filter_id_conv)
  moreover have "those (map b64_digit (base64url bs)) = Some (b64_digits bs)"
    using those_map_Some[of "b64_digits bs" "\<lambda>d. b64_digit (b64_alphabet ! d)" id] d b64_digit_nth
    by (simp add: base64url_def comp_def)
  ultimately show ?thesis using groups_digits[OF assms] by (simp add: RawURLEncoding_DecodeString_def)
qed

lemma bytes_small: "list_all (\<lambda>b. b < 256) (bytes_of n)"
  by (induction n rule: bytes_of.induct) (subst bytes_of.simps, simp)

lemma SetBytes_bytes: "SetBytes (bytes_of n) = n"
proof (induction n rule: bytes_of.induct)
  case (1 n)
  then show ?case by (subst bytes_of.simps) (simp add: SetBytes_def)
qed

lemma bytes_nonempty: "0 < n \<Longrightarrow> base64url (bytes_of n) \<noteq> []"
proof -
  assume "0 < n"
  then have "bytes_of n \<noteq> []" by (subst bytes_of.simps) simp
  then show ?thesis by (cases "bytes_of n" rule: b64_digits.cases) (auto simp: base64url_def)
qed

section \<open>Properties\<close>

text \<open>Key parameters survive their encoding: a positive number written as the base64url form of its big-endian bytes is read
  back exactly, so a published RSA key (any modulus, any exponent below \<open>2 ^ 63\<close>) is loaded with exactly its modulus
  and exponent under its own key id.\<close>

theorem published_rsa_key_is_loaded:
  assumes "0 < n" "0 < e" "e < 2 ^ 63" "jwk_Kty k = ''RSA''" "jwk_Use k = [] \<or> jwk_Use k = ''sig''"
    and "jwk_N k = base64url (bytes_of n)" "jwk_E k = base64url (bytes_of e)"
  shows "parseJWK (Inr k) = Inr (jwk_Kid k, RSAKey n (int e))"
proof -
  have u: "b64uint (base64url (bytes_of m)) = Inr m" if "0 < m" for m
    using bytes_nonempty[OF that] decode_base64url[OF bytes_small] by (simp add: b64uint_def SetBytes_bytes)
  show ?thesis using assms u[OF assms(1)] u[OF assms(2)] by (auto simp: parseJWK_def)
qed

theorem published_rsa_key_is_loaded_witness:
  "parseJWK (Inr \<lparr>jwk_Kty = ''RSA'', jwk_Kid = ''k1'', jwk_Use = ''sig'', jwk_Alg = ''RS256'', jwk_N = base64url (bytes_of 3233),
     jwk_E = ''AQAB'', jwk_Crv = [], jwk_X = [], jwk_Y = []\<rparr>) = Inr (''k1'', RSAKey 3233 65537)"
proof -
  have "bytes_of 65537 = [1, 0, 1]" by (simp add: bytes_of.simps)
  then have "''AQAB'' = base64url (bytes_of 65537)" by (simp add: base64url_def b64_alphabet_def)
  then show ?thesis by (subst published_rsa_key_is_loaded[of 3233 65537]) simp_all
qed

end
