(* ===== verification/Security.thy ===== *)
theory Security
  imports Config Errs Jwk
begin

text \<open>
  \<^verbatim>\<open>internal/security/auth.go\<close>: authentication, tenant resolution and permissions, and the choice of key provider of
  \<^verbatim>\<open>cmd/bff/main.go\<close>. The JWT library is the argument \<open>parse\<close>: it gets the parser options, the raw token and a key function
  that may change the key provider (the JWKS cache), and returns the claims with the token's validity;
  \<open>expOf\<close> is its reading of the \<^verbatim>\<open>exp\<close> claim. A JWKS request is given by the reply of the endpoint. A Go nil dereference
  is the result \<open>None\<close>.
\<close>

section \<open>Headers\<close>

type_synonym Header = "string list gomap"

fun canonicalMIMEHeaderKey :: "bool \<Rightarrow> string \<Rightarrow> string" where
  "canonicalMIMEHeaderKey up [] = []"
| "canonicalMIMEHeaderKey up (c # cs) = (if up then char_upper c else char_lower c) # canonicalMIMEHeaderKey (c = CHR ''-'') cs"

definition header_Get :: "Header \<Rightarrow> string \<Rightarrow> string" where
  "header_Get h k = (case gomap_get h (canonicalMIMEHeaderKey True k) of Some (v # vs) \<Rightarrow> v | _ \<Rightarrow> [])"

section \<open>Principals\<close>

definition PermResourceRead :: string where "PermResourceRead = ''resource.read''"
definition PermExecutionRead :: string where "PermExecutionRead = ''execution.read''"
definition PermExecutionAudit :: string where "PermExecutionAudit = ''execution.audit.read''"

record Principal =
  pr_Subject :: string
  pr_TenantID :: string
  pr_Roles :: "string list"
  pr_Permissions :: "unit gomap"
  pr_ExpiresAt :: time
  pr_TokenID :: string

definition Can :: "Principal option \<Rightarrow> string \<Rightarrow> bool" where
  "Can p perm = (case p of None \<Rightarrow> False | Some p \<Rightarrow> gomap_get (pr_Permissions p) perm \<noteq> None)"

definition ResolveTenant :: "Principal option \<Rightarrow> string \<Rightarrow> goerr + string" where
  "ResolveTenant p headerTenant =
     (case p of None \<Rightarrow> Inl (WithOp ''security.resolve_tenant'' ErrUnauthenticated)
      | Some p \<Rightarrow>
          if pr_TenantID p = [] then Inl (WithOp ''security.resolve_tenant'' ErrUnauthenticated)
          else let h = strings_TrimSpace headerTenant in
            if h \<noteq> [] \<and> h \<noteq> pr_TenantID p then Inl (WithOp ''security.resolve_tenant'' ErrTenantMismatch)
            else Inr (pr_TenantID p))"

definition Authorize :: "Principal option \<Rightarrow> string \<Rightarrow> bool \<Rightarrow> goerr option" where
  "Authorize p perm defaultDeny =
     (if Can p perm then None
      else if \<not> defaultDeny then None
      else Some (WithDetail ''permission'' (DStr perm) (WithOp ''security.authorize''
             (err_New CodeForbidden ''the caller is not permitted to perform this operation''))))"

section \<open>Tokens and claims\<close>

definition bearerToken :: "Header \<Rightarrow> goerr + string" where
  "bearerToken h =
     (let v = header_Get h ''Authorization''; pre = ''Bearer '' in
      if v = [] then Inl (WithOp ''security.header'' (err_New CodeUnauthenticated ''an Authorization header is required''))
      else if length v \<le> length pre \<or> \<not> strings_EqualFold (take (length pre) v) pre
      then Inl (WithOp ''security.header'' (err_New CodeUnauthenticated ''the Authorization header must use the Bearer scheme''))
      else let tok = strings_TrimSpace (drop (length pre) v) in
        if tok = [] then Inl (WithOp ''security.header'' (err_New CodeUnauthenticated ''the Authorization header carries no token''))
        else Inr tok)"

datatype claim = CNull | CBool bool | CNumber rat | CString string | CStrings "string list" | CList "claim list"
  | CObject "(string \<times> claim) list"

type_synonym claims = "claim gomap"

definition stringClaim :: "claims \<Rightarrow> string \<Rightarrow> string" where
  "stringClaim c key = (if key = [] then [] else case gomap_get c key of Some (CString v) \<Rightarrow> v | _ \<Rightarrow> [])"

fun fields_on :: "(char \<Rightarrow> bool) \<Rightarrow> string \<Rightarrow> string \<Rightarrow> string list" where
  "fields_on f [] cur = (if cur = [] then [] else [rev cur])"
| "fields_on f (c # cs) cur = (if f c then (if cur = [] then [] else [rev cur]) @ fields_on f cs [] else fields_on f cs (c # cur))"

definition stringsClaim :: "claims \<Rightarrow> string \<Rightarrow> string list" where
  "stringsClaim c key =
     (if key = [] then []
      else case gomap_get c key of
             Some (CStrings v) \<Rightarrow> v
           | Some (CString v) \<Rightarrow> fields_on (\<lambda>r. r = CHR '' '' \<or> r = CHR '','') v []
           | Some (CList v) \<Rightarrow> List.map_filter (\<lambda>e. case e of CString s \<Rightarrow> Some s | _ \<Rightarrow> None) v
           | _ \<Rightarrow> [])"

section \<open>Key providers\<close>

datatype verification_key = SecretKey string | PublicKey public_key

record JWKS =
  jk_ttl :: duration
  jk_keys :: "public_key gomap"
  jk_fetchedAt :: time
  jk_lastAttempt :: time

datatype KeyProvider = HMACKeyProvider string | JWKSKeyProvider JWKS

definition NewHMACKeyProvider :: "string \<Rightarrow> string + KeyProvider" where
  "NewHMACKeyProvider secret =
     (if length secret < 32 then Inl ''security: HS256 secret must be at least 32 bytes'' else Inr (HMACKeyProvider secret))"

definition NewJWKSKeyProvider :: "duration \<Rightarrow> KeyProvider" where
  "NewJWKSKeyProvider ttl = JWKSKeyProvider \<lparr>jk_ttl = ttl, jk_keys = [], jk_fetchedAt = 0, jk_lastAttempt = 0\<rparr>"

fun Algorithms :: "KeyProvider \<Rightarrow> string list" where
  "Algorithms (HMACKeyProvider _) = [''HS256'']"
| "Algorithms (JWKSKeyProvider _) = [''RS256'', ''RS384'', ''RS512'', ''ES256'']"

definition minRefreshInterval :: duration where "minRefreshInterval = 30 * second"

text \<open>What the endpoint gave: no request or no response, a status, or a body (an undecodable one, or the raw keys).\<close>

datatype jwks_reply = Unreachable string | Answered int "string + (string + jwk) list"

text \<open>The two critical sections of a refresh; the request runs between them.\<close>

definition refresh_begin :: "time \<Rightarrow> time \<Rightarrow> JWKS \<Rightarrow> string option \<times> JWKS" where
  "refresh_begin t1 t2 p =
     (if time_Sub t1 (jk_lastAttempt p) < minRefreshInterval then (Some ''security: JWKS refresh throttled'', p)
      else (None, p\<lparr>jk_lastAttempt := t2\<rparr>))"

definition parsed_keys :: "(string + jwk) list \<Rightarrow> public_key gomap" where
  "parsed_keys raws = fold (\<lambda>raw m. case parseJWK raw of Inl _ \<Rightarrow> m | Inr (kid, key) \<Rightarrow> if kid = [] then m else gomap_put kid key m) raws []"

definition refresh_finish :: "jwks_reply \<Rightarrow> time \<Rightarrow> JWKS \<Rightarrow> string option \<times> JWKS" where
  "refresh_finish reply t p =
     (case reply of
        Unreachable e \<Rightarrow> (Some (''security: fetch JWKS: '' @ e), p)
      | Answered status body \<Rightarrow>
          if status \<noteq> 200 then (Some ''security: JWKS endpoint returned an error status'', p)
          else (case body of Inl e \<Rightarrow> (Some (''security: decode JWKS: '' @ e), p)
                | Inr raws \<Rightarrow> let parsed = parsed_keys raws in
                    if length parsed = 0 then (Some ''security: JWKS contained no usable keys'', p)
                    else (None, p\<lparr>jk_keys := parsed, jk_fetchedAt := t\<rparr>)))"

record KeyClock =
  kc_check :: time
  kc_throttle :: time
  kc_attempt :: time
  kc_fetched :: time

definition jwks_refresh :: "KeyClock \<Rightarrow> jwks_reply \<Rightarrow> JWKS \<Rightarrow> string option \<times> JWKS" where
  "jwks_refresh clk reply p =
     (case refresh_begin (kc_throttle clk) (kc_attempt clk) p of
        (Some e, p') \<Rightarrow> (Some e, p')
      | (None, p') \<Rightarrow> refresh_finish reply (kc_fetched clk) p')"

definition jwks_Key :: "KeyClock \<Rightarrow> jwks_reply \<Rightarrow> string \<Rightarrow> JWKS \<Rightarrow> (string + public_key) \<times> JWKS" where
  "jwks_Key clk reply kid p =
     (if kid = [] then (Inl ''security: token has no key id'', p)
      else let k = gomap_get (jk_keys p) kid; stale = time_Sub (kc_check clk) (jk_fetchedAt p) > jk_ttl p in
        case (k, stale) of
          (Some key, False) \<Rightarrow> (Inr key, p)
        | _ \<Rightarrow> (case jwks_refresh clk reply p of (err, p') \<Rightarrow>
            (case (err, k) of
               (Some e, None) \<Rightarrow> (Inl e, p')
             | _ \<Rightarrow> (case gomap_get (jk_keys p') kid of
                       Some key \<Rightarrow> (Inr key, p')
                     | None \<Rightarrow> (Inl (''security: no key with id '' @ kid), p')))))"

fun provider_Key :: "KeyClock \<Rightarrow> jwks_reply \<Rightarrow> string \<Rightarrow> KeyProvider \<Rightarrow> (string + verification_key) \<times> KeyProvider" where
  "provider_Key clk reply kid (HMACKeyProvider secret) = (Inr (SecretKey secret), HMACKeyProvider secret)"
| "provider_Key clk reply kid (JWKSKeyProvider p) =
     (case jwks_Key clk reply kid p of (r, p') \<Rightarrow> (map_sum id PublicKey r, JWKSKeyProvider p'))"

section \<open>The authenticator\<close>

record ParserOptions =
  po_Leeway :: duration
  po_ExpirationRequired :: bool
  po_Issuer :: "string option"
  po_Audience :: "string option"
  po_ValidMethods :: "string list option"

type_synonym jwt_parser = "ParserOptions \<Rightarrow> string \<Rightarrow> (string \<Rightarrow> KeyProvider \<Rightarrow> (string + verification_key) \<times> KeyProvider)
  \<Rightarrow> KeyProvider \<Rightarrow> (string + claims \<times> bool) \<times> KeyProvider"

record Authenticator =
  au_cfg :: JWTConfig
  au_rbac :: RBACConfig
  au_keys :: "KeyProvider option"
  au_parser :: ParserOptions
  au_allowInsecure :: bool

definition NewAuthenticator :: "SecurityConfig \<Rightarrow> KeyProvider option \<Rightarrow> Authenticator" where
  "NewAuthenticator cfg keys = \<lparr>au_cfg = sec_JWT cfg, au_rbac = sec_RBAC cfg, au_keys = keys,
     au_parser = \<lparr>po_Leeway = jwt_Leeway (sec_JWT cfg), po_ExpirationRequired = True,
       po_Issuer = (if jwt_Issuer (sec_JWT cfg) \<noteq> [] then Some (jwt_Issuer (sec_JWT cfg)) else None),
       po_Audience = (if jwt_Audience (sec_JWT cfg) \<noteq> [] then Some (jwt_Audience (sec_JWT cfg)) else None),
       po_ValidMethods = map_option Algorithms keys\<rparr>,
     au_allowInsecure = sec_AllowInsecureNoAuth cfg\<rparr>"

definition permissionsFor :: "RBACConfig \<Rightarrow> string list \<Rightarrow> unit gomap" where
  "permissionsFor rbac roles =
     fold (\<lambda>r out. fold (\<lambda>p out. gomap_put p () out) (case gomap_get (rbac_Roles rbac) r of None \<Rightarrow> [] | Some ps \<Rightarrow> ps) out) roles []"

definition insecurePrincipal :: "Authenticator \<Rightarrow> Header \<Rightarrow> Principal" where
  "insecurePrincipal a h =
     (let t = header_Get h ''X-Tenant-ID''; tenant = (if t = [] then ''local'' else t);
          roles = map fst (rbac_Roles (au_rbac a))
      in \<lparr>pr_Subject = ''local-dev'', pr_TenantID = tenant, pr_Roles = roles, pr_Permissions = permissionsFor (au_rbac a) roles,
          pr_ExpiresAt = 0, pr_TokenID = []\<rparr>)"

definition principal_of :: "(claims \<Rightarrow> time option) \<Rightarrow> Authenticator \<Rightarrow> claims \<Rightarrow> goerr + Principal" where
  "principal_of expOf a cl =
     (case find (\<lambda>required. gomap_get cl required = None) (jwt_RequiredClaims (au_cfg a)) of
        Some required \<Rightarrow> Inl (WithDetail ''missing_claim'' (DStr required) (WithOp ''security.claims''
           (err_New CodeUnauthenticated ''the supplied credentials are not valid'')))
      | None \<Rightarrow>
          (let tenant = stringClaim cl (jwt_TenantClaim (au_cfg a)) in
           if tenant = [] then Inl (WithOp ''security.tenant'' (err_New CodeUnauthenticated ''the supplied credentials carry no tenant''))
           else let roles = stringsClaim cl (jwt_RolesClaim (au_cfg a)) in
             Inr \<lparr>pr_Subject = stringClaim cl ''sub'', pr_TenantID = tenant, pr_Roles = roles, pr_Permissions = permissionsFor (au_rbac a) roles,
                  pr_ExpiresAt = (case expOf cl of None \<Rightarrow> 0 | Some t \<Rightarrow> t), pr_TokenID = stringClaim cl ''jti''\<rparr>))"

definition Authenticate :: "jwt_parser \<Rightarrow> (claims \<Rightarrow> time option) \<Rightarrow> KeyClock \<Rightarrow> jwks_reply \<Rightarrow> Header \<Rightarrow> Authenticator
    \<Rightarrow> (goerr + Principal) option \<times> Authenticator" where
  "Authenticate parse expOf clk reply h a =
     (if au_allowInsecure a then (Some (Inr (insecurePrincipal a h)), a)
      else case bearerToken h of
             Inl e \<Rightarrow> (Some (Inl e), a)
           | Inr raw \<Rightarrow>
               (case au_keys a of
                  None \<Rightarrow> (None, a)
                | Some kp \<Rightarrow>
                    (case parse (au_parser a) raw (provider_Key clk reply) kp of
                       (r, kp') \<Rightarrow>
                         (Some (case r of
                            Inl cause \<Rightarrow> Inl (WithOp ''security.parse'' (err_Wrap CodeUnauthenticated ''the supplied credentials are not valid'' (Opaque cause None)))
                          | Inr (cl, valid) \<Rightarrow>
                              if \<not> valid then Inl (WithOp ''security.invalid'' ErrUnauthenticated) else principal_of expOf a cl),
                          a\<lparr>au_keys := Some kp'\<rparr>))))"

definition buildAuthenticator :: "SecurityConfig \<Rightarrow> string \<Rightarrow> string + Authenticator" where
  "buildAuthenticator cfg secret =
     (if sec_AllowInsecureNoAuth cfg then Inr (NewAuthenticator cfg None)
      else if jwt_JWKSURL (sec_JWT cfg) \<noteq> [] then Inr (NewAuthenticator cfg (Some (NewJWKSKeyProvider (jwt_JWKSTTL (sec_JWT cfg)))))
      else if secret = [] then Inl (''security: '' @ jwt_HS256SecretEnv (sec_JWT cfg) @ '' is not set and no JWKS URL is configured'')
      else (case NewHMACKeyProvider secret of Inl e \<Rightarrow> Inl e | Inr kp \<Rightarrow> Inr (NewAuthenticator cfg (Some kp))))"

section \<open>What the JWT library promises\<close>

text \<open>The library calls the key function at most once, with the token's key id. A valid token is signed with the key that the key function returned for its key id, by one of the permitted algorithms,
  and carries the expiry and the issuer that the options demand. \<open>alg\<close> and \<open>kid\<close> read the token's header; \<open>sig\<close> is the
  signature check.\<close>

definition parser_ok :: "(string \<Rightarrow> string) \<Rightarrow> (string \<Rightarrow> string) \<Rightarrow> (verification_key \<Rightarrow> string \<Rightarrow> bool) \<Rightarrow> jwt_parser \<Rightarrow> bool" where
  "parser_ok alg kid sig parse \<longleftrightarrow>
     (\<forall>opts raw keyf kp. snd (parse opts raw keyf kp) = kp \<or> snd (parse opts raw keyf kp) = snd (keyf (kid raw) kp))
   \<and> (\<forall>opts raw keyf kp cl kp'. parse opts raw keyf kp = (Inr (cl, True), kp') \<longrightarrow>
     (\<exists>k. keyf (kid raw) kp = (Inr k, kp') \<and> sig k raw) \<and> (\<forall>ms. po_ValidMethods opts = Some ms \<longrightarrow> alg raw \<in> set ms)
     \<and> (po_ExpirationRequired opts \<longrightarrow> gomap_get cl ''exp'' \<noteq> None) \<and> (\<forall>i. po_Issuer opts = Some i \<longrightarrow> gomap_get cl ''iss'' = Some (CString i)))"

text \<open>Algorithm and kind of key that belong together.\<close>

definition key_matches :: "string \<Rightarrow> verification_key \<Rightarrow> bool" where
  "key_matches a k = (case k of SecretKey s \<Rightarrow> a = ''HS256'' \<and> 32 \<le> length s | PublicKey _ \<Rightarrow> a \<in> {''RS256'', ''RS384'', ''RS512'', ''ES256''})"

text \<open>Where a key comes from: the configured secret, or, when a JWKS URL is configured, an answer of that endpoint which publishes the key
  under the token's key id.\<close>

definition key_from :: "SecurityConfig \<Rightarrow> string \<Rightarrow> jwks_reply set \<Rightarrow> string \<Rightarrow> verification_key \<Rightarrow> bool" where
  "key_from cfg secret R kid k = (case k of
       SecretKey s \<Rightarrow> jwt_JWKSURL (sec_JWT cfg) = [] \<and> s = secret
     | PublicKey pk \<Rightarrow> jwt_JWKSURL (sec_JWT cfg) \<noteq> []
         \<and> (\<exists>raws raw. Answered 200 (Inr raws) \<in> R \<and> raw \<in> set raws \<and> parseJWK raw = Inr (kid, pk)))"

section \<open>Lemmas\<close>

lemma permissions_role: "gomap_get (fold (\<lambda>p out. gomap_put p () out) ps out) q \<noteq> None \<longleftrightarrow> q \<in> set ps \<or> gomap_get out q \<noteq> None"
  by (induction ps arbitrary: out) auto

lemma permissions_fold:
  "gomap_get (fold (\<lambda>r out. fold (\<lambda>p out. gomap_put p () out) (case gomap_get m r of None \<Rightarrow> [] | Some ps \<Rightarrow> ps) out) roles out) q \<noteq> None
   \<longleftrightarrow> (\<exists>r \<in> set roles. \<exists>ps. gomap_get m r = Some ps \<and> q \<in> set ps) \<or> gomap_get out q \<noteq> None"
proof (induction roles arbitrary: out)
  case (Cons r roles)
  show ?case unfolding fold.simps comp_apply Cons.IH permissions_role by (auto split: option.splits)
qed simp

lemma permissionsFor_iff:
  "gomap_get (permissionsFor rbac roles) q \<noteq> None \<longleftrightarrow> (\<exists>r \<in> set roles. \<exists>ps. gomap_get (rbac_Roles rbac) r = Some ps \<and> q \<in> set ps)"
  unfolding permissionsFor_def permissions_fold by simp

lemma principal_of_Inr:
  assumes "principal_of expOf a cl = Inr p"
  shows "pr_TenantID p \<noteq> [] \<and> gomap_get cl (jwt_TenantClaim (au_cfg a)) = Some (CString (pr_TenantID p))
    \<and> (\<forall>c \<in> set (jwt_RequiredClaims (au_cfg a)). gomap_get cl c \<noteq> None) \<and> pr_Roles p = stringsClaim cl (jwt_RolesClaim (au_cfg a))
    \<and> pr_Permissions p = permissionsFor (au_rbac a) (pr_Roles p)"
  using assms
  by (auto simp: principal_of_def Let_def stringClaim_def find_None_iff split: option.splits if_splits claim.splits)

lemma principal_of_code: "principal_of expOf a cl = Inl e \<Longrightarrow> CodeOf (Some e) = Some CodeUnauthenticated"
  by (auto simp: principal_of_def Let_def split: option.splits if_splits)

lemma bearerToken_code: "bearerToken h = Inl e \<Longrightarrow> CodeOf (Some e) = Some CodeUnauthenticated"
  by (auto simp: bearerToken_def Let_def split: if_splits)

lemma parsed_keys_from: "gomap_get (parsed_keys raws) kid = Some k \<Longrightarrow> \<exists>raw \<in> set raws. parseJWK raw = Inr (kid, k)"
proof -
  let ?f = "\<lambda>raw m. case parseJWK raw of Inl _ \<Rightarrow> m | Inr (kid, key) \<Rightarrow> if kid = [] then m else gomap_put kid key m"
  have "gomap_get (fold ?f rs m) kid = Some k \<Longrightarrow> gomap_get m kid = Some k \<or> (\<exists>raw \<in> set rs. parseJWK raw = Inr (kid, k))" for rs m
  proof (induction rs arbitrary: m)
    case (Cons r rs)
    then have "gomap_get (?f r m) kid = Some k \<or> (\<exists>raw \<in> set rs. parseJWK raw = Inr (kid, k))" by simp
    then show ?case by (auto split: sum.splits if_splits)
  qed simp
  from this[of raws "[]"] show "gomap_get (parsed_keys raws) kid = Some k \<Longrightarrow> ?thesis" by (simp add: parsed_keys_def)
qed

text \<open>A provider never changes its kind, its secret or its algorithms, its keys are of that kind, and a published key came with one of the
  answers \<open>R\<close> of the endpoint.\<close>

fun kind_ok :: "SecurityConfig \<Rightarrow> string \<Rightarrow> jwks_reply set \<Rightarrow> KeyProvider \<Rightarrow> bool" where
  "kind_ok cfg secret R (HMACKeyProvider s) \<longleftrightarrow> 32 \<le> length s \<and> key_from cfg secret R [] (SecretKey s)"
| "kind_ok cfg secret R (JWKSKeyProvider p) \<longleftrightarrow> jwt_JWKSURL (sec_JWT cfg) \<noteq> []
     \<and> (\<forall>kid k. gomap_get (jk_keys p) kid = Some k \<longrightarrow> key_from cfg secret R kid (PublicKey k))"

lemma refresh_keys:
  assumes "jwks_refresh clk reply p = (e, p')" "gomap_get (jk_keys p') kid = Some k"
  shows "gomap_get (jk_keys p) kid = Some k \<or> (\<exists>raws raw. reply = Answered 200 (Inr raws) \<and> raw \<in> set raws \<and> parseJWK raw = Inr (kid, k))"
  using assms
  by (auto simp: jwks_refresh_def refresh_begin_def refresh_finish_def Let_def dest!: parsed_keys_from
      split: if_splits jwks_reply.splits sum.splits)

lemma jwks_Key_keys:
  assumes "jwks_Key clk reply kid p = (r, p')"
  shows "(p' = p \<or> (\<exists>e. jwks_refresh clk reply p = (e, p'))) \<and> (\<forall>k. r = Inr k \<longrightarrow> gomap_get (jk_keys p') kid = Some k)"
  using assms by (auto simp: jwks_Key_def Let_def split: if_splits option.splits bool.splits prod.splits)

lemma provider_Key_kind:
  assumes "provider_Key clk reply kid kp = (r, kp')" "kind_ok cfg secret R kp" "reply \<in> R"
  shows "Algorithms kp' = Algorithms kp \<and> kind_ok cfg secret R kp' \<and> (\<forall>k a. r = Inr k \<and> a \<in> set (Algorithms kp) \<longrightarrow> key_matches a k)
    \<and> (\<forall>k. r = Inr k \<longrightarrow> key_from cfg secret R kid k)"
proof (cases kp)
  case (HMACKeyProvider secret)
  then show ?thesis using assms by (auto simp: key_matches_def key_from_def)
next
  case (JWKSKeyProvider p)
  obtain x p' where k: "jwks_Key clk reply kid p = (x, p')" by force
  note kk = jwks_Key_keys[OF k]
  have old: "gomap_get (jk_keys p) i = Some j \<Longrightarrow> key_from cfg secret R i (PublicKey j)" and url: "jwt_JWKSURL (sec_JWT cfg) \<noteq> []" for i j
    using assms(2) JWKSKeyProvider by simp_all
  have new: "key_from cfg secret R i (PublicKey j)" if "gomap_get (jk_keys p') i = Some j" for i j
  proof -
    have "gomap_get (jk_keys p) i = Some j \<or> (\<exists>raws raw. reply = Answered 200 (Inr raws) \<and> raw \<in> set raws \<and> parseJWK raw = Inr (i, j))"
      using kk refresh_keys[of clk reply p _ p' i j] that by blast
    then show ?thesis using old[of i j] assms(3) url by (auto simp: key_from_def intro: exI)
  qed
  then have keys: "kind_ok cfg secret R (JWKSKeyProvider p')" using url by simp
  show ?thesis using assms(1) JWKSKeyProvider k kk keys new[of kid] by (cases x) (auto simp: key_matches_def)
qed

definition auth_ok :: "SecurityConfig \<Rightarrow> string \<Rightarrow> jwks_reply set \<Rightarrow> Authenticator \<Rightarrow> bool" where
  "auth_ok cfg secret R a \<longleftrightarrow> (\<exists>kp. a = NewAuthenticator cfg (Some kp) \<and> kind_ok cfg secret R kp) \<and> \<not> sec_AllowInsecureNoAuth cfg"

lemma auth_ok_build: "buildAuthenticator cfg secret = Inr a \<Longrightarrow> \<not> sec_AllowInsecureNoAuth cfg \<Longrightarrow> auth_ok cfg secret R a"
  by (auto simp: buildAuthenticator_def auth_ok_def NewHMACKeyProvider_def NewJWKSKeyProvider_def key_from_def not_less split: if_splits)

lemma auth_ok_Authenticate:
  assumes "parser_ok alg kid sig parse" "auth_ok cfg secret R a" "reply \<in> R"
  shows "auth_ok cfg secret R (snd (Authenticate parse expOf clk reply h a))"
proof -
  obtain kp where a: "a = NewAuthenticator cfg (Some kp)" "kind_ok cfg secret R kp" "\<not> sec_AllowInsecureNoAuth cfg" using assms(2) by (auto simp: auth_ok_def)
  show ?thesis
  proof (cases "bearerToken h")
    case (Inl e)
    then show ?thesis using assms(2) a by (simp add: Authenticate_def NewAuthenticator_def)
  next
    case (Inr raw)
    obtain r kp' where p: "parse (au_parser a) raw (provider_Key clk reply) kp = (r, kp')" by force
    have "kp' = kp \<or> kp' = snd (provider_Key clk reply (kid raw) kp)"
      using assms(1) p unfolding parser_ok_def by (metis snd_conv)
    then have "Algorithms kp' = Algorithms kp \<and> kind_ok cfg secret R kp'"
      using provider_Key_kind[OF prod.collapse[symmetric] a(2) assms(3), of clk "kid raw"] a(2) by auto
    then show ?thesis using a p Inr by (auto simp: Authenticate_def auth_ok_def NewAuthenticator_def)
  qed
qed

record AuthCall =
  ac_clock :: KeyClock
  ac_reply :: jwks_reply
  ac_header :: Header

definition auth_step :: "jwt_parser \<Rightarrow> (claims \<Rightarrow> time option) \<Rightarrow> AuthCall \<Rightarrow> Authenticator \<Rightarrow> Authenticator" where
  "auth_step parse expOf c a = snd (Authenticate parse expOf (ac_clock c) (ac_reply c) (ac_header c) a)"

lemma auth_ok_run:
  "parser_ok alg kid sig parse \<Longrightarrow> ac_reply ` set calls \<subseteq> R \<Longrightarrow> auth_ok cfg secret R a \<Longrightarrow> auth_ok cfg secret R (fold (auth_step parse expOf) calls a)"
  by (induction calls arbitrary: a) (auto simp: auth_step_def intro: auth_ok_Authenticate)

text \<open>The key cache under any interleaving of its callers: a step is one critical section of a refresh, and the log holds the times
  at which a fetch was let through.\<close>

datatype jwks_op = JBegin time time | JFinish jwks_reply time

fun jwks_step :: "jwks_op \<Rightarrow> JWKS \<times> time list \<Rightarrow> JWKS \<times> time list" where
  "jwks_step (JBegin t1 t2) (p, att) = (case refresh_begin t1 t2 p of (None, p') \<Rightarrow> (p', att @ [t2]) | (Some _, p') \<Rightarrow> (p', att))"
| "jwks_step (JFinish reply t) (p, att) = (snd (refresh_finish reply t p), att)"

fun jwks_clock :: "jwks_op \<Rightarrow> bool" where
  "jwks_clock (JBegin t1 t2) \<longleftrightarrow> t1 \<le> t2" | "jwks_clock (JFinish _ _) \<longleftrightarrow> True"

definition published :: "jwks_op list \<Rightarrow> string \<Rightarrow> public_key \<Rightarrow> bool" where
  "published ops kid k \<longleftrightarrow> (\<exists>raws t raw. JFinish (Answered 200 (Inr raws)) t \<in> set ops \<and> raw \<in> set raws \<and> parseJWK raw = Inr (kid, k))"

definition jwks_inv :: "jwks_op list \<Rightarrow> JWKS \<times> time list \<Rightarrow> bool" where
  "jwks_inv ops s \<longleftrightarrow> (case s of (p, att) \<Rightarrow> sorted_wrt (\<lambda>a b. a + minRefreshInterval \<le> b) att
     \<and> (\<forall>t \<in> set att. t \<le> jk_lastAttempt p) \<and> (\<forall>kid k. gomap_get (jk_keys p) kid = Some k \<longrightarrow> published ops kid k))"

lemma jwks_inv_step:
  assumes "jwks_inv ops s" "a \<in> set ops" "jwks_clock a"
  shows "jwks_inv ops (jwks_step a s)"
proof -
  obtain p att where s: "s = (p, att)" by force
  show ?thesis
  proof (cases a)
    case (JBegin t1 t2)
    have "jk_lastAttempt p + minRefreshInterval \<le> t1" if "\<not> time_Sub t1 (jk_lastAttempt p) < minRefreshInterval"
      using that by (auto simp: time_Sub_def minRefreshInterval_def second_def minDuration_def maxDuration_def split: if_splits)
    then show ?thesis using assms s JBegin
      by (fastforce simp: jwks_inv_def refresh_begin_def sorted_wrt_append minRefreshInterval_def second_def)
  next
    case (JFinish reply t)
    then show ?thesis using assms s
      by (auto simp: jwks_inv_def refresh_finish_def Let_def published_def dest!: parsed_keys_from split: jwks_reply.splits sum.splits)
  qed
qed

lemma jwks_inv_run: "jwks_inv ops s \<Longrightarrow> set as \<subseteq> set ops \<Longrightarrow> \<forall>a \<in> set as. jwks_clock a \<Longrightarrow> jwks_inv ops (fold jwks_step as s)"
proof (induction as arbitrary: s)
  case (Cons a as)
  have "jwks_inv ops (jwks_step a s)" using Cons.prems by (intro jwks_inv_step) auto
  with Cons.IH Cons.prems show ?case by simp
qed simp

section \<open>Properties\<close>

text \<open>C4: Only a verified token establishes a principal. An authenticator built for a configuration that does not switch authentication
  off, after any history of calls and key rotations, answers every request (it never dereferences a missing key provider):
  either with an unauthenticated error, or with a principal whose token was signed with the configured key, and by an algorithm that demands a key
  of its kind (so neither an unsigned token nor a shared-secret signature under a published key passes): without a JWKS URL the key is the
  configured secret, with one it is a key that a successful answer of that endpoint, so far, published under the token's key id. The token
  carries an expiry and the configured issuer and every required claim; the tenant is the token's tenant claim and not empty,
  and the permissions are exactly those of the token's roles. (With authentication switched off every request gets the local principal.)\<close>

theorem only_verified_tokens_authenticate:
  assumes "parser_ok alg kid sig parse" "buildAuthenticator cfg secret = Inr a0" "\<not> sec_AllowInsecureNoAuth cfg"
    and "a = fold (auth_step parse expOf) calls a0"
  shows "case fst (Authenticate parse expOf clk reply h a) of None \<Rightarrow> False
    | Some (Inl e) \<Rightarrow> CodeOf (Some e) = Some CodeUnauthenticated
    | Some (Inr p) \<Rightarrow> (\<exists>raw cl k. bearerToken h = Inr raw \<and> sig k raw \<and> key_matches (alg raw) k
        \<and> key_from cfg secret (insert reply (ac_reply ` set calls)) (kid raw) k
        \<and> gomap_get cl ''exp'' \<noteq> None \<and> (jwt_Issuer (sec_JWT cfg) \<noteq> [] \<longrightarrow> gomap_get cl ''iss'' = Some (CString (jwt_Issuer (sec_JWT cfg))))
        \<and> (\<forall>c \<in> set (jwt_RequiredClaims (sec_JWT cfg)). gomap_get cl c \<noteq> None)
        \<and> pr_TenantID p \<noteq> [] \<and> gomap_get cl (jwt_TenantClaim (sec_JWT cfg)) = Some (CString (pr_TenantID p))
        \<and> (\<forall>q. Can (Some p) q \<longleftrightarrow> (\<exists>r \<in> set (stringsClaim cl (jwt_RolesClaim (sec_JWT cfg))).
             \<exists>ps. gomap_get (rbac_Roles (sec_RBAC cfg)) r = Some ps \<and> q \<in> set ps)))"
proof -
  let ?R = "insert reply (ac_reply ` set calls)"
  have "auth_ok cfg secret ?R a" using auth_ok_run[OF assms(1) _ auth_ok_build[OF assms(2,3)], of calls ?R] assms(4) by auto
  then obtain kp where a: "a = NewAuthenticator cfg (Some kp)" "kind_ok cfg secret ?R kp" by (auto simp: auth_ok_def)
  have sel: "\<not> au_allowInsecure a" "au_keys a = Some kp" using a(1) assms(3) by (simp_all add: NewAuthenticator_def)
  show ?thesis
  proof (cases "bearerToken h")
    case (Inl e)
    then show ?thesis using a assms(3) bearerToken_code[OF Inl] by (simp add: Authenticate_def NewAuthenticator_def)
  next
    case (Inr raw)
    obtain r kp' where p: "parse (au_parser a) raw (provider_Key clk reply) kp = (r, kp')" by force
    have out: "fst (Authenticate parse expOf clk reply h a) = Some (case r of
        Inl cause \<Rightarrow> Inl (WithOp ''security.parse'' (err_Wrap CodeUnauthenticated ''the supplied credentials are not valid'' (Opaque cause None)))
      | Inr (cl, valid) \<Rightarrow> if \<not> valid then Inl (WithOp ''security.invalid'' ErrUnauthenticated) else principal_of expOf a cl)"
      using sel Inr p by (simp add: Authenticate_def)
    show ?thesis
    proof (cases "\<exists>cl pr. r = Inr (cl, True) \<and> principal_of expOf a cl = Inr pr")
      case False
      then show ?thesis using out by (auto split: sum.splits dest: principal_of_code)
    next
      case True
      then obtain cl pr where r: "r = Inr (cl, True)" and pr: "principal_of expOf a cl = Inr pr" by blast
      have ok: "(\<exists>k. provider_Key clk reply (kid raw) kp = (Inr k, kp') \<and> sig k raw)
          \<and> (\<forall>ms. po_ValidMethods (au_parser a) = Some ms \<longrightarrow> alg raw \<in> set ms)
          \<and> (po_ExpirationRequired (au_parser a) \<longrightarrow> gomap_get cl ''exp'' \<noteq> None)
          \<and> (\<forall>i. po_Issuer (au_parser a) = Some i \<longrightarrow> gomap_get cl ''iss'' = Some (CString i))"
        using assms(1) p r unfolding parser_ok_def by blast
      then obtain k where k: "provider_Key clk reply (kid raw) kp = (Inr k, kp')" "sig k raw" by blast
      have "key_matches (alg raw) k" "key_from cfg secret ?R (kid raw) k"
        using provider_Key_kind[OF k(1) a(2)] ok a(1) by (simp_all add: NewAuthenticator_def)
      then show ?thesis
        using out r pr ok k principal_of_Inr[OF pr] permissionsFor_iff[of "sec_RBAC cfg" "pr_Roles pr"] a(1) Inr
        by (auto simp: NewAuthenticator_def Can_def intro!: exI[of _ cl] exI[of _ k])
    qed
  qed
qed

definition demo_secret :: string where "demo_secret = replicate 32 CHR ''s''"

definition demo_claims :: "ParserOptions \<Rightarrow> claims" where
  "demo_claims opts = [(''exp'', CNumber 1), (''sub'', CString ''u1''), (''tenant_id'', CString ''acme''), (''roles'', CString ''bff.viewer''),
     (''iss'', CString (case po_Issuer opts of None \<Rightarrow> [] | Some i \<Rightarrow> i))]"

definition demo_parse :: jwt_parser where
  "demo_parse opts raw keyf kp = (case keyf raw kp of (r, kp') \<Rightarrow>
     (case r of Inl e \<Rightarrow> Inl e
      | Inr k \<Rightarrow> if k = SecretKey demo_secret \<and> (case po_ValidMethods opts of None \<Rightarrow> True | Some ms \<Rightarrow> ''HS256'' \<in> set ms)
                 then Inr (demo_claims opts, True) else Inl ''bad signature'', kp'))"

lemma demo_parse_ok: "parser_ok (\<lambda>_. ''HS256'') id (\<lambda>k _. k = SecretKey demo_secret) demo_parse"
  unfolding parser_ok_def demo_parse_def
  by (auto simp: demo_claims_def split: prod.splits sum.splits if_splits option.splits)

definition demo_security :: SecurityConfig where
  "demo_security = \<lparr>sec_JWT = \<lparr>jwt_Issuer = ''https://issuer'', jwt_Audience = [], jwt_JWKSURL = [], jwt_JWKSTTL = 0, jwt_HS256SecretEnv = ''S'', jwt_Leeway = 0,
       jwt_TenantClaim = ''tenant_id'', jwt_RolesClaim = ''roles'', jwt_RequiredClaims = [''sub'', ''tenant_id'']\<rparr>,
     sec_RBAC = \<lparr>rbac_Roles = [(''bff.viewer'', [''resource.read''])], rbac_DefaultDeny = True\<rparr>,
     sec_RateLimit = \<lparr>rl_Enabled = True, rl_RPS = 1, rl_Burst = 1, rl_PerTenant = True, rl_MaxTenants = 1\<rparr>, sec_AllowInsecureNoAuth = False\<rparr>"

definition demo_call :: AuthCall where
  "demo_call = \<lparr>ac_clock = \<lparr>kc_check = 0, kc_throttle = 0, kc_attempt = 0, kc_fetched = 0\<rparr>, ac_reply = Unreachable [],
     ac_header = [(''Authorization'', [''Bearer abc''])]\<rparr>"

definition demo_auth :: Authenticator where
  "demo_auth = projr (buildAuthenticator demo_security demo_secret)"

theorem only_verified_tokens_authenticate_witness:
  "case fst (Authenticate demo_parse (\<lambda>_. None) (ac_clock demo_call) (ac_reply demo_call) (ac_header demo_call)
      (fold (auth_step demo_parse (\<lambda>_. None)) [demo_call] demo_auth)) of
     Some (Inr p) \<Rightarrow> pr_TenantID p = ''acme'' \<and> key_matches ''HS256'' (SecretKey demo_secret) | _ \<Rightarrow> False"
proof -
  have b: "buildAuthenticator demo_security demo_secret = Inr demo_auth" by (simp add: demo_auth_def buildAuthenticator_def demo_security_def demo_secret_def NewHMACKeyProvider_def)
  have s: "\<not> sec_AllowInsecureNoAuth demo_security" by (simp add: demo_security_def)
  let ?r = "fst (Authenticate demo_parse (\<lambda>_. None) (ac_clock demo_call) (ac_reply demo_call) (ac_header demo_call)
      (fold (auth_step demo_parse (\<lambda>_. None)) [demo_call] demo_auth))"
  have "case ?r of Some (Inr p) \<Rightarrow> pr_TenantID p = ''acme'' | _ \<Rightarrow> False" by code_simp
  with only_verified_tokens_authenticate[OF demo_parse_ok b s refl, where expOf = "\<lambda>_. None" and calls = "[demo_call]" and clk = "ac_clock demo_call" and reply = "ac_reply demo_call"
      and h = "ac_header demo_call"]
  show ?thesis by (auto split: option.splits sum.splits)
qed

text \<open>C36: Key rotation cannot be turned against the identity provider. Under any interleaving of refreshes, from a new key cache, any two
  fetches that are let through start at least thirty seconds apart, whatever key ids callers invent; and every key in
  the cache was published by a successful answer of the endpoint under that key id.\<close>

theorem jwks_fetches_throttled:
  assumes "NewJWKSKeyProvider ttl = JWKSKeyProvider p0" "\<forall>a \<in> set ops. jwks_clock a" "fold jwks_step ops (p0, []) = (p, att)"
  shows "sorted_wrt (\<lambda>a b. a + 30 * second \<le> b) att \<and> (\<forall>kid k. gomap_get (jk_keys p) kid = Some k \<longrightarrow> published ops kid k)"
proof -
  have "jwks_inv ops (p0, [])" using assms(1) by (auto simp: NewJWKSKeyProvider_def jwks_inv_def)
  from jwks_inv_run[OF this _ assms(2)] show ?thesis by (simp add: assms(3) jwks_inv_def minRefreshInterval_def)
qed

theorem jwks_fetches_throttled_witness:
  "\<exists>p. fold jwks_step [JBegin (40 * second) (40 * second), JBegin (50 * second) (50 * second), JBegin (75 * second) (75 * second)]
      (\<lparr>jk_ttl = 1, jk_keys = [], jk_fetchedAt = 0, jk_lastAttempt = 0\<rparr>, []) = (p, [40 * second, 75 * second])
    \<and> sorted_wrt (\<lambda>a b. a + 30 * second \<le> b) [40 * second, 75 * second]"
proof -
  let ?ops = "[JBegin (40 * second) (40 * second), JBegin (50 * second) (50 * second), JBegin (75 * second) (75 * second)]"
  let ?p0 = "\<lparr>jk_ttl = 1, jk_keys = [], jk_fetchedAt = 0, jk_lastAttempt = 0\<rparr>"
  have "snd (fold jwks_step ?ops (?p0, [])) = [40 * second, 75 * second]" by code_simp
  then obtain p where r: "fold jwks_step ?ops (?p0, []) = (p, [40 * second, 75 * second])" by (metis prod.collapse)
  have n: "NewJWKSKeyProvider 1 = JWKSKeyProvider ?p0" by (simp add: NewJWKSKeyProvider_def)
  have c: "\<forall>a \<in> set ?ops. jwks_clock a" by simp
  from jwks_fetches_throttled[OF n c r] r show ?thesis by blast
qed

end
