(* ===== verification/Correlation.thy ===== *)
theory Correlation
  imports GoTime "HOL-Library.Word"
begin

text \<open>
  \<^verbatim>\<open>pkg/correlation/correlation.go\<close>: the identity of a request as it travels through the calls. The context's values are the
  fields of a record, a key that was never set reads as its zero value; the deadline is the context's own. \<open>NewID\<close> gets the
  outcome of the random generator and the clock as arguments.
\<close>

record Ctx =
  cx_CorrelationID :: string
  cx_RequestID :: string
  cx_TenantID :: string
  cx_Subject :: string
  cx_Roles :: "string list"
  cx_Start :: time
  cx_deadline :: "time option"

definition background :: Ctx where
  "background = \<lparr>cx_CorrelationID = [], cx_RequestID = [], cx_TenantID = [], cx_Subject = [], cx_Roles = [], cx_Start = 0, cx_deadline = None\<rparr>"

definition HeaderCorrelationID :: string where "HeaderCorrelationID = ''X-Correlation-ID''"
definition HeaderRequestID :: string where "HeaderRequestID = ''X-Request-ID''"
definition HeaderTenantID :: string where "HeaderTenantID = ''X-Tenant-ID''"

text \<open>\<^verbatim>\<open>hex.EncodeToString\<close> on bytes.\<close>

definition hex_digit :: "nat \<Rightarrow> char" where
  "hex_digit n = (if n < 10 then char_of (48 + n) else char_of (87 + n))"

definition hex_EncodeToString :: "8 word list \<Rightarrow> string" where
  "hex_EncodeToString bs = concat (map (\<lambda>b. [hex_digit (unat b div 16), hex_digit (unat b mod 16)]) bs)"

definition NewID :: "8 word list option \<Rightarrow> 64 word \<Rightarrow> string" where
  "NewID rnd ns =
     hex_EncodeToString (case rnd of
        Some b \<Rightarrow> b
      | None \<Rightarrow> map (\<lambda>i. ucast (drop_bit (8 * i) ns)) [0..<8] @ map (\<lambda>i. xor (ucast (drop_bit (8 * i) ns)) 0xA5) [0..<8])"

text \<open>Letters, digits and \<open>- _ . :\<close>; the loop over the runes of a Go string refuses every byte outside ASCII.\<close>

definition id_char :: "char \<Rightarrow> bool" where
  "id_char c = (let n = (of_char c :: nat) in
     97 \<le> n \<and> n \<le> 122 \<or> 65 \<le> n \<and> n \<le> 90 \<or> 48 \<le> n \<and> n \<le> 57 \<or> c = CHR ''-'' \<or> c = CHR ''_'' \<or> c = CHR ''.'' \<or> c = CHR '':'')"

definition SanitizeID :: "string \<Rightarrow> string \<times> bool" where
  "SanitizeID v =
     (let v = strings_TrimSpace v in
      if v = [] \<or> length v > 128 then ([], False)
      else if list_all id_char v then (v, True) else ([], False))"

definition Elapsed :: "'z Ctx_scheme \<Rightarrow> time \<Rightarrow> duration" where
  "Elapsed ctx now = (if cx_Start ctx = 0 then 0 else time_Sub now (cx_Start ctx))"

section \<open>Lemmas\<close>

definition safe_id :: "string \<Rightarrow> bool" where
  "safe_id v \<longleftrightarrow> v \<noteq> [] \<and> length v \<le> 128 \<and> list_all id_char v"

lemma SanitizeID_safe: "SanitizeID v = (w, True) \<Longrightarrow> safe_id w"
  by (auto simp: SanitizeID_def safe_id_def Let_def split: if_splits)

lemma id_char_not_space: "id_char c \<Longrightarrow> \<not> is_space c"
  by (auto simp: id_char_def is_space_def Let_def)

lemma SanitizeID_id: "safe_id v \<Longrightarrow> SanitizeID v = (v, True)"
proof -
  assume s: "safe_id v"
  then have "strings_TrimSpace v = v" by (intro TrimSpace_id) (auto simp: safe_id_def list_all_iff id_char_not_space)
  then show ?thesis using s by (simp add: SanitizeID_def safe_id_def)
qed

lemma hex_digit_id: "n < 16 \<Longrightarrow> id_char (hex_digit n)"
  by (auto simp: hex_digit_def id_char_def Let_def)

lemma hex_safe: "list_all id_char (hex_EncodeToString bs) \<and> length (hex_EncodeToString bs) = 2 * length bs"
proof -
  have "unat b < 2 ^ LENGTH(8)" for b :: "8 word" by (rule unsigned_less)
  then have "unat b div 16 < 16" for b :: "8 word" by (simp add: less_mult_imp_div_less)
  then show ?thesis by (induction bs) (auto simp: hex_EncodeToString_def hex_digit_id)
qed

lemma NewID_safe:
  assumes "\<And>b. rnd = Some b \<Longrightarrow> length b = 16"
  shows "safe_id (NewID rnd ns) \<and> length (NewID rnd ns) = 32"
proof -
  let ?bs = "case rnd of Some b \<Rightarrow> b | None \<Rightarrow> map (\<lambda>i. ucast (drop_bit (8 * i) ns)) [0..<8] @ map (\<lambda>i. xor (ucast (drop_bit (8 * i) ns)) 0xA5) [0..<8]"
  have "length ?bs = 16" using assms by (auto split: option.split)
  then have "length (NewID rnd ns) = 32" using hex_safe[of ?bs] by (simp add: NewID_def)
  moreover from this have "NewID rnd ns \<noteq> []" by (metis list.size(3) zero_neq_numeral)
  ultimately show ?thesis using hex_safe[of ?bs] by (simp add: safe_id_def NewID_def)
qed

end
