(* ===== verification/Response.thy ===== *)
theory Response
  imports Domain Errs Security Correlation
begin

text \<open>
  \<^verbatim>\<open>internal/api/response/response.go\<close>: the one place that writes to the HTTP response, and the response writer of
  \<^verbatim>\<open>net/http\<close> as far as it is used: the first \<^verbatim>\<open>WriteHeader\<close> fixes the status and the headers, later ones are ignored. A body is
  the document that is encoded; the encoder itself and its failure (which is only logged) are not modelled.
\<close>

section \<open>Documents\<close>

record SourceState =
  ss_Source :: SourceKind
  ss_State :: string

record ErrorBody =
  eb_Code :: code
  eb_Type :: string
  eb_Title :: string
  eb_Status :: nat
  eb_Detail :: string
  eb_CorrelationID :: string
  eb_Retryable :: bool
  eb_Sources :: "SourceState list"

datatype 'p document = DocEnvelope 'p ResponseMeta | DocError ErrorBody | DocText string

record 'p ResponseWriter =
  rw_Header :: Header
  rw_status :: "nat option"
  rw_sent :: Header
  rw_body :: "'p document list"

definition new_rw :: "'p ResponseWriter" where
  "new_rw = \<lparr>rw_Header = [], rw_status = None, rw_sent = [], rw_body = []\<rparr>"

definition header_Set :: "string \<Rightarrow> string \<Rightarrow> 'p ResponseWriter \<Rightarrow> 'p ResponseWriter" where
  "header_Set k v rw = rw\<lparr>rw_Header := gomap_put (canonicalMIMEHeaderKey True k) [v] (rw_Header rw)\<rparr>"

definition WriteHeader :: "nat \<Rightarrow> 'p ResponseWriter \<Rightarrow> 'p ResponseWriter" where
  "WriteHeader st rw = (case rw_status rw of Some _ \<Rightarrow> rw | None \<Rightarrow> rw\<lparr>rw_status := Some st, rw_sent := rw_Header rw\<rparr>)"

definition rw_Write :: "'p document \<Rightarrow> 'p ResponseWriter \<Rightarrow> 'p ResponseWriter" where
  "rw_Write d rw = (let rw' = WriteHeader 200 rw in rw'\<lparr>rw_body := rw_body rw' @ [d]\<rparr>)"

section \<open>Errors\<close>

fun errorTitles :: "code \<Rightarrow> string" where
  "errorTitles CodeInvalidRequest = ''Invalid request''"
| "errorTitles CodeUnauthenticated = ''Authentication required''"
| "errorTitles CodeForbidden = ''Access denied''"
| "errorTitles CodeTenantMismatch = ''Tenant mismatch''"
| "errorTitles CodeNotFound = ''Not found''"
| "errorTitles CodeRateLimited = ''Rate limit exceeded''"
| "errorTitles CodeRequestTooLarge = ''Request too large''"
| "errorTitles CodeUpstreamTimeout = ''Upstream data source timed out''"
| "errorTitles CodeUpstreamUnavailable = ''Upstream data source unavailable''"
| "errorTitles CodeUpstreamInvalidPayload = ''Upstream data source returned an invalid response''"
| "errorTitles CodeSchemaVersionMismatch = ''Upstream schema version is not supported''"
| "errorTitles CodeNoSourceAvailable = ''No data source can satisfy this request''"
| "errorTitles CodeInternal = ''Internal error''"

definition errorTypeBase :: string where "errorTypeBase = ''https://errors.bff.internal/''"

definition typeSlug :: "code \<Rightarrow> string" where
  "typeSlug c = map (\<lambda>ch. if ch = CHR ''_'' then CHR ''-'' else char_lower ch) (code_String c)"

definition response_write :: "'z Ctx_scheme \<Rightarrow> nat \<Rightarrow> 'p document \<Rightarrow> 'p ResponseWriter \<Rightarrow> 'p ResponseWriter" where
  "response_write ctx st doc rw =
     (let rw1 = header_Set ''X-Content-Type-Options'' ''nosniff'' (header_Set ''Content-Type'' ''application/json; charset=utf-8'' rw);
          rw2 = (if cx_CorrelationID ctx \<noteq> [] then header_Set HeaderCorrelationID (cx_CorrelationID ctx) rw1 else rw1)
      in rw_Write doc (WriteHeader st rw2))"

text \<open>Every caller passes an error, never nil.\<close>

definition error_body :: "'z Ctx_scheme \<Rightarrow> goerr \<Rightarrow> SourceState list \<Rightarrow> ErrorBody" where
  "error_body ctx err sources =
     (let c = (case CodeOf (Some err) of Some c \<Rightarrow> c | None \<Rightarrow> CodeInternal); st = HTTPStatusOf (Some err)
      in \<lparr>eb_Code = c, eb_Type = errorTypeBase @ typeSlug c, eb_Title = errorTitles c, eb_Status = st,
          eb_Detail = (case err_As err of Some e \<Rightarrow> Message e | None \<Rightarrow> if st < 500 then ''the request could not be processed'' else []),
          eb_CorrelationID = cx_CorrelationID ctx, eb_Retryable = IsRetryable (Some err), eb_Sources = sources\<rparr>)"

definition response_Error :: "'z Ctx_scheme \<Rightarrow> goerr \<Rightarrow> SourceState list \<Rightarrow> 'p ResponseWriter \<Rightarrow> 'p ResponseWriter" where
  "response_Error ctx err sources rw = response_write ctx (HTTPStatusOf (Some err)) (DocError (error_body ctx err sources)) rw"

fun freshness_string :: "FreshnessState \<Rightarrow> string" where
  "freshness_string FreshnessUnset = []"
| "freshness_string FreshnessFresh = ''FRESH''"
| "freshness_string FreshnessStale = ''STALE''"
| "freshness_string FreshnessUnknown = ''UNKNOWN''"

definition response_OK :: "'z Ctx_scheme \<Rightarrow> 'p \<Rightarrow> ResponseMeta \<Rightarrow> 'p ResponseWriter \<Rightarrow> 'p ResponseWriter" where
  "response_OK ctx d meta rw =
     (let st = (if rm_Partial meta then 206 else 200);
          m = (if rm_CorrelationID meta = [] then meta\<lparr>rm_CorrelationID := cx_CorrelationID ctx\<rparr> else meta);
          rw1 = (if rm_Degraded m then header_Set ''X-BFF-Degraded'' ''true'' rw else rw);
          rw2 = header_Set ''X-BFF-Source'' (rm_RoutingDecision m) (header_Set ''X-BFF-Freshness'' (freshness_string (fr_State (rm_Freshness m))) rw1)
      in response_write ctx st (DocEnvelope d m) rw2)"

section \<open>Lemmas\<close>

lemma header_Set_sel [simp]:
  "rw_status (header_Set k v rw) = rw_status rw" "rw_body (header_Set k v rw) = rw_body rw" "rw_sent (header_Set k v rw) = rw_sent rw"
  by (simp_all add: header_Set_def)

lemma WriteHeader_sel [simp]:
  "rw_body (WriteHeader st rw) = rw_body rw" "rw_status rw = None \<Longrightarrow> rw_status (WriteHeader st rw) = Some st"
  "rw_status rw = Some x \<Longrightarrow> WriteHeader st rw = rw" "rw_status rw = None \<Longrightarrow> rw_sent (WriteHeader st rw) = rw_Header rw"
  by (auto simp: WriteHeader_def split: option.split)

lemma response_write_fresh:
  assumes "rw_status rw = None" "rw_body rw = []"
  shows "rw_status (response_write ctx st doc rw) = Some st \<and> rw_body (response_write ctx st doc rw) = [doc]"
  using assms by (simp add: response_write_def rw_Write_def Let_def)

text \<open>Replacing the cause of a taxonomy error.\<close>

fun with_cause :: "goerr option \<Rightarrow> goerr \<Rightarrow> goerr" where
  "with_cause ca (Tax c m s p r _ d) = Tax c m s p r ca d" | "with_cause ca e = e"

section \<open>Properties\<close>

text \<open>C34: An error document says nothing about the cause. For an error of the taxonomy, the document, its status and its headers are
  those of the same error with any other cause in its place, up to the flag that says whether a retry makes sense; the status in
  the body is the status of the response and the class the code documents.\<close>

theorem error_document_hides_cause:
  assumes "err = Tax c m s p r ca d" "rw_status rw = None" "rw_body rw = []"
  shows "rw_status (response_Error ctx err src rw) = Some (httpStatusByCode c)
    \<and> rw_status (response_Error ctx (with_cause ca' err) src rw) = Some (httpStatusByCode c)
    \<and> rw_sent (response_Error ctx err src rw) = rw_sent (response_Error ctx (with_cause ca' err) src rw)
    \<and> (\<exists>b b'. rw_body (response_Error ctx err src rw) = [DocError b] \<and> rw_body (response_Error ctx (with_cause ca' err) src rw) = [DocError b']
        \<and> b' = b\<lparr>eb_Retryable := eb_Retryable b'\<rparr> \<and> eb_Detail b = m \<and> eb_Status b = httpStatusByCode c)"
proof -
  have st: "HTTPStatusOf (Some (Tax c m s p r x d)) = httpStatusByCode c" for x by (simp add: HTTPStatusOf_CodeOf)
  have body: "error_body ctx (Tax c m s p r x d) src = \<lparr>eb_Code = c, eb_Type = errorTypeBase @ typeSlug c, eb_Title = errorTitles c,
      eb_Status = httpStatusByCode c, eb_Detail = m, eb_CorrelationID = cx_CorrelationID ctx,
      eb_Retryable = IsRetryable (Some (Tax c m s p r x d)), eb_Sources = src\<rparr>" for x
    by (simp add: error_body_def st)
  have sent: "rw_sent (response_write ctx n doc rw) = rw_sent (response_write ctx n doc' rw)" for n doc doc'
    using assms(2) by (simp add: response_write_def rw_Write_def Let_def)
  show ?thesis
    unfolding assms(1) with_cause.simps response_Error_def st body
    using response_write_fresh[OF assms(2,3)] sent by auto
qed

theorem error_document_hides_cause_witness:
  "rw_body (response_Error background (err_Wrap CodeInternal ''failed'' (Opaque ''dial tcp 10.0.0.7'' None)) [] (new_rw :: nat ResponseWriter))
     = rw_body (response_Error background (err_New CodeInternal ''failed'') [] new_rw)"
proof -
  let ?e = "Tax CodeInternal ''failed'' [] [] False (Some (Opaque ''dial tcp 10.0.0.7'' None)) []"
  have e: "err_Wrap CodeInternal ''failed'' (Opaque ''dial tcp 10.0.0.7'' None) = ?e" "err_New CodeInternal ''failed'' = with_cause None ?e"
    by (simp_all add: err_Wrap_def err_New_def defaultRetryable_def)
  have n: "rw_status (new_rw :: nat ResponseWriter) = None" "rw_body (new_rw :: nat ResponseWriter) = []" by (simp_all add: new_rw_def)
  have r: "IsRetryable (Some ?e) = IsRetryable (Some (with_cause None ?e))" by (simp add: IsRetryable_def)
  have b: "rw_body (response_Error background x [] (new_rw :: nat ResponseWriter)) = [DocError (error_body background x [])]" for x
    by (simp add: response_Error_def response_write_fresh[OF n])
  show ?thesis using error_document_hides_cause[OF refl n, where c = CodeInternal and m = "''failed''" and s = "[]" and p = "[]" and r = False
      and ca = "Some (Opaque ''dial tcp 10.0.0.7'' None)" and d = "[]" and ctx = background and src = "[]" and ca' = None]
    r unfolding e b by (auto simp: error_body_def Let_def)
qed

end
