(* ===== verification/RateLimit.thy ===== *)
theory RateLimit
  imports Config Errs
begin

text \<open>
  \<^verbatim>\<open>internal/resilience/ratelimit.go\<close>: one token bucket per tenant in a bounded map, idle buckets
  evicted. The token bucket is \<^verbatim>\<open>golang.org/x/time/rate\<close>: its constructor and its \<^verbatim>\<open>AllowN\<close> are the
  parameters \<open>newLimiter\<close> and \<open>allowN\<close>, and the type of its state is a type variable. A call is
  one step: the re-check under the write lock makes concurrent first calls of a tenant equal to
  one after the other.
\<close>

section \<open>State and operations\<close>

record 'l entry =
  en_lim :: 'l
  en_seen :: time

record 'l RateLimiter =
  lim_cfg :: RateLimitConfig
  lim_limiters :: "'l entry gomap"
  lim_lastGC :: time

definition idleEviction :: duration where "idleEviction = 10 * minute"

definition NewRateLimiter :: "RateLimitConfig \<Rightarrow> time \<Rightarrow> 'l RateLimiter" where
  "NewRateLimiter cfg now = \<lparr>lim_cfg = cfg, lim_limiters = [], lim_lastGC = now\<rparr>"

definition idleFor :: "time \<Rightarrow> 'l entry \<Rightarrow> duration" where
  "idleFor now e = dur_sub now (en_seen e)"

definition gcLocked :: "time \<Rightarrow> 'l RateLimiter \<Rightarrow> 'l RateLimiter" where
  "gcLocked now r =
     (if time_Sub now (lim_lastGC r) < minute then r
      else r\<lparr>lim_lastGC := now,
             lim_limiters := filter (\<lambda>(k, e). \<not> idleFor now e > idleEviction) (lim_limiters r)\<rparr>)"

definition limiter_key :: "RateLimitConfig \<Rightarrow> string \<Rightarrow> string" where
  "limiter_key cfg tenantID = (if rl_PerTenant cfg \<and> tenantID \<noteq> [] then tenantID else ''global'')"

definition use_entry :: "(time \<Rightarrow> 'l \<Rightarrow> bool \<times> 'l) \<Rightarrow> time \<Rightarrow> string \<Rightarrow> 'l entry \<Rightarrow> 'l RateLimiter \<Rightarrow> bool \<times> 'l RateLimiter" where
  "use_entry allowN now key e r =
     (case allowN now (en_lim e) of (ok, lim') \<Rightarrow>
        (ok, r\<lparr>lim_limiters := gomap_put key \<lparr>en_lim = lim', en_seen = now\<rparr> (lim_limiters r)\<rparr>))"

definition limiter_Allow :: "(time \<Rightarrow> 'l \<Rightarrow> bool \<times> 'l) \<Rightarrow> (int \<Rightarrow> int \<Rightarrow> 'l) \<Rightarrow> time \<Rightarrow> string
    \<Rightarrow> 'l RateLimiter \<Rightarrow> bool \<times> 'l RateLimiter" where
  "limiter_Allow allowN newLimiter now tenantID r =
     (if \<not> rl_Enabled (lim_cfg r) then (True, r)
      else let key = limiter_key (lim_cfg r) tenantID
        in case gomap_get (lim_limiters r) key of
             Some e \<Rightarrow> use_entry allowN now key e r
           | None \<Rightarrow>
              (let r1 = gcLocked now r
               in if rl_MaxTenants (lim_cfg r) > 0 \<and> int (length (lim_limiters r1)) \<ge> rl_MaxTenants (lim_cfg r) then (True, r1)
                  else let burst = (if rl_Burst (lim_cfg r) < 1 then rl_RPS (lim_cfg r) else rl_Burst (lim_cfg r))
                    in use_entry allowN now key \<lparr>en_lim = newLimiter (rl_RPS (lim_cfg r)) burst, en_seen = now\<rparr> r1))"

definition limiter_Size :: "'l RateLimiter \<Rightarrow> int" where
  "limiter_Size r = int (length (lim_limiters r))"

section \<open>The map is bounded\<close>

definition limiter_ok :: "'l RateLimiter \<Rightarrow> bool" where
  "limiter_ok r \<longleftrightarrow> distinct (map fst (lim_limiters r))
     \<and> (rl_MaxTenants (lim_cfg r) > 0 \<longrightarrow> limiter_Size r \<le> rl_MaxTenants (lim_cfg r))"

definition limiter_step :: "(time \<Rightarrow> 'l \<Rightarrow> bool \<times> 'l) \<Rightarrow> (int \<Rightarrow> int \<Rightarrow> 'l) \<Rightarrow> time \<times> string \<Rightarrow> 'l RateLimiter \<Rightarrow> 'l RateLimiter" where
  "limiter_step allowN newLimiter op r = snd (limiter_Allow allowN newLimiter (fst op) (snd op) r)"

lemma distinct_fst_filter: "distinct (map fst m) \<Longrightarrow> distinct (map fst (filter P m))"
  by (induction m) auto

lemma gcLocked_sel [simp]: "lim_cfg (gcLocked now r) = lim_cfg r"
  by (simp add: gcLocked_def)

lemma gcLocked_length: "length (lim_limiters (gcLocked now r)) \<le> length (lim_limiters r)"
  by (simp add: gcLocked_def)

lemma gcLocked_ok: "limiter_ok r \<Longrightarrow> limiter_ok (gcLocked now r)"
  unfolding limiter_ok_def limiter_Size_def gcLocked_sel
proof (elim conjE, intro conjI impI)
  assume "distinct (map fst (lim_limiters r))"
  then show "distinct (map fst (lim_limiters (gcLocked now r)))" by (simp add: gcLocked_def distinct_fst_filter)
next
  assume "0 < rl_MaxTenants (lim_cfg r) \<longrightarrow> int (length (lim_limiters r)) \<le> rl_MaxTenants (lim_cfg r)"
    "0 < rl_MaxTenants (lim_cfg r)"
  then show "int (length (lim_limiters (gcLocked now r))) \<le> rl_MaxTenants (lim_cfg r)"
    using gcLocked_length[of now r] by linarith
qed

lemma gomap_get_filter:
  "distinct (map fst m) \<Longrightarrow> gomap_get (filter (\<lambda>(k, e). P e) m) k =
     (case gomap_get m k of Some e \<Rightarrow> if P e then Some e else None | None \<Rightarrow> None)"
proof (induction m)
  case (Cons x m)
  obtain k' e' where x: "x = (k', e')" by (cases x)
  have "k' \<notin> fst ` set m" using Cons.prems x by simp
  then have "gomap_get m k' = None" by (simp add: gomap_get_def map_of_eq_None_iff)
  with Cons x show ?case by (auto split: option.splits)
qed simp

lemma gcLocked_get:
  "limiter_ok r \<Longrightarrow> gomap_get (lim_limiters (gcLocked now r)) k =
     (case gomap_get (lim_limiters r) k of None \<Rightarrow> None
      | Some e \<Rightarrow> if minute \<le> time_Sub now (lim_lastGC r) \<and> idleFor now e > idleEviction then None else Some e)"
  by (auto simp: gcLocked_def gomap_get_filter limiter_ok_def split: option.splits)

lemma limiter_Allow_cfg [simp]: "lim_cfg (snd (limiter_Allow a n now t r)) = lim_cfg r"
  by (auto simp: limiter_Allow_def use_entry_def Let_def split: option.splits prod.splits)

lemma limiter_Allow_ok: "limiter_ok r \<Longrightarrow> limiter_ok (snd (limiter_Allow a n now t r))"
  using gcLocked_ok[of r now]
  by (auto simp: limiter_Allow_def use_entry_def limiter_ok_def limiter_Size_def Let_def gomap_length_put
      split: option.splits prod.splits)

interpretation rate_limiter: guarded_component "limiter_step allowN newLimiter" limiter_ok for allowN newLimiter
  by unfold_locales (simp add: limiter_step_def limiter_Allow_ok)

text \<open>A call of one tenant leaves every other tenant's bucket as it was, or evicts it for idleness.\<close>

lemma limiter_Allow_other:
  assumes "limiter_ok r" "k \<noteq> limiter_key (lim_cfg r) t" "gomap_get (lim_limiters r) k = Some e"
  shows "gomap_get (lim_limiters (snd (limiter_Allow a n now t r))) k
    = (if gomap_get (lim_limiters r) (limiter_key (lim_cfg r) t) = None \<and> rl_Enabled (lim_cfg r)
          \<and> minute \<le> time_Sub now (lim_lastGC r) \<and> idleFor now e > idleEviction then None else Some e)"
  using assms gcLocked_get[OF assms(1), of now k]
  by (auto simp: limiter_Allow_def use_entry_def Let_def split: option.splits prod.splits)

section \<open>Properties\<close>

text \<open>C27: The limiter map never exceeds \<^verbatim>\<open>max_tenants\<close>, whatever tenant ids arrive; a tenant's bucket is
  consulted with that tenant's own state and changes only by that tenant's calls, except that
  an entry idle for more than ten minutes may be evicted when another tenant first appears; and
  with the map full of other tenants a new tenant is admitted without a bucket.\<close>

theorem rate_limiter_isolates_tenants:
  assumes "r = fold (limiter_step allowN newLimiter) ops (NewRateLimiter cfg t0)"
    and "rl_Enabled cfg" "rl_PerTenant cfg" "tenant \<noteq> []" "other \<noteq> tenant" "0 < rl_MaxTenants cfg"
  shows "limiter_Size r \<le> rl_MaxTenants cfg
    \<and> (gomap_get (lim_limiters r) tenant = Some e \<longrightarrow>
         fst (limiter_Allow allowN newLimiter now tenant r) = fst (allowN now (en_lim e)))
    \<and> (gomap_get (lim_limiters r) other = Some e' \<and> \<not> idleFor now e' > idleEviction \<longrightarrow>
         gomap_get (lim_limiters (snd (limiter_Allow allowN newLimiter now tenant r))) other = Some e')
    \<and> (gomap_get (lim_limiters r) tenant = None \<and> limiter_Size (gcLocked now r) = rl_MaxTenants cfg \<longrightarrow>
         fst (limiter_Allow allowN newLimiter now tenant r)
       \<and> gomap_get (lim_limiters (snd (limiter_Allow allowN newLimiter now tenant r))) tenant = None)"
proof -
  have ok: "limiter_ok r" unfolding assms(1)
    by (rule rate_limiter.run_inv) (simp add: limiter_ok_def NewRateLimiter_def limiter_Size_def)
  have cfg: "lim_cfg r = cfg"
  proof -
    have "lim_cfg (fold (limiter_step allowN newLimiter) ops r0) = lim_cfg r0" for r0 :: "'a RateLimiter"
      by (induction ops arbitrary: r0) (simp_all add: limiter_step_def)
    then show ?thesis unfolding assms(1) by (simp add: NewRateLimiter_def)
  qed
  have key: "limiter_key cfg tenant = tenant" using assms(3,4) by (simp add: limiter_key_def)
  have "limiter_Size r \<le> rl_MaxTenants cfg" using ok cfg assms(6) by (simp add: limiter_ok_def)
  moreover have "fst (limiter_Allow allowN newLimiter now tenant r) = fst (allowN now (en_lim e))"
    if "gomap_get (lim_limiters r) tenant = Some e"
    using that cfg key assms(2) by (simp add: limiter_Allow_def use_entry_def split: prod.split)
  moreover have "gomap_get (lim_limiters (snd (limiter_Allow allowN newLimiter now tenant r))) other = Some e'"
    if "gomap_get (lim_limiters r) other = Some e'" "\<not> idleFor now e' > idleEviction"
    using limiter_Allow_other[OF ok _ that(1), of tenant allowN newLimiter now] that(2) cfg key assms(5) by auto
  moreover have "fst (limiter_Allow allowN newLimiter now tenant r)
       \<and> gomap_get (lim_limiters (snd (limiter_Allow allowN newLimiter now tenant r))) tenant = None"
    if "gomap_get (lim_limiters r) tenant = None" "limiter_Size (gcLocked now r) = rl_MaxTenants cfg"
    using that cfg key assms(2,6) gcLocked_get[OF ok, of now tenant]
    by (simp add: limiter_Allow_def limiter_Size_def Let_def)
  ultimately show ?thesis by blast
qed

text \<open>A bucket of whole tokens that is never refilled, as an instance of the parameter.\<close>

definition example_allowN :: "time \<Rightarrow> int \<Rightarrow> bool \<times> int" where
  "example_allowN now tokens = (if tokens > 0 then (True, tokens - 1) else (False, tokens))"

definition example_limit_cfg :: RateLimitConfig where
  "example_limit_cfg = \<lparr>rl_Enabled = True, rl_RPS = 1, rl_Burst = 1, rl_PerTenant = True, rl_MaxTenants = 1\<rparr>"

theorem rate_limiter_isolates_tenants_witness:
  "\<not> fst (limiter_Allow example_allowN (\<lambda>_ b. b) 2 ''acme''
      (fold (limiter_step example_allowN (\<lambda>_ b. b)) [(1, ''acme'')] (NewRateLimiter example_limit_cfg 0)))"
proof -
  let ?r = "fold (limiter_step example_allowN (\<lambda>_ b. b)) [(1, ''acme'')] (NewRateLimiter example_limit_cfg 0)"
  have e: "gomap_get (lim_limiters ?r) ''acme'' = Some \<lparr>en_lim = 0, en_seen = 1\<rparr>" by code_simp
  have c: "rl_Enabled example_limit_cfg" "rl_PerTenant example_limit_cfg" "''acme'' \<noteq> []" "''zeta'' \<noteq> ''acme''"
    "0 < rl_MaxTenants example_limit_cfg" by code_simp+
  from rate_limiter_isolates_tenants[OF refl c, of example_allowN "\<lambda>_ b. b" "[(1, ''acme'')]" 0]
  have "fst (limiter_Allow example_allowN (\<lambda>_ b. b) 2 ''acme'' ?r) = fst (example_allowN 2 0)"
    using e by (metis entry.select_convs(1))
  then show ?thesis by (simp add: example_allowN_def)
qed

end
