(* ===== verification/PolicyFields.thy ===== *)
theory PolicyFields
  imports Config Domain "HOL-Library.List_Lexorder"
begin

text \<open>
  \<^verbatim>\<open>internal/policy/fields.go\<close>: the catalogue that says which sources can supply a canonical
  field, derived from the precedence configuration, and the fields a request type needs.
\<close>

section \<open>The catalogue\<close>

type_synonym FieldCatalog = "SourceKind list gomap"

definition parse_supplier :: "string \<Rightarrow> SourceKind list" where
  "parse_supplier n = (case ParseSourceKind n of (k, ok) \<Rightarrow> if ok \<and> \<not> source_IsNone k then [k] else [])"

definition NewFieldCatalog :: "PrecedenceConfig \<Rightarrow> FieldCatalog" where
  "NewFieldCatalog cfg = map (\<lambda>(field, names). (field, concat (map parse_supplier names))) (pc_Fields cfg)"

definition Suppliers :: "FieldCatalog \<Rightarrow> string \<Rightarrow> SourceKind list" where
  "Suppliers c field = (case gomap_get c field of None \<Rightarrow> [] | Some s \<Rightarrow> s)"

text \<open>The keys of the set \<^verbatim>\<open>SourcesFor\<close> builds, in insertion order.\<close>

fun SourcesFor :: "FieldCatalog \<Rightarrow> string list \<Rightarrow> SourceKind list" where
  "SourcesFor c [] = []"
| "SourcesFor c (f # fs) = (case Suppliers c f of [] \<Rightarrow> SourcesFor c fs
     | s # _ \<Rightarrow> List.insert s (SourcesFor c fs))"

text \<open>The loop of \<^verbatim>\<open>ExclusiveTo\<close>; the last argument is \<^verbatim>\<open>only\<close> once \<^verbatim>\<open>seen\<close>.\<close>

fun ExclusiveTo_loop :: "FieldCatalog \<Rightarrow> string list \<Rightarrow> SourceKind option \<Rightarrow> SourceKind \<times> bool" where
  "ExclusiveTo_loop c [] only = (case only of None \<Rightarrow> (SourceNone, False) | Some k \<Rightarrow> (k, True))"
| "ExclusiveTo_loop c (f # fs) only = (case Suppliers c f of
      [] \<Rightarrow> ExclusiveTo_loop c fs only
    | [s] \<Rightarrow> (case only of None \<Rightarrow> ExclusiveTo_loop c fs (Some s)
        | Some k \<Rightarrow> if s \<noteq> k then (SourceNone, False) else ExclusiveTo_loop c fs only)
    | _ \<Rightarrow> (SourceNone, False))"

definition ExclusiveTo :: "FieldCatalog \<Rightarrow> string list \<Rightarrow> SourceKind \<times> bool" where
  "ExclusiveTo c fs = ExclusiveTo_loop c fs None"

definition KnownFields :: "FieldCatalog \<Rightarrow> string list" where
  "KnownFields c = sort (map fst c)"

definition DefaultFieldsFor :: "string \<Rightarrow> string list" where
  "DefaultFieldsFor requestType =
     (let t = strings_ToLower requestType
      in if t = ''resource_status'' then [''status'']
         else if t = ''resource_configuration'' then [''configuration'']
         else if t = ''resource_read'' then [''status'', ''subState'', ''configuration'', ''owner'', ''metrics'',
           ''topology'', ''labels'', ''customerId'']
         else if t = ''execution_status'' then [''executionStatus'', ''workflowSteps'']
         else if t = ''execution_history'' then [''executionHistory'']
         else if t = ''resource_details'' then [''status'', ''subState'', ''configuration'', ''owner'', ''metrics'',
           ''topology'', ''latestExecution'', ''executionHistory'']
         else [])"

section \<open>Lemmas\<close>

lemma parse_supplier_valid: "k \<in> set (parse_supplier n) \<Longrightarrow> \<not> source_IsNone k"
  by (auto simp: parse_supplier_def split: prod.splits if_splits)

lemma Suppliers_valid: "k \<in> set (Suppliers (NewFieldCatalog cfg) f) \<Longrightarrow> \<not> source_IsNone k"
proof -
  assume k: "k \<in> set (Suppliers (NewFieldCatalog cfg) f)"
  then obtain s where "gomap_get (NewFieldCatalog cfg) f = Some s" "k \<in> set s"
    by (cases "gomap_get (NewFieldCatalog cfg) f") (auto simp: Suppliers_def)
  then have "(f, s) \<in> set (NewFieldCatalog cfg)" "k \<in> set s" by (auto intro: gomap_get_in_set)
  then show ?thesis by (auto simp: NewFieldCatalog_def dest: parse_supplier_valid)
qed

text \<open>What the loop of \<open>ExclusiveTo\<close> establishes: a positive answer names the single supplier of
  every field that has one, and at least one field has one.\<close>

definition supplied_only_by :: "FieldCatalog \<Rightarrow> SourceKind \<Rightarrow> string \<Rightarrow> bool" where
  "supplied_only_by c k f \<longleftrightarrow> Suppliers c f = [] \<or> Suppliers c f = [k]"

lemma ExclusiveTo_loop_iff:
  "ExclusiveTo_loop c fs only = (k, True) \<longleftrightarrow>
     list_all (supplied_only_by c k) fs
   \<and> (case only of Some k' \<Rightarrow> k' = k | None \<Rightarrow> list_ex (\<lambda>f. Suppliers c f = [k]) fs)"
  by (induction c fs only rule: ExclusiveTo_loop.induct)
    (auto simp: supplied_only_by_def split: list.splits option.splits)

lemma ExclusiveTo_iff:
  "ExclusiveTo c fs = (k, True) \<longleftrightarrow>
     list_all (supplied_only_by c k) fs \<and> list_ex (\<lambda>f. Suppliers c f = [k]) fs"
  by (simp add: ExclusiveTo_def ExclusiveTo_loop_iff)

lemma ExclusiveTo_False: "snd (ExclusiveTo c fs) = False \<Longrightarrow> fst (ExclusiveTo c fs) = SourceNone"
proof -
  have "snd (ExclusiveTo_loop c fs only) = False \<Longrightarrow> fst (ExclusiveTo_loop c fs only) = SourceNone" for only
    by (induction c fs only rule: ExclusiveTo_loop.induct) (auto split: list.splits option.splits if_splits)
  then show "snd (ExclusiveTo c fs) = False \<Longrightarrow> fst (ExclusiveTo c fs) = SourceNone"
    by (simp add: ExclusiveTo_def)
qed

lemma SourcesFor_set: "set (SourcesFor c fs) = {hd (Suppliers c f) | f. f \<in> set fs \<and> Suppliers c f \<noteq> []}"
proof (induction c fs rule: SourcesFor.induct)
  case (2 c f fs)
  then show ?case by (cases "Suppliers c f") (auto, (metis list.sel(1) list.distinct(1))+)
qed simp

lemma SourcesFor_exclusive:
  "ExclusiveTo c fs = (k, True) \<Longrightarrow> set (SourcesFor c fs) = {k}"
  by (auto simp: ExclusiveTo_iff SourcesFor_set supplied_only_by_def list_all_iff list_ex_iff)
    (metis list.sel(1) list.distinct(1))

lemma KnownFields_sorted: "sorted (KnownFields c)"
  by (simp add: KnownFields_def)

lemma KnownFields_set: "set (KnownFields c) = set (map fst c)"
  by (simp add: KnownFields_def)

end
