(* ===== verification/Precedence.thy ===== *)
theory Precedence
  imports PolicyFields
begin

text \<open>
  \<^verbatim>\<open>internal/policy/precedence.go\<close>: which source's candidate wins a contested field. A Go value of type
  \<^verbatim>\<open>any\<close> is \<open>anyval\<close>, one constructor per dynamic type that \<^verbatim>\<open>equalValue\<close> distinguishes and one for the rest. The
  conflict callback (a metric) is not modelled.
\<close>

datatype anyval = VNil | VString string | VResourceStatus ResourceStatus | VExecutionStatus ExecutionStatus
  | VInt int | VFloat rat | VBool bool | VOther string

record Candidate =
  ca_Source :: SourceKind
  ca_Present :: bool
  ca_ObservedAt :: time
  ca_Stale :: bool
  ca_Value :: "anyval"

datatype PrecedenceRule = RulePrecedenceOnlyCandidate | RulePrecedenceConfiguredOrder | RulePrecedenceExecutionRunning
  | RulePrecedenceFreshBeatsStale | RulePrecedenceNoCandidate

record FieldDecision =
  fd_Field :: string
  fd_Winner :: SourceKind
  fd_Rule :: PrecedenceRule
  fd_Conflict :: bool
  fd_Rejected :: "SourceKind list"
  fd_Value :: "anyval"

record SourcePrecedencePolicy =
  sp_order :: "SourceKind list gomap"
  sp_overrideFields :: "string list"
  sp_warnOnConflict :: bool

definition NewPrecedence :: "PrecedenceConfig \<Rightarrow> SourcePrecedencePolicy" where
  "NewPrecedence cfg = \<lparr>sp_order = map (\<lambda>(field, names). (field, concat (map parse_supplier names))) (pc_Fields cfg),
     sp_overrideFields = pc_ExecutionOverridesWhenRunning cfg, sp_warnOnConflict = pc_ConflictWarning cfg\<rparr>"

record Context =
  px_ExecutionInProgress :: bool
  px_InFlightExecutionID :: string

fun equalValue :: "anyval \<Rightarrow> anyval \<Rightarrow> bool" where
  "equalValue (VString a) (VString b) \<longleftrightarrow> a = b"
| "equalValue (VResourceStatus a) (VResourceStatus b) \<longleftrightarrow> a = b"
| "equalValue (VExecutionStatus a) (VExecutionStatus b) \<longleftrightarrow> a = b"
| "equalValue (VInt a) (VInt b) \<longleftrightarrow> a = b"
| "equalValue (VFloat a) (VFloat b) \<longleftrightarrow> a = b"
| "equalValue (VBool a) (VBool b) \<longleftrightarrow> a = b"
| "equalValue VNil VNil \<longleftrightarrow> True"
| "equalValue _ _ \<longleftrightarrow> False"

definition differ :: "Candidate list \<Rightarrow> bool" where
  "differ present = (case present of
     a # b # cs \<Rightarrow> list_ex (\<lambda>c. \<not> equalValue (ca_Value a) (ca_Value c)) (b # cs) | _ \<Rightarrow> False)"

definition pick :: "Candidate list \<Rightarrow> SourceKind \<Rightarrow> Candidate option" where
  "pick cs k = find (\<lambda>c. ca_Source c = k) cs"

fun firstInOrder :: "Candidate list \<Rightarrow> SourceKind list \<Rightarrow> bool \<Rightarrow> Candidate option" where
  "firstInOrder cs [] skipStale = None"
| "firstInOrder cs (want # order) skipStale =
     (case find (\<lambda>c. ca_Source c = want \<and> \<not> (skipStale \<and> ca_Stale c)) cs of
        Some c \<Rightarrow> Some c | None \<Rightarrow> firstInOrder cs order skipStale)"

definition anyStale :: "Candidate list \<Rightarrow> bool" where "anyStale cs = list_ex ca_Stale cs"

definition others :: "Candidate list \<Rightarrow> SourceKind \<Rightarrow> SourceKind list" where
  "others cs winner = map ca_Source (filter (\<lambda>c. ca_Source c \<noteq> winner) cs)"

definition Order :: "SourcePrecedencePolicy \<Rightarrow> string \<Rightarrow> SourceKind list" where
  "Order p field = (case gomap_get (sp_order p) field of None \<Rightarrow> [] | Some ks \<Rightarrow> ks)"

definition OverridesWhenRunning :: "SourcePrecedencePolicy \<Rightarrow> string \<Rightarrow> bool" where
  "OverridesWhenRunning p field \<longleftrightarrow> field \<in> set (sp_overrideFields p)"

definition won :: "string \<Rightarrow> Candidate list \<Rightarrow> PrecedenceRule \<Rightarrow> bool \<Rightarrow> SourceKind \<Rightarrow> anyval \<Rightarrow> FieldDecision" where
  "won field present rl conflict winner v = \<lparr>fd_Field = field, fd_Winner = winner, fd_Rule = rl, fd_Conflict = conflict,
     fd_Rejected = others present winner, fd_Value = v\<rparr>"

definition resolve_order :: "SourcePrecedencePolicy \<Rightarrow> string \<Rightarrow> Candidate list \<Rightarrow> Candidate \<Rightarrow> FieldDecision" where
  "resolve_order p field present first =
     (let conflict = differ present;
          order = Order p field;
          take_first = won field present RulePrecedenceConfiguredOrder conflict (ca_Source first) (ca_Value first)
      in if length order = 0 then take_first
         else case firstInOrder present order True of
           Some c \<Rightarrow> won field present (if anyStale present then RulePrecedenceFreshBeatsStale else RulePrecedenceConfiguredOrder)
                      conflict (ca_Source c) (ca_Value c)
         | None \<Rightarrow> (case firstInOrder present order False of
             Some c \<Rightarrow> won field present RulePrecedenceConfiguredOrder conflict (ca_Source c) (ca_Value c)
           | None \<Rightarrow> take_first))"

definition Resolve :: "SourcePrecedencePolicy \<Rightarrow> string \<Rightarrow> Candidate list \<Rightarrow> Context \<Rightarrow> FieldDecision" where
  "Resolve p field candidates pctx =
     (let present = filter ca_Present candidates in
      case present of
        [] \<Rightarrow> \<lparr>fd_Field = field, fd_Winner = SourceNone, fd_Rule = RulePrecedenceNoCandidate, fd_Conflict = False,
               fd_Rejected = [], fd_Value = VNil\<rparr>
      | [c] \<Rightarrow> \<lparr>fd_Field = field, fd_Winner = ca_Source c, fd_Rule = RulePrecedenceOnlyCandidate, fd_Conflict = False,
               fd_Rejected = [], fd_Value = ca_Value c\<rparr>
      | c0 # _ \<Rightarrow>
          if px_ExecutionInProgress pctx \<and> OverridesWhenRunning p field
          then (case pick present SourceExecution of
                  Some c \<Rightarrow> won field present RulePrecedenceExecutionRunning (differ present) SourceExecution (ca_Value c)
                | None \<Rightarrow> resolve_order p field present c0)
          else resolve_order p field present c0)"

section \<open>Lemmas\<close>

lemma firstInOrder_Some:
  assumes "firstInOrder cs order skip = Some c"
  shows "c \<in> set cs \<and> \<not> (skip \<and> ca_Stale c) \<and> (\<exists>pre post. order = pre @ ca_Source c # post
    \<and> (\<forall>d \<in> set cs. ca_Source d \<in> set pre \<longrightarrow> skip \<and> ca_Stale d))"
  using assms
proof (induction order)
  case (Cons w order)
  show ?case
  proof (cases "find (\<lambda>c. ca_Source c = w \<and> \<not> (skip \<and> ca_Stale c)) cs")
    case None
    then have no: "\<forall>d \<in> set cs. ca_Source d = w \<longrightarrow> skip \<and> ca_Stale d" by (auto simp: find_None_iff)
    from None Cons.prems have "firstInOrder cs order skip = Some c" by simp
    from Cons.IH[OF this] obtain pre post where "c \<in> set cs" "\<not> (skip \<and> ca_Stale c)"
      "order = pre @ ca_Source c # post" "\<forall>d \<in> set cs. ca_Source d \<in> set pre \<longrightarrow> skip \<and> ca_Stale d" by blast
    then show ?thesis using no by (intro conjI exI[of _ "w # pre"] exI[of _ post]) auto
  next
    case (Some d)
    then have "c = d" using Cons.prems by simp
    moreover have "d \<in> set cs" "ca_Source d = w" "\<not> (skip \<and> ca_Stale d)" using Some by (auto simp: find_Some_iff)
    ultimately show ?thesis by (intro conjI exI[of _ "[]"] exI[of _ order]) auto
  qed
qed simp

lemma firstInOrder_None:
  "firstInOrder cs order skip = None \<longleftrightarrow> (\<forall>c \<in> set cs. ca_Source c \<in> set order \<longrightarrow> skip \<and> ca_Stale c)"
proof (induction order)
  case (Cons w order)
  show ?case
  proof (cases "find (\<lambda>c. ca_Source c = w \<and> \<not> (skip \<and> ca_Stale c)) cs")
    case None
    then have "firstInOrder cs (w # order) skip = firstInOrder cs order skip" by simp
    moreover have "\<forall>c \<in> set cs. ca_Source c = w \<longrightarrow> skip \<and> ca_Stale c" using None by (auto simp: find_None_iff)
    ultimately show ?thesis using Cons.IH by auto
  next
    case (Some d)
    then have "d \<in> set cs" "ca_Source d = w" "\<not> (skip \<and> ca_Stale d)" by (auto simp: find_Some_iff)
    then show ?thesis using Some by auto
  qed
qed simp

lemma won_simps [simp]:
  "fd_Winner (won f ps r b w v) = w" "fd_Rule (won f ps r b w v) = r" "fd_Conflict (won f ps r b w v) = b"
  "fd_Rejected (won f ps r b w v) = others ps w" "fd_Value (won f ps r b w v) = v" "fd_Field (won f ps r b w v) = f"
  by (simp_all add: won_def)

text \<open>The decision offers what one of the present candidates offered.\<close>

definition offered :: "FieldDecision \<Rightarrow> Candidate list \<Rightarrow> bool" where
  "offered d cs \<longleftrightarrow> (\<exists>c \<in> set cs. ca_Present c \<and> ca_Source c = fd_Winner d \<and> ca_Value c = fd_Value d)"

lemma resolve_order_offered:
  assumes "first \<in> set present" "\<forall>c \<in> set present. ca_Present c"
  shows "offered (resolve_order p field present first) present"
  using assms firstInOrder_Some[of present "Order p field" True] firstInOrder_Some[of present "Order p field" False]
  by (auto simp: resolve_order_def offered_def Let_def split: option.splits)

text \<open>The shape of a resolution by how many candidates are present.\<close>

lemma Resolve_many:
  assumes "filter ca_Present cs = c0 # c1 # rest"
  shows "Resolve p field cs pctx =
    (if px_ExecutionInProgress pctx \<and> OverridesWhenRunning p field
     then (case pick (c0 # c1 # rest) SourceExecution of
             Some c \<Rightarrow> won field (c0 # c1 # rest) RulePrecedenceExecutionRunning (differ (c0 # c1 # rest)) SourceExecution (ca_Value c)
           | None \<Rightarrow> resolve_order p field (c0 # c1 # rest) c0)
     else resolve_order p field (c0 # c1 # rest) c0)"
  by (simp add: Resolve_def assms Let_def)

lemma Resolve_offered:
  assumes "\<exists>c \<in> set cs. ca_Present c"
  shows "offered (Resolve p field cs pctx) cs"
proof -
  have sub: "offered d (filter ca_Present cs) \<Longrightarrow> offered d cs" for d by (auto simp: offered_def)
  have all: "\<forall>c \<in> set (filter ca_Present cs). ca_Present c" by simp
  consider "filter ca_Present cs = []" | c where "filter ca_Present cs = [c]"
    | c0 c1 rest where "filter ca_Present cs = c0 # c1 # rest"
    by (metis neq_Nil_conv)
  then show ?thesis
  proof cases
    case 1
    then show ?thesis using assms by (auto simp: filter_empty_conv)
  next
    case (2 c)
    then have "ca_Present c" "c \<in> set cs" by (auto simp: filter_eq_Cons_iff)
    then show ?thesis using 2 by (auto simp: Resolve_def offered_def)
  next
    case (3 c0 c1 rest)
    let ?ps = "c0 # c1 # rest"
    have o: "offered (resolve_order p field ?ps c0) ?ps" using all by (intro resolve_order_offered) (simp_all add: 3)
    have "offered (won field ?ps RulePrecedenceExecutionRunning (differ ?ps) SourceExecution (ca_Value c)) ?ps"
      if "pick ?ps SourceExecution = Some c" for c
      using that all unfolding 3 by (auto simp: offered_def pick_def find_Some_iff nth_Cons split: nat.splits if_splits)
    then show ?thesis using o by (intro sub) (auto simp: Resolve_many[OF 3] 3 split: option.splits)
  qed
qed


lemma Resolve_none: "\<not> (\<exists>c \<in> set cs. ca_Present c) \<Longrightarrow>
    fd_Winner (Resolve p field cs pctx) = SourceNone \<and> fd_Rule (Resolve p field cs pctx) = RulePrecedenceNoCandidate"
proof -
  assume "\<not> (\<exists>c \<in> set cs. ca_Present c)"
  then have "filter ca_Present cs = []" by (simp add: filter_empty_conv)
  then show ?thesis by (simp add: Resolve_def)
qed

text \<open>Nothing of the resolution looks at the time of a candidate.\<close>

lemma filter_strip: "(\<And>c. P (g c) = P c) \<Longrightarrow> filter P (map g cs) = map g (filter P cs)"
  by (simp add: filter_map comp_def)

lemma strip_time:
  assumes "\<And>c. ca_Source (g c) = ca_Source c \<and> ca_Present (g c) = ca_Present c \<and> ca_Stale (g c) = ca_Stale c \<and> ca_Value (g c) = ca_Value c"
  shows "find (\<lambda>c. Q (ca_Source c) (ca_Stale c)) (map g cs) = map_option g (find (\<lambda>c. Q (ca_Source c) (ca_Stale c)) cs)"
    and "firstInOrder (map g cs) order skip = map_option g (firstInOrder cs order skip)"
    and "others (map g cs) k = others cs k" and "anyStale (map g cs) = anyStale cs" and "differ (map g cs) = differ cs"
proof -
  show f: "find (\<lambda>c. Q (ca_Source c) (ca_Stale c)) (map g cs) = map_option g (find (\<lambda>c. Q (ca_Source c) (ca_Stale c)) cs)" for Q
    by (induction cs) (simp_all add: assms)
  show "firstInOrder (map g cs) order skip = map_option g (firstInOrder cs order skip)"
    by (induction order) (simp_all add: f[of "\<lambda>s b. s = _ \<and> \<not> (skip \<and> b)", simplified] split: option.split)
  show "others (map g cs) k = others cs k" by (induction cs) (simp_all add: others_def assms)
  show "anyStale (map g cs) = anyStale cs" by (induction cs) (simp_all add: anyStale_def assms)
  show "differ (map g cs) = differ cs" by (simp add: differ_def assms list_ex_iff split: list.split)
qed

lemma resolve_order_time:
  assumes "\<And>c. ca_Source (g c) = ca_Source c \<and> ca_Present (g c) = ca_Present c \<and> ca_Stale (g c) = ca_Stale c \<and> ca_Value (g c) = ca_Value c"
  shows "resolve_order p field (map g cs) (g c0) = resolve_order p field cs c0"
  by (simp add: resolve_order_def won_def Let_def strip_time(2-)[OF assms] assms split: option.split)

lemma Resolve_time:
  assumes g: "\<And>c. ca_Source (g c) = ca_Source c \<and> ca_Present (g c) = ca_Present c \<and> ca_Stale (g c) = ca_Stale c \<and> ca_Value (g c) = ca_Value c"
  shows "Resolve p field (map g cs) pctx = Resolve p field cs pctx"
proof -
  have f: "filter ca_Present (map g cs) = map g (filter ca_Present cs)" by (rule filter_strip) (simp add: g)
  consider "filter ca_Present cs = []" | c where "filter ca_Present cs = [c]"
    | c0 c1 rest where "filter ca_Present cs = c0 # c1 # rest" by (metis neq_Nil_conv)
  then show ?thesis
  proof cases
    case (3 c0 c1 rest)
    then have g3: "filter ca_Present (map g cs) = g c0 # g c1 # map g rest" using f by simp
    have pk: "pick (map g (c0 # c1 # rest)) SourceExecution = map_option g (pick (c0 # c1 # rest) SourceExecution)"
      unfolding pick_def using strip_time(1)[OF g, of "\<lambda>s b. s = SourceExecution" "c0 # c1 # rest"] .
    show ?thesis
      using pk resolve_order_time[OF g, of p field "c0 # c1 # rest" c0] strip_time(3,5)[OF g, of "c0 # c1 # rest"]
      by (simp add: Resolve_many[OF 3] Resolve_many[OF g3] won_def g split: option.split)
  qed (simp_all add: Resolve_def f g)
qed

lemma resolve_order_winner:
  assumes named: "\<exists>c \<in> set cs. ca_Present c \<and> ca_Source c \<in> set (Order p field)"
  shows "\<exists>pre post. Order p field = pre @ fd_Winner (resolve_order p field (filter ca_Present cs) c0) # post \<and>
    (if \<exists>c \<in> set cs. ca_Present c \<and> ca_Source c \<in> set (Order p field) \<and> \<not> ca_Stale c
     then (\<forall>c \<in> set cs. ca_Present c \<and> ca_Source c \<in> set pre \<longrightarrow> ca_Stale c)
       \<and> (\<exists>c \<in> set cs. ca_Present c \<and> ca_Source c = fd_Winner (resolve_order p field (filter ca_Present cs) c0) \<and> \<not> ca_Stale c)
     else \<forall>c \<in> set cs. ca_Present c \<longrightarrow> ca_Source c \<notin> set pre)"
proof -
  let ?ps = "filter ca_Present cs" let ?o = "Order p field"
  have ne: "length ?o \<noteq> 0" using named by auto
  show ?thesis
  proof (cases "firstInOrder ?ps ?o True")
    case (Some c)
    then have w: "fd_Winner (resolve_order p field ?ps c0) = ca_Source c" using ne by (simp add: resolve_order_def Let_def)
    from firstInOrder_Some[OF Some] obtain pre post where c: "c \<in> set ?ps" "\<not> ca_Stale c" "?o = pre @ ca_Source c # post"
      "\<forall>d \<in> set ?ps. ca_Source d \<in> set pre \<longrightarrow> ca_Stale d" by auto
    moreover have "\<exists>c \<in> set cs. ca_Present c \<and> ca_Source c \<in> set ?o \<and> \<not> ca_Stale c" using c by force
    ultimately show ?thesis unfolding w by (intro exI[of _ pre] exI[of _ post]) auto
  next
    case None
    then have none: "\<not> (\<exists>c \<in> set cs. ca_Present c \<and> ca_Source c \<in> set ?o \<and> \<not> ca_Stale c)"
      by (auto simp: firstInOrder_None)
    obtain c where f: "firstInOrder ?ps ?o False = Some c"
      using named firstInOrder_None[of ?ps ?o False] by (cases "firstInOrder ?ps ?o False") auto
    then have w: "fd_Winner (resolve_order p field ?ps c0) = ca_Source c" using ne None by (simp add: resolve_order_def Let_def)
    from firstInOrder_Some[OF f] obtain pre post where "?o = pre @ ca_Source c # post"
      "\<forall>d \<in> set ?ps. ca_Source d \<notin> set pre" by auto
    then show ?thesis unfolding w using none by (intro exI[of _ pre] exI[of _ post]) auto
  qed
qed

section \<open>Properties\<close>

text \<open>How a contested field is decided. With nothing present nobody wins; otherwise the winner and the value are those
  of a candidate that is present. With at least two present: a running execution wins a field nominated for
  override whenever it offers a candidate; without that, if the configured order names a source
  with a non-stale candidate, the winner is the first such source of the order, so a stale candidate never
  beats a fresh one that the order names; and if it names only stale ones, the first source
  of the order that answered wins.\<close>

theorem precedence_decides:
  "(\<not> (\<exists>c \<in> set cs. ca_Present c) \<longrightarrow> fd_Winner (Resolve p field cs pctx) = SourceNone)
   \<and> ((\<exists>c \<in> set cs. ca_Present c) \<longrightarrow> offered (Resolve p field cs pctx) cs)
   \<and> (length (filter ca_Present cs) \<ge> 2 \<and> px_ExecutionInProgress pctx \<and> OverridesWhenRunning p field
        \<and> (\<exists>c \<in> set cs. ca_Present c \<and> ca_Source c = SourceExecution)
        \<longrightarrow> fd_Winner (Resolve p field cs pctx) = SourceExecution)
   \<and> (length (filter ca_Present cs) \<ge> 2 \<and> \<not> (px_ExecutionInProgress pctx \<and> OverridesWhenRunning p field)
        \<and> (\<exists>c \<in> set cs. ca_Present c \<and> ca_Source c \<in> set (Order p field)) \<longrightarrow>
        (\<exists>pre post. Order p field = pre @ fd_Winner (Resolve p field cs pctx) # post \<and>
          (if \<exists>c \<in> set cs. ca_Present c \<and> ca_Source c \<in> set (Order p field) \<and> \<not> ca_Stale c
           then (\<forall>c \<in> set cs. ca_Present c \<and> ca_Source c \<in> set pre \<longrightarrow> ca_Stale c)
             \<and> (\<exists>c \<in> set cs. ca_Present c \<and> ca_Source c = fd_Winner (Resolve p field cs pctx) \<and> \<not> ca_Stale c)
           else \<forall>c \<in> set cs. ca_Present c \<longrightarrow> ca_Source c \<notin> set pre)))"
  (is "?none \<and> ?off \<and> ?run \<and> ?ord")
proof (intro conjI)
  show ?none using Resolve_none by blast
  show ?off using Resolve_offered by blast
  show ?run
  proof (intro impI, elim conjE bexE)
    fix c assume two: "2 \<le> length (filter ca_Present cs)" and o: "px_ExecutionInProgress pctx" "OverridesWhenRunning p field"
      and c: "c \<in> set cs" "ca_Present c" "ca_Source c = SourceExecution"
    obtain c0 c1 rest where ps: "filter ca_Present cs = c0 # c1 # rest" using two by (auto simp: numeral_2_eq_2 Suc_le_length_iff)
    have "c \<in> set (filter ca_Present cs)" using c by simp
    then have "c \<in> set (c0 # c1 # rest)" unfolding ps .
    then have "pick (c0 # c1 # rest) SourceExecution \<noteq> None" using c(3)
      unfolding pick_def find_None_iff by blast
    then show "fd_Winner (Resolve p field cs pctx) = SourceExecution" using o by (auto simp: Resolve_many[OF ps])
  qed
  show ?ord
  proof (intro impI, elim conjE)
    assume two: "2 \<le> length (filter ca_Present cs)" and o: "\<not> (px_ExecutionInProgress pctx \<and> OverridesWhenRunning p field)"
      and named: "\<exists>c \<in> set cs. ca_Present c \<and> ca_Source c \<in> set (Order p field)"
    obtain c0 c1 rest where ps: "filter ca_Present cs = c0 # c1 # rest" using two by (auto simp: numeral_2_eq_2 Suc_le_length_iff)
    have r: "Resolve p field cs pctx = resolve_order p field (filter ca_Present cs) c0" using o by (auto simp: Resolve_many[OF ps] ps)
    show "\<exists>pre post. Order p field = pre @ fd_Winner (Resolve p field cs pctx) # post \<and>
          (if \<exists>c \<in> set cs. ca_Present c \<and> ca_Source c \<in> set (Order p field) \<and> \<not> ca_Stale c
           then (\<forall>c \<in> set cs. ca_Present c \<and> ca_Source c \<in> set pre \<longrightarrow> ca_Stale c)
             \<and> (\<exists>c \<in> set cs. ca_Present c \<and> ca_Source c = fd_Winner (Resolve p field cs pctx) \<and> \<not> ca_Stale c)
           else \<forall>c \<in> set cs. ca_Present c \<longrightarrow> ca_Source c \<notin> set pre)"
      unfolding r by (rule resolve_order_winner[OF named])
  qed
qed


definition example_policy :: SourcePrecedencePolicy where
  "example_policy = \<lparr>sp_order = [(''status'', [SourceOperational, SourceExecution])], sp_overrideFields = [''status''], sp_warnOnConflict = True\<rparr>"

definition example_candidate :: "SourceKind \<Rightarrow> bool \<Rightarrow> anyval \<Rightarrow> Candidate" where
  "example_candidate k stale v = \<lparr>ca_Source = k, ca_Present = True, ca_ObservedAt = 0, ca_Stale = stale, ca_Value = v\<rparr>"

theorem precedence_decides_witness:
  "fd_Winner (Resolve example_policy ''status'' [example_candidate SourceOperational False (VString ''a''), example_candidate SourceExecution False (VString ''b'')]
      \<lparr>px_ExecutionInProgress = True, px_InFlightExecutionID = ''x''\<rparr>) = SourceExecution"
  using precedence_decides[of "[example_candidate SourceOperational False (VString ''a''), example_candidate SourceExecution False (VString ''b'')]"
      example_policy "''status''" "\<lparr>px_ExecutionInProgress = True, px_InFlightExecutionID = ''x''\<rparr>"]
  by (simp add: example_candidate_def example_policy_def OverridesWhenRunning_def)

text \<open>Recency is not authority: changing when the candidates were observed, in any way, never changes the decision.\<close>

theorem precedence_ignores_recency:
  "Resolve p field (map (\<lambda>c. c\<lparr>ca_ObservedAt := f c\<rparr>) cs) pctx = Resolve p field cs pctx"
  by (rule Resolve_time) simp

end
