(* ===== verification/Aggregation.thy ===== *)
theory Aggregation
  imports Precedence Errs
begin

text \<open>
  \<^verbatim>\<open>internal/aggregation/aggregator.go\<close>: the concurrent fan-out over the sources and the merge of what they
  returned. A task's \<^verbatim>\<open>Run\<close> is what it returns and how long it takes under the deadline it is given; the goroutines
  of a fan-out finish in some order, the argument \<open>finished\<close>, each writing its own slot of the result
  slice under the mutex. \<open>started i\<close> is when goroutine \<open>i\<close> derived its context. Hooks are not modelled.
\<close>

section \<open>Fan-out\<close>

record Task =
  tk_Source :: SourceKind
  tk_Name :: string
  tk_Required :: bool
  tk_Timeout :: duration
  tk_Run :: "time option \<Rightarrow> goerr option \<times> duration"

record TaskResult =
  tr_Source :: SourceKind
  tr_Name :: string
  tr_Required :: bool
  tr_Err :: "goerr option"
  tr_Duration :: duration
  tr_TimedOut :: bool

definition zero_TaskResult :: TaskResult where
  "zero_TaskResult = \<lparr>tr_Source = SourceUnset, tr_Name = [], tr_Required = False, tr_Err = None, tr_Duration = 0, tr_TimedOut = False\<rparr>"

record FanOutResult =
  fo_Results :: "TaskResult list"
  fo_Partial :: bool
  fo_Elapsed :: duration
  fo_Err :: "goerr option"

definition taskDeadline :: "time option \<Rightarrow> duration \<Rightarrow> time \<Rightarrow> time option" where
  "taskDeadline parent timeout now =
     (if timeout > 0
      then (case parent of None \<Rightarrow> Some (now + timeout) | Some d \<Rightarrow> Some (if d < now + timeout then d else now + timeout))
      else parent)"

definition runTask :: "time option \<Rightarrow> time \<Rightarrow> Task \<Rightarrow> TaskResult" where
  "runTask ctx now t =
     (let (err, d) = tk_Run t (taskDeadline ctx (tk_Timeout t) now)
      in \<lparr>tr_Source = tk_Source t, tr_Name = tk_Name t, tr_Required = tk_Required t, tr_Err = err, tr_Duration = d,
          tr_TimedOut = (err \<noteq> None \<and> CodeOf err = Some CodeUpstreamTimeout)\<rparr>)"

fun tally_result :: "TaskResult \<Rightarrow> FanOutResult \<Rightarrow> FanOutResult" where
  "tally_result r out =
     (if tr_Err r = None then out
      else if \<not> tr_Required r \<and> IsNotFound (tr_Err r) then out
      else if tr_Required r then (if fo_Err out = None then out\<lparr>fo_Err := tr_Err r\<rparr> else out)
      else out\<lparr>fo_Partial := True\<rparr>)"

definition FanOut :: "time option \<Rightarrow> (nat \<Rightarrow> time) \<Rightarrow> nat list \<Rightarrow> duration \<Rightarrow> Task list \<Rightarrow> FanOutResult" where
  "FanOut ctx started finished elapsed tasks =
     (if length tasks = 0 then \<lparr>fo_Results = [], fo_Partial = False, fo_Elapsed = 0, fo_Err = None\<rparr>
      else
        let results = fold (\<lambda>i rs. rs[i := runTask ctx (started i) (tasks ! i)]) finished (replicate (length tasks) zero_TaskResult)
        in fold tally_result results \<lparr>fo_Results = results, fo_Partial = False, fo_Elapsed = elapsed, fo_Err = None\<rparr>)"

definition ResultFor :: "FanOutResult \<Rightarrow> SourceKind \<Rightarrow> string \<Rightarrow> TaskResult option" where
  "ResultFor f k name = find (\<lambda>r. tr_Source r = k \<and> tr_Name r = name) (fo_Results f)"

fun failed_sources :: "TaskResult list \<Rightarrow> SourceKind list \<Rightarrow> SourceKind list" where
  "failed_sources [] seen = []"
| "failed_sources (r # rs) seen =
     (if tr_Err r = None \<or> tr_Source r \<in> set seen then failed_sources rs seen
      else tr_Source r # failed_sources rs (tr_Source r # seen))"

definition FailedSources :: "FanOutResult \<Rightarrow> SourceKind list" where
  "FailedSources f = failed_sources (fo_Results f) []"

definition warning_of :: "TaskResult \<Rightarrow> Warning" where
  "warning_of r =
     (if tr_TimedOut r
      then \<lparr>wa_Code = WarnSourceTimeout, wa_Message = ''this source did not answer within its time budget and has been omitted'', wa_Source = tr_Source r\<rparr>
      else \<lparr>wa_Code = WarnSourceUnavailable, wa_Message = ''data from this source could not be retrieved and has been omitted'', wa_Source = tr_Source r\<rparr>)"

definition Warnings :: "FanOutResult \<Rightarrow> Warning list" where
  "Warnings f = map warning_of (filter (\<lambda>r. \<not> (tr_Err r = None \<or> tr_Required r) \<and> \<not> IsNotFound (tr_Err r)) (fo_Results f))"

section \<open>Merge\<close>

record Inputs =
  in_Operational :: "Resource option"
  in_OperationalFreshness :: Freshness
  in_OperationalStale :: bool
  in_LatestExecution :: "Execution option"
  in_History :: "ExecutionList option"

record MergeOutput =
  mo_Details :: ResourceDetails
  mo_Provenance :: "SourceKind gomap"
  mo_Conflicts :: "FieldDecision list"
  mo_Warnings :: "Warning list"

definition merge_context :: "Inputs \<Rightarrow> Context" where
  "merge_context i =
     (let p0 = \<lparr>px_ExecutionInProgress = False, px_InFlightExecutionID = []\<rparr>;
          p1 = (case in_LatestExecution i of
                  Some e \<Rightarrow> if exec_InProgress (ex_Status e) then \<lparr>px_ExecutionInProgress = True, px_InFlightExecutionID = ex_ExecutionID e\<rparr> else p0
                | None \<Rightarrow> p0)
      in case in_Operational i of
           Some r \<Rightarrow> if re_InFlightExecutionID r \<noteq> [] \<and> px_InFlightExecutionID p1 = [] then p1\<lparr>px_InFlightExecutionID := re_InFlightExecutionID r\<rparr> else p1
         | None \<Rightarrow> p1)"

definition statusOf :: "Resource option \<Rightarrow> anyval" where
  "statusOf r = (case r of None \<Rightarrow> VNil | Some r \<Rightarrow> VResourceStatus (re_Status r))"
definition subStateOf :: "Resource option \<Rightarrow> anyval" where
  "subStateOf r = (case r of None \<Rightarrow> VNil | Some r \<Rightarrow> VString (re_SubState r))"
definition customerOf :: "Resource option \<Rightarrow> anyval" where
  "customerOf r = (case r of None \<Rightarrow> VNil | Some r \<Rightarrow> VString (re_CustomerID r))"
definition observedAt :: "Resource option \<Rightarrow> time" where
  "observedAt r = (case r of None \<Rightarrow> 0 | Some r \<Rightarrow> re_ObservedAt r)"
definition statusAfter :: "Execution option \<Rightarrow> anyval" where
  "statusAfter e = (case e of None \<Rightarrow> VNil | Some e \<Rightarrow> VResourceStatus (ex_ResourceStatusAfter e))"
definition operationOf :: "Execution option \<Rightarrow> anyval" where
  "operationOf e = (case e of None \<Rightarrow> VNil | Some e \<Rightarrow> VString (ex_Operation e))"
definition customerOfExec :: "Execution option \<Rightarrow> anyval" where
  "customerOfExec e = (case e of None \<Rightarrow> VNil | Some e \<Rightarrow> VString (ex_CustomerID e))"
definition updatedAt :: "Execution option \<Rightarrow> time" where
  "updatedAt e = (case e of None \<Rightarrow> 0 | Some e \<Rightarrow> ex_UpdatedAt e)"

definition status_candidates :: "Inputs \<Rightarrow> Candidate list" where
  "status_candidates i =
     [\<lparr>ca_Source = SourceOperational,
       ca_Present = (case in_Operational i of None \<Rightarrow> False | Some r \<Rightarrow> re_Status r \<noteq> StatusUnset \<and> re_Status r \<noteq> StatusUnknown),
       ca_ObservedAt = observedAt (in_Operational i), ca_Stale = in_OperationalStale i, ca_Value = statusOf (in_Operational i)\<rparr>,
      \<lparr>ca_Source = SourceExecution,
       ca_Present = (case in_LatestExecution i of None \<Rightarrow> False
         | Some e \<Rightarrow> ex_ResourceStatusAfter e \<noteq> StatusUnset \<and> ex_ResourceStatusAfter e \<noteq> StatusUnknown),
       ca_ObservedAt = updatedAt (in_LatestExecution i), ca_Stale = False, ca_Value = statusAfter (in_LatestExecution i)\<rparr>]"

definition substate_candidates :: "Inputs \<Rightarrow> Candidate list" where
  "substate_candidates i =
     [\<lparr>ca_Source = SourceOperational, ca_Present = (case in_Operational i of None \<Rightarrow> False | Some r \<Rightarrow> re_SubState r \<noteq> []),
       ca_ObservedAt = 0, ca_Stale = in_OperationalStale i, ca_Value = subStateOf (in_Operational i)\<rparr>,
      \<lparr>ca_Source = SourceExecution, ca_Present = (case in_LatestExecution i of None \<Rightarrow> False | Some e \<Rightarrow> ex_Operation e \<noteq> []),
       ca_ObservedAt = 0, ca_Stale = False, ca_Value = operationOf (in_LatestExecution i)\<rparr>]"

definition customer_candidates :: "Inputs \<Rightarrow> Candidate list" where
  "customer_candidates i =
     [\<lparr>ca_Source = SourceOperational, ca_Present = (case in_Operational i of None \<Rightarrow> False | Some r \<Rightarrow> re_CustomerID r \<noteq> []),
       ca_ObservedAt = 0, ca_Stale = False, ca_Value = customerOf (in_Operational i)\<rparr>,
      \<lparr>ca_Source = SourceExecution, ca_Present = (case in_LatestExecution i of None \<Rightarrow> False | Some e \<Rightarrow> ex_CustomerID e \<noteq> []),
       ca_ObservedAt = 0, ca_Stale = False, ca_Value = customerOfExec (in_LatestExecution i)\<rparr>]"

definition operationalFields :: "string list" where
  "operationalFields = [''configuration'', ''metrics'', ''topology'', ''owner'', ''labels'', ''type'']"

definition base_resource :: "Inputs \<Rightarrow> string \<Rightarrow> string \<Rightarrow> Resource \<times> SourceKind gomap" where
  "base_resource i tenantID resourceID =
     (case in_Operational i of
        None \<Rightarrow> (zero_Resource\<lparr>re_TenantID := tenantID, re_ResourceID := resourceID\<rparr>, [])
      | Some r \<Rightarrow> (r\<lparr>re_TenantID := tenantID, re_ResourceID := resourceID\<rparr>,
          fold (\<lambda>f m. gomap_put f SourceOperational m) operationalFields []))"

definition provenance_put :: "string \<Rightarrow> FieldDecision \<Rightarrow> SourceKind gomap \<Rightarrow> SourceKind gomap" where
  "provenance_put field d prov = (if source_IsNone (fd_Winner d) then prov else gomap_put field (fd_Winner d) prov)"

definition apply_status :: "FieldDecision \<Rightarrow> Resource \<Rightarrow> Resource" where
  "apply_status d res = (if source_IsNone (fd_Winner d) then res
     else case fd_Value d of VResourceStatus v \<Rightarrow> res\<lparr>re_Status := v\<rparr> | _ \<Rightarrow> res)"

definition apply_substate :: "FieldDecision \<Rightarrow> Resource \<Rightarrow> Resource" where
  "apply_substate d res = (if source_IsNone (fd_Winner d) then res
     else case fd_Value d of VString v \<Rightarrow> if v \<noteq> [] then res\<lparr>re_SubState := v\<rparr> else res | _ \<Rightarrow> res)"

definition apply_customer :: "FieldDecision \<Rightarrow> Resource \<Rightarrow> Resource" where
  "apply_customer d res = (if source_IsNone (fd_Winner d) then res
     else case fd_Value d of VString v \<Rightarrow> if v \<noteq> [] then res\<lparr>re_CustomerID := v\<rparr> else res | _ \<Rightarrow> res)"

definition conflict_warning :: "FieldDecision \<Rightarrow> Warning" where
  "conflict_warning d = \<lparr>wa_Code = WarnConflictResolved,
     wa_Message = ''the two sources reported different values for status; precedence policy selected '' @ source_string (fd_Winner d),
     wa_Source = fd_Winner d\<rparr>"

definition Merge :: "SourcePrecedencePolicy \<Rightarrow> Inputs \<Rightarrow> string \<Rightarrow> string \<Rightarrow> MergeOutput" where
  "Merge p i tenantID resourceID =
     (let pctx = merge_context i;
          (res0, prov0) = base_resource i tenantID resourceID;
          st = Resolve p ''status'' (status_candidates i) pctx;
          sub = Resolve p ''subState'' (substate_candidates i) pctx;
          cust = Resolve p ''customerId'' (customer_candidates i) pctx;
          res1 = apply_customer cust (apply_substate sub (apply_status st res0));
          prov1 = provenance_put ''customerId'' cust (provenance_put ''subState'' sub (provenance_put ''status'' st prov0));
          (res2, prov2) = (case in_LatestExecution i of
             None \<Rightarrow> (res1, prov1)
           | Some e \<Rightarrow> ((if re_InFlightExecutionID res1 = [] \<and> exec_InProgress (ex_Status e)
                         then res1\<lparr>re_InFlightExecutionID := ex_ExecutionID e\<rparr> else res1),
                        gomap_put ''latestExecution'' SourceExecution prov1));
          history = (case in_History i of Some h \<Rightarrow> el_Items h | None \<Rightarrow> []);
          prov3 = (if length history > 0 then gomap_put ''executionHistory'' SourceExecution prov2 else prov2)
      in \<lparr>mo_Details = \<lparr>rd_Resource = res2, rd_LatestExecution = in_LatestExecution i, rd_ExecutionHistory = history\<rparr>,
          mo_Provenance = prov3,
          mo_Conflicts = (if fd_Conflict st then [st] else []) @ (if fd_Conflict cust then [cust] else []),
          mo_Warnings = (if fd_Conflict st \<and> sp_warnOnConflict p then [conflict_warning st] else [])\<rparr>)"

definition field_present :: "ResourceDetails \<Rightarrow> string \<Rightarrow> bool" where
  "field_present d f =
     (let r = rd_Resource d in
      if f = ''status'' then re_Status r \<noteq> StatusUnset \<and> re_Status r \<noteq> StatusUnknown
      else if f = ''subState'' then re_SubState r \<noteq> []
      else if f = ''configuration'' then length (re_Configuration r) > 0
      else if f = ''metrics'' then length (re_Metrics r) > 0
      else if f = ''topology'' then re_Topology r \<noteq> None
      else if f = ''owner'' then re_Owner r \<noteq> None
      else if f = ''labels'' then length (re_Labels r) > 0
      else if f = ''customerId'' then re_CustomerID r \<noteq> []
      else if f = ''latestExecution'' then rd_LatestExecution d \<noteq> None
      else if f = ''executionHistory'' then length (rd_ExecutionHistory d) > 0
      else True)"

definition Completeness :: "ResourceDetails option \<Rightarrow> string list \<Rightarrow> rat" where
  "Completeness d requested = (case d of None \<Rightarrow> 0
    | Some d \<Rightarrow> if length requested = 0 then 0
        else f64_div (f64_of_int (int (length (filter (field_present d) requested)))) (f64_of_int (int (length requested))))"


section \<open>Lemmas: fan-out\<close>

declare tally_result.simps [simp del]

lemma write_slots:
  assumes "distinct is" "set is \<subseteq> {..<length rs}" "j < length rs"
  shows "fold (\<lambda>i rs. rs[i := g i]) is rs ! j = (if j \<in> set is then g j else rs ! j)"
  using assms by (induction "is" arbitrary: rs) (auto simp: nth_list_update)

lemma write_slots_length: "length (fold (\<lambda>i rs. rs[i := g i]) is rs) = length rs"
  by (induction "is" arbitrary: rs) auto

lemma write_all_slots:
  assumes "mset is = mset [0..<n]"
  shows "fold (\<lambda>i rs. rs[i := g i]) is (replicate n z) = map g [0..<n]"
proof -
  have d: "distinct is" "set is = {0..<n}" using assms mset_eq_imp_distinct_iff[OF assms] mset_eq_setD[OF assms] by auto
  show ?thesis
    by (rule nth_equalityI) (use d write_slots[of "is" "replicate n z" _ g] in \<open>auto simp: write_slots_length lessThan_atLeast0\<close>)
qed

definition optional_failure :: "TaskResult \<Rightarrow> bool" where
  "optional_failure r \<longleftrightarrow> \<not> tr_Required r \<and> tr_Err r \<noteq> None \<and> \<not> IsNotFound (tr_Err r)"

lemma tally_fold:
  "fold tally_result rs out = out\<lparr>fo_Partial := fo_Partial out \<or> list_ex optional_failure rs,
     fo_Err := (case fo_Err out of Some e \<Rightarrow> Some e
       | None \<Rightarrow> (case find (\<lambda>r. tr_Required r \<and> tr_Err r \<noteq> None) rs of None \<Rightarrow> None | Some r \<Rightarrow> tr_Err r))\<rparr>"
proof (induction rs arbitrary: out)
  case Nil
  show ?case by (simp split: option.split)
next
  case (Cons r rs)
  have eq: "fold tally_result (r # rs) out = fold tally_result rs (tally_result r out)" by simp
  show ?case unfolding eq Cons.IH[of "tally_result r out"]
    by (cases "tr_Err r"; cases "tr_Required r"; cases "fo_Err out"; cases "IsNotFound (tr_Err r)")
      (simp_all add: tally_result.simps optional_failure_def[of r])
qed

section \<open>Lemmas: merge\<close>

lemma offered_two:
  assumes "offered d [a, b]"
  shows "fd_Winner d = ca_Source a \<and> ca_Present a \<and> fd_Value d = ca_Value a
    \<or> fd_Winner d = ca_Source b \<and> ca_Present b \<and> fd_Value d = ca_Value b"
  using assms by (auto simp: offered_def)

lemma winner_none_iff:
  assumes "set (map ca_Source cs) \<subseteq> {SourceOperational, SourceExecution}"
  shows "source_IsNone (fd_Winner (Resolve p f cs pctx)) \<longleftrightarrow> \<not> (\<exists>c \<in> set cs. ca_Present c)"
proof
  assume n: "source_IsNone (fd_Winner (Resolve p f cs pctx))"
  show "\<not> (\<exists>c \<in> set cs. ca_Present c)"
  proof
    assume "\<exists>c \<in> set cs. ca_Present c"
    then obtain c where "c \<in> set cs" "ca_Source c = fd_Winner (Resolve p f cs pctx)"
      using Resolve_offered[of cs p f pctx] by (auto simp: offered_def)
    with n assms show False by force
  qed
qed (use Resolve_none in simp)


lemma Resolve_running:
  assumes "fd_Rule (Resolve p f cs pctx) = RulePrecedenceExecutionRunning"
  shows "px_ExecutionInProgress pctx \<and> OverridesWhenRunning p f"
proof (rule ccontr)
  assume n: "\<not> ?thesis"
  have "fd_Rule (resolve_order p f ps c) \<noteq> RulePrecedenceExecutionRunning" for ps c
    by (simp add: resolve_order_def Let_def split: option.split)
  then have "fd_Rule (Resolve p f cs pctx) \<noteq> RulePrecedenceExecutionRunning"
    using n unfolding Resolve_def Let_def by (auto split: list.split)
  then show False using assms by simp
qed

lemma apply_simps [simp]:
  "re_TenantID (apply_status d r) = re_TenantID r" "re_ResourceID (apply_status d r) = re_ResourceID r"
  "re_TenantID (apply_substate d r) = re_TenantID r" "re_ResourceID (apply_substate d r) = re_ResourceID r"
  "re_TenantID (apply_customer d r) = re_TenantID r" "re_ResourceID (apply_customer d r) = re_ResourceID r"
  "re_Status (apply_substate d r) = re_Status r" "re_Status (apply_customer d r) = re_Status r"
  by (simp_all add: apply_status_def apply_substate_def apply_customer_def split: anyval.split)

lemma base_prov_status: "gomap_get (snd (base_resource i t r)) ''status'' = None"
  by (simp add: base_resource_def operationalFields_def split: option.split)

lemma Merge_status:
  "re_TenantID (rd_Resource (mo_Details (Merge p i t r))) = t \<and> re_ResourceID (rd_Resource (mo_Details (Merge p i t r))) = r
    \<and> re_Status (rd_Resource (mo_Details (Merge p i t r)))
        = re_Status (apply_status (Resolve p ''status'' (status_candidates i) (merge_context i)) (fst (base_resource i t r)))
    \<and> gomap_get (mo_Provenance (Merge p i t r)) ''status''
        = (if source_IsNone (fd_Winner (Resolve p ''status'' (status_candidates i) (merge_context i))) then None
           else Some (fd_Winner (Resolve p ''status'' (status_candidates i) (merge_context i))))"
proof -
  obtain res0 prov0 where b: "base_resource i t r = (res0, prov0)" by (cases "base_resource i t r")
  have b0: "re_TenantID res0 = t" "re_ResourceID res0 = r" "gomap_get prov0 ''status'' = None"
    using base_prov_status[of i t r] b by (auto simp: base_resource_def split: option.splits)
  show ?thesis
    using b0 by (simp add: Merge_def Let_def b provenance_put_def split: option.split)
qed

lemma fanout_results:
  assumes "mset finished = mset [0..<length tasks]"
  shows "fo_Results (FanOut ctx started finished elapsed tasks) = map (\<lambda>i. runTask ctx (started i) (tasks ! i)) [0..<length tasks]
    \<and> fo_Err (FanOut ctx started finished elapsed tasks)
        = (case find (\<lambda>r. tr_Required r \<and> tr_Err r \<noteq> None) (fo_Results (FanOut ctx started finished elapsed tasks)) of None \<Rightarrow> None | Some r \<Rightarrow> tr_Err r)
    \<and> (fo_Partial (FanOut ctx started finished elapsed tasks) \<longleftrightarrow> (\<exists>r \<in> set (fo_Results (FanOut ctx started finished elapsed tasks)). optional_failure r))
    \<and> map wa_Source (Warnings (FanOut ctx started finished elapsed tasks))
        = map tr_Source (filter optional_failure (fo_Results (FanOut ctx started finished elapsed tasks)))"
proof -
  have w: "Warnings g = map warning_of (filter optional_failure (fo_Results g))" for g
    unfolding Warnings_def optional_failure_def by (intro arg_cong[where f = "map _"] filter_cong) auto
  have "map wa_Source (Warnings g) = map tr_Source (filter optional_failure (fo_Results g))" for g
    by (simp add: w warning_of_def)
  then show ?thesis
    by (cases "tasks = []") (auto simp: FanOut_def tally_fold write_all_slots[OF assms] list_ex_iff Let_def)
qed

section \<open>Properties\<close>

text \<open>C32: A fan-out is deterministic and honest about failures. Whatever the order in which the goroutines finish, the result
  slice holds every task's own outcome in task order; the error is that of the first required task that
  failed, so there is none exactly when every required task succeeded; the result is partial
  exactly when some optional task failed with something other than not-found; and there is one warning for each
  such task, naming its source, so a partial result always explains itself.\<close>

theorem fanout_deterministic:
  assumes "mset finished = mset [0..<length tasks]" "f = FanOut ctx started finished elapsed tasks"
  shows "fo_Results f = map (\<lambda>i. runTask ctx (started i) (tasks ! i)) [0..<length tasks]
    \<and> fo_Err f = (case find (\<lambda>r. tr_Required r \<and> tr_Err r \<noteq> None) (fo_Results f) of None \<Rightarrow> None | Some r \<Rightarrow> tr_Err r)
    \<and> (fo_Partial f \<longleftrightarrow> (\<exists>r \<in> set (fo_Results f). optional_failure r))
    \<and> map wa_Source (Warnings f) = map tr_Source (filter optional_failure (fo_Results f))"
  using fanout_results[OF assms(1)] assms(2) by blast

definition example_task :: "SourceKind \<Rightarrow> bool \<Rightarrow> goerr option \<Rightarrow> Task" where
  "example_task k req e = \<lparr>tk_Source = k, tk_Name = ''t'', tk_Required = req, tk_Timeout = second, tk_Run = (\<lambda>_. (e, 1))\<rparr>"

theorem fanout_deterministic_witness:
  "fo_Partial (FanOut None (\<lambda>_. 0) [1, 0] 1 [example_task SourceOperational True None, example_task SourceExecution False (Some ErrCircuitOpen)])"
proof -
  have m: "mset [1, 0] = mset [0..<length [example_task SourceOperational True None, example_task SourceExecution False (Some ErrCircuitOpen)]]"
    by (simp add: upt_rec)
  show ?thesis
    using fanout_deterministic[OF m refl, of None "\<lambda>_. 0" 1]
    by (simp add: upt_rec runTask_def example_task_def optional_failure_def IsNotFound_def)
qed

text \<open>C33: The merged view is truthful about where each contested value came from. It carries the requested tenant and resource,
  whatever the sources said; the provenance of status names a source exactly when one of them offered a status, and then the
  status shown is the one that source reported (the observed one of the operational record, the predicted one of
  the latest execution); and a predicted status outranks an observed one through the running-execution override only
  while that execution is actually in progress.\<close>

theorem merge_is_truthful:
  assumes "out = Merge p i tenantID resourceID" "st = Resolve p ''status'' (status_candidates i) (merge_context i)"
  shows "re_TenantID (rd_Resource (mo_Details out)) = tenantID \<and> re_ResourceID (rd_Resource (mo_Details out)) = resourceID
    \<and> (gomap_get (mo_Provenance out) ''status'' = None \<longleftrightarrow> \<not> (\<exists>c \<in> set (status_candidates i). ca_Present c))
    \<and> (gomap_get (mo_Provenance out) ''status'' = Some SourceOperational \<longrightarrow>
         (\<exists>r. in_Operational i = Some r \<and> re_Status (rd_Resource (mo_Details out)) = re_Status r))
    \<and> (gomap_get (mo_Provenance out) ''status'' = Some SourceExecution \<longrightarrow>
         (\<exists>e. in_LatestExecution i = Some e \<and> re_Status (rd_Resource (mo_Details out)) = ex_ResourceStatusAfter e))
    \<and> (fd_Rule st = RulePrecedenceExecutionRunning \<longrightarrow>
         (\<exists>e. in_LatestExecution i = Some e \<and> exec_InProgress (ex_Status e) \<and> ''status'' \<in> set (sp_overrideFields p)))"
proof -
  let ?c = "status_candidates i"
  have src: "set (map ca_Source ?c) \<subseteq> {SourceOperational, SourceExecution}" by (simp add: status_candidates_def)
  note none = winner_none_iff[OF src, of p "''status''" "merge_context i", folded assms(2)]
  have prov: "gomap_get (mo_Provenance out) ''status'' = (if source_IsNone (fd_Winner st) then None else Some (fd_Winner st))"
    using Merge_status[of p i tenantID resourceID] assms by simp
  have val: "re_Status (rd_Resource (mo_Details out)) = re_Status (apply_status st (fst (base_resource i tenantID resourceID)))"
    and ids: "re_TenantID (rd_Resource (mo_Details out)) = tenantID" "re_ResourceID (rd_Resource (mo_Details out)) = resourceID"
    using Merge_status[of p i tenantID resourceID] assms by simp_all
  have off: "\<not> source_IsNone (fd_Winner st) \<Longrightarrow>
      fd_Winner st = SourceOperational \<and> (\<exists>r. in_Operational i = Some r \<and> fd_Value st = VResourceStatus (re_Status r))
      \<or> fd_Winner st = SourceExecution \<and> (\<exists>e. in_LatestExecution i = Some e \<and> fd_Value st = VResourceStatus (ex_ResourceStatusAfter e))"
    using none Resolve_offered[of ?c p "''status''" "merge_context i"] assms(2)
    by (auto dest!: offered_two simp: status_candidates_def statusOf_def statusAfter_def split: option.splits)
  have run: "fd_Rule st = RulePrecedenceExecutionRunning \<Longrightarrow> px_ExecutionInProgress (merge_context i) \<and> OverridesWhenRunning p ''status''"
    using Resolve_running[of p "''status''" ?c "merge_context i"] assms(2) by simp
  show ?thesis
  proof (intro conjI impI ids)
    show "gomap_get (mo_Provenance out) ''status'' = None \<longleftrightarrow> \<not> (\<exists>c \<in> set ?c. ca_Present c)" using prov none by simp
    assume "gomap_get (mo_Provenance out) ''status'' = Some SourceOperational"
    then show "\<exists>r. in_Operational i = Some r \<and> re_Status (rd_Resource (mo_Details out)) = re_Status r"
      using prov off val by (auto simp: apply_status_def split: if_splits)
  next
    assume "gomap_get (mo_Provenance out) ''status'' = Some SourceExecution"
    then show "\<exists>e. in_LatestExecution i = Some e \<and> re_Status (rd_Resource (mo_Details out)) = ex_ResourceStatusAfter e"
      using prov off val by (auto simp: apply_status_def split: if_splits)
  next
    assume "fd_Rule st = RulePrecedenceExecutionRunning"
    from run[OF this] show "\<exists>e. in_LatestExecution i = Some e \<and> exec_InProgress (ex_Status e) \<and> ''status'' \<in> set (sp_overrideFields p)"
      by (auto simp: merge_context_def Let_def OverridesWhenRunning_def split: option.splits if_splits)
  qed
qed


definition example_inputs :: Inputs where
  "example_inputs = \<lparr>in_Operational = Some (zero_Resource\<lparr>re_Status := StatusActive, re_InFlightExecutionID := ''e1''\<rparr>),
     in_OperationalFreshness = zero_Freshness, in_OperationalStale = False,
     in_LatestExecution = Some (zero_Execution\<lparr>ex_ExecutionID := ''e1'', ex_Status := ExecCompleted, ex_ResourceStatusAfter := StatusSuspended\<rparr>),
     in_History = None\<rparr>"

theorem merge_is_truthful_witness:
  "re_TenantID (rd_Resource (mo_Details (Merge example_policy example_inputs ''acme'' ''r1''))) = ''acme''
    \<and> fd_Rule (Resolve example_policy ''status'' (status_candidates example_inputs) (merge_context example_inputs)) \<noteq> RulePrecedenceExecutionRunning"
  using merge_is_truthful[OF refl refl, of example_policy example_inputs "''acme''" "''r1''"]
  by (auto simp: example_inputs_def exec_InProgress_def)

end
