(* ===== verification/Classifier.thy ===== *)
theory Classifier
  imports PolicyFields Errs
begin

text \<open>
  \<^verbatim>\<open>internal/classifier/classifier.go\<close>: from an API request to the router's vocabulary. The route
  table, the resolution of the fields and of the consistency level, and the page limit. The
  configuration and the catalogue are arguments: \<^verbatim>\<open>c.cfg.Get()\<close> is one read.
\<close>

section \<open>Consistency levels\<close>

datatype Consistency = ConsistencyEventual | ConsistencyBounded | ConsistencyStrong

text \<open>The Go constants are numbered in this order and compared as integers.\<close>

fun consistency_iota :: "Consistency \<Rightarrow> nat" where
  "consistency_iota ConsistencyEventual = 0"
| "consistency_iota ConsistencyBounded = 1"
| "consistency_iota ConsistencyStrong = 2"

lemma consistency_iota_inject: "consistency_iota a = consistency_iota b \<longleftrightarrow> a = b"
  by (cases a; cases b) simp_all

instantiation Consistency :: linorder
begin

definition less_eq_Consistency :: "Consistency \<Rightarrow> Consistency \<Rightarrow> bool" where
  "less_eq_Consistency a b \<longleftrightarrow> consistency_iota a \<le> consistency_iota b"

definition less_Consistency :: "Consistency \<Rightarrow> Consistency \<Rightarrow> bool" where
  "less_Consistency a b \<longleftrightarrow> consistency_iota a < consistency_iota b"

instance
  by standard (auto simp: less_eq_Consistency_def less_Consistency_def consistency_iota_inject)

end

fun consistency_String :: "Consistency \<Rightarrow> string" where
  "consistency_String ConsistencyStrong = ''strong''"
| "consistency_String ConsistencyBounded = ''bounded''"
| "consistency_String ConsistencyEventual = ''eventual''"

definition ParseConsistency :: "string \<Rightarrow> Consistency \<times> bool" where
  "ParseConsistency s =
     (let t = strings_ToLower (strings_TrimSpace s)
      in if t = ''strong'' then (ConsistencyStrong, True)
         else if t = ''bounded'' then (ConsistencyBounded, True)
         else if t = ''eventual'' \<or> t = [] then (ConsistencyEventual, True)
         else (ConsistencyEventual, False))"

section \<open>Input and output\<close>

record Input =
  in_Route :: string
  in_Method :: string
  in_TenantID :: string
  in_ResourceID :: string
  in_ExecutionID :: string
  in_RequestedFields :: "string list"
  in_RequestedConsistency :: string
  in_IncludeAudit :: bool
  in_Limit :: int
  in_Cursor :: string

record Classification =
  cl_Type :: string
  cl_TenantID :: string
  cl_ResourceID :: string
  cl_ExecutionID :: string
  cl_RequiredFields :: "string list"
  cl_Consistency :: Consistency
  cl_MaxLatency :: duration
  cl_IncludeAudit :: bool
  cl_Limit :: int
  cl_Cursor :: string

definition Routes :: "string gomap" where
  "Routes =
    [(''GET /api/v1/resources/{resourceId}'', ''resource_read''),
     (''GET /api/v1/resources/{resourceId}/status'', ''resource_status''),
     (''GET /api/v1/resources/{resourceId}/configuration'', ''resource_configuration''),
     (''GET /api/v1/resources/{resourceId}/details'', ''resource_details''),
     (''GET /api/v1/resources/{resourceId}/executions'', ''execution_history''),
     (''GET /api/v1/resources/{resourceId}/executions/{executionId}'', ''execution_status'')]"

section \<open>Classify\<close>

fun validateFields :: "FieldCatalog \<Rightarrow> string list \<Rightarrow> goerr option" where
  "validateFields c [] = None"
| "validateFields c (f # fs) =
     (if length (Suppliers c f) = 0
      then Some (WithDetail ''known_fields'' (DStrs (KnownFields c)) (WithDetail ''field'' (DStr f)
             (WithOp ''classifier.fields'' (err_New CodeInvalidRequest ''unknown field requested''))))
      else validateFields c fs)"

definition classify_fields :: "Input \<Rightarrow> RoutingRule \<Rightarrow> string \<Rightarrow> string list" where
  "classify_fields inp rule rt =
     (let f1 = in_RequestedFields inp;
          f2 = (if length f1 = 0 then ru_RequiredFields rule else f1)
      in if length f2 = 0 then DefaultFieldsFor rt else f2)"

definition classify_consistency :: "Input \<Rightarrow> RoutingRule \<Rightarrow> goerr + Consistency" where
  "classify_consistency inp rule =
     (let base = fst (ParseConsistency (ru_Consistency rule))
      in if in_RequestedConsistency inp \<noteq> [] then
           (case ParseConsistency (in_RequestedConsistency inp) of (req, ok) \<Rightarrow>
              if \<not> ok then Inl (WithOp ''classifier.consistency'' (err_New CodeInvalidRequest
                     ''consistency must be one of strong, bounded, eventual''))
              else Inr (if req > base then req else base))
         else Inr base)"

definition classify_limit :: "Input \<Rightarrow> Config \<Rightarrow> int" where
  "classify_limit inp cfg =
     (let ex = src_Execution (cfg_Sources cfg);
          limit = (if in_Limit inp \<le> 0 then exs_HistoryPageSize ex else in_Limit inp);
          maxItems = exs_MaxHistoryItems ex
      in if maxItems > 0 \<and> limit > maxItems then maxItems else limit)"

definition Classify :: "Config \<Rightarrow> FieldCatalog \<Rightarrow> Input \<Rightarrow> goerr + Classification" where
  "Classify cfg catalog inp =
     (case gomap_get Routes (in_Method inp @ '' '' @ in_Route inp) of
        None \<Rightarrow> Inl (WithDetail ''route'' (DStr (in_Route inp)) (WithOp ''classifier.route''
                  (err_New CodeInvalidRequest ''unrecognised API route'')))
      | Some rt \<Rightarrow>
         (case ResolveRule cfg (in_TenantID inp) rt of (rule, ok) \<Rightarrow>
            if \<not> ok then Inl (WithDetail ''request_type'' (DStr rt) (WithOp ''classifier.rule''
                  (err_New CodeInternal ''no routing policy is configured for this request type'')))
            else let fields = classify_fields inp rule rt
              in case validateFields catalog fields of Some e \<Rightarrow> Inl e
                 | None \<Rightarrow>
                    (case classify_consistency inp rule of Inl e \<Rightarrow> Inl e
                     | Inr consistency \<Rightarrow>
                        Inr \<lparr>cl_Type = rt, cl_TenantID = in_TenantID inp, cl_ResourceID = in_ResourceID inp,
                             cl_ExecutionID = in_ExecutionID inp, cl_RequiredFields = fields,
                             cl_Consistency = consistency, cl_MaxLatency = ru_MaxLatency rule,
                             cl_IncludeAudit = in_IncludeAudit inp, cl_Limit = classify_limit inp cfg,
                             cl_Cursor = in_Cursor inp\<rparr>)))"

section \<open>Lemmas\<close>

lemma validateFields_None_iff: "validateFields c fs = None \<longleftrightarrow> list_all (\<lambda>f. Suppliers c f \<noteq> []) fs"
  by (induction c fs rule: validateFields.induct) auto

lemma validateFields_code: "validateFields c fs = Some e \<Longrightarrow> CodeOf (Some e) = Some CodeInvalidRequest"
  by (induction c fs rule: validateFields.induct) (auto split: if_splits)

lemma classify_consistency_tightens:
  "classify_consistency inp rule = Inr k \<Longrightarrow> fst (ParseConsistency (ru_Consistency rule)) \<le> k"
  by (auto simp: classify_consistency_def Let_def split: if_splits prod.splits)

lemma classify_limit_bounds:
  assumes "0 < exs_HistoryPageSize (src_Execution (cfg_Sources cfg))"
    and "0 < exs_MaxHistoryItems (src_Execution (cfg_Sources cfg))"
  shows "0 < classify_limit inp cfg \<and> classify_limit inp cfg \<le> exs_MaxHistoryItems (src_Execution (cfg_Sources cfg))"
  using assms by (simp add: classify_limit_def Let_def)

lemma Classify_Inr:
  assumes "Classify cfg cat inp = Inr c"
  obtains rule where "gomap_get Routes (in_Method inp @ '' '' @ in_Route inp) = Some (cl_Type c)"
    "ResolveRule cfg (in_TenantID inp) (cl_Type c) = (rule, True)"
    "cl_RequiredFields c = classify_fields inp rule (cl_Type c)"
    "validateFields cat (cl_RequiredFields c) = None"
    "classify_consistency inp rule = Inr (cl_Consistency c)"
    "cl_TenantID c = in_TenantID inp" "cl_ResourceID c = in_ResourceID inp"
    "cl_Limit c = classify_limit inp cfg"
  using assms
  by (auto simp: Classify_def Let_def split: option.splits prod.splits if_splits sum.splits)

text \<open>Every request type of the route table has default fields, so a classification always names at
  least one field.\<close>

lemma Routes_have_fields: "gomap_get Routes k = Some rt \<Longrightarrow> DefaultFieldsFor rt \<noteq> []"
proof -
  have "list_all (\<lambda>(_, rt). DefaultFieldsFor rt \<noteq> []) Routes" by code_simp
  then show "gomap_get Routes k = Some rt \<Longrightarrow> DefaultFieldsFor rt \<noteq> []"
    by (auto simp: list_all_iff dest!: gomap_get_in_set)
qed

lemma classify_fields_nonempty:
  "gomap_get Routes k = Some rt \<Longrightarrow> classify_fields inp rule rt \<noteq> []"
  by (simp add: classify_fields_def Let_def Routes_have_fields)

end
