(* ===== verification/FreshnessEval.thy ===== *)
theory FreshnessEval
  imports Domain Errs
begin

text \<open>
  \<^verbatim>\<open>internal/freshness/freshness.go\<close>: the age of a record under a TTL, and the manager that
  remembers probes for a short while. The source's answer to a probe is a parameter (the
  port \<^verbatim>\<open>datasource.FreshnessProbe\<close>); each read of the manager's clock is an argument, since
  the clock advances between them. Metrics hooks are not modelled.
\<close>

section \<open>Observations and evaluations\<close>

record Observation =
  ob_Found :: bool
  ob_LastUpdated :: time
  ob_SourceTime :: time
  ob_Version :: "64 word"
  ob_RefreshSource :: string

definition zero_Observation :: Observation where
  "zero_Observation = \<lparr>ob_Found = False, ob_LastUpdated = 0, ob_SourceTime = 0, ob_Version = 0,
     ob_RefreshSource = []\<rparr>"

record Evaluation =
  ev_Freshness :: Freshness
  ev_Probed :: bool
  ev_FromCache :: bool
  ev_SkewSeconds :: rat
  ev_NotFound :: bool

definition zero_Evaluation :: Evaluation where
  "zero_Evaluation = \<lparr>ev_Freshness = zero_Freshness, ev_Probed = False, ev_FromCache = False,
     ev_SkewSeconds = 0, ev_NotFound = False\<rparr>"

abbreviation ev_State :: "Evaluation \<Rightarrow> FreshnessState" where
  "ev_State ev \<equiv> fr_State (ev_Freshness ev)"

abbreviation ev_Age :: "Evaluation \<Rightarrow> duration" where
  "ev_Age ev \<equiv> fr_Age (ev_Freshness ev)"

definition dur_abs :: "duration \<Rightarrow> duration" where
  "dur_abs d = (if d < 0 then dur_neg d else d)"

definition Evaluate :: "Observation \<Rightarrow> duration \<Rightarrow> duration \<Rightarrow> time \<Rightarrow> Evaluation" where
  "Evaluate obs ttl skewTolerance now =
    (let f0 = \<lparr>fr_State = FreshnessUnknown, fr_Age = 0, fr_TTL = ttl, fr_ObservedAt = ob_LastUpdated obs,
           fr_EvaluatedAt = now, fr_Source = SourceOperational, fr_SkewCorrected = False,
           fr_Version = ob_Version obs\<rparr>;
         ev0 = \<lparr>ev_Freshness = f0, ev_Probed = False, ev_FromCache = False, ev_SkewSeconds = 0,
           ev_NotFound = \<not> ob_Found obs\<rparr>
     in if \<not> ob_Found obs \<or> time_IsZero (ob_LastUpdated obs) then ev0
        else
         let hasSource = \<not> time_IsZero (ob_SourceTime obs);
             reference = (if hasSource then ob_SourceTime obs else now);
             skew = time_Sub (ob_SourceTime obs) now;
             f1 = (if hasSource \<and> dur_abs skew > skewTolerance then f0\<lparr>fr_SkewCorrected := True\<rparr> else f0);
             ev1 = (if hasSource then ev0\<lparr>ev_SkewSeconds := dur_Seconds skew\<rparr> else ev0);
             age = time_Sub reference (ob_LastUpdated obs)
         in if \<not> age \<ge> 0 \<and> \<not> dur_neg age \<le> skewTolerance
            then ev1\<lparr>ev_Freshness := f1\<lparr>fr_SkewCorrected := True, fr_Age := 0, fr_State := FreshnessUnknown\<rparr>\<rparr>
            else
             let f2 = (if age \<ge> 0 then f1 else f1\<lparr>fr_SkewCorrected := True\<rparr>);
                 age2 = (if age \<ge> 0 then age else 0);
                 f3 = f2\<lparr>fr_Age := age2\<rparr>
             in ev1\<lparr>ev_Freshness := f3\<lparr>fr_State :=
                  if ttl \<le> 0 then FreshnessStale
                  else if age2 \<le> ttl then FreshnessFresh else FreshnessStale\<rparr>\<rparr>)"

definition EvaluateFreshness :: "Freshness \<Rightarrow> duration \<Rightarrow> duration \<Rightarrow> time \<Rightarrow> Evaluation" where
  "EvaluateFreshness f ttl skewTolerance now =
     Evaluate \<lparr>ob_Found = \<not> time_IsZero (fr_ObservedAt f), ob_LastUpdated = fr_ObservedAt f,
       ob_SourceTime = 0, ob_Version = fr_Version f, ob_RefreshSource = []\<rparr> ttl skewTolerance now"

section \<open>The manager and its memo\<close>

record cachedProbe =
  cp_obs :: Observation
  cp_storedAt :: time

definition cachedProbe_age :: "cachedProbe \<Rightarrow> duration \<Rightarrow> Observation" where
  "cachedProbe_age c elapsed =
     (if \<not> time_IsZero (ob_SourceTime (cp_obs c))
      then (cp_obs c)\<lparr>ob_SourceTime := time_Add (ob_SourceTime (cp_obs c)) elapsed\<rparr> else cp_obs c)"

record Manager =
  fm_hasProbe :: bool
  fm_cache :: "cachedProbe gomap"
  fm_ttl :: duration
  fm_maxEntries :: int

definition NewManager :: "bool \<Rightarrow> duration \<Rightarrow> Manager" where
  "NewManager hasProbe probeCacheTTL =
     \<lparr>fm_hasProbe = hasProbe, fm_cache = [], fm_ttl = probeCacheTTL, fm_maxEntries = 50000\<rparr>"

text \<open>The three instants one assessment reads from the manager's clock: at the memo lookup, when
  the answer is stored, and for the evaluation.\<close>

record ProbeClock =
  pk_lookup :: time
  pk_stored :: time
  pk_eval :: time

type_synonym probe_port = "string \<Rightarrow> string \<Rightarrow> goerr + Observation"

definition probe_key :: "string \<Rightarrow> string \<Rightarrow> string" where
  "probe_key tenantID resourceID = tenantID @ [CHR 0x00] @ resourceID"

definition memo_lookup :: "Manager \<Rightarrow> string \<Rightarrow> time \<Rightarrow> Observation option" where
  "memo_lookup m key now =
     (if fm_ttl m > 0 then
        (case gomap_get (fm_cache m) key of None \<Rightarrow> None
         | Some c \<Rightarrow> (let elapsed = time_Sub now (cp_storedAt c)
             in if elapsed < fm_ttl m then Some (cachedProbe_age c elapsed) else None))
      else None)"

definition memo_store :: "Manager \<Rightarrow> string \<Rightarrow> Observation \<Rightarrow> time \<Rightarrow> Manager" where
  "memo_store m key obs now =
     (if fm_ttl m > 0 then
        (let base = (if int (length (fm_cache m)) \<ge> fm_maxEntries m then [] else fm_cache m)
         in m\<lparr>fm_cache := gomap_put key \<lparr>cp_obs = obs, cp_storedAt = now\<rparr> base\<rparr>)
      else m)"

definition Probe :: "probe_port \<Rightarrow> ProbeClock \<Rightarrow> Manager \<Rightarrow> string \<Rightarrow> string
    \<Rightarrow> (goerr + Observation \<times> bool) \<times> Manager" where
  "Probe probe clk m tenantID resourceID =
     (if \<not> fm_hasProbe m then (Inr (zero_Observation, False), m)
      else let key = probe_key tenantID resourceID
        in case memo_lookup m key (pk_lookup clk) of
             Some obs \<Rightarrow> (Inr (obs, True), m)
           | None \<Rightarrow> (case probe tenantID resourceID of
                Inl err \<Rightarrow> (Inl err, m)
              | Inr obs \<Rightarrow> (Inr (obs, False), memo_store m key obs (pk_stored clk))))"

text \<open>\<^verbatim>\<open>Assess\<close> returns an evaluation in every case, and the probe's error beside it.\<close>

definition Assess :: "probe_port \<Rightarrow> ProbeClock \<Rightarrow> Manager \<Rightarrow> string \<Rightarrow> string \<Rightarrow> duration \<Rightarrow> duration
    \<Rightarrow> (Evaluation \<times> goerr option) \<times> Manager" where
  "Assess probe clk m tenantID resourceID ttl skewTolerance =
     (case Probe probe clk m tenantID resourceID of
        (Inl err, m') \<Rightarrow> ((zero_Evaluation\<lparr>ev_Freshness := zero_Freshness\<lparr>fr_State := FreshnessUnknown,
            fr_TTL := ttl, fr_EvaluatedAt := pk_eval clk, fr_Source := SourceOperational\<rparr>\<rparr>, Some err), m')
      | (Inr (obs, fromCache), m') \<Rightarrow>
          (((Evaluate obs ttl skewTolerance (pk_eval clk))\<lparr>ev_Probed := True, ev_FromCache := fromCache\<rparr>, None), m'))"

definition Invalidate :: "string \<Rightarrow> string \<Rightarrow> Manager \<Rightarrow> Manager" where
  "Invalidate tenantID resourceID m = m\<lparr>fm_cache := gomap_del (probe_key tenantID resourceID) (fm_cache m)\<rparr>"

definition fm_Size :: "Manager \<Rightarrow> int" where
  "fm_Size m = int (length (fm_cache m))"

section \<open>What an evaluation says\<close>

text \<open>The true age of an observation: against the source's own clock when it was reported.\<close>

definition true_age :: "Observation \<Rightarrow> time \<Rightarrow> int" where
  "true_age obs now = (if ob_SourceTime obs \<noteq> 0 then ob_SourceTime obs else now) - ob_LastUpdated obs"

definition plausible :: "Observation \<Rightarrow> time \<Rightarrow> bool" where
  "plausible obs now \<longleftrightarrow> ob_Found obs \<and> ob_LastUpdated obs \<noteq> 0
     \<and> minDuration < true_age obs now \<and> true_age obs now \<le> maxDuration"

lemma plausible_time_Sub:
  "plausible obs now \<Longrightarrow>
     time_Sub (if ob_SourceTime obs \<noteq> 0 then ob_SourceTime obs else now) (ob_LastUpdated obs) = true_age obs now"
  by (simp add: plausible_def true_age_def time_Sub_exact in_int64_def split: if_splits)

lemma Evaluate_not_found: "\<not> ob_Found obs \<or> ob_LastUpdated obs = 0 \<Longrightarrow>
    ev_State (Evaluate obs ttl skew now) = FreshnessUnknown \<and> ev_Age (Evaluate obs ttl skew now) = 0"
  by (auto simp: Evaluate_def Let_def time_IsZero_def)

lemma dur_neg_plausible:
  "plausible obs now \<Longrightarrow> dur_neg (true_age obs now) = - true_age obs now"
  by (rule dur_neg_id) (auto simp: plausible_def in_int64_def)

lemma Evaluate_unfold:
  assumes "plausible obs now"
  defines "a \<equiv> true_age obs now"
  shows "ev_State (Evaluate obs ttl skew now) =
           (if a < 0 \<and> skew < - a then FreshnessUnknown
            else if ttl \<le> 0 then FreshnessStale
            else if max 0 a \<le> ttl then FreshnessFresh else FreshnessStale)"
    and "ev_Age (Evaluate obs ttl skew now) = (if a < 0 \<and> skew < - a then 0 else max 0 a)"
proof -
  have f: "ob_Found obs" "\<not> time_IsZero (ob_LastUpdated obs)"
    using assms(1) by (auto simp: plausible_def time_IsZero_def)
  note s = plausible_time_Sub[OF assms(1)] dur_neg_plausible[OF assms(1)]
  show "ev_State (Evaluate obs ttl skew now) =
           (if a < 0 \<and> skew < - a then FreshnessUnknown
            else if ttl \<le> 0 then FreshnessStale
            else if max 0 a \<le> ttl then FreshnessFresh else FreshnessStale)"
    using f s by (auto simp: Evaluate_def Let_def a_def time_IsZero_def not_le max_def)
  show "ev_Age (Evaluate obs ttl skew now) = (if a < 0 \<and> skew < - a then 0 else max 0 a)"
    using f s by (auto simp: Evaluate_def Let_def a_def time_IsZero_def not_le max_def)
qed

text \<open>With the source's own clock in the observation, the BFF's clock has no say.\<close>

lemma Evaluate_skew_immune:
  assumes "ob_SourceTime obs \<noteq> 0"
  shows "ev_State (Evaluate obs ttl skew now) = ev_State (Evaluate obs ttl skew now')"
    and "ev_Age (Evaluate obs ttl skew now) = ev_Age (Evaluate obs ttl skew now')"
  using assms by (auto simp: Evaluate_def Let_def time_IsZero_def)

lemma Evaluate_TTL_zero: "ttl \<le> 0 \<Longrightarrow> ev_State (Evaluate obs ttl skew now) \<noteq> FreshnessFresh"
  by (auto simp: Evaluate_def Let_def)

section \<open>The memo\<close>

lemma true_age_aged:
  "ob_SourceTime (cp_obs c) > 0 \<Longrightarrow> 0 \<le> e \<Longrightarrow>
     true_age (cachedProbe_age c e) now = true_age (cp_obs c) now' + e"
  by (simp add: true_age_def cachedProbe_age_def time_IsZero_def time_Add_def)

lemma cachedProbe_age_sel [simp]:
  "ob_Found (cachedProbe_age c e) = ob_Found (cp_obs c)"
  "ob_LastUpdated (cachedProbe_age c e) = ob_LastUpdated (cp_obs c)"
  by (simp_all add: cachedProbe_age_def)

text \<open>An observation that is older by \<open>e\<close> is fresh only if the younger one is.\<close>

lemma older_fresh_imp_younger_fresh:
  assumes "plausible obs t1" "plausible obs' t2" "0 \<le> skew" "0 \<le> e"
    and "true_age obs' t2 = true_age obs t1 + e"
    and "ev_State (Evaluate obs' ttl skew t2) = FreshnessFresh"
  shows "true_age obs t1 \<le> ttl
    \<and> (- skew \<le> true_age obs t1 \<longrightarrow> ev_State (Evaluate obs ttl skew t1) = FreshnessFresh)"
  using assms by (auto simp: Evaluate_unfold split: if_splits)

definition memo_ok :: "Manager \<Rightarrow> bool" where
  "memo_ok m \<longleftrightarrow> distinct (map fst (fm_cache m)) \<and> fm_Size m \<le> max 1 (fm_maxEntries m)
     \<and> (fm_ttl m \<le> 0 \<longrightarrow> fm_cache m = [])"

datatype fm_op = OpProbe probe_port ProbeClock string string | OpInvalidate string string

fun fm_step :: "fm_op \<Rightarrow> Manager \<Rightarrow> Manager" where
  "fm_step (OpProbe probe clk t r) m = snd (Probe probe clk m t r)"
| "fm_step (OpInvalidate t r) m = Invalidate t r m"

lemma memo_ok_store [bff_inv]: "memo_ok m \<Longrightarrow> memo_ok (memo_store m k obs now)"
  by (auto simp: memo_ok_def memo_store_def fm_Size_def Let_def gomap_length_put max_def split: if_splits)

lemma memo_ok_Invalidate [bff_inv]: "memo_ok m \<Longrightarrow> memo_ok (Invalidate t r m)"
  using gomap_length_del[of "probe_key t r" "fm_cache m"]
  by (auto simp: memo_ok_def Invalidate_def fm_Size_def)

lemma memo_ok_Probe [bff_inv]: "memo_ok m \<Longrightarrow> memo_ok (snd (Probe probe clk m t r))"
  by (auto simp: Probe_def Let_def memo_ok_store split: option.splits sum.splits)

interpretation freshness_memo: guarded_component fm_step memo_ok
proof unfold_locales
  fix m a assume "memo_ok m"
  then show "memo_ok (fm_step a m)" by (cases a) (auto intro: bff_inv)
qed

lemma memo_ok_New [bff_inv]: "memo_ok (NewManager p ttl)"
  by (simp add: memo_ok_def NewManager_def fm_Size_def)

text \<open>Every entry of the memo is the answer some probe of the run gave for that very key.\<close>

definition memo_from :: "fm_op set \<Rightarrow> Manager \<Rightarrow> bool" where
  "memo_from S m \<longleftrightarrow> (\<forall>(k, c) \<in> set (fm_cache m). \<exists>probe clk t r.
     OpProbe probe clk t r \<in> S \<and> k = probe_key t r \<and> probe t r = Inr (cp_obs c) \<and> cp_storedAt c = pk_stored clk)"

lemma set_gomap_put: "(k', v') \<in> set (gomap_put k v m) \<Longrightarrow> (k', v') = (k, v) \<or> (k', v') \<in> set m"
  unfolding gomap_put_def by (induction m) (auto split: if_splits)

lemma set_gomap_del: "x \<in> set (gomap_del k m) \<Longrightarrow> x \<in> set m"
  unfolding gomap_del_def AList.delete_eq by auto

lemma memo_from_store:
  assumes "memo_from S m" "OpProbe probe clk t r \<in> S" "probe t r = Inr obs"
  shows "memo_from S (memo_store m (probe_key t r) obs (pk_stored clk))"
  using assms unfolding memo_from_def memo_store_def Let_def
  by (fastforce split: if_splits dest!: set_gomap_put)

lemma memo_from_step: "memo_from S m \<Longrightarrow> a \<in> S \<Longrightarrow> memo_from S (fm_step a m)"
proof (cases a)
  case (OpProbe probe clk t r)
  moreover assume "memo_from S m" "a \<in> S"
  ultimately show ?thesis by (auto simp: Probe_def Let_def memo_from_store split: option.splits sum.splits)
next
  case (OpInvalidate t r)
  moreover assume "memo_from S m"
  ultimately show ?thesis by (auto simp: Invalidate_def memo_from_def dest!: set_gomap_del)
qed

lemma memo_from_run: "memo_from S m \<Longrightarrow> set ops \<subseteq> S \<Longrightarrow> memo_from S (fold fm_step ops m)"
  by (induction ops arbitrary: m) (auto intro: memo_from_step)

lemma append_sep_inject: "c \<notin> set a \<Longrightarrow> c \<notin> set b \<Longrightarrow> a @ [c] @ x = b @ [c] @ y \<longleftrightarrow> a = b \<and> x = y"
proof (induction a arbitrary: b)
  case Nil
  then show ?case by (cases b) auto
next
  case (Cons p a)
  then show ?case by (cases b) auto
qed

lemma probe_key_inject:
  "CHR 0x00 \<notin> set t \<Longrightarrow> CHR 0x00 \<notin> set t' \<Longrightarrow> probe_key t r = probe_key t' r' \<longleftrightarrow> t = t' \<and> r = r'"
  unfolding probe_key_def by (rule append_sep_inject)

lemma memo_lookup_SomeE:
  assumes "memo_lookup m k now = Some obs"
  obtains c where "gomap_get (fm_cache m) k = Some c" "time_Sub now (cp_storedAt c) < fm_ttl m"
    "obs = cachedProbe_age c (time_Sub now (cp_storedAt c))"
  using assms by (auto simp: memo_lookup_def Let_def split: if_splits option.splits)

section \<open>Properties\<close>

text \<open>The verdict of \<^verbatim>\<open>Evaluate\<close> in terms of the record's true age (in the source's clock domain when
  the source reported its time): FRESH exactly when the TTL is positive and the age is at most
  the TTL, a timestamp ahead by at most the skew tolerance counting as age zero; UNKNOWN exactly
  when the timestamp is further ahead than the tolerance; STALE otherwise. The reported age is the
  true age, clamped at zero.\<close>

theorem Evaluate_verdict:
  assumes "plausible obs now" "0 \<le> skew"
  defines "a \<equiv> true_age obs now"
  shows "(ev_State (Evaluate obs ttl skew now) = FreshnessFresh \<longleftrightarrow> 0 < ttl \<and> - skew \<le> a \<and> a \<le> ttl)
       \<and> (ev_State (Evaluate obs ttl skew now) = FreshnessUnknown \<longleftrightarrow> a < - skew)
       \<and> (ev_State (Evaluate obs ttl skew now) = FreshnessStale \<longleftrightarrow> - skew \<le> a \<and> (ttl \<le> 0 \<or> ttl < a))
       \<and> ev_Age (Evaluate obs ttl skew now) = max 0 a"
  using Evaluate_unfold[OF assms(1), of ttl skew] assms(2) unfolding a_def by auto

definition example_obs :: Observation where
  "example_obs = \<lparr>ob_Found = True, ob_LastUpdated = 1000 * second, ob_SourceTime = 1012 * second,
     ob_Version = 7, ob_RefreshSource = ''cdc''\<rparr>"

theorem Evaluate_verdict_witness:
  "ev_State (Evaluate example_obs (30 * second) (2 * second) (2000 * second)) = FreshnessFresh
   \<and> ev_Age (Evaluate example_obs (30 * second) (2 * second) (2000 * second)) = 12 * second"
  using Evaluate_verdict[of example_obs "2000 * second" "2 * second" "30 * second"]
  by (auto simp: example_obs_def plausible_def true_age_def minDuration_def maxDuration_def dur_units)

text \<open>A memoised probe never makes a record look fresher than it is. After any run of probes and
  invalidations from an empty manager, a memo hit for a tenant and resource (no NUL byte in the
  tenant ids) returns the answer a probe of the run gave for exactly that tenant and resource,
  younger than the memo's TTL; and when that answer carries the source's clock, the evaluation
  of the hit has the age of the original answer plus the time spent in the memo, so it is FRESH
  only if the original answer was.\<close>

theorem memo_hit_sound:
  assumes run: "m = fold fm_step ops (NewManager True pttl)"
    and nul: "CHR 0x00 \<notin> set tenant"
      "\<And>probe clk t r. OpProbe probe clk t r \<in> set ops \<Longrightarrow> CHR 0x00 \<notin> set t"
    and hit: "memo_lookup m (probe_key tenant res) now = Some obs"
  shows "\<exists>probe clk orig. OpProbe probe clk tenant res \<in> set ops \<and> probe tenant res = Inr orig
     \<and> time_Sub now (pk_stored clk) < fm_ttl m
     \<and> (0 < ob_SourceTime orig \<and> pk_stored clk \<le> now \<and> plausible orig u \<and> plausible obs v \<and> 0 \<le> skew \<longrightarrow>
          true_age obs v = true_age orig u + time_Sub now (pk_stored clk)
        \<and> (ev_State (Evaluate obs ttl skew v) = FreshnessFresh \<longrightarrow>
             true_age orig u \<le> ttl
           \<and> (- skew \<le> true_age orig u \<longrightarrow> ev_State (Evaluate orig ttl skew u) = FreshnessFresh)))"
proof -
  obtain c where c: "gomap_get (fm_cache m) (probe_key tenant res) = Some c"
    "time_Sub now (cp_storedAt c) < fm_ttl m" "obs = cachedProbe_age c (time_Sub now (cp_storedAt c))"
    using hit by (rule memo_lookup_SomeE)
  have "memo_from (set ops) m"
    unfolding run by (rule memo_from_run) (simp_all add: memo_from_def NewManager_def)
  with gomap_get_in_set[OF c(1)] obtain probe clk t r where p: "OpProbe probe clk t r \<in> set ops"
    "probe_key tenant res = probe_key t r" "probe t r = Inr (cp_obs c)" "cp_storedAt c = pk_stored clk"
    by (auto simp: memo_from_def)
  have "t = tenant \<and> r = res"
    using p(2) probe_key_inject[OF nul(1) nul(2)[OF p(1)], of res r] by simp
  then have tr: "t = tenant" "r = res" by auto
  let ?e = "time_Sub now (pk_stored clk)"
  have age: "true_age obs v = true_age (cp_obs c) u + ?e \<and> 0 \<le> ?e"
    if "0 < ob_SourceTime (cp_obs c)" "pk_stored clk \<le> now"
    using that c(3) p(4) by (simp add: true_age_aged time_Sub_nonneg_iff)
  show ?thesis
  proof (intro exI conjI impI)
    show "OpProbe probe clk tenant res \<in> set ops" "probe tenant res = Inr (cp_obs c)" "?e < fm_ttl m"
      using p c(2) tr by simp_all
  next
    assume h: "0 < ob_SourceTime (cp_obs c) \<and> pk_stored clk \<le> now \<and> plausible (cp_obs c) u \<and> plausible obs v \<and> 0 \<le> skew"
    then show "true_age obs v = true_age (cp_obs c) u + ?e" using age by blast
    assume f: "ev_State (Evaluate obs ttl skew v) = FreshnessFresh"
    have "true_age (cp_obs c) u \<le> ttl
      \<and> (- skew \<le> true_age (cp_obs c) u \<longrightarrow> ev_State (Evaluate (cp_obs c) ttl skew u) = FreshnessFresh)"
      using h age by (intro older_fresh_imp_younger_fresh[OF _ _ _ _ _ f, where e = ?e]) auto
    then show "true_age (cp_obs c) u \<le> ttl"
      "- skew \<le> true_age (cp_obs c) u \<Longrightarrow> ev_State (Evaluate (cp_obs c) ttl skew u) = FreshnessFresh" by blast+
  qed
qed

definition example_clock :: ProbeClock where
  "example_clock = \<lparr>pk_lookup = 5000 * second, pk_stored = 5000 * second, pk_eval = 5000 * second\<rparr>"

theorem memo_hit_sound_witness:
  "\<exists>obs. memo_lookup (fold fm_step [OpProbe (\<lambda>_ _. Inr example_obs) example_clock ''acme'' ''r1'']
        (NewManager True (1 * second))) (probe_key ''acme'' ''r1'') (5000 * second + 1) = Some obs
    \<and> true_age obs 0 = true_age example_obs 0 + 1"
proof -
  let ?p = "\<lambda>_ _. Inr example_obs"
  let ?ops = "[OpProbe ?p example_clock ''acme'' ''r1'']"
  let ?m = "fold fm_step ?ops (NewManager True (1 * second))"
  let ?obs = "example_obs\<lparr>ob_SourceTime := 1012 * second + 1\<rparr>"
  have hit: "memo_lookup ?m (probe_key ''acme'' ''r1'') (5000 * second + 1) = Some ?obs"
    by (simp add: NewManager_def Probe_def memo_lookup_def memo_store_def example_clock_def example_obs_def
        cachedProbe_age_def probe_key_def time_defs minDuration_def maxDuration_def dur_units Let_def)
  have "CHR 0x00 \<notin> set t" if "OpProbe probe clk t r \<in> set ?ops" for probe clk t r
    using that by auto
  from memo_hit_sound[OF refl _ this hit, where u = 0 and v = 0 and skew = 0 and ttl = 0]
  obtain clk orig where o: "OpProbe ?p clk ''acme'' ''r1'' \<in> set ?ops" "orig = example_obs"
    "0 < ob_SourceTime orig \<and> pk_stored clk \<le> 5000 * second + 1 \<and> plausible orig 0 \<and> plausible ?obs 0 \<longrightarrow>
      true_age ?obs 0 = true_age orig 0 + time_Sub (5000 * second + 1) (pk_stored clk)"
    by auto
  then have "true_age ?obs 0 = true_age example_obs 0 + 1"
    by (auto simp: example_clock_def example_obs_def plausible_def true_age_def time_Sub_def minDuration_def
        maxDuration_def dur_units)
  with hit show ?thesis by blast
qed

text \<open>A record stamped 292 years or more ahead of the reference clock is reported FRESH with age
  zero: the saturated difference negates to itself, and is taken for a timestamp within the skew
  tolerance instead of an implausible one.\<close>

theorem far_future_is_fresh:
  assumes "ob_Found obs" "ob_LastUpdated obs \<noteq> 0" "true_age obs now \<le> minDuration" "0 < ttl" "0 \<le> skew"
  shows "ev_State (Evaluate obs ttl skew now) = FreshnessFresh \<and> ev_Age (Evaluate obs ttl skew now) = 0"
proof -
  have "time_Sub (if ob_SourceTime obs \<noteq> 0 then ob_SourceTime obs else now) (ob_LastUpdated obs) = minDuration"
    using assms(3) by (auto simp: true_age_def time_Sub_def minDuration_def maxDuration_def)
  then show ?thesis
    using assms dur_neg_minDuration
    by (auto simp: Evaluate_def Let_def time_IsZero_def minDuration_def)
qed

text \<open>The year 9999 seen from the year 2026, in nanoseconds since the zero time.\<close>

theorem far_future_is_fresh_witness:
  "ev_State (Evaluate \<lparr>ob_Found = True, ob_LastUpdated = 315537811200 * second, ob_SourceTime = 0,
       ob_Version = 0, ob_RefreshSource = []\<rparr> (30 * second) (2 * second) (63902908800 * second)) = FreshnessFresh"
  using far_future_is_fresh[of "\<lparr>ob_Found = True, ob_LastUpdated = 315537811200 * second, ob_SourceTime = 0,
       ob_Version = 0, ob_RefreshSource = []\<rparr>" "63902908800 * second" "30 * second" "2 * second"]
  by (simp add: true_age_def minDuration_def dur_units)

text \<open>Under any sequence of probes and invalidations the memo holds at most one entry per key and
  at most \<^verbatim>\<open>maxEntries\<close> entries, and none at all when the memo is disabled.\<close>

theorem memo_bounded:
  "memo_ok (fold fm_step ops (NewManager hasProbe pttl))
   \<and> fm_Size (fold fm_step ops (NewManager hasProbe pttl)) \<le> 50000"
proof -
  have ok: "memo_ok (fold fm_step ops (NewManager hasProbe pttl))"
    by (rule freshness_memo.run_inv) (rule memo_ok_New)
  have "fm_maxEntries (fold fm_step ops m) = fm_maxEntries m" for m
  proof (induction ops arbitrary: m)
    case (Cons a ops)
    have "fm_maxEntries (fm_step a m) = fm_maxEntries m"
      by (cases a) (auto simp: Probe_def memo_store_def Invalidate_def Let_def split: option.splits sum.splits)
    with Cons show ?case by simp
  qed simp
  then have "fm_maxEntries (fold fm_step ops (NewManager hasProbe pttl)) = 50000"
    by (simp add: NewManager_def)
  with ok show ?thesis by (simp add: memo_ok_def)
qed

end
