(* ===== verification/Router.thy ===== *)
theory Router
  imports Classifier FreshnessEval
begin

text \<open>
  \<^verbatim>\<open>internal/router/router.go\<close>: the ordered chain of eleven rules that turns a classification and the
  health of the two sources into a decision. Each rule is a function on the working set
  \<open>evalState\<close>, which it may change (the pin of rule 4, the lazily evaluated freshness), and the
  chain is \<open>chain\<close> of the prelude. The freshness manager is part of the working set because an
  assessment updates its memo. What the router reads from outside (catalogue, probe, clock) is
  the record \<open>Router\<close>; \<^verbatim>\<open>time.Now()\<close> for a request without a time is its field \<open>rt_wall\<close>.
  Metrics hooks are not modelled.
\<close>

section \<open>Targets, requests, decisions\<close>

datatype Target = TargetNone | TargetOperational | TargetExecution | TargetBoth

fun target_String :: "Target \<Rightarrow> string" where
  "target_String TargetOperational = ''OPERATIONAL''"
| "target_String TargetExecution = ''EXECUTION''"
| "target_String TargetBoth = ''BOTH''"
| "target_String TargetNone = ''NONE''"

fun Includes :: "Target \<Rightarrow> SourceKind \<Rightarrow> bool" where
  "Includes TargetOperational k \<longleftrightarrow> k = SourceOperational"
| "Includes TargetExecution k \<longleftrightarrow> k = SourceExecution"
| "Includes TargetBoth k \<longleftrightarrow> k = SourceOperational \<or> k = SourceExecution"
| "Includes TargetNone k \<longleftrightarrow> False"

datatype RuleId = NoRule | RuleTenantMissing | RuleBothUnavailable | RuleFieldsExecOnly | RuleFieldsOpsOnly
  | RuleFieldsSpanBoth | RuleStrongConsistency | RulePrimaryUnavailable | RuleTTLFresh | RuleTTLStale
  | RuleTTLUnknown | RuleDefaultPreferred | RuleUnconfigured | RuleFallbackAfterFailure

record Health =
  he_Available :: bool
  he_Detail :: string

record Request =
  rq_Classification :: Classification
  rq_OperationalHealth :: Health
  rq_ExecutionHealth :: Health
  rq_Now :: time

type_synonym 'v source_map = "(SourceKind \<times> 'v) list"

record Decision =
  d_Target :: Target
  d_Rule :: RuleId
  d_Reason :: string
  d_Primary :: SourceKind
  d_Fallback :: SourceKind
  d_OperationalTTL :: duration
  d_CacheTTL :: duration
  d_AllowStale :: bool
  d_MaxStale :: duration
  d_RequiredSources :: "bool source_map option"
  d_PerSourceTimeout :: "duration source_map option"
  d_Freshness :: Evaluation
  d_ProbeFailed :: bool
  d_Consistency :: Consistency

definition zero_Decision :: Decision where
  "zero_Decision = \<lparr>d_Target = TargetNone, d_Rule = NoRule, d_Reason = [], d_Primary = SourceUnset,
     d_Fallback = SourceUnset, d_OperationalTTL = 0, d_CacheTTL = 0, d_AllowStale = False, d_MaxStale = 0,
     d_RequiredSources = None, d_PerSourceTimeout = None, d_Freshness = zero_Evaluation,
     d_ProbeFailed = False, d_Consistency = ConsistencyEventual\<rparr>"

text \<open>A composite literal of a rule: target, rule, reason and primary source, all else zero.\<close>

definition decide :: "Target \<Rightarrow> RuleId \<Rightarrow> string \<Rightarrow> SourceKind \<Rightarrow> Decision" where
  "decide t r reason p = zero_Decision\<lparr>d_Target := t, d_Rule := r, d_Reason := reason, d_Primary := p\<rparr>"

definition RequiresSource :: "Decision \<Rightarrow> SourceKind \<Rightarrow> bool" where
  "RequiresSource d k = (case d_RequiredSources d of None \<Rightarrow> Includes (d_Target d) k
     | Some m \<Rightarrow> (case map_of m k of None \<Rightarrow> Includes (d_Target d) k | Some req \<Rightarrow> req))"

definition TimeoutFor :: "Decision \<Rightarrow> SourceKind \<Rightarrow> duration" where
  "TimeoutFor d k = (case d_PerSourceTimeout d of None \<Rightarrow> 0
     | Some m \<Rightarrow> (case map_of m k of None \<Rightarrow> 0 | Some t \<Rightarrow> t))"

record Router =
  rt_catalog :: FieldCatalog
  rt_probe :: probe_port
  rt_clock :: ProbeClock
  rt_wall :: time

record evalState =
  es_req :: Request
  es_rule :: RoutingRule
  es_defs :: RoutingDefaults
  es_preferred :: SourceKind
  es_fallback :: SourceKind
  es_pinned :: bool
  es_ageUnverified :: bool
  es_freshnessDone :: bool
  es_freshness :: Evaluation
  es_probeFailed :: bool
  es_fresh :: "Manager option"

section \<open>Helpers of the working set\<close>

definition healthOf :: "evalState \<Rightarrow> SourceKind \<Rightarrow> Health" where
  "healthOf s k = (case k of
      SourceOperational \<Rightarrow> rq_OperationalHealth (es_req s)
    | SourceExecution \<Rightarrow> rq_ExecutionHealth (es_req s)
    | _ \<Rightarrow> \<lparr>he_Available = False, he_Detail = ''UNCONFIGURED''\<rparr>)"

definition es_allowStale :: "evalState \<Rightarrow> bool" where
  "es_allowStale s =
     (if cl_Consistency (rq_Classification (es_req s)) = ConsistencyStrong then False
      else if ru_AllowStale (es_rule s) then True else StaleAllowed (es_defs s))"

definition es_maxStale :: "evalState \<Rightarrow> duration" where
  "es_maxStale s = (if ru_MaxStale (es_rule s) > 0 then ru_MaxStale (es_rule s) else df_MaxStale (es_defs s))"

definition targetFor :: "SourceKind \<Rightarrow> Target" where
  "targetFor k = (case k of SourceOperational \<Rightarrow> TargetOperational | SourceExecution \<Rightarrow> TargetExecution
     | _ \<Rightarrow> TargetNone)"

definition exclusiveSource :: "Router \<Rightarrow> evalState \<Rightarrow> SourceKind \<times> bool" where
  "exclusiveSource R s =
     (let fs = cl_RequiredFields (rq_Classification (es_req s))
      in if length fs = 0 then (SourceNone, False) else ExclusiveTo (rt_catalog R) fs)"

text \<open>An evaluation built without a probe.\<close>

definition unprobed :: "FreshnessState \<Rightarrow> duration \<Rightarrow> time \<Rightarrow> Evaluation" where
  "unprobed st ttl now = zero_Evaluation\<lparr>ev_Freshness := zero_Freshness\<lparr>fr_State := st, fr_TTL := ttl,
     fr_EvaluatedAt := now, fr_Source := SourceOperational\<rparr>\<rparr>"

definition evaluateFreshness :: "Router \<Rightarrow> evalState \<Rightarrow> Evaluation \<times> evalState" where
  "evaluateFreshness R s0 =
     (if es_freshnessDone s0 then (es_freshness s0, s0)
      else
       let s = s0\<lparr>es_freshnessDone := True\<rparr>;
           ttl = ru_TTL (es_rule s);
           skew = df_ClockSkewTolerance (es_defs s);
           now = rq_Now (es_req s);
           c = rq_Classification (es_req s)
       in if ttl \<le> 0 then
            (let ev = unprobed FreshnessStale 0 now
             in (ev, s\<lparr>es_ageUnverified := True, es_freshness := ev\<rparr>))
          else if \<not> ProbesEnabled (es_defs s) \<or> es_fresh s = None \<or> \<not> he_Available (rq_OperationalHealth (es_req s)) then
            (let ev = unprobed FreshnessUnknown ttl now in (ev, s\<lparr>es_freshness := ev\<rparr>))
          else
            (case Assess (rt_probe R) (rt_clock R) (the (es_fresh s)) (cl_TenantID c) (cl_ResourceID c) ttl skew of
               ((ev, None), m) \<Rightarrow> (ev, s\<lparr>es_freshness := ev, es_fresh := Some m\<rparr>)
             | ((ev, Some err), m) \<Rightarrow>
                 (let ev' = ev\<lparr>ev_Freshness := (ev_Freshness ev)\<lparr>fr_State := FreshnessUnknown, fr_TTL := ttl,
                        fr_EvaluatedAt := now\<rparr>\<rparr>
                  in (ev', s\<lparr>es_probeFailed := True, es_freshness := ev', es_fresh := Some m\<rparr>))))"

section \<open>Rules\<close>

type_synonym rule = "evalState \<Rightarrow> Decision option \<times> evalState"

definition ruleTenantMissing :: rule where
  "ruleTenantMissing s =
     (if strings_TrimSpace (cl_TenantID (rq_Classification (es_req s))) \<noteq> [] then (None, s)
      else (Some (decide TargetNone RuleTenantMissing ''request has no resolved tenant context'' SourceUnset), s))"

definition ruleBothUnavailable :: rule where
  "ruleBothUnavailable s =
     (if he_Available (rq_OperationalHealth (es_req s)) \<or> he_Available (rq_ExecutionHealth (es_req s)) then (None, s)
      else (Some (decide TargetNone RuleBothUnavailable
             (''operational source is '' @ he_Detail (rq_OperationalHealth (es_req s)) @
              '' and execution source is '' @ he_Detail (rq_ExecutionHealth (es_req s))) SourceUnset), s))"

definition ruleFieldsExecOnly :: "Router \<Rightarrow> rule" where
  "ruleFieldsExecOnly R s =
     (case exclusiveSource R s of (only, ok) \<Rightarrow>
        if \<not> ok \<or> only \<noteq> SourceExecution then (None, s)
        else if \<not> he_Available (healthOf s SourceExecution) then
          (Some (decide TargetNone RuleFieldsExecOnly
             (''the only source that can supply the requested fields is '' @ he_Detail (healthOf s SourceExecution))
             SourceUnset), s)
        else (Some (decide TargetExecution RuleFieldsExecOnly
               ''requested fields are supplied only by the execution source'' SourceExecution),
              s\<lparr>es_preferred := SourceExecution, es_fallback := SourceNone, es_pinned := True\<rparr>))"

definition ruleFieldsOpsOnly :: "Router \<Rightarrow> rule" where
  "ruleFieldsOpsOnly R s =
     (case exclusiveSource R s of (only, ok) \<Rightarrow>
        if \<not> ok \<or> only \<noteq> SourceOperational then (None, s)
        else if \<not> he_Available (healthOf s SourceOperational) then
          (Some (decide TargetNone RuleFieldsOpsOnly
             (''the only source that can supply the requested fields is '' @ he_Detail (healthOf s SourceOperational))
             SourceUnset), s)
        else (None, s\<lparr>es_preferred := SourceOperational, es_fallback := SourceNone, es_pinned := True\<rparr>))"

definition ruleFieldsSpanBoth :: "Router \<Rightarrow> rule" where
  "ruleFieldsSpanBoth R s =
     (let fs = cl_RequiredFields (rq_Classification (es_req s));
          opH = rq_OperationalHealth (es_req s); exH = rq_ExecutionHealth (es_req s)
      in if length fs = 0 then (None, s)
         else let needed = SourcesFor (rt_catalog R) fs
           in if \<not> (SourceOperational \<in> set needed \<and> SourceExecution \<in> set needed) then (None, s)
              else if he_Available opH \<and> he_Available exH then
                (Some (decide TargetBoth RuleFieldsSpanBoth ''requested fields span both sources'' SourceOperational), s)
              else if he_Available opH then
                (Some (decide TargetOperational RuleFieldsSpanBoth
                   (''requested fields span both sources but the execution source is '' @ he_Detail exH)
                   SourceOperational), s)
              else
                (Some (decide TargetExecution RuleFieldsSpanBoth
                   (''requested fields span both sources but the operational source is '' @ he_Detail opH)
                   SourceExecution), s))"

definition ruleStrongConsistency :: rule where
  "ruleStrongConsistency s =
     (if cl_Consistency (rq_Classification (es_req s)) \<noteq> ConsistencyStrong then (None, s)
      else let target = (if source_IsNone (es_preferred s) then SourceOperational else es_preferred s)
        in if \<not> he_Available (healthOf s target) then
             (Some (decide TargetNone RuleStrongConsistency
                (''strong consistency requires a live read but the '' @ strings_ToLower (source_string target) @
                 '' source is '' @ he_Detail (healthOf s target)) SourceUnset), s)
           else (Some (decide (targetFor target) RuleStrongConsistency
                ''request requires strong consistency; reading the authoritative source live'' target), s))"

definition rulePrimaryUnavailable :: rule where
  "rulePrimaryUnavailable s =
     (let prefersBoth = strings_EqualFold (ru_PreferredSource (es_rule s)) ''both'';
          target = es_preferred s;
          opH = rq_OperationalHealth (es_req s); exH = rq_ExecutionHealth (es_req s)
      in if source_IsNone target \<and> \<not> prefersBoth then (None, s)
         else if prefersBoth \<and> he_Available opH \<and> he_Available exH then (None, s)
         else if \<not> prefersBoth \<and> he_Available (healthOf s target) then (None, s)
         else if \<not> source_IsNone (es_fallback s) \<and> he_Available (healthOf s (es_fallback s)) then
           (Some (decide (targetFor (es_fallback s)) RulePrimaryUnavailable
              (''preferred source is '' @ he_Detail (healthOf s target) @ ''; using configured fallback'')
              (es_fallback s)), s)
         else if prefersBoth \<and> he_Available opH then
           (Some (decide TargetOperational RulePrimaryUnavailable
              (''execution source is '' @ he_Detail exH @ ''; serving the operational side only'') SourceOperational), s)
         else if prefersBoth \<and> he_Available exH then
           (Some (decide TargetExecution RulePrimaryUnavailable
              (''operational source is '' @ he_Detail opH @ ''; serving the execution side only'') SourceExecution), s)
         else
           (Some (decide TargetNone RulePrimaryUnavailable
              (''preferred source is '' @
               (if \<not> source_IsNone target then he_Detail (healthOf s target) else ''unavailable'') @
               '' and no healthy fallback is configured'') SourceUnset), s))"

definition ruleTTLFresh :: "Router \<Rightarrow> rule" where
  "ruleTTLFresh R s =
     (if es_preferred s \<noteq> SourceOperational then (None, s)
      else case evaluateFreshness R s of (ev, s') \<Rightarrow>
        if ev_State ev \<noteq> FreshnessFresh then (None, s')
        else (Some (decide TargetOperational RuleTTLFresh ''operational data is within its freshness TTL''
                SourceOperational), s'))"

definition ruleTTLStale :: "Router \<Rightarrow> rule" where
  "ruleTTLStale R s =
     (if es_preferred s \<noteq> SourceOperational then (None, s)
      else case evaluateFreshness R s of (ev, s') \<Rightarrow>
        if ev_State ev \<noteq> FreshnessStale then (None, s')
        else let beyondCeiling = (es_maxStale s' > 0 \<and> (es_ageUnverified s' \<or> ev_Age ev > es_maxStale s'))
          in if \<not> source_IsNone (es_fallback s') \<and> he_Available (healthOf s' (es_fallback s')) then
               (Some (decide (targetFor (es_fallback s')) RuleTTLStale
                  ''operational data exceeded its freshness TTL; routing to the execution source'' (es_fallback s')), s')
             else if es_allowStale s' \<and> \<not> beyondCeiling \<and> he_Available (rq_OperationalHealth (es_req s')) then
               (Some (decide TargetOperational RuleTTLStale
                  ''operational data is stale and no fallback is available; serving stale data as permitted by policy''
                  SourceOperational), s')
             else
               (Some (decide TargetNone RuleTTLStale
                  ''operational data is stale, no fallback is available, and policy forbids serving stale data''
                  SourceUnset), s'))"

definition unknownChoice :: "evalState \<Rightarrow> SourceKind option" where
  "unknownChoice s =
     (case ParseSourceKind (df_OnUnknownFreshness (es_defs s)) of (choice, ok) \<Rightarrow>
        if \<not> ok then Some SourceOperational
        else if source_IsNone choice then None
        else Some choice)"

definition ruleTTLUnknown :: "Router \<Rightarrow> rule" where
  "ruleTTLUnknown R s =
     (if es_preferred s \<noteq> SourceOperational then (None, s)
      else case evaluateFreshness R s of (ev, s') \<Rightarrow>
        if ev_State ev \<noteq> FreshnessUnknown then (None, s')
        else case unknownChoice s' of
          None \<Rightarrow> (Some (decide TargetNone RuleTTLUnknown
             ''freshness could not be established and policy is configured to fail rather than guess'' SourceUnset), s')
        | Some choice0 \<Rightarrow>
           (let choice1 = (if es_pinned s' \<and> choice0 \<noteq> es_preferred s' then es_preferred s' else choice0);
                other = (if choice1 = SourceExecution then SourceOperational else SourceExecution);
                reason = (if es_probeFailed s' then ''freshness probe failed; applying the configured default''
                          else ''freshness could not be established; applying the configured default'')
            in if he_Available (healthOf s' choice1) then
                 (Some (decide (targetFor choice1) RuleTTLUnknown reason choice1), s')
               else if \<not> es_pinned s' \<and> he_Available (healthOf s' other) then
                 (Some (decide (targetFor other) RuleTTLUnknown reason other), s')
               else (Some (decide TargetNone RuleTTLUnknown
                 ''freshness could not be established and no source that can supply the requested fields is available''
                 SourceUnset), s')))"

definition ruleDefaultPreferred :: rule where
  "ruleDefaultPreferred s =
     (let p = strings_ToLower (ru_PreferredSource (es_rule s))
      in if p = ''both'' then
           (Some (decide TargetBoth RuleDefaultPreferred ''request type is configured to read both sources''
              SourceOperational), s)
         else if p = ''execution'' then
           (Some (decide TargetExecution RuleDefaultPreferred ''request type prefers the execution source''
              SourceExecution), s)
         else
           (Some (decide TargetOperational RuleDefaultPreferred ''request type prefers the operational source''
              SourceOperational), s))"

section \<open>The chain\<close>

text \<open>The rule table of \<^verbatim>\<open>New\<close>, each function with its id.\<close>

definition rules :: "Router \<Rightarrow> (RuleId \<times> rule) list" where
  "rules R =
    [(RuleTenantMissing, ruleTenantMissing), (RuleBothUnavailable, ruleBothUnavailable),
     (RuleFieldsExecOnly, ruleFieldsExecOnly R), (RuleFieldsOpsOnly, ruleFieldsOpsOnly R),
     (RuleFieldsSpanBoth, ruleFieldsSpanBoth R), (RuleStrongConsistency, ruleStrongConsistency),
     (RulePrimaryUnavailable, rulePrimaryUnavailable), (RuleTTLFresh, ruleTTLFresh R),
     (RuleTTLStale, ruleTTLStale R), (RuleTTLUnknown, ruleTTLUnknown R),
     (RuleDefaultPreferred, ruleDefaultPreferred)]"

text \<open>A link of the chain: the rule, with its id filled in where the decision has none.\<close>

definition link :: "RuleId \<times> rule \<Rightarrow> rule" where
  "link rl s = (case rl of (i, fn) \<Rightarrow> case fn s of (None, s') \<Rightarrow> (None, s')
     | (Some d, s') \<Rightarrow> (Some (if d_Rule d = NoRule then d\<lparr>d_Rule := i\<rparr> else d), s'))"

fun parse_source_map :: "'v gomap \<Rightarrow> 'v source_map \<Rightarrow> 'v source_map" where
  "parse_source_map [] acc = acc"
| "parse_source_map ((name, v) # es) acc =
     parse_source_map es (case ParseSourceKind name of (k, ok) \<Rightarrow> if ok then AList.update k v acc else acc)"

text \<open>The parts of \<^verbatim>\<open>finish\<close>, in its order: the values taken from the rule and the defaults, the two
  per-source maps, the configured fallback, and the primary source implied by the target.\<close>

definition finish_policy :: "Request \<Rightarrow> RoutingRule \<Rightarrow> RoutingDefaults \<Rightarrow> Decision \<Rightarrow> Decision" where
  "finish_policy req rule defs d =
     d\<lparr>d_OperationalTTL := ru_TTL rule, d_CacheTTL := ru_CacheTTL rule,
       d_Consistency := cl_Consistency (rq_Classification req),
       d_AllowStale := (ru_AllowStale rule \<or> StaleAllowed defs)
         \<and> cl_Consistency (rq_Classification req) \<noteq> ConsistencyStrong,
       d_MaxStale := if ru_MaxStale rule = 0 then df_MaxStale defs else ru_MaxStale rule\<rparr>"

definition finish_maps :: "RoutingRule \<Rightarrow> Decision \<Rightarrow> Decision" where
  "finish_maps rule d = d\<lparr>
     d_RequiredSources := (case ru_RequiredSources rule of
        Some (e # es) \<Rightarrow> Some (parse_source_map (e # es) []) | _ \<Rightarrow> d_RequiredSources d),
     d_PerSourceTimeout := (case ru_PerSourceTimeout rule of
        Some (e # es) \<Rightarrow> Some (parse_source_map (e # es) []) | _ \<Rightarrow> d_PerSourceTimeout d)\<rparr>"

definition finish_fallback :: "RoutingRule \<Rightarrow> bool \<Rightarrow> Decision \<Rightarrow> Decision" where
  "finish_fallback rule pinned d =
     (if source_IsNone (d_Fallback d) \<and> \<not> pinned then
        (case ParseSourceKind (ru_Fallback rule) of (fb, ok) \<Rightarrow> if ok then d\<lparr>d_Fallback := fb\<rparr> else d)
      else d)"

definition finish_primary :: "Decision \<Rightarrow> Decision" where
  "finish_primary d =
     (if source_IsNone (d_Primary d) then
        (case d_Target d of TargetOperational \<Rightarrow> d\<lparr>d_Primary := SourceOperational\<rparr>
         | TargetExecution \<Rightarrow> d\<lparr>d_Primary := SourceExecution\<rparr>
         | TargetBoth \<Rightarrow> d\<lparr>d_Primary := SourceOperational\<rparr>
         | TargetNone \<Rightarrow> d)
      else d)"

definition finish :: "Decision \<Rightarrow> Request \<Rightarrow> RoutingRule \<Rightarrow> RoutingDefaults \<Rightarrow> bool \<Rightarrow> Decision" where
  "finish d req rule defs pinned =
     finish_primary (finish_fallback rule pinned (finish_maps rule (finish_policy req rule defs d)))"

definition initState :: "Router \<Rightarrow> Request \<Rightarrow> RoutingRule \<Rightarrow> RoutingDefaults \<Rightarrow> Manager option \<Rightarrow> evalState" where
  "initState R req rule defs fresh =
     \<lparr>es_req = if time_IsZero (rq_Now req) then req\<lparr>rq_Now := rt_wall R\<rparr> else req,
      es_rule = rule, es_defs = defs,
      es_preferred = fst (ParseSourceKind (ru_PreferredSource rule)),
      es_fallback = fst (ParseSourceKind (ru_Fallback rule)),
      es_pinned = False, es_ageUnverified = False, es_freshnessDone = False,
      es_freshness = zero_Evaluation, es_probeFailed = False, es_fresh = fresh\<rparr>"

definition Select :: "Router \<Rightarrow> Config \<Rightarrow> Request \<Rightarrow> Manager option \<Rightarrow> Decision \<times> Manager option" where
  "Select R cfg req fresh =
     (let c = rq_Classification req in
      case ResolveRule cfg (cl_TenantID c) (cl_Type c) of (rule, ok) \<Rightarrow>
        if \<not> ok then
          (finish (decide TargetNone RuleUnconfigured
              (''no routing rule is configured for request type '' @ cl_Type c) SourceUnset)
             req zero_RoutingRule (rc_Defaults (cfg_Routing cfg)) False, fresh)
        else let defs = ResolveDefaults cfg (cl_TenantID c)
          in case chain (map link (rules R)) (initState R req rule defs fresh) of
               (Some d, s) \<Rightarrow> ((finish d (es_req s) rule defs (es_pinned s))
                  \<lparr>d_Freshness := es_freshness s, d_ProbeFailed := es_probeFailed s\<rparr>, es_fresh s)
             | (None, s) \<Rightarrow> (finish (decide TargetNone RuleDefaultPreferred ''no routing rule matched'' SourceUnset)
                  (es_req s) rule defs (es_pinned s), es_fresh s))"

end
