(* ===== verification/Cache.thy ===== *)
theory Cache
  imports Domain "HOL-Library.List_Lexorder"
begin

text \<open>
  \<^verbatim>\<open>internal/cache/cache.go\<close>: the cache entry with its two lifetimes, and the structured key. The
  payload is the marshalled response body, here a type variable. SHA-256 is the parameter
  \<open>hash\<close> of the key functions, the hexadecimal digest of a byte string. A segment is scanned
  byte by byte: every byte of a multi-byte character is outside the safe set, as the
  character is.
\<close>

section \<open>Entries\<close>

record 'p Entry =
  ce_Payload :: 'p
  ce_StoredAt :: time
  ce_CacheTTL :: duration
  ce_Freshness :: Freshness
  ce_Sources :: "SourceKind list"
  ce_Provenance :: "SourceKind gomap"
  ce_Warnings :: "Warning list"
  ce_Partial :: bool
  ce_RoutingRule :: string
  ce_Degraded :: bool
  ce_Negative :: bool
  ce_SchemaVersion :: int

definition EntrySchemaVersion :: int where "EntrySchemaVersion = 1"

definition entry_Age :: "'p Entry \<Rightarrow> time \<Rightarrow> duration" where
  "entry_Age e now = time_Sub now (ce_StoredAt e)"

definition entry_Expired :: "'p Entry \<Rightarrow> time \<Rightarrow> bool" where
  "entry_Expired e now = (if ce_CacheTTL e \<le> 0 then True else entry_Age e now \<ge> ce_CacheTTL e)"

definition EffectiveFreshness :: "'p Entry \<Rightarrow> time \<Rightarrow> Freshness" where
  "EffectiveFreshness e now =
     (let f = (ce_Freshness e)\<lparr>fr_Age := dur_add (fr_Age (ce_Freshness e)) (entry_Age e now), fr_EvaluatedAt := now\<rparr>
      in if fr_TTL f > 0 \<and> fr_State f \<noteq> FreshnessUnknown
         then f\<lparr>fr_State := if fr_Age f > fr_TTL f then FreshnessStale else FreshnessFresh\<rparr> else f)"

section \<open>Keys\<close>

record Key =
  k_Prefix :: string
  k_TenantID :: string
  k_RequestType :: string
  k_ResourceID :: string
  k_Sub :: string
  k_Variant :: "string gomap"

definition safe_char :: "char \<Rightarrow> bool" where
  "safe_char c = (let n = (of_char c :: nat)
     in 97 \<le> n \<and> n \<le> 122 \<or> 65 \<le> n \<and> n \<le> 90 \<or> 48 \<le> n \<and> n \<le> 57 \<or> n = 45 \<or> n = 95 \<or> n = 46)"

definition emptySegment :: string where "emptySegment = ''~''"

definition sanitizeSegment :: "(string \<Rightarrow> string) \<Rightarrow> string \<Rightarrow> string" where
  "sanitizeSegment hash s =
     (if s = [] then emptySegment
      else if list_all safe_char s then s
      else ''h_'' @ take 24 (hash s))"

definition hashVariant :: "(string \<Rightarrow> string) \<Rightarrow> string gomap \<Rightarrow> string" where
  "hashVariant hash v =
     take 16 (hash (concat (map (\<lambda>(k, x). k @ [CHR 0x00] @ x @ [CHR 0x00]) (sort_key fst v))))"

definition key_head :: "(string \<Rightarrow> string) \<Rightarrow> string \<Rightarrow> string \<Rightarrow> string" where
  "key_head hash pre tenantID = pre @ '':e1'' @ '':t='' @ sanitizeSegment hash tenantID"

definition key_String :: "(string \<Rightarrow> string) \<Rightarrow> Key \<Rightarrow> string" where
  "key_String hash k =
     key_head hash (k_Prefix k) (k_TenantID k) @ '':rt='' @ sanitizeSegment hash (k_RequestType k)
       @ '':r='' @ sanitizeSegment hash (k_ResourceID k)
       @ (if k_Sub k \<noteq> [] then '':s='' @ sanitizeSegment hash (k_Sub k) else [])
       @ (if length (k_Variant k) > 0 then '':v='' @ hashVariant hash (k_Variant k) else [])"

definition TenantPrefix :: "(string \<Rightarrow> string) \<Rightarrow> string \<Rightarrow> string \<Rightarrow> string" where
  "TenantPrefix hash pre tenantID = key_head hash pre tenantID @ '':''"

definition ResourceKeysForTypes :: "(string \<Rightarrow> string) \<Rightarrow> string \<Rightarrow> string \<Rightarrow> string \<Rightarrow> string list \<Rightarrow> string list" where
  "ResourceKeysForTypes hash pre tenantID resourceID requestTypes =
     map (\<lambda>rt. key_String hash \<lparr>k_Prefix = pre, k_TenantID = tenantID, k_RequestType = rt, k_ResourceID = resourceID,
       k_Sub = [], k_Variant = []\<rparr>) requestTypes"

section \<open>Lemmas: freshness of a cached answer\<close>

definition aged_ok :: "'p Entry \<Rightarrow> time \<Rightarrow> bool" where
  "aged_ok e now \<longleftrightarrow> 0 \<le> fr_Age (ce_Freshness e) \<and> ce_StoredAt e \<le> now
     \<and> fr_Age (ce_Freshness e) + (now - ce_StoredAt e) \<le> maxDuration"

lemma aged_ok_Age: "aged_ok e now \<Longrightarrow> entry_Age e now = now - ce_StoredAt e"
  unfolding entry_Age_def by (rule time_Sub_exact) (auto simp: aged_ok_def in_int64_def minDuration_def)

lemma Effective_Age:
  "aged_ok e now \<Longrightarrow> fr_Age (EffectiveFreshness e now) = fr_Age (ce_Freshness e) + (now - ce_StoredAt e)"
proof -
  assume ok: "aged_ok e now"
  have "dur_add (fr_Age (ce_Freshness e)) (now - ce_StoredAt e) = fr_Age (ce_Freshness e) + (now - ce_StoredAt e)"
    using ok by (intro dur_add_id) (auto simp: aged_ok_def in_int64_def minDuration_def)
  then show ?thesis by (simp add: EffectiveFreshness_def Let_def aged_ok_Age[OF ok])
qed

lemma Effective_State:
  "aged_ok e now \<Longrightarrow> fr_State (EffectiveFreshness e now) =
     (if 0 < fr_TTL (ce_Freshness e) \<and> fr_State (ce_Freshness e) \<noteq> FreshnessUnknown
      then if fr_Age (ce_Freshness e) + (now - ce_StoredAt e) > fr_TTL (ce_Freshness e) then FreshnessStale else FreshnessFresh
      else fr_State (ce_Freshness e))"
  using Effective_Age[of e now] by (auto simp: EffectiveFreshness_def Let_def split: if_splits)

lemma Effective_TTL [simp]: "fr_TTL (EffectiveFreshness e now) = fr_TTL (ce_Freshness e)"
  by (simp add: EffectiveFreshness_def Let_def)

section \<open>Lemmas: keys\<close>

lemma safe_not_colon: "safe_char c \<Longrightarrow> c \<noteq> CHR '':''"
  by (auto simp: safe_char_def Let_def)

text \<open>What is used of the digest: it is hexadecimal, so free of the delimiter.\<close>

definition hash_ok :: "(string \<Rightarrow> string) \<Rightarrow> bool" where
  "hash_ok hash \<longleftrightarrow> (\<forall>s. list_all safe_char (hash s))"

lemma sanitize_no_colon: "hash_ok hash \<Longrightarrow> CHR '':'' \<notin> set (sanitizeSegment hash s)"
  by (auto simp: sanitizeSegment_def emptySegment_def hash_ok_def list_all_iff dest!: safe_not_colon in_set_takeD)

lemma hashVariant_no_colon: "hash_ok hash \<Longrightarrow> CHR '':'' \<notin> set (hashVariant hash v)"
  by (auto simp: hashVariant_def hash_ok_def list_all_iff dest!: safe_not_colon in_set_takeD)

lemma colon_split:
  "CHR '':'' \<notin> set a \<Longrightarrow> CHR '':'' \<notin> set b \<Longrightarrow> x = [] \<or> hd x = CHR '':'' \<Longrightarrow> y = [] \<or> hd y = CHR '':'' \<Longrightarrow>
     a @ x = b @ y \<longleftrightarrow> a = b \<and> x = y"
proof (induction a arbitrary: b)
  case Nil
  then show ?case by (cases b; cases x; cases y) auto
next
  case (Cons c a)
  then show ?case by (cases b; cases y) auto
qed

lemma key_head_inject:
  assumes "hash_ok hash" "x = [] \<or> hd x = CHR '':''" "y = [] \<or> hd y = CHR '':''"
  shows "key_head hash p t @ x = key_head hash p t' @ y \<longleftrightarrow>
    sanitizeSegment hash t = sanitizeSegment hash t' \<and> x = y"
  using colon_split[OF sanitize_no_colon[OF assms(1)] sanitize_no_colon[OF assms(1)] assms(2,3), of t t']
  by (simp add: key_head_def)

lemma key_String_inject:
  assumes h: "hash_ok hash" and p: "k_Prefix k = k_Prefix k'" and eq: "key_String hash k = key_String hash k'"
  shows "sanitizeSegment hash (k_TenantID k) = sanitizeSegment hash (k_TenantID k')
    \<and> sanitizeSegment hash (k_RequestType k) = sanitizeSegment hash (k_RequestType k')
    \<and> sanitizeSegment hash (k_ResourceID k) = sanitizeSegment hash (k_ResourceID k')
    \<and> (k_Sub k = [] \<longleftrightarrow> k_Sub k' = [])
    \<and> (k_Sub k \<noteq> [] \<longrightarrow> sanitizeSegment hash (k_Sub k) = sanitizeSegment hash (k_Sub k'))"
proof -
  note nc = sanitize_no_colon[OF h]
  let ?v = "\<lambda>k. if length (k_Variant k) > 0 then '':v='' @ hashVariant hash (k_Variant k) else []"
  let ?s = "\<lambda>k. (if k_Sub k \<noteq> [] then '':s='' @ sanitizeSegment hash (k_Sub k) else []) @ ?v k"
  have hv: "?v x = [] \<or> hd (?v x) = CHR '':''" for x by simp
  have hs: "?s x = [] \<or> hd (?s x) = CHR '':''" for x by (cases "k_Sub x = []") (use hv in auto)
  have t: "sanitizeSegment hash (k_TenantID k) = sanitizeSegment hash (k_TenantID k')"
    and r1: "sanitizeSegment hash (k_RequestType k) @ '':r='' @ sanitizeSegment hash (k_ResourceID k) @ ?s k
      = sanitizeSegment hash (k_RequestType k') @ '':r='' @ sanitizeSegment hash (k_ResourceID k') @ ?s k'"
    using eq p key_head_inject[OF h, of "'':rt='' @ sanitizeSegment hash (k_RequestType k) @ '':r='' @ sanitizeSegment hash (k_ResourceID k) @ ?s k"
        "'':rt='' @ sanitizeSegment hash (k_RequestType k') @ '':r='' @ sanitizeSegment hash (k_ResourceID k') @ ?s k'"
        "k_Prefix k'" "k_TenantID k" "k_TenantID k'"]
    by (simp_all add: key_String_def)
  have rt: "sanitizeSegment hash (k_RequestType k) = sanitizeSegment hash (k_RequestType k')"
    and r2: "sanitizeSegment hash (k_ResourceID k) @ ?s k = sanitizeSegment hash (k_ResourceID k') @ ?s k'"
    using r1 colon_split[OF nc nc, of "'':r='' @ sanitizeSegment hash (k_ResourceID k) @ ?s k"
        "'':r='' @ sanitizeSegment hash (k_ResourceID k') @ ?s k'"] by simp_all
  have r: "sanitizeSegment hash (k_ResourceID k) = sanitizeSegment hash (k_ResourceID k')" and s: "?s k = ?s k'"
    using r2 colon_split[OF nc nc hs hs] by blast+
  have sub: "k_Sub k = [] \<longleftrightarrow> k_Sub k' = []"
    using s by (cases "k_Sub k = []"; cases "k_Sub k' = []") (auto split: if_splits)
  have "sanitizeSegment hash (k_Sub k) = sanitizeSegment hash (k_Sub k')" if "k_Sub k \<noteq> []"
  proof -
    have "sanitizeSegment hash (k_Sub k) @ ?v k = sanitizeSegment hash (k_Sub k') @ ?v k'"
      using s that sub by simp
    then show ?thesis using colon_split[OF nc nc hv hv] by blast
  qed
  then show ?thesis using t rt r sub by blast
qed

lemma key_String_variant:
  assumes "hash_ok hash" "k_Prefix k = k_Prefix k'" "key_String hash k = key_String hash k'"
  shows "k_Variant k = [] \<longleftrightarrow> k_Variant k' = []"
  using key_String_inject[OF assms] assms(2,3) by (cases "k_Sub k = []") (auto simp: key_String_def key_head_def split: if_splits)

lemma TenantPrefix_match:
  assumes h: "hash_ok hash"
  shows "strings_HasPrefix (key_String hash k) (TenantPrefix hash (k_Prefix k) t) \<longleftrightarrow>
    sanitizeSegment hash (k_TenantID k) = sanitizeSegment hash t"
proof
  assume "strings_HasPrefix (key_String hash k) (TenantPrefix hash (k_Prefix k) t)"
  then obtain z where z: "key_String hash k = TenantPrefix hash (k_Prefix k) t @ z"
    by (auto simp: strings_HasPrefix_def prefix_def)
  show "sanitizeSegment hash (k_TenantID k) = sanitizeSegment hash t"
  proof -
    obtain w where "key_String hash k = key_head hash (k_Prefix k) (k_TenantID k) @ '':'' @ w"
      by (simp add: key_String_def)
    then show ?thesis
      using z key_head_inject[OF h, of "'':'' @ w" "'':'' @ z" "k_Prefix k" "k_TenantID k" t]
      by (simp add: TenantPrefix_def)
  qed
qed (simp add: strings_HasPrefix_def key_String_def TenantPrefix_def key_head_def prefix_def)

text \<open>An identifier that the key shows verbatim: non-empty, safe, and not of the form a digest takes.\<close>

definition plain_id :: "string \<Rightarrow> bool" where
  "plain_id s \<longleftrightarrow> s \<noteq> [] \<and> list_all safe_char s \<and> take 2 s \<noteq> ''h_''"

lemma sanitize_plain: "plain_id s \<Longrightarrow> sanitizeSegment hash s = s"
  by (simp add: plain_id_def sanitizeSegment_def)

lemma sanitize_plain_inject:
  assumes "plain_id s" "sanitizeSegment hash s = sanitizeSegment hash t"
  shows "s = t"
proof -
  have s: "s = sanitizeSegment hash t" using assms by (simp add: sanitize_plain)
  have "s \<noteq> ''~''" using assms(1) by (auto simp: plain_id_def safe_char_def Let_def)
  moreover have "take 2 s \<noteq> ''h_''" using assms(1) by (simp add: plain_id_def)
  ultimately have "t \<noteq> []" "list_all safe_char t"
    unfolding s by (auto simp: sanitizeSegment_def emptySegment_def split: if_splits)
  then show ?thesis using s by (simp add: sanitizeSegment_def)
qed

section \<open>Properties\<close>

text \<open>C19: A cache hit never makes stale data look fresh. For an entry read at a time not before it was
  stored (and whose total age fits a duration), the freshness reported is the age the data had
  when it was stored plus the time spent in the cache, against the unchanged freshness TTL: what was never
  established stays UNKNOWN, and with a freshness TTL the verdict is FRESH exactly while the total
  age is within it.\<close>

theorem cache_hit_never_launders:
  assumes "aged_ok e now"
  shows "fr_Age (EffectiveFreshness e now) = fr_Age (ce_Freshness e) + (now - ce_StoredAt e)
    \<and> fr_TTL (EffectiveFreshness e now) = fr_TTL (ce_Freshness e)
    \<and> (fr_State (ce_Freshness e) = FreshnessUnknown \<longrightarrow> fr_State (EffectiveFreshness e now) = FreshnessUnknown)
    \<and> (fr_State (ce_Freshness e) \<noteq> FreshnessUnknown \<and> 0 < fr_TTL (ce_Freshness e) \<longrightarrow>
        (fr_State (EffectiveFreshness e now) = FreshnessFresh \<longleftrightarrow>
           fr_Age (ce_Freshness e) + (now - ce_StoredAt e) \<le> fr_TTL (ce_Freshness e)))"
  using Effective_Age[OF assms] Effective_State[OF assms] by simp

definition demo_cached :: "nat Entry" where
  "demo_cached = \<lparr>ce_Payload = 1, ce_StoredAt = 100 * second, ce_CacheTTL = 30 * second,
     ce_Freshness = zero_Freshness\<lparr>fr_State := FreshnessFresh, fr_Age := 20 * second, fr_TTL := 30 * second\<rparr>,
     ce_Sources = [SourceOperational], ce_Provenance = [], ce_Warnings = [], ce_Partial = False,
     ce_RoutingRule = ''R'', ce_Degraded = False, ce_Negative = False, ce_SchemaVersion = 1\<rparr>"

theorem cache_hit_never_launders_witness:
  "fr_State (EffectiveFreshness demo_cached (111 * second)) \<noteq> FreshnessFresh
    \<and> fr_Age (EffectiveFreshness demo_cached (111 * second)) = 31 * second"
proof -
  have "aged_ok demo_cached (111 * second)"
    by (simp add: aged_ok_def demo_cached_def dur_units maxDuration_def)
  from cache_hit_never_launders[OF this] show ?thesis by (simp add: demo_cached_def dur_units)
qed

text \<open>Keys separate tenants. Whatever the digest, as long as it is made of hexadecimal digits: two keys under one
  prefix render to the same string only when tenant, request type, resource and sub-resource sanitise
  to the same segments, so two keys whose tenant ids are plain identifiers and differ never
  collide, and a tenant's flush prefix matches a key of a plainly named tenant only if it is that tenant's own.\<close>

theorem cache_keys_separate_tenants:
  assumes "hash_ok hash" "k_Prefix k = k_Prefix k'" "plain_id (k_TenantID k)" "k_TenantID k \<noteq> k_TenantID k'"
  shows "key_String hash k \<noteq> key_String hash k'
    \<and> \<not> strings_HasPrefix (key_String hash k) (TenantPrefix hash (k_Prefix k) (k_TenantID k'))
    \<and> strings_HasPrefix (key_String hash k) (TenantPrefix hash (k_Prefix k) (k_TenantID k))"
proof -
  have ne: "sanitizeSegment hash (k_TenantID k) \<noteq> sanitizeSegment hash (k_TenantID k')"
    using sanitize_plain_inject[OF assms(3)] assms(4) by blast
  then show ?thesis
    using key_String_inject[OF assms(1,2)] TenantPrefix_match[OF assms(1)] by blast
qed

definition demo_hash :: "string \<Rightarrow> string" where
  "demo_hash s = concat (map (\<lambda>c. if c = CHR ''/'' then ''2f'' else ''61'') s)"

definition demo_key :: "string \<Rightarrow> Key" where
  "demo_key t = \<lparr>k_Prefix = ''bff'', k_TenantID = t, k_RequestType = ''resource'', k_ResourceID = ''a/b'', k_Sub = [], k_Variant = []\<rparr>"

theorem cache_keys_separate_tenants_witness:
  "\<not> strings_HasPrefix (key_String demo_hash (demo_key ''acme2'')) (TenantPrefix demo_hash ''bff'' ''acme'')"
proof -
  have "hash_ok demo_hash"
    by (auto simp: hash_ok_def demo_hash_def list_all_iff safe_char_def Let_def split: if_splits)
  moreover have "plain_id (k_TenantID (demo_key ''acme2''))"
    by (simp add: demo_key_def plain_id_def safe_char_def Let_def)
  ultimately show ?thesis
    using cache_keys_separate_tenants[of demo_hash "demo_key ''acme2''" "demo_key ''acme''"] by (simp add: demo_key_def)
qed

end
