(* ===== verification/MemoryCache.thy ===== *)
theory MemoryCache
  imports Cache
begin

text \<open>
  \<^verbatim>\<open>internal/cache/memory.go\<close>: the bounded, LRU-evicted in-process cache. The model keeps the two
  structures of the code apart: the map from keys to list elements, where an element is
  known by its identity, and the list of elements in order of recency, each with its
  \<^verbatim>\<open>memItem\<close>. The invariant \<open>mem_ok\<close> says that they agree, and \<open>mem_list\<close> forgets the identities; the
  operations refine those of a plain recency list (\<open>lru_\<dots>\<close>), on which the retention property is
  proved. The clock is read once by \<^verbatim>\<open>Get\<close> and by \<^verbatim>\<open>Set\<close>; the reading is their first argument.
  \<^verbatim>\<open>cloneEntry\<close> copies what a caller could mutate, so a stored entry is a value.
\<close>

datatype cache_err = ErrMiss | BackendErr string

record 'p memItem =
  mi_key :: string
  mi_entry :: "'p Entry"
  mi_expiresAt :: time

record 'p Memory =
  mem_maxItems :: int
  mem_items :: "nat gomap"
  mem_lru :: "(nat \<times> 'p memItem) list"
  mem_next :: nat

definition NewMemory :: "int \<Rightarrow> 'p Memory" where
  "NewMemory maxItems = \<lparr>mem_maxItems = if maxItems < 1 then 1024 else maxItems, mem_items = [], mem_lru = [], mem_next = 0\<rparr>"

definition mem_elem :: "'p Memory \<Rightarrow> string \<Rightarrow> (nat \<times> 'p memItem) option" where
  "mem_elem m key = (case gomap_get (mem_items m) key of None \<Rightarrow> None
     | Some i \<Rightarrow> (case map_of (mem_lru m) i of None \<Rightarrow> None | Some it \<Rightarrow> Some (i, it)))"

definition MoveToFront :: "nat \<times> 'a \<Rightarrow> (nat \<times> 'a) list \<Rightarrow> (nat \<times> 'a) list" where
  "MoveToFront el l = el # filter (\<lambda>x. fst x \<noteq> fst el) l"

definition removeLocked :: "nat \<times> 'p memItem \<Rightarrow> 'p Memory \<Rightarrow> 'p Memory" where
  "removeLocked el m = m\<lparr>mem_items := gomap_del (mi_key (snd el)) (mem_items m),
     mem_lru := filter (\<lambda>x. fst x \<noteq> fst el) (mem_lru m)\<rparr>"

definition mem_Get :: "time \<Rightarrow> string \<Rightarrow> 'p Memory \<Rightarrow> (cache_err + 'p Entry) \<times> 'p Memory" where
  "mem_Get now key m =
     (case mem_elem m key of None \<Rightarrow> (Inl ErrMiss, m)
      | Some el \<Rightarrow>
          if time_After now (mi_expiresAt (snd el)) then (Inl ErrMiss, removeLocked el m)
          else (Inr (mi_entry (snd el)), m\<lparr>mem_lru := MoveToFront el (mem_lru m)\<rparr>))"

function evictLocked :: "'p Memory \<Rightarrow> 'p Memory" where
  "evictLocked m =
     (if int (length (mem_lru m)) > mem_maxItems m \<and> mem_lru m \<noteq> []
      then evictLocked (removeLocked (last (mem_lru m)) m) else m)"
  by auto
termination
proof (relation "measure (\<lambda>m. length (mem_lru m))")
  fix m :: "'p Memory"
  assume "int (length (mem_lru m)) > mem_maxItems m \<and> mem_lru m \<noteq> []"
  then have "last (mem_lru m) \<in> set (mem_lru m)" by simp
  then show "(removeLocked (last (mem_lru m)) m, m) \<in> measure (\<lambda>m. length (mem_lru m))"
    by (auto simp: removeLocked_def intro: length_filter_less)
qed simp

definition mem_Set :: "time \<Rightarrow> string \<Rightarrow> 'p Entry \<Rightarrow> duration \<Rightarrow> 'p Memory \<Rightarrow> cache_err option \<times> 'p Memory" where
  "mem_Set now key e ttl m =
     (if ttl \<le> 0 then (None, m)
      else let exp = time_Add now ttl in
        (case mem_elem m key of
           Some el \<Rightarrow> (None, m\<lparr>mem_lru := MoveToFront (fst el, (snd el)\<lparr>mi_entry := e, mi_expiresAt := exp\<rparr>) (mem_lru m)\<rparr>)
         | None \<Rightarrow>
             (let i = mem_next m;
                  m' = m\<lparr>mem_lru := (i, \<lparr>mi_key = key, mi_entry = e, mi_expiresAt = exp\<rparr>) # mem_lru m,
                         mem_items := gomap_put key i (mem_items m), mem_next := i + 1\<rparr>
              in (None, evictLocked m'))))"

definition mem_Delete :: "string \<Rightarrow> 'p Memory \<Rightarrow> cache_err option \<times> 'p Memory" where
  "mem_Delete key m = (case mem_elem m key of None \<Rightarrow> (None, m) | Some el \<Rightarrow> (None, removeLocked el m))"

definition mem_DeletePrefix :: "string \<Rightarrow> 'p Memory \<Rightarrow> cache_err option \<times> 'p Memory" where
  "mem_DeletePrefix pre m =
     (None, fold (\<lambda>(k, _) m'. if strings_HasPrefix k pre then snd (mem_Delete k m') else m') (mem_items m) m)"

definition mem_Len :: "'p Memory \<Rightarrow> int" where "mem_Len m = int (length (mem_lru m))"

declare evictLocked.simps [simp del]

section \<open>Invariant and abstraction\<close>

definition mem_wf :: "'p Memory \<Rightarrow> bool" where
  "mem_wf m \<longleftrightarrow> distinct (map fst (mem_lru m)) \<and> distinct (map (mi_key \<circ> snd) (mem_lru m))
     \<and> (\<forall>k i. gomap_get (mem_items m) k = Some i \<longleftrightarrow> (\<exists>it. (i, it) \<in> set (mem_lru m) \<and> mi_key it = k))
     \<and> (\<forall>x \<in> set (mem_lru m). fst x < mem_next m)
     \<and> 1 \<le> mem_maxItems m"

definition mem_ok :: "'p Memory \<Rightarrow> bool" where
  "mem_ok m \<longleftrightarrow> mem_wf m \<and> int (length (mem_lru m)) \<le> mem_maxItems m"

definition mem_list :: "'p Memory \<Rightarrow> 'p memItem list" where
  "mem_list m = map snd (mem_lru m)"

definition lru_find :: "string \<Rightarrow> 'p memItem list \<Rightarrow> 'p memItem option" where
  "lru_find k xs = find (\<lambda>it. mi_key it = k) xs"

definition lru_drop :: "string \<Rightarrow> 'p memItem list \<Rightarrow> 'p memItem list" where
  "lru_drop k xs = filter (\<lambda>it. mi_key it \<noteq> k) xs"

definition lru_get :: "time \<Rightarrow> string \<Rightarrow> 'p memItem list \<Rightarrow> (cache_err + 'p Entry) \<times> 'p memItem list" where
  "lru_get now k xs = (case lru_find k xs of None \<Rightarrow> (Inl ErrMiss, xs)
     | Some it \<Rightarrow> if mi_expiresAt it < now then (Inl ErrMiss, lru_drop k xs) else (Inr (mi_entry it), it # lru_drop k xs))"

definition lru_set :: "nat \<Rightarrow> time \<Rightarrow> string \<Rightarrow> 'p Entry \<Rightarrow> duration \<Rightarrow> 'p memItem list \<Rightarrow> 'p memItem list" where
  "lru_set cap now k e ttl xs =
     (if ttl \<le> 0 then xs
      else take cap (\<lparr>mi_key = k, mi_entry = e, mi_expiresAt = now + ttl\<rparr> # lru_drop k xs))"

lemma mem_ok_New [bff_inv]: "mem_ok (NewMemory n)"
  by (simp add: mem_ok_def mem_wf_def NewMemory_def)

lemma New_simps [simp]:
  "mem_list (NewMemory n) = []" "mem_maxItems (NewMemory n) = (if n < 1 then 1024 else n)"
  by (simp_all add: mem_list_def NewMemory_def)

lemma mem_elem_Some:
  assumes "mem_wf m"
  shows "mem_elem m k = Some (i, it) \<longleftrightarrow> (i, it) \<in> set (mem_lru m) \<and> mi_key it = k"
proof -
  have d: "distinct (map fst (mem_lru m))" and
    g: "gomap_get (mem_items m) k = Some j \<longleftrightarrow> (\<exists>it. (j, it) \<in> set (mem_lru m) \<and> mi_key it = k)" for j
    using assms by (auto simp: mem_wf_def)
  have u: "it' = it" if "(i, it) \<in> set (mem_lru m)" "(i, it') \<in> set (mem_lru m)" for it'
    using d that by (metis map_of_eq_Some_iff option.inject)
  show ?thesis
  proof
    assume "mem_elem m k = Some (i, it)"
    then have "gomap_get (mem_items m) k = Some i" "map_of (mem_lru m) i = Some it"
      by (auto simp: mem_elem_def split: option.splits)
    then have "(i, it) \<in> set (mem_lru m)" "\<exists>it'. (i, it') \<in> set (mem_lru m) \<and> mi_key it' = k"
      using g[of i] map_of_SomeD[of "mem_lru m" i it] by blast+
    then show "(i, it) \<in> set (mem_lru m) \<and> mi_key it = k" using u by blast
  next
    assume a: "(i, it) \<in> set (mem_lru m) \<and> mi_key it = k"
    then have "gomap_get (mem_items m) k = Some i" using g[of i] by auto
    moreover have "map_of (mem_lru m) i = Some it" using a d by simp
    ultimately show "mem_elem m k = Some (i, it)" by (simp add: mem_elem_def)
  qed
qed

lemma lru_find_Some:
  "distinct (map mi_key xs) \<Longrightarrow> lru_find k xs = Some it \<longleftrightarrow> it \<in> set xs \<and> mi_key it = k"
  unfolding lru_find_def by (induction xs) (auto simp: image_iff)

lemma lru_find_None: "lru_find k xs = None \<longleftrightarrow> k \<notin> mi_key ` set xs"
  by (auto simp: lru_find_def find_None_iff)

lemma mem_list_distinct: "mem_wf m \<Longrightarrow> distinct (map mi_key (mem_list m))"
  by (simp add: mem_wf_def mem_list_def)

lemma mem_elem_list:
  assumes "mem_wf m"
  shows "map_option snd (mem_elem m k) = lru_find k (mem_list m)"
proof (cases "lru_find k (mem_list m)")
  case None
  then have "mem_elem m k \<noteq> Some (i, it)" for i it
    unfolding mem_elem_Some[OF assms] lru_find_None mem_list_def by force
  then show ?thesis using None by (cases "mem_elem m k") auto
next
  case (Some it)
  then have "it \<in> set (mem_list m)" "mi_key it = k"
    using lru_find_Some[OF mem_list_distinct[OF assms]] by auto
  then obtain i where "(i, it) \<in> set (mem_lru m)" "mi_key it = k" by (auto simp: mem_list_def)
  then show ?thesis using mem_elem_Some[OF assms] Some by force
qed

text \<open>Dropping an element by identity and dropping its item by key are the same.\<close>

lemma id_iff_key:
  assumes wf: "mem_wf m" and el: "(i, it) \<in> set (mem_lru m)" and x: "x \<in> set (mem_lru m)"
  shows "fst x = i \<longleftrightarrow> mi_key (snd x) = mi_key it"
proof -
  have "fst x = i \<longleftrightarrow> x = (i, it)"
    using wf el x unfolding mem_wf_def by (metis eq_key_imp_eq_value fst_conv prod.collapse)
  moreover have "mi_key (snd x) = mi_key it \<longleftrightarrow> x = (i, it)"
    using wf el x unfolding mem_wf_def distinct_map inj_on_def by fastforce
  ultimately show ?thesis by blast
qed

lemma filter_id_key:
  assumes "mem_wf m" "(i, it) \<in> set (mem_lru m)"
  shows "filter (\<lambda>x. fst x \<noteq> i) (mem_lru m) = filter (\<lambda>x. mi_key (snd x) \<noteq> mi_key it) (mem_lru m)"
  by (rule filter_cong[OF refl]) (simp add: id_iff_key[OF assms])

lemma mem_list_drop:
  assumes "mem_wf m" "(i, it) \<in> set (mem_lru m)"
  shows "map snd (filter (\<lambda>x. fst x \<noteq> i) (mem_lru m)) = lru_drop (mi_key it) (mem_list m)"
  unfolding filter_id_key[OF assms] by (simp add: lru_drop_def mem_list_def filter_map comp_def)


section \<open>The operations refine a recency list\<close>

lemma wf_remove:
  assumes wf: "mem_wf m" and el: "(i, it) \<in> set (mem_lru m)"
  shows "mem_wf (removeLocked (i, it) m)"
proof -
  let ?l = "filter (\<lambda>x. fst x \<noteq> i) (mem_lru m)"
  have l: "?l = filter (\<lambda>x. mi_key (snd x) \<noteq> mi_key it) (mem_lru m)" by (rule filter_id_key[OF wf el])
  have "gomap_get (gomap_del (mi_key it) (mem_items m)) k = Some j \<longleftrightarrow>
      (\<exists>it'. (j, it') \<in> set ?l \<and> mi_key it' = k)" for k j
    using wf unfolding l by (auto simp: mem_wf_def)
  then show ?thesis
    using wf unfolding mem_wf_def removeLocked_def
    by (auto simp: distinct_map_filter)
qed

lemma remove_simps [simp]:
  "mem_maxItems (removeLocked el m) = mem_maxItems m" "mem_next (removeLocked el m) = mem_next m"
  by (simp_all add: removeLocked_def)

lemma remove_list:
  "mem_wf m \<Longrightarrow> (i, it) \<in> set (mem_lru m) \<Longrightarrow> mem_list (removeLocked (i, it) m) = lru_drop (mi_key it) (mem_list m)"
  using mem_list_drop by (simp add: mem_list_def removeLocked_def)

lemma wf_front:
  assumes wf: "mem_wf m" and el: "(i, it) \<in> set (mem_lru m)" and key: "mi_key it' = mi_key it"
  shows "mem_wf (m\<lparr>mem_lru := MoveToFront (i, it') (mem_lru m)\<rparr>)"
proof -
  let ?l = "filter (\<lambda>x. fst x \<noteq> i) (mem_lru m)"
  have l: "?l = filter (\<lambda>x. mi_key (snd x) \<noteq> mi_key it) (mem_lru m)" by (rule filter_id_key[OF wf el])
  have old: "gomap_get (mem_items m) k = Some j \<longleftrightarrow> (\<exists>z. (j, z) \<in> set (mem_lru m) \<and> mi_key z = k)" for k j
    using wf by (simp add: mem_wf_def)
  have one: "j = i \<longleftrightarrow> mi_key z = mi_key it" if "(j, z) \<in> set (mem_lru m)" for j z
    using id_iff_key[OF wf el that] by simp
  have map: "gomap_get (mem_items m) k = Some j \<longleftrightarrow>
      (\<exists>z. (j, z) \<in> set (MoveToFront (i, it') (mem_lru m)) \<and> mi_key z = k)" for k j
  proof
    assume "gomap_get (mem_items m) k = Some j"
    then obtain z where "(j, z) \<in> set (mem_lru m)" "mi_key z = k" unfolding old by blast
    then show "\<exists>z. (j, z) \<in> set (MoveToFront (i, it') (mem_lru m)) \<and> mi_key z = k"
      using one[of j z] key by (cases "j = i") (auto simp: MoveToFront_def)
  qed (use el key in \<open>auto simp: old MoveToFront_def\<close>)
  have "mi_key it' \<notin> (mi_key \<circ> snd) ` set ?l" unfolding l by (auto simp: key)
  then have d: "distinct (map (mi_key \<circ> snd) (MoveToFront (i, it') (mem_lru m)))"
    "distinct (map fst (MoveToFront (i, it') (mem_lru m)))"
    using wf by (auto simp: MoveToFront_def mem_wf_def distinct_map_filter)
  then show ?thesis using wf map el by (auto simp: mem_wf_def MoveToFront_def)
qed

lemma front_list:
  "mem_wf m \<Longrightarrow> (i, it) \<in> set (mem_lru m) \<Longrightarrow>
    map snd (MoveToFront (i, it') (mem_lru m)) = it' # lru_drop (mi_key it) (mem_list m)"
  using mem_list_drop by (simp add: MoveToFront_def)

lemma front_length:
  "mem_wf m \<Longrightarrow> (i, it) \<in> set (mem_lru m) \<Longrightarrow> length (MoveToFront (i, it') (mem_lru m)) \<le> length (mem_lru m)"
  by (auto simp: MoveToFront_def less_eq_Suc_le[symmetric] intro: length_filter_less)


lemma drop_last_key:
  assumes "distinct (map mi_key xs)" "xs \<noteq> []"
  shows "lru_drop (mi_key (last xs)) xs = butlast xs"
proof -
  have e: "xs = butlast xs @ [last xs]" using assms(2) by simp
  have "mi_key (last xs) \<notin> mi_key ` set (butlast xs)"
    using assms(1) by (subst (asm) e) auto
  then have "filter (\<lambda>it. mi_key it \<noteq> mi_key (last xs)) (butlast xs) = butlast xs"
    by (metis (mono_tags, lifting) filter_True imageI)
  then show ?thesis unfolding lru_drop_def by (subst e) (simp only: filter_append, simp)
qed

lemma evict_ok:
  assumes "mem_wf m"
  shows "mem_ok (evictLocked m) \<and> mem_list (evictLocked m) = take (nat (mem_maxItems m)) (mem_list m)
    \<and> mem_maxItems (evictLocked m) = mem_maxItems m"
  using assms
proof (induction m rule: evictLocked.induct)
  case (1 m)
  show ?case
  proof (cases "int (length (mem_lru m)) > mem_maxItems m")
    case True
    then have ne: "mem_lru m \<noteq> []" using "1.prems" by (auto simp: mem_wf_def)
    let ?e = "last (mem_lru m)" let ?m = "removeLocked ?e m"
    have in_l: "(fst ?e, snd ?e) \<in> set (mem_lru m)" using ne by simp
    have wf: "mem_wf ?m" using wf_remove[OF "1.prems" in_l] by simp
    have l: "mem_list ?m = butlast (mem_list m)"
      using remove_list[OF "1.prems" in_l] drop_last_key[OF mem_list_distinct[OF "1.prems"]] ne
      by (simp add: mem_list_def last_map)
    have "take (nat (mem_maxItems m)) (butlast (mem_list m)) = take (nat (mem_maxItems m)) (mem_list m)"
      using True "1.prems" by (intro take_butlast) (auto simp: mem_list_def mem_wf_def)
    moreover have "evictLocked m = evictLocked ?m" using True ne by (subst evictLocked.simps) simp
    ultimately show ?thesis using "1.IH"[OF conjI[OF True ne] wf] l by simp
  next
    case False
    then have "evictLocked m = m" by (subst evictLocked.simps) simp
    then show ?thesis using False "1.prems" by (auto simp: mem_ok_def mem_list_def)
  qed
qed

lemma evict_within: "int (length (mem_lru m)) \<le> mem_maxItems m \<Longrightarrow> evictLocked m = m"
  by (subst evictLocked.simps) simp

lemma wf_push:
  assumes wf: "mem_wf m" and new: "lru_find k (mem_list m) = None"
  shows "mem_wf (m\<lparr>mem_lru := (mem_next m, \<lparr>mi_key = k, mi_entry = e, mi_expiresAt = x\<rparr>) # mem_lru m,
     mem_items := gomap_put k (mem_next m) (mem_items m), mem_next := mem_next m + 1\<rparr>)"
proof -
  have fresh: "\<forall>x \<in> set (mem_lru m). fst x \<noteq> mem_next m \<and> mi_key (snd x) \<noteq> k"
  proof
    fix x assume x: "x \<in> set (mem_lru m)"
    then have "fst x < mem_next m" using wf by (simp add: mem_wf_def)
    moreover have "k \<noteq> mi_key (snd x)" using new x by (auto simp: lru_find_None mem_list_def image_image)
    ultimately show "fst x \<noteq> mem_next m \<and> mi_key (snd x) \<noteq> k" by auto
  qed
  have old: "gomap_get (mem_items m) k' = Some j \<longleftrightarrow> (\<exists>z. (j, z) \<in> set (mem_lru m) \<and> mi_key z = k')" for k' j
    using wf by (simp add: mem_wf_def)
  let ?it = "\<lparr>mi_key = k, mi_entry = e, mi_expiresAt = x\<rparr>"
  have "gomap_get (gomap_put k (mem_next m) (mem_items m)) k' = Some j \<longleftrightarrow>
      (\<exists>z. (j, z) \<in> set ((mem_next m, ?it) # mem_lru m) \<and> mi_key z = k')" for k' j
    using fresh by (cases "k' = k") (auto simp: old)
  moreover have "mem_next m \<notin> fst ` set (mem_lru m)" "k \<notin> (mi_key \<circ> snd) ` set (mem_lru m)"
    using fresh by auto
  ultimately show ?thesis using wf by (simp add: mem_wf_def less_Suc_eq)
qed


lemma drop_absent: "lru_find k xs = None \<Longrightarrow> lru_drop k xs = xs"
  unfolding lru_find_None lru_drop_def by (auto intro!: filter_True)

lemma drop_length: "lru_find k xs = Some it \<Longrightarrow> length (lru_drop k xs) < length xs"
  unfolding lru_find_def lru_drop_def by (auto simp: find_Some_iff intro!: length_filter_less)

lemma length_mem_list: "length (mem_list m) = length (mem_lru m)"
  by (simp add: mem_list_def)

text \<open>The element that the map finds, if any: the case split of every operation.\<close>

lemma mem_elem_cases:
  assumes "mem_wf m"
  obtains (absent) "mem_elem m k = None" "lru_find k (mem_list m) = None"
  | (found) i it where "mem_elem m k = Some (i, it)" "(i, it) \<in> set (mem_lru m)" "mi_key it = k"
      "lru_find k (mem_list m) = Some it"
proof (cases "mem_elem m k")
  case None
  then show ?thesis using absent mem_elem_list[OF assms, of k] by simp
next
  case (Some el)
  obtain i it where "el = (i, it)" by (cases el)
  then show ?thesis using found[of i it] Some mem_elem_Some[OF assms, of k i it] mem_elem_list[OF assms, of k] by simp
qed

lemma mem_Get_refines:
  assumes "mem_ok m"
  shows "mem_ok (snd (mem_Get now k m)) \<and> mem_maxItems (snd (mem_Get now k m)) = mem_maxItems m
    \<and> fst (mem_Get now k m) = fst (lru_get now k (mem_list m))
    \<and> mem_list (snd (mem_Get now k m)) = snd (lru_get now k (mem_list m))"
proof -
  have wf: "mem_wf m" and len: "int (length (mem_lru m)) \<le> mem_maxItems m" using assms by (auto simp: mem_ok_def)
  show ?thesis using wf
  proof (cases rule: mem_elem_cases[where k = k])
    case absent
    then show ?thesis using assms by (simp add: mem_Get_def lru_get_def)
  next
    case (found i it)
    note w = wf_remove[OF wf found(2)] wf_front[OF wf found(2), of it] remove_list[OF wf found(2)]
      front_list[OF wf found(2), of it] front_length[OF wf found(2), of it]
    have "length (mem_lru (removeLocked (i, it) m)) \<le> length (mem_lru m)" by (simp add: removeLocked_def)
    then show ?thesis
      using w found len by (auto simp: mem_Get_def lru_get_def time_After_def mem_ok_def mem_list_def)
  qed
qed

lemma mem_Delete_refines:
  assumes "mem_ok m"
  shows "mem_ok (snd (mem_Delete k m)) \<and> mem_maxItems (snd (mem_Delete k m)) = mem_maxItems m
    \<and> mem_list (snd (mem_Delete k m)) = lru_drop k (mem_list m)"
proof -
  have wf: "mem_wf m" and len: "int (length (mem_lru m)) \<le> mem_maxItems m" using assms by (auto simp: mem_ok_def)
  show ?thesis using wf
  proof (cases rule: mem_elem_cases[where k = k])
    case absent
    then show ?thesis using assms by (simp add: mem_Delete_def drop_absent)
  next
    case (found i it)
    have "length (mem_lru (removeLocked (i, it) m)) \<le> length (mem_lru m)" by (simp add: removeLocked_def)
    then show ?thesis
      using wf_remove[OF wf found(2)] remove_list[OF wf found(2)] found len
      by (auto simp: mem_Delete_def mem_ok_def)
  qed
qed

lemma mem_Set_refines:
  assumes "mem_ok m"
  shows "mem_ok (snd (mem_Set now k e ttl m)) \<and> mem_maxItems (snd (mem_Set now k e ttl m)) = mem_maxItems m
    \<and> mem_list (snd (mem_Set now k e ttl m)) = lru_set (nat (mem_maxItems m)) now k e ttl (mem_list m)"
proof (cases "ttl \<le> 0")
  case True
  then show ?thesis using assms by (simp add: mem_Set_def lru_set_def)
next
  case False
  have wf: "mem_wf m" and len: "int (length (mem_lru m)) \<le> mem_maxItems m" using assms by (auto simp: mem_ok_def)
  show ?thesis using wf
  proof (cases rule: mem_elem_cases[where k = k])
    case absent
    show ?thesis
      using evict_ok[OF wf_push[OF wf absent(2), of e "now + ttl"]] False absent
      by (simp add: mem_Set_def lru_set_def Let_def time_Add_def drop_absent mem_list_def)
  next
    case (found i it)
    let ?it = "it\<lparr>mi_entry := e, mi_expiresAt := now + ttl\<rparr>"
    have "?it = \<lparr>mi_key = k, mi_entry = e, mi_expiresAt = now + ttl\<rparr>" using found(3) by (cases it) simp
    moreover have "length (lru_drop k (mem_list m)) < nat (mem_maxItems m)"
      using drop_length[OF found(4)] len by (simp add: length_mem_list)
    ultimately show ?thesis
      using wf_front[OF wf found(2), of ?it] front_list[OF wf found(2), of ?it] front_length[OF wf found(2), of ?it]
        False found len
      by (simp add: mem_Set_def lru_set_def Let_def time_Add_def mem_ok_def mem_list_def)
  qed
qed


lemma delete_prefix_fold:
  assumes "mem_ok m"
  shows "mem_ok (fold (\<lambda>(k, _) m'. if P k then snd (mem_Delete k m') else m') xs m)
    \<and> mem_maxItems (fold (\<lambda>(k, _) m'. if P k then snd (mem_Delete k m') else m') xs m) = mem_maxItems m
    \<and> mem_list (fold (\<lambda>(k, _) m'. if P k then snd (mem_Delete k m') else m') xs m)
        = filter (\<lambda>it. \<not> (P (mi_key it) \<and> mi_key it \<in> fst ` set xs)) (mem_list m)"
  using assms
proof (induction xs arbitrary: m)
  case (Cons x xs)
  have "mem_ok (if P (fst x) then snd (mem_Delete (fst x) m) else m)"
    using Cons.prems mem_Delete_refines by auto
  from Cons.IH[OF this] show ?case
    using mem_Delete_refines[OF Cons.prems, of "fst x"]
    by (auto simp: case_prod_beta lru_drop_def intro!: filter_cong)
qed auto

lemma mem_keys_eq: "mem_wf m \<Longrightarrow> fst ` set (mem_items m) = mi_key ` set (mem_list m)"
proof -
  assume wf: "mem_wf m"
  have "k \<in> fst ` set (mem_items m) \<longleftrightarrow> gomap_get (mem_items m) k \<noteq> None" for k
    by (simp add: gomap_get_def map_of_eq_None_iff)
  also have "gomap_get (mem_items m) k \<noteq> None \<longleftrightarrow> k \<in> mi_key ` set (mem_list m)" for k
    using wf by (force simp: mem_wf_def mem_list_def)
  finally show ?thesis by blast
qed

lemma mem_DeletePrefix_refines:
  assumes "mem_ok m"
  shows "mem_ok (snd (mem_DeletePrefix pre m)) \<and> mem_maxItems (snd (mem_DeletePrefix pre m)) = mem_maxItems m
    \<and> mem_list (snd (mem_DeletePrefix pre m)) = filter (\<lambda>it. \<not> strings_HasPrefix (mi_key it) pre) (mem_list m)"
proof -
  have "mem_wf m" using assms by (simp add: mem_ok_def)
  from mem_keys_eq[OF this] show ?thesis
    using delete_prefix_fold[OF assms, of "\<lambda>k. strings_HasPrefix k pre" "mem_items m"]
    by (auto simp: mem_DeletePrefix_def intro!: filter_cong)
qed

section \<open>Sequences of operations\<close>

datatype 'p mem_op = MGet time string | MSet time string "'p Entry" duration | MDelete string | MDeletePrefix string

fun mem_step :: "'p mem_op \<Rightarrow> 'p Memory \<Rightarrow> 'p Memory" where
  "mem_step (MGet now k) m = snd (mem_Get now k m)"
| "mem_step (MSet now k e ttl) m = snd (mem_Set now k e ttl m)"
| "mem_step (MDelete k) m = snd (mem_Delete k m)"
| "mem_step (MDeletePrefix pre) m = snd (mem_DeletePrefix pre m)"

fun lru_step :: "nat \<Rightarrow> 'p mem_op \<Rightarrow> 'p memItem list \<Rightarrow> 'p memItem list" where
  "lru_step cap (MGet now k) xs = snd (lru_get now k xs)"
| "lru_step cap (MSet now k e ttl) xs = lru_set cap now k e ttl xs"
| "lru_step cap (MDelete k) xs = lru_drop k xs"
| "lru_step cap (MDeletePrefix pre) xs = filter (\<lambda>it. \<not> strings_HasPrefix (mi_key it) pre) xs"

lemma mem_step_refines:
  assumes "mem_ok m"
  shows "mem_ok (mem_step a m) \<and> mem_maxItems (mem_step a m) = mem_maxItems m
    \<and> mem_list (mem_step a m) = lru_step (nat (mem_maxItems m)) a (mem_list m)"
  by (cases a) (simp_all add: mem_Get_refines[OF assms] mem_Set_refines[OF assms]
      mem_Delete_refines[OF assms] mem_DeletePrefix_refines[OF assms])

interpretation memory_cache: guarded_component mem_step mem_ok
  by unfold_locales (simp add: mem_step_refines)

lemma mem_run_refines:
  assumes "mem_ok m"
  shows "mem_maxItems (fold mem_step ops m) = mem_maxItems m
    \<and> mem_list (fold mem_step ops m) = fold (lru_step (nat (mem_maxItems m))) ops (mem_list m)"
  using assms by (induction ops arbitrary: m) (simp_all add: mem_step_refines)

text \<open>An operation that neither writes nor removes the key, and reads it only while it is alive.\<close>

fun spares :: "string \<Rightarrow> time \<Rightarrow> 'p mem_op \<Rightarrow> bool" where
  "spares k until (MGet now k') \<longleftrightarrow> (k' = k \<longrightarrow> now \<le> until)"
| "spares k until (MSet now k' e ttl) \<longleftrightarrow> k' \<noteq> k"
| "spares k until (MDelete k') \<longleftrightarrow> k' \<noteq> k"
| "spares k until (MDeletePrefix pre) \<longleftrightarrow> \<not> strings_HasPrefix k pre"

fun touches :: "'p mem_op \<Rightarrow> string list" where
  "touches (MGet now k) = [k]"
| "touches (MSet now k e ttl) = [k]"
| "touches _ = []"

definition recent :: "string set \<Rightarrow> 'p memItem \<Rightarrow> 'p memItem list \<Rightarrow> bool" where
  "recent T it xs \<longleftrightarrow> (\<exists>pre post. xs = pre @ it # post \<and> distinct (map mi_key (pre @ it # post)) \<and> mi_key ` set pre \<subseteq> T)"

lemma drop_split: "k \<noteq> mi_key it \<Longrightarrow> lru_drop k (pre @ it # post) = lru_drop k pre @ it # lru_drop k post"
  by (simp add: lru_drop_def)

lemma distinct_drop: "distinct (map mi_key xs) \<Longrightarrow> distinct (map mi_key (lru_drop k xs))"
  by (simp add: lru_drop_def distinct_map_filter)

lemma recent_filter: "recent T it xs \<Longrightarrow> P it \<Longrightarrow> recent T it (filter P xs)"
  unfolding recent_def
  by (elim exE conjE, rule_tac x = "filter P pre" in exI, rule_tac x = "filter P post" in exI)
    (auto simp: distinct_map_filter)

lemma recent_push:
  assumes r: "recent T it xs" and k: "mi_key new = k" "k \<noteq> mi_key it" "k \<in> T"
    and T: "finite T" "card T < cap"
  shows "recent T it (new # lru_drop k xs) \<and> recent T it (take cap (new # lru_drop k xs))"
proof -
  obtain pre post where x: "xs = pre @ it # post" "distinct (map mi_key (pre @ it # post))" "mi_key ` set pre \<subseteq> T"
    using r by (auto simp: recent_def)
  let ?pre = "new # lru_drop k pre" let ?post = "lru_drop k post"
  have ys: "new # lru_drop k xs = ?pre @ it # ?post" using x(1) drop_split[OF k(2)] by simp
  have "distinct (map mi_key (lru_drop k (pre @ it # post)))" by (rule distinct_drop[OF x(2)])
  then have d: "distinct (map mi_key (?pre @ it # ?post))"
    using drop_split[OF k(2)] k by (auto simp: lru_drop_def)
  have sub: "mi_key ` set ?pre \<subseteq> T" using x(3) k by (auto simp: lru_drop_def)
  have "length ?pre = card (mi_key ` set ?pre)" using d by (metis distinct_append distinct_card length_map list.set_map map_append)
  also have "\<dots> < cap" using card_mono[OF T(1) sub] T(2) by simp
  finally have tk: "take cap (?pre @ it # ?post) = ?pre @ it # take (cap - Suc (length ?pre)) ?post"
    by (simp add: take_Cons')
  have "distinct (map mi_key (take cap (?pre @ it # ?post)))"
    using d by (metis distinct_take take_map)
  then have "recent T it (take cap (?pre @ it # ?post))"
    unfolding recent_def tk using sub by blast
  moreover have "recent T it (?pre @ it # ?post)" unfolding recent_def using d sub by blast
  ultimately show ?thesis unfolding ys by blast
qed


lemma recent_find: "recent T it xs \<Longrightarrow> lru_find (mi_key it) xs = Some it"
  by (auto simp: recent_def lru_find_Some)

lemma recent_get:
  assumes r: "recent T it xs" and sp: "spares (mi_key it) (mi_expiresAt it) (MGet now k)"
    and T: "finite T" "card T < cap" "k = mi_key it \<or> k \<in> T"
  shows "recent T it (snd (lru_get now k xs))"
proof (cases "k = mi_key it")
  case True
  then have "snd (lru_get now k xs) = it # lru_drop (mi_key it) xs"
    using recent_find[OF r] sp by (simp add: lru_get_def)
  moreover have "distinct (map mi_key xs)" using r by (auto simp: recent_def)
  then have "distinct (map mi_key (lru_drop (mi_key it) xs))" by (rule distinct_drop)
  moreover have "mi_key it \<notin> mi_key ` set (lru_drop (mi_key it) xs)" by (auto simp: lru_drop_def)
  ultimately show ?thesis unfolding recent_def by (metis append_Nil distinct.simps(2) empty_iff list.set(1) list.set_map list.simps(9) subsetI image_empty)
next
  case False
  have "recent T it (lru_drop k xs)" unfolding lru_drop_def by (rule recent_filter[OF r]) (use False in simp)
  then show ?thesis
    using r recent_push[OF r _ False[THEN not_sym, THEN not_sym] _ T(1,2), of _] T(3) False
    by (auto simp: lru_get_def lru_find_def find_Some_iff split: option.splits)
qed

lemma recent_step:
  assumes r: "recent T it xs" and sp: "spares (mi_key it) (mi_expiresAt it) a"
    and T: "finite T" "card T < cap" "set (touches a) \<subseteq> insert (mi_key it) T"
  shows "recent T it (lru_step cap a xs)"
proof (cases a)
  case (MGet now k)
  then show ?thesis using recent_get[OF r _ T(1,2)] sp T(3) by simp
next
  case (MSet now k e ttl)
  then have "k \<noteq> mi_key it" "k \<in> T" using sp T(3) by auto
  then show ?thesis
    using recent_push[OF r _ _ _ T(1,2), of "\<lparr>mi_key = k, mi_entry = e, mi_expiresAt = now + ttl\<rparr>" k] r
    by (simp add: MSet lru_set_def)
next
  case (MDelete k)
  then show ?thesis using recent_filter[OF r, of "\<lambda>x. mi_key x \<noteq> k"] sp by (simp add: lru_drop_def)
next
  case (MDeletePrefix pre)
  then show ?thesis using recent_filter[OF r, of "\<lambda>x. \<not> strings_HasPrefix (mi_key x) pre"] sp by simp
qed

lemma recent_run:
  assumes "recent T it xs" "finite T" "card T < cap"
    "\<forall>a \<in> set ops. spares (mi_key it) (mi_expiresAt it) a \<and> set (touches a) \<subseteq> insert (mi_key it) T"
  shows "recent T it (fold (lru_step cap) ops xs)"
  using assms by (induction ops arbitrary: xs) (auto intro: recent_step)

section \<open>Properties\<close>

text \<open>C18: The in-process cache refines a recency list of bounded length. From a new cache, under any sequence
  of operations, the map and the list of elements agree and hold at most \<^verbatim>\<open>maxItems\<close> entries;
  the contents are what the same operations give on a plain list (a read moves its item to the
  front or drops it when expired, a write puts its item in front and cuts the list to the bound,
  a flush filters by prefix); and a read returns what that list gives.\<close>

theorem memory_refines_recency_list:
  "mem_ok (fold mem_step ops (NewMemory n))
    \<and> mem_Len (fold mem_step ops (NewMemory n)) \<le> (if n < 1 then 1024 else n)
    \<and> mem_list (fold mem_step ops (NewMemory n)) = fold (lru_step (nat (if n < 1 then 1024 else n))) ops []
    \<and> fst (mem_Get now k (fold mem_step ops (NewMemory n)))
        = fst (lru_get now k (fold (lru_step (nat (if n < 1 then 1024 else n))) ops []))"
proof -
  let ?m = "fold mem_step ops (NewMemory n)"
  have ok: "mem_ok ?m" by (rule memory_cache.run_inv[OF mem_ok_New])
  then show ?thesis
    using mem_run_refines[OF mem_ok_New[of n], of ops] mem_Get_refines[OF ok, of now k]
    by (simp add: mem_ok_def mem_Len_def)
qed

text \<open>Recently used entries survive. After a write with a positive TTL, as long as the operations that follow do
  not overwrite or remove the key, read it only before it expires, and touch fewer than
  \<^verbatim>\<open>maxItems\<close> other keys, a read no later than the expiry returns exactly the entry that was
  written: eviction only ever takes least recently used keys.\<close>

theorem memory_retains_recent:
  assumes "mem_ok m" "0 < ttl" "now' \<le> now + ttl"
    and "\<forall>a \<in> set ops. spares k (now + ttl) a"
    and "int (card (set (concat (map touches ops)) - {k})) < mem_maxItems m"
  shows "fst (mem_Get now' k (fold mem_step ops (snd (mem_Set now k e ttl m)))) = Inr e"
proof -
  let ?T = "set (concat (map touches ops)) - {k}"
  let ?it = "\<lparr>mi_key = k, mi_entry = e, mi_expiresAt = now + ttl\<rparr>"
  let ?cap = "nat (mem_maxItems m)" let ?m = "snd (mem_Set now k e ttl m)"
  have cap: "card ?T < ?cap" using assms(5) by linarith
  have s: "mem_ok ?m" "mem_maxItems ?m = mem_maxItems m" "mem_list ?m = take ?cap (?it # lru_drop k (mem_list m))"
    using mem_Set_refines[OF assms(1), of now k e ttl] assms(2) by (auto simp: lru_set_def)
  have "\<exists>post. mem_list ?m = ?it # post" using s(3) cap by (cases ?cap) auto
  then have r: "recent ?T ?it (mem_list ?m)"
    using mem_list_distinct[of ?m] s(1) unfolding recent_def mem_ok_def
    by (metis append_Nil empty_subsetI image_empty list.set(1))
  have "recent ?T ?it (fold (lru_step ?cap) ops (mem_list ?m))"
    using assms(4) by (intro recent_run[OF r _ cap]) auto
  moreover have "mem_list (fold mem_step ops ?m) = fold (lru_step ?cap) ops (mem_list ?m)"
    using mem_run_refines[OF s(1)] s(2) by simp
  ultimately have "lru_find k (mem_list (fold mem_step ops ?m)) = Some ?it"
    using recent_find[of ?T ?it] by simp
  then show ?thesis
    using mem_Get_refines[OF memory_cache.run_inv[OF s(1)], of now' k ops] assms(3) by (simp add: lru_get_def)
qed

theorem memory_retains_recent_witness:
  "fst (mem_Get 9 ''a'' (fold mem_step [MGet 3 ''a'', MSet 4 ''b'' demo_cached 5, MDelete ''c'', MDeletePrefix ''b'', MSet 6 ''b'' demo_cached 1]
     (snd (mem_Set 1 ''a'' demo_cached 10 (NewMemory 2))))) = Inr demo_cached"
  by (rule memory_retains_recent[OF mem_ok_New]) (auto simp: NewMemory_def strings_HasPrefix_def)

end
