(* ===== verification/CacheManager.thy ===== *)
theory CacheManager
  imports MemoryCache Config Errs
begin

text \<open>
  \<^verbatim>\<open>internal/cache/manager.go\<close>: the two-tier cache and the cache-aside manager.

  The interface \<^verbatim>\<open>Cache\<close> is the record \<open>Cache\<close> of operations over a backend state \<open>'s\<close>; \<open>'c\<close> is
  what one call reads of the backend's clock. \<open>c_InL1\<close> is present exactly for the
  \<^verbatim>\<open>*Layered\<close> type, and \<open>c_Name\<close> answers \<^verbatim>\<open>Name()\<close>. The loader is a function over the state \<open>'w\<close> of
  everything it may touch. The \<^verbatim>\<open>singleflight\<close> group of \<^verbatim>\<open>golang.org/x/sync\<close> is the argument
  \<open>flight\<close>: \<^term>\<open>None\<close> when this call runs the function itself, the result of the call it joined otherwise,
  with the reported \<open>shared\<close> flag. Hooks are not modelled. A background refresh is the separate
  operation \<open>refresh\<close>, run at any later moment; the outcome of \<open>GetOrLoad\<close> says whether it
  was scheduled.
\<close>

section \<open>The storage port\<close>

record ('c, 's, 'p) Cache =
  c_Get :: "'c \<Rightarrow> string \<Rightarrow> 's \<Rightarrow> (cache_err + 'p Entry) \<times> 's"
  c_Set :: "'c \<Rightarrow> string \<Rightarrow> 'p Entry \<Rightarrow> duration \<Rightarrow> 's \<Rightarrow> cache_err option \<times> 's"
  c_Delete :: "string \<Rightarrow> 's \<Rightarrow> cache_err option \<times> 's"
  c_DeletePrefix :: "string \<Rightarrow> 's \<Rightarrow> cache_err option \<times> 's"
  c_Name :: string
  c_InL1 :: "('c \<Rightarrow> string \<Rightarrow> 's \<Rightarrow> bool \<times> 's) option"

definition memory_port :: "(time, 'p Memory, 'p) Cache" where
  "memory_port = \<lparr>c_Get = mem_Get, c_Set = mem_Set, c_Delete = mem_Delete, c_DeletePrefix = mem_DeletePrefix,
     c_Name = ''memory'', c_InL1 = None\<rparr>"

section \<open>Two tiers\<close>

record ('c1, 'c2) LayeredClock =
  lk_l1Get :: 'c1
  lk_l2Get :: 'c2
  lk_now :: time
  lk_l1Set :: 'c1

definition layered_Get ::
  "('c1, 's1, 'p) Cache \<Rightarrow> ('c2, 's2, 'p) Cache \<Rightarrow> duration \<Rightarrow> ('c1, 'c2) LayeredClock \<Rightarrow> string
    \<Rightarrow> 's1 \<times> 's2 \<Rightarrow> (cache_err + 'p Entry) \<times> ('s1 \<times> 's2)" where
  "layered_Get l1 l2 l1TTL clk key s =
     (let (r1, s1) = c_Get l1 (lk_l1Get clk) key (fst s) in
      case r1 of
        Inr e \<Rightarrow> (Inr e, (s1, snd s))
      | Inl err \<Rightarrow>
          if err \<noteq> ErrMiss then (Inl err, (s1, snd s))
          else (let (r2, s2) = c_Get l2 (lk_l2Get clk) key (snd s) in
            case r2 of
              Inl err2 \<Rightarrow> (Inl err2, (s1, s2))
            | Inr e \<Rightarrow>
                (let rem0 = dur_sub (ce_CacheTTL e) (entry_Age e (lk_now clk));
                     remaining = (if rem0 > l1TTL then l1TTL else rem0)
                 in if remaining > 0 then (Inr e, (snd (c_Set l1 (lk_l1Set clk) key e remaining s1), s2))
                    else (Inr e, (s1, s2)))))"

definition layered_Set ::
  "('c1, 's1, 'p) Cache \<Rightarrow> ('c2, 's2, 'p) Cache \<Rightarrow> duration \<Rightarrow> ('c1, 'c2) LayeredClock \<Rightarrow> string
    \<Rightarrow> 'p Entry \<Rightarrow> duration \<Rightarrow> 's1 \<times> 's2 \<Rightarrow> cache_err option \<times> ('s1 \<times> 's2)" where
  "layered_Set l1 l2 l1TTL clk key e ttl s =
     (let ttl1 = (if ttl > l1TTL then l1TTL else ttl);
          s1 = snd (c_Set l1 (lk_l1Set clk) key e ttl1 (fst s));
          (err, s2) = c_Set l2 (lk_l2Get clk) key e ttl (snd s)
      in (err, (s1, s2)))"

definition layered_Delete ::
  "('c1, 's1, 'p) Cache \<Rightarrow> ('c2, 's2, 'p) Cache \<Rightarrow> string \<Rightarrow> 's1 \<times> 's2 \<Rightarrow> cache_err option \<times> ('s1 \<times> 's2)" where
  "layered_Delete l1 l2 key s =
     (let s1 = snd (c_Delete l1 key (fst s)); (err, s2) = c_Delete l2 key (snd s) in (err, (s1, s2)))"

definition layered_DeletePrefix ::
  "('c1, 's1, 'p) Cache \<Rightarrow> ('c2, 's2, 'p) Cache \<Rightarrow> string \<Rightarrow> 's1 \<times> 's2 \<Rightarrow> cache_err option \<times> ('s1 \<times> 's2)" where
  "layered_DeletePrefix l1 l2 pre s =
     (let s1 = snd (c_DeletePrefix l1 pre (fst s)); (err, s2) = c_DeletePrefix l2 pre (snd s) in (err, (s1, s2)))"

definition layered_InL1 ::
  "('c1, 's1, 'p) Cache \<Rightarrow> ('c1, 'c2) LayeredClock \<Rightarrow> string \<Rightarrow> 's1 \<times> 's2 \<Rightarrow> bool \<times> ('s1 \<times> 's2)" where
  "layered_InL1 l1 clk key s =
     (let (r, s1) = c_Get l1 (lk_l1Get clk) key (fst s) in (\<not> isl r, (s1, snd s)))"

definition NewLayered ::
  "('c1, 's1, 'p) Cache \<Rightarrow> ('c2, 's2, 'p) Cache \<Rightarrow> duration \<Rightarrow> (('c1, 'c2) LayeredClock, 's1 \<times> 's2, 'p) Cache" where
  "NewLayered l1 l2 l1TTL = \<lparr>c_Get = layered_Get l1 l2 l1TTL, c_Set = layered_Set l1 l2 l1TTL,
     c_Delete = layered_Delete l1 l2, c_DeletePrefix = layered_DeletePrefix l1 l2,
     c_Name = ''layered'', c_InL1 = Some (layered_InL1 l1)\<rparr>"

section \<open>The manager\<close>

record 's Locker =
  lk_Acquire :: "string \<Rightarrow> duration \<Rightarrow> 's \<Rightarrow> (cache_err + bool) \<times> 's"
  lk_Release :: "string \<Rightarrow> 's \<Rightarrow> 's"

record ('c, 's, 'p) Manager =
  cm_cache :: "('c, 's, 'p) Cache option"
  cm_cfg :: CacheConfig
  cm_locker :: "'s Locker option"

record 'p Result =
  rs_Entry :: "'p Entry option"
  rs_Hit :: bool
  rs_Layer :: CacheLayer
  rs_Stampede :: bool

definition no_result :: "'p Result" where
  "no_result = \<lparr>rs_Entry = None, rs_Hit = False, rs_Layer = CacheNone, rs_Stampede = False\<rparr>"

record 'c GetClock =
  gk_get :: 'c
  gk_now :: time
  gk_layer :: 'c

record 'c StoreClock =
  sk_now :: time
  sk_set :: 'c

record 'c LoadClock =
  ok_first :: "'c GetClock"
  ok_early :: time
  ok_recheck :: "'c GetClock"
  ok_store :: "'c StoreClock"

definition Enabled :: "('c, 's, 'p) Manager \<Rightarrow> bool" where
  "Enabled m \<longleftrightarrow> cc_Enabled (cm_cfg m) \<and> cm_cache m \<noteq> None"

definition NewManager ::
  "('c, 's, 'p) Cache option \<Rightarrow> 's Locker option \<Rightarrow> CacheConfig \<Rightarrow> ('c, 's, 'p) Manager" where
  "NewManager c locker cfg = \<lparr>cm_cache = c, cm_cfg = cfg,
     cm_locker = if st_Enabled (cc_Stampede cfg) then locker else None\<rparr>"

definition layerFor :: "('c, 's, 'p) Cache \<Rightarrow> 'c \<Rightarrow> string \<Rightarrow> 's \<Rightarrow> CacheLayer \<times> 's" where
  "layerFor c clk key s =
     (case c_InL1 c of
        None \<Rightarrow> ((if c_Name c = ''memory'' then CacheL1 else if c_Name c = ''redis'' then CacheL2 else CacheNone), s)
      | Some inL1 \<Rightarrow> (let (b, s') = inL1 clk key s in ((if b then CacheL1 else CacheL2), s')))"

definition manager_get ::
  "('c, 's, 'p) Manager \<Rightarrow> 'c GetClock \<Rightarrow> string \<Rightarrow> 's \<Rightarrow> ('p Result \<times> bool \<times> cache_err option) \<times> 's" where
  "manager_get m clk key s =
     (case cm_cache m of None \<Rightarrow> ((no_result, False, None), s)
      | Some c \<Rightarrow>
        if \<not> Enabled m then ((no_result, False, None), s)
        else (let (r, s1) = c_Get c (gk_get clk) key s in
          case r of
            Inr e \<Rightarrow>
              if entry_Expired e (gk_now clk) then ((no_result, False, None), s1)
              else (let (layer, s2) = layerFor c (gk_layer clk) key s1
                    in ((\<lparr>rs_Entry = Some e, rs_Hit = True, rs_Layer = layer, rs_Stampede = False\<rparr>, True, None), s2))
          | Inl err \<Rightarrow> if err = ErrMiss then ((no_result, False, None), s1) else ((no_result, False, Some err), s1)))"

definition stamped :: "CacheConfig \<Rightarrow> time \<Rightarrow> duration \<Rightarrow> 'p Entry \<Rightarrow> 'p Entry" where
  "stamped cfg now ttl e =
     (let ttl' = (if (ce_Degraded e \<or> ce_Partial e) \<and> cc_NegativeTTL cfg > 0 \<and> ttl > cc_NegativeTTL cfg
                  then cc_NegativeTTL cfg else ttl)
      in e\<lparr>ce_StoredAt := now, ce_CacheTTL := ttl', ce_SchemaVersion := EntrySchemaVersion\<rparr>)"

definition manager_store ::
  "('c, 's, 'p) Manager \<Rightarrow> 'c StoreClock \<Rightarrow> string \<Rightarrow> 'p Entry \<Rightarrow> duration \<Rightarrow> 's \<Rightarrow> 'p Entry \<times> 's" where
  "manager_store m clk key e ttl s =
     (let e' = stamped (cm_cfg m) (sk_now clk) ttl e;
          physical = dur_add (ce_CacheTTL e') (cc_StaleGrace (cm_cfg m))
      in (e', case cm_cache m of None \<Rightarrow> s | Some c \<Rightarrow> snd (c_Set c (sk_set clk) key e' physical s)))"

text \<open>\<^verbatim>\<open>Store\<close> stamps the entry that its caller holds a pointer to, so the entry as the call leaves it is a result.\<close>

definition Store ::
  "('c, 's, 'p) Manager \<Rightarrow> 'c StoreClock \<Rightarrow> string \<Rightarrow> 'p Entry option \<Rightarrow> duration \<Rightarrow> 's \<Rightarrow> 'p Entry option \<times> 's" where
  "Store m clk key e ttl s =
     (case e of None \<Rightarrow> (None, s)
      | Some e \<Rightarrow> if \<not> Enabled m \<or> ttl \<le> 0 then (Some e, s)
                 else (let (e', s') = manager_store m clk key e ttl s in (Some e', s')))"

lemma Store_simps:
  "snd (Store m clk key (Some e) ttl s) = (if \<not> Enabled m \<or> ttl \<le> 0 then s else snd (manager_store m clk key e ttl s))"
  "fst (Store m clk key (Some e) ttl s) = Some (if \<not> Enabled m \<or> ttl \<le> 0 then e else stamped (cm_cfg m) (sk_now clk) ttl e)"
  "Store m clk key None ttl s = (None, s)"
  by (simp_all add: Store_def manager_store_def Let_def)

definition SetNegative ::
  "('c, 's, 'p) Manager \<Rightarrow> time \<Rightarrow> 'c StoreClock \<Rightarrow> 'p \<Rightarrow> string \<Rightarrow> 's \<Rightarrow> 's" where
  "SetNegative m now clk nilPayload key s =
     (if \<not> Enabled m \<or> cc_NegativeTTL (cm_cfg m) \<le> 0 then s
      else snd (manager_store m clk key
        \<lparr>ce_Payload = nilPayload, ce_StoredAt = now, ce_CacheTTL = cc_NegativeTTL (cm_cfg m), ce_Freshness = zero_Freshness,
         ce_Sources = [], ce_Provenance = [], ce_Warnings = [], ce_Partial = False, ce_RoutingRule = [], ce_Degraded = False,
         ce_Negative = True, ce_SchemaVersion = EntrySchemaVersion\<rparr> (cc_NegativeTTL (cm_cfg m)) s))"

definition Invalidate :: "('c, 's, 'p) Manager \<Rightarrow> string list \<Rightarrow> 's \<Rightarrow> 's" where
  "Invalidate m keys s =
     (case cm_cache m of None \<Rightarrow> s
      | Some c \<Rightarrow> if \<not> Enabled m then s else fold (\<lambda>k s. snd (c_Delete c k s)) keys s)"

definition InvalidateTenant ::
  "(string \<Rightarrow> string) \<Rightarrow> ('c, 's, 'p) Manager \<Rightarrow> string \<Rightarrow> 's \<Rightarrow> cache_err option \<times> 's" where
  "InvalidateTenant hash m tenantID s =
     (case cm_cache m of None \<Rightarrow> (None, s)
      | Some c \<Rightarrow> if \<not> Enabled m then (None, s)
          else c_DeletePrefix c (TenantPrefix hash (cc_KeyPrefix (cm_cfg m)) tenantID) s)"

definition GetStale ::
  "('c, 's, 'p) Manager \<Rightarrow> 'c \<Rightarrow> 'c \<Rightarrow> string \<Rightarrow> 's \<Rightarrow> ('p Entry \<times> CacheLayer) option \<times> 's" where
  "GetStale m clk layerClk key s =
     (case cm_cache m of None \<Rightarrow> (None, s)
      | Some c \<Rightarrow>
        if \<not> Enabled m then (None, s)
        else (let (r, s1) = c_Get c clk key s in
          case r of Inl _ \<Rightarrow> (None, s1)
          | Inr e \<Rightarrow> if ce_Negative e then (None, s1)
              else (let (layer, s2) = layerFor c layerClk key s1 in (Some (e, layer), s2))))"

definition shouldEarlyRefresh :: "CacheConfig \<Rightarrow> 'p Entry option \<Rightarrow> time \<Rightarrow> bool" where
  "shouldEarlyRefresh cfg e now =
     (let r = st_EarlyRefreshRatio (cc_Stampede cfg) in
      case e of None \<Rightarrow> False
      | Some e \<Rightarrow>
          if \<not> st_Enabled (cc_Stampede cfg) \<or> r \<le> 0 \<or> r \<ge> 1 \<or> ce_CacheTTL e \<le> 0 \<or> ce_Negative e then False
          else entry_Age e now \<ge> f64_to_int (f64_mul (f64_of_int (ce_CacheTTL e)) r))"

type_synonym ('w, 'p) loader = "'w \<Rightarrow> (goerr + 'p Entry) \<times> 'w"

fun cache_goerr :: "cache_err \<Rightarrow> goerr" where
  "cache_goerr ErrMiss = Opaque ''cache: miss'' None"
| "cache_goerr (BackendErr msg) = Opaque msg None"

definition with_lock :: "('c, 's, 'p) Manager \<Rightarrow> string \<Rightarrow> 's \<Rightarrow> bool \<times> 's" where
  "with_lock m key s =
     (case cm_locker m of None \<Rightarrow> (False, s)
      | Some l \<Rightarrow> (case lk_Acquire l key (st_LockTTL (cc_Stampede (cm_cfg m))) s of
           (Inr locked, s') \<Rightarrow> (locked, s') | (Inl _, s') \<Rightarrow> (False, s')))"

definition unlock :: "('c, 's, 'p) Manager \<Rightarrow> bool \<Rightarrow> string \<Rightarrow> 's \<Rightarrow> 's" where
  "unlock m locked key s = (case cm_locker m of Some l \<Rightarrow> if locked then lk_Release l key s else s | None \<Rightarrow> s)"

text \<open>The function that \<^verbatim>\<open>singleflight\<close> runs: re-check, lock, load, store, unlock.\<close>

definition miss_path ::
  "('c, 's, 'p) Manager \<Rightarrow> 'c LoadClock \<Rightarrow> string \<Rightarrow> duration \<Rightarrow> ('w, 'p) loader \<Rightarrow> 's \<times> 'w
    \<Rightarrow> (goerr + 'p Entry option) \<times> ('s \<times> 'w)" where
  "miss_path m clk key ttl load sw =
     (let ((res, ok, _), s1) = manager_get m (ok_recheck clk) key (fst sw) in
      if ok then (Inr (rs_Entry res), (s1, snd sw))
      else
        (let (locked, s2) = with_lock m key s1;
             (r, w') = load (snd sw)
         in case r of
              Inl err \<Rightarrow> (Inl err, (unlock m locked key s2, w'))
            | Inr e \<Rightarrow> (let (e', s3) = manager_store m (ok_store clk) key e ttl s2
                        in (Inr (Some e'), (unlock m locked key s3, w')))))"

record 'p Outcome =
  oc_result :: "goerr + 'p Result"
  oc_refresh :: bool

definition GetOrLoad ::
  "('c, 's, 'p) Manager \<Rightarrow> 'c LoadClock \<Rightarrow> (goerr + 'p Entry option) option \<Rightarrow> bool \<Rightarrow> string \<Rightarrow> duration
    \<Rightarrow> ('w, 'p) loader \<Rightarrow> 's \<times> 'w \<Rightarrow> 'p Outcome \<times> ('s \<times> 'w)" where
  "GetOrLoad m clk flight shared key ttl load sw =
     (if \<not> Enabled m \<or> ttl \<le> 0
      then (let (r, w') = load (snd sw) in
        (\<lparr>oc_result = (case r of Inl err \<Rightarrow> Inl err | Inr e \<Rightarrow> Inr (no_result\<lparr>rs_Entry := Some e\<rparr>)), oc_refresh = False\<rparr>,
         (fst sw, w')))
      else
        (let ((res, ok, cacheErr), s1) = manager_get m (ok_first clk) key (fst sw) in
         if cacheErr \<noteq> None \<and> \<not> cc_FailOpen (cm_cfg m)
         then (\<lparr>oc_result = Inl (case cacheErr of Some err \<Rightarrow> cache_goerr err | None \<Rightarrow> cache_goerr ErrMiss), oc_refresh = False\<rparr>, (s1, snd sw))
         else if ok
         then (\<lparr>oc_result = Inr res, oc_refresh = shouldEarlyRefresh (cm_cfg m) (rs_Entry res) (ok_early clk)\<rparr>, (s1, snd sw))
         else
           (let (v, sw') = (case flight of Some v \<Rightarrow> (v, (s1, snd sw)) | None \<Rightarrow> miss_path m clk key ttl load (s1, snd sw))
            in case v of
                 Inl err \<Rightarrow> (\<lparr>oc_result = Inl err, oc_refresh = False\<rparr>, sw')
               | Inr e \<Rightarrow> (\<lparr>oc_result = Inr (no_result\<lparr>rs_Entry := e, rs_Stampede := shared\<rparr>), oc_refresh = False\<rparr>, sw'))))"

text \<open>The body of a background refresh, started at \<open>startedAt\<close>.\<close>

definition refresh ::
  "('c, 's, 'p) Manager \<Rightarrow> time \<Rightarrow> 'c GetClock \<Rightarrow> 'c StoreClock \<Rightarrow> string \<Rightarrow> duration \<Rightarrow> ('w, 'p) loader
    \<Rightarrow> 's \<times> 'w \<Rightarrow> goerr option \<times> ('s \<times> 'w)" where
  "refresh m startedAt clk storeClk key ttl load sw =
     (let (r, w') = load (snd sw) in
      case r of
        Inl err \<Rightarrow> (Some err, (fst sw, w'))
      | Inr e \<Rightarrow>
          (let ((cur, ok, _), s1) = manager_get m clk key (fst sw) in
           case (if ok then rs_Entry cur else None) of
             Some c \<Rightarrow> if time_After (ce_StoredAt c) startedAt then (None, (s1, w'))
                       else (None, (snd (manager_store m storeClk key e ttl s1), w'))
           | None \<Rightarrow> (None, (snd (manager_store m storeClk key e ttl s1), w'))))"

end
