(* ===== verification/Service.thy ===== *)
theory Service
  imports Aggregation Router CacheManager
begin

text \<open>
  \<^verbatim>\<open>internal/application/service.go\<close> and the ports of \<^verbatim>\<open>internal/datasource/ports.go\<close>: the request
  lifecycle. The service reads the world through its ports, and a request visits them in phases: routing, fetching,
  the in-flight lookup, the health check before a fallback, the fallback's fetch. An \<open>Env\<close> gives what
  every port answers and what the clock shows in each phase, so a source may change its mind between
  any two of them; \<open>'w\<close> is the state that the router keeps between requests (the freshness
  memo), \<open>'s\<close> the cache backend's state and \<open>'p\<close> the encoded payload (\<^verbatim>\<open>json.Marshal\<close> is the argument
  \<open>marshal\<close>). One configuration snapshot serves the whole request. Spans, metrics and logging are
  not modelled.
\<close>

section \<open>Ports\<close>

record SourceHealth =
  sh_Available :: bool
  sh_Detail :: string
  sh_LastError :: string
  sh_CheckedAt :: time

record ReadOptions =
  ro_Timeout :: duration
  ro_IncludeAudit :: bool
  ro_IncludeSteps :: bool
  ro_Fields :: "string list"

record PageRequest =
  pg_Limit :: int
  pg_Cursor :: string

text \<open>Both repositories; the last argument of a call is the deadline of its context.\<close>

record Sources =
  so_opsHealth :: SourceHealth
  so_execHealth :: SourceHealth
  so_GetResource :: "string \<Rightarrow> string \<Rightarrow> ReadOptions \<Rightarrow> time option \<Rightarrow> goerr + (Resource \<times> Freshness)"
  so_GetResourceState :: "string \<Rightarrow> string \<Rightarrow> time option \<Rightarrow> goerr + (Resource \<times> Freshness)"
  so_GetLatestExecution :: "string \<Rightarrow> string \<Rightarrow> time option \<Rightarrow> goerr + Execution"
  so_GetExecution :: "string \<Rightarrow> string \<Rightarrow> ReadOptions \<Rightarrow> time option \<Rightarrow> goerr + Execution"
  so_ListExecutions :: "string \<Rightarrow> string \<Rightarrow> PageRequest \<Rightarrow> ReadOptions \<Rightarrow> time option \<Rightarrow> goerr + ExecutionList"
  so_latency :: "string \<Rightarrow> duration"

datatype phase = PRoute | PFetch | PInFlight | PFallbackHealth | PFallbackFetch | PFallbackInFlight | PReply

record Env =
  ev_ctx :: "time option"
  ev_corr :: string
  ev_elapsed :: duration
  ev_sources :: "phase \<Rightarrow> Sources"
  ev_now :: "phase \<Rightarrow> time"
  ev_started :: "phase \<Rightarrow> nat \<Rightarrow> time"
  ev_finished :: "phase \<Rightarrow> nat list"

type_synonym 'w router_port = "Request \<Rightarrow> 'w \<Rightarrow> (goerr + Decision) \<times> 'w"

record ('c, 's, 'p, 'w) Service =
  sv_cfg :: Config
  sv_router :: "'w router_port"
  sv_prec :: SourcePrecedencePolicy
  sv_catalog :: "FieldCatalog option"
  sv_cache :: "('c, 's, 'p) CacheManager.Manager"
  sv_hash :: "string \<Rightarrow> string"

section \<open>Views and payloads\<close>

datatype view = viewFull | viewStatus | viewConfiguration | viewDetails

record statusView =
  stv_TenantID :: string
  stv_ResourceID :: string
  stv_Status :: ResourceStatus
  stv_SubState :: string
  stv_InFlightExecutionID :: string
  stv_ObservedAt :: time

record configurationView =
  cfv_TenantID :: string
  cfv_ResourceID :: string
  cfv_Configuration :: "string gomap"
  cfv_Labels :: "string gomap"
  cfv_ObservedAt :: time

datatype payload = PStatus statusView | PConfiguration configurationView | PDetails ResourceDetails | PResource Resource
  | PExecution Execution | PExecutions ExecutionList

fun project :: "ResourceDetails \<Rightarrow> view \<Rightarrow> payload" where
  "project d viewStatus = (let r = rd_Resource d in PStatus \<lparr>stv_TenantID = re_TenantID r, stv_ResourceID = re_ResourceID r,
     stv_Status = re_Status r, stv_SubState = re_SubState r, stv_InFlightExecutionID = re_InFlightExecutionID r,
     stv_ObservedAt = re_ObservedAt r\<rparr>)"
| "project d viewConfiguration = (let r = rd_Resource d in PConfiguration \<lparr>cfv_TenantID = re_TenantID r, cfv_ResourceID = re_ResourceID r,
     cfv_Configuration = re_Configuration r, cfv_Labels = re_Labels r, cfv_ObservedAt = re_ObservedAt r\<rparr>)"
| "project d viewDetails = PDetails d"
| "project d viewFull = PResource (rd_Resource d)"

record 'p Envelope =
  env_Data :: 'p
  env_Meta :: ResponseMeta

fun rule_id :: "RuleId \<Rightarrow> string" where
  "rule_id NoRule = []"
| "rule_id RuleTenantMissing = ''guard.tenant_missing''"
| "rule_id RuleBothUnavailable = ''health.both_unavailable''"
| "rule_id RuleFieldsExecOnly = ''fields.execution_only''"
| "rule_id RuleFieldsOpsOnly = ''fields.operational_only''"
| "rule_id RuleFieldsSpanBoth = ''fields.span_both''"
| "rule_id RuleStrongConsistency = ''consistency.strong_requires_operational''"
| "rule_id RulePrimaryUnavailable = ''health.primary_unavailable''"
| "rule_id RuleTTLFresh = ''ttl.operational.fresh''"
| "rule_id RuleTTLStale = ''ttl.operational.stale''"
| "rule_id RuleTTLUnknown = ''ttl.unknown_freshness''"
| "rule_id RuleDefaultPreferred = ''default.preferred_source''"
| "rule_id RuleUnconfigured = ''guard.unconfigured_request_type''"
| "rule_id RuleFallbackAfterFailure = ''fallback.primary_failed''"

section \<open>Small helpers\<close>

definition otherThan :: "SourceKind \<Rightarrow> SourceKind" where
  "otherThan k = (case k of SourceOperational \<Rightarrow> SourceExecution | SourceExecution \<Rightarrow> SourceOperational | _ \<Rightarrow> SourceNone)"

definition toRouterHealth :: "SourceHealth \<Rightarrow> Health" where
  "toRouterHealth h = \<lparr>he_Available = sh_Available h, he_Detail = sh_Detail h\<rparr>"

definition routingDecisionFor :: "SourceKind list \<Rightarrow> string" where
  "routingDecisionFor sources =
     (let ops = SourceOperational \<in> set sources; exec = SourceExecution \<in> set sources
      in if ops \<and> exec then target_String TargetBoth else if ops then target_String TargetOperational
         else if exec then target_String TargetExecution else target_String TargetNone)"

fun digits :: "nat \<Rightarrow> string" where
  "digits n = (if n < 10 then [char_of (48 + n)] else digits (n div 10) @ [char_of (48 + n mod 10)])"

definition itoa :: "int \<Rightarrow> string" where
  "itoa n = (if n = 0 then ''0'' else if n < 0 then ''-'' @ (let m = wrap64 (- n) in if m > 0 then digits (nat m) else []) else digits (nat n))"

definition cacheKeyWith :: "('c, 's, 'p, 'w) Service \<Rightarrow> Classification \<Rightarrow> string \<Rightarrow> string gomap \<Rightarrow> string" where
  "cacheKeyWith s cls sub variant = key_String (sv_hash s)
     \<lparr>k_Prefix = cc_KeyPrefix (cm_cfg (sv_cache s)), k_TenantID = cl_TenantID cls, k_RequestType = cl_Type cls,
      k_ResourceID = cl_ResourceID cls, k_Sub = sub, k_Variant = variant\<rparr>"

definition cacheKey :: "('c, 's, 'p, 'w) Service \<Rightarrow> Classification \<Rightarrow> string \<Rightarrow> string" where
  "cacheKey s cls sub = cacheKeyWith s cls sub []"

definition targetMissesRequiredFields :: "FieldCatalog option \<Rightarrow> Decision \<Rightarrow> Classification \<Rightarrow> bool" where
  "targetMissesRequiredFields catalog d cls = (case catalog of None \<Rightarrow> False
     | Some c \<Rightarrow> list_ex (\<lambda>field. Suppliers c field \<noteq> [] \<and> \<not> list_ex (\<lambda>src. Includes (d_Target d) src) (Suppliers c field)) (cl_RequiredFields cls))"

definition reportedFreshness :: "Inputs \<Rightarrow> Decision \<Rightarrow> time \<Rightarrow> Freshness" where
  "reportedFreshness i d now =
     (case in_Operational i of
        Some _ \<Rightarrow> (let f = in_OperationalFreshness i
                  in f\<lparr>fr_TTL := if fr_TTL f = 0 then d_OperationalTTL d else fr_TTL f, fr_Source := SourceOperational\<rparr>)
      | None \<Rightarrow> zero_Freshness\<lparr>fr_State := FreshnessUnknown, fr_TTL := d_OperationalTTL d, fr_EvaluatedAt := now, fr_Source := SourceExecution\<rparr>)"

definition contributingSources :: "Decision \<Rightarrow> Inputs \<Rightarrow> SourceKind list" where
  "contributingSources d i =
     (let out = (if in_Operational i \<noteq> None then [SourceOperational] else [])
              @ (if in_LatestExecution i \<noteq> None \<or> in_History i \<noteq> None then [SourceExecution] else [])
      in if length out = 0 \<and> \<not> source_IsNone (d_Primary d) then [d_Primary d] else out)"

section \<open>Routing and fetching\<close>

definition route :: "('c, 's, 'p, 'w) Service \<Rightarrow> Env \<Rightarrow> Classification \<Rightarrow> 'w \<Rightarrow> (goerr + Decision) \<times> 'w" where
  "route s env cls w = sv_router s \<lparr>rq_Classification = cls,
     rq_OperationalHealth = toRouterHealth (so_opsHealth (ev_sources env PRoute)),
     rq_ExecutionHealth = toRouterHealth (so_execHealth (ev_sources env PRoute)), rq_Now = ev_now env PRoute\<rparr> w"

datatype call = CallOps | CallLatest | CallHistory

definition calls :: "Decision \<Rightarrow> view \<Rightarrow> call list" where
  "calls d v =
     (if Includes (d_Target d) SourceOperational then [CallOps] else [])
   @ (if Includes (d_Target d) SourceExecution
      then (if v = viewDetails \<or> v = viewFull \<or> d_Target d = TargetExecution then [CallLatest] else [])
         @ (if v = viewDetails then [CallHistory] else [])
      else [])"

definition no_options :: ReadOptions where
  "no_options = \<lparr>ro_Timeout = 0, ro_IncludeAudit = False, ro_IncludeSteps = False, ro_Fields = []\<rparr>"

fun run_call :: "Sources \<Rightarrow> Classification \<Rightarrow> Decision \<Rightarrow> view \<Rightarrow> call \<Rightarrow> time option \<Rightarrow> goerr + (Inputs \<Rightarrow> Inputs)" where
  "run_call so cls d v CallOps dl =
     (case (if v = viewStatus then so_GetResourceState so (cl_TenantID cls) (cl_ResourceID cls) dl
            else so_GetResource so (cl_TenantID cls) (cl_ResourceID cls) (no_options\<lparr>ro_Timeout := TimeoutFor d SourceOperational\<rparr>) dl) of
        Inl err \<Rightarrow> Inl err
      | Inr (r, f) \<Rightarrow> Inr (\<lambda>i. i\<lparr>in_Operational := Some r, in_OperationalFreshness := f\<rparr>))"
| "run_call so cls d v CallLatest dl =
     (case so_GetLatestExecution so (cl_TenantID cls) (cl_ResourceID cls) dl of
        Inl err \<Rightarrow> Inl err | Inr e \<Rightarrow> Inr (\<lambda>i. i\<lparr>in_LatestExecution := Some e\<rparr>))"
| "run_call so cls d v CallHistory dl =
     (case so_ListExecutions so (cl_TenantID cls) (cl_ResourceID cls) \<lparr>pg_Limit = cl_Limit cls, pg_Cursor = []\<rparr>
        (no_options\<lparr>ro_IncludeAudit := cl_IncludeAudit cls, ro_Timeout := TimeoutFor d SourceExecution\<rparr>) dl of
        Inl err \<Rightarrow> Inl err | Inr h \<Rightarrow> Inr (\<lambda>i. i\<lparr>in_History := Some h\<rparr>))"

fun call_task :: "Sources \<Rightarrow> Classification \<Rightarrow> Decision \<Rightarrow> view \<Rightarrow> call \<Rightarrow> Task" where
  "call_task so cls d v c =
     (let src = (case c of CallOps \<Rightarrow> SourceOperational | _ \<Rightarrow> SourceExecution);
          nm = (case c of CallOps \<Rightarrow> ''ods.read'' | CallLatest \<Rightarrow> ''eds.latest'' | CallHistory \<Rightarrow> ''eds.history'')
      in \<lparr>tk_Source = src, tk_Name = nm, tk_Required = (c \<noteq> CallHistory \<and> RequiresSource d src),
          tk_Timeout = TimeoutFor d src,
          tk_Run = (\<lambda>dl. (case run_call so cls d v c dl of Inl err \<Rightarrow> Some err | Inr _ \<Rightarrow> None, so_latency so nm))\<rparr>)"

definition no_inputs :: Inputs where
  "no_inputs = \<lparr>in_Operational = None, in_OperationalFreshness = zero_Freshness, in_OperationalStale = False,
     in_LatestExecution = None, in_History = None\<rparr>"

text \<open>The inputs that the tasks wrote, in the order in which they finished.\<close>

definition gather :: "Env \<Rightarrow> phase \<Rightarrow> Classification \<Rightarrow> Decision \<Rightarrow> view \<Rightarrow> Inputs" where
  "gather env ph cls d v =
     fold (\<lambda>n i. let c = calls d v ! n in
        case run_call (ev_sources env ph) cls d v c
               (taskDeadline (ev_ctx env) (tk_Timeout (call_task (ev_sources env ph) cls d v c)) (ev_started env ph n)) of
          Inl _ \<Rightarrow> i | Inr put \<Rightarrow> put i) (ev_finished env ph) no_inputs"

definition resolveInFlight :: "Env \<Rightarrow> phase \<Rightarrow> Classification \<Rightarrow> Decision \<Rightarrow> RoutingDefaults \<Rightarrow> Inputs \<Rightarrow> Inputs" where
  "resolveInFlight env ph cls d defs i =
     (case in_Operational i of None \<Rightarrow> i
      | Some r \<Rightarrow>
        if \<not> InFlightResolutionEnabled defs \<or> re_InFlightExecutionID r = [] \<or> in_LatestExecution i \<noteq> None
           \<or> Includes (d_Target d) SourceExecution then i
        else if \<not> sh_Available (so_execHealth (ev_sources env ph)) then i
        else
          (let timeout = df_InFlightLookupTimeout defs;
               dl = Some (case ev_ctx env of None \<Rightarrow> ev_now env ph + timeout
                      | Some x \<Rightarrow> if x < ev_now env ph + timeout then x else ev_now env ph + timeout)
           in case so_GetExecution (ev_sources env ph) (cl_TenantID cls) (re_InFlightExecutionID r) (no_options\<lparr>ro_Timeout := timeout\<rparr>) dl of
                Inl _ \<Rightarrow> i
              | Inr e \<Rightarrow> if exec_InProgress (ex_Status e) then i\<lparr>in_LatestExecution := Some e\<rparr> else i))"

definition fetch :: "('c, 's, 'p, 'w) Service \<Rightarrow> Env \<Rightarrow> phase \<Rightarrow> phase \<Rightarrow> Classification \<Rightarrow> Decision \<Rightarrow> view
    \<Rightarrow> Inputs \<times> FanOutResult \<times> goerr option" where
  "fetch s env ph ph2 cls d v =
     (let fan = FanOut (ev_ctx env) (ev_started env ph) (ev_finished env ph) 0 (map (call_task (ev_sources env ph) cls d v) (calls d v));
          i0 = gather env ph cls d v
      in case fo_Err fan of
           Some err \<Rightarrow> (i0, fan, Some err)
         | None \<Rightarrow>
             (let defs = ResolveDefaults (sv_cfg s) (cl_TenantID cls);
                  i1 = (case in_Operational i0 of None \<Rightarrow> i0
                    | Some _ \<Rightarrow> (let ev = EvaluateFreshness (in_OperationalFreshness i0) (d_OperationalTTL d) (df_ClockSkewTolerance defs) (ev_now env ph)
                        in i0\<lparr>in_OperationalFreshness := ev_Freshness ev, in_OperationalStale := (ev_State ev = FreshnessStale)\<rparr>))
              in (resolveInFlight env ph2 cls d defs i1, fan, None)))"

definition fallbackDecision :: "Env \<Rightarrow> Classification \<Rightarrow> Decision \<Rightarrow> goerr \<Rightarrow> Decision option" where
  "fallbackDecision env cls d cause =
     (let fb = d_Fallback d in
      if \<not> SourceUnusable (Some cause) then None
      else if cl_Consistency cls = ConsistencyStrong then None
      else if source_IsNone fb \<or> fb = d_Primary d then None
      else if d_Target d = TargetBoth \<and> fb = SourceExecution then None
      else if \<not> (case fb of SourceOperational \<Rightarrow> sh_Available (so_opsHealth (ev_sources env PFallbackHealth))
                  | SourceExecution \<Rightarrow> sh_Available (so_execHealth (ev_sources env PFallbackHealth)) | _ \<Rightarrow> False) then None
      else Some (d\<lparr>d_Rule := RuleFallbackAfterFailure,
             d_Reason := ''the preferred source failed at call time; using the configured fallback'',
             d_Primary := fb, d_Fallback := SourceNone,
             d_Target := (case fb of SourceOperational \<Rightarrow> TargetOperational | SourceExecution \<Rightarrow> TargetExecution | _ \<Rightarrow> d_Target d),
             d_RequiredSources := Some [(fb, True)]\<rparr>))"

section \<open>Building an answer\<close>

definition warn :: "WarningCode \<Rightarrow> string \<Rightarrow> SourceKind \<Rightarrow> ResponseMeta \<Rightarrow> ResponseMeta" where
  "warn c msg k = AddWarning \<lparr>wa_Code = c, wa_Message = msg, wa_Source = k\<rparr>"

text \<open>The metadata of a live answer: \<open>fellBack\<close> names the source that failed when the fallback answered.\<close>

definition buildMeta :: "('c, 's, 'p, 'w) Service \<Rightarrow> string \<Rightarrow> Classification \<Rightarrow> Decision \<Rightarrow> SourceKind option
    \<Rightarrow> Inputs \<Rightarrow> FanOutResult \<Rightarrow> MergeOutput \<Rightarrow> Freshness \<Rightarrow> ResponseMeta" where
  "buildMeta s corr cls d fellBack i fan merged fr =
     (let m0 = zero_ResponseMeta\<lparr>rm_CorrelationID := corr, rm_RoutingDecision := target_String (d_Target d),
                 rm_RoutingRule := rule_id (d_Rule d), rm_Freshness := fr, rm_Provenance := mo_Provenance merged, rm_Partial := fo_Partial fan,
                 rm_Degraded := (fr_State fr = FreshnessStale \<and> d_Target d = TargetOperational)\<rparr>;
          m1 = (if d_Rule d = RulePrimaryUnavailable
                then warn WarnSourceUnavailable ''the preferred data source was unavailable; this answer came from the configured fallback source''
                       (otherThan (d_Primary d)) (m0\<lparr>rm_Degraded := True\<rparr>) else m0);
          m2 = (case fellBack of None \<Rightarrow> m1
                | Some k \<Rightarrow> warn WarnSourceUnavailable ''the preferred data source could not be reached; this answer came from the configured fallback source''
                              k (m1\<lparr>rm_Degraded := True\<rparr>));
          m3 = fold AddSource (contributingSources d i) m2;
          m4 = fold AddWarning (mo_Warnings merged) (fold AddWarning (Warnings fan) m3);
          m5 = (if fr_State fr = FreshnessStale
                then warn WarnStaleData ''the operational source's copy of this record is older than its freshness policy allows'' SourceOperational m4 else m4);
          m6 = (if fr_SkewCorrected fr
                then warn WarnClockSkew ''the data source's clock disagrees with this service's; the reported age has been corrected'' SourceOperational m5 else m5);
          m7 = (if \<not> rm_Partial m6 \<and> targetMissesRequiredFields (sv_catalog s) d cls
                then warn WarnPartialData ''this answer came from a source that does not hold every requested field; the remainder has been omitted''
                       SourceUnset (m6\<lparr>rm_Partial := True\<rparr>) else m6)
      in if Completeness (Some (mo_Details merged)) (cl_RequiredFields cls) < 1 \<and> \<not> rm_Partial m7
         then warn WarnPartialData ''one or more requested fields were not populated by the source that owns them'' SourceUnset m7 else m7)"

definition noSource :: "string \<Rightarrow> Decision \<Rightarrow> goerr" where
  "noSource op d = WithDetail ''reason'' (DStr (d_Reason d)) (WithDetail ''routing_rule'' (DStr (rule_id (d_Rule d)))
     (WithOp op (err_New CodeNoSourceAvailable ''no data source can currently satisfy this request'')))"

definition answer :: "('c, 's, 'p, 'w) Service \<Rightarrow> (payload \<Rightarrow> goerr + 'p) \<Rightarrow> Env \<Rightarrow> Classification \<Rightarrow> view
    \<Rightarrow> Decision \<Rightarrow> SourceKind option \<Rightarrow> Inputs \<Rightarrow> FanOutResult \<Rightarrow> goerr + 'p Entry" where
  "answer s marshal env cls v d fellBack i fan =
     (let merged = Merge (sv_prec s) i (cl_TenantID cls) (cl_ResourceID cls) in
      if in_Operational i = None \<and> in_LatestExecution i = None \<and> (case in_History i of None \<Rightarrow> True | Some h \<Rightarrow> length (el_Items h) = 0)
      then Inl (WithOp ''application.resource.empty'' ErrNotFound)
      else
        (let fr = reportedFreshness i d (ev_now env PReply);
             meta = buildMeta s (ev_corr env) cls d fellBack i fan merged fr
         in case marshal (project (mo_Details merged) v) of
              Inl err \<Rightarrow> Inl (WithOp ''application.encode'' (err_Wrap CodeInternal ''the response could not be encoded'' err))
            | Inr raw \<Rightarrow> Inr \<lparr>ce_Payload = raw, ce_StoredAt = ev_now env PReply, ce_CacheTTL = 0, ce_Freshness = fr,
                ce_Sources = rm_Sources meta, ce_Provenance = rm_Provenance meta, ce_Warnings = rm_Warnings meta,
                ce_Partial = rm_Partial meta, ce_RoutingRule = rule_id (d_Rule d), ce_Degraded = rm_Degraded meta,
                ce_Negative = False, ce_SchemaVersion = 0\<rparr>))"

definition loadResource :: "('c, 's, 'p, 'w) Service \<Rightarrow> (payload \<Rightarrow> goerr + 'p) \<Rightarrow> Env \<Rightarrow> Classification \<Rightarrow> view \<Rightarrow> ('w, 'p) loader" where
  "loadResource s marshal env cls v w =
     (let (r, w') = route s env cls w in
      (case r of
         Inl err \<Rightarrow> Inl err
       | Inr d \<Rightarrow>
           if d_Target d = TargetNone then Inl (noSource ''application.route'' d)
           else
             (let (i, fan, ferr) = fetch s env PFetch PInFlight cls d v in
              case ferr of
                None \<Rightarrow> answer s marshal env cls v d None i fan
              | Some err \<Rightarrow>
                  (case fallbackDecision env cls d err of
                     None \<Rightarrow> Inl err
                   | Some fb \<Rightarrow>
                       (let (i2, fan2, ferr2) = fetch s env PFallbackFetch PFallbackInFlight cls fb v in
                        case ferr2 of
                          Some _ \<Rightarrow> Inl err
                        | None \<Rightarrow> answer s marshal env cls v fb (Some (d_Primary d)) i2 fan2))),
       w'))"

section \<open>Use cases\<close>

definition executionLoader :: "('c, 's, 'p, 'w) Service \<Rightarrow> (payload \<Rightarrow> goerr + 'p) \<Rightarrow> Env \<Rightarrow> Classification \<Rightarrow> bool \<Rightarrow> ('w, 'p) loader" where
  "executionLoader s marshal env cls single w =
     (let (r, w') = route s env cls w; so = ev_sources env PFetch in
      (case r of
         Inl err \<Rightarrow> Inl err
       | Inr d \<Rightarrow>
           if d_Target d = TargetNone then Inl (noSource ''application.execution.route'' d)
           else
             (let pl =
                (if single
                 then (case so_GetExecution so (cl_TenantID cls) (cl_ExecutionID cls)
                         \<lparr>ro_Timeout = TimeoutFor d SourceExecution, ro_IncludeAudit = cl_IncludeAudit cls, ro_IncludeSteps = True, ro_Fields = []\<rparr> (ev_ctx env) of
                         Inl err \<Rightarrow> Inl err
                       | Inr e \<Rightarrow> if cl_ResourceID cls \<noteq> [] \<and> ex_ResourceID e \<noteq> [] \<and> ex_ResourceID e \<noteq> cl_ResourceID cls
                                  then Inl (WithOp ''application.execution.resource_mismatch'' ErrNotFound) else Inr (PExecution e))
                 else (case so_ListExecutions so (cl_TenantID cls) (cl_ResourceID cls) \<lparr>pg_Limit = cl_Limit cls, pg_Cursor = cl_Cursor cls\<rparr>
                         (no_options\<lparr>ro_IncludeAudit := cl_IncludeAudit cls, ro_Timeout := TimeoutFor d SourceExecution\<rparr>) (ev_ctx env) of
                         Inl err \<Rightarrow> Inl err | Inr l \<Rightarrow> Inr (PExecutions l)))
              in case pl of
                   Inl err \<Rightarrow> Inl err
                 | Inr p \<Rightarrow>
                     (case marshal p of
                        Inl err \<Rightarrow> Inl (WithOp ''application.encode'' (err_Wrap CodeInternal ''the response could not be encoded'' err))
                      | Inr raw \<Rightarrow> Inr \<lparr>ce_Payload = raw, ce_StoredAt = ev_now env PReply, ce_CacheTTL = 0,
                          ce_Freshness = zero_Freshness\<lparr>fr_State := FreshnessUnknown, fr_Source := SourceExecution, fr_EvaluatedAt := ev_now env PReply\<rparr>,
                          ce_Sources = [SourceExecution], ce_Provenance = [], ce_Warnings = [], ce_Partial = False,
                          ce_RoutingRule = rule_id (d_Rule d), ce_Degraded = False, ce_Negative = False, ce_SchemaVersion = 0\<rparr>)),
       w'))"

record 'c CacheClocks =
  ck_load :: "'c LoadClock"
  ck_stale :: 'c
  ck_staleLayer :: 'c
  ck_negNow :: time
  ck_neg :: "'c StoreClock"

definition RuleDegradeStaleCache :: string where "RuleDegradeStaleCache = ''degrade.stale_cache''"

definition service_load :: "('c, 's, 'p, 'w) Service \<Rightarrow> 'c CacheClocks \<Rightarrow> (goerr + 'p Entry option) option \<Rightarrow> bool
    \<Rightarrow> Classification \<Rightarrow> string \<Rightarrow> duration \<Rightarrow> ('w, 'p) loader \<Rightarrow> 's \<times> 'w \<Rightarrow> (goerr + 'p Result) \<times> ('s \<times> 'w)" where
  "service_load s ck flight shared cls key ttl ldr sw =
     (if cl_Consistency cls \<noteq> ConsistencyStrong
      then (let (oc, sw') = GetOrLoad (sv_cache s) (ck_load ck) flight shared key ttl ldr sw in (oc_result oc, sw'))
      else (let (r, w') = ldr (snd sw) in
        case r of
          Inl err \<Rightarrow> (Inl err, (fst sw, w'))
        | Inr e \<Rightarrow> (let (stored, st') = Store (sv_cache s) (ok_store (ck_load ck)) key (Some e) ttl (fst sw)
                    in (Inr (no_result\<lparr>rs_Entry := stored\<rparr>), (st', w')))))"

definition serveStale :: "('c, 's, 'p, 'w) Service \<Rightarrow> Env \<Rightarrow> 'c CacheClocks \<Rightarrow> Classification \<Rightarrow> string \<Rightarrow> goerr \<Rightarrow> 's
    \<Rightarrow> 'p Envelope option \<times> 's" where
  "serveStale s env ck cls key cause st =
     (let (rule, ok) = ResolveRule (sv_cfg s) (cl_TenantID cls) (cl_Type cls) in
      if \<not> SourceUnusable (Some cause) \<and> CodeOf (Some cause) \<noteq> Some CodeNoSourceAvailable then (None, st)
      else if \<not> ok \<or> \<not> ru_AllowStale rule then (None, st)
      else if cl_Consistency cls = ConsistencyStrong then (None, st)
      else
        (let (r, st') = GetStale (sv_cache s) (ck_stale ck) (ck_staleLayer ck) key st in
         case r of None \<Rightarrow> (None, st')
         | Some (entry, layer) \<Rightarrow>
             (let now = ev_now env PReply;
                  fr = EffectiveFreshness entry now;
                  maxStale = (if ru_MaxStale rule = 0 then df_MaxStale (ResolveDefaults (sv_cfg s) (cl_TenantID cls)) else ru_MaxStale rule)
              in if maxStale > 0 \<and> fr_Age fr > maxStale then (None, st')
                 else
                   (let meta = zero_ResponseMeta\<lparr>rm_CorrelationID := ev_corr env, rm_RoutingDecision := target_String TargetNone,
                          rm_RoutingRule := RuleDegradeStaleCache, rm_Sources := SourceCache # ce_Sources entry,
                          rm_Provenance := ce_Provenance entry, rm_Warnings := ce_Warnings entry, rm_Partial := ce_Partial entry,
                          rm_Freshness := fr, rm_Degraded := True,
                          rm_Cache := \<lparr>ci_Hit = True, ci_Layer = layer, ci_AgeMS = dur_Milliseconds (entry_Age entry now)\<rparr>\<rparr>
                    in (Some \<lparr>env_Data = ce_Payload entry,
                          env_Meta = warn WarnStaleData ''every data source is currently unavailable; this response was served from cache and may be out of date''
                            SourceUnset meta\<rparr>, st')))))"

definition envelopeFrom :: "Env \<Rightarrow> 'p Result \<Rightarrow> 'p Entry \<Rightarrow> 'p Envelope" where
  "envelopeFrom env res entry =
     (let now = ev_now env PReply;
          m0 = zero_ResponseMeta\<lparr>rm_CorrelationID := ev_corr env, rm_RoutingRule := ce_RoutingRule entry, rm_Sources := ce_Sources entry,
                 rm_Provenance := ce_Provenance entry, rm_Warnings := ce_Warnings entry, rm_Partial := ce_Partial entry,
                 rm_Freshness := EffectiveFreshness entry now, rm_Degraded := ce_Degraded entry,
                 rm_Cache := \<lparr>ci_Hit = rs_Hit res, ci_Layer = rs_Layer res, ci_AgeMS = 0\<rparr>,
                 rm_RoutingDecision := routingDecisionFor (ce_Sources entry)\<rparr>;
          m1 = (if rs_Hit res
                then (let m = AddSource SourceCache (m0\<lparr>rm_Cache := (rm_Cache m0)\<lparr>ci_AgeMS := dur_Milliseconds (entry_Age entry now)\<rparr>\<rparr>)
                      in if fr_State (rm_Freshness m) = FreshnessStale \<and> \<not> rm_Degraded m
                         then warn WarnStaleData ''this response was served from cache and the underlying data is older than its freshness policy allows''
                                SourceUnset (m\<lparr>rm_Degraded := True\<rparr>) else m)
                else m0)
      in \<lparr>env_Data = ce_Payload entry, env_Meta = m1\<lparr>rm_ElapsedMS := dur_Milliseconds (ev_elapsed env)\<rparr>\<rparr>)"

text \<open>What both use cases do with the outcome of the load.\<close>

definition reply :: "('c, 's, 'p, 'w) Service \<Rightarrow> string \<Rightarrow> 'p \<Rightarrow> Env \<Rightarrow> 'c CacheClocks \<Rightarrow> Classification \<Rightarrow> string
    \<Rightarrow> (goerr + 'p Result) \<times> ('s \<times> 'w) \<Rightarrow> (goerr + 'p Envelope) \<times> ('s \<times> 'w)" where
  "reply s op nilPayload env ck cls key out =
     (case out of (r, (st, w)) \<Rightarrow>
        (case r of
           Inl err \<Rightarrow>
             (case serveStale s env ck cls key err st of
                (Some e, st') \<Rightarrow> (Inr e, (st', w))
              | (None, st') \<Rightarrow> (Inl err, ((if IsNotFound (Some err) then SetNegative (sv_cache s) (ck_negNow ck) (ck_neg ck) nilPayload key st' else st'), w)))
         | Inr res \<Rightarrow>
             (case rs_Entry res of
                None \<Rightarrow> (Inl (WithOp op (err_New CodeInternal ''the request produced no result'')), (st, w))
              | Some entry \<Rightarrow>
                  if ce_Negative entry then (Inl (WithOp (op @ ''.negative_cache'') ErrNotFound), (st, w))
                  else (Inr (envelopeFrom env res entry), (st, w)))))"

definition resourceView :: "('c, 's, 'p, 'w) Service \<Rightarrow> (payload \<Rightarrow> goerr + 'p) \<Rightarrow> 'p \<Rightarrow> Env \<Rightarrow> 'c CacheClocks
    \<Rightarrow> (goerr + 'p Entry option) option \<Rightarrow> bool \<Rightarrow> Classification \<Rightarrow> view \<Rightarrow> 's \<times> 'w \<Rightarrow> (goerr + 'p Envelope) \<times> ('s \<times> 'w)" where
  "resourceView s marshal nilPayload env ck flight shared cls v sw =
     (let key = cacheKey s cls [];
          rule = fst (ResolveRule (sv_cfg s) (cl_TenantID cls) (cl_Type cls))
      in reply s ''application.resource'' nilPayload env ck cls key
           (service_load s ck flight shared cls key (ru_CacheTTL rule) (loadResource s marshal env cls v) sw))"

definition executionVariant :: "Classification \<Rightarrow> bool \<Rightarrow> string gomap" where
  "executionVariant cls single =
     (let v0 = (if single then [] else (let a = [(''limit'', itoa (cl_Limit cls))] in if cl_Cursor cls \<noteq> [] then gomap_put ''cursor'' (cl_Cursor cls) a else a))
      in if cl_IncludeAudit cls then gomap_put ''audit'' ''1'' v0 else v0)"

definition executionView :: "('c, 's, 'p, 'w) Service \<Rightarrow> (payload \<Rightarrow> goerr + 'p) \<Rightarrow> 'p \<Rightarrow> Env \<Rightarrow> 'c CacheClocks
    \<Rightarrow> (goerr + 'p Entry option) option \<Rightarrow> bool \<Rightarrow> Classification \<Rightarrow> bool \<Rightarrow> 's \<times> 'w \<Rightarrow> (goerr + 'p Envelope) \<times> ('s \<times> 'w)" where
  "executionView s marshal nilPayload env ck flight shared cls single sw =
     (let key = cacheKeyWith s cls (cl_ExecutionID cls) (executionVariant cls single);
          rule = fst (ResolveRule (sv_cfg s) (cl_TenantID cls) (cl_Type cls))
      in reply s ''application.execution'' nilPayload env ck cls key
           (service_load s ck flight shared cls key (ru_CacheTTL rule) (executionLoader s marshal env cls single) sw))"

definition InvalidateResource :: "('c, 's, 'p, 'w) Service \<Rightarrow> string \<Rightarrow> string \<Rightarrow> 's \<Rightarrow> 's" where
  "InvalidateResource s tenantID resourceID st =
     Invalidate (sv_cache s) (ResourceKeysForTypes (sv_hash s) (cc_KeyPrefix (cm_cfg (sv_cache s))) tenantID resourceID (RequestTypes (sv_cfg s))) st"

definition service_Health :: "Sources \<Rightarrow> SourceHealth \<times> SourceHealth" where
  "service_Health so = (so_opsHealth so, so_execHealth so)"

end
