(* ===== verification/Api.thy ===== *)
theory Api
  imports Response RateLimit Service
begin

text \<open>
  The HTTP surface: \<^verbatim>\<open>internal/api/middleware/middleware.go\<close>, \<^verbatim>\<open>internal/api/handler/resource.go\<close> and the public routes of
  \<^verbatim>\<open>internal/api/server.go\<close>. A handler is a function of the request, its context and the world (the response under way, the
  access log, the limiter, the authenticator and the application); it returns, panics, or
  aborts with \<^verbatim>\<open>http.ErrAbortHandler\<close>. A middleware decorates a handler. The pattern that the router of \<^verbatim>\<open>net/http\<close> selects is a
  field of the request. A request that the router redirects to the clean form of its path never reaches a handler and is not modelled. One request sees
  one snapshot of the configuration. Tracing, the diagnostic log and the recorded byte counts are not modelled; the access line is.
\<close>

section \<open>Requests, contexts and the world\<close>

record HttpRequest =
  hr_Method :: string
  hr_Pattern :: string
  hr_PathValue :: "string gomap"
  hr_Query :: "string list gomap"
  hr_Header :: Header
  hr_RemoteAddr :: string
  hr_ContentLength :: int

record ReqCtx = Ctx +
  rx_Principal :: "Principal option"
  rx_routeHolder :: bool

record AccessLine =
  al_Route :: string
  al_Method :: string
  al_Status :: nat
  al_Tenant :: string

record ('s, 'l, 'p) World =
  wd_rw :: "'p ResponseWriter"
  wd_route :: string
  wd_log :: "AccessLine list"
  wd_limiter :: "'l RateLimiter"
  wd_auth :: Authenticator
  wd_app :: 's

datatype flow = Returned | Panicked | Aborted

type_synonym ('s, 'l, 'p) handler = "HttpRequest \<Rightarrow> ReqCtx \<Rightarrow> ('s, 'l, 'p) World \<Rightarrow> flow \<times> ('s, 'l, 'p) World"
type_synonym ('s, 'l, 'p) Middleware = "('s, 'l, 'p) handler \<Rightarrow> ('s, 'l, 'p) handler"

definition Chain :: "('s, 'l, 'p) handler \<Rightarrow> ('s, 'l, 'p) Middleware list \<Rightarrow> ('s, 'l, 'p) handler" where
  "Chain h mw = foldr (\<lambda>m h. m h) mw h"

abbreviation on_rw :: "('p ResponseWriter \<Rightarrow> 'p ResponseWriter) \<Rightarrow> ('s, 'l, 'p) World \<Rightarrow> ('s, 'l, 'p) World" where
  "on_rw f w \<equiv> w\<lparr>wd_rw := f (wd_rw w)\<rparr>"

definition fail_with :: "ReqCtx \<Rightarrow> goerr \<Rightarrow> SourceState list \<Rightarrow> ('s, 'l, 'p) World \<Rightarrow> flow \<times> ('s, 'l, 'p) World" where
  "fail_with ctx err src w = (Returned, on_rw (response_Error ctx err src) w)"

section \<open>Middleware\<close>

definition Recover :: "('s, 'l, 'p) Middleware" where
  "Recover next req ctx w =
     (case next req ctx w of
        (Panicked, w') \<Rightarrow> fail_with ctx (err_New CodeInternal ''the request could not be completed'') [] w'
      | r \<Rightarrow> r)"

definition id_or_new :: "string \<Rightarrow> string \<Rightarrow> string" where
  "id_or_new h fresh = (case SanitizeID h of (v, ok) \<Rightarrow> if ok then v else fresh)"

definition CorrelationMW :: "string \<Rightarrow> string \<Rightarrow> time \<Rightarrow> ('s, 'l, 'p) Middleware" where
  "CorrelationMW new1 new2 now next req ctx w =
     (let cid = id_or_new (header_Get (hr_Header req) HeaderCorrelationID) new1;
          rid = id_or_new (header_Get (hr_Header req) HeaderRequestID) new2
      in next req (ctx\<lparr>cx_CorrelationID := cid, cx_RequestID := rid, cx_Start := now, rx_routeHolder := True\<rparr>)
           (on_rw (\<lambda>rw. header_Set HeaderRequestID rid (header_Set HeaderCorrelationID cid rw)) (w\<lparr>wd_route := []\<rparr>)))"

definition SetRoute :: "ReqCtx \<Rightarrow> string \<Rightarrow> ('s, 'l, 'p) World \<Rightarrow> ('s, 'l, 'p) World" where
  "SetRoute ctx pattern w =
     (if \<not> rx_routeHolder ctx then w
      else w\<lparr>wd_route := (if CHR '' '' \<in> set pattern then drop 1 (dropWhile (\<lambda>c. c \<noteq> CHR '' '') pattern) else pattern)\<rparr>)"

definition Route :: "ReqCtx \<Rightarrow> ('s, 'l, 'p) World \<Rightarrow> string" where
  "Route ctx w = (if \<not> rx_routeHolder ctx \<or> wd_route w = [] then ''unmatched'' else wd_route w)"

text \<open>The status recorder starts at 200 and takes the status of the first \<^verbatim>\<open>WriteHeader\<close>, as the writer does.\<close>

definition AccessLog :: "('s, 'l, 'p) Middleware" where
  "AccessLog next req ctx w =
     (case next req ctx w of
        (Returned, w') \<Rightarrow> (Returned, w'\<lparr>wd_log := wd_log w' @ [\<lparr>al_Route = Route ctx w', al_Method = hr_Method req,
            al_Status = (case rw_status (wd_rw w') of None \<Rightarrow> 200 | Some st \<Rightarrow> st), al_Tenant = cx_TenantID ctx\<rparr>]\<rparr>)
      | r \<Rightarrow> r)"

definition http_Error :: "string \<Rightarrow> nat \<Rightarrow> 'p ResponseWriter \<Rightarrow> 'p ResponseWriter" where
  "http_Error body st rw = rw_Write (DocText body) (WriteHeader st
     (header_Set ''X-Content-Type-Options'' ''nosniff'' (header_Set ''Content-Type'' ''text/plain; charset=utf-8'' rw)))"

definition BodyLimit :: "int \<Rightarrow> ('s, 'l, 'p) Middleware" where
  "BodyLimit maxBytes next req ctx w =
     (if hr_ContentLength req > maxBytes
      then (Returned, on_rw (http_Error ''{\"error\":{\"code\":\"REQUEST_TOO_LARGE\",\"status\":413}}'' 413) w)
      else next req ctx w)"

definition clientIP :: "HttpRequest \<Rightarrow> string" where
  "clientIP req =
     (let xff = header_Get (hr_Header req) ''X-Forwarded-For''; host = hr_RemoteAddr req in
      if xff \<noteq> [] then (if CHR '','' \<in> set xff \<and> hd xff \<noteq> CHR '','' then strings_TrimSpace (takeWhile (\<lambda>c. c \<noteq> CHR '','') xff) else strings_TrimSpace xff)
      else let front = rev (drop 1 (dropWhile (\<lambda>c. c \<noteq> CHR '':'') (rev host))) in
        if CHR '':'' \<in> set host \<and> front \<noteq> [] then front else host)"

definition RateLimitMW :: "(time \<Rightarrow> 'l \<Rightarrow> bool \<times> 'l) \<Rightarrow> (int \<Rightarrow> int \<Rightarrow> 'l) \<Rightarrow> time \<Rightarrow> ('s, 'l, 'p) Middleware" where
  "RateLimitMW allowN newLimiter now next req ctx w =
     (let key = (if cx_TenantID ctx = [] then clientIP req else cx_TenantID ctx);
          (ok, lim) = limiter_Allow allowN newLimiter now key (wd_limiter w);
          w' = w\<lparr>wd_limiter := lim\<rparr>
      in if \<not> ok then fail_with ctx ErrRateLimited [] (on_rw (header_Set ''Retry-After'' ''1'') w') else next req ctx w')"

definition AuthenticateMW :: "jwt_parser \<Rightarrow> (claims \<Rightarrow> time option) \<Rightarrow> KeyClock \<Rightarrow> jwks_reply \<Rightarrow> ('s, 'l, 'p) Middleware" where
  "AuthenticateMW parse expOf clk jwks next req ctx w =
     (case Authenticate parse expOf clk jwks (hr_Header req) (wd_auth w) of
        (r, a) \<Rightarrow> let w' = w\<lparr>wd_auth := a\<rparr> in
          (case r of
             None \<Rightarrow> (Panicked, w')
           | Some (Inl e) \<Rightarrow> fail_with ctx e [] w'
           | Some (Inr p) \<Rightarrow>
               (case ResolveTenant (Some p) (header_Get (hr_Header req) HeaderTenantID) of
                  Inl e \<Rightarrow> fail_with ctx e [] w'
                | Inr tenant \<Rightarrow> next req (ctx\<lparr>cx_TenantID := tenant, cx_Subject := pr_Subject p, cx_Roles := pr_Roles p, rx_Principal := Some p\<rparr>) w')))"

definition TimeoutMW :: "duration \<Rightarrow> time \<Rightarrow> ('s, 'l, 'p) Middleware" where
  "TimeoutMW d now next req ctx w =
     (if d \<le> 0 then next req ctx w
      else next req (ctx\<lparr>cx_deadline := Some (case cx_deadline ctx of None \<Rightarrow> now + d | Some x \<Rightarrow> if x < now + d then x else now + d)\<rparr>) w)"

definition SecurityHeaders :: "('s, 'l, 'p) Middleware" where
  "SecurityHeaders next req ctx w = next req ctx (on_rw (\<lambda>rw.
     header_Set ''Cache-Control'' ''no-store'' (header_Set ''Content-Security-Policy'' (''default-src 'none'; frame-ancestors 'none'' @ [CHR 0x27])
       (header_Set ''Referrer-Policy'' ''no-referrer'' (header_Set ''X-Frame-Options'' ''DENY''
         (header_Set ''X-Content-Type-Options'' ''nosniff'' rw))))) w)"

section \<open>Handlers\<close>

datatype usecase = UseResource view | UseExecution bool

record ('s, 'p) App =
  app_call :: "usecase \<Rightarrow> ReqCtx \<Rightarrow> Classification \<Rightarrow> 's \<Rightarrow> (goerr + 'p Envelope) \<times> 's"
  app_health :: "'s \<Rightarrow> SourceHealth \<times> SourceHealth"

definition maxIDLength :: nat where "maxIDLength = 128"

definition validateID :: "string \<Rightarrow> string \<Rightarrow> goerr option" where
  "validateID name v =
     (if v = [] then Some (WithOp ''handler.validate'' (err_New CodeInvalidRequest (name @ '' is required'')))
      else if length v > maxIDLength then Some (WithOp ''handler.validate'' (err_New CodeInvalidRequest (name @ '' is too long'')))
      else if \<not> list_all id_char v
      then Some (WithOp ''handler.validate'' (err_New CodeInvalidRequest (name @ '' may contain only letters, digits and the characters - _ . :'')))
      else None)"

definition routePattern :: "HttpRequest \<Rightarrow> string" where
  "routePattern req = (let p = hr_Pattern req in if CHR '' '' \<in> set p then drop 1 (dropWhile (\<lambda>c. c \<noteq> CHR '' '') p) else p)"

definition query_Get :: "string list gomap \<Rightarrow> string \<Rightarrow> string" where
  "query_Get q k = (case gomap_get q k of Some (v # vs) \<Rightarrow> v | _ \<Rightarrow> [])"

fun split_on :: "char \<Rightarrow> string \<Rightarrow> string \<Rightarrow> string list" where
  "split_on sep [] cur = [rev cur]"
| "split_on sep (c # cs) cur = (if c = sep then rev cur # split_on sep cs [] else split_on sep cs (c # cur))"

definition digit_val :: "char \<Rightarrow> nat option" where
  "digit_val c = (let n = (of_char c :: nat) in if 48 \<le> n \<and> n \<le> 57 then Some (n - 48) else None)"

text \<open>\<^verbatim>\<open>strconv.Atoi\<close>: an optional sign, decimal digits, within 64 bits.\<close>

definition Atoi :: "string \<Rightarrow> int option" where
  "Atoi s =
     (let neg = (s \<noteq> [] \<and> hd s = CHR ''-''); ds = (if s \<noteq> [] \<and> (hd s = CHR ''-'' \<or> hd s = CHR ''+'') then tl s else s)
      in if ds = [] then None
         else case those (map digit_val ds) of None \<Rightarrow> None
              | Some vs \<Rightarrow> let n = foldl (\<lambda>a v. a * 10 + int v) 0 vs; m = (if neg then - n else n) in
                  if - (2 ^ 63) \<le> m \<and> m < 2 ^ 63 then Some m else None)"

definition ParseBool :: "string \<Rightarrow> bool option" where
  "ParseBool s =
     (if s \<in> set [''1'', ''t'', ''T'', ''TRUE'', ''true'', ''True''] then Some True
      else if s \<in> set [''0'', ''f'', ''F'', ''FALSE'', ''false'', ''False''] then Some False else None)"

definition bad_request :: "string \<Rightarrow> goerr" where
  "bad_request msg = WithOp ''handler.parse'' (err_New CodeInvalidRequest msg)"

definition requested_fields :: "string \<Rightarrow> string list" where
  "requested_fields raw = filter (\<lambda>f. f \<noteq> []) (map strings_TrimSpace (split_on (CHR '','') raw []))"

definition parse_fields :: "string list gomap \<Rightarrow> goerr + string list" where
  "parse_fields q =
     (let raw = query_Get q ''fields'' in
      if raw = [] then Inr []
      else let fs = requested_fields raw in if length fs > 32 then Inl (bad_request ''too many fields requested'') else Inr fs)"

definition parse_limit :: "string list gomap \<Rightarrow> goerr + int" where
  "parse_limit q =
     (let raw = query_Get q ''limit'' in
      if raw = [] then Inr 0
      else case Atoi raw of None \<Rightarrow> Inl (bad_request ''limit must be a positive integer'')
           | Some n \<Rightarrow> if n < 1 then Inl (bad_request ''limit must be a positive integer'') else Inr n)"

definition parse_audit :: "Principal option \<Rightarrow> string list gomap \<Rightarrow> goerr + bool" where
  "parse_audit p q =
     (let raw = query_Get q ''includeAudit'' in
      if raw = [] then Inr False
      else case ParseBool raw of None \<Rightarrow> Inl (bad_request ''includeAudit must be true or false'')
           | Some v \<Rightarrow> if v \<and> \<not> Can p PermExecutionAudit
                then Inl (WithDetail ''permission'' (DStr PermExecutionAudit) (WithOp ''handler.parse''
                       (err_New CodeForbidden ''the caller is not permitted to read audit information'')))
                else Inr v)"

definition parse :: "HttpRequest \<Rightarrow> ReqCtx \<Rightarrow> Principal option \<Rightarrow> goerr + Input" where
  "parse req ctx p =
     (let pv = (\<lambda>k. case gomap_get (hr_PathValue req) k of None \<Rightarrow> [] | Some v \<Rightarrow> v);
          resourceID = pv ''resourceId''; executionID = pv ''executionId''; q = hr_Query req
      in case validateID ''resourceId'' resourceID of Some e \<Rightarrow> Inl e
         | None \<Rightarrow>
        (case (if executionID \<noteq> [] then validateID ''executionId'' executionID else None) of Some e \<Rightarrow> Inl e
         | None \<Rightarrow>
        (case find (\<lambda>(key, _). key \<notin> set [''fields'', ''consistency'', ''limit'', ''cursor'', ''includeAudit'']) q of
           Some (key, _) \<Rightarrow> Inl (WithDetail ''parameter'' (DStr key) (bad_request ''unrecognised query parameter''))
         | None \<Rightarrow>
        (case parse_fields q of Inl e \<Rightarrow> Inl e
         | Inr fs \<Rightarrow>
        (case parse_limit q of Inl e \<Rightarrow> Inl e
         | Inr n \<Rightarrow>
        (case parse_audit p q of Inl e \<Rightarrow> Inl e
         | Inr audit \<Rightarrow>
             if length (query_Get q ''cursor'') > 512 then Inl (bad_request ''cursor is too long'')
             else Inr \<lparr>in_Route = routePattern req, in_Method = hr_Method req, in_TenantID = cx_TenantID ctx,
                    in_ResourceID = resourceID, in_ExecutionID = executionID, in_RequestedFields = fs,
                    in_RequestedConsistency = query_Get q ''consistency'', in_IncludeAudit = audit, in_Limit = n,
                    in_Cursor = query_Get q ''cursor''\<rparr>))))))"

definition sourceStates :: "('s, 'p) App \<Rightarrow> 's \<Rightarrow> SourceState list" where
  "sourceStates app s = (case app_health app s of (ops, exec) \<Rightarrow>
     [\<lparr>ss_Source = SourceOperational, ss_State = sh_Detail ops\<rparr>, \<lparr>ss_Source = SourceExecution, ss_State = sh_Detail exec\<rparr>])"

definition handler_serve :: "Config \<Rightarrow> FieldCatalog \<Rightarrow> ('s, 'p) App \<Rightarrow> string \<Rightarrow> usecase \<Rightarrow> ('s, 'l, 'p) handler" where
  "handler_serve cfg catalog app perm uc req ctx w =
     (let w1 = SetRoute ctx (hr_Pattern req) w; principal = rx_Principal ctx in
      case Authorize principal perm (rbac_DefaultDeny (sec_RBAC (cfg_Security cfg))) of
        Some e \<Rightarrow> fail_with ctx e [] w1
      | None \<Rightarrow>
          (case parse req ctx principal of
             Inl e \<Rightarrow> fail_with ctx e [] w1
           | Inr inp \<Rightarrow>
               (case Classify cfg catalog inp of
                  Inl e \<Rightarrow> fail_with ctx e [] w1
                | Inr cls \<Rightarrow>
                    (case app_call app uc ctx cls (wd_app w1) of (r, s') \<Rightarrow>
                       let w2 = w1\<lparr>wd_app := s'\<rparr> in
                       (case r of
                          Inl e \<Rightarrow> fail_with ctx e (sourceStates app s') w2
                        | Inr env \<Rightarrow> (Returned, on_rw (response_OK ctx (env_Data env) (env_Meta env)) w2))))))"

section \<open>Routes\<close>

definition notFoundErr :: goerr where
  "notFoundErr = WithOp ''api.route'' (err_New CodeNotFound ''no such endpoint'')"

definition route_table :: "(string \<times> string \<times> usecase) list" where
  "route_table =
    [(''GET /api/v1/resources/{resourceId}'', PermResourceRead, UseResource viewFull),
     (''GET /api/v1/resources/{resourceId}/status'', PermResourceRead, UseResource viewStatus),
     (''GET /api/v1/resources/{resourceId}/configuration'', PermResourceRead, UseResource viewConfiguration),
     (''GET /api/v1/resources/{resourceId}/details'', PermResourceRead, UseResource viewDetails),
     (''GET /api/v1/resources/{resourceId}/executions'', PermExecutionRead, UseExecution False),
     (''GET /api/v1/resources/{resourceId}/executions/{executionId}'', PermExecutionRead, UseExecution True)]"

definition mux :: "Config \<Rightarrow> FieldCatalog \<Rightarrow> ('s, 'p) App \<Rightarrow> ('s, 'l, 'p) handler" where
  "mux cfg catalog app req ctx w =
     (case map_of route_table (hr_Pattern req) of
        Some (perm, uc) \<Rightarrow> handler_serve cfg catalog app perm uc req ctx w
      | None \<Rightarrow> fail_with ctx notFoundErr [] w)"

text \<open>What one request draws from outside: fresh ids, the clock, the identity provider.\<close>

record Moment =
  mo_id1 :: string
  mo_id2 :: string
  mo_now :: time
  mo_keyClock :: KeyClock
  mo_jwks :: jwks_reply

record 'l Libraries =
  lb_allowN :: "time \<Rightarrow> 'l \<Rightarrow> bool \<times> 'l"
  lb_newLimiter :: "int \<Rightarrow> int \<Rightarrow> 'l"
  lb_parse :: jwt_parser
  lb_exp :: "claims \<Rightarrow> time option"

text \<open>The layers keep the configuration of start-up (\<open>boot\<close>); the handlers read the provider's current one.\<close>

definition publicRoutes :: "Config \<Rightarrow> Config \<Rightarrow> FieldCatalog \<Rightarrow> ('s, 'p) App \<Rightarrow> 'l Libraries \<Rightarrow> Moment \<Rightarrow> ('s, 'l, 'p) handler" where
  "publicRoutes boot cfg catalog app lib m =
     Chain (mux cfg catalog app)
       [Recover, CorrelationMW (mo_id1 m) (mo_id2 m) (mo_now m), SecurityHeaders, AccessLog,
        BodyLimit (srv_MaxBodyBytes (cfg_Server boot)), RateLimitMW (lb_allowN lib) (lb_newLimiter lib) (mo_now m),
        AuthenticateMW (lb_parse lib) (lb_exp lib) (mo_keyClock m) (mo_jwks m),
        TimeoutMW (srv_RequestTimeout (cfg_Server boot)) (mo_now m)]"

definition fresh_ctx :: ReqCtx where
  "fresh_ctx = \<lparr>cx_CorrelationID = [], cx_RequestID = [], cx_TenantID = [], cx_Subject = [], cx_Roles = [], cx_Start = 0, cx_deadline = None,
     rx_Principal = None, rx_routeHolder = False\<rparr>"

end
