(* ===== verification/ConfigLoad.thy ===== *)
theory ConfigLoad
  imports Config
begin

text \<open>
  \<^verbatim>\<open>internal/config/load.go\<close>: the built-in defaults, the merge of a decoded document with
  them, and validation. Reading the file and the YAML decoder are a parameter: \<open>decode\<close> stands for \<^verbatim>\<open>os.ReadFile\<close>, \<^verbatim>\<open>yaml.Unmarshal\<close>, the environment overlay
  and \<^verbatim>\<open>doc.Decode\<close> onto the defaults, and is \<^term>\<open>Inl\<close> where one of them fails.
\<close>

section \<open>Default\<close>

definition commonRetry :: RetryConfig where
  "commonRetry = \<lparr>rt_Enabled = True, rt_MaxAttempts = 3, rt_BaseBackoff = 20 * millisecond,
     rt_MaxBackoff = 400 * millisecond, rt_JitterFraction = 1, rt_PerAttemptTimeout = 0,
     rt_BudgetRatio = f64 (6 / 10)\<rparr>"

definition commonBreaker :: BreakerConfig where
  "commonBreaker = \<lparr>br_Enabled = True, br_FailureThreshold = 1 / 2, br_MinimumRequests = 20,
     br_Window = 30 * second, br_OpenTimeout = 5 * second, br_HalfOpenMaxCalls = 3,
     br_HalfOpenSuccesses = 2\<rparr>"

definition Default_Server :: ServerConfig where
  "Default_Server = \<lparr>srv_HTTPAddr = '':8080'', srv_AdminAddr = '':9090'', srv_ReadTimeout = 5 * second,
     srv_WriteTimeout = 15 * second, srv_IdleTimeout = 60 * second, srv_HeaderTimeout = 2 * second,
     srv_ShutdownGrace = 25 * second, srv_MaxBodyBytes = 1048576, srv_RequestTimeout = 8 * second\<rparr>"

definition Default_Security :: SecurityConfig where
  "Default_Security = \<lparr>
     sec_JWT = \<lparr>jwt_Issuer = ''https://issuer.invalid'', jwt_Audience = ''ttl-aware-bff'', jwt_JWKSURL = [],
       jwt_JWKSTTL = 10 * minute, jwt_HS256SecretEnv = ''BFF_JWT_HS256_SECRET'', jwt_Leeway = 30 * second,
       jwt_TenantClaim = ''tenant_id'', jwt_RolesClaim = ''roles'',
       jwt_RequiredClaims = [''sub'', ''tenant_id'']\<rparr>,
     sec_RBAC = \<lparr>rbac_Roles =
         [(''bff.viewer'', [''resource.read'', ''execution.read'']),
          (''bff.operator'', [''resource.read'', ''execution.read'', ''execution.audit.read'']),
          (''bff.admin'', [''resource.read'', ''execution.read'', ''execution.audit.read'', ''config.read''])],
       rbac_DefaultDeny = True\<rparr>,
     sec_RateLimit = \<lparr>rl_Enabled = True, rl_RPS = 200, rl_Burst = 400, rl_PerTenant = True,
       rl_MaxTenants = 10000\<rparr>,
     sec_AllowInsecureNoAuth = False\<rparr>"

definition Default_Sources :: SourcesConfig where
  "Default_Sources = \<lparr>
     src_Operational = \<lparr>
       ops_Common = \<lparr>sc_CallTimeout = 400 * millisecond, sc_Retry = commonRetry, sc_Breaker = commonBreaker,
         sc_Bulkhead = \<lparr>bh_Enabled = True, bh_MaxConcurrent = 256, bh_AcquireTimeout = 50 * millisecond,
           bh_MaxQueue = 512\<rparr>,
         sc_TLS = zero_TLSConfig, sc_AcceptedSchemaVersions = [''ods.v1'']\<rparr>,
       ops_Addr = ''localhost:9101'', ops_DialTimeout = 2 * second, ops_ProbeTimeout = 120 * millisecond,
       ops_KeepaliveTime = 30 * second, ops_KeepaliveTimeout = 10 * second,
       ops_MaxRecvMsgBytes = 4194304, ops_UseRoundRobin = True, ops_WaitForReadyCalls = False\<rparr>,
     src_Execution = \<lparr>
       exs_Common = \<lparr>sc_CallTimeout = 2 * second,
         sc_Retry = \<lparr>rt_Enabled = True, rt_MaxAttempts = 2, rt_BaseBackoff = 50 * millisecond,
           rt_MaxBackoff = 500 * millisecond, rt_JitterFraction = 1, rt_PerAttemptTimeout = 0,
           rt_BudgetRatio = 1 / 2\<rparr>,
         sc_Breaker = commonBreaker,
         sc_Bulkhead = \<lparr>bh_Enabled = True, bh_MaxConcurrent = 64, bh_AcquireTimeout = 100 * millisecond,
           bh_MaxQueue = 128\<rparr>,
         sc_TLS = zero_TLSConfig, sc_AcceptedSchemaVersions = [''eds.v1'']\<rparr>,
       exs_BaseURL = ''http://localhost:9102'', exs_MaxIdleConns = 128, exs_MaxIdleConnsPerHost = 64,
       exs_IdleConnTimeout = 90 * second, exs_HistoryPageSize = 25, exs_MaxHistoryItems = 200\<rparr>\<rparr>"

definition Default_Cache :: CacheConfig where
  "Default_Cache = \<lparr>cc_Enabled = True, cc_Backend = ''memory'',
     cc_Redis = \<lparr>rds_Addr = ''localhost:6379'', rds_DB = 0, rds_Username = [],
       rds_PasswordEnv = ''BFF_REDIS_PASSWORD'', rds_PoolSize = 64, rds_MinIdle = 8,
       rds_DialTimeout = 500 * millisecond, rds_ReadTimeout = 200 * millisecond,
       rds_WriteTimeout = 200 * millisecond, rds_TLS = zero_TLSConfig\<rparr>,
     cc_L1 = \<lparr>l1_Enabled = True, l1_MaxEntries = 20000, l1_TTL = 2 * second\<rparr>,
     cc_KeyPrefix = ''bff:v1'', cc_NegativeTTL = 3 * second, cc_StaleGrace = 5 * minute,
     cc_Stampede = \<lparr>st_Enabled = True, st_LockTTL = 2 * second, st_EarlyRefreshRatio = f64 (8 / 10)\<rparr>,
     cc_FailOpen = True\<rparr>"

definition Default_RequestTypes :: "RoutingRule gomap" where
  "Default_RequestTypes =
    [(''resource_status'', zero_RoutingRule\<lparr>ru_PreferredSource := ''operational'', ru_TTL := 10 * second,
        ru_CacheTTL := 3 * second, ru_Fallback := ''execution'', ru_AllowStale := True,
        ru_MaxStale := 120 * second, ru_Consistency := ''bounded'', ru_MaxLatency := 300 * millisecond\<rparr>),
     (''resource_configuration'', zero_RoutingRule\<lparr>ru_PreferredSource := ''operational'', ru_TTL := 30 * second,
        ru_CacheTTL := 15 * second, ru_Fallback := ''none'', ru_AllowStale := True,
        ru_MaxStale := 300 * second, ru_Consistency := ''eventual'', ru_MaxLatency := 400 * millisecond\<rparr>),
     (''resource_read'', zero_RoutingRule\<lparr>ru_PreferredSource := ''operational'', ru_TTL := 30 * second,
        ru_CacheTTL := 5 * second, ru_Fallback := ''execution'', ru_AllowStale := True,
        ru_MaxStale := 300 * second, ru_Consistency := ''bounded'', ru_MaxLatency := 500 * millisecond\<rparr>),
     (''execution_status'', zero_RoutingRule\<lparr>ru_PreferredSource := ''execution'', ru_TTL := 5 * second,
        ru_CacheTTL := 2 * second, ru_Fallback := ''none'', ru_AllowStale := False,
        ru_Consistency := ''strong'', ru_MaxLatency := 2 * second\<rparr>),
     (''execution_history'', zero_RoutingRule\<lparr>ru_PreferredSource := ''execution'', ru_TTL := 0,
        ru_CacheTTL := 0, ru_Fallback := ''none'', ru_AllowStale := False,
        ru_Consistency := ''strong'', ru_MaxLatency := 3 * second\<rparr>),
     (''resource_details'', zero_RoutingRule\<lparr>ru_PreferredSource := ''both'', ru_TTL := 30 * second,
        ru_CacheTTL := 5 * second, ru_Fallback := ''operational'', ru_AllowStale := True,
        ru_MaxStale := 300 * second, ru_Consistency := ''bounded'', ru_MaxLatency := 2 * second,
        ru_RequiredSources := Some [(''operational'', True), (''execution'', False)],
        ru_PerSourceTimeout := Some [(''operational'', 400 * millisecond), (''execution'', 1500 * millisecond)]\<rparr>)]"

definition Default_Routing :: RoutingConfig where
  "Default_Routing = \<lparr>
     rc_Defaults = \<lparr>df_OnUnknownFreshness = ''operational'', df_ClockSkewTolerance = 2 * second,
       df_AllowStale = Some True, df_MaxStale = 5 * minute, df_ProbeEnabled = Some True,
       df_ProbeCacheTTL = 1 * second, df_ResolveInFlightExecution = Some True,
       df_InFlightLookupTimeout = 300 * millisecond\<rparr>,
     rc_RequestTypes = Default_RequestTypes\<rparr>"

definition Default_Precedence :: PrecedenceConfig where
  "Default_Precedence = \<lparr>pc_Fields =
      [(''status'', [''operational'', ''execution'']), (''subState'', [''operational'']),
       (''type'', [''operational'']), (''configuration'', [''operational'']),
       (''metrics'', [''operational'']), (''topology'', [''operational'']),
       (''owner'', [''operational'']), (''labels'', [''operational'']),
       (''customerId'', [''operational'', ''execution'']),
       (''latestExecution'', [''execution'']), (''executionHistory'', [''execution'']),
       (''executionStatus'', [''execution'']), (''workflowSteps'', [''execution'']),
       (''audit'', [''execution'']), (''lastOperation'', [''execution''])],
     pc_ExecutionOverridesWhenRunning = [''status'', ''subState''], pc_ConflictWarning = True\<rparr>"

definition Default_Observability :: ObservabilityConfig where
  "Default_Observability = \<lparr>obs_ServiceName = ''ttl-aware-bff'', obs_ServiceVersion = ''dev'',
     obs_Environment = ''local'',
     obs_OTLP = \<lparr>otlp_Enabled = False, otlp_Endpoint = ''localhost:4317'', otlp_Insecure = True,
       otlp_Timeout = 5 * second, otlp_Headers = []\<rparr>,
     obs_TraceSampleRatio = 1, obs_MetricsInterval = 15 * second,
     obs_Log = \<lparr>log_Level = ''info'', log_Format = ''json'', log_AddSource = False,
       log_RedactKeys = [''authorization'', ''password'', ''token'', ''secret'', ''cookie'', ''set-cookie'',
         ''api_key'']\<rparr>,
     obs_PrometheusEndpoint = True\<rparr>"

definition Default :: Config where
  "Default = \<lparr>cfg_Server = Default_Server, cfg_Security = Default_Security, cfg_Sources = Default_Sources,
     cfg_Cache = Default_Cache, cfg_Routing = Default_Routing, cfg_Precedence = Default_Precedence,
     cfg_Tenants = [], cfg_Observability = Default_Observability\<rparr>"

lemmas Default_defs = Default_def Default_Server_def Default_Security_def Default_Sources_def
  Default_Cache_def Default_Routing_def Default_RequestTypes_def Default_Precedence_def
  Default_Observability_def commonRetry_def commonBreaker_def

section \<open>Merging a decoded document with the defaults\<close>

definition restoreRuleDefaults :: "RoutingRule \<Rightarrow> RoutingRule \<Rightarrow> RoutingRule" where
  "restoreRuleDefaults cur defRule = cur\<lparr>
     ru_PreferredSource := if ru_PreferredSource cur = [] then ru_PreferredSource defRule else ru_PreferredSource cur,
     ru_Fallback := if ru_Fallback cur = [] then ru_Fallback defRule else ru_Fallback cur,
     ru_Consistency := if ru_Consistency cur = [] then ru_Consistency defRule else ru_Consistency cur,
     ru_MaxStale := if ru_MaxStale cur = 0 then ru_MaxStale defRule else ru_MaxStale cur,
     ru_MaxLatency := if ru_MaxLatency cur = 0 then ru_MaxLatency defRule else ru_MaxLatency cur,
     ru_RequiredSources := if ru_RequiredSources cur = None then ru_RequiredSources defRule else ru_RequiredSources cur,
     ru_PerSourceTimeout := if ru_PerSourceTimeout cur = None then ru_PerSourceTimeout defRule
       else ru_PerSourceTimeout cur\<rparr>"

fun mergeRequestTypes :: "RoutingRule gomap \<Rightarrow> RoutingRule gomap \<Rightarrow> RoutingRule gomap" where
  "mergeRequestTypes [] m = m"
| "mergeRequestTypes ((name, defRule) # ds) m =
     mergeRequestTypes ds (case gomap_get m name of
        None \<Rightarrow> gomap_put name defRule m
      | Some cur \<Rightarrow> gomap_put name (restoreRuleDefaults cur defRule) m)"

definition mergeRoutingDefaults :: "Config \<Rightarrow> Config \<Rightarrow> Config" where
  "mergeRoutingDefaults cfg def' =
     (let cfg1 = cfg\<lparr>cfg_Routing := (cfg_Routing cfg)\<lparr>rc_RequestTypes :=
             mergeRequestTypes (rc_RequestTypes (cfg_Routing def')) (rc_RequestTypes (cfg_Routing cfg))\<rparr>\<rparr>;
          cfg2 = (if length (pc_Fields (cfg_Precedence cfg1)) = 0
             then cfg1\<lparr>cfg_Precedence := (cfg_Precedence cfg1)\<lparr>pc_Fields := pc_Fields (cfg_Precedence def')\<rparr>\<rparr>
             else cfg1)
      in if length (rbac_Roles (sec_RBAC (cfg_Security cfg2))) = 0
         then cfg2\<lparr>cfg_Security := (cfg_Security cfg2)\<lparr>sec_RBAC := (sec_RBAC (cfg_Security cfg2))
                \<lparr>rbac_Roles := rbac_Roles (sec_RBAC (cfg_Security def'))\<rparr>\<rparr>\<rparr>
         else cfg2)"

section \<open>Validation\<close>

text \<open>One call of \<^verbatim>\<open>bad\<close>: the format and its arguments. \<^verbatim>\<open>Validate\<close> returns \<^verbatim>\<open>nil\<close> exactly
  when the list of problems is empty.\<close>

datatype problem_arg = AStr string | ADur duration | AInt int
datatype problem = Bad string "problem_arg list"

definition bad_if :: "bool \<Rightarrow> string \<Rightarrow> problem_arg list \<Rightarrow> problem list" where
  "bad_if c fmt args = (if c then [Bad fmt args] else [])"

definition parseSourceName :: "string \<Rightarrow> string \<times> bool" where
  "parseSourceName s =
     (let t = strings_ToLower (strings_TrimSpace s)
      in if t = ''operational'' \<or> t = ''execution'' then (strings_ToLower s, True)
         else if t = [] \<or> t = ''none'' then (''none'', True) else ([], False))"

definition validateSourceCommon :: "string \<Rightarrow> SourceCommon \<Rightarrow> problem list" where
  "validateSourceCommon p c =
     bad_if (sc_CallTimeout c \<le> 0) ''%s.call_timeout must be > 0'' [AStr p] @
     (let r = sc_Retry c in if rt_Enabled r then
        bad_if (rt_MaxAttempts r < 1) ''%s.retry.max_attempts must be >= 1'' [AStr p] @
        bad_if (rt_MaxAttempts r > 5) ''%s.retry.max_attempts must be <= 5: unbounded retry amplifies outages'' [AStr p] @
        bad_if (rt_BaseBackoff r \<le> 0) ''%s.retry.base_backoff must be > 0'' [AStr p] @
        bad_if (rt_MaxBackoff r < rt_BaseBackoff r) ''%s.retry.max_backoff must be >= base_backoff'' [AStr p] @
        bad_if (rt_JitterFraction r < 0 \<or> rt_JitterFraction r > 1) ''%s.retry.jitter_fraction must be within [0,1]'' [AStr p] @
        bad_if (rt_JitterFraction r = 0) ''%s.retry.jitter_fraction must be > 0: synchronised retries cause thundering herds'' [AStr p] @
        bad_if (rt_BudgetRatio r \<le> 0 \<or> rt_BudgetRatio r > 1) ''%s.retry.budget_ratio must be within (0,1]'' [AStr p]
      else []) @
     (let b = sc_Breaker c in if br_Enabled b then
        bad_if (br_FailureThreshold b \<le> 0 \<or> br_FailureThreshold b > 1) ''%s.breaker.failure_threshold must be within (0,1]'' [AStr p] @
        bad_if (br_MinimumRequests b < 1) ''%s.breaker.minimum_requests must be >= 1'' [AStr p] @
        bad_if (br_Window b \<le> 0) ''%s.breaker.window must be > 0'' [AStr p] @
        bad_if (br_OpenTimeout b \<le> 0) ''%s.breaker.open_timeout must be > 0'' [AStr p] @
        bad_if (br_HalfOpenMaxCalls b < 1) ''%s.breaker.half_open_max_calls must be >= 1'' [AStr p] @
        bad_if (br_HalfOpenSuccesses b < 1) ''%s.breaker.half_open_successes must be >= 1'' [AStr p]
      else []) @
     (let b = sc_Bulkhead c in if bh_Enabled b then
        bad_if (bh_MaxConcurrent b < 1) ''%s.bulkhead.max_concurrent must be >= 1'' [AStr p] @
        bad_if (bh_AcquireTimeout b < 0) ''%s.bulkhead.acquire_timeout must be >= 0'' [AStr p]
      else [])"

definition map_entries :: "'v gomap option \<Rightarrow> 'v gomap" where
  "map_entries m = (case m of None \<Rightarrow> [] | Some es \<Rightarrow> es)"

definition validateRuleMaps :: "string \<Rightarrow> RoutingRule \<Rightarrow> problem list" where
  "validateRuleMaps p r =
     concat (map (\<lambda>(s, _). bad_if (\<not> snd (parseSourceName s)) ''%s.required_sources: unknown source %q'' [AStr p, AStr s])
       (map_entries (ru_RequiredSources r))) @
     concat (map (\<lambda>(s, t).
         bad_if (\<not> snd (parseSourceName s)) ''%s.per_source_timeout: unknown source %q'' [AStr p, AStr s] @
         bad_if (t \<le> 0) ''%s.per_source_timeout.%s must be > 0'' [AStr p, AStr s])
       (map_entries (ru_PerSourceTimeout r)))"

definition validateRule :: "string \<Rightarrow> RoutingRule \<Rightarrow> problem list" where
  "validateRule p r =
     bad_if (strings_ToLower (ru_PreferredSource r) \<notin> {''operational'', ''execution'', ''both''})
       ''%s.preferred_source must be operational|execution|both (got %q)'' [AStr p, AStr (ru_PreferredSource r)] @
     bad_if (ru_Fallback r \<noteq> [] \<and> \<not> snd (parseSourceName (ru_Fallback r)))
       ''%s.fallback must be operational|execution|none (got %q)'' [AStr p, AStr (ru_Fallback r)] @
     bad_if (ru_TTL r < 0) ''%s.ttl must be >= 0'' [AStr p] @
     bad_if (ru_CacheTTL r < 0) ''%s.cache_ttl must be >= 0'' [AStr p] @
     bad_if (ru_TTL r > 0 \<and> ru_CacheTTL r > ru_TTL r)
       ''%s: cache_ttl (%s) exceeds source freshness ttl (%s); the cache would serve data the TTL policy calls stale''
       [AStr p, ADur (ru_CacheTTL r), ADur (ru_TTL r)] @
     bad_if (ru_AllowStale r \<and> ru_MaxStale r \<le> 0) ''%s: allow_stale requires max_stale > 0'' [AStr p] @
     bad_if (ru_MaxStale r > 0 \<and> ru_TTL r > 0 \<and> ru_MaxStale r < ru_TTL r)
       ''%s: max_stale (%s) must be >= ttl (%s)'' [AStr p, ADur (ru_MaxStale r), ADur (ru_TTL r)] @
     bad_if (strings_ToLower (ru_Consistency r) \<notin> {[], ''strong'', ''bounded'', ''eventual''})
       ''%s.consistency must be strong|bounded|eventual (got %q)'' [AStr p, AStr (ru_Consistency r)] @
     bad_if (strings_EqualFold (ru_Consistency r) ''strong'' \<and> ru_AllowStale r)
       ''%s: consistency=strong is incompatible with allow_stale=true'' [AStr p] @
     validateRuleMaps p r"

definition validatePartialRule :: "string \<Rightarrow> RoutingRule \<Rightarrow> problem list" where
  "validatePartialRule p r =
     bad_if (ru_PreferredSource r \<noteq> [] \<and>
         strings_ToLower (ru_PreferredSource r) \<notin> {''operational'', ''execution'', ''both''})
       ''%s.preferred_source must be operational|execution|both (got %q)'' [AStr p, AStr (ru_PreferredSource r)] @
     bad_if (ru_Fallback r \<noteq> [] \<and> \<not> snd (parseSourceName (ru_Fallback r)))
       ''%s.fallback must be operational|execution|none (got %q)'' [AStr p, AStr (ru_Fallback r)] @
     bad_if (ru_TTL r < 0) ''%s.ttl must be >= 0'' [AStr p] @
     bad_if (ru_CacheTTL r < 0) ''%s.cache_ttl must be >= 0'' [AStr p] @
     bad_if (ru_TTL r > 0 \<and> ru_CacheTTL r > ru_TTL r)
       ''%s: cache_ttl (%s) exceeds source freshness ttl (%s); the cache would serve data the TTL policy calls stale''
       [AStr p, ADur (ru_CacheTTL r), ADur (ru_TTL r)] @
     bad_if (ru_MaxStale r > 0 \<and> ru_TTL r > 0 \<and> ru_MaxStale r < ru_TTL r)
       ''%s: max_stale (%s) must be >= ttl (%s)'' [AStr p, ADur (ru_MaxStale r), ADur (ru_TTL r)] @
     (if ru_Consistency r \<noteq> [] then
        bad_if (strings_ToLower (ru_Consistency r) \<notin> {''strong'', ''bounded'', ''eventual''})
          ''%s.consistency must be strong|bounded|eventual (got %q)'' [AStr p, AStr (ru_Consistency r)] @
        bad_if (strings_EqualFold (ru_Consistency r) ''strong'' \<and> ru_AllowStale r)
          ''%s: consistency=strong is incompatible with allow_stale=true'' [AStr p]
      else []) @
     validateRuleMaps p r"

definition validateServer :: "Config \<Rightarrow> problem list" where
  "validateServer cfg = (let s = cfg_Server cfg in
     bad_if (srv_HTTPAddr s = []) ''server.http_addr must be set'' [] @
     bad_if (srv_RequestTimeout s \<le> 0) ''server.request_timeout must be > 0'' [] @
     bad_if (srv_MaxBodyBytes s \<le> 0) ''server.max_body_bytes must be > 0'' [] @
     bad_if (srv_ShutdownGrace s \<le> 0) ''server.shutdown_grace must be > 0'' [])"

definition validateSecurity :: "Config \<Rightarrow> problem list" where
  "validateSecurity cfg =
    (let s = cfg_Security cfg; j = sec_JWT s; env = obs_Environment (cfg_Observability cfg); r = sec_RateLimit s in
     (if \<not> sec_AllowInsecureNoAuth s then
        bad_if (jwt_Issuer j = []) ''security.jwt.issuer must be set when authentication is enabled'' [] @
        bad_if (jwt_Audience j = []) ''security.jwt.audience must be set when authentication is enabled'' [] @
        bad_if (jwt_JWKSURL j = [] \<and> jwt_HS256SecretEnv j = []) ''security.jwt: one of jwks_url or hs256_secret_env must be set'' []
      else bad_if (env \<noteq> ''local'' \<and> env \<noteq> ''test'')
        ''security.allow_insecure_no_auth is only permitted when observability.environment is local or test (got %q)'' [AStr env]) @
     bad_if (jwt_TenantClaim j = []) ''security.jwt.tenant_claim must be set'' [] @
     (if rl_Enabled r then
        bad_if (rl_RPS r \<le> 0) ''security.rate_limit.rps must be > 0 when rate limiting is enabled'' [] @
        bad_if (rl_Burst r < rl_RPS r) ''security.rate_limit.burst (%d) should be >= rps (%d)'' [AInt (rl_Burst r), AInt (rl_RPS r)]
      else []))"

definition validateSources :: "Config \<Rightarrow> problem list" where
  "validateSources cfg =
    (let o' = src_Operational (cfg_Sources cfg); e = src_Execution (cfg_Sources cfg) in
     bad_if (ops_Addr o' = []) ''sources.operational.addr must be set'' [] @
     bad_if (exs_BaseURL e = []) ''sources.execution.base_url must be set'' [] @
     bad_if (\<not> strings_HasPrefix (exs_BaseURL e) ''http://'' \<and> \<not> strings_HasPrefix (exs_BaseURL e) ''https://'')
       ''sources.execution.base_url must be an http(s) URL'' [] @
     validateSourceCommon ''sources.operational'' (ops_Common o') @
     validateSourceCommon ''sources.execution'' (exs_Common e) @
     bad_if (ops_ProbeTimeout o' \<le> 0) ''sources.operational.freshness_probe_timeout must be > 0'' [] @
     bad_if (ops_ProbeTimeout o' \<ge> sc_CallTimeout (ops_Common o'))
       ''sources.operational.freshness_probe_timeout (%s) must be shorter than call_timeout (%s): the probe exists to be cheap''
       [ADur (ops_ProbeTimeout o'), ADur (sc_CallTimeout (ops_Common o'))])"

definition validateCache :: "Config \<Rightarrow> problem list" where
  "validateCache cfg = (let c = cfg_Cache cfg in
     bad_if (cc_Backend c \<notin> {''memory'', ''redis'', ''layered'', ''none''})
       ''cache.backend must be one of memory|redis|layered|none (got %q)'' [AStr (cc_Backend c)] @
     bad_if (cc_Enabled c \<and> (cc_Backend c = ''redis'' \<or> cc_Backend c = ''layered'') \<and> rds_Addr (cc_Redis c) = [])
       ''cache.redis.addr must be set for backend %q'' [AStr (cc_Backend c)] @
     bad_if (cc_KeyPrefix c = []) ''cache.key_prefix must be set: it is part of tenant isolation'' [] @
     bad_if (cc_StaleGrace c < 0) ''cache.stale_grace must be >= 0'' [] @
     bad_if (st_EarlyRefreshRatio (cc_Stampede c) < 0 \<or> st_EarlyRefreshRatio (cc_Stampede c) > 1)
       ''cache.stampede.early_refresh_ratio must be within [0,1]'' [])"

definition validateRouting :: "Config \<Rightarrow> problem list" where
  "validateRouting cfg = (let d = rc_Defaults (cfg_Routing cfg); rts = rc_RequestTypes (cfg_Routing cfg) in
     bad_if (\<not> snd (parseSourceName (df_OnUnknownFreshness d)))
       ''routing.defaults.on_unknown_freshness must be operational|execution|none (got %q)'' [AStr (df_OnUnknownFreshness d)] @
     bad_if (df_ClockSkewTolerance d < 0) ''routing.defaults.clock_skew_tolerance must be >= 0'' [] @
     bad_if (InFlightResolutionEnabled d \<and> df_InFlightLookupTimeout d \<le> 0)
       ''routing.defaults.in_flight_lookup_timeout must be > 0 when resolve_in_flight_execution is enabled'' [] @
     bad_if (length rts = 0) ''routing.request_types must define at least one request type'' [] @
     concat (map (\<lambda>(name, rule). validateRule (''routing.request_types.'' @ name) rule) rts))"

definition validatePrecedence :: "Config \<Rightarrow> problem list" where
  "validatePrecedence cfg = (let p = cfg_Precedence cfg in
     concat (map (\<lambda>(field, sources).
         bad_if (length sources = 0) ''precedence.fields.%s must list at least one source'' [AStr field] @
         concat (map (\<lambda>s. bad_if (\<not> snd (parseSourceName s)) ''precedence.fields.%s: unknown source %q'' [AStr field, AStr s]) sources))
       (pc_Fields p)) @
     concat (map (\<lambda>f. bad_if (gomap_get (pc_Fields p) f = None)
         ''precedence.execution_overrides_when_running: %q is not a field in precedence.fields'' [AStr f])
       (pc_ExecutionOverridesWhenRunning p)))"

definition validateTenants :: "Config \<Rightarrow> problem list" where
  "validateTenants cfg =
     concat (map (\<lambda>(tenant, ov).
         bad_if (tenant = []) ''tenants: empty tenant id'' [] @
         (case ov_Routing ov of None \<Rightarrow> []
          | Some rc \<Rightarrow> concat (map (\<lambda>(name, rule).
              bad_if (gomap_get (rc_RequestTypes (cfg_Routing cfg)) name = None)
                ''tenants.%s.routing.request_types.%s: unknown request type'' [AStr tenant, AStr name] @
              validatePartialRule (''tenants.'' @ tenant @ ''.routing.request_types.'' @ name) rule)
             (rc_RequestTypes rc))))
       (cfg_Tenants cfg))"

definition validateObservability :: "Config \<Rightarrow> problem list" where
  "validateObservability cfg = (let ob = cfg_Observability cfg in
     bad_if (obs_TraceSampleRatio ob < 0 \<or> obs_TraceSampleRatio ob > 1) ''observability.trace_sample_ratio must be within [0,1]'' [] @
     bad_if (log_Level (obs_Log ob) \<notin> {''debug'', ''info'', ''warn'', ''error''})
       ''observability.log.level must be debug|info|warn|error (got %q)'' [AStr (log_Level (obs_Log ob))] @
     bad_if (log_Format (obs_Log ob) \<notin> {''json'', ''text''})
       ''observability.log.format must be json|text (got %q)'' [AStr (log_Format (obs_Log ob))])"

definition Validate :: "Config \<Rightarrow> problem list" where
  "Validate cfg = validateServer cfg @ validateSecurity cfg @ validateSources cfg @ validateCache cfg
     @ validateRouting cfg @ validatePrecedence cfg @ validateTenants cfg @ validateObservability cfg"

section \<open>Load\<close>

datatype load_error = DecodeFailed string | Invalid "problem list"

definition load :: "(string \<Rightarrow> string list \<Rightarrow> Config \<Rightarrow> string + Config) \<Rightarrow> string \<Rightarrow> string list
    \<Rightarrow> load_error + Config" where
  "load decode path environ =
     (case decode path environ Default of
        Inl e \<Rightarrow> Inl (DecodeFailed e)
      | Inr cfg0 \<Rightarrow>
          (let cfg = mergeRoutingDefaults cfg0 Default; probs = Validate cfg
           in if length probs > 0 then Inl (Invalid probs) else Inr cfg))"

section \<open>What a validated rule satisfies\<close>

text \<open>The part of the rule invariant that survives a tenant's patch, and the whole of it.\<close>

definition rule_base_ok :: "RoutingRule \<Rightarrow> bool" where
  "rule_base_ok r \<longleftrightarrow>
     strings_ToLower (ru_PreferredSource r) \<in> {''operational'', ''execution'', ''both''}
   \<and> snd (parseSourceName (ru_Fallback r)) \<and> 0 \<le> ru_TTL r \<and> 0 \<le> ru_CacheTTL r
   \<and> strings_ToLower (ru_Consistency r) \<in> {[], ''strong'', ''bounded'', ''eventual''}
   \<and> (\<forall>(s, b) \<in> set (map_entries (ru_RequiredSources r)). snd (parseSourceName s))
   \<and> (\<forall>(s, t) \<in> set (map_entries (ru_PerSourceTimeout r)). snd (parseSourceName s) \<and> 0 < t)"

definition rule_ok :: "RoutingRule \<Rightarrow> bool" where
  "rule_ok r \<longleftrightarrow> rule_base_ok r
   \<and> (0 < ru_TTL r \<longrightarrow> ru_CacheTTL r \<le> ru_TTL r)
   \<and> (ru_AllowStale r \<longrightarrow> 0 < ru_MaxStale r)
   \<and> (0 < ru_MaxStale r \<and> 0 < ru_TTL r \<longrightarrow> ru_TTL r \<le> ru_MaxStale r)
   \<and> (strings_ToLower (ru_Consistency r) = ''strong'' \<longrightarrow> \<not> ru_AllowStale r)"

lemma bad_if_Nil [simp]: "bad_if c f a = [] \<longleftrightarrow> \<not> c"
  by (simp add: bad_if_def)

lemma parseSourceName_Nil [simp]: "parseSourceName [] = (''none'', True)"
  by (simp add: parseSourceName_def)

lemma ToLower_strong [simp]: "strings_ToLower ''strong'' = ''strong''"
  by (simp add: strings_defs)

lemma fallback_check [simp]:
  "(ru_Fallback r \<noteq> [] \<and> \<not> snd (parseSourceName (ru_Fallback r))) \<longleftrightarrow> \<not> snd (parseSourceName (ru_Fallback r))"
  by auto

lemma validateRuleMaps_Nil:
  "validateRuleMaps p r = [] \<longleftrightarrow>
     (\<forall>(s, b) \<in> set (map_entries (ru_RequiredSources r)). snd (parseSourceName s))
   \<and> (\<forall>(s, t) \<in> set (map_entries (ru_PerSourceTimeout r)). snd (parseSourceName s) \<and> 0 < t)"
  by (auto simp: validateRuleMaps_def split: prod.splits)

lemma validateRule_iff: "validateRule p r = [] \<longleftrightarrow> rule_ok r"
  unfolding validateRule_def rule_ok_def rule_base_ok_def append_is_Nil_conv bad_if_Nil
    validateRuleMaps_Nil strings_EqualFold_def fallback_check ToLower_strong
  by (meson not_less)

text \<open>What a partial rule must satisfy for the fields it sets.\<close>

definition patch_ok :: "RoutingRule \<Rightarrow> bool" where
  "patch_ok r \<longleftrightarrow>
     (ru_PreferredSource r = [] \<or>
        strings_ToLower (ru_PreferredSource r) \<in> {''operational'', ''execution'', ''both''})
   \<and> snd (parseSourceName (ru_Fallback r)) \<and> 0 \<le> ru_TTL r \<and> 0 \<le> ru_CacheTTL r
   \<and> strings_ToLower (ru_Consistency r) \<in> {[], ''strong'', ''bounded'', ''eventual''}
   \<and> (\<forall>(s, b) \<in> set (map_entries (ru_RequiredSources r)). snd (parseSourceName s))
   \<and> (\<forall>(s, t) \<in> set (map_entries (ru_PerSourceTimeout r)). snd (parseSourceName s) \<and> 0 < t)"

lemma validatePartialRule_patch_ok: "validatePartialRule p r = [] \<Longrightarrow> patch_ok r"
  unfolding validatePartialRule_def patch_ok_def append_is_Nil_conv bad_if_Nil validateRuleMaps_Nil
  by (cases "ru_Consistency r = []") (simp_all add: insertI1 insertI2 del: insert_iff)

lemma mergeTenantRule_sel:
  "ru_PreferredSource (mergeTenantRule b t) = (if ru_PreferredSource t = [] then ru_PreferredSource b else ru_PreferredSource t)"
  "ru_Fallback (mergeTenantRule b t) = (if ru_Fallback t = [] then ru_Fallback b else ru_Fallback t)"
  "ru_Consistency (mergeTenantRule b t) = (if ru_Consistency t = [] then ru_Consistency b else ru_Consistency t)"
  "ru_TTL (mergeTenantRule b t) = (if ru_TTL t = 0 then ru_TTL b else ru_TTL t)"
  "ru_CacheTTL (mergeTenantRule b t) = (if ru_CacheTTL t = 0 then ru_CacheTTL b else ru_CacheTTL t)"
  "ru_RequiredSources (mergeTenantRule b t) = (if ru_RequiredSources t = None then ru_RequiredSources b else ru_RequiredSources t)"
  "ru_PerSourceTimeout (mergeTenantRule b t) = (if ru_PerSourceTimeout t = None then ru_PerSourceTimeout b else ru_PerSourceTimeout t)"
  by (simp_all add: mergeTenantRule_def)

lemma mergeTenantRule_base_ok: "rule_base_ok base \<Longrightarrow> patch_ok tr \<Longrightarrow> rule_base_ok (mergeTenantRule base tr)"
  unfolding rule_base_ok_def patch_ok_def mergeTenantRule_sel
  by (cases "ru_PreferredSource tr = []") (simp_all del: insert_iff)

lemma Validate_routing: "Validate cfg = [] \<Longrightarrow> validateRouting cfg = []"
  by (simp add: Validate_def)

lemma Validate_tenants: "Validate cfg = [] \<Longrightarrow> validateTenants cfg = []"
  by (simp add: Validate_def)

lemma Validate_rule_ok:
  assumes "Validate cfg = []" "gomap_get (rc_RequestTypes (cfg_Routing cfg)) q = Some r"
  shows "rule_ok r"
proof -
  have "(q, r) \<in> set (rc_RequestTypes (cfg_Routing cfg))" using assms(2) by (rule gomap_get_in_set)
  moreover have "\<forall>(n, r) \<in> set (rc_RequestTypes (cfg_Routing cfg)). validateRule (''routing.request_types.'' @ n) r = []"
    using Validate_routing[OF assms(1)] by (auto simp: validateRouting_def Let_def)
  ultimately show ?thesis by (auto simp: validateRule_iff)
qed

lemma Validate_patch_ok:
  assumes "Validate cfg = []" "gomap_get (cfg_Tenants cfg) t = Some ov" "ov_Routing ov = Some rc"
    "gomap_get (rc_RequestTypes rc) q = Some tr"
  shows "patch_ok tr"
proof -
  have "(t, ov) \<in> set (cfg_Tenants cfg)" "(q, tr) \<in> set (rc_RequestTypes rc)"
    using assms(2,4) by (auto intro: gomap_get_in_set)
  then have "validatePartialRule (''tenants.'' @ t @ ''.routing.request_types.'' @ q) tr = []"
    using Validate_tenants[OF assms(1)] assms(3) unfolding validateTenants_def
    by (fastforce split: option.splits)
  then show ?thesis by (rule validatePartialRule_patch_ok)
qed

section \<open>Properties\<close>

text \<open>In a configuration that passes \<^verbatim>\<open>Validate\<close>, every request type's rule keeps its cache TTL
  within the freshness TTL, bounds stale serving by a positive \<^verbatim>\<open>max_stale\<close> not below the TTL,
  never combines strong consistency with stale serving, and names only known sources. The
  check is exact: \<^verbatim>\<open>validateRule\<close> reports nothing if and only if these hold.\<close>

theorem validated_rules_ok:
  assumes "Validate cfg = []" "gomap_get (rc_RequestTypes (cfg_Routing cfg)) q = Some r"
  shows "rule_ok r \<and> (validateRule p r' = [] \<longleftrightarrow> rule_ok r')"
  using Validate_rule_ok[OF assms] validateRule_iff by blast

definition example_acme :: Override where
  "example_acme = \<lparr>ov_Routing = Some \<lparr>rc_Defaults = rc_Defaults Default_Routing,
      rc_RequestTypes = [(''resource_status'', zero_RoutingRule\<lparr>ru_CacheTTL := 60 * second\<rparr>)]\<rparr>,
    ov_Cache = None, ov_Security = None, ov_Precedence = None\<rparr>"

definition example_tenant_config :: Config where
  "example_tenant_config = Default\<lparr>cfg_Tenants := [(''acme'', example_acme)]\<rparr>"

lemma Default_validates: "Validate Default = []"
  by code_simp

lemma with_tenants_sel:
  "cfg_Server (cfg\<lparr>cfg_Tenants := ts\<rparr>) = cfg_Server cfg"
  "cfg_Security (cfg\<lparr>cfg_Tenants := ts\<rparr>) = cfg_Security cfg"
  "cfg_Sources (cfg\<lparr>cfg_Tenants := ts\<rparr>) = cfg_Sources cfg"
  "cfg_Cache (cfg\<lparr>cfg_Tenants := ts\<rparr>) = cfg_Cache cfg"
  "cfg_Routing (cfg\<lparr>cfg_Tenants := ts\<rparr>) = cfg_Routing cfg"
  "cfg_Precedence (cfg\<lparr>cfg_Tenants := ts\<rparr>) = cfg_Precedence cfg"
  "cfg_Observability (cfg\<lparr>cfg_Tenants := ts\<rparr>) = cfg_Observability cfg"
  by simp_all

lemma validate_ignores_tenants:
  "validateServer (cfg\<lparr>cfg_Tenants := ts\<rparr>) = validateServer cfg"
  "validateSecurity (cfg\<lparr>cfg_Tenants := ts\<rparr>) = validateSecurity cfg"
  "validateSources (cfg\<lparr>cfg_Tenants := ts\<rparr>) = validateSources cfg"
  "validateCache (cfg\<lparr>cfg_Tenants := ts\<rparr>) = validateCache cfg"
  "validateRouting (cfg\<lparr>cfg_Tenants := ts\<rparr>) = validateRouting cfg"
  "validatePrecedence (cfg\<lparr>cfg_Tenants := ts\<rparr>) = validatePrecedence cfg"
  "validateObservability (cfg\<lparr>cfg_Tenants := ts\<rparr>) = validateObservability cfg"
  unfolding validateServer_def validateSecurity_def validateSources_def validateCache_def
    validateRouting_def validatePrecedence_def validateObservability_def with_tenants_sel by (rule refl)+

lemma Validate_with_tenants:
  "Validate cfg = [] \<Longrightarrow> validateTenants (cfg\<lparr>cfg_Tenants := ts\<rparr>) = [] \<Longrightarrow> Validate (cfg\<lparr>cfg_Tenants := ts\<rparr>) = []"
  by (simp add: Validate_def validate_ignores_tenants)

lemma example_tenant_config_valid: "Validate example_tenant_config = []"
proof -
  have "validateTenants (Default\<lparr>cfg_Tenants := [(''acme'', example_acme)]\<rparr>) = []" by code_simp
  then show ?thesis
    unfolding example_tenant_config_def by (rule Validate_with_tenants[OF Default_validates])
qed

theorem validated_rules_ok_witness: "\<exists>r. gomap_get Default_RequestTypes ''resource_status'' = Some r \<and> rule_ok r"
proof -
  obtain r where r: "gomap_get (rc_RequestTypes (cfg_Routing Default)) ''resource_status'' = Some r"
    by (simp add: Default_def Default_Routing_def Default_RequestTypes_def)
  show ?thesis using validated_rules_ok[OF Default_validates r] r
    by (auto simp: Default_def Default_Routing_def)
qed

text \<open>The rule any tenant sees under a validated configuration, its own patch applied, still has
  a known preferred source and fallback, non-negative TTLs, a known consistency level and only
  positive per-source timeouts.\<close>

theorem resolved_rule_base_ok:
  assumes "Validate cfg = []" "ResolveRule cfg tenant q = (r, True)"
  shows "rule_base_ok r"
  using assms(2)
proof (cases rule: ResolveRule_cases)
  case (1 base)
  then show ?thesis using Validate_rule_ok[OF assms(1)] by (simp add: rule_ok_def)
next
  case (2 base ov rc tr)
  then show ?thesis using Validate_rule_ok[OF assms(1)] Validate_patch_ok[OF assms(1)]
    by (auto simp: rule_ok_def intro!: mergeTenantRule_base_ok)
qed

theorem resolved_rule_base_ok_witness:
  "rule_base_ok (fst (ResolveRule example_tenant_config ''acme'' ''resource_status''))"
  by (rule resolved_rule_base_ok[of example_tenant_config "''acme''" "''resource_status''"])
    (rule example_tenant_config_valid, code_simp)

text \<open>The built-in configuration is valid, and loading with an empty document yields exactly it.\<close>

theorem Default_valid: "Validate Default = [] \<and> mergeRoutingDefaults Default Default = Default
    \<and> load (\<lambda>_ _ cfg. Inr cfg) path environ = Inr Default"
proof -
  have "mergeRoutingDefaults Default Default = Default" by code_simp
  with Default_validates show ?thesis by (simp add: load_def)
qed

text \<open>A validated configuration can still give a tenant a rule that breaks the cache/freshness
  invariant: a tenant that sets only \<^verbatim>\<open>cache_ttl\<close> is accepted, and the merged rule caches
  longer than the source TTL allows.\<close>

theorem tenant_patch_escapes_validation:
  "\<exists>cfg r. Validate cfg = [] \<and> ResolveRule cfg ''acme'' ''resource_status'' = (r, True)
     \<and> 0 < ru_TTL r \<and> ru_TTL r < ru_CacheTTL r \<and> \<not> rule_ok r"
proof (intro exI conjI)
  show "Validate example_tenant_config = []" by (rule example_tenant_config_valid)
  show "ResolveRule example_tenant_config ''acme'' ''resource_status''
      = (fst (ResolveRule example_tenant_config ''acme'' ''resource_status''), True)" by code_simp
  show "0 < ru_TTL (fst (ResolveRule example_tenant_config ''acme'' ''resource_status''))" by code_simp
  show "ru_TTL (fst (ResolveRule example_tenant_config ''acme'' ''resource_status''))
      < ru_CacheTTL (fst (ResolveRule example_tenant_config ''acme'' ''resource_status''))" by code_simp
  show "\<not> rule_ok (fst (ResolveRule example_tenant_config ''acme'' ''resource_status''))" by code_simp
qed

end
