(* ===== verification/ApiProps.thy ===== *)
theory ApiProps
  imports Api ConfigLoad
begin

text \<open>
  What the HTTP surface guarantees for every request: who may reach a use case and as which tenant, that each response is exactly one
  document, and which of the outer layers work without the tenant and the correlation id.
\<close>

section \<open>Lemmas: the effect on the application\<close>

lemma fail_with_sel [simp]:
  "fst (fail_with ctx e src w) = Returned" "wd_app (snd (fail_with ctx e src w)) = wd_app w" "wd_limiter (snd (fail_with ctx e src w)) = wd_limiter w"
  "wd_log (snd (fail_with ctx e src w)) = wd_log w" "wd_rw (snd (fail_with ctx e src w)) = response_Error ctx e src (wd_rw w)"
  by (simp_all add: fail_with_def)

lemma SetRoute_sel [simp]:
  "wd_app (SetRoute ctx p w) = wd_app w" "wd_limiter (SetRoute ctx p w) = wd_limiter w" "wd_log (SetRoute ctx p w) = wd_log w"
  "wd_rw (SetRoute ctx p w) = wd_rw w"
  by (simp_all add: SetRoute_def)

lemma validateID_None: "validateID n v = None \<Longrightarrow> safe_id v"
  by (auto simp: validateID_def maxIDLength_def safe_id_def split: if_splits)

lemma parse_Inr:
  assumes "parse req ctx p = Inr inp"
  shows "in_TenantID inp = cx_TenantID ctx \<and> safe_id (in_ResourceID inp) \<and> (in_ExecutionID inp = [] \<or> safe_id (in_ExecutionID inp))
    \<and> (in_IncludeAudit inp \<longrightarrow> Can p PermExecutionAudit) \<and> 0 \<le> in_Limit inp \<and> length (in_RequestedFields inp) \<le> 32
    \<and> length (in_Cursor inp) \<le> 512"
proof -
  have audit: "parse_audit p q = Inr b \<Longrightarrow> b \<longrightarrow> Can p PermExecutionAudit" for q b
    by (auto simp: parse_audit_def Let_def split: if_splits option.splits)
  have limit: "parse_limit q = Inr n \<Longrightarrow> 0 \<le> n" for q n
    by (auto simp: parse_limit_def Let_def split: if_splits option.splits)
  have fields: "parse_fields q = Inr fs \<Longrightarrow> length fs \<le> 32" for q fs
    by (auto simp: parse_fields_def Let_def split: if_splits)
  show ?thesis using assms audit limit fields
    by (auto simp: parse_def Let_def validateID_None split: option.splits sum.splits if_splits prod.splits)
qed

lemma serve_app:
  "wd_app (snd (handler_serve cfg cat app perm uc req ctx w)) = wd_app w
   \<or> (\<exists>inp cls. parse req ctx (rx_Principal ctx) = Inr inp \<and> Classify cfg cat inp = Inr cls
        \<and> Authorize (rx_Principal ctx) perm (rbac_DefaultDeny (sec_RBAC (cfg_Security cfg))) = None
        \<and> wd_app (snd (handler_serve cfg cat app perm uc req ctx w)) = snd (app_call app uc ctx cls (wd_app w)))"
  by (auto simp: handler_serve_def Let_def split: option.splits sum.splits prod.splits)

lemma serve_frame:
  "wd_limiter (snd (handler_serve cfg cat app perm uc req ctx w)) = wd_limiter w"
  "wd_log (snd (handler_serve cfg cat app perm uc req ctx w)) = wd_log w" "fst (handler_serve cfg cat app perm uc req ctx w) = Returned"
  by (auto simp: handler_serve_def Let_def split: option.splits sum.splits prod.splits)

lemma mux_frame:
  "wd_limiter (snd (mux cfg cat app req ctx w)) = wd_limiter w" "wd_log (snd (mux cfg cat app req ctx w)) = wd_log w"
  "fst (mux cfg cat app req ctx w) = Returned"
  by (auto simp: mux_def serve_frame split: option.splits)

section \<open>Lemmas: one document per response\<close>

definition untouched :: "'p ResponseWriter \<Rightarrow> bool" where
  "untouched rw \<longleftrightarrow> rw_status rw = None \<and> rw_body rw = []"

definition one_document :: "'p ResponseWriter \<Rightarrow> bool" where
  "one_document rw \<longleftrightarrow>
     (\<exists>d m. rw_body rw = [DocEnvelope d m] \<and> rw_status rw = Some (if rm_Partial m then 206 else 200))
   \<or> (\<exists>b. rw_body rw = [DocError b] \<and> rw_status rw = Some (eb_Status b) \<and> eb_Status b = httpStatusByCode (eb_Code b))
   \<or> (\<exists>t. rw_body rw = [DocText t] \<and> rw_status rw = Some 413)"

lemma untouched_header [simp]: "untouched (header_Set k v rw) = untouched rw"
  by (simp add: untouched_def)

lemma error_body_status: "eb_Status (error_body ctx e src) = HTTPStatusOf (Some e) \<and> HTTPStatusOf (Some e) = httpStatusByCode (eb_Code (error_body ctx e src))"
proof -
  obtain c where "CodeOf (Some e) = Some c" using CodeOf_eq_None_iff[of "Some e"] by (cases "CodeOf (Some e)") auto
  then show ?thesis by (simp add: error_body_def HTTPStatusOf_CodeOf Let_def)
qed

lemma Error_document: "untouched rw \<Longrightarrow> one_document (response_Error ctx e src rw)"
  using response_write_fresh[of rw ctx "HTTPStatusOf (Some e)" "DocError (error_body ctx e src)"] error_body_status[of ctx e src]
  by (auto simp: untouched_def one_document_def response_Error_def)

lemma OK_document: "untouched rw \<Longrightarrow> one_document (response_OK ctx d m rw)"
  by (auto simp: response_OK_def Let_def one_document_def untouched_def response_write_fresh)

lemma serve_document: "untouched (wd_rw w) \<Longrightarrow> one_document (wd_rw (snd (handler_serve cfg cat app perm uc req ctx w)))"
  by (auto simp: handler_serve_def Let_def Error_document OK_document split: option.splits sum.splits prod.splits)

lemma mux_document: "untouched (wd_rw w) \<Longrightarrow> one_document (wd_rw (snd (mux cfg cat app req ctx w)))"
  by (auto simp: mux_def serve_document Error_document split: option.splits)

section \<open>The layers one by one\<close>

text \<open>A run is settled when it returned with one document or panicked before it had written anything; a
  handler is tame for a request when it turns every untouched response into a settled run.\<close>

definition settled :: "flow \<times> ('s, 'l, 'p) World \<Rightarrow> bool" where
  "settled r = (case r of (Returned, w) \<Rightarrow> one_document (wd_rw w) | (Panicked, w) \<Rightarrow> untouched (wd_rw w) | (Aborted, w) \<Rightarrow> False)"

definition tame :: "HttpRequest \<Rightarrow> ('s, 'l, 'p) handler \<Rightarrow> bool" where
  "tame req h \<longleftrightarrow> (\<forall>ctx w. untouched (wd_rw w) \<longrightarrow> settled (h req ctx w))"

lemma settled_simps [simp]:
  "settled (Returned, w) = one_document (wd_rw w)" "settled (Panicked, w) = untouched (wd_rw w)" "\<not> settled (Aborted, w)"
  by (simp_all add: settled_def)

lemma settled_returned: "fst r = Returned \<Longrightarrow> settled r = one_document (wd_rw (snd r))"
  by (cases r) simp

lemma fail_settled [simp]: "untouched (wd_rw w) \<Longrightarrow> settled (fail_with ctx e src w)"
  by (simp add: settled_returned Error_document)

lemma mux_tame: "tame req (mux cfg cat app)"
  by (simp add: tame_def settled_returned mux_frame mux_document)

lemma Timeout_tame: "tame req h \<Longrightarrow> tame req (TimeoutMW d now h)"
  by (simp add: tame_def TimeoutMW_def)

lemma Authenticate_tame: "tame req h \<Longrightarrow> tame req (AuthenticateMW jp expOf clk jwks h)"
  by (auto simp: tame_def AuthenticateMW_def Let_def split: prod.split option.split sum.split)

lemma RateLimit_tame: "tame req h \<Longrightarrow> tame req (RateLimitMW a n now h)"
  by (auto simp: tame_def RateLimitMW_def Let_def split: prod.split)

lemma BodyLimit_tame: "tame req h \<Longrightarrow> tame req (BodyLimit n h)"
  by (auto simp: tame_def BodyLimit_def http_Error_def rw_Write_def Let_def one_document_def untouched_def)

lemma AccessLog_tame: "tame req h \<Longrightarrow> tame req (AccessLog h)"
  unfolding tame_def
proof (intro allI impI)
  fix ctx and w :: "('a, 'b, 'c) World"
  assume "\<forall>ctx w. untouched (wd_rw w) \<longrightarrow> settled (h req ctx w)" "untouched (wd_rw w)"
  then have "settled (h req ctx w)" by blast
  then show "settled (AccessLog h req ctx w)" by (cases "h req ctx w") (auto simp: AccessLog_def split: flow.split)
qed

lemma SecurityHeaders_tame: "tame req h \<Longrightarrow> tame req (SecurityHeaders h)"
  by (simp add: tame_def SecurityHeaders_def)

lemma Correlation_tame: "tame req h \<Longrightarrow> tame req (CorrelationMW a b now h)"
  by (simp add: tame_def CorrelationMW_def Let_def)

lemma Recover_returns:
  assumes "tame req h" "untouched (wd_rw w)"
  shows "fst (Recover h req ctx w) = Returned \<and> one_document (wd_rw (snd (Recover h req ctx w)))"
proof -
  have "settled (h req ctx w)" using assms by (simp add: tame_def)
  then show ?thesis by (cases "h req ctx w") (auto simp: Recover_def Error_document split: flow.splits)
qed

lemmas layers_tame = Correlation_tame SecurityHeaders_tame AccessLog_tame BodyLimit_tame RateLimit_tame Authenticate_tame Timeout_tame mux_tame

section \<open>Lemmas: through the outer layers\<close>

lemma Classify_copies:
  "Classify cfg cat inp = Inr c \<Longrightarrow> cl_TenantID c = in_TenantID inp \<and> cl_ResourceID c = in_ResourceID inp \<and> cl_IncludeAudit c = in_IncludeAudit inp"
  by (auto simp: Classify_def Let_def split: option.splits sum.splits if_splits prod.splits)

lemma ResolveTenant_own: "ResolveTenant (Some p) t = Inr x \<Longrightarrow> x = pr_TenantID p"
  by (auto simp: ResolveTenant_def Let_def split: if_splits)

lemma Authorize_granted: "Authorize p perm deny = None \<Longrightarrow> Can p perm \<or> \<not> deny"
  by (auto simp: Authorize_def split: if_splits)

lemma Timeout_ctx: "\<exists>c. TimeoutMW d now h req ctx w = h req c w \<and> cx_TenantID c = cx_TenantID ctx \<and> rx_Principal c = rx_Principal ctx"
  unfolding TimeoutMW_def
  by (intro exI[of _ "if d \<le> 0 then ctx else ctx\<lparr>cx_deadline := Some (case cx_deadline ctx of None \<Rightarrow> now + d | Some x \<Rightarrow> if x < now + d then x else now + d)\<rparr>"]) simp

lemma Recover_sel [simp]:
  "wd_app (snd (Recover h req ctx w)) = wd_app (snd (h req ctx w))" "wd_log (snd (Recover h req ctx w)) = wd_log (snd (h req ctx w))"
  "wd_limiter (snd (Recover h req ctx w)) = wd_limiter (snd (h req ctx w))"
  by (auto simp: Recover_def split: prod.split flow.split)

lemma AccessLog_sel [simp]:
  "wd_app (snd (AccessLog h req ctx w)) = wd_app (snd (h req ctx w))" "wd_limiter (snd (AccessLog h req ctx w)) = wd_limiter (snd (h req ctx w))"
  by (auto simp: AccessLog_def split: prod.split flow.split)

lemma AccessLog_log:
  "wd_log (snd (AccessLog h req ctx w)) = wd_log (snd (h req ctx w))
   \<or> (\<exists>l. wd_log (snd (AccessLog h req ctx w)) = wd_log (snd (h req ctx w)) @ [l] \<and> al_Tenant l = cx_TenantID ctx)"
  by (auto simp: AccessLog_def split: prod.split flow.split)

lemma BodyLimit_cases:
  obtains "wd_app (snd (BodyLimit n h req ctx w)) = wd_app w" "wd_log (snd (BodyLimit n h req ctx w)) = wd_log w"
      "wd_limiter (snd (BodyLimit n h req ctx w)) = wd_limiter w"
  | "BodyLimit n h req ctx w = h req ctx w"
  by (cases "hr_ContentLength req > n") (auto simp: BodyLimit_def)

lemma RateLimit_cases:
  fixes w :: "('s, 'l, 'p) World" and ctx :: ReqCtx
  fixes a n now req
  defines "verdict \<equiv> limiter_Allow a n now (if cx_TenantID ctx = [] then clientIP req else cx_TenantID ctx) (wd_limiter w)"
  obtains "wd_app (snd (RateLimitMW a n now h req ctx w)) = wd_app w" "wd_log (snd (RateLimitMW a n now h req ctx w)) = wd_log w"
      "wd_limiter (snd (RateLimitMW a n now h req ctx w)) = snd verdict"
  | "RateLimitMW a n now h req ctx w = h req ctx (w\<lparr>wd_limiter := snd verdict\<rparr>)"
  by (cases verdict; cases "fst verdict") (auto simp: verdict_def RateLimitMW_def)

lemma Authenticate_frame:
  assumes "\<And>ctx w. wd_limiter (snd (h req ctx w)) = wd_limiter w \<and> wd_log (snd (h req ctx w)) = wd_log w"
  shows "wd_limiter (snd (AuthenticateMW jp ex clk jwks h req ctx w)) = wd_limiter w \<and> wd_log (snd (AuthenticateMW jp ex clk jwks h req ctx w)) = wd_log w"
  by (auto simp: AuthenticateMW_def Let_def assms split: prod.split option.split sum.split)

abbreviation admitted :: "Config \<Rightarrow> Config \<Rightarrow> FieldCatalog \<Rightarrow> ('s, 'p) App \<Rightarrow> 'l Libraries \<Rightarrow> Moment \<Rightarrow> ('s, 'l, 'p) handler" where
  "admitted boot cfg cat app lib m \<equiv> AuthenticateMW (lb_parse lib) (lb_exp lib) (mo_keyClock m) (mo_jwks m)
     (TimeoutMW (srv_RequestTimeout (cfg_Server boot)) (mo_now m) (mux cfg cat app))"

lemma admitted_frame:
  "wd_limiter (snd (admitted boot cfg cat app lib m req ctx w)) = wd_limiter w \<and> wd_log (snd (admitted boot cfg cat app lib m req ctx w)) = wd_log w"
  by (rule Authenticate_frame) (simp add: TimeoutMW_def mux_frame)

lemma admitted_app:
  "wd_app (snd (admitted boot cfg cat app lib m req ctx w)) = wd_app w
   \<or> (\<exists>p perm uc c cls. fst (Authenticate (lb_parse lib) (lb_exp lib) (mo_keyClock m) (mo_jwks m) (hr_Header req) (wd_auth w)) = Some (Inr p)
       \<and> map_of route_table (hr_Pattern req) = Some (perm, uc) \<and> (Can (Some p) perm \<or> \<not> rbac_DefaultDeny (sec_RBAC (cfg_Security cfg)))
       \<and> cx_TenantID c = pr_TenantID p \<and> cl_TenantID cls = pr_TenantID p \<and> safe_id (cl_ResourceID cls)
       \<and> (cl_IncludeAudit cls \<longrightarrow> Can (Some p) PermExecutionAudit)
       \<and> wd_app (snd (admitted boot cfg cat app lib m req ctx w)) = snd (app_call app uc c cls (wd_app w)))"
proof (cases "Authenticate (lb_parse lib) (lb_exp lib) (mo_keyClock m) (mo_jwks m) (hr_Header req) (wd_auth w)")
  case (Pair r a)
  show ?thesis
  proof (cases "\<exists>p t. r = Some (Inr p) \<and> ResolveTenant (Some p) (header_Get (hr_Header req) HeaderTenantID) = Inr t")
    case False
    then show ?thesis using Pair by (auto simp: AuthenticateMW_def Let_def split: option.split sum.split)
  next
    case True
    then obtain p t where p: "r = Some (Inr p)" "ResolveTenant (Some p) (header_Get (hr_Header req) HeaderTenantID) = Inr t" by blast
    obtain c where c: "cx_TenantID c = t" "rx_Principal c = Some p"
      "admitted boot cfg cat app lib m req ctx w = mux cfg cat app req c (w\<lparr>wd_auth := a\<rparr>)"
      using p Pair Timeout_ctx[of "srv_RequestTimeout (cfg_Server boot)" "mo_now m" "mux cfg cat app" req
          "ctx\<lparr>cx_TenantID := t, cx_Subject := pr_Subject p, cx_Roles := pr_Roles p, rx_Principal := Some p\<rparr>" "w\<lparr>wd_auth := a\<rparr>"]
      by (auto simp: AuthenticateMW_def)
    show ?thesis
    proof (cases "map_of route_table (hr_Pattern req)")
      case None
      then show ?thesis by (simp add: c(3) mux_def)
    next
      case (Some pu)
      obtain perm uc where pu: "pu = (perm, uc)" by force
      have m: "mux cfg cat app req c (w\<lparr>wd_auth := a\<rparr>) = handler_serve cfg cat app perm uc req c (w\<lparr>wd_auth := a\<rparr>)"
        using Some pu by (simp add: mux_def)
      show ?thesis using serve_app[of cfg cat app perm uc req c "w\<lparr>wd_auth := a\<rparr>"]
      proof (elim disjE exE conjE)
        assume "wd_app (snd (handler_serve cfg cat app perm uc req c (w\<lparr>wd_auth := a\<rparr>))) = wd_app (w\<lparr>wd_auth := a\<rparr>)"
        then show ?thesis by (simp add: c(3) m)
      next
        fix inp cls
        assume s: "parse req c (rx_Principal c) = Inr inp" "Classify cfg cat inp = Inr cls"
          "Authorize (rx_Principal c) perm (rbac_DefaultDeny (sec_RBAC (cfg_Security cfg))) = None"
          "wd_app (snd (handler_serve cfg cat app perm uc req c (w\<lparr>wd_auth := a\<rparr>))) = snd (app_call app uc c cls (wd_app (w\<lparr>wd_auth := a\<rparr>)))"
        show ?thesis
          using parse_Inr[OF s(1)] Classify_copies[OF s(2)] Authorize_granted[OF s(3)] ResolveTenant_own[OF p(2)] s(4) Some pu Pair p(1) c m
          by (intro disjI2 exI[of _ p] exI[of _ perm] exI[of _ uc] exI[of _ c] exI[of _ cls]) auto
      qed
    qed
  qed
qed

section \<open>Properties\<close>

lemma entered:
  "\<exists>c w1. CorrelationMW a b now (SecurityHeaders h) req fresh_ctx w = h req c w1 \<and> cx_TenantID c = [] \<and> wd_app w1 = wd_app w
     \<and> wd_auth w1 = wd_auth w \<and> wd_limiter w1 = wd_limiter w \<and> wd_log w1 = wd_log w"
  unfolding CorrelationMW_def SecurityHeaders_def Let_def
  by (intro exI conjI, rule refl) (simp_all add: fresh_ctx_def)

lemma publicRoutes_outer:
  fixes w :: "('s, 'l, 'p) World" and boot cfg cat app lib m req
  defines "r \<equiv> snd (publicRoutes boot cfg cat app lib m req fresh_ctx w)"
    and "verdict \<equiv> limiter_Allow (lb_allowN lib) (lb_newLimiter lib) (mo_now m) (clientIP req) (wd_limiter w)"
  shows "(wd_app r = wd_app w \<or> (\<exists>c w1. wd_app w1 = wd_app w \<and> wd_auth w1 = wd_auth w \<and> wd_app r = wd_app (snd (admitted boot cfg cat app lib m req c w1))))
    \<and> (wd_limiter r = wd_limiter w \<or> wd_limiter r = snd verdict)
    \<and> (wd_log r = wd_log w \<or> (\<exists>l. wd_log r = wd_log w @ [l] \<and> al_Tenant l = []))"
proof -
  let ?adm = "admitted boot cfg cat app lib m"
  let ?rl = "RateLimitMW (lb_allowN lib) (lb_newLimiter lib) (mo_now m) ?adm"
  let ?bl = "BodyLimit (srv_MaxBodyBytes (cfg_Server boot)) ?rl"
  obtain c w1 where c: "cx_TenantID c = []" "wd_app w1 = wd_app w" "wd_auth w1 = wd_auth w" "wd_limiter w1 = wd_limiter w" "wd_log w1 = wd_log w"
    and r: "wd_app r = wd_app (snd (?bl req c w1))" "wd_limiter r = wd_limiter (snd (?bl req c w1))"
      "wd_log r = wd_log (snd (?bl req c w1)) \<or> (\<exists>l. wd_log r = wd_log (snd (?bl req c w1)) @ [l] \<and> al_Tenant l = [])"
  proof -
    obtain c w1 where e: "CorrelationMW (mo_id1 m) (mo_id2 m) (mo_now m) (SecurityHeaders (AccessLog ?bl)) req fresh_ctx w = AccessLog ?bl req c w1"
      "cx_TenantID c = []" "wd_app w1 = wd_app w" "wd_auth w1 = wd_auth w" "wd_limiter w1 = wd_limiter w" "wd_log w1 = wd_log w"
      using entered[of "mo_id1 m" "mo_id2 m" "mo_now m" "AccessLog ?bl" req w] by blast
    then show thesis using AccessLog_log[of ?bl req c w1] by (intro that[of c w1]) (auto simp: r_def publicRoutes_def Chain_def)
  qed
  show ?thesis
  proof (cases rule: BodyLimit_cases[of "srv_MaxBodyBytes (cfg_Server boot)" ?rl req c w1])
    case 1
    then show ?thesis using c r by auto
  next
    case 2
    show ?thesis
    proof (cases rule: RateLimit_cases[of "lb_allowN lib" "lb_newLimiter lib" "mo_now m" ?adm req c w1])
      case 1
      then show ?thesis using c r 2 by (auto simp: verdict_def)
    next
      case a: 2
      let ?w2 = "w1\<lparr>wd_limiter := snd verdict\<rparr>"
      have e: "?bl req c w1 = ?adm req c ?w2" using 2 a c by (simp add: verdict_def)
      have f: "wd_limiter (snd (?adm req c ?w2)) = snd verdict" "wd_log (snd (?adm req c ?w2)) = wd_log w"
        using admitted_frame[where boot = boot and cfg = cfg and cat = cat and app = app and lib = lib and m = m and req = req and ctx = c and w = ?w2] c by simp_all
      have "\<exists>c w1. wd_app w1 = wd_app w \<and> wd_auth w1 = wd_auth w \<and> wd_app r = wd_app (snd (?adm req c w1))"
        using c r(1) e by (intro exI[of _ c] exI[of _ ?w2]) simp
      then show ?thesis using r e f by simp
    qed
  qed
qed

text \<open>C3: No use case runs for a caller who may not run it. Whatever the request, the public chain either leaves the application as it is or
  runs exactly one use case, the one of the matched route, for an authenticated principal who holds the route's permission (or
  the policy is not to deny by default); the use case runs as the principal's own tenant, on a resource id of safe characters, and
  with audit data only for a holder of the audit permission.\<close>

theorem use_cases_run_only_authorised:
  "wd_app (snd (publicRoutes boot cfg cat app lib m req fresh_ctx w)) = wd_app w
   \<or> (\<exists>p perm uc c cls. fst (Authenticate (lb_parse lib) (lb_exp lib) (mo_keyClock m) (mo_jwks m) (hr_Header req) (wd_auth w)) = Some (Inr p)
       \<and> map_of route_table (hr_Pattern req) = Some (perm, uc) \<and> (Can (Some p) perm \<or> \<not> rbac_DefaultDeny (sec_RBAC (cfg_Security cfg)))
       \<and> cx_TenantID c = pr_TenantID p \<and> cl_TenantID cls = pr_TenantID p \<and> safe_id (cl_ResourceID cls)
       \<and> (cl_IncludeAudit cls \<longrightarrow> Can (Some p) PermExecutionAudit)
       \<and> wd_app (snd (publicRoutes boot cfg cat app lib m req fresh_ctx w)) = snd (app_call app uc c cls (wd_app w)))"
proof (cases "wd_app (snd (publicRoutes boot cfg cat app lib m req fresh_ctx w)) = wd_app w")
  case False
  then obtain c w1 where "wd_app w1 = wd_app w" "wd_auth w1 = wd_auth w"
      "wd_app (snd (publicRoutes boot cfg cat app lib m req fresh_ctx w)) = wd_app (snd (admitted boot cfg cat app lib m req c w1))"
    using publicRoutes_outer[of boot cfg cat app lib m req w] by blast
  with admitted_app[where boot = boot and cfg = cfg and cat = cat and app = app and lib = lib and m = m and req = req and ctx = c and w = w1] show ?thesis by simp
qed simp

definition demo_config :: Config where "demo_config = Default\<lparr>cfg_Security := demo_security\<rparr>"

definition demo_lib :: "unit Libraries" where
  "demo_lib = \<lparr>lb_allowN = \<lambda>_ l. (True, l), lb_newLimiter = \<lambda>_ _. (), lb_parse = demo_parse, lb_exp = \<lambda>_. None\<rparr>"

definition demo_app :: "(int, unit) App" where
  "demo_app = \<lparr>app_call = \<lambda>uc ctx cls s. (Inl (err_New CodeInternal ''unavailable''), s + 1),
     app_health = \<lambda>s. (\<lparr>sh_Available = True, sh_Detail = ''closed'', sh_LastError = [], sh_CheckedAt = 0\<rparr>, \<lparr>sh_Available = True, sh_Detail = ''closed'', sh_LastError = [], sh_CheckedAt = 0\<rparr>)\<rparr>"

definition demo_world :: "(int, unit, unit) World" where
  "demo_world = \<lparr>wd_rw = new_rw, wd_route = [], wd_log = [], wd_limiter = NewRateLimiter (sec_RateLimit demo_security) 0, wd_auth = demo_auth, wd_app = 0\<rparr>"

definition demo_moment :: Moment where
  "demo_moment = \<lparr>mo_id1 = ''a'', mo_id2 = ''b'', mo_now = 0, mo_keyClock = ac_clock demo_call, mo_jwks = ac_reply demo_call\<rparr>"

definition demo_request :: HttpRequest where
  "demo_request = \<lparr>hr_Method = ''GET'', hr_Pattern = ''GET /api/v1/resources/{resourceId}/status'', hr_PathValue = [(''resourceId'', ''r-1'')],
     hr_Query = [], hr_Header = [(''Authorization'', [''Bearer abc''])], hr_RemoteAddr = ''10.0.0.1:80'', hr_ContentLength = 0\<rparr>"

abbreviation demo_run :: "flow \<times> (int, unit, unit) World" where
  "demo_run \<equiv> publicRoutes demo_config demo_config (NewFieldCatalog (cfg_Precedence demo_config)) demo_app demo_lib demo_moment demo_request fresh_ctx demo_world"

lemma demo_run_called: "wd_app (snd demo_run) = 1"
  by code_simp

theorem use_cases_run_only_authorised_witness:
  "\<exists>p (c :: ReqCtx) (cls :: Classification). fst (Authenticate demo_parse (\<lambda>_. None) (ac_clock demo_call) (ac_reply demo_call) (hr_Header demo_request) demo_auth) = Some (Inr p)
     \<and> cl_TenantID cls = pr_TenantID p \<and> cx_TenantID c = pr_TenantID p \<and> safe_id (cl_ResourceID cls)"
proof -
  have "wd_app demo_world = 0" by (simp add: demo_world_def)
  then have "wd_app (snd demo_run) \<noteq> wd_app demo_world" by (simp add: demo_run_called)
  with use_cases_run_only_authorised[of demo_config demo_config "NewFieldCatalog (cfg_Precedence demo_config)" demo_app demo_lib demo_moment demo_request demo_world]
  have "\<exists>p (c :: ReqCtx) (cls :: Classification). fst (Authenticate (lb_parse demo_lib) (lb_exp demo_lib) (mo_keyClock demo_moment) (mo_jwks demo_moment) (hr_Header demo_request) (wd_auth demo_world)) = Some (Inr p)
     \<and> cl_TenantID cls = pr_TenantID p \<and> cx_TenantID c = pr_TenantID p \<and> safe_id (cl_ResourceID cls)" by blast
  moreover have "lb_parse demo_lib = demo_parse" "lb_exp demo_lib = (\<lambda>_. None)" "mo_keyClock demo_moment = ac_clock demo_call" "mo_jwks demo_moment = ac_reply demo_call"
    "wd_auth demo_world = demo_auth" by (simp_all add: demo_lib_def demo_moment_def demo_world_def)
  ultimately show ?thesis by simp
qed

text \<open>C11: Every dispatched request is answered with exactly one document. From a new response, whatever the request, the identity provider and the
  application do, the public chain returns (a panic in a layer included) with one body: an envelope with status 200 or 206 as
  its partial flag says, an error document whose status is the response's and the one its code documents, or the plain
  413 text.\<close>

theorem every_response_is_one_document:
  fixes w :: "('s, 'l, 'p) World"
  assumes "wd_rw w = new_rw"
  shows "case publicRoutes boot cfg cat app lib m req ctx w of (fl, w') \<Rightarrow> fl = Returned
    \<and> ((\<exists>d mt. rw_body (wd_rw w') = [DocEnvelope d mt] \<and> rw_status (wd_rw w') = Some (if rm_Partial mt then 206 else 200))
     \<or> (\<exists>b. rw_body (wd_rw w') = [DocError b] \<and> rw_status (wd_rw w') = Some (eb_Status b) \<and> eb_Status b = httpStatusByCode (eb_Code b))
     \<or> (\<exists>t. rw_body (wd_rw w') = [DocText t] \<and> rw_status (wd_rw w') = Some 413))"
proof -
  have u: "untouched (wd_rw w)" by (simp add: assms untouched_def new_rw_def)
  show ?thesis unfolding one_document_def[symmetric] publicRoutes_def Chain_def
    using Recover_returns[OF layers_tame(1)[OF layers_tame(2)[OF layers_tame(3)[OF layers_tame(4)[OF layers_tame(5)[OF layers_tame(6)[OF layers_tame(7)[OF
      layers_tame(8)]]]]]]] u] by (simp add: case_prod_unfold)
qed

theorem every_response_is_one_document_witness:
  "fst demo_run = Returned \<and> wd_rw demo_world = new_rw"
proof -
  have n: "wd_rw demo_world = new_rw" by (simp add: demo_world_def)
  from every_response_is_one_document[OF n, of demo_config demo_config "NewFieldCatalog (cfg_Precedence demo_config)" demo_app demo_lib demo_moment demo_request fresh_ctx] n
  show ?thesis by (auto split: prod.splits)
qed

text \<open>The outer layers never see the tenant. On every request the limiter is consulted, if at all, under the client's address
  and never under a tenant, and the access line, if one is written, carries the empty tenant: both layers run around the one that
  establishes the tenant, whose context they do not see.\<close>

theorem outer_layers_are_tenant_blind:
  "(wd_limiter (snd (publicRoutes boot cfg cat app lib m req fresh_ctx w)) = wd_limiter w
     \<or> wd_limiter (snd (publicRoutes boot cfg cat app lib m req fresh_ctx w))
       = snd (limiter_Allow (lb_allowN lib) (lb_newLimiter lib) (mo_now m) (clientIP req) (wd_limiter w)))
   \<and> (wd_log (snd (publicRoutes boot cfg cat app lib m req fresh_ctx w)) = wd_log w
     \<or> (\<exists>l. wd_log (snd (publicRoutes boot cfg cat app lib m req fresh_ctx w)) = wd_log w @ [l] \<and> al_Tenant l = []))"
  using publicRoutes_outer[of boot cfg cat app lib m req w] by blast

text \<open>A recovered panic is answered without the correlation id in its document. When the handler panics before it writes, the
  response is the internal-error document with an empty correlation id, although the id was established and is among the headers:
  the recovery layer is outside the one that puts the id into the context.\<close>

theorem recovered_panic_is_uncorrelated:
  assumes "wd_rw w = new_rw" "\<And>ctx w. h req ctx w = (Panicked, w)"
  shows "\<exists>b. rw_body (wd_rw (snd (Chain h [Recover, CorrelationMW a1 a2 now] req fresh_ctx w))) = [DocError b]
    \<and> eb_Code b = CodeInternal \<and> eb_CorrelationID b = []
    \<and> header_Get (rw_sent (wd_rw (snd (Chain h [Recover, CorrelationMW a1 a2 now] req fresh_ctx w)))) HeaderCorrelationID
        = id_or_new (header_Get (hr_Header req) HeaderCorrelationID) a1"
  by (simp add: Chain_def Recover_def CorrelationMW_def Let_def assms fail_with_def response_Error_def response_write_def new_rw_def rw_Write_def
      WriteHeader_def header_Set_def header_Get_def error_body_def fresh_ctx_def err_New_def HeaderCorrelationID_def HeaderRequestID_def)

theorem recovered_panic_is_uncorrelated_witness:
  "\<exists>b. rw_body (wd_rw (snd (Chain (\<lambda>_ _ w. (Panicked, w)) [Recover, CorrelationMW ''id-1'' ''id-2'' 0] demo_request fresh_ctx demo_world))) = [DocError b]
    \<and> eb_CorrelationID b = []"
proof -
  have n: "wd_rw demo_world = new_rw" by (simp add: demo_world_def)
  show ?thesis using recovered_panic_is_uncorrelated[OF n, of "\<lambda>_ _ w. (Panicked, w)" demo_request "''id-1''" "''id-2''" 0] by blast
qed

end
