(* ===== verification/CachePort.thy ===== *)
theory CachePort
  imports CacheManager
begin

text \<open>
  The contract of the storage port and what the cache-aside manager gets from it. A backend may
  forget anything at any time (eviction, expiry, a failed write) but never invents: what a read of
  a key returns was written under that key, and a successful removal removes. The contract is the locale
  \<open>cache_port\<close>; the in-process cache meets it, and so does the two-tier cache over any two ports that do
  (\<open>layered\<close>). The manager's lemmas are proved once inside the locale.
\<close>

locale cache_port =
  fixes c :: "('c, 's, 'p) Cache"
    and inv :: "'s \<Rightarrow> bool"
    and stored :: "'s \<Rightarrow> (string \<times> 'p Entry) set"
  assumes get_inv: "inv s \<Longrightarrow> inv (snd (c_Get c clk k s))"
    and set_inv: "inv s \<Longrightarrow> inv (snd (c_Set c clk k e ttl s))"
    and delete_inv: "inv s \<Longrightarrow> inv (snd (c_Delete c k s))"
    and flush_inv: "inv s \<Longrightarrow> inv (snd (c_DeletePrefix c pre s))"
    and inL1_inv: "inv s \<Longrightarrow> c_InL1 c = Some f \<Longrightarrow> inv (snd (f clk k s)) \<and> stored (snd (f clk k s)) \<subseteq> stored s"
    and get_stored: "inv s \<Longrightarrow> fst (c_Get c clk k s) = Inr e \<Longrightarrow> (k, e) \<in> stored s"
    and get_shrinks: "inv s \<Longrightarrow> stored (snd (c_Get c clk k s)) \<subseteq> stored s"
    and set_stored: "inv s \<Longrightarrow> stored (snd (c_Set c clk k e ttl s)) \<subseteq> insert (k, e) (stored s)"
    and delete_shrinks: "inv s \<Longrightarrow> stored (snd (c_Delete c k s)) \<subseteq> stored s"
    and delete_removes: "inv s \<Longrightarrow> fst (c_Delete c k s) = None \<Longrightarrow> (k, e) \<notin> stored (snd (c_Delete c k s))"
    and flush_shrinks: "inv s \<Longrightarrow> stored (snd (c_DeletePrefix c pre s)) \<subseteq> stored s"
    and flush_removes: "inv s \<Longrightarrow> fst (c_DeletePrefix c pre s) = None \<Longrightarrow> strings_HasPrefix k pre
      \<Longrightarrow> (k, e) \<notin> stored (snd (c_DeletePrefix c pre s))"
begin

text \<open>Every stored pair satisfies \<open>P\<close>.\<close>

definition holds_only :: "(string \<Rightarrow> 'p Entry \<Rightarrow> bool) \<Rightarrow> 's \<Rightarrow> bool" where
  "holds_only P s \<longleftrightarrow> inv s \<and> (\<forall>(k, e) \<in> stored s. P k e)"

lemma holds_only_mono: "inv s' \<Longrightarrow> stored s' \<subseteq> stored s \<Longrightarrow> holds_only P s \<Longrightarrow> holds_only P s'"
  by (auto simp: holds_only_def)

lemma only_get: "holds_only P s \<Longrightarrow> holds_only P (snd (c_Get c clk k s))"
  by (rule holds_only_mono[OF get_inv get_shrinks]) (simp_all add: holds_only_def)

lemma only_set: "holds_only P s \<Longrightarrow> P k e \<Longrightarrow> holds_only P (snd (c_Set c clk k e ttl s))"
  using set_inv[of s clk k e ttl] set_stored[of s clk k e ttl] by (auto simp: holds_only_def)

lemma only_delete: "holds_only P s \<Longrightarrow> holds_only P (snd (c_Delete c k s))"
  by (rule holds_only_mono[OF delete_inv delete_shrinks]) (simp_all add: holds_only_def)

lemma only_flush: "holds_only P s \<Longrightarrow> holds_only P (snd (c_DeletePrefix c pre s))"
  by (rule holds_only_mono[OF flush_inv flush_shrinks]) (simp_all add: holds_only_def)

lemma only_layer: "holds_only P s \<Longrightarrow> holds_only P (snd (layerFor c clk k s))"
proof (cases "c_InL1 c")
  case None
  then show "holds_only P s \<Longrightarrow> holds_only P (snd (layerFor c clk k s))" by (simp add: layerFor_def)
next
  case (Some f)
  moreover assume "holds_only P s"
  ultimately have "holds_only P (snd (f clk k s))"
    using inL1_inv[of s f clk k] holds_only_mono[of "snd (f clk k s)" s P] by (auto simp: holds_only_def)
  then show "holds_only P (snd (layerFor c clk k s))" by (auto simp: layerFor_def Some split: prod.splits)
qed

lemma get_miss_after_delete:
  "inv s \<Longrightarrow> fst (c_Delete c k s) = None \<Longrightarrow> isl (fst (c_Get c clk k (snd (c_Delete c k s))))"
  using get_stored[OF delete_inv, of s clk k] delete_removes[of s k]
  by (metis isl_def obj_sumE)

lemma get_miss_after_flush:
  "inv s \<Longrightarrow> fst (c_DeletePrefix c pre s) = None \<Longrightarrow> strings_HasPrefix k pre \<Longrightarrow>
    isl (fst (c_Get c clk k (snd (c_DeletePrefix c pre s))))"
  using get_stored[OF flush_inv, of s clk k] flush_removes[of s pre k]
  by (metis isl_def obj_sumE)

lemma manager_get_only:
  assumes "cm_cache m = Some c" "holds_only P s"
  shows "holds_only P (snd (manager_get m clk k s))"
proof -
  obtain r s1 where g: "c_Get c (gk_get clk) k s = (r, s1)" by (cases "c_Get c (gk_get clk) k s")
  have s1: "holds_only P s1" using only_get[OF assms(2), of "gk_get clk" k] g by simp
  then show ?thesis
    using assms only_layer[OF s1, of "gk_layer clk" k]
    by (auto simp: manager_get_def g split: sum.splits prod.splits)
qed

text \<open>A hit: stored under its own key, not expired at the manager's reading.\<close>

lemma manager_get_hit:
  assumes "cm_cache m = Some c" "holds_only P s" "fst (manager_get m clk k s) = (res, True, err)"
  shows "\<exists>e. rs_Entry res = Some e \<and> P k e \<and> \<not> entry_Expired e (gk_now clk)"
proof -
  obtain r s1 where g: "c_Get c (gk_get clk) k s = (r, s1)" by (cases "c_Get c (gk_get clk) k s")
  have "P k e" if "r = Inr e" for e
    using get_stored[of s "gk_get clk" k e] assms(2) g that by (auto simp: holds_only_def)
  then show ?thesis
    using assms(1,3) by (auto simp: manager_get_def g split: sum.splits prod.splits if_splits)
qed

lemma manager_store_only:
  assumes "cm_cache m = Some c" "holds_only P s" "P k (stamped (cm_cfg m) (sk_now clk) ttl e)"
  shows "holds_only P (snd (manager_store m clk k e ttl s))"
  using only_set[OF assms(2,3)] assms(1) by (simp add: manager_store_def Let_def)

lemma invalidate_only:
  assumes "cm_cache m = Some c" "holds_only P s"
  shows "holds_only P (Invalidate m ks s)"
proof -
  have "holds_only P (fold (\<lambda>k s. snd (c_Delete c k s)) ks s)"
    using assms(2) by (induction ks arbitrary: s) (auto intro: only_delete)
  then show ?thesis using assms by (simp add: Invalidate_def)
qed

end

section \<open>The in-process cache meets the contract\<close>

definition mem_stored :: "'p Memory \<Rightarrow> (string \<times> 'p Entry) set" where
  "mem_stored m = (\<lambda>it. (mi_key it, mi_entry it)) ` set (mem_list m)"

lemma lru_drop_subset: "set (lru_drop k xs) \<subseteq> set xs"
  by (auto simp: lru_drop_def)

lemma lru_get_subset: "set (snd (lru_get now k xs)) \<subseteq> set xs"
  using lru_drop_subset[of k xs] by (auto simp: lru_get_def lru_find_def find_Some_iff split: option.splits)

lemma lru_get_found: "fst (lru_get now k xs) = Inr e \<Longrightarrow> \<exists>it \<in> set xs. mi_key it = k \<and> mi_entry it = e"
  by (auto simp: lru_get_def lru_find_def find_Some_iff split: option.splits if_splits)

lemma lru_set_subset:
  "set (lru_set cap now k e ttl xs) \<subseteq> insert \<lparr>mi_key = k, mi_entry = e, mi_expiresAt = now + ttl\<rparr> (set xs)"
  using lru_drop_subset[of k xs] set_take_subset[of cap "\<lparr>mi_key = k, mi_entry = e, mi_expiresAt = now + ttl\<rparr> # lru_drop k xs"]
  by (auto simp: lru_set_def)

lemma mem_delete_others:
  "mem_ok m \<Longrightarrow> k \<notin> set ks \<Longrightarrow> (k, e) \<in> mem_stored (fold (\<lambda>k s. snd (mem_Delete k s)) ks m) \<longleftrightarrow> (k, e) \<in> mem_stored m"
proof (induction ks arbitrary: m)
  case (Cons k' ks)
  have "(k, e) \<in> mem_stored (snd (mem_Delete k' m)) \<longleftrightarrow> (k, e) \<in> mem_stored m"
    using mem_Delete_refines[OF Cons.prems(1), of k'] Cons.prems(2) by (auto simp: mem_stored_def lru_drop_def)
  then show ?case using Cons mem_Delete_refines by auto
qed simp

interpretation memory_port: cache_port memory_port mem_ok mem_stored
proof unfold_locales
  fix s :: "'a Memory" and clk k e
  assume ok: "mem_ok s" and g: "fst (c_Get memory_port clk k s) = Inr e"
  then show "(k, e) \<in> mem_stored s"
    using mem_Get_refines[OF ok, of clk k] lru_get_found[of clk k "mem_list s" e]
    by (force simp: memory_port_def mem_stored_def)
next
  fix s :: "'a Memory" and clk k
  assume ok: "mem_ok s"
  then show "mem_stored (snd (c_Get memory_port clk k s)) \<subseteq> mem_stored s"
    using mem_Get_refines[OF ok, of clk k] lru_get_subset[of clk k "mem_list s"]
    by (auto simp: memory_port_def mem_stored_def)
next
  fix s :: "'a Memory" and clk k e ttl
  assume ok: "mem_ok s"
  then show "mem_stored (snd (c_Set memory_port clk k e ttl s)) \<subseteq> insert (k, e) (mem_stored s)"
    using mem_Set_refines[OF ok, of clk k e ttl] lru_set_subset[of "nat (mem_maxItems s)" clk k e ttl "mem_list s"]
    by (fastforce simp: memory_port_def mem_stored_def)
next
  fix s :: "'a Memory" and k
  assume ok: "mem_ok s"
  then show "mem_stored (snd (c_Delete memory_port k s)) \<subseteq> mem_stored s"
    using mem_Delete_refines[OF ok, of k] lru_drop_subset[of k "mem_list s"]
    by (auto simp: memory_port_def mem_stored_def)
next
  fix s :: "'a Memory" and k e
  assume ok: "mem_ok s"
  then show "(k, e) \<notin> mem_stored (snd (c_Delete memory_port k s))"
    using mem_Delete_refines[OF ok, of k] by (auto simp: memory_port_def mem_stored_def lru_drop_def)
qed (auto simp: memory_port_def mem_stored_def mem_Get_refines mem_Set_refines mem_Delete_refines mem_DeletePrefix_refines)


section \<open>Two tiers meet the contract when both tiers do\<close>

locale layered =
  l1: cache_port c1 inv1 stored1 + l2: cache_port c2 inv2 stored2
  for c1 :: "('c1, 's1, 'p) Cache" and inv1 and stored1 :: "'s1 \<Rightarrow> (string \<times> 'p Entry) set"
    and c2 :: "('c2, 's2, 'p) Cache" and inv2 and stored2 :: "'s2 \<Rightarrow> (string \<times> 'p Entry) set" +
  fixes l1TTL :: duration
  assumes l1_delete_ok: "fst (c_Delete c1 k s1) = None"
    and l1_flush_ok: "fst (c_DeletePrefix c1 pre s1) = None"
begin

definition both_inv :: "'s1 \<times> 's2 \<Rightarrow> bool" where
  "both_inv s \<longleftrightarrow> inv1 (fst s) \<and> inv2 (snd s)"

definition both_stored :: "'s1 \<times> 's2 \<Rightarrow> (string \<times> 'p Entry) set" where
  "both_stored s = stored1 (fst s) \<union> stored2 (snd s)"

lemma layered_get_facts:
  assumes "both_inv s"
  shows "both_inv (snd (layered_Get c1 c2 ttl clk k s)) \<and> both_stored (snd (layered_Get c1 c2 ttl clk k s)) \<subseteq> both_stored s
    \<and> (\<forall>e. fst (layered_Get c1 c2 ttl clk k s) = Inr e \<longrightarrow> (k, e) \<in> both_stored s)"
proof -
  obtain r1 s1 where g1: "c_Get c1 (lk_l1Get clk) k (fst s) = (r1, s1)" by (cases "c_Get c1 (lk_l1Get clk) k (fst s)")
  obtain r2 s2 where g2: "c_Get c2 (lk_l2Get clk) k (snd s) = (r2, s2)" by (cases "c_Get c2 (lk_l2Get clk) k (snd s)")
  have i: "inv1 (fst s)" "inv2 (snd s)" using assms by (auto simp: both_inv_def)
  have f1: "inv1 s1" "stored1 s1 \<subseteq> stored1 (fst s)" "\<And>e. r1 = Inr e \<Longrightarrow> (k, e) \<in> stored1 (fst s)"
    using l1.get_inv[OF i(1), of "lk_l1Get clk" k] l1.get_shrinks[OF i(1), of "lk_l1Get clk" k]
      l1.get_stored[OF i(1), of "lk_l1Get clk" k] g1 by auto
  have f2: "inv2 s2" "stored2 s2 \<subseteq> stored2 (snd s)" "\<And>e. r2 = Inr e \<Longrightarrow> (k, e) \<in> stored2 (snd s)"
    using l2.get_inv[OF i(2), of "lk_l2Get clk" k] l2.get_shrinks[OF i(2), of "lk_l2Get clk" k]
      l2.get_stored[OF i(2), of "lk_l2Get clk" k] g2 by auto
  have f3: "inv1 (snd (c_Set c1 x k e d s1))" "stored1 (snd (c_Set c1 x k e d s1)) \<subseteq> insert (k, e) (stored1 s1)" for x e d
    using l1.set_inv[OF f1(1)] l1.set_stored[OF f1(1)] by auto
  show ?thesis
  proof (cases r1)
    case (Inr e)
    then show ?thesis using f1 i by (auto simp: layered_Get_def g1 both_inv_def both_stored_def)
  next
    case (Inl err)
    show ?thesis
    proof (cases "err = ErrMiss")
      case False
      then show ?thesis using Inl f1 i by (auto simp: layered_Get_def g1 both_inv_def both_stored_def)
    next
      case True
      show ?thesis
      proof (cases r2)
        case l: (Inl err2)
        then show ?thesis using Inl True f1 f2 by (auto simp: layered_Get_def g1 g2 both_inv_def both_stored_def)
      next
        case r: (Inr e)
        then have "(k, e) \<in> stored2 (snd s)" by (rule f2(3))
        moreover have "\<exists>d. snd (layered_Get c1 c2 ttl clk k s) = (s1, s2)
            \<or> snd (layered_Get c1 c2 ttl clk k s) = (snd (c_Set c1 (lk_l1Set clk) k e d s1), s2)"
          by (auto simp: layered_Get_def g1 g2 Inl True r Let_def)
        then obtain d where "snd (layered_Get c1 c2 ttl clk k s) = (s1, s2)
            \<or> snd (layered_Get c1 c2 ttl clk k s) = (snd (c_Set c1 (lk_l1Set clk) k e d s1), s2)" ..
        moreover have "fst (layered_Get c1 c2 ttl clk k s) = Inr e"
          by (simp add: layered_Get_def g1 g2 Inl True r Let_def)
        ultimately show ?thesis
          using f1(1,2) f2(1,2) f3[of "lk_l1Set clk" e d] by (auto simp: both_inv_def both_stored_def)
      qed
    qed
  qed
qed

lemma layered_set_facts:
  assumes "both_inv s"
  shows "both_inv (snd (layered_Set c1 c2 t clk k e ttl s)) \<and> both_stored (snd (layered_Set c1 c2 t clk k e ttl s)) \<subseteq> insert (k, e) (both_stored s)"
proof -
  have i: "inv1 (fst s)" "inv2 (snd s)" using assms by (auto simp: both_inv_def)
  show ?thesis
    using l1.set_inv[OF i(1), of "lk_l1Set clk" k e "if ttl > t then t else ttl"]
      l1.set_stored[OF i(1), of "lk_l1Set clk" k e "if ttl > t then t else ttl"]
      l2.set_inv[OF i(2), of "lk_l2Get clk" k e ttl] l2.set_stored[OF i(2), of "lk_l2Get clk" k e ttl]
    by (auto simp: layered_Set_def Let_def both_inv_def both_stored_def split: prod.splits)
qed

lemma layered_delete_facts:
  assumes "both_inv s"
  shows "both_inv (snd (layered_Delete c1 c2 k s)) \<and> both_stored (snd (layered_Delete c1 c2 k s)) \<subseteq> both_stored s"
    and "both_inv (snd (layered_DeletePrefix c1 c2 k s)) \<and> both_stored (snd (layered_DeletePrefix c1 c2 k s)) \<subseteq> both_stored s"
    and "both_inv (snd (layered_InL1 c1 clk k s)) \<and> both_stored (snd (layered_InL1 c1 clk k s)) \<subseteq> both_stored s"
proof -
  have i: "inv1 (fst s)" "inv2 (snd s)" using assms by (auto simp: both_inv_def)
  note f = l1.delete_inv[OF i(1), of k] l1.delete_shrinks[OF i(1), of k] l2.delete_inv[OF i(2), of k] l2.delete_shrinks[OF i(2), of k]
    l1.flush_inv[OF i(1), of k] l1.flush_shrinks[OF i(1), of k] l2.flush_inv[OF i(2), of k] l2.flush_shrinks[OF i(2), of k]
    l1.get_inv[OF i(1), of "lk_l1Get clk" k] l1.get_shrinks[OF i(1), of "lk_l1Get clk" k]
  show "both_inv (snd (layered_Delete c1 c2 k s)) \<and> both_stored (snd (layered_Delete c1 c2 k s)) \<subseteq> both_stored s"
    and "both_inv (snd (layered_DeletePrefix c1 c2 k s)) \<and> both_stored (snd (layered_DeletePrefix c1 c2 k s)) \<subseteq> both_stored s"
    and "both_inv (snd (layered_InL1 c1 clk k s)) \<and> both_stored (snd (layered_InL1 c1 clk k s)) \<subseteq> both_stored s"
    using f i by (auto simp: layered_Delete_def layered_DeletePrefix_def layered_InL1_def both_inv_def both_stored_def Let_def split: prod.splits)
qed

lemma layered_delete_removes:
  assumes "both_inv s" "fst (layered_Delete c1 c2 k s) = None"
  shows "(k, e) \<notin> both_stored (snd (layered_Delete c1 c2 k s))"
  using assms l1.delete_removes[of "fst s" k e] l2.delete_removes[of "snd s" k e] l1_delete_ok[of k "fst s"]
  by (auto simp: layered_Delete_def both_inv_def both_stored_def Let_def split: prod.splits)

lemma layered_flush_removes:
  assumes "both_inv s" "fst (layered_DeletePrefix c1 c2 pre s) = None" "strings_HasPrefix k pre"
  shows "(k, e) \<notin> both_stored (snd (layered_DeletePrefix c1 c2 pre s))"
  using assms l1.flush_removes[of "fst s" pre k e] l2.flush_removes[of "snd s" pre k e] l1_flush_ok[of pre "fst s"]
  by (auto simp: layered_DeletePrefix_def both_inv_def both_stored_def Let_def split: prod.splits)

end

sublocale layered \<subseteq> both: cache_port "NewLayered c1 c2 l1TTL" both_inv both_stored
  by unfold_locales
    (auto simp: NewLayered_def layered_get_facts layered_set_facts layered_delete_facts
      layered_delete_removes layered_flush_removes dest: layered_get_facts layered_set_facts layered_delete_facts)

interpretation memory_tiers: layered memory_port mem_ok mem_stored memory_port mem_ok mem_stored l1TTL for l1TTL
  by unfold_locales (simp_all add: memory_port_def mem_Delete_def mem_DeletePrefix_def split: option.splits)

section \<open>The manager over a port\<close>

locale managed_cache = cache_port c inv stored
  for c :: "('c, 's, 'p) Cache" and inv and stored +
  fixes m :: "('c, 's, 'p) Manager"
  assumes over: "cm_cache m = Some c"
    and lock_inv: "cm_locker m = Some l \<Longrightarrow> inv s \<Longrightarrow> inv (snd (lk_Acquire l k d s)) \<and> stored (snd (lk_Acquire l k d s)) \<subseteq> stored s"
    and unlock_inv: "cm_locker m = Some l \<Longrightarrow> inv s \<Longrightarrow> inv (lk_Release l k s) \<and> stored (lk_Release l k s) \<subseteq> stored s"
begin

lemma only_with_lock: "holds_only P s \<Longrightarrow> holds_only P (snd (with_lock m k s))"
proof (cases "cm_locker m")
  case (Some l)
  moreover assume "holds_only P s"
  ultimately have "holds_only P (snd (lk_Acquire l k (st_LockTTL (cc_Stampede (cm_cfg m))) s))"
    using lock_inv[of l s k "st_LockTTL (cc_Stampede (cm_cfg m))"] by (auto simp: holds_only_def)
  then show "holds_only P (snd (with_lock m k s))"
    by (auto simp: with_lock_def Some split: prod.splits sum.splits)
qed (simp add: with_lock_def)

lemma only_unlock: "holds_only P s \<Longrightarrow> holds_only P (unlock m b k s)"
proof (cases "cm_locker m")
  case (Some l)
  moreover assume "holds_only P s"
  ultimately show "holds_only P (unlock m b k s)"
    using unlock_inv[of l s k] by (auto simp: unlock_def holds_only_def)
qed (simp add: unlock_def)

text \<open>The miss path either returns a live entry of the key or runs the loader once.\<close>

lemma miss_path_cases:
  assumes P: "holds_only P s" and r: "miss_path m clk k ttl load (s, w) = (v, (s', w'))"
  obtains (hit) e where "v = Inr (Some e)" "P k e" "\<not> entry_Expired e (gk_now (ok_recheck clk))" "w' = w" "holds_only P s'"
  | (failed) err where "load w = (Inl err, w')" "v = Inl err" "holds_only P s'"
  | (loaded) e where "load w = (Inr e, w')" "v = Inr (Some (stamped (cm_cfg m) (sk_now (ok_store clk)) ttl e))"
      "P k (stamped (cm_cfg m) (sk_now (ok_store clk)) ttl e) \<longrightarrow> holds_only P s'"
proof -
  obtain res ok err s1 where g: "manager_get m (ok_recheck clk) k s = ((res, ok, err), s1)"
    by (metis prod.exhaust)
  have s1: "holds_only P s1" using manager_get_only[OF over P, of "ok_recheck clk" k] g by simp
  show thesis
  proof (cases ok)
    case True
    then show thesis using manager_get_hit[OF over P, of "ok_recheck clk" k res err] g r s1 hit
      by (auto simp: miss_path_def)
  next
    case False
    obtain locked s2 where l: "with_lock m k s1 = (locked, s2)" by (cases "with_lock m k s1")
    have s2: "holds_only P s2" using only_with_lock[OF s1, of k] l by simp
    obtain x w1 where ld: "load w = (x, w1)" by (cases "load w")
    show thesis
    proof (cases x)
      case (Inl err)
      then show thesis using failed[of err] only_unlock[OF s2] r by (auto simp: miss_path_def g False l ld)
    next
      case (Inr e)
      obtain e' s3 where st: "manager_store m (ok_store clk) k e ttl s2 = (e', s3)" by (cases "manager_store m (ok_store clk) k e ttl s2")
      have e': "e' = stamped (cm_cfg m) (sk_now (ok_store clk)) ttl e" using st by (auto simp: manager_store_def Let_def)
      have "P k e' \<longrightarrow> holds_only P s3"
        using manager_store_only[OF over s2, of k "ok_store clk" ttl e] st e' by auto
      then show thesis using loaded[of e] only_unlock[of P s3] r e' by (auto simp: miss_path_def g False l ld Inr st)
    qed
  qed
qed

end

end
