(* ===== verification/CacheAside.thy ===== *)
theory CacheAside
  imports CachePort ConfigLoad
begin

text \<open>
  What the cache-aside manager guarantees, over any backend that meets \<open>cache_port\<close>: the branches of
  \<open>GetOrLoad\<close>, the lifetime of degraded answers along any sequence of the manager's calls, the
  exact flush of one tenant, and the life of a promoted entry.
\<close>

section \<open>One call\<close>

text \<open>A lookup that is not a hit, and the backend after \<^verbatim>\<open>Set\<close> with the physical lifetime.\<close>

definition lookup_missed :: "('c, 's, 'p) Manager \<Rightarrow> 'c GetClock \<Rightarrow> string \<Rightarrow> 's \<Rightarrow> bool" where
  "lookup_missed m clk k s \<longleftrightarrow> \<not> fst (snd (fst (manager_get m clk k s)))"

definition written :: "('c, 's, 'p) Cache \<Rightarrow> 'c LoadClock \<Rightarrow> CacheConfig \<Rightarrow> string \<Rightarrow> 'p Entry \<Rightarrow> 's \<Rightarrow> 's" where
  "written c clk cfg k e s = snd (c_Set c (sk_set (ok_store clk)) k e (dur_add (ce_CacheTTL e) (cc_StaleGrace cfg)) s)"

context managed_cache begin

lemma getorload_cases:
  assumes P: "holds_only P s" and on: "Enabled m" "0 < ttl"
    and r: "GetOrLoad m clk None shared k ttl ldr (s, w) = (oc, (s', w'))"
  obtains (hit) res e now where "oc_result oc = Inr res" "rs_Entry res = Some e" "P k e"
      "now \<in> {gk_now (ok_first clk), gk_now (ok_recheck clk)}" "\<not> entry_Expired e now" "w' = w" "holds_only P s'"
  | (backend) err where "\<not> cc_FailOpen (cm_cfg m)" "oc_result oc = Inl (cache_goerr err)" "w' = w" "holds_only P s'"
  | (failed) err where "ldr w = (Inl err, w')" "oc_result oc = Inl err" "holds_only P s'"
  | (loaded) res e where "ldr w = (Inr e, w')" "oc_result oc = Inr res"
      "rs_Entry res = Some (stamped (cm_cfg m) (sk_now (ok_store clk)) ttl e)"
      "P k (stamped (cm_cfg m) (sk_now (ok_store clk)) ttl e) \<longrightarrow> holds_only P s'"
proof -
  obtain res ok err s1 where g: "manager_get m (ok_first clk) k s = ((res, ok, err), s1)" by (metis prod.exhaust)
  have s1: "holds_only P s1" using manager_get_only[OF over P, of "ok_first clk" k] g by simp
  consider (a) "err \<noteq> None \<and> \<not> cc_FailOpen (cm_cfg m)" | (b) "\<not> (err \<noteq> None \<and> \<not> cc_FailOpen (cm_cfg m))" "ok"
    | (c) "\<not> (err \<noteq> None \<and> \<not> cc_FailOpen (cm_cfg m))" "\<not> ok" by blast
  then show thesis
  proof cases
    case a
    then show thesis using backend r s1 on by (auto simp: GetOrLoad_def g)
  next
    case b
    have "fst (manager_get m (ok_first clk) k s) = (res, True, err)" using b g by simp
    from manager_get_hit[OF over P this] obtain e where
      e: "rs_Entry res = Some e" "P k e" "\<not> entry_Expired e (gk_now (ok_first clk))" by blast
    have "oc_result oc = Inr res" "s' = s1" "w' = w" using b r on by (auto simp: GetOrLoad_def g)
    then show thesis using hit[of res e "gk_now (ok_first clk)"] e s1 by simp
  next
    case c
    obtain v s2 w2 where mp: "miss_path m clk k ttl ldr (s1, w) = (v, (s2, w2))" by (metis prod.exhaust)
    have out: "s' = s2" "w' = w2" "oc_result oc = (case v of Inl x \<Rightarrow> Inl x | Inr e \<Rightarrow> Inr (no_result\<lparr>rs_Entry := e, rs_Stampede := shared\<rparr>))"
      using r on c by (auto simp: GetOrLoad_def g mp split: sum.splits)
    show thesis using s1 mp
    proof (cases rule: miss_path_cases)
      case (hit e)
      then show thesis using that(1)[of _ e "gk_now (ok_recheck clk)"] out by auto
    next
      case (failed err)
      then show thesis using that(3)[of err] out by auto
    next
      case (loaded e)
      then show thesis using that(4)[of e] out by auto
    qed
  qed
qed

end

context managed_cache begin

lemma getorload_loaded_adds:
  assumes "inv s" "Enabled m" "0 < ttl" "GetOrLoad m clk None shared k ttl ldr (s, w) = (oc, (s', w'))" "ldr w = (Inr e, w')"
  shows "inv s' \<and> stored s' \<subseteq> insert (k, stamped (cm_cfg m) (sk_now (ok_store clk)) ttl e) (stored s)"
proof -
  define P where "P = (\<lambda>k' e'. (k', e') \<in> insert (k, stamped (cm_cfg m) (sk_now (ok_store clk)) ttl e) (stored s))"
  have "holds_only P s" using assms(1) by (auto simp: holds_only_def P_def)
  from this assms(2-4) have "holds_only P s'"
    by (cases rule: getorload_cases) (use assms(5) in \<open>auto simp: P_def\<close>)
  then show ?thesis by (auto simp: holds_only_def P_def)
qed

text \<open>The write of a loaded entry: what the backend is told, after the lookups and the lock.\<close>

lemma getorload_write:
  assumes "inv s" "Enabled m" "0 < ttl" "GetOrLoad m clk None shared k ttl ldr (s, w) = (oc, (s', w'))" "ldr w = (Inr e, w')"
  shows "(\<exists>e now. (\<exists>res. oc_result oc = Inr res \<and> rs_Entry res = Some e) \<and> (k, e) \<in> stored s
         \<and> now \<in> {gk_now (ok_first clk), gk_now (ok_recheck clk)} \<and> \<not> entry_Expired e now \<and> w' = w \<and> stored s' \<subseteq> stored s)
     \<or> (\<exists>err. \<not> cc_FailOpen (cm_cfg m) \<and> oc_result oc = Inl (cache_goerr err) \<and> w' = w \<and> stored s' \<subseteq> stored s)
     \<or> (\<exists>locked s2. lookup_missed m (ok_first clk) k s \<and> inv s2 \<and> stored s2 \<subseteq> stored s
         \<and> s' = unlock m locked k (written c clk (cm_cfg m) k (stamped (cm_cfg m) (sk_now (ok_store clk)) ttl e) s2))"
proof -
  have sub: "inv x \<and> stored x \<subseteq> stored s" if "holds_only (\<lambda>k e. (k, e) \<in> stored s) x" for x
    using that by (auto simp: holds_only_def)
  have P: "holds_only (\<lambda>k e. (k, e) \<in> stored s) s" using assms(1) by (auto simp: holds_only_def)
  obtain res ok err s1 where g: "manager_get m (ok_first clk) k s = ((res, ok, err), s1)" by (metis prod.exhaust)
  obtain res2 ok2 err2 s2 where g2: "manager_get m (ok_recheck clk) k s1 = ((res2, ok2, err2), s2)" by (metis prod.exhaust)
  obtain locked s3 where l: "with_lock m k s2 = (locked, s3)" by force
  have s1: "holds_only (\<lambda>k e. (k, e) \<in> stored s) s1" using manager_get_only[OF over P, of "ok_first clk" k] g by simp
  have s2: "holds_only (\<lambda>k e. (k, e) \<in> stored s) s2" using manager_get_only[OF over s1, of "ok_recheck clk" k] g2 by simp
  have s3: "holds_only (\<lambda>k e. (k, e) \<in> stored s) s3" using only_with_lock[OF s2, of k] l by simp
  show ?thesis
  proof (cases "err \<noteq> None \<and> \<not> cc_FailOpen (cm_cfg m)")
    case True
    then have "oc_result oc = Inl (cache_goerr (the err))" "w' = w" "s' = s1" using assms(2-4) by (auto simp: GetOrLoad_def g)
    then show ?thesis using True sub[OF s1] by blast
  next
    case noerr: False
    show ?thesis
    proof (cases ok)
      case True
      then have "oc_result oc = Inr res" "w' = w" "s' = s1" using noerr assms(2-4) by (auto simp: GetOrLoad_def g)
      moreover have "fst (manager_get m (ok_first clk) k s) = (res, True, err)" using True g by simp
      ultimately show ?thesis using manager_get_hit[OF over P] sub[OF s1] by blast
    next
      case miss: False
      show ?thesis
      proof (cases ok2)
        case True
        then have "fst (manager_get m (ok_recheck clk) k s1) = (res2, True, err2)" using g2 by simp
        from manager_get_hit[OF over s1 this] obtain e2 where
          e2: "rs_Entry res2 = Some e2" "(k, e2) \<in> stored s" "\<not> entry_Expired e2 (gk_now (ok_recheck clk))" by blast
        have "oc_result oc = Inr (no_result\<lparr>rs_Entry := rs_Entry res2, rs_Stampede := shared\<rparr>)" "w' = w" "s' = s2"
          using noerr miss True assms(2-4) by (auto simp: GetOrLoad_def g g2 miss_path_def)
        then show ?thesis using e2 sub[OF s2] by auto
      next
        case False
        then have "s' = unlock m locked k (written c clk (cm_cfg m) k (stamped (cm_cfg m) (sk_now (ok_store clk)) ttl e) s3)"
          using noerr miss assms(2-5)
          by (auto simp: GetOrLoad_def g g2 l miss_path_def manager_store_def written_def over Let_def split: prod.splits)
        then show ?thesis using miss g sub[OF s3] by (auto simp: lookup_missed_def)
      qed
    qed
  qed
qed

lemma getorload_misses:
  assumes "Enabled m" "0 < ttl" "GetOrLoad m clk flight shared k ttl ldr (s, w) = (oc, (s', w'))"
  shows "\<not> lookup_missed m (ok_first clk) k s \<Longrightarrow> \<exists>e. oc_result oc = Inr (fst (fst (manager_get m (ok_first clk) k s)))
    \<or> \<not> cc_FailOpen (cm_cfg m) \<and> oc_result oc = Inl (cache_goerr e)"
  using assms by (auto simp: lookup_missed_def GetOrLoad_def split: prod.splits if_splits)

lemma getorload_failed_off:
  assumes "Enabled m" "0 < ttl" "GetOrLoad m clk flight shared k ttl ldr (s, w) = (oc, (s', w'))" "\<not> lookup_missed m (ok_first clk) k s"
  shows "w' = w"
  using assms by (auto simp: lookup_missed_def GetOrLoad_def split: prod.splits if_splits)

lemma getorload_joined:
  assumes "inv s" "Enabled m" "0 < ttl" "GetOrLoad m clk (Some v) shared k ttl ldr (s, w) = (oc, (s', w'))"
  shows "inv s' \<and> w' = w \<and> stored s' \<subseteq> stored s \<and>
    ((\<exists>res e. oc_result oc = Inr res \<and> rs_Entry res = Some e \<and> (k, e) \<in> stored s \<and> \<not> entry_Expired e (gk_now (ok_first clk)))
     \<or> lookup_missed m (ok_first clk) k s
         \<and> oc_result oc = (case v of Inl err \<Rightarrow> Inl err | Inr e \<Rightarrow> Inr (no_result\<lparr>rs_Entry := e, rs_Stampede := shared\<rparr>))
     \<or> (\<exists>err. \<not> cc_FailOpen (cm_cfg m) \<and> oc_result oc = Inl (cache_goerr err)))"
proof -
  have P: "holds_only (\<lambda>k e. (k, e) \<in> stored s) s" using assms(1) by (auto simp: holds_only_def)
  obtain res ok err s1 where g: "manager_get m (ok_first clk) k s = ((res, ok, err), s1)" by (metis prod.exhaust)
  have s1: "inv s1 \<and> stored s1 \<subseteq> stored s"
    using manager_get_only[OF over P, of "ok_first clk" k] g by (auto simp: holds_only_def)
  have hit: "ok \<Longrightarrow> \<exists>e. rs_Entry res = Some e \<and> (k, e) \<in> stored s \<and> \<not> entry_Expired e (gk_now (ok_first clk))"
    using manager_get_hit[OF over P, of "ok_first clk" k res err] g by auto
  show ?thesis using assms(2-4) s1 hit
    by (cases "err \<noteq> None \<and> \<not> cc_FailOpen (cm_cfg m)"; cases ok; cases v) (auto simp: GetOrLoad_def g lookup_missed_def)
qed

lemma getorload_summary:
  assumes "inv s" "Enabled m" "0 < ttl"
    and "GetOrLoad m clk flight shared k ttl ldr (s, w) = (oc, (s', w'))"
  shows "inv s' \<and>
    ((\<exists>res e now. oc_result oc = Inr res \<and> rs_Entry res = Some e \<and> (k, e) \<in> stored s
         \<and> now \<in> {gk_now (ok_first clk), gk_now (ok_recheck clk)} \<and> \<not> entry_Expired e now \<and> w' = w \<and> stored s' \<subseteq> stored s)
     \<or> (\<exists>res e locked s2. flight = None \<and> lookup_missed m (ok_first clk) k s
         \<and> ldr w = (Inr e, w') \<and> oc_result oc = Inr res
         \<and> rs_Entry res = Some (stamped (cm_cfg m) (sk_now (ok_store clk)) ttl e) \<and> stored s2 \<subseteq> stored s
         \<and> s' = unlock m locked k (written c clk (cm_cfg m) k (stamped (cm_cfg m) (sk_now (ok_store clk)) ttl e) s2)
         \<and> stored s' \<subseteq> insert (k, stamped (cm_cfg m) (sk_now (ok_store clk)) ttl e) (stored s))
     \<or> (\<exists>err. flight = None \<and> lookup_missed m (ok_first clk) k s \<and> ldr w = (Inl err, w') \<and> oc_result oc = Inl err \<and> stored s' \<subseteq> stored s)
     \<or> (\<exists>v. flight = Some v \<and> lookup_missed m (ok_first clk) k s \<and> w' = w \<and> stored s' \<subseteq> stored s
         \<and> oc_result oc = (case v of Inl err \<Rightarrow> Inl err | Inr e \<Rightarrow> Inr (no_result\<lparr>rs_Entry := e, rs_Stampede := shared\<rparr>)))
     \<or> (\<exists>err. \<not> cc_FailOpen (cm_cfg m) \<and> oc_result oc = Inl (cache_goerr err) \<and> w' = w \<and> stored s' \<subseteq> stored s))"
proof (cases flight)
  case (Some v)
  from getorload_joined[OF assms(1-3) assms(4)[unfolded Some]] show ?thesis unfolding Some by blast
next
  case None
  note g = assms(4)[unfolded None]
  have sub: "inv s' \<and> stored s' \<subseteq> stored s" if "holds_only (\<lambda>k e. (k, e) \<in> stored s) s'"
    using that by (auto simp: holds_only_def)
  have "holds_only (\<lambda>k e. (k, e) \<in> stored s) s" using assms(1) by (auto simp: holds_only_def)
  from this assms(2,3) g show ?thesis
  proof (cases rule: getorload_cases)
    case (hit res e now)
    then show ?thesis using sub by blast
  next
    case (backend err)
    then show ?thesis using sub by blast
  next
    case (failed err)
    show ?thesis
    proof (cases "lookup_missed m (ok_first clk) k s")
      case True
      then show ?thesis using failed sub None by blast
    next
      case False
      from getorload_misses[OF assms(2,3) g this] failed(2) failed obtain x where
        "\<not> cc_FailOpen (cm_cfg m)" "oc_result oc = Inl (cache_goerr x)" by auto
      then show ?thesis using getorload_failed_off[OF assms(2,3) g False] failed sub by blast
    qed
  next
    case (loaded res e)
    note add = getorload_loaded_adds[OF assms(1-3) g loaded(1)]
    from getorload_write[OF assms(1-3) g loaded(1)] consider
        (h) e2 now res2 where "oc_result oc = Inr res2" "rs_Entry res2 = Some e2" "(k, e2) \<in> stored s"
          "now \<in> {gk_now (ok_first clk), gk_now (ok_recheck clk)}" "\<not> entry_Expired e2 now" "w' = w" "stored s' \<subseteq> stored s"
      | (w) locked s2 where "lookup_missed m (ok_first clk) k s" "stored s2 \<subseteq> stored s"
          "s' = unlock m locked k (written c clk (cm_cfg m) k (stamped (cm_cfg m) (sk_now (ok_store clk)) ttl e) s2)"
      using loaded(2) by auto
    then show ?thesis
    proof cases
      case h
      then show ?thesis using add by blast
    next
      case w
      then show ?thesis using add loaded None by blast
    qed
  qed
qed

end

section \<open>Sequences of calls\<close>

datatype ('c, 'w, 'p) mgr_op =
    OpGetOrLoad "'c LoadClock" "(goerr + 'p Entry option) option" bool string duration "('w, 'p) loader"
  | OpRefresh time "'c GetClock" "'c StoreClock" string duration "('w, 'p) loader"
  | OpStore "'c StoreClock" string "'p Entry option" duration
  | OpSetNegative time "'c StoreClock" 'p string
  | OpInvalidate "string list"
  | OpGet "'c GetClock" string
  | OpGetStale 'c 'c string
  | OpInvalidateTenant "string \<Rightarrow> string" string

fun mgr_step :: "('c, 's, 'p) Manager \<Rightarrow> ('c, 'w, 'p) mgr_op \<Rightarrow> 's \<times> 'w \<Rightarrow> 's \<times> 'w" where
  "mgr_step m (OpGetOrLoad clk fl sh k ttl ldr) sw = snd (GetOrLoad m clk fl sh k ttl ldr sw)"
| "mgr_step m (OpRefresh t clk sclk k ttl ldr) sw = snd (refresh m t clk sclk k ttl ldr sw)"
| "mgr_step m (OpStore clk k e ttl) sw = (snd (Store m clk k e ttl (fst sw)), snd sw)"
| "mgr_step m (OpSetNegative t clk p k) sw = (SetNegative m t clk p k (fst sw), snd sw)"
| "mgr_step m (OpInvalidate ks) sw = (Invalidate m ks (fst sw), snd sw)"
| "mgr_step m (OpGet clk k) sw = (snd (manager_get m clk k (fst sw)), snd sw)"
| "mgr_step m (OpGetStale c1 c2 k) sw = (snd (GetStale m c1 c2 k (fst sw)), snd sw)"
| "mgr_step m (OpInvalidateTenant h t) sw = (snd (InvalidateTenant h m t (fst sw)), snd sw)"

text \<open>What every entry written by the manager satisfies.\<close>

definition written_ok :: "CacheConfig \<Rightarrow> string \<Rightarrow> 'p Entry \<Rightarrow> bool" where
  "written_ok cfg k e \<longleftrightarrow> ce_SchemaVersion e = EntrySchemaVersion
     \<and> ((ce_Degraded e \<or> ce_Partial e) \<and> 0 < cc_NegativeTTL cfg \<longrightarrow> ce_CacheTTL e \<le> cc_NegativeTTL cfg)"

lemma written_ok_stamped: "written_ok cfg k (stamped cfg now ttl e)"
  by (auto simp: written_ok_def stamped_def Let_def)

context managed_cache begin

lemma store_only: "holds_only (written_ok (cm_cfg m)) s \<Longrightarrow> holds_only (written_ok (cm_cfg m)) (snd (manager_store m clk k e ttl s))"
  by (rule manager_store_only[OF over]) (simp_all add: written_ok_stamped)

lemma stale_only: "holds_only P s \<Longrightarrow> holds_only P (snd (GetStale m c1 c2 k s))"
  using only_get[of P s c1 k] only_layer[of P "snd (c_Get c c1 k s)" c2 k]
  by (auto simp: GetStale_def over split: sum.splits prod.splits)

lemma step_only:
  assumes "holds_only (written_ok (cm_cfg m)) (fst sw)"
  shows "holds_only (written_ok (cm_cfg m)) (fst (mgr_step m a sw))"
proof (cases a)
  case (OpGetOrLoad clk fl sh k ttl ldr)
  obtain s w where sw: "sw = (s, w)" by (cases sw)
  obtain oc s' w' where g: "GetOrLoad m clk fl sh k ttl ldr (s, w) = (oc, (s', w'))" by (metis prod.exhaust)
  have P: "holds_only (written_ok (cm_cfg m)) s" using assms sw by simp
  show ?thesis
  proof (cases "Enabled m \<and> 0 < ttl")
    case off: False
    then show ?thesis using OpGetOrLoad sw P by (auto simp: GetOrLoad_def split: prod.splits)
  next
    case on: True
    show ?thesis
    proof (cases fl)
      case None
      show ?thesis using P on[THEN conjunct1] on[THEN conjunct2] g[unfolded None]
        by (cases rule: getorload_cases) (use OpGetOrLoad sw None g in \<open>auto simp: written_ok_stamped\<close>)
    next
      case (Some v)
      have "holds_only (written_ok (cm_cfg m)) (snd (manager_get m (ok_first clk) k s))"
        by (rule manager_get_only[OF over P])
      then show ?thesis using on OpGetOrLoad sw Some
        by (auto simp: GetOrLoad_def split: prod.splits sum.splits)
    qed
  qed
next
  case (OpRefresh t clk sclk k ttl ldr)
  obtain s w where sw: "sw = (s, w)" by (cases sw)
  have s1: "holds_only (written_ok (cm_cfg m)) (snd (manager_get m clk k s))"
    using manager_get_only[OF over] assms sw by simp
  then show ?thesis using OpRefresh sw assms store_only[OF s1]
    by (auto simp: refresh_def Let_def split: prod.splits sum.splits option.splits)
next
  case (OpStore clk k e ttl)
  then show ?thesis using assms store_only by (cases e) (auto simp: Store_simps)
next
  case (OpSetNegative t clk p k)
  then show ?thesis using assms store_only by (auto simp: SetNegative_def)
next
  case (OpInvalidate ks)
  then show ?thesis using invalidate_only[OF over] assms by simp
next
  case (OpGet clk k)
  then show ?thesis using manager_get_only[OF over] assms by simp
next
  case (OpGetStale c1 c2 k)
  then show ?thesis using stale_only assms by simp
next
  case (OpInvalidateTenant h t)
  then show ?thesis using only_flush assms by (auto simp: InvalidateTenant_def over)
qed

lemma run_only:
  assumes "holds_only (written_ok (cm_cfg m)) (fst sw)"
  shows "holds_only (written_ok (cm_cfg m)) (fst (fold (mgr_step m) ops sw))"
  using assms by (induction ops arbitrary: sw) (simp_all add: step_only)

lemma hit_live:
  assumes "holds_only (written_ok (cm_cfg m)) s" "fst (manager_get m clk k s) = (res, True, err)"
  shows "\<exists>e. rs_Entry res = Some e \<and> (k, e) \<in> stored s \<and> entry_Age e (gk_now clk) < ce_CacheTTL e
    \<and> ((ce_Degraded e \<or> ce_Partial e) \<and> 0 < cc_NegativeTTL (cm_cfg m) \<longrightarrow> entry_Age e (gk_now clk) < cc_NegativeTTL (cm_cfg m))"
proof -
  have "holds_only (\<lambda>k e. written_ok (cm_cfg m) k e \<and> (k, e) \<in> stored s) s"
    using assms(1) by (auto simp: holds_only_def)
  from manager_get_hit[OF over this assms(2)] show ?thesis
    by (fastforce simp: entry_Expired_def written_ok_def split: if_splits)
qed

end

lemma memory_managed: "managed_cache memory_port mem_ok mem_stored (NewManager (Some memory_port) None cfg)"
  by unfold_locales (simp_all add: NewManager_def split: if_splits)

interpretation memory_manager: managed_cache memory_port mem_ok mem_stored "NewManager (Some memory_port) None cfg" for cfg
  by (rule memory_managed)

interpretation tiers_manager: managed_cache "NewLayered memory_port memory_port l1TTL"
    "memory_tiers.both_inv" "memory_tiers.both_stored" "NewManager (Some (NewLayered memory_port memory_port l1TTL)) None cfg"
  for l1TTL cfg
  by unfold_locales (simp_all add: NewManager_def split: if_splits)


section \<open>Reads after a flush\<close>

lemma lru_find_filter:
  "lru_find k (filter (\<lambda>it. P (mi_key it)) xs) = (if P k then lru_find k xs else None)"
  unfolding lru_find_def by (induction xs) auto

lemma mem_Get_after_flush:
  assumes "mem_ok s"
  shows "fst (mem_Get t k (snd (mem_DeletePrefix pre s))) = (if strings_HasPrefix k pre then Inl ErrMiss else fst (mem_Get t k s))"
proof -
  have f: "mem_ok (snd (mem_DeletePrefix pre s))"
    "mem_list (snd (mem_DeletePrefix pre s)) = filter (\<lambda>it. \<not> strings_HasPrefix (mi_key it) pre) (mem_list s)"
    using mem_DeletePrefix_refines[OF assms, of pre] by auto
  show ?thesis
    using mem_Get_refines[OF f(1), of t k] mem_Get_refines[OF assms, of t k]
      lru_find_filter[of k "\<lambda>x. \<not> strings_HasPrefix x pre" "mem_list s"]
    by (auto simp: f(2) lru_get_def split: option.splits)
qed

lemma memory_lookup:
  assumes "Enabled (NewManager (Some memory_port) None cfg)"
  shows "fst (manager_get (NewManager (Some memory_port) None cfg) clk k s) =
    (case fst (mem_Get (gk_get clk) k s) of
       Inr e \<Rightarrow> if entry_Expired e (gk_now clk) then (no_result, False, None)
                else (\<lparr>rs_Entry = Some e, rs_Hit = True, rs_Layer = CacheL1, rs_Stampede = False\<rparr>, True, None)
     | Inl err \<Rightarrow> if err = ErrMiss then (no_result, False, None) else (no_result, False, Some err))"
  using assms
  by (cases "mem_Get (gk_get clk) k s") (simp add: manager_get_def Enabled_def NewManager_def memory_port_def layerFor_def split: sum.split)

lemma memory_stale_lookup:
  assumes "Enabled (NewManager (Some memory_port) None cfg)"
  shows "fst (GetStale (NewManager (Some memory_port) None cfg) c1 c2 k s) =
    (case fst (mem_Get c1 k s) of Inl _ \<Rightarrow> None | Inr e \<Rightarrow> if ce_Negative e then None else Some (e, CacheL1))"
  using assms
  by (cases "mem_Get c1 k s") (simp add: GetStale_def Enabled_def NewManager_def memory_port_def layerFor_def split: sum.split)

section \<open>Properties\<close>


definition demo_manager :: "(time, nat Memory, nat) Manager" where
  "demo_manager = NewManager (Some memory_port) None Default_Cache"

definition demo_load_clock :: "time \<Rightarrow> time LoadClock" where
  "demo_load_clock t = \<lparr>ok_first = \<lparr>gk_get = t, gk_now = t, gk_layer = t\<rparr>, ok_early = t,
     ok_recheck = \<lparr>gk_get = t, gk_now = t, gk_layer = t\<rparr>, ok_store = \<lparr>sk_now = t, sk_set = t\<rparr>\<rparr>"

definition demo_loader :: "(nat, nat) loader" where
  "demo_loader n = (if n = 0 then (Inr demo_cached, 1) else (Inl (err_New CodeUpstreamTimeout ''late''), n + 1))"

lemma demo_managed: "managed_cache memory_port mem_ok mem_stored demo_manager"
  unfolding demo_manager_def by (rule memory_managed)

lemma demo_enabled: "Enabled demo_manager"
  by (simp add: demo_manager_def Enabled_def NewManager_def Default_Cache_def)


text \<open>A degraded or partial answer does not outlive the incident. After any sequence of the manager's calls
  (lookups, loads that succeed or fail, joined flights, background refreshes, direct and negative
  stores, invalidations) on a backend that starts empty, an ordinary lookup only ever returns an entry that is
  stored under the key asked for and is younger than its cache TTL; and an entry marked degraded or
  partial is younger than the negative TTL, whatever TTL it was stored with.\<close>

theorem degraded_answers_expire_early:
  assumes "managed_cache c sinv stored m" "sinv s0" "stored s0 = {}"
    and "fst (manager_get m clk k (fst (fold (mgr_step m) ops (s0, w0)))) = (res, True, err)"
  shows "\<exists>e. rs_Entry res = Some e \<and> (k, e) \<in> stored (fst (fold (mgr_step m) ops (s0, w0)))
    \<and> entry_Age e (gk_now clk) < ce_CacheTTL e
    \<and> ((ce_Degraded e \<or> ce_Partial e) \<and> 0 < cc_NegativeTTL (cm_cfg m) \<longrightarrow> entry_Age e (gk_now clk) < cc_NegativeTTL (cm_cfg m))"
proof -
  note port = managed_cache.axioms(1)[OF assms(1)]
  have "cache_port.holds_only sinv stored (written_ok (cm_cfg m)) (fst (s0, w0))"
    using assms(2,3) by (simp add: cache_port.holds_only_def[OF port])
  from managed_cache.hit_live[OF assms(1) managed_cache.run_only[OF assms(1) this] assms(4)] show ?thesis .
qed

definition demo_partial :: "nat Entry" where
  "demo_partial = demo_cached\<lparr>ce_Partial := True\<rparr>"

definition demo_store :: "(time, nat, nat) mgr_op" where
  "demo_store = OpStore \<lparr>sk_now = 10 * second, sk_set = 10 * second\<rparr> ''k'' (Some demo_partial) (30 * second)"

definition demo_hit :: "nat Result \<times> bool \<times> cache_err option" where
  "demo_hit = fst (manager_get demo_manager \<lparr>gk_get = 12 * second, gk_now = 12 * second, gk_layer = 12 * second\<rparr> ''k''
     (fst (fold (mgr_step demo_manager) [demo_store] (NewMemory 4, 0))))"

lemmas demo_eval = demo_hit_def demo_store_def demo_partial_def demo_cached_def demo_manager_def NewManager_def Store_def manager_store_def
  stamped_def manager_get_def Enabled_def memory_port_def mem_Set_def mem_Get_def mem_elem_def NewMemory_def gomap_get_def
  gomap_put_def layerFor_def entry_Expired_def entry_Age_def Default_Cache_def dur_add_def wrap64_def
  time_defs dur_units minDuration_def maxDuration_def MoveToFront_def evict_within Let_def

lemma demo_hit_eval: "\<exists>res. demo_hit = (res, True, None)"
  by (simp add: demo_eval)

theorem degraded_answers_expire_early_witness:
  "\<exists>e. rs_Entry (fst demo_hit) = Some e \<and> entry_Age e (12 * second) < ce_CacheTTL e
    \<and> ((ce_Degraded e \<or> ce_Partial e) \<and> 0 < cc_NegativeTTL (cm_cfg demo_manager) \<longrightarrow> entry_Age e (12 * second) < cc_NegativeTTL (cm_cfg demo_manager))"
proof -
  obtain res where h: "demo_hit = (res, True, None)" using demo_hit_eval ..
  have "mem_stored (NewMemory 4) = {}" by (simp add: mem_stored_def)
  from degraded_answers_expire_early[OF demo_managed mem_ok_New this h[unfolded demo_hit_def]]
  show ?thesis unfolding h fst_conv by (simp only: CacheManager.GetClock.select_convs) blast
qed

text \<open>C16: Flushing one tenant is exact on the in-process cache. Whatever the digest, as long as it is hexadecimal:
  after \<^verbatim>\<open>InvalidateTenant\<close> every key of the tenant under the configured prefix misses, for the
  ordinary and for the stale lookup; and for a plainly named other tenant every lookup answers as it did before.\<close>

theorem tenant_flush_is_exact:
  assumes "hash_ok hash" "mem_ok s" "m = NewManager (Some memory_port) None cfg" "Enabled m"
    and "k_Prefix key = cc_KeyPrefix cfg" "k_Prefix other = cc_KeyPrefix cfg"
    and "plain_id (k_TenantID other)" "k_TenantID other \<noteq> k_TenantID key"
    and "s' = snd (InvalidateTenant hash m (k_TenantID key) s)"
  shows "fst (manager_get m clk (key_String hash key) s') = (no_result, False, None)
    \<and> fst (GetStale m c1 c2 (key_String hash key) s') = None
    \<and> fst (manager_get m clk (key_String hash other) s') = fst (manager_get m clk (key_String hash other) s)
    \<and> fst (GetStale m c1 c2 (key_String hash other) s') = fst (GetStale m c1 c2 (key_String hash other) s)"
proof -
  let ?pre = "TenantPrefix hash (cc_KeyPrefix cfg) (k_TenantID key)"
  have s': "s' = snd (mem_DeletePrefix ?pre s)"
    using assms(3,4,9) by (simp add: InvalidateTenant_def NewManager_def memory_port_def)
  have own: "strings_HasPrefix (key_String hash key) ?pre"
    using TenantPrefix_match[OF assms(1), of key "k_TenantID key"] assms(5) by simp
  have oth: "\<not> strings_HasPrefix (key_String hash other) ?pre"
    using TenantPrefix_match[OF assms(1), of other "k_TenantID key"] assms(6,8)
      sanitize_plain_inject[OF assms(7), of hash "k_TenantID key"] by auto
  have flush: "fst (mem_Get t k s') = (if strings_HasPrefix k ?pre then Inl ErrMiss else fst (mem_Get t k s))" for t k
    unfolding s' by (rule mem_Get_after_flush[OF assms(2)])
  show ?thesis
    using assms(4) flush own oth unfolding assms(3) by (simp add: memory_lookup memory_stale_lookup)
qed


definition demo_tenant_manager :: "(time, nat Memory, nat) Manager" where
  "demo_tenant_manager = NewManager (Some memory_port) None (Default_Cache\<lparr>cc_KeyPrefix := ''bff''\<rparr>)"

definition demo_tenant_memory :: "nat Memory" where
  "demo_tenant_memory = fold mem_step [MSet 1 (key_String demo_hash (demo_key ''acme'')) demo_cached (500 * second),
     MSet 2 (key_String demo_hash (demo_key ''acme2'')) demo_cached (500 * second)] (NewMemory 4)"

theorem tenant_flush_is_exact_witness:
  "fst (GetStale demo_tenant_manager 9 9 (key_String demo_hash (demo_key ''acme''))
      (snd (InvalidateTenant demo_hash demo_tenant_manager ''acme'' demo_tenant_memory))) = None
    \<and> fst (GetStale demo_tenant_manager 9 9 (key_String demo_hash (demo_key ''acme2''))
      (snd (InvalidateTenant demo_hash demo_tenant_manager ''acme'' demo_tenant_memory)))
      = fst (GetStale demo_tenant_manager 9 9 (key_String demo_hash (demo_key ''acme2'')) demo_tenant_memory)"
proof -
  have h: "hash_ok demo_hash"
    by (auto simp: hash_ok_def demo_hash_def list_all_iff safe_char_def Let_def split: if_splits)
  have ok: "mem_ok demo_tenant_memory"
    unfolding demo_tenant_memory_def by (rule memory_cache.run_inv[OF mem_ok_New])
  have en: "Enabled demo_tenant_manager"
    by (simp add: demo_tenant_manager_def NewManager_def Enabled_def Default_Cache_def)
  have pl: "plain_id (k_TenantID (demo_key ''acme2''))"
    by (simp add: demo_key_def plain_id_def safe_char_def Let_def)
  show ?thesis
    using tenant_flush_is_exact[OF h ok demo_tenant_manager_def en, of "demo_key ''acme''" "demo_key ''acme2''"
        "snd (InvalidateTenant demo_hash demo_tenant_manager ''acme'' demo_tenant_memory)" _ 9 9] pl
    by (simp add: demo_key_def Default_Cache_def)
qed

lemma mem_Get_miss_absent:
  assumes "mem_ok m" "fst (mem_Get t k m) = Inl ErrMiss"
  shows "k \<notin> mi_key ` set (mem_list (snd (mem_Get t k m)))"
proof (cases "lru_find k (mem_list m)")
  case None
  then have "k \<notin> mi_key ` set (mem_list m)" by (simp add: lru_find_None)
  then show ?thesis using mem_Get_refines[OF assms(1), of t k] None by (simp add: lru_get_def)
next
  case (Some it)
  have "k \<notin> mi_key ` set (lru_drop k (mem_list m))" by (auto simp: lru_drop_def)
  then show ?thesis using mem_Get_refines[OF assms(1), of t k] assms(2) Some by (auto simp: lru_get_def split: if_splits)
qed

lemma mem_Set_item:
  assumes "mem_ok m" "0 < ttl" "it \<in> set (mem_list (snd (mem_Set t k e ttl m)))" "mi_key it = k"
  shows "it = \<lparr>mi_key = k, mi_entry = e, mi_expiresAt = t + ttl\<rparr>"
proof -
  have "it \<in> set (take (nat (mem_maxItems m)) (\<lparr>mi_key = k, mi_entry = e, mi_expiresAt = t + ttl\<rparr> # lru_drop k (mem_list m)))"
    using mem_Set_refines[OF assms(1), of t k e ttl] assms(2,3) by (simp add: lru_set_def)
  from in_set_takeD[OF this] show ?thesis using assms(4) by (auto simp: lru_drop_def)
qed

text \<open>Promotion does not extend an entry's life. When the fast tier misses and the second tier answers, the answer is
  returned unchanged; what the fast tier then holds for the key is that entry, with a deadline at most the L1
  TTL away and no later than the moment the entry's own cache TTL runs out (up to the time that passes
  between the two readings of the clock).\<close>

theorem promotion_never_extends_life:
  assumes "mem_ok (fst s)" "fst (mem_Get (lk_l1Get clk) k (fst s)) = Inl ErrMiss"
    and "fst (c_Get l2 (lk_l2Get clk) k (snd s)) = Inr e"
    and "0 \<le> ce_CacheTTL e" "ce_CacheTTL e \<le> maxDuration" "ce_StoredAt e \<le> lk_now clk"
    and "it \<in> set (mem_list (fst (snd (layered_Get memory_port l2 l1TTL clk k s))))" "mi_key it = k"
  shows "fst (layered_Get memory_port l2 l1TTL clk k s) = Inr e \<and> mi_entry it = e
    \<and> mi_expiresAt it \<le> lk_l1Set clk + l1TTL
    \<and> mi_expiresAt it + lk_now clk \<le> ce_StoredAt e + ce_CacheTTL e + lk_l1Set clk"
proof -
  obtain r1 s1 where g1: "mem_Get (lk_l1Get clk) k (fst s) = (r1, s1)" by (cases "mem_Get (lk_l1Get clk) k (fst s)")
  obtain r2 s2 where g2: "c_Get l2 (lk_l2Get clk) k (snd s) = (r2, s2)" by (cases "c_Get l2 (lk_l2Get clk) k (snd s)")
  have r: "r1 = Inl ErrMiss" "r2 = Inr e" and ok1: "mem_ok s1"
    using assms(2,3) g1 g2 mem_Get_refines[OF assms(1), of "lk_l1Get clk" k] by auto
  let ?age = "entry_Age e (lk_now clk)" let ?rem = "dur_sub (ce_CacheTTL e) ?age"
  have age: "0 \<le> ?age" "?age \<le> maxDuration"
    using assms(6) by (auto simp: entry_Age_def time_Sub_def minDuration_def maxDuration_def)
  then have rem: "?rem = ce_CacheTTL e - ?age"
    using assms(4,5) unfolding dur_sub_def by (intro wrap64_id) (auto simp: in_int64_def minDuration_def maxDuration_def)
  have real: "0 < ?rem \<Longrightarrow> ?age = lk_now clk - ce_StoredAt e"
    using assms(4,5,6) rem by (auto simp: entry_Age_def time_Sub_def minDuration_def maxDuration_def split: if_splits)
  let ?d = "if ?rem > l1TTL then l1TTL else ?rem"
  have res: "layered_Get memory_port l2 l1TTL clk k s
      = (Inr e, (if ?d > 0 then snd (mem_Set (lk_l1Set clk) k e ?d s1) else s1, s2))"
    using g1 g2 r by (simp add: layered_Get_def memory_port_def Let_def)
  have "k \<notin> mi_key ` set (mem_list s1)" using mem_Get_miss_absent[OF assms(1,2)] g1 by simp
  then have pos: "?d > 0" using assms(7,8) res by (cases "?d > 0") auto
  then have "it = \<lparr>mi_key = k, mi_entry = e, mi_expiresAt = lk_l1Set clk + ?d\<rparr>"
    using mem_Set_item[OF ok1 pos, of it "lk_l1Set clk" k e] assms(7,8) res by simp
  then show ?thesis using res real rem pos by (auto split: if_splits)
qed

definition demo_layered_clock :: "(time, time) LayeredClock" where
  "demo_layered_clock = \<lparr>lk_l1Get = 12 * second, lk_l2Get = 12 * second, lk_now = 12 * second, lk_l1Set = 12 * second\<rparr>"

definition demo_l2 :: "nat Memory" where
  "demo_l2 = snd (mem_Set (10 * second) ''k'' (demo_cached\<lparr>ce_StoredAt := 10 * second, ce_CacheTTL := 3 * second\<rparr>) (60 * second) (NewMemory 4))"

theorem promotion_never_extends_life_witness:
  "\<exists>it. mem_list (fst (snd (layered_Get memory_port memory_port (2 * second) demo_layered_clock ''k'' (NewMemory 4, demo_l2)))) = [it]
     \<and> mi_expiresAt it \<le> 13 * second"
proof -
  let ?e = "demo_cached\<lparr>ce_StoredAt := 10 * second, ce_CacheTTL := 3 * second\<rparr>"
  let ?r = "layered_Get memory_port memory_port (2 * second) demo_layered_clock ''k'' (NewMemory 4, demo_l2)"
  have g1: "fst (mem_Get (12 * second) ''k'' (NewMemory 4 :: nat Memory)) = Inl ErrMiss"
    by (simp add: mem_Get_def mem_elem_def NewMemory_def)
  have g2: "fst (c_Get memory_port (12 * second) ''k'' demo_l2) = Inr ?e"
    by (simp add: demo_l2_def demo_eval)
  obtain it where it: "mem_list (fst (snd ?r)) = [it]" "mi_key it = ''k''"
    by (simp add: layered_Get_def demo_layered_clock_def demo_l2_def demo_eval dur_sub_def mem_list_def)
  show ?thesis
    using promotion_never_extends_life[of "(NewMemory 4, demo_l2)" demo_layered_clock "''k''" memory_port ?e it "2 * second"]
      g1 g2 it by (simp add: demo_layered_clock_def mem_ok_New demo_cached_def dur_units maxDuration_def)
qed

text \<open>A background refresh never replaces newer data: when, at the moment it would store, the cache holds a live entry
  written after the refresh started, the cache contents are those the lookup left and the refreshed value is
  dropped; a refresh whose load fails stores nothing.\<close>

theorem refresh_keeps_newer:
  assumes "fst (manager_get m clk k s) = (res, True, err)" "rs_Entry res = Some cur" "startedAt < ce_StoredAt cur"
  shows "fst (snd (refresh m startedAt clk sclk k ttl ldr (s, w))) \<in> {s, snd (manager_get m clk k s)}
    \<and> snd (snd (refresh m startedAt clk sclk k ttl ldr (s, w))) = snd (ldr w)"
proof -
  obtain s1 where g: "manager_get m clk k s = ((res, True, err), s1)" using assms(1) by (cases "manager_get m clk k s") auto
  show ?thesis
    using assms(2,3) by (cases "ldr w"; cases "fst (ldr w)") (auto simp: refresh_def g time_After_def split: sum.splits)
qed

theorem refresh_keeps_newer_witness:
  "fst (snd (refresh demo_manager (9 * second) \<lparr>gk_get = 12 * second, gk_now = 12 * second, gk_layer = 12 * second\<rparr>
      \<lparr>sk_now = 12 * second, sk_set = 12 * second\<rparr> ''k'' second demo_loader
      (fst (fold (mgr_step demo_manager) [demo_store] (NewMemory 4, 0)), 0)))
    \<in> {fst (fold (mgr_step demo_manager) [demo_store] (NewMemory 4, 0)),
       snd (manager_get demo_manager \<lparr>gk_get = 12 * second, gk_now = 12 * second, gk_layer = 12 * second\<rparr> ''k''
         (fst (fold (mgr_step demo_manager) [demo_store] (NewMemory 4, 0))))}"
proof -
  obtain res where h: "demo_hit = (res, True, None)" using demo_hit_eval ..
  then obtain e where e: "rs_Entry res = Some e" "ce_StoredAt e = 10 * second" by (auto simp: demo_eval)
  show ?thesis
    by (rule refresh_keeps_newer[OF h[unfolded demo_hit_def] e(1), THEN conjunct1]) (simp add: e(2) second_def)
qed

end
