(* ===== verification/ServiceProps.thy ===== *)
theory ServiceProps
  imports Service CacheAside
begin

text \<open>
  What the request lifecycle guarantees: when a fallback or an expired entry may answer, that strongly consistent
  reads do not look at the cache, what a reply says about itself, and whose data a cached reply can carry.
\<close>

section \<open>Metadata\<close>

lemma meta_ok_warn [bff_inv]: "meta_ok m \<Longrightarrow> meta_ok (warn c msg k m)"
  unfolding warn_def by (rule meta_ok_AddWarning)

lemma meta_ok_fold_source: "meta_ok m \<Longrightarrow> meta_ok (fold AddSource ks m)"
  by (induction ks arbitrary: m) (auto intro: meta_ok_AddSource)

lemma meta_ok_fold_warning: "meta_ok m \<Longrightarrow> meta_ok (fold AddWarning ws m)"
  by (induction ws arbitrary: m) (auto intro: meta_ok_AddWarning)

lemma AddWarning_simps [simp]:
  "rm_Sources (AddWarning w m) = rm_Sources m" "rm_Degraded (AddWarning w m) = rm_Degraded m" "rm_Partial (AddWarning w m) = rm_Partial m"
  "rm_Freshness (AddWarning w m) = rm_Freshness m" "rm_Provenance (AddWarning w m) = rm_Provenance m" "rm_RoutingRule (AddWarning w m) = rm_RoutingRule m"
  "rm_Cache (AddWarning w m) = rm_Cache m"
  by (simp_all add: AddWarning_def)

lemma warn_simps [simp]:
  "rm_Sources (warn c msg k m) = rm_Sources m" "rm_Degraded (warn c msg k m) = rm_Degraded m" "rm_Partial (warn c msg k m) = rm_Partial m"
  "rm_Freshness (warn c msg k m) = rm_Freshness m" "rm_Provenance (warn c msg k m) = rm_Provenance m" "rm_RoutingRule (warn c msg k m) = rm_RoutingRule m"
  "rm_Cache (warn c msg k m) = rm_Cache m"
  by (simp_all add: warn_def)

lemma fold_AddWarning_simps [simp]:
  "rm_Sources (fold AddWarning ws m) = rm_Sources m" "rm_Degraded (fold AddWarning ws m) = rm_Degraded m"
  "rm_Partial (fold AddWarning ws m) = rm_Partial m" "rm_Provenance (fold AddWarning ws m) = rm_Provenance m"
  by (induction ws arbitrary: m) simp_all

lemma AddSource_simps [simp]:
  "rm_Warnings (AddSource k m) = rm_Warnings m" "rm_Degraded (AddSource k m) = rm_Degraded m" "rm_Partial (AddSource k m) = rm_Partial m"
  "rm_Freshness (AddSource k m) = rm_Freshness m" "rm_Provenance (AddSource k m) = rm_Provenance m" "rm_RoutingRule (AddSource k m) = rm_RoutingRule m"
  by (simp_all add: AddSource_def)

lemma fold_AddSource_simps [simp]:
  "rm_Degraded (fold AddSource ks m) = rm_Degraded m" "rm_Partial (fold AddSource ks m) = rm_Partial m"
  "rm_Warnings (fold AddSource ks m) = rm_Warnings m" "rm_Provenance (fold AddSource ks m) = rm_Provenance m"
  by (induction ks arbitrary: m) simp_all

lemma fold_AddSource_set: "set (rm_Sources (fold AddSource ks m)) \<subseteq> set (rm_Sources m) \<union> set ks"
proof (induction ks arbitrary: m)
  case (Cons k ks)
  have "set (rm_Sources (AddSource k m)) \<subseteq> insert k (set (rm_Sources m))" by (auto simp: AddSource_def)
  with Cons.IH[of "AddSource k m"] show ?case by auto
qed simp

text \<open>A warning once added stays, up to its message.\<close>

definition warned :: "WarningCode \<Rightarrow> SourceKind \<Rightarrow> ResponseMeta \<Rightarrow> bool" where
  "warned c k m \<longleftrightarrow> (\<exists>w \<in> set (rm_Warnings m). wa_Code w = c \<and> wa_Source w = k)"

lemma warned_AddWarning: "warned c k m \<Longrightarrow> warned c k (AddWarning w m)"
  by (auto simp: warned_def AddWarning_def)

lemma warned_warn: "warned c k m \<Longrightarrow> warned c k (warn c' msg k' m)"
  unfolding warn_def by (rule warned_AddWarning)

lemma warned_fold: "warned c k m \<Longrightarrow> warned c k (fold AddWarning ws m)"
  by (induction ws arbitrary: m) (auto intro: warned_AddWarning)

lemma warn_warned: "warned c k (warn c msg k m)"
  by (auto simp: warned_def warn_def AddWarning_def list_ex_iff)

lemma warned_update [simp]:
  "warned c k (m\<lparr>rm_Degraded := b\<rparr>) = warned c k m" "warned c k (m\<lparr>rm_Partial := b\<rparr>) = warned c k m"
  "warned c k (fold AddSource ks m) = warned c k m"
  by (simp_all add: warned_def)

lemma meta_ok_update [simp]:
  "meta_ok (m\<lparr>rm_Degraded := b\<rparr>) = meta_ok m" "meta_ok (m\<lparr>rm_Partial := b\<rparr>) = meta_ok m"
  "meta_ok (m\<lparr>rm_ElapsedMS := n\<rparr>) = meta_ok m" "meta_ok (m\<lparr>rm_Cache := c\<rparr>) = meta_ok m"
  by (simp_all add: meta_ok_def)

lemma buildMeta_ok: "meta_ok (buildMeta s corr cls d fb i fan merged fr)"
proof -
  have z: "meta_ok (zero_ResponseMeta\<lparr>rm_CorrelationID := a, rm_RoutingDecision := b, rm_RoutingRule := c, rm_Freshness := f,
     rm_Provenance := p, rm_Partial := q, rm_Degraded := g\<rparr>)" for a b c f p q g
    by (simp add: meta_ok_def zero_ResponseMeta_def)
  show ?thesis unfolding buildMeta_def Let_def
    by (auto intro!: meta_ok_warn meta_ok_fold_source meta_ok_fold_warning z split: option.split)
qed

lemma buildMeta_sources: "set (rm_Sources (buildMeta s corr cls d fb i fan merged fr)) \<subseteq> set (contributingSources d i)"
proof -
  have z: "rm_Sources (zero_ResponseMeta\<lparr>rm_CorrelationID := a, rm_RoutingDecision := b, rm_RoutingRule := r, rm_Freshness := f,
     rm_Provenance := p, rm_Partial := q, rm_Degraded := g\<rparr>) = []" for a b r f p q g
    by (simp add: zero_ResponseMeta_def)
  have "set (rm_Sources (fold AddSource (contributingSources d i) m)) \<subseteq> set (contributingSources d i)" if "rm_Sources m = []" for m
    using fold_AddSource_set[of "contributingSources d i" m] that by auto
  then show ?thesis unfolding buildMeta_def Let_def by (auto simp: z split: option.split dest!: subsetD)
qed

lemma fold_AddSource_mem:
  "k \<in> set ks \<or> k \<in> set (rm_Sources m) \<Longrightarrow> \<not> source_IsNone k \<Longrightarrow> k \<in> set (rm_Sources (fold AddSource ks m))"
proof (induction ks arbitrary: m)
  case (Cons x xs)
  have "k = x \<or> k \<in> set (rm_Sources m) \<Longrightarrow> k \<in> set (rm_Sources (AddSource x m))"
    using Cons.prems(2) by (auto simp: AddSource_def list_ex_iff)
  with Cons show ?case by auto
qed simp

lemma buildMeta_has_source:
  "k \<in> set (contributingSources d i) \<Longrightarrow> \<not> source_IsNone k \<Longrightarrow> k \<in> set (rm_Sources (buildMeta s corr cls d fb i fan merged fr))"
  unfolding buildMeta_def Let_def by (auto simp: fold_AddSource_mem split: option.split)

lemma buildMeta_fellBack:
  "rm_Degraded (buildMeta s corr cls d (Some k) i fan merged fr) \<and> warned WarnSourceUnavailable k (buildMeta s corr cls d (Some k) i fan merged fr)"
  unfolding buildMeta_def Let_def by (auto intro!: warned_warn warned_fold warn_warned)


section \<open>Loading: the two attempts\<close>

lemma loadResource_cases:
  assumes "loadResource s marshal env cls v w = (r, w')"
  obtains (route_err) err where "route s env cls w = (Inl err, w')" "r = Inl err"
  | (none) d where "route s env cls w = (Inr d, w')" "d_Target d = TargetNone" "r = Inl (noSource ''application.route'' d)"
  | (primary) d i fan where "route s env cls w = (Inr d, w')" "d_Target d \<noteq> TargetNone"
      "fetch s env PFetch PInFlight cls d v = (i, fan, None)" "r = answer s marshal env cls v d None i fan"
  | (failed) d i fan err where "route s env cls w = (Inr d, w')" "d_Target d \<noteq> TargetNone"
      "fetch s env PFetch PInFlight cls d v = (i, fan, Some err)" "r = Inl err"
  | (fallback) d i fan err fb i2 fan2 where "route s env cls w = (Inr d, w')" "d_Target d \<noteq> TargetNone"
      "fetch s env PFetch PInFlight cls d v = (i, fan, Some err)" "fallbackDecision env cls d err = Some fb"
      "fetch s env PFallbackFetch PFallbackInFlight cls fb v = (i2, fan2, None)"
      "r = answer s marshal env cls v fb (Some (d_Primary d)) i2 fan2"
proof -
  obtain x w1 where rt: "route s env cls w = (x, w1)" by (cases "route s env cls w")
  have w1: "w1 = w'" using assms rt by (simp add: loadResource_def)
  show thesis
  proof (cases x)
    case (Inl err)
    then show thesis using route_err[of err] assms rt w1 by (simp add: loadResource_def)
  next
    case (Inr d)
    show thesis
    proof (cases "d_Target d = TargetNone")
      case True
      then show thesis using none[of d] assms rt w1 Inr by (simp add: loadResource_def)
    next
      case False
      obtain i fan e where f: "fetch s env PFetch PInFlight cls d v = (i, fan, e)" by (metis prod.exhaust)
      show thesis
      proof (cases e)
        case None
        then show thesis using primary[of d i fan] assms rt w1 Inr False f by (simp add: loadResource_def)
      next
        case (Some err)
        show thesis
        proof (cases "fallbackDecision env cls d err")
          case None
          then show thesis using failed[of d i fan err] assms rt w1 Inr False f Some by (simp add: loadResource_def)
        next
          case fb: (Some fb)
          obtain i2 fan2 e2 where f2: "fetch s env PFallbackFetch PFallbackInFlight cls fb v = (i2, fan2, e2)" by (metis prod.exhaust)
          show thesis
          proof (cases e2)
            case None
            then show thesis using fallback[of d i fan err fb i2 fan2] assms rt w1 Inr False f Some fb f2 by (simp add: loadResource_def)
          next
            case e2: (Some err2)
            then show thesis using failed[of d i fan err] assms rt w1 Inr False f Some fb f2 by (simp add: loadResource_def)
          qed
        qed
      qed
    qed
  qed
qed

lemma answer_Inr:
  assumes "answer s marshal env cls v d fb i fan = Inr e"
  obtains raw where "marshal (project (mo_Details (Merge (sv_prec s) i (cl_TenantID cls) (cl_ResourceID cls))) v) = Inr raw"
    "ce_Payload e = raw" "ce_Negative e = False" "ce_RoutingRule e = rule_id (d_Rule d)"
    "ce_Freshness e = reportedFreshness i d (ev_now env PReply)"
    "\<exists>m. m = buildMeta s (ev_corr env) cls d fb i fan (Merge (sv_prec s) i (cl_TenantID cls) (cl_ResourceID cls)) (ce_Freshness e)
      \<and> ce_Sources e = rm_Sources m \<and> ce_Warnings e = rm_Warnings m \<and> ce_Degraded e = rm_Degraded m \<and> ce_Partial e = rm_Partial m"
  using assms by (auto simp: answer_def Let_def split: if_splits sum.splits)

lemma fallbackDecision_Some:
  assumes "fallbackDecision env cls d cause = Some fb"
  shows "SourceUnusable (Some cause) \<and> cl_Consistency cls \<noteq> ConsistencyStrong \<and> d_Fallback d \<noteq> d_Primary d
    \<and> d_Primary fb = d_Fallback d \<and> d_Fallback fb = SourceNone \<and> d_Rule fb = RuleFallbackAfterFailure
    \<and> (d_Fallback d = SourceOperational \<and> d_Target fb = TargetOperational \<and> sh_Available (so_opsHealth (ev_sources env PFallbackHealth))
       \<or> d_Fallback d = SourceExecution \<and> d_Target fb = TargetExecution \<and> sh_Available (so_execHealth (ev_sources env PFallbackHealth)))"
  using assms by (auto simp: fallbackDecision_def Let_def split: if_splits SourceKind.splits)


section \<open>What a fan-out without error brought back\<close>

lemma gather_sets:
  assumes "n \<in> set ns" "\<And>i. Q (f n i)" "\<And>m i. Q i \<Longrightarrow> Q (f m i)"
  shows "Q (fold f ns i)"
  using assms(1)
proof (induction ns arbitrary: i)
  case (Cons m ns)
  have keep: "Q i \<Longrightarrow> Q (fold f xs i)" for xs i by (induction xs arbitrary: i) (auto intro: assms(3))
  show ?case using Cons keep[OF assms(2)] by (cases "n = m") auto
qed simp

lemma run_call_keeps:
  assumes "run_call so cls d v c dl = Inr put"
  shows "in_Operational i \<noteq> None \<Longrightarrow> in_Operational (put i) \<noteq> None" "in_LatestExecution i \<noteq> None \<Longrightarrow> in_LatestExecution (put i) \<noteq> None"
    "c = CallOps \<Longrightarrow> in_Operational (put i) \<noteq> None" "c = CallLatest \<Longrightarrow> in_LatestExecution (put i) \<noteq> None"
  using assms by (cases c; auto split: sum.splits prod.splits if_splits)+

lemma fanout_required_succeeded:
  assumes fin: "mset (ev_finished env ph) = mset [0..<length (calls d v)]"
    and f: "fetch s env ph ph2 cls d v = (i, fan, None)"
    and n: "n < length (calls d v)" and req: "tk_Required (call_task (ev_sources env ph) cls d v (calls d v ! n))"
  shows "\<exists>put. run_call (ev_sources env ph) cls d v (calls d v ! n)
    (taskDeadline (ev_ctx env) (tk_Timeout (call_task (ev_sources env ph) cls d v (calls d v ! n))) (ev_started env ph n)) = Inr put"
proof -
  let ?tasks = "map (call_task (ev_sources env ph) cls d v) (calls d v)"
  let ?fan = "FanOut (ev_ctx env) (ev_started env ph) (ev_finished env ph) 0 ?tasks"
  let ?r = "runTask (ev_ctx env) (ev_started env ph n) (?tasks ! n)"
  have fan: "fo_Err ?fan = None" using f by (auto simp: fetch_def Let_def split: option.splits)
  have m: "mset (ev_finished env ph) = mset [0..<length ?tasks]" using fin by simp
  have res: "fo_Results ?fan = map (\<lambda>i. runTask (ev_ctx env) (ev_started env ph i) (?tasks ! i)) [0..<length ?tasks]"
    and err: "fo_Err ?fan = (case find (\<lambda>r. tr_Required r \<and> tr_Err r \<noteq> None) (fo_Results ?fan) of None \<Rightarrow> None | Some r \<Rightarrow> tr_Err r)"
    using fanout_results[OF m] by auto
  have "?r \<in> set (fo_Results ?fan)" using n res by auto
  moreover have "find (\<lambda>r. tr_Required r \<and> tr_Err r \<noteq> None) (fo_Results ?fan) = None"
    using fan err by (auto split: option.splits dest: find_Some_iff[THEN iffD1])
  ultimately have "\<not> (tr_Required ?r \<and> tr_Err ?r \<noteq> None)" by (simp add: find_None_iff)
  then show ?thesis using req n by (auto simp: runTask_def Let_def split: sum.splits)
qed

lemma fetch_required_present:
  assumes fin: "mset (ev_finished env ph) = mset [0..<length (calls d v)]" and f: "fetch s env ph ph2 cls d v = (i, fan, None)"
    and k: "d_Target d = TargetOperational \<and> RequiresSource d SourceOperational \<or> d_Target d = TargetExecution \<and> RequiresSource d SourceExecution"
  shows "(d_Target d = TargetOperational \<longrightarrow> in_Operational i \<noteq> None) \<and> (d_Target d = TargetExecution \<longrightarrow> in_LatestExecution i \<noteq> None)"
proof -
  let ?c = "if d_Target d = TargetOperational then CallOps else CallLatest"
  have n: "0 < length (calls d v)" "calls d v ! 0 = ?c" using k by (auto simp: calls_def)
  have req: "tk_Required (call_task (ev_sources env ph) cls d v (calls d v ! 0))" using k n(2) by (auto simp: Let_def)
  obtain put where put: "run_call (ev_sources env ph) cls d v ?c
      (taskDeadline (ev_ctx env) (tk_Timeout (call_task (ev_sources env ph) cls d v ?c)) (ev_started env ph 0)) = Inr put"
    using fanout_required_succeeded[OF fin f n(1) req] n(2) by auto
  have z: "0 \<in> set (ev_finished env ph)" using mset_eq_setD[OF fin] n(1) by simp
  define Q where "Q = (\<lambda>j :: Inputs. if d_Target d = TargetOperational then in_Operational j \<noteq> None else in_LatestExecution j \<noteq> None)"
  have "Q (gather env ph cls d v)" unfolding gather_def
    by (rule gather_sets[OF z])
      (use run_call_keeps put n(2) in \<open>auto simp: Q_def Let_def simp del: run_call.simps call_task.simps split: sum.split\<close>)
  then show ?thesis using f k
    by (auto simp: Q_def fetch_def Let_def resolveInFlight_def split: option.splits sum.splits if_splits)
qed


text \<open>What a fetch holds came from a source that the decision targets, or from the in-flight lookup.\<close>

lemma gather_called:
  assumes "set (ev_finished env ph) \<subseteq> {..<length (calls d v)}"
  shows "(in_Operational (gather env ph cls d v) \<noteq> None \<longrightarrow> Includes (d_Target d) SourceOperational)
    \<and> (in_LatestExecution (gather env ph cls d v) \<noteq> None \<or> in_History (gather env ph cls d v) \<noteq> None \<longrightarrow> Includes (d_Target d) SourceExecution)"
proof -
  define Q where "Q = (\<lambda>j :: Inputs. (in_Operational j \<noteq> None \<longrightarrow> Includes (d_Target d) SourceOperational)
    \<and> (in_LatestExecution j \<noteq> None \<or> in_History j \<noteq> None \<longrightarrow> Includes (d_Target d) SourceExecution))"
  have call: "c \<in> set (calls d v) \<Longrightarrow> if c = CallOps then Includes (d_Target d) SourceOperational else Includes (d_Target d) SourceExecution" for c
    by (auto simp: calls_def split: if_splits)
  have put: "Q (put j)" if "c \<in> set (calls d v)" "run_call so cls d v c dl = Inr put" "Q j" for so c dl put j
    using that(2,3) call[OF that(1)] by (cases c) (auto simp: Q_def split: sum.splits prod.splits if_splits)
  have "Q j \<Longrightarrow> Q (fold (\<lambda>n i. let c = calls d v ! n in
        case run_call (ev_sources env ph) cls d v c
               (taskDeadline (ev_ctx env) (tk_Timeout (call_task (ev_sources env ph) cls d v c)) (ev_started env ph n)) of
          Inl _ \<Rightarrow> i | Inr put \<Rightarrow> put i) ns j)" if "set ns \<subseteq> {..<length (calls d v)}" for ns j
    using that
  proof (induction ns arbitrary: j)
    case (Cons n ns)
    have "calls d v ! n \<in> set (calls d v)" using Cons.prems by simp
    from put[OF this _ Cons.prems(1)] show ?case using Cons
      by (auto simp: Let_def simp del: run_call.simps call_task.simps split: sum.split)
  qed simp
  from this[OF assms, of no_inputs] show ?thesis by (simp add: gather_def Q_def no_inputs_def)
qed

lemma fetch_called:
  assumes "set (ev_finished env ph) \<subseteq> {..<length (calls d v)}" "fetch s env ph ph2 cls d v = (i, fan, err)"
  shows "(in_Operational i \<noteq> None \<longrightarrow> Includes (d_Target d) SourceOperational)
    \<and> (in_LatestExecution i \<noteq> None \<or> in_History i \<noteq> None \<longrightarrow>
         Includes (d_Target d) SourceExecution \<or> sh_Available (so_execHealth (ev_sources env ph2)))"
  using gather_called[OF assms(1), of cls] assms(2)
  by (auto simp: fetch_def Let_def resolveInFlight_def split: option.splits sum.splits if_splits)

lemma answer_sources:
  assumes "answer s marshal env cls v d fb i fan = Inr e" "k \<in> set (ce_Sources e)"
  shows "k = SourceOperational \<and> in_Operational i \<noteq> None
    \<or> k = SourceExecution \<and> (in_LatestExecution i \<noteq> None \<or> in_History i \<noteq> None)"
proof -
  have "k \<in> set (contributingSources d i)" using answer_Inr[OF assms(1)] buildMeta_sources assms(2) by (metis subsetD)
  then show ?thesis using assms(1) by (auto simp: contributingSources_def answer_def Let_def split: if_splits option.splits)
qed

section \<open>Invariants of the cache under the service\<close>

context managed_cache begin

text \<open>A property of (key, entry) that stamping keeps, that the loader's result has and that a joined flight brings.\<close>

lemma getorload_keeps:
  assumes P: "holds_only P st" and stamp: "\<And>k e now ttl. P k e \<Longrightarrow> P k (stamped (cm_cfg m) now ttl e)"
    and ld: "\<And>e. fst (ldr w) = Inr e \<Longrightarrow> P k e" and fl: "\<And>e. flight = Some (Inr (Some e)) \<Longrightarrow> P k e"
    and g: "GetOrLoad m clk flight shared k ttl ldr (st, w) = (oc, (st', w'))"
  shows "holds_only P st' \<and> (\<forall>res e. oc_result oc = Inr res \<and> rs_Entry res = Some e \<longrightarrow> P k e)"
proof (cases "Enabled m \<and> 0 < ttl")
  case False
  then show ?thesis using g P ld by (cases "ldr w") (auto simp: GetOrLoad_def split: sum.splits)
next
  case on: True
  show ?thesis
  proof (cases flight)
    case None
    show ?thesis using P on[THEN conjunct1] on[THEN conjunct2] g[unfolded None]
      by (cases rule: getorload_cases) (use ld stamp in auto)
  next
    case (Some v)
    obtain res ok err s1 where mg: "manager_get m (ok_first clk) k st = ((res, ok, err), s1)" by (metis prod.exhaust)
    have s1: "holds_only P s1" using manager_get_only[OF over P, of "ok_first clk" k] mg by simp
    have hit: "ok \<Longrightarrow> \<exists>e. rs_Entry res = Some e \<and> P k e" using manager_get_hit[OF over P, of "ok_first clk" k res err] mg by auto
    show ?thesis using g on s1 hit fl Some by (auto simp: GetOrLoad_def mg no_result_def split: sum.splits if_splits)
  qed
qed

lemma store_keeps:
  assumes "holds_only P st" "\<And>k e now ttl. P k e \<Longrightarrow> P k (stamped (cm_cfg m) now ttl e)" "P k e"
  shows "holds_only P (snd (Store m clk k (Some e) ttl st)) \<and> (\<forall>e'. fst (Store m clk k (Some e) ttl st) = Some e' \<longrightarrow> P k e')"
  using manager_store_only[OF over assms(1)] assms by (auto simp: Store_simps)

lemma negative_keeps:
  assumes "holds_only P st" "\<And>e. ce_Negative e \<and> ce_Sources e = [] \<and> ce_Warnings e = [] \<Longrightarrow> P k e"
  shows "holds_only P (SetNegative m now clk np k st)"
  using manager_store_only[OF over assms(1)] assms by (auto simp: SetNegative_def stamped_def Let_def)

lemma stale_hit:
  assumes "holds_only P st" "fst (GetStale m c1 c2 k st) = Some (e, layer)"
  shows "P k e \<and> \<not> ce_Negative e"
proof -
  obtain r s1 where g: "c_Get c c1 k st = (r, s1)" by (cases "c_Get c c1 k st")
  show ?thesis
    using assms get_stored[of st c1 k e] g by (auto simp: GetStale_def over holds_only_def split: if_splits sum.splits prod.splits)
qed

lemma refresh_keeps:
  assumes P: "holds_only P st" and stamp: "\<And>k e now ttl. P k e \<Longrightarrow> P k (stamped (cm_cfg m) now ttl e)"
    and ld: "\<And>e. fst (ldr w) = Inr e \<Longrightarrow> P k e"
  shows "holds_only P (fst (snd (refresh m t clk sclk k ttl ldr (st, w))))"
proof -
  obtain res ok err s1 where mg: "manager_get m clk k st = ((res, ok, err), s1)" by (metis prod.exhaust)
  have s1: "holds_only P s1" using manager_get_only[OF over P, of clk k] mg by simp
  show ?thesis using P s1 ld stamp manager_store_only[OF over s1]
    by (cases "ldr w") (auto simp: refresh_def mg split: sum.splits option.splits)
qed

end

section \<open>Runs of the service\<close>

datatype svc_req = RResource Env view Classification | RExecution Env bool Classification

fun req_class :: "svc_req \<Rightarrow> Classification" where
  "req_class (RResource env v cls) = cls" | "req_class (RExecution env b cls) = cls"

fun req_key :: "('c, 's, 'p, 'w) Service \<Rightarrow> svc_req \<Rightarrow> string" where
  "req_key s (RResource env v cls) = cacheKey s cls []"
| "req_key s (RExecution env b cls) = cacheKeyWith s cls (cl_ExecutionID cls) (executionVariant cls b)"

fun req_loader :: "('c, 's, 'p, 'w) Service \<Rightarrow> (payload \<Rightarrow> goerr + 'p) \<Rightarrow> svc_req \<Rightarrow> ('w, 'p) loader" where
  "req_loader s marshal (RResource env v cls) = loadResource s marshal env cls v"
| "req_loader s marshal (RExecution env b cls) = executionLoader s marshal env cls b"

fun serve :: "('c, 's, 'p, 'w) Service \<Rightarrow> (payload \<Rightarrow> goerr + 'p) \<Rightarrow> 'p \<Rightarrow> svc_req \<Rightarrow> 'c CacheClocks
    \<Rightarrow> (goerr + 'p Entry option) option \<Rightarrow> bool \<Rightarrow> 's \<times> 'w \<Rightarrow> (goerr + 'p Envelope) \<times> ('s \<times> 'w)" where
  "serve s marshal np (RResource env v cls) ck fl sh sw = resourceView s marshal np env ck fl sh cls v sw"
| "serve s marshal np (RExecution env b cls) ck fl sh sw = executionView s marshal np env ck fl sh cls b sw"

datatype ('c, 'p) svc_op =
    SvcRequest svc_req "'c CacheClocks" "(goerr + 'p Entry option) option" bool
  | SvcRefresh svc_req time "'c GetClock" "'c StoreClock" duration
  | SvcInvalidateResource string string
  | SvcInvalidateTenant string

fun svc_step :: "('c, 's, 'p, 'w) Service \<Rightarrow> (payload \<Rightarrow> goerr + 'p) \<Rightarrow> 'p \<Rightarrow> ('c, 'p) svc_op \<Rightarrow> 's \<times> 'w \<Rightarrow> 's \<times> 'w" where
  "svc_step s marshal np (SvcRequest q ck fl sh) sw = snd (serve s marshal np q ck fl sh sw)"
| "svc_step s marshal np (SvcRefresh q t clk sclk ttl) sw = snd (refresh (sv_cache s) t clk sclk (req_key s q) ttl (req_loader s marshal q) sw)"
| "svc_step s marshal np (SvcInvalidateResource tenant res) sw = (InvalidateResource s tenant res (fst sw), snd sw)"
| "svc_step s marshal np (SvcInvalidateTenant tenant) sw = (snd (InvalidateTenant (sv_hash s) (sv_cache s) tenant (fst sw)), snd sw)"

fun op_req :: "('c, 'p) svc_op \<Rightarrow> svc_req option" where
  "op_req (SvcRequest q ck fl sh) = Some q" | "op_req (SvcRefresh q t clk sclk ttl) = Some q" | "op_req _ = None"

text \<open>The entry came from the loader of one of the requests \<open>Q\<close>, one with the same key; its metadata is clean.\<close>

definition entry_clean :: "'p Entry \<Rightarrow> bool" where
  "entry_clean e \<longleftrightarrow> distinct (ce_Sources e) \<and> set (ce_Sources e) \<subseteq> {SourceOperational, SourceExecution}
     \<and> distinct (map warning_key (ce_Warnings e))"

definition loaded_by :: "('c, 's, 'p, 'w) Service \<Rightarrow> (payload \<Rightarrow> goerr + 'p) \<Rightarrow> svc_req set \<Rightarrow> string \<Rightarrow> 'p Entry \<Rightarrow> bool" where
  "loaded_by s marshal Q k e \<longleftrightarrow> entry_clean e \<and> (\<not> ce_Negative e \<longrightarrow>
     (\<exists>q \<in> Q. k = req_key s q \<and> (\<exists>w e0. fst (req_loader s marshal q w) = Inr e0 \<and> ce_Payload e = ce_Payload e0)))"

fun flight_ok :: "('c, 's, 'p, 'w) Service \<Rightarrow> (payload \<Rightarrow> goerr + 'p) \<Rightarrow> svc_req set \<Rightarrow> ('c, 'p) svc_op \<Rightarrow> bool" where
  "flight_ok s marshal Q (SvcRequest q ck fl sh) = (case fl of Some (Inr (Some e)) \<Rightarrow> loaded_by s marshal Q (req_key s q) e | _ \<Rightarrow> True)"
| "flight_ok s marshal Q _ = True"

lemma loaded_by_stamped: "loaded_by s marshal Q k e \<Longrightarrow> loaded_by s marshal Q k (stamped cfg now ttl e)"
  by (simp add: loaded_by_def entry_clean_def stamped_def Let_def)

lemma answer_clean: "answer s marshal env cls v d fb i fan = Inr e \<Longrightarrow> entry_clean e"
proof -
  assume a: "answer s marshal env cls v d fb i fan = Inr e"
  let ?mg = "Merge (sv_prec s) i (cl_TenantID cls) (cl_ResourceID cls)"
  obtain m where m: "m = buildMeta s (ev_corr env) cls d fb i fan ?mg (ce_Freshness e)" "ce_Sources e = rm_Sources m" "ce_Warnings e = rm_Warnings m"
    using answer_Inr[OF a] by metis
  have "contributingSources d i \<noteq> [] \<and> set (contributingSources d i) \<subseteq> {SourceOperational, SourceExecution}"
    using a by (auto simp: answer_def Let_def contributingSources_def split: if_splits option.splits)
  then have "set (rm_Sources m) \<subseteq> {SourceOperational, SourceExecution}" unfolding m(1) using buildMeta_sources by blast
  moreover have "meta_ok m" unfolding m(1) by (rule buildMeta_ok)
  ultimately show ?thesis using m by (simp add: entry_clean_def meta_ok_def)
qed

lemma loader_clean:
  assumes "fst (req_loader s marshal q w) = Inr e"
  shows "entry_clean e \<and> \<not> ce_Negative e"
proof (cases q)
  case (RResource env v cls)
  obtain r w' where l: "loadResource s marshal env cls v w = (r, w')" by (cases "loadResource s marshal env cls v w")
  have r: "r = Inr e" using assms l RResource by simp
  have *: "answer s marshal env cls v d fb i fan = Inr e \<Longrightarrow> entry_clean e \<and> \<not> ce_Negative e" for d fb i fan
    using answer_clean answer_Inr by metis
  show ?thesis using l by (cases rule: loadResource_cases) (use r * in auto)
next
  case (RExecution env b cls)
  then show ?thesis using assms
    by (auto simp: executionLoader_def Let_def entry_clean_def split: prod.splits sum.splits if_splits)
qed


fun req_env :: "svc_req \<Rightarrow> Env" where
  "req_env (RResource env v cls) = env" | "req_env (RExecution env b cls) = env"

fun req_op :: "svc_req \<Rightarrow> string" where
  "req_op (RResource env v cls) = ''application.resource''" | "req_op (RExecution env b cls) = ''application.execution''"

definition req_rule :: "('c, 's, 'p, 'w) Service \<Rightarrow> svc_req \<Rightarrow> RoutingRule" where
  "req_rule s q = fst (ResolveRule (sv_cfg s) (cl_TenantID (req_class q)) (cl_Type (req_class q)))"

text \<open>Both use cases have the same shape.\<close>

lemma serve_shape:
  "serve s marshal np q ck fl sh sw = reply s (req_op q) np (req_env q) ck (req_class q) (req_key s q)
     (service_load s ck fl sh (req_class q) (req_key s q) (ru_CacheTTL (req_rule s q)) (req_loader s marshal q) sw)"
  by (cases q) (simp_all add: resourceView_def executionView_def req_rule_def Let_def)

lemma entry_clean_meta:
  assumes "entry_clean e" "rm_Warnings m = ce_Warnings e" "rm_Sources m = ce_Sources e \<or> rm_Sources m = SourceCache # ce_Sources e"
  shows "meta_ok m"
proof -
  have "\<not> source_IsNone k" if "k \<in> set (ce_Sources e)" for k using assms(1) that by (auto simp: entry_clean_def)
  then show ?thesis using assms by (auto simp: meta_ok_def entry_clean_def)
qed

lemma entry_clean_warn:
  "entry_clean e \<Longrightarrow> rm_Warnings m = ce_Warnings e \<Longrightarrow> rm_Sources m = SourceCache # ce_Sources e \<Longrightarrow> meta_ok (warn c msg k m)"
  using entry_clean_meta[of e m] by (blast intro: meta_ok_warn)

lemma envelopeFrom_ok:
  assumes "entry_clean e"
  shows "meta_ok (env_Meta (envelopeFrom env res e)) \<and> env_Data (envelopeFrom env res e) = ce_Payload e"
proof -
  have base: "rm_Warnings m = ce_Warnings e \<Longrightarrow> rm_Sources m = ce_Sources e \<Longrightarrow> meta_ok m" for m :: ResponseMeta
    using entry_clean_meta[OF assms, of m] by blast
  have add: "rm_Warnings m = ce_Warnings e \<Longrightarrow> rm_Sources m = ce_Sources e \<Longrightarrow> meta_ok (AddSource k m)" for m :: ResponseMeta and k
    using base by (blast intro: meta_ok_AddSource)
  show ?thesis
  proof (cases "rs_Hit res")
    case True
    show ?thesis
      by (auto simp: True envelopeFrom_def Let_def intro!: meta_ok_warn add)
  next
    case False
    show ?thesis by (auto simp: False envelopeFrom_def Let_def intro!: base)
  qed
qed

lemma serveStale_Some:
  assumes "serveStale s env ck cls key cause st = (Some x, st')"
  obtains entry layer where "GetStale (sv_cache s) (ck_stale ck) (ck_staleLayer ck) key st = (Some (entry, layer), st')"
    "SourceUnusable (Some cause) \<or> CodeOf (Some cause) = Some CodeNoSourceAvailable"
    "snd (ResolveRule (sv_cfg s) (cl_TenantID cls) (cl_Type cls))" "ru_AllowStale (fst (ResolveRule (sv_cfg s) (cl_TenantID cls) (cl_Type cls)))"
    "cl_Consistency cls \<noteq> ConsistencyStrong" "env_Data x = ce_Payload entry" "rm_Freshness (env_Meta x) = EffectiveFreshness entry (ev_now env PReply)"
    "rm_Degraded (env_Meta x)" "warned WarnStaleData SourceUnset (env_Meta x)" "rm_RoutingRule (env_Meta x) = RuleDegradeStaleCache"
    "rm_Sources (env_Meta x) = SourceCache # ce_Sources entry" "rm_Partial (env_Meta x) = ce_Partial entry"
    "let mx = (let r = fst (ResolveRule (sv_cfg s) (cl_TenantID cls) (cl_Type cls)) in
        if ru_MaxStale r = 0 then df_MaxStale (ResolveDefaults (sv_cfg s) (cl_TenantID cls)) else ru_MaxStale r)
     in 0 < mx \<longrightarrow> fr_Age (EffectiveFreshness entry (ev_now env PReply)) \<le> mx"
    "entry_clean entry \<longrightarrow> meta_ok (env_Meta x)"
proof -
  obtain rule ok where rr: "ResolveRule (sv_cfg s) (cl_TenantID cls) (cl_Type cls) = (rule, ok)" by force
  obtain r st1 where g: "GetStale (sv_cache s) (ck_stale ck) (ck_staleLayer ck) key st = (r, st1)" by force
  obtain entry layer where r: "r = Some (entry, layer)" using assms by (auto simp: serveStale_def rr g split: if_splits option.splits)
  show thesis
    by (rule that[of entry layer])
      (use assms in \<open>auto simp: serveStale_def rr g r Let_def intro!: warn_warned entry_clean_warn split: if_splits\<close>)
qed

lemma service_load_strong:
  "cl_Consistency cls = ConsistencyStrong \<Longrightarrow> service_load s ck fl sh cls key ttl ldr (st, w) =
     (case fst (ldr w) of
        Inl err \<Rightarrow> (Inl err, (st, snd (ldr w)))
      | Inr e \<Rightarrow> (Inr (no_result\<lparr>rs_Entry := fst (Store (sv_cache s) (ok_store (ck_load ck)) key (Some e) ttl st)\<rparr>),
          (snd (Store (sv_cache s) (ok_store (ck_load ck)) key (Some e) ttl st), snd (ldr w))))"
  by (simp add: service_load_def split: prod.split sum.split)

lemma serve_keeps:
  assumes mc: "managed_cache c sinv stored (sv_cache s)"
    and P: "cache_port.holds_only sinv stored (loaded_by s marshal Q) st"
    and q: "q \<in> Q" and fl: "\<And>e. fl = Some (Inr (Some e)) \<Longrightarrow> loaded_by s marshal Q (req_key s q) e"
    and r: "serve s marshal np q ck fl sh (st, w) = (r, (st', w'))"
  shows "cache_port.holds_only sinv stored (loaded_by s marshal Q) st'
    \<and> (\<forall>x. r = Inr x \<longrightarrow> meta_ok (env_Meta x) \<and> (\<exists>e. loaded_by s marshal Q (req_key s q) e \<and> \<not> ce_Negative e \<and> env_Data x = ce_Payload e))"
proof -
  let ?k = "req_key s q" let ?ttl = "ru_CacheTTL (req_rule s q)" let ?ldr = "req_loader s marshal q" let ?cls = "req_class q"
  let ?P = "loaded_by s marshal Q"
  have ld: "?P ?k e" if "fst (?ldr w) = Inr e" for e
    using loader_clean[OF that] q that by (auto simp: loaded_by_def)
  obtain o1 st1 w1 where sl: "service_load s ck fl sh ?cls ?k ?ttl ?ldr (st, w) = (o1, (st1, w1))" by (metis prod.exhaust)
  have s1: "cache_port.holds_only sinv stored ?P st1 \<and> (\<forall>res e. o1 = Inr res \<and> rs_Entry res = Some e \<longrightarrow> ?P ?k e)"
  proof (cases "cl_Consistency ?cls = ConsistencyStrong")
    case True
    then show ?thesis using sl ld P managed_cache.store_keeps[OF mc P loaded_by_stamped]
      by (cases "?ldr w") (auto simp: service_load_strong split: sum.splits)
  next
    case False
    obtain oc st2 w2 where g: "GetOrLoad (sv_cache s) (ck_load ck) fl sh ?k ?ttl ?ldr (st, w) = (oc, (st2, w2))" by (metis prod.exhaust)
    show ?thesis using managed_cache.getorload_keeps[OF mc P loaded_by_stamped ld fl g] sl False by (auto simp: service_load_def g)
  qed
  note rep = r[unfolded serve_shape sl]
  show ?thesis
  proof (cases o1)
    case (Inl err)
    obtain x st2 where ss: "serveStale s (req_env q) ck ?cls ?k err st1 = (x, st2)" by force
    have s2: "cache_port.holds_only sinv stored ?P st2"
      using managed_cache.stale_only[OF mc s1[THEN conjunct1], of "ck_stale ck" "ck_staleLayer ck" ?k] ss s1
      by (auto simp: serveStale_def Let_def split: prod.splits if_splits option.splits)
    show ?thesis
    proof (cases x)
      case None
      have neg: "ce_Negative e \<and> ce_Sources e = [] \<and> ce_Warnings e = [] \<Longrightarrow> ?P ?k e" for e
        by (simp add: loaded_by_def entry_clean_def)
      show ?thesis using rep Inl ss None s2 managed_cache.negative_keeps[OF mc s2 neg] by (auto simp: reply_def split: if_splits)
    next
      case (Some y)
      show ?thesis using ss[unfolded Some]
      proof (cases rule: serveStale_Some)
        case (1 entry layer)
        then have "?P ?k entry \<and> \<not> ce_Negative entry" using managed_cache.stale_hit[OF mc s1[THEN conjunct1], of "ck_stale ck" "ck_staleLayer ck" ?k entry layer] by simp
        then show ?thesis using rep Inl ss Some s2 1 by (auto simp: reply_def loaded_by_def)
      qed
    qed
  next
    case (Inr res)
    show ?thesis using rep Inr s1 envelopeFrom_ok
      by (auto simp: reply_def loaded_by_def split: option.splits if_splits)
  qed
qed

end
