(* ===== verification/Lifecycle.thy ===== *)
theory Lifecycle
  imports ServiceProps
begin

text \<open>
  The properties of the request lifecycle, over the model of \<^verbatim>\<open>internal/application/service.go\<close> with any router port,
  any sources and any cache backend that meets the port contract.
\<close>

section \<open>Runs\<close>

lemma svc_step_keeps:
  assumes mc: "managed_cache c sinv stored (sv_cache s)"
    and P: "cache_port.holds_only sinv stored (loaded_by s marshal Q) (fst sw)"
    and q: "\<And>q. op_req a = Some q \<Longrightarrow> q \<in> Q" and fl: "flight_ok s marshal Q a"
  shows "cache_port.holds_only sinv stored (loaded_by s marshal Q) (fst (svc_step s marshal np a sw))"
proof -
  obtain st w where sw: "sw = (st, w)" by (cases sw)
  have Pst: "cache_port.holds_only sinv stored (loaded_by s marshal Q) st" using P sw by simp
  show ?thesis
  proof (cases a)
    case (SvcRequest r ck f sh)
    obtain x st' w' where sv: "serve s marshal np r ck f sh (st, w) = (x, (st', w'))" by (metis prod.exhaust)
    have "f = Some (Inr (Some e)) \<Longrightarrow> loaded_by s marshal Q (req_key s r) e" for e using fl SvcRequest by simp
    from serve_keeps[OF mc Pst _ this sv] q SvcRequest show ?thesis by (simp add: sw sv)
  next
    case (SvcRefresh r t clk sclk ttl)
    have "r \<in> Q" using q SvcRefresh by simp
    then have "fst (req_loader s marshal r w) = Inr e \<Longrightarrow> loaded_by s marshal Q (req_key s r) e" for e
      using loader_clean[of s marshal r w e] by (auto simp: loaded_by_def)
    from managed_cache.refresh_keeps[OF mc Pst loaded_by_stamped this] show ?thesis by (simp add: SvcRefresh sw)
  next
    case (SvcInvalidateResource t r)
    show ?thesis
      using cache_port.invalidate_only[OF managed_cache.axioms(1)[OF mc] managed_cache.over[OF mc] Pst]
      by (simp add: SvcInvalidateResource sw InvalidateResource_def)
  next
    case (SvcInvalidateTenant t)
    show ?thesis
      using cache_port.only_flush[OF managed_cache.axioms(1)[OF mc] Pst] Pst managed_cache.over[OF mc]
      by (auto simp: SvcInvalidateTenant sw InvalidateTenant_def)
  qed
qed

lemma svc_run_keeps:
  assumes mc: "managed_cache c sinv stored (sv_cache s)"
    and P: "cache_port.holds_only sinv stored (loaded_by s marshal Q) (fst sw)"
    and ops: "\<forall>a \<in> set ops. (\<forall>q. op_req a = Some q \<longrightarrow> q \<in> Q) \<and> flight_ok s marshal Q a"
  shows "cache_port.holds_only sinv stored (loaded_by s marshal Q) (fst (fold (svc_step s marshal np) ops sw))"
  using P ops
proof (induction ops arbitrary: sw)
  case (Cons a ops)
  have "cache_port.holds_only sinv stored (loaded_by s marshal Q) (fst (svc_step s marshal np a sw))"
    using Cons.prems by (intro svc_step_keeps[OF mc]) auto
  with Cons.IH Cons.prems(2) show ?case by simp
qed simp

text \<open>Two requests that share a key ask for the same tenant, type and resource.\<close>

lemma req_key_form: "\<exists>sub var. req_key s q = cacheKeyWith s (req_class q) sub var"
  by (cases q) (auto simp: cacheKey_def)

definition plain_request :: "svc_req \<Rightarrow> bool" where
  "plain_request q \<longleftrightarrow> plain_id (cl_TenantID (req_class q)) \<and> plain_id (cl_Type (req_class q)) \<and> plain_id (cl_ResourceID (req_class q))"

definition same_subject :: "svc_req \<Rightarrow> svc_req \<Rightarrow> bool" where
  "same_subject q q' \<longleftrightarrow> cl_TenantID (req_class q) = cl_TenantID (req_class q') \<and> cl_Type (req_class q) = cl_Type (req_class q')
     \<and> cl_ResourceID (req_class q) = cl_ResourceID (req_class q')"

lemma shared_key_same_subject:
  assumes "hash_ok (sv_hash s)" "plain_request q" "req_key s q = req_key s q'"
  shows "same_subject q q'"
proof -
  obtain sub var sub' var' where "req_key s q = cacheKeyWith s (req_class q) sub var" "req_key s q' = cacheKeyWith s (req_class q') sub' var'"
    using req_key_form by blast
  with assms(3) have "cacheKeyWith s (req_class q) sub var = cacheKeyWith s (req_class q') sub' var'" by simp
  from key_String_inject[OF assms(1) _ this[unfolded cacheKeyWith_def]] show ?thesis
    using assms(2) sanitize_plain_inject[of _ "sv_hash s"] by (simp add: plain_request_def same_subject_def)
qed

text \<open>The subject of a resource answer.\<close>

lemma loadResource_subject:
  assumes "fst (loadResource s marshal env cls v w) = Inr e"
  shows "\<exists>det. marshal (project det v) = Inr (ce_Payload e) \<and> re_TenantID (rd_Resource det) = cl_TenantID cls \<and> re_ResourceID (rd_Resource det) = cl_ResourceID cls"
proof -
  obtain r w' where l: "loadResource s marshal env cls v w = (r, w')" by (cases "loadResource s marshal env cls v w")
  have *: ?thesis if "answer s marshal env cls v d fb i fan = Inr e" for d fb i fan
    using answer_Inr[OF that] Merge_status[of "sv_prec s" i "cl_TenantID cls" "cl_ResourceID cls"] by blast
  show ?thesis using l by (cases rule: loadResource_cases) (use assms l * in auto)
qed

section \<open>Properties\<close>

text \<open>C2: Tenant isolation end to end. From an empty cache, after any sequence of requests of any tenants (hits, misses, joined
  flights that carry another request's load for the same key, background refreshes, negative
  entries, invalidations, failures served stale), a reply to a request with plain identifiers carries the payload that the loader
  of some request for the same tenant, request type and resource produced; when that is a resource view, the
  payload is the projection of a record stamped with the asker's tenant and resource; and the
  reply's metadata lists every source and every warning once.\<close>

theorem served_data_is_own:
  assumes "managed_cache c sinv stored (sv_cache s)" "sinv st0" "stored st0 = {}" "hash_ok (sv_hash s)" "plain_request q"
    and "Q = insert q {r. \<exists>a \<in> set ops. op_req a = Some r}"
    and "\<forall>a \<in> insert (SvcRequest q ck fl sh) (set ops). flight_ok s marshal Q a"
    and "serve s marshal np q ck fl sh (fold (svc_step s marshal np) ops (st0, w0)) = (Inr x, sw')"
  shows "meta_ok (env_Meta x) \<and> (\<exists>q' \<in> Q. same_subject q q' \<and> (\<exists>w e0. fst (req_loader s marshal q' w) = Inr e0 \<and> env_Data x = ce_Payload e0)
     \<and> (\<forall>env v cls. q' = RResource env v cls \<longrightarrow> (\<exists>det. marshal (project det v) = Inr (env_Data x)
          \<and> re_TenantID (rd_Resource det) = cl_TenantID (req_class q) \<and> re_ResourceID (rd_Resource det) = cl_ResourceID (req_class q))))"
proof -
  note port = managed_cache.axioms(1)[OF assms(1)]
  obtain st w where run: "fold (svc_step s marshal np) ops (st0, w0) = (st, w)" by force
  obtain st' w' where sw': "sw' = (st', w')" by force
  have "cache_port.holds_only sinv stored (loaded_by s marshal Q) (fst (st0, w0))"
    using assms(2,3) by (simp add: cache_port.holds_only_def[OF port])
  from svc_run_keeps[OF assms(1) this, of ops np] assms(6,7) run
  have P: "cache_port.holds_only sinv stored (loaded_by s marshal Q) st" by auto
  have fl: "fl = Some (Inr (Some e)) \<Longrightarrow> loaded_by s marshal Q (req_key s q) e" for e using assms(7) by simp
  have "q \<in> Q" using assms(6) by simp
  from serve_keeps[OF assms(1) P this fl assms(8)[unfolded run sw']]
  obtain e where ok: "meta_ok (env_Meta x)" and e: "loaded_by s marshal Q (req_key s q) e" "\<not> ce_Negative e" "env_Data x = ce_Payload e" by auto
  then obtain q' w1 e0 where q': "q' \<in> Q" "req_key s q = req_key s q'" "fst (req_loader s marshal q' w1) = Inr e0" "ce_Payload e = ce_Payload e0"
    by (auto simp: loaded_by_def)
  have subj: "same_subject q q'" by (rule shared_key_same_subject[OF assms(4,5) q'(2)])
  show ?thesis
  proof (intro conjI ok bexI[OF _ q'(1)] subj)
    show "\<exists>w e0. fst (req_loader s marshal q' w) = Inr e0 \<and> env_Data x = ce_Payload e0" using q' e by auto
    show "\<forall>env v cls. q' = RResource env v cls \<longrightarrow> (\<exists>det. marshal (project det v) = Inr (env_Data x)
          \<and> re_TenantID (rd_Resource det) = cl_TenantID (req_class q) \<and> re_ResourceID (rd_Resource det) = cl_ResourceID (req_class q))"
      using loadResource_subject[of s marshal _ _ _ w1 e0] q' e subj by (auto simp: same_subject_def)
  qed
qed

text \<open>C8: A call-time fallback is honest. When the fetch of the routed target fails, the request either reports that original error, or the
  failure was one that makes a source unusable, the request is not strongly consistent, and the decision's fallback, another source
  that reported itself available at that moment, answered: then the answer is marked degraded, carries the fallback rule, names the fallback
  source and warns about the source that failed. The one other outcome is an internal error when that answer cannot be encoded: a fallback never
  turns an outage into a not-found.\<close>

theorem fallback_is_honest:
  assumes "route s env cls w = (Inr d, w')" "d_Target d \<noteq> TargetNone"
    and "fetch s env PFetch PInFlight cls d v = (i, fan, Some err)"
    and "\<forall>fb. fallbackDecision env cls d err = Some fb \<longrightarrow> mset (ev_finished env PFallbackFetch) = mset [0..<length (calls fb v)]"
  shows "fst (loadResource s marshal env cls v w) = Inl err
    \<or> (SourceUnusable (Some err) \<and> cl_Consistency cls \<noteq> ConsistencyStrong \<and> d_Fallback d \<noteq> d_Primary d \<and>
       d_Fallback d \<in> {SourceOperational, SourceExecution} \<and>
       sh_Available (if d_Fallback d = SourceOperational then so_opsHealth (ev_sources env PFallbackHealth)
                     else so_execHealth (ev_sources env PFallbackHealth)) \<and>
       (case fst (loadResource s marshal env cls v w) of
          Inr e \<Rightarrow> ce_Degraded e \<and> ce_RoutingRule e = ''fallback.primary_failed'' \<and> d_Fallback d \<in> set (ce_Sources e)
            \<and> (\<exists>wn \<in> set (ce_Warnings e). wa_Code wn = WarnSourceUnavailable \<and> wa_Source wn = d_Primary d)
        | Inl err' \<Rightarrow> CodeOf (Some err') = Some CodeInternal \<and> (\<exists>p x. marshal p = Inl x)))"
proof (cases "fallbackDecision env cls d err")
  case None
  then show ?thesis using assms by (simp add: loadResource_def)
next
  case (Some fb)
  note fb = fallbackDecision_Some[OF Some]
  obtain i2 fan2 e2 where f2: "fetch s env PFallbackFetch PFallbackInFlight cls fb v = (i2, fan2, e2)" by (metis prod.exhaust)
  show ?thesis
  proof (cases e2)
    case e2: (Some err2)
    then show ?thesis using assms(1,2,3) Some f2 by (simp add: loadResource_def)
  next
    case None
    let ?a = "answer s marshal env cls v fb (Some (d_Primary d)) i2 fan2"
    have res: "fst (loadResource s marshal env cls v w) = ?a" using assms(1,2,3) Some f2 None by (simp add: loadResource_def)
    have "RequiresSource fb (d_Fallback d)" using Some by (auto simp: RequiresSource_def fallbackDecision_def Let_def split: if_splits)
    then have pres: "(d_Target fb = TargetOperational \<longrightarrow> in_Operational i2 \<noteq> None) \<and> (d_Target fb = TargetExecution \<longrightarrow> in_LatestExecution i2 \<noteq> None)"
      using assms(4) Some f2 None fb by (intro fetch_required_present[of env PFallbackFetch fb v s PFallbackInFlight cls i2 fan2]) auto
    then have ne: "\<not> (in_Operational i2 = None \<and> in_LatestExecution i2 = None)" using fb by auto
    have src: "d_Fallback d \<in> set (contributingSources fb i2)" "\<not> source_IsNone (d_Fallback d)"
      using pres fb by (auto simp: contributingSources_def)
    have "case ?a of Inr e \<Rightarrow> ce_Degraded e \<and> ce_RoutingRule e = ''fallback.primary_failed'' \<and> d_Fallback d \<in> set (ce_Sources e)
            \<and> (\<exists>wn \<in> set (ce_Warnings e). wa_Code wn = WarnSourceUnavailable \<and> wa_Source wn = d_Primary d)
        | Inl err' \<Rightarrow> CodeOf (Some err') = Some CodeInternal \<and> (\<exists>p x. marshal p = Inl x)"
      using ne fb buildMeta_fellBack[of s "ev_corr env" cls fb "d_Primary d" i2 fan2] buildMeta_has_source[OF src]
      by (auto simp: answer_def Let_def warned_def split: sum.split if_splits)
    then show ?thesis using res fb by auto
  qed
qed

text \<open>C10: A strongly consistent read never depends on the cache. Two calls of the same request, on the same router state and against
  the same sources, that differ in what the cache holds, in the flights in progress and in the clock readings of the cache, give the same
  error or the same data and leave the router in the same state, for every view and also when the sources fail. When
  the manager's clock reads the same time in both calls as it stamps the loaded entry (the reply's cache age and freshness count from that stamp),
  the whole reply with its metadata is the same.\<close>

theorem strong_reads_ignore_cache:
  assumes "cl_Consistency (req_class q) = ConsistencyStrong"
  shows "map_sum id env_Data (fst (serve s marshal np q ck fl sh (st, w))) = map_sum id env_Data (fst (serve s marshal np q ck' fl' sh' (st', w)))
    \<and> snd (snd (serve s marshal np q ck fl sh (st, w))) = snd (snd (serve s marshal np q ck' fl' sh' (st', w)))
    \<and> (sk_now (ok_store (ck_load ck)) = sk_now (ok_store (ck_load ck'))
        \<longrightarrow> fst (serve s marshal np q ck fl sh (st, w)) = fst (serve s marshal np q ck' fl' sh' (st', w)))"
proof -
  have stale: "serveStale s env k (req_class q) key err x = (None, x)" for env k key err x
    using assms by (auto simp: serveStale_def split: prod.splits)
  show ?thesis unfolding serve_shape
    using assms by (cases "req_loader s marshal q w")
      (auto simp: service_load_strong reply_def stale envelopeFrom_def no_result_def Store_simps Let_def stamped_def split: sum.splits)
qed

text \<open>C9: Serving expired data is policy, never convenience. A stale reply is given only when the cause makes a source unusable
  or no source could be chosen (so never for a not-found), the tenant's rule for the request type allows it, the request is not strongly
  consistent, and the data's total age is within the staleness ceiling in force; it carries the stored payload with its aged
  freshness, and says so: degraded, with a stale-data warning, the stale-cache rule and the cache among its sources.\<close>

theorem stale_reply_is_policy:
  assumes "serveStale s env ck cls key cause st = (Some x, st')"
    and "ResolveRule (sv_cfg s) (cl_TenantID cls) (cl_Type cls) = (rl, ok)"
    and "mx = (if ru_MaxStale rl = 0 then df_MaxStale (ResolveDefaults (sv_cfg s) (cl_TenantID cls)) else ru_MaxStale rl)"
  shows "(SourceUnusable (Some cause) \<or> CodeOf (Some cause) = Some CodeNoSourceAvailable) \<and> \<not> IsNotFound (Some cause)
    \<and> ok \<and> ru_AllowStale rl \<and> cl_Consistency cls \<noteq> ConsistencyStrong
    \<and> (\<exists>entry layer. fst (GetStale (sv_cache s) (ck_stale ck) (ck_staleLayer ck) key st) = Some (entry, layer) \<and> env_Data x = ce_Payload entry
        \<and> rm_Freshness (env_Meta x) = EffectiveFreshness entry (ev_now env PReply)
        \<and> (0 < mx \<longrightarrow> fr_Age (EffectiveFreshness entry (ev_now env PReply)) \<le> mx))
    \<and> rm_Degraded (env_Meta x) \<and> rm_RoutingRule (env_Meta x) = ''degrade.stale_cache'' \<and> SourceCache \<in> set (rm_Sources (env_Meta x))
    \<and> (\<exists>wn \<in> set (rm_Warnings (env_Meta x)). wa_Code wn = WarnStaleData)"
  using assms(1)
proof (cases rule: serveStale_Some)
  case (1 entry layer)
  have "\<not> IsNotFound (Some cause)" using 1(2) by (auto simp: IsNotFound_def SourceUnusable_def)
  then show ?thesis using 1 assms(2,3) by (auto simp: RuleDegradeStaleCache_def warned_def)
qed

end
