(* ===== verification/RouterProps.thy ===== *)
theory RouterProps
  imports Router
begin

text \<open>
  What the routing chain guarantees: which rule can fire in which state, that a decision only
  targets usable sources, that pinned fields are never served by a source that does not hold
  them, and the freshness and staleness bounds behind every TTL decision.
\<close>

section \<open>What a rule leaves unchanged\<close>

abbreviation opAvail :: "evalState \<Rightarrow> bool" where
  "opAvail s \<equiv> he_Available (rq_OperationalHealth (es_req s))"

abbreviation exAvail :: "evalState \<Rightarrow> bool" where
  "exAvail s \<equiv> he_Available (rq_ExecutionHealth (es_req s))"

abbreviation es_class :: "evalState \<Rightarrow> Classification" where
  "es_class s \<equiv> rq_Classification (es_req s)"

lemma healthOf_simps [simp]:
  "healthOf s SourceOperational = rq_OperationalHealth (es_req s)"
  "healthOf s SourceExecution = rq_ExecutionHealth (es_req s)"
  "\<not> he_Available (healthOf s SourceNone)" "\<not> he_Available (healthOf s SourceUnset)"
  "\<not> he_Available (healthOf s SourceCache)"
  by (simp_all add: healthOf_def)

lemma targetFor_simps [simp]:
  "targetFor SourceOperational = TargetOperational" "targetFor SourceExecution = TargetExecution"
  "targetFor SourceNone = TargetNone" "targetFor SourceUnset = TargetNone" "targetFor SourceCache = TargetNone"
  by (simp_all add: targetFor_def)

lemma Includes_targetFor [simp]: "Includes (targetFor k) j \<longleftrightarrow> j = k \<and> (k = SourceOperational \<or> k = SourceExecution)"
  by (cases k) auto

lemma decide_sel [simp]:
  "d_Target (decide t r m p) = t" "d_Rule (decide t r m p) = r" "d_Primary (decide t r m p) = p"
  "d_Fallback (decide t r m p) = SourceUnset" "d_RequiredSources (decide t r m p) = None"
  by (simp_all add: decide_def zero_Decision_def)

text \<open>One evaluation of the freshness fixes the outcome for the rest of the chain and leaves the
  inputs alone.\<close>

lemma evaluateFreshness_frame:
  assumes "evaluateFreshness R s = (ev, s')"
  shows "es_req s' = es_req s \<and> es_rule s' = es_rule s \<and> es_defs s' = es_defs s \<and> es_preferred s' = es_preferred s
    \<and> es_fallback s' = es_fallback s \<and> es_pinned s' = es_pinned s \<and> es_freshnessDone s' \<and> es_freshness s' = ev"
  using assms by (auto simp: evaluateFreshness_def Let_def split: if_splits prod.splits option.splits)

lemma evaluateFreshness_again:
  "evaluateFreshness R s = (ev, s') \<Longrightarrow> evaluateFreshness R s' = (ev, s')"
  using evaluateFreshness_frame[of R s ev s'] by (simp add: evaluateFreshness_def)

lemma Evaluate_State_set: "ev_State (Evaluate obs ttl skew now) \<in> {FreshnessUnknown, FreshnessFresh, FreshnessStale}"
  by (simp add: Evaluate_def Let_def)

lemma Evaluate_State_cases: "ev_State (Evaluate obs ttl skew now) \<noteq> FreshnessUnknown \<Longrightarrow>
    ev_State (Evaluate obs ttl skew now) \<noteq> FreshnessStale \<Longrightarrow> ev_State (Evaluate obs ttl skew now) = FreshnessFresh"
  using Evaluate_State_set by blast

lemma Evaluate_Fresh_bound:
  "ev_State (Evaluate obs ttl skew now) = FreshnessFresh \<Longrightarrow>
     0 < ttl \<and> 0 \<le> ev_Age (Evaluate obs ttl skew now) \<and> ev_Age (Evaluate obs ttl skew now) \<le> ttl"
  by (auto simp: Evaluate_def Let_def split: if_splits)

lemma Assess_State:
  "Assess probe clk m t r ttl skew = ((ev, e), m') \<Longrightarrow>
     ev_State ev \<in> {FreshnessUnknown, FreshnessFresh, FreshnessStale}
   \<and> (ev_State ev = FreshnessFresh \<longrightarrow> e = None \<and> 0 < ttl \<and> 0 \<le> ev_Age ev \<and> ev_Age ev \<le> ttl)"
  using Evaluate_Fresh_bound
  by (auto simp: Assess_def split: prod.splits sum.splits intro: Evaluate_State_cases)

lemma unprobed_State [simp]: "ev_State (unprobed st ttl now) = st" "ev_Age (unprobed st ttl now) = 0"
  by (simp_all add: unprobed_def zero_Freshness_def zero_Evaluation_def)

text \<open>The first evaluation in a request, by cases: without a probe, or with one assessment.\<close>

lemma evaluateFreshness_first:
  assumes "\<not> es_freshnessDone s" "evaluateFreshness R s = (ev, s')"
  shows "ev_State ev \<in> {FreshnessUnknown, FreshnessFresh, FreshnessStale}"
    and "ev_State ev = FreshnessFresh \<Longrightarrow> opAvail s \<and> 0 < ru_TTL (es_rule s) \<and> 0 \<le> ev_Age ev \<and> ev_Age ev \<le> ru_TTL (es_rule s)"
    and "ru_TTL (es_rule s) \<le> 0 \<Longrightarrow> es_ageUnverified s'"
    and "es_fresh s' = es_fresh s \<or> (\<exists>m. es_fresh s = Some m \<and> es_fresh s' = Some (snd (Assess (rt_probe R) (rt_clock R) m
          (cl_TenantID (es_class s)) (cl_ResourceID (es_class s)) (ru_TTL (es_rule s)) (df_ClockSkewTolerance (es_defs s)))))"
  using assms
  by (auto simp: evaluateFreshness_def Let_def split: if_splits prod.splits option.splits dest!: Assess_State)

section \<open>Which rule fires\<close>

lemma rule_ids:
  "ruleTenantMissing s = (Some d, s') \<Longrightarrow> d_Rule d = RuleTenantMissing"
  "ruleBothUnavailable s = (Some d, s') \<Longrightarrow> d_Rule d = RuleBothUnavailable"
  "ruleFieldsExecOnly R s = (Some d, s') \<Longrightarrow> d_Rule d = RuleFieldsExecOnly"
  "ruleFieldsOpsOnly R s = (Some d, s') \<Longrightarrow> d_Rule d = RuleFieldsOpsOnly"
  "ruleFieldsSpanBoth R s = (Some d, s') \<Longrightarrow> d_Rule d = RuleFieldsSpanBoth"
  "ruleStrongConsistency s = (Some d, s') \<Longrightarrow> d_Rule d = RuleStrongConsistency"
  "rulePrimaryUnavailable s = (Some d, s') \<Longrightarrow> d_Rule d = RulePrimaryUnavailable"
  "ruleTTLFresh R s = (Some d, s') \<Longrightarrow> d_Rule d = RuleTTLFresh"
  "ruleTTLStale R s = (Some d, s') \<Longrightarrow> d_Rule d = RuleTTLStale"
  "ruleTTLUnknown R s = (Some d, s') \<Longrightarrow> d_Rule d = RuleTTLUnknown"
  "ruleDefaultPreferred s = (Some d, s') \<Longrightarrow> d_Rule d = RuleDefaultPreferred"
  by (auto simp: ruleTenantMissing_def ruleBothUnavailable_def ruleFieldsExecOnly_def ruleFieldsOpsOnly_def
      ruleFieldsSpanBoth_def ruleStrongConsistency_def rulePrimaryUnavailable_def ruleTTLFresh_def ruleTTLStale_def
      ruleTTLUnknown_def ruleDefaultPreferred_def Let_def split: if_splits prod.splits option.splits)

lemma link_fires: "link (i, fn) s = (Some d, s') \<Longrightarrow> (\<And>d s'. fn s = (Some d, s') \<Longrightarrow> d_Rule d = i) \<Longrightarrow> i \<noteq> NoRule
    \<Longrightarrow> fn s = (Some d, s')"
  by (auto simp: link_def split: prod.splits option.splits if_splits)

lemma link_id: "(\<And>d s'. fn s = (Some d, s') \<Longrightarrow> d_Rule d = i) \<Longrightarrow> i \<noteq> NoRule \<Longrightarrow> link (i, fn) s = fn s"
  by (auto simp: link_def split: prod.splits option.splits)

lemma links: "map link (rules R) = [ruleTenantMissing, ruleBothUnavailable, ruleFieldsExecOnly R, ruleFieldsOpsOnly R,
    ruleFieldsSpanBoth R, ruleStrongConsistency, rulePrimaryUnavailable, ruleTTLFresh R, ruleTTLStale R,
    ruleTTLUnknown R, ruleDefaultPreferred]"
  by (simp add: rules_def) (intro conjI ext; rule link_id; simp add: rule_ids)

text \<open>Where a rule passes, what it has established. Only rule 4 changes the working set before the
  TTL rules.\<close>

definition pin :: "evalState \<Rightarrow> evalState" where
  "pin s = s\<lparr>es_preferred := SourceOperational, es_fallback := SourceNone, es_pinned := True\<rparr>"

lemma pin_sel [simp]:
  "es_preferred (pin s) = SourceOperational" "es_fallback (pin s) = SourceNone" "es_pinned (pin s)"
  "es_req (pin s) = es_req s" "es_rule (pin s) = es_rule s" "es_defs (pin s) = es_defs s"
  "es_freshnessDone (pin s) = es_freshnessDone s" "es_fresh (pin s) = es_fresh s"
  "es_freshness (pin s) = es_freshness s"
  by (simp_all add: pin_def)

definition primary_ok :: "evalState \<Rightarrow> bool" where
  "primary_ok s \<longleftrightarrow>
     (if strings_EqualFold (ru_PreferredSource (es_rule s)) ''both'' then opAvail s \<and> exAvail s
      else source_IsNone (es_preferred s) \<or> he_Available (healthOf s (es_preferred s)))"

lemma rule_passes:
  "ruleTenantMissing s = (None, s') \<Longrightarrow> s' = s \<and> strings_TrimSpace (cl_TenantID (es_class s)) \<noteq> []"
  "ruleBothUnavailable s = (None, s') \<Longrightarrow> s' = s \<and> (opAvail s \<or> exAvail s)"
  "ruleFieldsExecOnly R s = (None, s') \<Longrightarrow> s' = s \<and> exclusiveSource R s \<noteq> (SourceExecution, True)"
  "ruleFieldsOpsOnly R s = (None, s') \<Longrightarrow>
     (if exclusiveSource R s = (SourceOperational, True) then s' = pin s \<and> opAvail s else s' = s)"
  "ruleFieldsSpanBoth R s = (None, s') \<Longrightarrow> s' = s"
  "ruleStrongConsistency s = (None, s') \<Longrightarrow> s' = s \<and> cl_Consistency (es_class s) \<noteq> ConsistencyStrong"
  "rulePrimaryUnavailable s = (None, s') \<Longrightarrow> s' = s \<and> primary_ok s"
  by (auto simp: ruleTenantMissing_def ruleBothUnavailable_def ruleFieldsExecOnly_def ruleFieldsOpsOnly_def
      ruleFieldsSpanBoth_def ruleStrongConsistency_def rulePrimaryUnavailable_def primary_ok_def pin_def Let_def
      split: if_splits prod.splits)

lemma rule_no_fallback:
  "ruleTenantMissing s = (Some d, s') \<Longrightarrow> d_Fallback d = SourceUnset"
  "ruleBothUnavailable s = (Some d, s') \<Longrightarrow> d_Fallback d = SourceUnset"
  "ruleFieldsExecOnly R s = (Some d, s') \<Longrightarrow> d_Fallback d = SourceUnset"
  "ruleFieldsOpsOnly R s = (Some d, s') \<Longrightarrow> d_Fallback d = SourceUnset"
  "ruleFieldsSpanBoth R s = (Some d, s') \<Longrightarrow> d_Fallback d = SourceUnset"
  "ruleStrongConsistency s = (Some d, s') \<Longrightarrow> d_Fallback d = SourceUnset"
  "rulePrimaryUnavailable s = (Some d, s') \<Longrightarrow> d_Fallback d = SourceUnset"
  "ruleTTLFresh R s = (Some d, s') \<Longrightarrow> d_Fallback d = SourceUnset"
  "ruleTTLStale R s = (Some d, s') \<Longrightarrow> d_Fallback d = SourceUnset"
  "ruleTTLUnknown R s = (Some d, s') \<Longrightarrow> d_Fallback d = SourceUnset"
  "ruleDefaultPreferred s = (Some d, s') \<Longrightarrow> d_Fallback d = SourceUnset"
  by (auto simp: ruleTenantMissing_def ruleBothUnavailable_def ruleFieldsExecOnly_def ruleFieldsOpsOnly_def
      ruleFieldsSpanBoth_def ruleStrongConsistency_def rulePrimaryUnavailable_def ruleTTLFresh_def ruleTTLStale_def
      ruleTTLUnknown_def ruleDefaultPreferred_def Let_def split: if_splits prod.splits option.splits)

lemma chain_Some_fired:
  "chain rs s = (Some d, s') \<Longrightarrow> \<exists>r \<in> set rs. \<exists>t. r t = (Some d, s')"
  by (induction rs arbitrary: s) (auto split: prod.splits option.splits)

lemma routed_no_fallback: "chain (map link (rules R)) s = (Some d, s') \<Longrightarrow> d_Fallback d = SourceUnset"
  using chain_Some_fired[of "map link (rules R)" s d s'] by (auto simp: links rule_no_fallback)

lemma chain_Cons_iff:
  "chain (r # rs) s = (Some d, s') \<longleftrightarrow>
     r s = (Some d, s') \<or> (\<exists>t. r s = (None, t) \<and> chain rs t = (Some d, s'))"
  by (auto split: prod.splits option.splits)

text \<open>The TTL rules share one evaluation; for a request that prefers the operational source exactly
  one of them fires.\<close>

lemma ttl_block:
  assumes "\<not> es_freshnessDone p"
    and "chain [ruleTTLFresh R, ruleTTLStale R, ruleTTLUnknown R, ruleDefaultPreferred] p = (Some d, s')"
  obtains (fresh) ev where "es_preferred p = SourceOperational" "evaluateFreshness R p = (ev, s')"
      "ev_State ev = FreshnessFresh" "d_Target d = TargetOperational" "d_Rule d = RuleTTLFresh"
  | (stale) ev where "es_preferred p = SourceOperational" "evaluateFreshness R p = (ev, s')"
      "ev_State ev = FreshnessStale" "ruleTTLStale R s' = (Some d, s')"
  | (unknown) ev where "es_preferred p = SourceOperational" "evaluateFreshness R p = (ev, s')"
      "ev_State ev = FreshnessUnknown" "ruleTTLUnknown R s' = (Some d, s')"
  | (default) "es_preferred p \<noteq> SourceOperational" "ruleDefaultPreferred p = (Some d, s')"
proof (cases "es_preferred p = SourceOperational")
  case False
  then show ?thesis using assms(2) default
    by (simp add: ruleTTLFresh_def ruleTTLStale_def ruleTTLUnknown_def split: prod.splits option.splits)
next
  case True
  obtain ev s1 where e: "evaluateFreshness R p = (ev, s1)" by (cases "evaluateFreshness R p")
  note e1 = evaluateFreshness_again[OF e] and fr = evaluateFreshness_frame[OF e]
  from fr True have p1: "es_preferred s1 = SourceOperational" by simp
  consider "ev_State ev = FreshnessFresh" | "ev_State ev = FreshnessStale" | "ev_State ev = FreshnessUnknown"
    using evaluateFreshness_first(1)[OF assms(1) e] by blast
  then show ?thesis
  proof cases
    case 1
    with assms(2) e True have "s' = s1" "d_Target d = TargetOperational" "d_Rule d = RuleTTLFresh"
      by (auto simp: ruleTTLFresh_def)
    with 1 e True fresh show ?thesis by blast
  next
    case 2
    have "\<exists>d1. ruleTTLStale R s1 = (Some d1, s1)" using 2 e1 p1 by (simp add: ruleTTLStale_def Let_def)
    then obtain d1 where d1: "ruleTTLStale R s1 = (Some d1, s1)" by blast
    with 2 assms(2) e True have "d = d1 \<and> s' = s1" by (simp add: ruleTTLFresh_def)
    with 2 e True d1 stale show ?thesis by blast
  next
    case 3
    have "\<exists>d1. ruleTTLUnknown R s1 = (Some d1, s1)"
      using 3 e1 p1 by (simp add: ruleTTLUnknown_def Let_def split: option.split)
    then obtain d1 where d1: "ruleTTLUnknown R s1 = (Some d1, s1)" by blast
    moreover have "ruleTTLStale R s1 = (None, s1)" using 3 e1 p1 by (simp add: ruleTTLStale_def)
    ultimately have "d = d1 \<and> s' = s1" using 3 assms(2) e True by (simp add: ruleTTLFresh_def)
    with 3 e True d1 unknown show ?thesis by blast
  qed
qed

text \<open>The state in which the rules from 5 on run, given that the guards and the field rules passed.\<close>

definition admitted :: "Router \<Rightarrow> evalState \<Rightarrow> evalState \<Rightarrow> bool" where
  "admitted R s p \<longleftrightarrow> strings_TrimSpace (cl_TenantID (es_class s)) \<noteq> [] \<and> (opAvail s \<or> exAvail s)
     \<and> exclusiveSource R s \<noteq> (SourceExecution, True)
     \<and> (if exclusiveSource R s = (SourceOperational, True) then p = pin s \<and> opAvail s else p = s)"

lemma routed_cases [consumes 2]:
  assumes "\<not> es_freshnessDone s" "chain (map link (rules R)) s = (Some d, s')"
  obtains (tenant) "ruleTenantMissing s = (Some d, s')"
  | (both_down) "ruleBothUnavailable s = (Some d, s')"
  | (exec_only) "opAvail s \<or> exAvail s" "ruleFieldsExecOnly R s = (Some d, s')"
  | (ops_only) "ruleFieldsOpsOnly R s = (Some d, s')"
  | (span) p where "admitted R s p" "ruleFieldsSpanBoth R p = (Some d, s')"
  | (strong) p where "admitted R s p" "ruleStrongConsistency p = (Some d, s')"
  | (primary) p where "admitted R s p" "cl_Consistency (es_class s) \<noteq> ConsistencyStrong"
      "rulePrimaryUnavailable p = (Some d, s')"
  | (ttl) p where "admitted R s p" "cl_Consistency (es_class s) \<noteq> ConsistencyStrong" "primary_ok p"
      "\<not> es_freshnessDone p"
      "chain [ruleTTLFresh R, ruleTTLStale R, ruleTTLUnknown R, ruleDefaultPreferred] p = (Some d, s')"
proof -
  from assms(2)[unfolded links] consider
    (1) "ruleTenantMissing s = (Some d, s')"
  | (2) "ruleBothUnavailable s = (Some d, s')"
  | (3) "opAvail s \<or> exAvail s" "ruleFieldsExecOnly R s = (Some d, s')"
  | (4) "ruleFieldsOpsOnly R s = (Some d, s')"
  | (5) p where "admitted R s p" "chain [ruleFieldsSpanBoth R, ruleStrongConsistency, rulePrimaryUnavailable, ruleTTLFresh R,
      ruleTTLStale R, ruleTTLUnknown R, ruleDefaultPreferred] p = (Some d, s')"
    unfolding chain_Cons_iff[of ruleTenantMissing] chain_Cons_iff[of ruleBothUnavailable]
      chain_Cons_iff[of "ruleFieldsExecOnly R"] chain_Cons_iff[of "ruleFieldsOpsOnly R"] admitted_def
    by (metis rule_passes(1-4))
  then show ?thesis
  proof cases
    case (5 p)
    have cl: "es_class p = es_class s" "es_freshnessDone p = es_freshnessDone s"
      using 5(1) by (auto simp: admitted_def split: if_splits)
    from 5(2) consider
      (a) "ruleFieldsSpanBoth R p = (Some d, s')" | (b) "ruleStrongConsistency p = (Some d, s')"
    | (c) "cl_Consistency (es_class p) \<noteq> ConsistencyStrong" "rulePrimaryUnavailable p = (Some d, s')"
    | (d) "cl_Consistency (es_class p) \<noteq> ConsistencyStrong" "primary_ok p"
        "chain [ruleTTLFresh R, ruleTTLStale R, ruleTTLUnknown R, ruleDefaultPreferred] p = (Some d, s')"
      unfolding chain_Cons_iff[of "ruleFieldsSpanBoth R"] chain_Cons_iff[of ruleStrongConsistency]
        chain_Cons_iff[of rulePrimaryUnavailable] by (metis rule_passes(5-7))
    then show ?thesis using 5(1) cl assms(1) span strong primary ttl by cases simp_all
  qed (use tenant both_down exec_only ops_only in blast)+
qed

section \<open>From the chain to a decision\<close>

lemma finish_primary_sel [simp]:
  "d_Target (finish_primary d) = d_Target d" "d_Rule (finish_primary d) = d_Rule d"
  "d_OperationalTTL (finish_primary d) = d_OperationalTTL d" "d_CacheTTL (finish_primary d) = d_CacheTTL d"
  "d_Consistency (finish_primary d) = d_Consistency d" "d_AllowStale (finish_primary d) = d_AllowStale d"
  "d_MaxStale (finish_primary d) = d_MaxStale d" "d_Fallback (finish_primary d) = d_Fallback d"
  by (simp_all add: finish_primary_def split: Target.split)

lemma finish_fallback_sel [simp]:
  "d_Target (finish_fallback r p d) = d_Target d" "d_Rule (finish_fallback r p d) = d_Rule d"
  "d_OperationalTTL (finish_fallback r p d) = d_OperationalTTL d" "d_CacheTTL (finish_fallback r p d) = d_CacheTTL d"
  "d_Consistency (finish_fallback r p d) = d_Consistency d" "d_AllowStale (finish_fallback r p d) = d_AllowStale d"
  "d_MaxStale (finish_fallback r p d) = d_MaxStale d"
  "d_Fallback (finish_fallback r p d) =
     (if source_IsNone (d_Fallback d) \<and> \<not> p \<and> snd (ParseSourceKind (ru_Fallback r))
      then fst (ParseSourceKind (ru_Fallback r)) else d_Fallback d)"
  by (simp_all add: finish_fallback_def split: prod.split)

lemma finish_maps_sel [simp]:
  "d_Target (finish_maps r d) = d_Target d" "d_Rule (finish_maps r d) = d_Rule d"
  "d_OperationalTTL (finish_maps r d) = d_OperationalTTL d" "d_CacheTTL (finish_maps r d) = d_CacheTTL d"
  "d_Consistency (finish_maps r d) = d_Consistency d" "d_AllowStale (finish_maps r d) = d_AllowStale d"
  "d_MaxStale (finish_maps r d) = d_MaxStale d" "d_Fallback (finish_maps r d) = d_Fallback d"
  by (simp_all add: finish_maps_def)

lemma finish_sel [simp]:
  "d_Target (finish d req rule defs pinned) = d_Target d"
  "d_Rule (finish d req rule defs pinned) = d_Rule d"
  "d_OperationalTTL (finish d req rule defs pinned) = ru_TTL rule"
  "d_CacheTTL (finish d req rule defs pinned) = ru_CacheTTL rule"
  "d_Consistency (finish d req rule defs pinned) = cl_Consistency (rq_Classification req)"
  "d_AllowStale (finish d req rule defs pinned) \<longleftrightarrow>
     (ru_AllowStale rule \<or> StaleAllowed defs) \<and> cl_Consistency (rq_Classification req) \<noteq> ConsistencyStrong"
  "d_MaxStale (finish d req rule defs pinned) = (if ru_MaxStale rule = 0 then df_MaxStale defs else ru_MaxStale rule)"
  "d_Fallback (finish d req rule defs pinned) =
     (if source_IsNone (d_Fallback d) \<and> \<not> pinned \<and> snd (ParseSourceKind (ru_Fallback rule))
      then fst (ParseSourceKind (ru_Fallback rule)) else d_Fallback d)"
  by (simp_all add: finish_def finish_policy_def)

lemma initState_sel [simp]:
  "es_rule (initState R req rule defs m) = rule" "es_defs (initState R req rule defs m) = defs"
  "es_class (initState R req rule defs m) = rq_Classification req"
  "opAvail (initState R req rule defs m) = he_Available (rq_OperationalHealth req)"
  "exAvail (initState R req rule defs m) = he_Available (rq_ExecutionHealth req)"
  "es_preferred (initState R req rule defs m) = fst (ParseSourceKind (ru_PreferredSource rule))"
  "es_fallback (initState R req rule defs m) = fst (ParseSourceKind (ru_Fallback rule))"
  "\<not> es_pinned (initState R req rule defs m)" "\<not> es_freshnessDone (initState R req rule defs m)"
  "es_fresh (initState R req rule defs m) = m"
  by (simp_all add: initState_def)

lemma chain_always_decides: "\<exists>d s'. chain (map link (rules R)) s = (Some d, s')"
proof -
  have "fst (ruleDefaultPreferred s) \<noteq> None" for s by (simp add: ruleDefaultPreferred_def Let_def)
  then show ?thesis unfolding links using chain_last_decides[of ruleDefaultPreferred
      "[ruleTenantMissing, ruleBothUnavailable, ruleFieldsExecOnly R, ruleFieldsOpsOnly R, ruleFieldsSpanBoth R,
        ruleStrongConsistency, rulePrimaryUnavailable, ruleTTLFresh R, ruleTTLStale R, ruleTTLUnknown R]" s] by simp
qed

lemma Select_cases:
  assumes "ResolveRule cfg (cl_TenantID (rq_Classification req)) (cl_Type (rq_Classification req)) = (rule, True)"
  obtains d0 s where
    "chain (map link (rules R)) (initState R req rule (ResolveDefaults cfg (cl_TenantID (rq_Classification req))) m) = (Some d0, s)"
    "Select R cfg req m = ((finish d0 (es_req s) rule (ResolveDefaults cfg (cl_TenantID (rq_Classification req))) (es_pinned s))
       \<lparr>d_Freshness := es_freshness s, d_ProbeFailed := es_probeFailed s\<rparr>, es_fresh s)"
proof -
  obtain d0 s where
    c: "chain (map link (rules R)) (initState R req rule (ResolveDefaults cfg (cl_TenantID (rq_Classification req))) m) = (Some d0, s)"
    using chain_always_decides by blast
  then show ?thesis using assms that by (simp add: Select_def Let_def)
qed

section \<open>Consequences along the chain\<close>

lemma ParsePreferred:
  "strings_ToLower p = ''operational'' \<Longrightarrow> ParseSourceKind p = (SourceOperational, True)"
  "strings_ToLower p = ''execution'' \<Longrightarrow> ParseSourceKind p = (SourceExecution, True)"
  "strings_ToLower p = ''both'' \<Longrightarrow> ParseSourceKind p = (SourceNone, False)"
  using TrimSpace_of_lower[of p] by (simp_all add: ParseSourceKind_def is_space_def)

lemma EqualFold_both: "strings_EqualFold p ''both'' \<longleftrightarrow> strings_ToLower p = ''both''"
proof -
  have "strings_ToLower ''both'' = ''both''" by code_simp
  then show ?thesis by (simp add: strings_EqualFold_def)
qed

text \<open>The preferred source of the rule is one of the three the validator accepts.\<close>

definition known_preferred :: "RoutingRule \<Rightarrow> bool" where
  "known_preferred r \<longleftrightarrow> strings_ToLower (ru_PreferredSource r) \<in> {''operational'', ''execution'', ''both''}"

definition start_state :: "evalState \<Rightarrow> bool" where
  "start_state s \<longleftrightarrow> \<not> es_freshnessDone s \<and> \<not> es_pinned s \<and> es_freshness s = zero_Evaluation
     \<and> es_preferred s = fst (ParseSourceKind (ru_PreferredSource (es_rule s)))
     \<and> es_fallback s = fst (ParseSourceKind (ru_Fallback (es_rule s)))"

lemma initState_start [simp]: "start_state (initState R req rule defs m)"
  by (simp add: start_state_def initState_def)

lemma start_not_done: "start_state s \<Longrightarrow> \<not> es_freshnessDone s"
  by (simp add: start_state_def)

lemma admitted_sel:
  assumes "admitted R s p"
  shows "es_req p = es_req s" "es_rule p = es_rule s" "es_defs p = es_defs s" "es_fresh p = es_fresh s"
    "es_freshness p = es_freshness s" "es_pinned p \<Longrightarrow> \<not> es_pinned s \<Longrightarrow> p = pin s"
  using assms by (auto simp: admitted_def split: if_splits)

lemma healthOf_cong: "es_req p = es_req s \<Longrightarrow> healthOf p k = healthOf s k"
  by (cases k) (simp_all add: healthOf_def)

lemma default_available:
  assumes "start_state s" "known_preferred (es_rule s)" "admitted R s p" "primary_ok p"
    and "es_preferred p \<noteq> SourceOperational" "ruleDefaultPreferred p = (Some d, s')" "Includes (d_Target d) k"
  shows "he_Available (healthOf s k)"
proof -
  have p: "p = s" using assms(3,5) by (auto simp: admitted_def split: if_splits)
  have pref: "es_preferred s = fst (ParseSourceKind (ru_PreferredSource (es_rule s)))"
    using assms(1) by (simp add: start_state_def)
  consider (b) "strings_ToLower (ru_PreferredSource (es_rule s)) = ''both''"
    | (e) "strings_ToLower (ru_PreferredSource (es_rule s)) = ''execution''"
    using assms(2,5) p pref ParsePreferred(1) by (auto simp: known_preferred_def)
  then show ?thesis
  proof cases
    case b
    then show ?thesis using assms(4,6,7) p by (auto simp: primary_ok_def EqualFold_both ruleDefaultPreferred_def Let_def)
  next
    case e
    then have "es_preferred s = SourceExecution" using pref ParsePreferred(2) by simp
    with e show ?thesis using assms(4,6,7) p by (auto simp: primary_ok_def EqualFold_both ruleDefaultPreferred_def Let_def)
  qed
qed

lemma primary_available:
  "rulePrimaryUnavailable p = (Some d, s') \<Longrightarrow> Includes (d_Target d) k \<Longrightarrow> he_Available (healthOf p k)"
  by (auto simp: rulePrimaryUnavailable_def Let_def split: if_splits)

lemma stale_available:
  "ruleTTLStale R s = (Some d, s') \<Longrightarrow> Includes (d_Target d) k \<Longrightarrow> he_Available (healthOf s' k)"
  by (auto simp: ruleTTLStale_def Let_def split: if_splits prod.splits)

lemma unknown_available:
  "ruleTTLUnknown R s = (Some d, s') \<Longrightarrow> Includes (d_Target d) k \<Longrightarrow> he_Available (healthOf s' k)"
  by (auto simp: ruleTTLUnknown_def Let_def split: if_splits prod.splits option.splits)

lemma routed_available:
  assumes "start_state s" "known_preferred (es_rule s)" "chain (map link (rules R)) s = (Some d, s')"
    and k: "Includes (d_Target d) k"
  shows "he_Available (healthOf s k)"
  using start_not_done[OF assms(1)] assms(3)
proof (cases rule: routed_cases)
  case (ttl p)
  have req: "healthOf p k = healthOf s k" using admitted_sel(1)[OF ttl(1)] by (rule healthOf_cong)
  from ttl(4,5) show ?thesis
  proof (cases rule: ttl_block)
    case (fresh ev)
    then show ?thesis using evaluateFreshness_first(2)[OF ttl(4) fresh(2,3)] k req by auto
  next
    case (stale ev)
    then show ?thesis using evaluateFreshness_frame[OF stale(2)] stale_available[OF stale(4) k] req healthOf_cong by metis
  next
    case (unknown ev)
    then show ?thesis using evaluateFreshness_frame[OF unknown(2)] unknown_available[OF unknown(4) k] req healthOf_cong by metis
  next
    case default
    then show ?thesis using default_available[OF assms(1,2) ttl(1,3) _ _ k] by blast
  qed
next
  case (primary p)
  then show ?thesis using primary_available[OF primary(3) k] healthOf_cong[OF admitted_sel(1)[OF primary(1)]] by simp
next
  case (strong p)
  then show ?thesis using k healthOf_cong[OF admitted_sel(1)[OF strong(1)]]
    by (auto simp: ruleStrongConsistency_def Let_def split: if_splits)
next
  case (span p)
  then show ?thesis using k admitted_sel(1)[OF span(1)] span(1)
    by (auto simp: ruleFieldsSpanBoth_def Let_def admitted_def split: if_splits)
qed (use k in \<open>auto simp: ruleTenantMissing_def ruleBothUnavailable_def ruleFieldsExecOnly_def ruleFieldsOpsOnly_def
    split: if_splits prod.splits\<close>)

text \<open>Rules other than the TTL rules do not touch the freshness evaluation or the manager.\<close>

lemma rule_frame:
  "ruleTenantMissing s = (x, s') \<Longrightarrow> s' = s"
  "ruleBothUnavailable s = (x, s') \<Longrightarrow> s' = s"
  "ruleFieldsExecOnly R s = (x, s') \<Longrightarrow> es_freshness s' = es_freshness s \<and> es_fresh s' = es_fresh s \<and> es_req s' = es_req s"
  "ruleFieldsOpsOnly R s = (Some d, s') \<Longrightarrow> s' = s"
  "ruleFieldsSpanBoth R s = (x, s') \<Longrightarrow> s' = s"
  "ruleStrongConsistency s = (x, s') \<Longrightarrow> s' = s"
  "rulePrimaryUnavailable s = (x, s') \<Longrightarrow> s' = s"
  "ruleDefaultPreferred s = (x, s') \<Longrightarrow> s' = s"
  by (auto simp: ruleTenantMissing_def ruleBothUnavailable_def ruleFieldsExecOnly_def ruleFieldsOpsOnly_def
      ruleFieldsSpanBoth_def ruleStrongConsistency_def rulePrimaryUnavailable_def ruleDefaultPreferred_def Let_def
      split: if_splits prod.splits)

lemma field_rules_fire:
  "ruleFieldsExecOnly R s = (Some d, s') \<Longrightarrow> exclusiveSource R s = (SourceExecution, True)
     \<and> (d_Target d = TargetNone \<or> d_Target d = TargetExecution \<and> es_pinned s')"
  "ruleFieldsOpsOnly R s = (Some d, s') \<Longrightarrow> exclusiveSource R s = (SourceOperational, True) \<and> d_Target d = TargetNone"
  by (auto simp: ruleFieldsExecOnly_def ruleFieldsOpsOnly_def split: if_splits prod.splits)

lemma guard_rules_fire:
  "ruleTenantMissing s = (Some d, s') \<Longrightarrow> d_Target d = TargetNone"
  "ruleBothUnavailable s = (Some d, s') \<Longrightarrow> d_Target d = TargetNone"
  by (auto simp: ruleTenantMissing_def ruleBothUnavailable_def split: if_splits)

lemma exclusiveSource_no_span:
  "exclusiveSource R s = (k, True) \<Longrightarrow> ruleFieldsSpanBoth R (pin s) \<noteq> (Some d, s')"
  using SourcesFor_exclusive
  by (fastforce simp: exclusiveSource_def ruleFieldsSpanBoth_def Let_def split: if_splits)

text \<open>Under the pin every remaining rule answers from the operational source or not at all.\<close>

lemma pinned_targets:
  assumes "es_preferred p = SourceOperational" "es_fallback p = SourceNone" "es_pinned p" "opAvail p"
  shows "ruleStrongConsistency p = (Some d, s') \<Longrightarrow> d_Target d = TargetOperational"
    and "rulePrimaryUnavailable p = (Some d, s') \<Longrightarrow> d_Target d = TargetOperational"
    and "ruleTTLStale R p = (Some d, s') \<Longrightarrow> d_Target d = TargetOperational \<or> d_Target d = TargetNone"
    and "ruleTTLUnknown R p = (Some d, s') \<Longrightarrow> d_Target d = TargetOperational \<or> d_Target d = TargetNone"
  using assms
  by (auto simp: ruleStrongConsistency_def rulePrimaryUnavailable_def ruleTTLStale_def ruleTTLUnknown_def Let_def
      split: if_splits prod.splits option.splits dest!: evaluateFreshness_frame)

lemma routed_ops_only:
  assumes "start_state s" "exclusiveSource R s = (SourceOperational, True)"
    and "chain (map link (rules R)) s = (Some d, s')"
  shows "d_Target d = TargetNone \<or> d_Target d = TargetOperational \<and> es_pinned s'"
  using start_not_done[OF assms(1)] assms(3)
proof (cases rule: routed_cases)
  case (span p)
  then show ?thesis using assms(2) exclusiveSource_no_span by (auto simp: admitted_def)
next
  case (strong p)
  then show ?thesis using assms(2) pinned_targets(1)[of "pin s" d s'] rule_frame(6)[OF strong(2)] by (auto simp: admitted_def)
next
  case (primary p)
  then show ?thesis using assms(2) pinned_targets(2)[of "pin s" d s'] rule_frame(7)[OF primary(3)] by (auto simp: admitted_def)
next
  case (ttl p)
  then have p: "p = pin s" "opAvail s" using assms(2) by (auto simp: admitted_def)
  from ttl(4,5) show ?thesis
  proof (cases rule: ttl_block)
    case (fresh ev)
    then show ?thesis using evaluateFreshness_frame[OF fresh(2)] p by simp
  next
    case (stale ev)
    then show ?thesis using evaluateFreshness_frame[OF stale(2)] p pinned_targets(3)[OF _ _ _ _ stale(4)] by auto
  next
    case (unknown ev)
    then show ?thesis using evaluateFreshness_frame[OF unknown(2)] p pinned_targets(4)[OF _ _ _ _ unknown(4)] by auto
  qed (simp add: p)
qed (use assms(2) field_rules_fire guard_rules_fire in auto)

lemma routed_exec_only:
  assumes "start_state s" "exclusiveSource R s = (SourceExecution, True)"
    and "chain (map link (rules R)) s = (Some d, s')"
  shows "d_Target d = TargetNone \<or> d_Target d = TargetExecution \<and> es_pinned s'"
  using start_not_done[OF assms(1)] assms(3)
  by (cases rule: routed_cases) (use assms(2) field_rules_fire guard_rules_fire in \<open>auto simp: admitted_def\<close>)

text \<open>A decision with a TTL rule comes from the TTL block, every other one leaves the freshness
  unevaluated.\<close>

lemma routed_by_ttl:
  assumes "start_state s" "chain (map link (rules R)) s = (Some d, s')"
    and "d_Rule d \<in> {RuleTTLFresh, RuleTTLStale, RuleTTLUnknown}"
  obtains p where "admitted R s p" "cl_Consistency (es_class s) \<noteq> ConsistencyStrong" "\<not> es_freshnessDone p"
    "chain [ruleTTLFresh R, ruleTTLStale R, ruleTTLUnknown R, ruleDefaultPreferred] p = (Some d, s')"
  using start_not_done[OF assms(1)] assms(2)
  by (cases rule: routed_cases) (use assms(3) rule_ids that in auto)

lemma routed_without_ttl:
  assumes "start_state s" "chain (map link (rules R)) s = (Some d, s')"
    and "d_Rule d \<notin> {RuleTTLFresh, RuleTTLStale, RuleTTLUnknown}"
  shows "es_freshness s' = es_freshness s \<and> es_fresh s' = es_fresh s"
  using start_not_done[OF assms(1)] assms(2)
proof (cases rule: routed_cases)
  case (ttl p)
  from ttl(4,5) show ?thesis
    by (cases rule: ttl_block)
      (use assms(3) admitted_sel[OF ttl(1)] in \<open>auto dest: rule_ids dest!: rule_frame(8)\<close>)
qed (auto dest: rule_frame admitted_sel(4,5))

lemma routed_fresh_bound:
  assumes "start_state s" "chain (map link (rules R)) s = (Some d, s')" "d_Rule d = RuleTTLFresh"
  shows "d_Target d = TargetOperational \<and> ev_State (es_freshness s') = FreshnessFresh \<and> 0 < ru_TTL (es_rule s)
    \<and> 0 \<le> ev_Age (es_freshness s') \<and> ev_Age (es_freshness s') \<le> ru_TTL (es_rule s)"
proof -
  have "d_Rule d \<in> {RuleTTLFresh, RuleTTLStale, RuleTTLUnknown}" using assms(3) by simp
  from assms(1,2) this obtain p where p: "admitted R s p" "\<not> es_freshnessDone p"
    "chain [ruleTTLFresh R, ruleTTLStale R, ruleTTLUnknown R, ruleDefaultPreferred] p = (Some d, s')"
    by (rule routed_by_ttl)
  from p(2,3) show ?thesis
  proof (cases rule: ttl_block)
    case (fresh ev)
    then show ?thesis using evaluateFreshness_first(2)[OF p(2) fresh(2)] evaluateFreshness_frame[OF fresh(2)]
      admitted_sel(2)[OF p(1)] by simp
  qed (use assms(3) rule_ids in auto)
qed

lemma stale_served_bound:
  assumes "ruleTTLStale R s = (Some d, s')" "d_Target d = TargetOperational" "es_fallback s \<noteq> SourceOperational"
    and "evaluateFreshness R s = (ev, s)"
  shows "es_allowStale s \<and> \<not> (es_maxStale s > 0 \<and> (es_ageUnverified s \<or> ev_Age ev > es_maxStale s))"
  using assms by (cases "es_fallback s") (auto simp: ruleTTLStale_def Let_def split: if_splits)

lemma routed_stale_bound:
  assumes "start_state s" "chain (map link (rules R)) s = (Some d, s')" "d_Rule d = RuleTTLStale"
    and "d_Target d = TargetOperational" "es_fallback s \<noteq> SourceOperational"
  shows "es_allowStale s
    \<and> (es_maxStale s > 0 \<longrightarrow> 0 < ru_TTL (es_rule s) \<and> ev_Age (es_freshness s') \<le> es_maxStale s)"
proof -
  have "d_Rule d \<in> {RuleTTLFresh, RuleTTLStale, RuleTTLUnknown}" using assms(3) by simp
  from assms(1,2) this obtain p where p: "admitted R s p" "\<not> es_freshnessDone p"
    "chain [ruleTTLFresh R, ruleTTLStale R, ruleTTLUnknown R, ruleDefaultPreferred] p = (Some d, s')"
    by (rule routed_by_ttl)
  from p(2,3) show ?thesis
  proof (cases rule: ttl_block)
    case (stale ev)
    have fr: "es_req s' = es_req s" "es_rule s' = es_rule s" "es_defs s' = es_defs s" "es_fallback s' \<noteq> SourceOperational"
      "es_freshness s' = ev"
      using evaluateFreshness_frame[OF stale(2)] admitted_sel[OF p(1)] p(1) assms(5)
      by (auto simp: admitted_def split: if_splits)
    then have "es_allowStale s' = es_allowStale s" "es_maxStale s' = es_maxStale s"
      by (simp_all add: es_allowStale_def es_maxStale_def)
    then show ?thesis
      using stale_served_bound[OF stale(4) assms(4) fr(4) evaluateFreshness_again[OF stale(2)]] fr
        evaluateFreshness_first(3)[OF p(2) stale(2)] admitted_sel(2)[OF p(1)] by force
  qed (use assms(3) rule_ids in auto)
qed

lemma routed_manager:
  assumes "start_state s" "chain (map link (rules R)) s = (Some d, s')"
  shows "es_fresh s' = es_fresh s \<or> (\<exists>m. es_fresh s = Some m \<and> es_fresh s' = Some (snd (Assess (rt_probe R) (rt_clock R) m
     (cl_TenantID (es_class s)) (cl_ResourceID (es_class s)) (ru_TTL (es_rule s)) (df_ClockSkewTolerance (es_defs s)))))"
proof (cases "d_Rule d \<in> {RuleTTLFresh, RuleTTLStale, RuleTTLUnknown}")
  case True
  with assms obtain p where p: "admitted R s p" "\<not> es_freshnessDone p"
    "chain [ruleTTLFresh R, ruleTTLStale R, ruleTTLUnknown R, ruleDefaultPreferred] p = (Some d, s')"
    by (rule routed_by_ttl)
  note sel = admitted_sel[OF p(1)]
  from p(2,3) show ?thesis
    by (cases rule: ttl_block) (use sel in \<open>cases "es_fresh s";
      auto dest!: rule_frame(8) evaluateFreshness_first(4)[OF p(2)]\<close>)+
qed (use routed_without_ttl[OF assms] in blast)

end
