(* ===== verification/RoutingPolicy.thy ===== *)
theory RoutingPolicy
  imports RouterProps ConfigLoad
begin

text \<open>
  The routing guarantees at the level of \<^verbatim>\<open>Router.Select\<close>, under a configuration that passed
  \<^verbatim>\<open>Validate\<close> where that matters, with an example request on the built-in configuration.
\<close>

section \<open>Lifting the chain to Select\<close>

abbreviation health_of :: "Request \<Rightarrow> SourceKind \<Rightarrow> bool" where
  "health_of req k \<equiv> (if k = SourceOperational then he_Available (rq_OperationalHealth req)
     else k = SourceExecution \<and> he_Available (rq_ExecutionHealth req))"

abbreviation resolved_rule :: "Config \<Rightarrow> Request \<Rightarrow> RoutingRule \<times> bool" where
  "resolved_rule cfg req \<equiv> ResolveRule cfg (cl_TenantID (rq_Classification req)) (cl_Type (rq_Classification req))"

lemma Select_unresolved:
  "\<not> snd (resolved_rule cfg req) \<Longrightarrow>
     d_Target (fst (Select R cfg req m)) = TargetNone \<and> d_Rule (fst (Select R cfg req m)) = RuleUnconfigured
   \<and> snd (Select R cfg req m) = m"
  by (cases "resolved_rule cfg req") (simp add: Select_def Let_def)

text \<open>Either no rule is configured, or the decision is the one the chain took from the start state.\<close>

lemma Select_decomp:
  obtains (unresolved) "d_Target (fst (Select R cfg req m)) = TargetNone"
      "d_Rule (fst (Select R cfg req m)) = RuleUnconfigured" "snd (Select R cfg req m) = m"
      "\<not> snd (resolved_rule cfg req)"
  | (resolved) rule defs s d0 s' where "resolved_rule cfg req = (rule, True)"
      "defs = ResolveDefaults cfg (cl_TenantID (rq_Classification req))"
      "s = initState R req rule defs m" "chain (map link (rules R)) s = (Some d0, s')"
      "Select R cfg req m = ((finish d0 (es_req s') rule defs (es_pinned s'))
         \<lparr>d_Freshness := es_freshness s', d_ProbeFailed := es_probeFailed s'\<rparr>, es_fresh s')"
proof (cases "snd (resolved_rule cfg req)")
  case False
  then show ?thesis using Select_unresolved unresolved by blast
next
  case True
  then obtain rule where "resolved_rule cfg req = (rule, True)" by (cases "resolved_rule cfg req") simp
  then show ?thesis by (rule Select_cases[where R = R and m = m]) (use resolved \<open>resolved_rule cfg req = (rule, True)\<close> in blast)
qed

lemma routed_req:
  assumes "start_state s" "chain (map link (rules R)) s = (Some d, s')"
  shows "es_req s' = es_req s"
  using start_not_done[OF assms(1)] assms(2)
proof (cases rule: routed_cases)
  case (ttl p)
  from ttl(4,5) show ?thesis
    by (cases rule: ttl_block)
      (use admitted_sel(1)[OF ttl(1)] in \<open>auto dest!: rule_frame(8) evaluateFreshness_frame\<close>)
qed (auto dest: rule_frame admitted_sel(1))

lemma validated_known_preferred:
  "Validate cfg = [] \<Longrightarrow> ResolveRule cfg t q = (rule, True) \<Longrightarrow> known_preferred rule"
proof -
  assume v: "Validate cfg = []" and r: "ResolveRule cfg t q = (rule, True)"
  have "rule_base_ok rule" using r
  proof (cases rule: ResolveRule_cases)
    case (1 base)
    then show ?thesis using Validate_rule_ok[OF v] by (simp add: rule_ok_def)
  next
    case (2 base ov rc tr)
    then show ?thesis using Validate_rule_ok[OF v] Validate_patch_ok[OF v]
      by (auto simp: rule_ok_def intro!: mergeTenantRule_base_ok)
  qed
  then show ?thesis by (simp add: rule_base_ok_def known_preferred_def)
qed

lemma exclusiveSource_init:
  "exclusiveSource R (initState R req rule defs m) = ExclusiveTo (rt_catalog R) (cl_RequiredFields (rq_Classification req))
    \<or> cl_RequiredFields (rq_Classification req) = []"
  by (simp add: exclusiveSource_def Let_def initState_def)

lemma exclusive_nonempty: "ExclusiveTo c fs = (k, True) \<Longrightarrow> fs \<noteq> []"
  by (auto simp: ExclusiveTo_iff)

section \<open>An example request\<close>

definition example_router :: Router where
  "example_router = \<lparr>rt_catalog = NewFieldCatalog Default_Precedence, rt_probe = \<lambda>_ _. Inr example_obs,
     rt_clock = example_clock, rt_wall = 5000 * second\<rparr>"

definition example_classification :: Classification where
  "example_classification = \<lparr>cl_Type = ''resource_status'', cl_TenantID = ''acme'', cl_ResourceID = ''r1'',
     cl_ExecutionID = [], cl_RequiredFields = [''status''], cl_Consistency = ConsistencyBounded,
     cl_MaxLatency = 0, cl_IncludeAudit = False, cl_Limit = 25, cl_Cursor = []\<rparr>"

definition example_request :: Request where
  "example_request = \<lparr>rq_Classification = example_classification,
     rq_OperationalHealth = \<lparr>he_Available = True, he_Detail = ''HEALTHY''\<rparr>,
     rq_ExecutionHealth = \<lparr>he_Available = True, he_Detail = ''HEALTHY''\<rparr>, rq_Now = 5000 * second\<rparr>"

definition example_configuration_request :: Request where
  "example_configuration_request = example_request\<lparr>rq_Classification := example_classification
     \<lparr>cl_Type := ''resource_configuration'', cl_RequiredFields := [''configuration'']\<rparr>\<rparr>"

lemma Select_available:
  assumes "Validate cfg = []" "Includes (d_Target (fst (Select R cfg req m))) k"
  shows "health_of req k"
proof (cases rule: Select_decomp[of R cfg req m])
  case unresolved
  then show ?thesis using assms(2) by simp
next
  case (resolved rule defs s d0 s')
  have "he_Available (healthOf s k)"
  proof (rule routed_available)
    show "start_state s" "known_preferred (es_rule s)"
      using resolved validated_known_preferred[OF assms(1)] by simp_all
    show "chain (map link (rules R)) s = (Some d0, s')" by (rule resolved(4))
    show "Includes (d_Target d0) k" using assms(2) resolved(5) by simp
  qed
  then show ?thesis using resolved(3) by (cases k) auto
qed

section \<open>Properties\<close>

text \<open>C5: Under a validated configuration a routing decision never targets a source that the
  resilience layer reports unavailable; in particular, with both sources down it targets none.\<close>

theorem select_targets_available:
  assumes "Validate cfg = []" "Includes (d_Target (fst (Select R cfg req m))) k"
  shows "health_of req k"
  using assms by (rule Select_available)

theorem select_targets_available_witness:
  "d_Target (fst (Select example_router Default example_request None)) = TargetOperational
   \<and> health_of example_request SourceOperational"
proof -
  have t: "d_Target (fst (Select example_router Default example_request None)) = TargetOperational" by code_simp
  then show ?thesis
    using select_targets_available[OF Default_validates, of example_router example_request None SourceOperational] by simp
qed

text \<open>C12: A request whose fields only one source supplies is routed to that source or to none, and a decision that names the
  source carries no fallback to one that cannot supply the fields. (A decision that names no source may still carry the rule's
  fallback; the service refuses such a request without looking at it.)\<close>

theorem select_respects_field_pins:
  assumes "ExclusiveTo (rt_catalog R) (cl_RequiredFields (rq_Classification req)) = (k, True)"
    and "k = SourceOperational \<or> k = SourceExecution"
  shows "d_Target (fst (Select R cfg req m)) = TargetNone
    \<or> d_Target (fst (Select R cfg req m)) = targetFor k \<and> source_IsNone (d_Fallback (fst (Select R cfg req m)))"
proof (cases rule: Select_decomp[of R cfg req m])
  case (resolved rule defs s d0 s')
  have e: "exclusiveSource R s = (k, True)"
    using resolved(3) exclusiveSource_init exclusive_nonempty[OF assms(1)] assms(1) by metis
  have st: "start_state s" using resolved(3) by simp
  have "d_Target d0 = TargetNone \<or> d_Target d0 = targetFor k \<and> es_pinned s'"
    using assms(2) routed_ops_only[OF st _ resolved(4)] routed_exec_only[OF st _ resolved(4)] e by auto
  then show ?thesis using resolved(5) routed_no_fallback[OF resolved(4)] by auto
qed simp

theorem select_respects_field_pins_witness:
  "d_Target (fst (Select example_router Default example_configuration_request None)) = TargetNone
    \<or> d_Target (fst (Select example_router Default example_configuration_request None)) = TargetOperational
      \<and> source_IsNone (d_Fallback (fst (Select example_router Default example_configuration_request None)))"
proof -
  have "ExclusiveTo (rt_catalog example_router) (cl_RequiredFields (rq_Classification example_configuration_request))
      = (SourceOperational, True)" by code_simp
  from select_respects_field_pins[OF this] show ?thesis by simp
qed

text \<open>A request without a tenant is refused before any source is asked: the target is none and
  the freshness manager is untouched.\<close>

theorem select_refuses_blank_tenant:
  assumes "strings_TrimSpace (cl_TenantID (rq_Classification req)) = []"
  shows "d_Target (fst (Select R cfg req m)) = TargetNone \<and> snd (Select R cfg req m) = m"
proof (cases rule: Select_decomp[of R cfg req m])
  case (resolved rule defs s d0 s')
  have "ruleTenantMissing s = (Some d0, s')"
    using resolved(3,4) assms unfolding links chain_Cons_iff[of ruleTenantMissing]
    by (auto dest!: rule_passes(1))
  then show ?thesis using resolved guard_rules_fire(1)[of s d0 s'] rule_frame(1)[of s "Some d0" s'] by auto
qed simp

theorem select_refuses_blank_tenant_witness:
  "d_Target (fst (Select example_router Default
     (example_request\<lparr>rq_Classification := example_classification\<lparr>cl_TenantID := ''  ''\<rparr>\<rparr>) (Some (NewManager True 1)))) = TargetNone"
proof -
  have "strings_TrimSpace ''  '' = []" by code_simp
  then show ?thesis
    using select_refuses_blank_tenant[of "example_request\<lparr>rq_Classification := example_classification\<lparr>cl_TenantID := ''  ''\<rparr>\<rparr>"
        example_router Default "Some (NewManager True 1)"] by simp
qed

text \<open>A strongly consistent request never takes a TTL rule, is not probed, and its decision forbids
  serving stale data, whatever the rule and the tenant allow.\<close>

theorem select_strong_reads_live:
  assumes "cl_Consistency (rq_Classification req) = ConsistencyStrong"
  shows "d_Rule (fst (Select R cfg req m)) \<notin> {RuleTTLFresh, RuleTTLStale, RuleTTLUnknown}
    \<and> snd (Select R cfg req m) = m \<and> \<not> d_AllowStale (fst (Select R cfg req m))"
proof (cases rule: Select_decomp[of R cfg req m])
  case unresolved
  then show ?thesis using assms by (cases "resolved_rule cfg req") (auto simp: Select_def Let_def)
next
  case (resolved rule defs s d0 s')
  have st: "start_state s" using resolved(3) by simp
  have "d_Rule d0 \<notin> {RuleTTLFresh, RuleTTLStale, RuleTTLUnknown}"
    using routed_by_ttl[OF st resolved(4)] assms resolved(3) by (metis initState_sel(3))
  moreover have "es_fresh s' = m" using routed_without_ttl[OF st resolved(4) calculation] resolved(3) by simp
  moreover have "cl_Consistency (es_class s') = ConsistencyStrong"
    using routed_req[OF st resolved(4)] resolved(3) assms by simp
  ultimately show ?thesis using resolved(5) by simp
qed

theorem select_strong_reads_live_witness:
  "\<not> d_AllowStale (fst (Select example_router Default (example_request\<lparr>rq_Classification :=
      example_classification\<lparr>cl_Consistency := ConsistencyStrong\<rparr>\<rparr>) (Some (NewManager True 1))))"
  using select_strong_reads_live[of "example_request\<lparr>rq_Classification :=
      example_classification\<lparr>cl_Consistency := ConsistencyStrong\<rparr>\<rparr>" example_router Default "Some (NewManager True 1)"]
  by simp

text \<open>C14: When the decision rests on the TTL rule for fresh data, the operational source is the target,
  the request type has a positive TTL, and the age the decision reports is within it.\<close>

theorem select_fresh_within_ttl:
  assumes "d_Rule (fst (Select R cfg req m)) = RuleTTLFresh"
  shows "d_Target (fst (Select R cfg req m)) = TargetOperational
    \<and> ev_State (d_Freshness (fst (Select R cfg req m))) = FreshnessFresh
    \<and> 0 \<le> ev_Age (d_Freshness (fst (Select R cfg req m)))
    \<and> ev_Age (d_Freshness (fst (Select R cfg req m))) \<le> d_OperationalTTL (fst (Select R cfg req m))
    \<and> 0 < d_OperationalTTL (fst (Select R cfg req m))"
proof (cases rule: Select_decomp[of R cfg req m])
  case (resolved rule defs s d0 s')
  have "start_state s" "d_Rule d0 = RuleTTLFresh" using resolved assms by simp_all
  from routed_fresh_bound[OF this(1) resolved(4) this(2)] show ?thesis using resolved by simp
qed (use assms in simp)

definition example_fresh_router :: Router where
  "example_fresh_router = example_router\<lparr>rt_probe := \<lambda>_ _. Inr (example_obs\<lparr>ob_SourceTime := 1004 * second\<rparr>)\<rparr>"

theorem select_fresh_within_ttl_witness:
  "ev_Age (d_Freshness (fst (Select example_fresh_router Default example_request (Some (NewManager True 1))))) \<le> 10 * second"
proof -
  have "d_Rule (fst (Select example_fresh_router Default example_request (Some (NewManager True 1)))) = RuleTTLFresh"
    by code_simp
  moreover have "d_OperationalTTL (fst (Select example_fresh_router Default example_request (Some (NewManager True 1)))) = 10 * second"
    by code_simp
  ultimately show ?thesis using select_fresh_within_ttl by metis
qed

text \<open>C13: Operational data past its TTL is served by the stale rule only when policy allows it, the request
  is not strongly consistent, and the measured age is within the staleness ceiling (the rule's
  \<^verbatim>\<open>max_stale\<close> if positive, else the tenant's default; the ceiling that the decision reports, when it reports one); with a
  ceiling in force and no measured age (a TTL of zero) it is never served. This holds for rules
  whose configured fallback is not the operational source itself: validation accepts a rule that names
  that source twice, which then serves stale data as its own fallback.\<close>

theorem select_stale_within_ceiling:
  assumes "d_Rule (fst (Select R cfg req m)) = RuleTTLStale"
    and "d_Target (fst (Select R cfg req m)) = TargetOperational"
    and "fst (ParseSourceKind (ru_Fallback (fst (resolved_rule cfg req)))) \<noteq> SourceOperational"
    and "mx = (if 0 < ru_MaxStale (fst (resolved_rule cfg req)) then ru_MaxStale (fst (resolved_rule cfg req))
               else df_MaxStale (ResolveDefaults cfg (cl_TenantID (rq_Classification req))))"
  shows "d_AllowStale (fst (Select R cfg req m)) \<and> d_Consistency (fst (Select R cfg req m)) \<noteq> ConsistencyStrong
    \<and> (0 < mx \<longrightarrow>
         0 < d_OperationalTTL (fst (Select R cfg req m))
       \<and> ev_Age (d_Freshness (fst (Select R cfg req m))) \<le> mx)
    \<and> (0 < d_MaxStale (fst (Select R cfg req m)) \<longrightarrow> d_MaxStale (fst (Select R cfg req m)) = mx)"
proof (cases rule: Select_decomp[of R cfg req m])
  case (resolved rule defs s d0 s')
  have st: "start_state s" and r: "d_Rule d0 = RuleTTLStale" "d_Target d0 = TargetOperational" "es_fallback s \<noteq> SourceOperational"
    using resolved assms by simp_all
  have req: "es_class s' = rq_Classification req" using routed_req[OF st resolved(4)] resolved(3) by simp
  have "es_maxStale s = mx" using assms(4) resolved(1,2,3) by (simp add: es_maxStale_def)
  moreover have "es_allowStale s \<longrightarrow> cl_Consistency (rq_Classification req) \<noteq> ConsistencyStrong
      \<and> (ru_AllowStale rule \<or> StaleAllowed defs)"
    using resolved(3) by (simp add: es_allowStale_def)
  ultimately show ?thesis using routed_stale_bound[OF st resolved(4) r] resolved req assms(4) by (auto split: if_splits)
qed (use assms in simp)

definition example_stale_router :: Router where
  "example_stale_router = example_router\<lparr>rt_probe := \<lambda>_ _. Inr (example_obs\<lparr>ob_SourceTime := 1060 * second\<rparr>)\<rparr>"

theorem select_stale_within_ceiling_witness:
  "d_Target (fst (Select example_stale_router Default example_configuration_request (Some (NewManager True 1)))) = TargetOperational
   \<and> ev_Age (d_Freshness (fst (Select example_stale_router Default example_configuration_request (Some (NewManager True 1))))) \<le> 300 * second"
proof -
  let ?d = "fst (Select example_stale_router Default example_configuration_request (Some (NewManager True 1)))"
  have 1: "d_Rule ?d = RuleTTLStale" by code_simp
  have 2: "d_Target ?d = TargetOperational" by code_simp
  have 3: "fst (ParseSourceKind (ru_Fallback (fst (resolved_rule Default example_configuration_request)))) \<noteq> SourceOperational" by code_simp
  have 4: "300 * second = (if 0 < ru_MaxStale (fst (resolved_rule Default example_configuration_request)) then ru_MaxStale (fst (resolved_rule Default example_configuration_request))
      else df_MaxStale (ResolveDefaults Default (cl_TenantID (rq_Classification example_configuration_request))))" by code_simp
  have 5: "0 < 300 * second" by (simp add: second_def)
  from select_stale_within_ceiling[OF 1 2 3 4] 2 5 show ?thesis by simp
qed

text \<open>One routing decision assesses freshness at most once, and only for the request's own tenant and
  resource under its own TTL: the manager is left as it was or is the result of that assessment.\<close>

theorem select_probes_at_most_once:
  "snd (Select R cfg req m) = m
   \<or> (\<exists>m0. m = Some m0 \<and> snd (Select R cfg req m) =
        Some (snd (Assess (rt_probe R) (rt_clock R) m0 (cl_TenantID (rq_Classification req))
          (cl_ResourceID (rq_Classification req)) (ru_TTL (fst (resolved_rule cfg req)))
          (df_ClockSkewTolerance (ResolveDefaults cfg (cl_TenantID (rq_Classification req)))))))"
proof (cases rule: Select_decomp[of R cfg req m])
  case (resolved rule defs s d0 s')
  have "start_state s" using resolved(3) by simp
  from routed_manager[OF this resolved(4)] show ?thesis using resolved by auto
qed simp

end
