(* ===== verification/Deployment.thy ===== *)
theory Deployment
  imports Lifecycle RoutingPolicy
begin

text \<open>
  The service as \<^verbatim>\<open>cmd/bff/main.go\<close> wires it: the routing engine behind the router port, the field catalogue and
  the precedence policy of the same configuration, the in-process cache behind the manager. The properties here need both the
  engine and the lifecycle; the example deployment at the end runs whole requests.
\<close>

section \<open>Wiring\<close>

type_synonym routing_state = "FreshnessEval.Manager option"

definition engine_port :: "Router \<Rightarrow> Config \<Rightarrow> routing_state router_port" where
  "engine_port R cfg req m = (case Select R cfg req m of (d, m') \<Rightarrow> (Inr d, m'))"

definition wired :: "Router \<Rightarrow> Config \<Rightarrow> (string \<Rightarrow> string) \<Rightarrow> (time, 'p Memory, 'p, routing_state) Service" where
  "wired R cfg hash = \<lparr>sv_cfg = cfg, sv_router = engine_port R cfg, sv_prec = NewPrecedence (cfg_Precedence cfg),
     sv_catalog = Some (rt_catalog R), sv_cache = CacheManager.NewManager (Some memory_port) None (cfg_Cache cfg), sv_hash = hash\<rparr>"

text \<open>What a source's health port says.\<close>

definition up :: "Sources \<Rightarrow> SourceKind \<Rightarrow> bool" where
  "up so k = (case k of SourceOperational \<Rightarrow> sh_Available (so_opsHealth so) | SourceExecution \<Rightarrow> sh_Available (so_execHealth so) | _ \<Rightarrow> False)"

section \<open>Lemmas\<close>

lemma route_wired:
  assumes "sv_router s = engine_port R cfg" "route s env cls w = (Inr d, w')"
  obtains req where "rq_OperationalHealth req = toRouterHealth (so_opsHealth (ev_sources env PRoute))"
    "rq_ExecutionHealth req = toRouterHealth (so_execHealth (ev_sources env PRoute))" "rq_Classification req = cls" "Select R cfg req w = (d, w')"
  using assms by (auto simp: route_def engine_port_def split: prod.splits intro: that[rotated -1])

lemma route_available:
  assumes "sv_router s = engine_port R cfg" "Validate cfg = []" "route s env cls w = (Inr d, w')" "Includes (d_Target d) k"
  shows "up (ev_sources env PRoute) k"
proof -
  obtain req where q: "rq_OperationalHealth req = toRouterHealth (so_opsHealth (ev_sources env PRoute))"
      "rq_ExecutionHealth req = toRouterHealth (so_execHealth (ev_sources env PRoute))" "Select R cfg req w = (d, w')"
    using route_wired[OF assms(1,3)] by metis
  have "Includes (d_Target (fst (Select R cfg req w))) k" using assms(4) q by simp
  from Select_available[OF assms(2) this] show ?thesis
    using q assms(4) by (cases k) (auto simp: up_def toRouterHealth_def elim: Includes.elims)
qed

section \<open>An example deployment\<close>

definition example_health :: "bool \<Rightarrow> SourceHealth" where
  "example_health b = \<lparr>sh_Available = b, sh_Detail = ''HEALTHY'', sh_LastError = [], sh_CheckedAt = 0\<rparr>"

definition example_execution :: "bool \<Rightarrow> string \<Rightarrow> string \<Rightarrow> Execution" where
  "example_execution audit tenant res = zero_Execution\<lparr>ex_ExecutionID := ''e1'', ex_TenantID := tenant, ex_ResourceID := res, ex_Status := ExecCompleted,
     ex_Audit := (if audit then [\<lparr>ae_At = 4990 * second, ae_Actor = ''root'', ae_Action = ''approve'', ae_Details = ''secret''\<rparr>] else [])\<rparr>"

definition example_sources :: "bool \<Rightarrow> bool \<Rightarrow> Sources" where
  "example_sources opsUp execUp = \<lparr>so_opsHealth = example_health True, so_execHealth = example_health execUp,
     so_GetResource = (\<lambda>t r opt dl. if opsUp then Inr (zero_Resource\<lparr>re_TenantID := t, re_ResourceID := r, re_Status := StatusActive, re_ObservedAt := 4999 * second\<rparr>,
        zero_Freshness\<lparr>fr_State := FreshnessFresh, fr_ObservedAt := 4999 * second, fr_EvaluatedAt := 5000 * second\<rparr>) else Inl ErrCircuitOpen),
     so_GetResourceState = (\<lambda>t r dl. if opsUp then Inr (zero_Resource\<lparr>re_TenantID := t, re_ResourceID := r, re_Status := StatusActive, re_ObservedAt := 4999 * second\<rparr>,
        zero_Freshness\<lparr>fr_State := FreshnessFresh, fr_ObservedAt := 4999 * second, fr_EvaluatedAt := 5000 * second\<rparr>) else Inl ErrCircuitOpen),
     so_GetLatestExecution = (\<lambda>t r dl. if execUp then Inr (example_execution False t r) else Inl ErrCircuitOpen),
     so_GetExecution = (\<lambda>t x opt dl. if execUp then Inr (example_execution (ro_IncludeAudit opt) t ''r1'') else Inl ErrCircuitOpen),
     so_ListExecutions = (\<lambda>t r pg opt dl. if execUp then Inr \<lparr>el_ResourceID = r, el_Items = [example_execution (ro_IncludeAudit opt) t r],
        el_Total = 1, el_NextCursor = []\<rparr> else Inl ErrCircuitOpen),
     so_latency = (\<lambda>_. 1)\<rparr>"

definition example_env :: "bool \<Rightarrow> bool \<Rightarrow> time \<Rightarrow> nat \<Rightarrow> Env" where
  "example_env opsUp execUp t n = \<lparr>ev_ctx = None, ev_corr = ''c1'', ev_elapsed = 0, ev_sources = (\<lambda>_. example_sources opsUp execUp),
     ev_now = (\<lambda>_. t), ev_started = (\<lambda>_ _. t), ev_finished = (\<lambda>_. [0..<n])\<rparr>"

definition example_clocks :: "time \<Rightarrow> time CacheClocks" where
  "example_clocks t = \<lparr>ck_load = demo_load_clock t, ck_stale = t, ck_staleLayer = t, ck_negNow = t, ck_neg = \<lparr>sk_now = t, sk_set = t\<rparr>\<rparr>"

definition example_service :: "(time, payload Memory, payload, routing_state) Service" where
  "example_service = wired example_fresh_router Default demo_hash"

definition example_state :: "payload Memory \<times> routing_state" where
  "example_state = (MemoryCache.NewMemory 4, Some (FreshnessEval.NewManager True 1))"

definition nil_payload :: payload where "nil_payload = PExecution zero_Execution"

definition example_input :: "string \<Rightarrow> bool \<Rightarrow> Input" where
  "example_input view audit = \<lparr>in_Route = ''/api/v1/resources/{resourceId}'' @ view, in_Method = ''GET'', in_TenantID = ''acme'', in_ResourceID = ''r1'',
     in_ExecutionID = [], in_RequestedFields = [], in_RequestedConsistency = [], in_IncludeAudit = audit, in_Limit = 0, in_Cursor = []\<rparr>"

definition example_class :: "string \<Rightarrow> bool \<Rightarrow> Classification" where
  "example_class view audit = (case Classify Default (rt_catalog example_fresh_router) (example_input view audit) of Inr c \<Rightarrow> c | Inl _ \<Rightarrow> example_classification)"

definition example_details :: "bool \<Rightarrow> time \<Rightarrow> svc_req" where
  "example_details audit t = RResource (example_env True True t 3) viewDetails (example_class ''/details'' audit)"

definition example_serve :: "svc_req \<Rightarrow> time \<Rightarrow> payload Memory \<times> routing_state \<Rightarrow> (goerr + payload Envelope) \<times> (payload Memory \<times> routing_state)" where
  "example_serve q t = serve example_service Inr nil_payload q (example_clocks t) None False"

section \<open>Properties\<close>

text \<open>C7: No resource view reaches for a source that is known to be down. With the routing engine behind the service and a validated
  configuration, every source that the answer of a resource view (status, configuration, details, full) names was reported available by its
  health port: at routing time, or, for the answer of a call-time fallback, at the check before the fallback; the execution
  source named through the in-flight lookup was reported available right before that lookup. The execution views are not covered: they call the
  execution source whatever source the decision names.\<close>

theorem answers_come_from_available_sources:
  assumes "sv_router s = engine_port R cfg" "Validate cfg = []" "fst (loadResource s marshal env cls v w) = Inr e"
    and "\<forall>d w'. route s env cls w = (Inr d, w') \<longrightarrow> set (ev_finished env PFetch) \<subseteq> {..<length (calls d v)}
       \<and> (\<forall>err fb. fallbackDecision env cls d err = Some fb \<longrightarrow> set (ev_finished env PFallbackFetch) \<subseteq> {..<length (calls fb v)})"
    and "k \<in> set (ce_Sources e)"
  shows "up (ev_sources env PRoute) k
    \<or> up (ev_sources env PFallbackHealth) k \<and> ce_RoutingRule e = ''fallback.primary_failed''
    \<or> k = SourceExecution \<and> (up (ev_sources env PInFlight) k \<or> up (ev_sources env PFallbackInFlight) k)"
proof -
  obtain r w' where l: "loadResource s marshal env cls v w = (r, w')" by (cases "loadResource s marshal env cls v w")
  then have r: "r = Inr e" using assms(3) by simp
  show ?thesis using l
  proof (cases rule: loadResource_cases)
    case (primary d i fan)
    have "set (ev_finished env PFetch) \<subseteq> {..<length (calls d v)}" using assms(4) primary(1) by blast
    with fetch_called[OF this primary(3)] answer_sources[OF primary(4)[symmetric, unfolded r] assms(5)]
    have "Includes (d_Target d) k \<or> k = SourceExecution \<and> up (ev_sources env PInFlight) k" by (auto simp: up_def)
    then show ?thesis using route_available[OF assms(1,2) primary(1)] by blast
  next
    case (fallback d i fan err fb i2 fan2)
    have "set (ev_finished env PFallbackFetch) \<subseteq> {..<length (calls fb v)}" using assms(4) fallback(1,4) by blast
    with fetch_called[OF this fallback(5)] answer_sources[OF fallback(6)[symmetric, unfolded r] assms(5)]
    have "Includes (d_Target fb) k \<or> k = SourceExecution \<and> up (ev_sources env PFallbackInFlight) k" by (auto simp: up_def)
    moreover have "Includes (d_Target fb) k \<Longrightarrow> up (ev_sources env PFallbackHealth) k"
      using fallbackDecision_Some[OF fallback(4)] by (cases k) (auto simp: up_def)
    moreover have "ce_RoutingRule e = ''fallback.primary_failed''"
      using fallbackDecision_Some[OF fallback(4)] by (auto intro: answer_Inr[OF fallback(6)[symmetric, unfolded r]])
    ultimately show ?thesis by blast
  qed (use r in auto)
qed

lemma example_port: "sv_router example_service = engine_port example_fresh_router Default"
  by (simp add: example_service_def wired_def)

definition example_status :: "bool \<Rightarrow> time \<Rightarrow> svc_req" where
  "example_status opsUp t = RResource (example_env opsUp True t 1) viewStatus (example_class ''/status'' False)"

definition example_load :: "svc_req \<Rightarrow> goerr + payload Entry" where
  "example_load q = fst (req_loader example_service Inr q (snd example_state))"

definition example_route :: "svc_req \<Rightarrow> goerr + Decision" where
  "example_route q = fst (route example_service (req_env q) (req_class q) (snd example_state))"

theorem answers_come_from_available_sources_witness:
  "case example_load (example_status True (5000 * second)) of Inl _ \<Rightarrow> False
   | Inr e \<Rightarrow> ce_Sources e = [SourceOperational] \<and> (up (example_sources True True) SourceOperational
       \<or> ce_RoutingRule e = ''fallback.primary_failed'')"
proof -
  let ?q = "example_status True (5000 * second)"
  have ld: "case example_load ?q of Inl _ \<Rightarrow> False | Inr e \<Rightarrow> ce_Sources e = [SourceOperational]" by code_simp
  then obtain e where e: "example_load ?q = Inr e" "ce_Sources e = [SourceOperational]" by (auto split: sum.splits)
  have n: "case example_route ?q of Inl _ \<Rightarrow> False | Inr d \<Rightarrow> length (calls d viewStatus) = 1" by code_simp
  have fb: "fallbackDecision env cls d err = Some fb \<Longrightarrow> 0 < length (calls fb viewStatus)" for env cls d err fb
    using fallbackDecision_Some[of env cls d err fb] by (auto simp: calls_def)
  have l: "fst (loadResource example_service Inr (req_env ?q) (req_class ?q) viewStatus (snd example_state)) = Inr e"
    using e(1) by (simp add: example_load_def example_status_def)
  have fin: "\<forall>d w'. route example_service (req_env ?q) (req_class ?q) (snd example_state) = (Inr d, w') \<longrightarrow>
      set (ev_finished (req_env ?q) PFetch) \<subseteq> {..<length (calls d viewStatus)}
      \<and> (\<forall>err fb. fallbackDecision (req_env ?q) (req_class ?q) d err = Some fb \<longrightarrow>
           set (ev_finished (req_env ?q) PFallbackFetch) \<subseteq> {..<length (calls fb viewStatus)})"
    using n fb by (auto simp: example_route_def) (auto simp: example_status_def example_env_def)
  from answers_come_from_available_sources[OF example_port Default_validates l fin, of SourceOperational] e
  show ?thesis by (auto simp: example_status_def example_env_def)
qed

text \<open>Invalidating a resource leaves its execution views in place. The invalidation drops the keys without a sub-resource and
  without a variant, one for each request type, and the key of a page of executions always has a variant, that of a
  single execution always a sub-resource: whatever the cache held for such a view before the invalidation it holds after it.\<close>

theorem invalidation_keeps_execution_views:
  assumes "s = wired R cfg hash" "hash_ok hash" "\<not> single \<or> cl_ExecutionID cls \<noteq> []" "mem_ok st"
  shows "(req_key s (RExecution env single cls), e) \<in> mem_stored (InvalidateResource s t r st)
    \<longleftrightarrow> (req_key s (RExecution env single cls), e) \<in> mem_stored st"
proof -
  have var: "\<not> single \<Longrightarrow> executionVariant cls single \<noteq> []"
    using assms(3) by (auto simp: executionVariant_def Let_def gomap_put_def)
  have "req_key s (RExecution env single cls) \<notin> set (ResourceKeysForTypes hash (cc_KeyPrefix (cfg_Cache cfg)) t r rts)" for rts
  proof
    assume "req_key s (RExecution env single cls) \<in> set (ResourceKeysForTypes hash (cc_KeyPrefix (cfg_Cache cfg)) t r rts)"
    then obtain rt where eq: "key_String hash \<lparr>k_Prefix = cc_KeyPrefix (cfg_Cache cfg), k_TenantID = cl_TenantID cls, k_RequestType = cl_Type cls,
        k_ResourceID = cl_ResourceID cls, k_Sub = cl_ExecutionID cls, k_Variant = executionVariant cls single\<rparr>
      = key_String hash \<lparr>k_Prefix = cc_KeyPrefix (cfg_Cache cfg), k_TenantID = t, k_RequestType = rt, k_ResourceID = r, k_Sub = [], k_Variant = []\<rparr>"
      by (auto simp: assms(1) ResourceKeysForTypes_def cacheKeyWith_def wired_def CacheManager.NewManager_def)
    from key_String_inject[OF assms(2) _ eq] key_String_variant[OF assms(2) _ eq] var assms(3) show False by auto
  qed
  from mem_delete_others[OF assms(4) this, of e] show ?thesis
    by (simp del: req_key.simps add: InvalidateResource_def Invalidate_def assms(1) [unfolded wired_def CacheManager.NewManager_def] memory_port_def)
qed

lemma example_hash_ok: "hash_ok demo_hash"
  by (auto simp: hash_ok_def demo_hash_def list_all_iff safe_char_def Let_def split: if_splits)

definition example_page :: svc_req where
  "example_page = RExecution (example_env True True (5000 * second) 0) False (example_class ''/executions'' False)"

definition example_page_cache :: "payload Memory" where
  "example_page_cache = snd (mem_Set (5000 * second) (req_key example_service example_page) (projr (example_load example_page)) second (fst example_state))"

theorem invalidation_keeps_execution_views_witness:
  "(req_key example_service example_page, projr (example_load example_page))
     \<in> mem_stored (InvalidateResource example_service ''acme'' ''r1'' example_page_cache)"
proof -
  have ok: "mem_ok (fst example_state)" by (simp add: example_state_def mem_ok_New)
  have "mem_ok example_page_cache" "(req_key example_service example_page, projr (example_load example_page)) \<in> mem_stored example_page_cache"
    using mem_Set_refines[OF ok, of "5000 * second" "req_key example_service example_page" "projr (example_load example_page)" second]
    by (simp_all add: example_page_cache_def mem_stored_def lru_set_def second_def example_state_def MemoryCache.NewMemory_def)
  then show ?thesis
    using invalidation_keeps_execution_views[OF example_service_def example_hash_ok, of False "req_class example_page" example_page_cache "req_env example_page"]
    by (simp add: example_page_def del: req_key.simps)
qed

text \<open>The key of a resource view, and so what it shares, leaves out whether audit entries were asked for.\<close>

lemma cacheKey_ignores_audit: "cacheKey s (cls\<lparr>cl_IncludeAudit := a\<rparr>) sub = cacheKey s cls sub"
  by (simp add: cacheKey_def cacheKeyWith_def)

lemma envelopeFrom_hit: "rs_Hit res \<Longrightarrow> ci_Hit (rm_Cache (env_Meta (envelopeFrom env res e)))"
  by (simp add: envelopeFrom_def Let_def AddSource_def)

lemma envelopeFrom_data: "env_Data (envelopeFrom env res e) = ce_Payload e"
  by (simp add: envelopeFrom_def Let_def)

text \<open>C40: Audit entries can leave the cache for readers who may not see them. For every service, resource view and classification, the cache key
  of a request with audit access is the key of the same request without it. So whatever the first stored (with the audit entries in its
  payload), the second is given as a hit: if the backend holds an unexpired, non-negative entry under the audited request's key,
  the answer to the request without audit access is that entry's payload. (Caching on, a positive TTL, consistency not
  strong. The witness is a run in which an unaudited details request receives the audit entries of an audited one.)\<close>

theorem audit_entries_reach_unaudited_reads:
  assumes "audited = cls\<lparr>cl_IncludeAudit := True\<rparr>" "unaudited = cls\<lparr>cl_IncludeAudit := False\<rparr>"
    and "cm_cache (sv_cache s) = Some c" "CacheManager.Enabled (sv_cache s)" "cl_Consistency cls \<noteq> ConsistencyStrong"
    and "0 < ru_CacheTTL (fst (ResolveRule (sv_cfg s) (cl_TenantID cls) (cl_Type cls)))"
    and "fst (c_Get c (gk_get (ok_first (ck_load ck))) (cacheKey s audited []) st) = Inr e"
    and "\<not> entry_Expired e (gk_now (ok_first (ck_load ck)))" "\<not> ce_Negative e"
  shows "cacheKey s unaudited [] = cacheKey s audited []
    \<and> (\<exists>x. fst (resourceView s marshal np env ck fl sh unaudited v (st, w)) = Inr x
        \<and> env_Data x = ce_Payload e \<and> ci_Hit (rm_Cache (env_Meta x)))"
proof -
  have key: "cacheKey s unaudited [] = cacheKey s audited []" by (simp add: assms(1,2) cacheKey_ignores_audit)
  let ?clk = "ok_first (ck_load ck)"
  obtain s1 where g: "c_Get c (gk_get ?clk) (cacheKey s audited []) st = (Inr e, s1)" using assms(7) by (metis prod.collapse)
  obtain layer s2 where l: "layerFor c (gk_layer ?clk) (cacheKey s audited []) s1 = (layer, s2)" by force
  have m: "manager_get (sv_cache s) ?clk (cacheKey s audited []) st
      = ((\<lparr>rs_Entry = Some e, rs_Hit = True, rs_Layer = layer, rs_Stampede = False\<rparr>, True, None), s2)"
    using assms(3,4,8) by (simp add: manager_get_def g l)
  have rule: "ResolveRule (sv_cfg s) (cl_TenantID unaudited) (cl_Type unaudited) = ResolveRule (sv_cfg s) (cl_TenantID cls) (cl_Type cls)"
    by (simp add: assms(2))
  have load: "service_load s ck fl sh unaudited (cacheKey s audited []) ttl ldr (st, w)
      = (Inr \<lparr>rs_Entry = Some e, rs_Hit = True, rs_Layer = layer, rs_Stampede = False\<rparr>, (s2, w))" if "0 < ttl" for ttl ldr
    using assms(2,4,5) that by (simp add: service_load_def GetOrLoad_def m)
  have "fst (resourceView s marshal np env ck fl sh unaudited v (st, w))
      = Inr (envelopeFrom env \<lparr>rs_Entry = Some e, rs_Hit = True, rs_Layer = layer, rs_Stampede = False\<rparr> e)"
    unfolding resourceView_def Let_def key rule load[OF assms(6)] using assms(9) by (simp add: reply_def)
  then show ?thesis using key by (simp add: envelopeFrom_hit envelopeFrom_data)
qed

definition audited_state :: "payload Memory \<times> routing_state" where
  "audited_state = snd (example_serve (example_details True (5000 * second)) (5000 * second) example_state)"

definition audited_entry :: "payload Entry option" where
  "audited_entry = (case fst (mem_Get (5001 * second) (req_key example_service (example_details True (5000 * second))) (fst audited_state)) of
     Inr e \<Rightarrow> Some e | Inl _ \<Rightarrow> None)"

definition shows_audit :: "payload \<Rightarrow> bool" where
  "shows_audit p = (case p of PDetails d \<Rightarrow> list_ex (\<lambda>e. ex_Audit e \<noteq> []) (rd_ExecutionHistory d) | _ \<Rightarrow> False)"

theorem audit_entries_reach_unaudited_reads_witness:
  "\<exists>x. fst (resourceView example_service Inr nil_payload (example_env True True (5001 * second) 3) (example_clocks (5001 * second)) None False
      ((example_class ''/details'' True)\<lparr>cl_IncludeAudit := False\<rparr>) viewDetails audited_state) = Inr x
    \<and> ci_Hit (rm_Cache (env_Meta x)) \<and> shows_audit (env_Data x)"
proof -
  let ?cls = "example_class ''/details'' True" let ?t = "5001 * second"
  have ev: "case audited_entry of None \<Rightarrow> False | Some e \<Rightarrow> \<not> entry_Expired e ?t \<and> \<not> ce_Negative e \<and> shows_audit (ce_Payload e)" by code_simp
  then obtain e where e: "audited_entry = Some e" "\<not> entry_Expired e ?t" "\<not> ce_Negative e" "shows_audit (ce_Payload e)"
    by (auto split: option.splits)
  have cls: "cl_IncludeAudit ?cls" "cl_Consistency ?cls \<noteq> ConsistencyStrong"
    "0 < ru_CacheTTL (fst (ResolveRule (sv_cfg example_service) (cl_TenantID ?cls) (cl_Type ?cls)))" by code_simp+
  have aud: "?cls = ?cls\<lparr>cl_IncludeAudit := True\<rparr>" using cls(1) by simp
  have mgr: "cm_cache (sv_cache example_service) = Some memory_port" "CacheManager.Enabled (sv_cache example_service)"
    by (simp_all add: example_service_def wired_def CacheManager.NewManager_def CacheManager.Enabled_def Default_def Default_Cache_def)
  have get: "fst (c_Get memory_port (gk_get (ok_first (ck_load (example_clocks ?t)))) (cacheKey example_service ?cls []) (fst audited_state)) = Inr e"
    using e(1) by (simp add: audited_entry_def memory_port_def example_clocks_def demo_load_clock_def example_details_def split: sum.splits)
  have ne: "\<not> entry_Expired e (gk_now (ok_first (ck_load (example_clocks ?t))))"
    using e(2) by (simp add: example_clocks_def demo_load_clock_def)
  from audit_entries_reach_unaudited_reads[OF aud refl mgr cls(2,3) get ne e(3),
      where w = "snd audited_state" and marshal = Inr and np = nil_payload and env = "example_env True True ?t 3" and fl = None and sh = False and v = viewDetails]
  show ?thesis using e(4) by auto
qed

section \<open>The lifecycle at work\<close>

text \<open>The properties of the lifecycle at this deployment.\<close>

lemma example_managed: "managed_cache memory_port mem_ok mem_stored (sv_cache example_service)"
  using memory_managed by (simp add: example_service_def wired_def)

theorem served_data_is_own_witness:
  "\<exists>x. fst (example_serve (example_details False (5001 * second)) (5001 * second)
        (fold (svc_step example_service Inr nil_payload) [SvcRequest (example_details True (5000 * second)) (example_clocks (5000 * second)) None False]
          example_state)) = Inr x \<and> meta_ok (env_Meta x)"
proof -
  let ?ops = "[SvcRequest (example_details True (5000 * second)) (example_clocks (5000 * second)) None False]"
  let ?q = "example_details False (5001 * second)"
  let ?r = "serve example_service Inr nil_payload ?q (example_clocks (5001 * second)) None False
    (fold (svc_step example_service Inr nil_payload) ?ops (fst example_state, snd example_state))"
  have "\<not> isl (fst ?r)" by code_simp
  then obtain x where x: "fst ?r = Inr x" by (metis isl_def sum.exhaust)
  have pl: "plain_request ?q" by code_simp
  have fl: "\<forall>a \<in> insert (SvcRequest ?q (example_clocks (5001 * second)) None False) (set ?ops). flight_ok example_service Inr Q a" for Q by simp
  have st: "mem_ok (fst example_state)" "mem_stored (fst example_state) = {}"
    by (simp add: example_state_def mem_ok_New) (simp add: example_state_def mem_stored_def mem_list_def MemoryCache.NewMemory_def)
  have h: "hash_ok (sv_hash example_service)" using example_hash_ok by (simp add: example_service_def wired_def)
  have r: "?r = (Inr x, snd ?r)" using x by (metis prod.collapse)
  show ?thesis
    using served_data_is_own[OF example_managed st h pl refl fl r] x by (auto simp: example_serve_def)
qed

theorem fallback_is_honest_witness:
  "case example_load (example_status False (5000 * second)) of Inl _ \<Rightarrow> False | Inr e \<Rightarrow> ce_Degraded e \<and> ce_Warnings e \<noteq> []"
proof -
  let ?q = "example_status False (5000 * second)" let ?env = "req_env ?q" let ?cls = "req_class ?q"
  let ?d = "projr (example_route ?q)"
  let ?f = "fetch example_service ?env PFetch PInFlight ?cls ?d viewStatus"
  have rt: "\<not> isl (example_route ?q)" "d_Target ?d \<noteq> TargetNone" "snd (snd ?f) \<noteq> None" "\<not> isl (example_load ?q)" by code_simp+
  obtain e where e: "example_load ?q = Inr e" using rt(4) by (metis isl_def sum.exhaust)
  have 1: "route example_service ?env ?cls (snd example_state) = (Inr ?d, snd (route example_service ?env ?cls (snd example_state)))"
    using rt(1) by (metis example_route_def prod.collapse sum.collapse(2))
  have 2: "?f = (fst ?f, fst (snd ?f), Some (the (snd (snd ?f))))" using rt(3) by (cases ?f) auto
  have fb: "case fallbackDecision ?env ?cls ?d (the (snd (snd ?f))) of None \<Rightarrow> False | Some fb \<Rightarrow> length (calls fb viewStatus) = 1" by code_simp
  have 3: "\<forall>fb. fallbackDecision ?env ?cls ?d (the (snd (snd ?f))) = Some fb \<longrightarrow>
      mset (ev_finished ?env PFallbackFetch) = mset [0..<length (calls fb viewStatus)]"
    using fb by (auto simp: example_status_def example_env_def)
  have l: "fst (loadResource example_service Inr ?env ?cls viewStatus (snd example_state)) = Inr e"
    using e by (simp add: example_load_def example_status_def)
  from fallback_is_honest[OF 1 rt(2) 2 3, of Inr] show ?thesis unfolding l e by auto
qed

definition strong_status :: svc_req where
  "strong_status = RResource (example_env True True (5000 * second) 1) viewStatus ((example_class ''/status'' False)\<lparr>cl_Consistency := ConsistencyStrong\<rparr>)"

theorem strong_reads_ignore_cache_witness:
  "fst (example_serve strong_status 7 (example_page_cache, snd example_state)) = fst (example_serve strong_status 7 example_state)
   \<and> map_sum id env_Data (fst (example_serve strong_status 7 (example_page_cache, snd example_state)))
     = map_sum id env_Data (fst (example_serve strong_status 8 example_state))"
  using strong_reads_ignore_cache[of strong_status example_service Inr nil_payload "example_clocks 7" None False example_page_cache
      "snd example_state" "example_clocks 7" None False "fst example_state"]
    strong_reads_ignore_cache[of strong_status example_service Inr nil_payload "example_clocks 7" None False example_page_cache
      "snd example_state" "example_clocks 8" None False "fst example_state"]
  by (simp add: strong_status_def example_serve_def)

theorem stale_reply_is_policy_witness:
  "case fst (serveStale example_service (example_env False False (5010 * second) 0) (example_clocks (5010 * second)) (example_class ''/status'' False)
       (req_key example_service (example_status True (5000 * second))) ErrCircuitOpen
       (fst (snd (example_serve (example_status True (5000 * second)) (5000 * second) example_state)))) of
     None \<Rightarrow> False | Some x \<Rightarrow> rm_Degraded (env_Meta x) \<and> SourceCache \<in> set (rm_Sources (env_Meta x))"
proof -
  let ?cls = "example_class ''/status'' False"
  let ?r = "serveStale example_service (example_env False False (5010 * second) 0) (example_clocks (5010 * second)) ?cls
     (req_key example_service (example_status True (5000 * second))) ErrCircuitOpen
     (fst (snd (example_serve (example_status True (5000 * second)) (5000 * second) example_state)))"
  have "fst ?r \<noteq> None" by code_simp
  then obtain x where x: "fst ?r = Some x" by blast
  then have "?r = (Some x, snd ?r)" by (metis prod.collapse)
  from stale_reply_is_policy[OF this prod.collapse[symmetric] refl] show ?thesis using x by simp
qed

end
