(* ===== verification/EndToEnd.thy ===== *)
theory EndToEnd
  imports ApiProps Deployment
begin

text \<open>
  The public API over the service: the use cases of \<^verbatim>\<open>handler/resource.go\<close> call \<^verbatim>\<open>application.Service\<close>, whose context carries the
  deadline and the correlation id that the middleware put there. A run is a sequence of HTTP exchanges and of
  steps the service takes on its own (background refreshes, invalidations). What one exchange draws from outside
  (sources, clocks, the outcome of another request's flight that its load joined, if any) is an argument.
\<close>

section \<open>Wiring\<close>

record ('c, 'p) Draw =
  dr_env :: Env
  dr_clocks :: "'c CacheClocks"
  dr_flight :: "(goerr + 'p Entry option) option"
  dr_shared :: bool

fun to_req :: "usecase \<Rightarrow> Env \<Rightarrow> Classification \<Rightarrow> svc_req" where
  "to_req (UseResource v) env cls = RResource env v cls"
| "to_req (UseExecution single) env cls = RExecution env single cls"

definition call_env :: "('c, 'p) Draw \<Rightarrow> ReqCtx \<Rightarrow> Env" where
  "call_env dr ctx = (dr_env dr)\<lparr>ev_ctx := cx_deadline ctx, ev_corr := cx_CorrelationID ctx\<rparr>"

definition service_app :: "('c, 's, 'p, 'w) Service \<Rightarrow> (payload \<Rightarrow> goerr + 'p) \<Rightarrow> 'p \<Rightarrow> ('c, 'p) Draw \<Rightarrow> ('s \<times> 'w, 'p) App" where
  "service_app s marshal np dr = \<lparr>app_call = (\<lambda>uc ctx cls. serve s marshal np (to_req uc (call_env dr ctx) cls) (dr_clocks dr) (dr_flight dr) (dr_shared dr)),
     app_health = (\<lambda>_. service_Health (ev_sources (dr_env dr) PReply))\<rparr>"

record ('c, 'p) Exchange =
  xc_req :: HttpRequest
  xc_moment :: Moment
  xc_draw :: "('c, 'p) Draw"

record ('c, 's, 'p, 'w, 'l) Site =
  si_boot :: Config
  si_cfg :: Config
  si_catalog :: FieldCatalog
  si_lib :: "'l Libraries"
  si_service :: "('c, 's, 'p, 'w) Service"
  si_marshal :: "payload \<Rightarrow> goerr + 'p"
  si_null :: 'p

definition http_exchange :: "('c, 's, 'p, 'w, 'l) Site \<Rightarrow> ('c, 'p) Exchange \<Rightarrow> ('s \<times> 'w, 'l, 'p) World \<Rightarrow> flow \<times> ('s \<times> 'w, 'l, 'p) World" where
  "http_exchange si x w = publicRoutes (si_boot si) (si_cfg si) (si_catalog si) (service_app (si_service si) (si_marshal si) (si_null si) (xc_draw x))
     (si_lib si) (xc_moment x) (xc_req x) fresh_ctx (w\<lparr>wd_rw := new_rw, wd_route := []\<rparr>)"

datatype ('c, 'p) event = Http "('c, 'p) Exchange" | Internal "('c, 'p) svc_op"

fun event_step :: "('c, 's, 'p, 'w, 'l) Site \<Rightarrow> ('c, 'p) event \<Rightarrow> ('s \<times> 'w, 'l, 'p) World \<Rightarrow> ('s \<times> 'w, 'l, 'p) World" where
  "event_step si (Http x) w = snd (http_exchange si x w)"
| "event_step si (Internal a) w = w\<lparr>wd_app := svc_step (si_service si) (si_marshal si) (si_null si) a (wd_app w)\<rparr>"

text \<open>The service's own steps are refreshes and invalidations.\<close>

fun internal_ok :: "('c, 'p) event \<Rightarrow> bool" where
  "internal_ok (Internal (SvcRequest _ _ _ _)) = False" | "internal_ok _ = True"

text \<open>The request that an exchange hands to the service: the principal its token authenticates, the matched route, the input parsed
  in a context with that principal and its tenant, the classification of that input, and the authorization of the principal for the
  route's permission. Of the context only the correlation id and the deadline are left open.\<close>

definition exchange_asks :: "('c, 's, 'p, 'w, 'l) Site \<Rightarrow> ('c, 'p) Exchange \<Rightarrow> ('s \<times> 'w, 'l, 'p) World \<Rightarrow> svc_req \<Rightarrow> bool" where
  "exchange_asks si x w q \<longleftrightarrow> (\<exists>p perm uc c inp cls.
     fst (Authenticate (lb_parse (si_lib si)) (lb_exp (si_lib si)) (mo_keyClock (xc_moment x)) (mo_jwks (xc_moment x)) (hr_Header (xc_req x)) (wd_auth w)) = Some (Inr p)
   \<and> map_of route_table (hr_Pattern (xc_req x)) = Some (perm, uc) \<and> cx_TenantID c = pr_TenantID p \<and> rx_Principal c = Some p
   \<and> parse (xc_req x) c (Some p) = Inr inp \<and> Classify (si_cfg si) (si_catalog si) inp = Inr cls
   \<and> Authorize (Some p) perm (rbac_DefaultDeny (sec_RBAC (cfg_Security (si_cfg si)))) = None
   \<and> q = to_req uc (call_env (xc_draw x) c) cls)"

text \<open>A request of the run: one that an exchange of the run asks, in the state in which that exchange meets the site.\<close>

definition asked :: "('c, 's, 'p, 'w, 'l) Site \<Rightarrow> ('s \<times> 'w, 'l, 'p) World \<Rightarrow> ('c, 'p) event list \<Rightarrow> svc_req \<Rightarrow> bool" where
  "asked si w0 evs q \<longleftrightarrow> (\<exists>pre x post. evs = pre @ Http x # post \<and> exchange_asks si x (fold (event_step si) pre w0) q)"

text \<open>Runs: the service's own steps are invalidations and refreshes of asked requests; the entry that a joined flight brings is what
  \<^verbatim>\<open>singleflight\<close> hands over, the outcome of an asked request's load for the same key.\<close>

definition run_ok :: "('c, 's, 'p, 'w, 'l) Site \<Rightarrow> ('s \<times> 'w, 'l, 'p) World \<Rightarrow> ('c, 'p) event list \<Rightarrow> bool" where
  "run_ok si w0 evs \<longleftrightarrow>
     (\<forall>ev \<in> set evs. internal_ok ev \<and> (\<forall>a q. ev = Internal a \<and> op_req a = Some q \<longrightarrow> asked si w0 evs q))
   \<and> (\<forall>pre y post q e. evs = pre @ Http y # post \<and> exchange_asks si y (fold (event_step si) pre w0) q \<and> dr_flight (xc_draw y) = Some (Inr (Some e))
        \<longrightarrow> loaded_by (si_service si) (si_marshal si) (Collect (asked si w0 evs)) (req_key (si_service si) q) e)"

section \<open>Lemmas: what a response reports of the call\<close>

text \<open>A claim \<open>R\<close> about the application before and after, the authenticator before, and the body. It is of the kind handled here
  when it holds of a request that leaves the application alone and answers without an envelope, and when a body
  without an envelope may be replaced by another.\<close>

definition no_envelope :: "'p document list \<Rightarrow> bool" where
  "no_envelope b \<longleftrightarrow> (\<forall>d m. DocEnvelope d m \<notin> set b)"

definition reports :: "('s \<Rightarrow> Authenticator \<Rightarrow> 's \<Rightarrow> 'p document list \<Rightarrow> bool) \<Rightarrow> bool" where
  "reports R \<longleftrightarrow> (\<forall>s a b. no_envelope b \<longrightarrow> R s a s b) \<and> (\<forall>s a s' b b'. R s a s' b \<longrightarrow> no_envelope b \<longrightarrow> no_envelope b' \<longrightarrow> R s a s' b')"

definition conveys :: "('s \<Rightarrow> Authenticator \<Rightarrow> 's \<Rightarrow> 'p document list \<Rightarrow> bool) \<Rightarrow> HttpRequest \<Rightarrow> ('s, 'l, 'p) handler \<Rightarrow> bool" where
  "conveys R req h \<longleftrightarrow> (\<forall>ctx w. untouched (wd_rw w) \<longrightarrow> R (wd_app w) (wd_auth w) (wd_app (snd (h req ctx w))) (rw_body (wd_rw (snd (h req ctx w)))))"

lemma no_envelope_simps [simp]: "no_envelope []" "no_envelope [DocError e]" "no_envelope [DocText t]"
  by (auto simp: no_envelope_def)

lemma response_Error_body: "untouched rw \<Longrightarrow> no_envelope (rw_body (response_Error ctx e src rw))"
  by (auto simp: response_Error_def untouched_def response_write_fresh)

lemma conveysD:
  assumes "conveys R req h" "untouched (wd_rw w1)" "wd_app w1 = s" "wd_auth w1 = a"
  shows "R s a (wd_app (snd (h req ctx w1))) (rw_body (wd_rw (snd (h req ctx w1))))"
  using assms unfolding conveys_def by auto

lemma reports_quiet: "reports R \<Longrightarrow> no_envelope b \<Longrightarrow> R s a s b"
  by (simp add: reports_def)

lemma reports_swap: "reports R \<Longrightarrow> R s a s' b \<Longrightarrow> no_envelope b \<Longrightarrow> no_envelope b' \<Longrightarrow> R s a s' b'"
  by (auto simp: reports_def)

lemma RateLimit_conveys:
  assumes "reports R" "conveys R req h"
  shows "conveys R req (RateLimitMW a n now h)"
  unfolding conveys_def
proof (intro allI impI)
  fix ctx :: ReqCtx and w :: "('a, 'c, 'b) World"
  assume u: "untouched (wd_rw w)"
  let ?v = "limiter_Allow a n now (if cx_TenantID ctx = [] then clientIP req else cx_TenantID ctx) (wd_limiter w)"
  show "R (wd_app w) (wd_auth w) (wd_app (snd (RateLimitMW a n now h req ctx w))) (rw_body (wd_rw (snd (RateLimitMW a n now h req ctx w))))"
  proof (cases "fst ?v")
    case True
    then have "RateLimitMW a n now h req ctx w = h req ctx (w\<lparr>wd_limiter := snd ?v\<rparr>)" by (cases ?v) (simp add: RateLimitMW_def)
    then show ?thesis using conveysD[OF assms(2), of "w\<lparr>wd_limiter := snd ?v\<rparr>" "wd_app w" "wd_auth w" ctx] u by simp
  next
    case False
    then have "RateLimitMW a n now h req ctx w = fail_with ctx ErrRateLimited [] (w\<lparr>wd_limiter := snd ?v, wd_rw := header_Set ''Retry-After'' ''1'' (wd_rw w)\<rparr>)"
      by (cases ?v) (simp add: RateLimitMW_def)
    then show ?thesis using u by (simp add: reports_quiet[OF assms(1)] response_Error_body)
  qed
qed

lemma BodyLimit_conveys:
  assumes "reports R" "conveys R req h"
  shows "conveys R req (BodyLimit n h)"
  unfolding conveys_def
proof (intro allI impI)
  fix ctx :: ReqCtx and w :: "('a, 'c, 'b) World"
  assume u: "untouched (wd_rw w)"
  show "R (wd_app w) (wd_auth w) (wd_app (snd (BodyLimit n h req ctx w))) (rw_body (wd_rw (snd (BodyLimit n h req ctx w))))"
  proof (cases "hr_ContentLength req > n")
    case True
    then show ?thesis using u by (simp add: BodyLimit_def http_Error_def rw_Write_def Let_def untouched_def reports_quiet[OF assms(1)])
  next
    case False
    then show ?thesis using conveysD[OF assms(2) u refl refl] by (simp add: BodyLimit_def)
  qed
qed

lemma AccessLog_conveys:
  assumes "conveys R req h"
  shows "conveys R req (AccessLog h)"
  unfolding conveys_def
proof (intro allI impI)
  fix ctx :: ReqCtx and w :: "('a, 'c, 'b) World"
  assume "untouched (wd_rw w)"
  then have "R (wd_app w) (wd_auth w) (wd_app (snd (h req ctx w))) (rw_body (wd_rw (snd (h req ctx w))))" using assms by (simp add: conveys_def)
  then show "R (wd_app w) (wd_auth w) (wd_app (snd (AccessLog h req ctx w))) (rw_body (wd_rw (snd (AccessLog h req ctx w))))"
    by (cases "h req ctx w") (auto simp: AccessLog_def split: flow.split)
qed

lemma Correlation_conveys:
  assumes "conveys R req h"
  shows "conveys R req (CorrelationMW a b now h)"
  unfolding conveys_def CorrelationMW_def Let_def by (intro allI impI conveysD[OF assms]) simp_all

lemma SecurityHeaders_conveys:
  assumes "conveys R req h"
  shows "conveys R req (SecurityHeaders h)"
  unfolding conveys_def SecurityHeaders_def by (intro allI impI conveysD[OF assms]) simp_all

lemma Recover_conveys:
  assumes "reports R" "conveys R req h" "tame req h"
  shows "conveys R req (Recover h)"
  unfolding conveys_def
proof (intro allI impI)
  fix ctx :: ReqCtx and w :: "('a, 'c, 'b) World"
  assume u: "untouched (wd_rw w)"
  then have r: "R (wd_app w) (wd_auth w) (wd_app (snd (h req ctx w))) (rw_body (wd_rw (snd (h req ctx w))))" using assms(2) by (simp add: conveys_def)
  have t: "settled (h req ctx w)" using assms(3) u by (simp add: tame_def)
  obtain fl w' where h: "h req ctx w = (fl, w')" by force
  show "R (wd_app w) (wd_auth w) (wd_app (snd (Recover h req ctx w))) (rw_body (wd_rw (snd (Recover h req ctx w))))"
  proof (cases fl)
    case Panicked
    then have "untouched (wd_rw w')" using t h by simp
    then have "no_envelope (rw_body (wd_rw w'))" "no_envelope (rw_body (response_Error ctx e src (wd_rw w')))" for e src
      by (simp_all add: response_Error_body) (simp add: untouched_def)
    then show ?thesis using r h Panicked by (simp add: Recover_def) (rule reports_swap[OF assms(1)])
  qed (use r h in \<open>simp_all add: Recover_def\<close>)
qed

section \<open>Lemmas: the call behind an envelope\<close>

text \<open>The claim about the whole chain: an exchange that changes the application or answers with an envelope has run one use case for an authenticated,
  authorised principal as its tenant, and the envelope carries that use case's data.\<close>

definition served_as :: "Config \<Rightarrow> FieldCatalog \<Rightarrow> ('s, 'p) App \<Rightarrow> 'l Libraries \<Rightarrow> Moment \<Rightarrow> HttpRequest \<Rightarrow> 's \<Rightarrow> Authenticator \<Rightarrow> 's \<Rightarrow> 'p document list \<Rightarrow> bool" where
  "served_as cfg cat app lib m req s a s' b \<longleftrightarrow>
     s' = s \<and> no_envelope b
   \<or> (\<exists>p perm uc c inp cls. fst (Authenticate (lb_parse lib) (lb_exp lib) (mo_keyClock m) (mo_jwks m) (hr_Header req) a) = Some (Inr p)
        \<and> map_of route_table (hr_Pattern req) = Some (perm, uc) \<and> (Can (Some p) perm \<or> \<not> rbac_DefaultDeny (sec_RBAC (cfg_Security cfg)))
        \<and> cx_TenantID c = pr_TenantID p \<and> rx_Principal c = Some p \<and> parse req c (Some p) = Inr inp \<and> Classify cfg cat inp = Inr cls
        \<and> Authorize (Some p) perm (rbac_DefaultDeny (sec_RBAC (cfg_Security cfg))) = None
        \<and> cl_TenantID cls = pr_TenantID p \<and> s' = snd (app_call app uc c cls s)
        \<and> (no_envelope b \<or> (\<exists>env mt. fst (app_call app uc c cls s) = Inr env \<and> b = [DocEnvelope (env_Data env) mt])))"

lemma served_as_reports: "reports (served_as cfg cat app lib m req)"
  unfolding reports_def served_as_def by blast

lemma response_OK_body: "untouched rw \<Longrightarrow> \<exists>mt. rw_body (response_OK ctx d meta rw) = [DocEnvelope d mt]"
  by (auto simp: response_OK_def Let_def untouched_def response_write_fresh)

lemma serve_body:
  fixes w :: "('s, 'l, 'p) World" and cfg cat app perm uc req ctx
  assumes "untouched (wd_rw w)"
  defines "r \<equiv> snd (handler_serve cfg cat app perm uc req ctx w)"
  shows "wd_app r = wd_app w \<and> no_envelope (rw_body (wd_rw r))
   \<or> (\<exists>inp cls. parse req ctx (rx_Principal ctx) = Inr inp \<and> Classify cfg cat inp = Inr cls
        \<and> Authorize (rx_Principal ctx) perm (rbac_DefaultDeny (sec_RBAC (cfg_Security cfg))) = None \<and> wd_app r = snd (app_call app uc ctx cls (wd_app w))
        \<and> (no_envelope (rw_body (wd_rw r)) \<or> (\<exists>env mt. fst (app_call app uc ctx cls (wd_app w)) = Inr env \<and> rw_body (wd_rw r) = [DocEnvelope (env_Data env) mt])))"
proof -
  have e: "no_envelope (rw_body (response_Error ctx e src (wd_rw w)))" for e src using assms(1) by (rule response_Error_body)
  show ?thesis
  proof (cases "\<exists>inp cls. parse req ctx (rx_Principal ctx) = Inr inp \<and> Classify cfg cat inp = Inr cls
      \<and> Authorize (rx_Principal ctx) perm (rbac_DefaultDeny (sec_RBAC (cfg_Security cfg))) = None")
    case False
    then show ?thesis using e by (auto simp: r_def handler_serve_def Let_def split: option.split sum.split)
  next
    case True
    then obtain inp cls where c: "parse req ctx (rx_Principal ctx) = Inr inp" "Classify cfg cat inp = Inr cls"
        "Authorize (rx_Principal ctx) perm (rbac_DefaultDeny (sec_RBAC (cfg_Security cfg))) = None" by blast
    obtain x s' where x: "app_call app uc ctx cls (wd_app w) = (x, s')" by force
    show ?thesis
    proof (cases x)
      case (Inl err)
      then show ?thesis using c x e by (intro disjI2 exI[of _ inp] exI[of _ cls]) (simp add: r_def handler_serve_def)
    next
      case (Inr env)
      obtain mt where "rw_body (response_OK ctx (env_Data env) (env_Meta env) (wd_rw w)) = [DocEnvelope (env_Data env) mt]"
        using response_OK_body[OF assms(1)] by blast
      then show ?thesis using c x Inr by (intro disjI2 exI[of _ inp] exI[of _ cls]) (simp add: r_def handler_serve_def)
    qed
  qed
qed

lemma admitted_conveys: "conveys (served_as cfg cat app lib m req) req (ApiProps.admitted boot cfg cat app lib m)"
  unfolding conveys_def
proof (intro allI impI)
  fix ctx :: ReqCtx and w :: "('a, 'c, 'b) World"
  assume u: "untouched (wd_rw w)"
  let ?r = "snd (ApiProps.admitted boot cfg cat app lib m req ctx w)"
  obtain r a where au: "Authenticate (lb_parse lib) (lb_exp lib) (mo_keyClock m) (mo_jwks m) (hr_Header req) (wd_auth w) = (r, a)" by force
  have err: "no_envelope (rw_body (response_Error ctx e src (wd_rw w)))" for ctx :: ReqCtx and e src using u by (rule response_Error_body)
  have none: "no_envelope (rw_body (wd_rw w))" using u by (simp add: untouched_def)
  show "served_as cfg cat app lib m req (wd_app w) (wd_auth w) (wd_app ?r) (rw_body (wd_rw ?r))"
  proof (cases "\<exists>p t. r = Some (Inr p) \<and> ResolveTenant (Some p) (header_Get (hr_Header req) HeaderTenantID) = Inr t")
    case False
    then show ?thesis using au err none by (auto simp: served_as_def AuthenticateMW_def Let_def split: option.split sum.split)
  next
    case True
    then obtain p t where p: "r = Some (Inr p)" "ResolveTenant (Some p) (header_Get (hr_Header req) HeaderTenantID) = Inr t" by blast
    obtain c where c: "cx_TenantID c = t" "rx_Principal c = Some p"
      "ApiProps.admitted boot cfg cat app lib m req ctx w = mux cfg cat app req c (w\<lparr>wd_auth := a\<rparr>)"
      using p au Timeout_ctx[of "srv_RequestTimeout (cfg_Server boot)" "mo_now m" "mux cfg cat app" req
          "ctx\<lparr>cx_TenantID := t, cx_Subject := pr_Subject p, cx_Roles := pr_Roles p, rx_Principal := Some p\<rparr>" "w\<lparr>wd_auth := a\<rparr>"]
      by (auto simp: AuthenticateMW_def)
    show ?thesis
    proof (cases "map_of route_table (hr_Pattern req)")
      case None
      then show ?thesis using err by (simp add: c(3) mux_def served_as_def)
    next
      case (Some pu)
      obtain perm uc where pu: "pu = (perm, uc)" by force
      have mx: "?r = snd (handler_serve cfg cat app perm uc req c (w\<lparr>wd_auth := a\<rparr>))" using Some pu by (simp add: c(3) mux_def)
      have u': "untouched (wd_rw (w\<lparr>wd_auth := a\<rparr>))" using u by simp
      show ?thesis
      proof (rule disjE[OF serve_body[OF u', of cfg cat app perm uc req c]], goal_cases quiet called)
        case quiet
        then show ?thesis unfolding mx by (simp add: served_as_def)
      next
        case called
        then obtain inp cls where s: "parse req c (rx_Principal c) = Inr inp" "Classify cfg cat inp = Inr cls"
          "Authorize (rx_Principal c) perm (rbac_DefaultDeny (sec_RBAC (cfg_Security cfg))) = None"
          "wd_app (snd (handler_serve cfg cat app perm uc req c (w\<lparr>wd_auth := a\<rparr>))) = snd (app_call app uc c cls (wd_app (w\<lparr>wd_auth := a\<rparr>)))"
          "no_envelope (rw_body (wd_rw (snd (handler_serve cfg cat app perm uc req c (w\<lparr>wd_auth := a\<rparr>)))))
           \<or> (\<exists>env mt. fst (app_call app uc c cls (wd_app (w\<lparr>wd_auth := a\<rparr>))) = Inr env
               \<and> rw_body (wd_rw (snd (handler_serve cfg cat app perm uc req c (w\<lparr>wd_auth := a\<rparr>)))) = [DocEnvelope (env_Data env) mt])" by blast
        show ?thesis unfolding mx served_as_def
          using parse_Inr[OF s(1)] Classify_copies[OF s(2)] Authorize_granted[OF s(3)] ResolveTenant_own[OF p(2)] s Some pu au p(1) c(1,2)
          by (intro disjI2 exI[of _ p] exI[of _ perm] exI[of _ uc] exI[of _ c] exI[of _ inp] exI[of _ cls]) auto
      qed
    qed
  qed
qed

lemma publicRoutes_served:
  assumes "untouched (wd_rw w)"
  shows "served_as cfg cat app lib m req (wd_app w) (wd_auth w) (wd_app (snd (publicRoutes boot cfg cat app lib m req ctx w)))
    (rw_body (wd_rw (snd (publicRoutes boot cfg cat app lib m req ctx w))))"
proof -
  note R = served_as_reports[of cfg cat app lib m req]
  have chain: "publicRoutes boot cfg cat app lib m = Recover (CorrelationMW (mo_id1 m) (mo_id2 m) (mo_now m) (SecurityHeaders (AccessLog
      (BodyLimit (srv_MaxBodyBytes (cfg_Server boot)) (RateLimitMW (lb_allowN lib) (lb_newLimiter lib) (mo_now m) (ApiProps.admitted boot cfg cat app lib m))))))"
    by (simp add: publicRoutes_def Chain_def)
  have "conveys (served_as cfg cat app lib m req) req (publicRoutes boot cfg cat app lib m)"
    unfolding chain
    by (intro Recover_conveys[OF R] Correlation_conveys SecurityHeaders_conveys AccessLog_conveys BodyLimit_conveys[OF R] RateLimit_conveys[OF R]
        admitted_conveys layers_tame)
  from conveysD[OF this assms refl refl] show ?thesis .
qed

section \<open>Lemmas: runs\<close>

lemma to_req_class [simp]: "req_class (to_req uc env cls) = cls"
  by (cases uc) simp_all

lemma exchange_served:
  "served_as (si_cfg si) (si_catalog si) (service_app (si_service si) (si_marshal si) (si_null si) (xc_draw x)) (si_lib si) (xc_moment x) (xc_req x) (wd_app w) (wd_auth w)
     (wd_app (snd (http_exchange si x w))) (rw_body (wd_rw (snd (http_exchange si x w))))"
  using publicRoutes_served[of "w\<lparr>wd_rw := new_rw, wd_route := []\<rparr>"] by (simp add: http_exchange_def untouched_def new_rw_def)

text \<open>What an exchange does to the application, and the request behind it.\<close>

lemma exchange_cases:
  obtains (quiet) "wd_app (snd (http_exchange si x w)) = wd_app w" "no_envelope (rw_body (wd_rw (snd (http_exchange si x w))))"
  | (served) q p perm uc where "exchange_asks si x w q"
      "fst (Authenticate (lb_parse (si_lib si)) (lb_exp (si_lib si)) (mo_keyClock (xc_moment x)) (mo_jwks (xc_moment x)) (hr_Header (xc_req x)) (wd_auth w)) = Some (Inr p)"
      "map_of route_table (hr_Pattern (xc_req x)) = Some (perm, uc)" "Can (Some p) perm \<or> \<not> rbac_DefaultDeny (sec_RBAC (cfg_Security (si_cfg si)))"
      "cl_TenantID (req_class q) = pr_TenantID p"
      "wd_app (snd (http_exchange si x w)) = snd (serve (si_service si) (si_marshal si) (si_null si) q (dr_clocks (xc_draw x)) (dr_flight (xc_draw x)) (dr_shared (xc_draw x)) (wd_app w))"
      "no_envelope (rw_body (wd_rw (snd (http_exchange si x w)))) \<or> (\<exists>env mt.
         fst (serve (si_service si) (si_marshal si) (si_null si) q (dr_clocks (xc_draw x)) (dr_flight (xc_draw x)) (dr_shared (xc_draw x)) (wd_app w)) = Inr env
         \<and> rw_body (wd_rw (snd (http_exchange si x w))) = [DocEnvelope (env_Data env) mt])"
proof -
  show thesis
  proof (rule disjE[OF exchange_served[of si x w, unfolded served_as_def]], goal_cases quiet called)
    case quiet
    then show thesis using quiet(1) that(1) by blast
  next
    case called
    then show thesis
    proof (elim exE conjE, goal_cases)
      case (1 p perm uc c inp cls)
      have "exchange_asks si x w (to_req uc (call_env (xc_draw x) c) cls)" using 1(1-2,4-8) unfolding exchange_asks_def by blast
      then show thesis using 1(1-3,9-11) by (intro that(2)[of "to_req uc (call_env (xc_draw x) c) cls" p perm uc]) (simp_all add: service_app_def)
    qed
  qed
qed

lemma event_keeps:
  assumes mc: "managed_cache c sinv stored (sv_cache (si_service si))"
    and P: "cache_port.holds_only sinv stored (loaded_by (si_service si) (si_marshal si) Q) (fst (wd_app w))"
    and int: "\<And>a. ev = Internal a \<Longrightarrow> internal_ok ev \<and> (\<forall>q. op_req a = Some q \<longrightarrow> q \<in> Q)"
    and http: "\<And>x q. ev = Http x \<Longrightarrow> exchange_asks si x w q \<Longrightarrow> q \<in> Q
        \<and> (\<forall>e. dr_flight (xc_draw x) = Some (Inr (Some e)) \<longrightarrow> loaded_by (si_service si) (si_marshal si) Q (req_key (si_service si) q) e)"
  shows "cache_port.holds_only sinv stored (loaded_by (si_service si) (si_marshal si) Q) (fst (wd_app (event_step si ev w)))"
proof (cases ev)
  case (Internal a)
  have "flight_ok (si_service si) (si_marshal si) Q a" using int[OF Internal] Internal by (cases a) auto
  then show ?thesis using svc_step_keeps[OF mc P] int[OF Internal] Internal by simp
next
  case (Http x)
  show ?thesis
  proof (cases rule: exchange_cases[of si x w])
    case quiet
    then show ?thesis using P Http by simp
  next
    case (served q p perm uc)
    let ?a = "SvcRequest q (dr_clocks (xc_draw x)) (dr_flight (xc_draw x)) (dr_shared (xc_draw x))"
    have step: "wd_app (event_step si ev w) = svc_step (si_service si) (si_marshal si) (si_null si) ?a (wd_app w)"
      using served(6) Http by simp
    have "flight_ok (si_service si) (si_marshal si) Q ?a" using http[OF Http served(1)] by (auto split: option.split sum.split)
    then show ?thesis unfolding step using svc_step_keeps[OF mc P, of ?a "si_null si"] http[OF Http served(1)] by simp
  qed
qed

lemma run_ok_internal:
  "run_ok si w0 evs \<Longrightarrow> ev \<in> set evs \<Longrightarrow> ev = Internal a \<Longrightarrow> internal_ok ev \<and> (\<forall>q. op_req a = Some q \<longrightarrow> asked si w0 evs q)"
  by (simp add: run_ok_def)

lemma run_ok_exchange:
  assumes "run_ok si w0 evs" "evs = pre @ Http x # post" "exchange_asks si x (fold (event_step si) pre w0) q"
  shows "q \<in> Collect (asked si w0 evs) \<and> (\<forall>e. dr_flight (xc_draw x) = Some (Inr (Some e)) \<longrightarrow>
    loaded_by (si_service si) (si_marshal si) (Collect (asked si w0 evs)) (req_key (si_service si) q) e)"
proof
  show "q \<in> Collect (asked si w0 evs)" using assms(2,3) unfolding asked_def by blast
  show "\<forall>e. dr_flight (xc_draw x) = Some (Inr (Some e)) \<longrightarrow>
      loaded_by (si_service si) (si_marshal si) (Collect (asked si w0 evs)) (req_key (si_service si) q) e"
    using conjunct2[OF assms(1)[unfolded run_ok_def], rule_format, of pre x post q] assms(2,3) by blast
qed

lemma run_keeps:
  assumes mc: "managed_cache c sinv stored (sv_cache (si_service si))" and ok: "run_ok si w0 all" and all: "all = pre @ rest @ post"
    and Q: "Q = Collect (asked si w0 all)"
    and P: "cache_port.holds_only sinv stored (loaded_by (si_service si) (si_marshal si) Q) (fst (wd_app (fold (event_step si) pre w0)))"
  shows "cache_port.holds_only sinv stored (loaded_by (si_service si) (si_marshal si) Q) (fst (wd_app (fold (event_step si) (pre @ rest) w0)))"
  using all P
proof (induction rest arbitrary: pre)
  case (Cons ev rest)
  let ?w = "fold (event_step si) pre w0"
  have mem: "ev \<in> set all" using Cons.prems(1) by simp
  have i: "internal_ok ev \<and> (\<forall>q. op_req a = Some q \<longrightarrow> q \<in> Q)" if "ev = Internal a" for a
    using run_ok_internal[OF ok mem that] unfolding Q by simp
  have h: "q \<in> Q \<and> (\<forall>e. dr_flight (xc_draw x) = Some (Inr (Some e)) \<longrightarrow> loaded_by (si_service si) (si_marshal si) Q (req_key (si_service si) q) e)"
    if "ev = Http x" "exchange_asks si x ?w q" for x q
  proof -
    have "all = pre @ Http x # (rest @ post)" using Cons.prems(1) that(1) by simp
    then show ?thesis using run_ok_exchange[OF ok _ that(2)] unfolding Q by blast
  qed
  have "cache_port.holds_only sinv stored (loaded_by (si_service si) (si_marshal si) Q) (fst (wd_app (event_step si ev ?w)))"
    by (rule event_keeps[OF mc Cons.prems(2) i h])
  then show ?case using Cons.IH[of "pre @ [ev]"] Cons.prems(1) by simp
qed simp

lemma shared_key_same_tenant:
  assumes "hash_ok (sv_hash s)" "plain_id (cl_TenantID (req_class q))" "req_key s q = req_key s q'"
  shows "cl_TenantID (req_class q) = cl_TenantID (req_class q')"
proof -
  obtain sub var sub' var' where "req_key s q = cacheKeyWith s (req_class q) sub var" "req_key s q' = cacheKeyWith s (req_class q') sub' var'"
    using req_key_form by blast
  with assms(3) have "cacheKeyWith s (req_class q) sub var = cacheKeyWith s (req_class q') sub' var'" by simp
  from key_String_inject[OF assms(1) _ this[unfolded cacheKeyWith_def]] show ?thesis
    using assms(2) sanitize_plain_inject[of _ "sv_hash s"] by simp
qed

section \<open>Properties\<close>

text \<open>C1: Tenant isolation from the token to the response. From an empty cache, after any sequence of HTTP exchanges of any callers (also ones that
  join another request's flight for their key), background refreshes and
  invalidations, a response that carries an envelope answers a principal the authenticator accepted for this request's token, who holds the
  permission of the matched route (or the policy does not deny by default); and its data is the payload that the loader of a
  request produced which an exchange of this run made of its own HTTP request for its own authenticated principal, and which is for the tenant of the
  principal answered here: for a resource view, the projection of a record stamped with that tenant. The tenants of accepted principals are assumed
  plain: of the characters that keys show verbatim and not spelled like the digests that keys use instead.\<close>

theorem responses_carry_own_tenant_data:
  assumes "managed_cache c sinv stored (sv_cache (si_service si))" "sinv (fst (wd_app w0))" "stored (fst (wd_app w0)) = {}" "hash_ok (sv_hash (si_service si))"
    and "run_ok si w0 (evs @ [Http x])" "w = fold (event_step si) evs w0"
    and "rw_body (wd_rw (snd (http_exchange si x w))) = [DocEnvelope d mt]"
    and "\<forall>p. fst (Authenticate (lb_parse (si_lib si)) (lb_exp (si_lib si)) (mo_keyClock (xc_moment x)) (mo_jwks (xc_moment x)) (hr_Header (xc_req x)) (wd_auth w))
          = Some (Inr p) \<longrightarrow> plain_id (pr_TenantID p)"
  shows "\<exists>p perm uc q. fst (Authenticate (lb_parse (si_lib si)) (lb_exp (si_lib si)) (mo_keyClock (xc_moment x)) (mo_jwks (xc_moment x)) (hr_Header (xc_req x)) (wd_auth w))
        = Some (Inr p)
     \<and> map_of route_table (hr_Pattern (xc_req x)) = Some (perm, uc) \<and> (Can (Some p) perm \<or> \<not> rbac_DefaultDeny (sec_RBAC (cfg_Security (si_cfg si))))
     \<and> asked si w0 (evs @ [Http x]) q \<and> cl_TenantID (req_class q) = pr_TenantID p
     \<and> (\<exists>ws e. fst (req_loader (si_service si) (si_marshal si) q ws) = Inr e \<and> d = ce_Payload e)
     \<and> (\<forall>env v cls. q = RResource env v cls \<longrightarrow> (\<exists>det. si_marshal si (project det v) = Inr d \<and> re_TenantID (rd_Resource det) = pr_TenantID p))"
proof -
  let ?s = "si_service si" and ?Q = "Collect (asked si w0 (evs @ [Http x]))"
  note port = managed_cache.axioms(1)[OF assms(1)]
  have P0: "cache_port.holds_only sinv stored (loaded_by ?s (si_marshal si) ?Q) (fst (wd_app (fold (event_step si) [] w0)))"
    using assms(2,3) by (simp add: cache_port.holds_only_def[OF port])
  have P: "cache_port.holds_only sinv stored (loaded_by ?s (si_marshal si) ?Q) (fst (wd_app w))"
    using run_keeps[OF assms(1,5) _ refl P0, of evs "[Http x]"] assms(6) by simp
  have "\<not> no_envelope [DocEnvelope d mt]" by (auto simp: no_envelope_def)
  then obtain q p perm uc env where ask: "exchange_asks si x w q"
      and p: "fst (Authenticate (lb_parse (si_lib si)) (lb_exp (si_lib si)) (mo_keyClock (xc_moment x)) (mo_jwks (xc_moment x)) (hr_Header (xc_req x)) (wd_auth w)) = Some (Inr p)"
        "map_of route_table (hr_Pattern (xc_req x)) = Some (perm, uc)"
        "Can (Some p) perm \<or> \<not> rbac_DefaultDeny (sec_RBAC (cfg_Security (si_cfg si)))" "cl_TenantID (req_class q) = pr_TenantID p"
      and env: "fst (serve ?s (si_marshal si) (si_null si) q (dr_clocks (xc_draw x)) (dr_flight (xc_draw x)) (dr_shared (xc_draw x)) (wd_app w)) = Inr env" "d = env_Data env"
    using assms(7) by (cases rule: exchange_cases[of si x w]) auto
  obtain st' w' where sv: "serve ?s (si_marshal si) (si_null si) q (dr_clocks (xc_draw x)) (dr_flight (xc_draw x)) (dr_shared (xc_draw x)) (fst (wd_app w), snd (wd_app w)) = (Inr env, (st', w'))"
    using env(1) by (metis prod.collapse)
  note rx = run_ok_exchange[OF assms(5), of evs x "[]" q, unfolded assms(6)[symmetric], OF refl ask]
  have qQ: "q \<in> ?Q" using rx by blast
  have fl: "loaded_by ?s (si_marshal si) ?Q (req_key ?s q) e" if "dr_flight (xc_draw x) = Some (Inr (Some e))" for e
    using rx that by blast
  from serve_keeps[OF assms(1) P qQ fl sv]
  obtain e where e: "loaded_by ?s (si_marshal si) ?Q (req_key ?s q) e" "\<not> ce_Negative e" "env_Data env = ce_Payload e" by auto
  then obtain q' ws e0 where q': "q' \<in> ?Q" "req_key ?s q = req_key ?s q'" "fst (req_loader ?s (si_marshal si) q' ws) = Inr e0" "ce_Payload e = ce_Payload e0"
    by (auto simp: loaded_by_def)
  have t: "cl_TenantID (req_class q') = pr_TenantID p"
    using shared_key_same_tenant[OF assms(4) _ q'(2)] assms(8) p(1,4) by simp
  have res: "\<exists>det. si_marshal si (project det v) = Inr d \<and> re_TenantID (rd_Resource det) = pr_TenantID p" if "q' = RResource env' v cls'" for env' v cls'
    using loadResource_subject[of ?s "si_marshal si" env' cls' v ws e0] q'(3,4) e(3) env(2) t that by auto
  show ?thesis
    by (rule exI[of _ p], rule exI[of _ perm], rule exI[of _ uc], rule exI[of _ q']) (use p(1-3) q' e env t res in auto)
qed

section \<open>A run of the example deployment\<close>

definition demo_site :: "(time, payload Memory, payload, routing_state, unit) Site" where
  "demo_site = \<lparr>si_boot = demo_config, si_cfg = demo_config, si_catalog = NewFieldCatalog (cfg_Precedence demo_config), si_lib = ApiProps.demo_lib,
     si_service = example_service, si_marshal = Inr, si_null = nil_payload\<rparr>"

definition demo_exchange :: "time \<Rightarrow> (time, payload) Exchange" where
  "demo_exchange t = \<lparr>xc_req = demo_request, xc_moment = demo_moment,
     xc_draw = \<lparr>dr_env = Deployment.example_env True True t 1, dr_clocks = example_clocks t, dr_flight = None, dr_shared = False\<rparr>\<rparr>"

definition demo_start :: "(payload Memory \<times> routing_state, unit, payload) World" where
  "demo_start = \<lparr>wd_rw = new_rw, wd_route = [], wd_log = [], wd_limiter = NewRateLimiter (sec_RateLimit demo_security) 0, wd_auth = demo_auth, wd_app = example_state\<rparr>"

definition demo_final :: "flow \<times> (payload Memory \<times> routing_state, unit, payload) World" where
  "demo_final = http_exchange demo_site (demo_exchange (5001 * second)) (fold (event_step demo_site) [Http (demo_exchange (5000 * second))] demo_start)"

definition demo_login :: "(goerr + Principal) option" where
  "demo_login = fst (Authenticate demo_parse (\<lambda>_. None) (ac_clock demo_call) (ac_reply demo_call) (hr_Header demo_request)
     (wd_auth (fold (event_step demo_site) [Http (demo_exchange (5000 * second))] demo_start)))"

theorem responses_carry_own_tenant_data_witness:
  "\<exists>d mt p. rw_body (wd_rw (snd demo_final)) = [DocEnvelope d mt] \<and> demo_login = Some (Inr p) \<and> pr_TenantID p = ''acme''
     \<and> (\<exists>q ws e. cl_TenantID (req_class q) = ''acme'' \<and> fst (req_loader example_service Inr q ws) = Inr e \<and> d = ce_Payload e)"
proof -
  let ?w = "fold (event_step demo_site) [Http (demo_exchange (5000 * second))] demo_start"
  have "case rw_body (wd_rw (snd demo_final)) of [DocEnvelope d mt] \<Rightarrow> True | _ \<Rightarrow> False" by code_simp
  then obtain d mt where b: "rw_body (wd_rw (snd demo_final)) = [DocEnvelope d mt]" by (auto split: list.splits document.splits)
  have l: "case demo_login of Some (Inr p) \<Rightarrow> pr_TenantID p = ''acme'' | _ \<Rightarrow> False" by code_simp
  have st: "mem_ok (fst (wd_app demo_start))" "mem_stored (fst (wd_app demo_start)) = {}"
    by (simp add: demo_start_def example_state_def mem_ok_New) (simp add: demo_start_def example_state_def mem_stored_def mem_list_def MemoryCache.NewMemory_def)
  have si: "si_service demo_site = example_service" "si_marshal demo_site = Inr" "si_lib demo_site = ApiProps.demo_lib" by (simp_all add: demo_site_def)
  have h: "hash_ok (sv_hash (si_service demo_site))" using example_hash_ok by (simp add: si example_service_def wired_def)
  have mc: "managed_cache memory_port mem_ok mem_stored (sv_cache (si_service demo_site))" using example_managed by (simp add: si)
  have int: "run_ok demo_site demo_start ([Http (demo_exchange (5000 * second))] @ [Http (demo_exchange (5001 * second))])"
    by (auto simp: run_ok_def Cons_eq_append_conv demo_exchange_def)
  have lib: "lb_parse (si_lib demo_site) = demo_parse" "lb_exp (si_lib demo_site) = (\<lambda>_. None)" "xc_req (demo_exchange t) = demo_request"
    "mo_keyClock (xc_moment (demo_exchange t)) = ac_clock demo_call" "mo_jwks (xc_moment (demo_exchange t)) = ac_reply demo_call" for t
    by (simp_all add: si ApiProps.demo_lib_def demo_exchange_def demo_moment_def)
  have pl: "\<forall>p. fst (Authenticate (lb_parse (si_lib demo_site)) (lb_exp (si_lib demo_site)) (mo_keyClock (xc_moment (demo_exchange (5001 * second))))
        (mo_jwks (xc_moment (demo_exchange (5001 * second)))) (hr_Header (xc_req (demo_exchange (5001 * second)))) (wd_auth ?w)) = Some (Inr p)
      \<longrightarrow> plain_id (pr_TenantID p)"
    unfolding lib using l unfolding demo_login_def by (auto simp: plain_id_def safe_char_def Let_def split: option.splits sum.splits)
  from responses_carry_own_tenant_data[OF mc st h int refl b[unfolded demo_final_def] pl, unfolded lib, folded demo_login_def]
  obtain p q ws e where p: "demo_login = Some (Inr p)" "cl_TenantID (req_class q) = pr_TenantID p" "fst (req_loader example_service Inr q ws) = Inr e" "d = ce_Payload e"
    unfolding si by blast
  have t: "pr_TenantID p = ''acme''" using l unfolding p(1) by simp
  show ?thesis using b p t by (intro exI[of _ d] exI[of _ mt] exI[of _ p]) auto
qed

end
