(* ===== verification/Mapper.thy ===== *)
theory Mapper
  imports Domain Errs
begin

text \<open>
  \<^verbatim>\<open>internal/mapper\<close>: the translation of the two sources' records into the canonical model. The messages of the operational source are
  the records of its protobuf schema, where a message field that may be absent is an option and the getters
  read an absent message as the zero message; those of the execution source are the wire structs of \<^verbatim>\<open>execution.go\<close>. The standard library's
  \<^verbatim>\<open>time.Parse\<close> and \<^verbatim>\<open>strconv.Quote\<close> are arguments; the hook on a schema mismatch is not modelled.
\<close>

record mapper_lib =
  ml_Parse :: "string \<Rightarrow> string \<Rightarrow> time option"
  ml_Quote :: "string \<Rightarrow> string"

section \<open>Shared helpers\<close>

record Timestamp =
  tp_seconds :: int
  tp_nanos :: int

definition secondsToEpoch :: int where "secondsToEpoch = 62135596800"

definition ts_IsValid :: "Timestamp \<Rightarrow> bool" where
  "ts_IsValid p \<longleftrightarrow> - secondsToEpoch \<le> tp_seconds p \<and> tp_seconds p \<le> 253402300799 \<and> 0 \<le> tp_nanos p \<and> tp_nanos p < 10 ^ 9"

definition ts_AsTime :: "Timestamp \<Rightarrow> time" where
  "ts_AsTime p = (tp_seconds p + secondsToEpoch) * 10 ^ 9 + tp_nanos p"

definition ts :: "Timestamp option \<Rightarrow> time" where
  "ts p = (case p of None \<Rightarrow> 0
     | Some p \<Rightarrow> if \<not> ts_IsValid p then 0
                 else if tp_seconds p = 0 \<and> tp_nanos p = 0 then 0 else ts_AsTime p)"

definition copyMap :: "string gomap \<Rightarrow> string gomap" where
  "copyMap m = (if length m = 0 then [] else fold (\<lambda>(k, v) out. gomap_put k v out) m [])"

definition copySlice :: "string list \<Rightarrow> string list" where
  "copySlice xs = (if length xs = 0 then [] else take (length xs) xs)"

fun firstNonEmpty :: "string list \<Rightarrow> string" where
  "firstNonEmpty [] = []"
| "firstNonEmpty (v # vs) = (if v \<noteq> [] then v else firstNonEmpty vs)"

fun parseTime :: "mapper_lib \<Rightarrow> string list \<Rightarrow> time" where
  "parseTime lib [] = 0"
| "parseTime lib (c0 # cs) =
     (let c = strings_TrimSpace c0 in
      if c = [] then parseTime lib cs
      else case ml_Parse lib ''2006-01-02T15:04:05.999999999Z07:00'' c of Some t \<Rightarrow> t
           | None \<Rightarrow> (case ml_Parse lib ''2006-01-02T15:04:05Z07:00'' c of Some t \<Rightarrow> t | None \<Rightarrow> parseTime lib cs))"

text \<open>The accepted versions; \<open>None\<close> is the nil map, which accepts anything.\<close>

definition accepted_versions :: "string list \<Rightarrow> string list option" where
  "accepted_versions vs = (if length vs > 0 then Some vs else None)"

definition checkSchema :: "mapper_lib \<Rightarrow> SourceKind \<Rightarrow> string list option \<Rightarrow> string \<Rightarrow> goerr option" where
  "checkSchema lib src accepted got =
     (case accepted of None \<Rightarrow> None
      | Some vs \<Rightarrow>
          if got = [] \<or> got \<in> set vs then None
          else let name = (if src = SourceOperational then ''operational'' else ''execution'')
            in Some (WithOp (''mapper.'' @ name @ ''.schema'') (WithSource (source_string src)
                 (err_New CodeSchemaVersionMismatch (name @ '' source declared unsupported schema version '' @ ml_Quote lib got)))))"

section \<open>Operational records\<close>

datatype ResourceState = STATE_UNSPECIFIED | STATE_PROVISIONING | STATE_ACTIVE | STATE_SUSPENDED | STATE_DEGRADED
  | STATE_TERMINATING | STATE_TERMINATED | STATE_ERROR | STATE_OTHER int

record FreshnessEnvelope =
  fe_last_updated :: "Timestamp option"
  fe_server_time :: "Timestamp option"
  fe_refresh_source :: string
  fe_version :: "64 word"

record OwnershipRecord =
  or_owner_id :: string
  or_owner_type :: string
  or_owner_email :: string
  or_cost_centre :: string

record MetricSample =
  ms_name :: string
  ms_value :: rat
  ms_unit :: string
  ms_sampled_at :: "Timestamp option"

record TopologyRecord =
  tr_region :: string
  tr_zone :: string
  tr_cluster :: string
  tr_upstream_refs :: "string list"
  tr_downstream_refs :: "string list"

record OperationalResource =
  op_resource_id :: string
  op_customer_ref :: string
  op_tenant_id :: string
  op_resource_type :: string
  op_state :: ResourceState
  op_substate :: string
  op_ownership :: "OwnershipRecord option"
  op_configuration :: "string gomap"
  op_metrics :: "MetricSample option list"
  op_topology :: "TopologyRecord option"
  op_operational_metadata :: "string gomap"
  op_labels :: "string gomap"
  op_freshness :: "FreshnessEnvelope option"
  op_in_flight_execution_ref :: string
  op_schema_version :: string

record GetResourceStateResponse =
  st_resource_id :: string
  st_state :: ResourceState
  st_substate :: string
  st_freshness :: "FreshnessEnvelope option"
  st_in_flight_execution_ref :: string

fun MapOperationalStatus :: "ResourceState \<Rightarrow> ResourceStatus" where
  "MapOperationalStatus STATE_UNSPECIFIED = StatusUnknown"
| "MapOperationalStatus STATE_PROVISIONING = StatusPending"
| "MapOperationalStatus STATE_ACTIVE = StatusActive"
| "MapOperationalStatus STATE_SUSPENDED = StatusSuspended"
| "MapOperationalStatus STATE_DEGRADED = StatusDegraded"
| "MapOperationalStatus STATE_TERMINATING = StatusTerminating"
| "MapOperationalStatus STATE_TERMINATED = StatusTerminated"
| "MapOperationalStatus STATE_ERROR = StatusError"
| "MapOperationalStatus (STATE_OTHER _) = StatusUnknown"

definition last_updated :: "FreshnessEnvelope option \<Rightarrow> Timestamp option" where
  "last_updated f = (case f of None \<Rightarrow> None | Some f \<Rightarrow> fe_last_updated f)"

definition map_freshness :: "FreshnessEnvelope option \<Rightarrow> Freshness" where
  "map_freshness f =
     (case f of None \<Rightarrow> zero_Freshness\<lparr>fr_State := FreshnessUnknown, fr_Source := SourceOperational\<rparr>
      | Some e \<Rightarrow> zero_Freshness\<lparr>fr_State := FreshnessUnknown, fr_ObservedAt := ts (fe_last_updated e), fr_Source := SourceOperational,
          fr_Version := fe_version e\<rparr>)"

definition map_owner :: "OwnershipRecord option \<Rightarrow> Owner option" where
  "map_owner o' = (case o' of None \<Rightarrow> None
     | Some r \<Rightarrow> if or_owner_id r \<noteq> [] \<or> or_owner_email r \<noteq> []
         then Some \<lparr>ow_ID = or_owner_id r, ow_Type = or_owner_type r, ow_Email = or_owner_email r, ow_CostCentre = or_cost_centre r\<rparr> else None)"

definition map_metrics :: "MetricSample option list \<Rightarrow> Metric list" where
  "map_metrics samples = List.map_filter (\<lambda>s. case s of None \<Rightarrow> None
     | Some s \<Rightarrow> if ms_name s = [] then None
         else Some \<lparr>me_Name = ms_name s, me_Value = ms_value s, me_Unit = ms_unit s, me_SampledAt = ts (ms_sampled_at s)\<rparr>) samples"

definition map_topology :: "TopologyRecord option \<Rightarrow> Topology option" where
  "map_topology t = (case t of None \<Rightarrow> None
     | Some r \<Rightarrow> if tr_region r \<noteq> [] \<or> tr_cluster r \<noteq> [] \<or> length (tr_upstream_refs r) > 0
         then Some \<lparr>to_Region = tr_region r, to_Zone = tr_zone r, to_Cluster = tr_cluster r, to_Upstream = copySlice (tr_upstream_refs r),
                to_Downstream = copySlice (tr_downstream_refs r)\<rparr> else None)"

definition resource_record :: "OperationalResource \<Rightarrow> string \<Rightarrow> Resource" where
  "resource_record r tenantID =
    \<lparr>re_TenantID = firstNonEmpty [op_tenant_id r, tenantID], re_ResourceID = op_resource_id r, re_CustomerID = op_customer_ref r,
     re_Type = op_resource_type r, re_Status = MapOperationalStatus (op_state r), re_SubState = op_substate r,
     re_Owner = map_owner (op_ownership r), re_Configuration = copyMap (op_configuration r),
     re_Metrics = map_metrics (op_metrics r), re_Topology = map_topology (op_topology r), re_Labels = copyMap (op_labels r),
     re_Metadata = copyMap (op_operational_metadata r), re_InFlightExecutionID = op_in_flight_execution_ref r,
     re_ObservedAt = ts (last_updated (op_freshness r)), re_SchemaVersion = op_schema_version r\<rparr>"

definition map_Resource :: "mapper_lib \<Rightarrow> string list option \<Rightarrow> OperationalResource option \<Rightarrow> string \<Rightarrow> goerr + Resource \<times> Freshness" where
  "map_Resource lib accepted src tenantID =
     (case src of
        None \<Rightarrow> Inl (WithSource (source_string SourceOperational) (err_New CodeUpstreamInvalidPayload ''operational source returned an empty record''))
      | Some r \<Rightarrow>
          (case checkSchema lib SourceOperational accepted (op_schema_version r) of Some e \<Rightarrow> Inl e
           | None \<Rightarrow>
              if op_tenant_id r \<noteq> [] \<and> tenantID \<noteq> [] \<and> op_tenant_id r \<noteq> tenantID
              then Inl (WithOp ''mapper.operational.resource'' (WithSource (source_string SourceOperational)
                     (err_New CodeTenantMismatch ''operational source returned a record belonging to another tenant'')))
              else if op_resource_id r = []
              then Inl (WithSource (source_string SourceOperational)
                     (err_New CodeUpstreamInvalidPayload ''operational record is missing its resource identifier''))
              else Inr (resource_record r tenantID, map_freshness (op_freshness r))))"

definition map_State :: "GetResourceStateResponse option \<Rightarrow> string \<Rightarrow> goerr + Resource \<times> Freshness" where
  "map_State resp tenantID =
     (case resp of Some r \<Rightarrow>
          if st_resource_id r = []
          then Inl (WithSource (source_string SourceOperational) (err_New CodeUpstreamInvalidPayload ''operational source returned an empty state record''))
          else Inr (zero_Resource\<lparr>re_TenantID := tenantID, re_ResourceID := st_resource_id r, re_Status := MapOperationalStatus (st_state r),
                 re_SubState := st_substate r, re_InFlightExecutionID := st_in_flight_execution_ref r, re_ObservedAt := ts (last_updated (st_freshness r))\<rparr>,
               map_freshness (st_freshness r))
      | None \<Rightarrow> Inl (WithSource (source_string SourceOperational) (err_New CodeUpstreamInvalidPayload ''operational source returned an empty state record'')))"

section \<open>Execution records\<close>

record EDSFailure =
  ef_FailureCode :: string
  ef_Detail :: string
  ef_Transient :: bool
  ef_AtStep :: string

record EDSStep =
  es_StepID :: string
  es_Label :: string
  es_Ordinal :: int
  es_State :: string
  es_StartedAt :: string
  es_CompletedAt :: string
  es_Attempt :: int
  es_Failure :: "EDSFailure option"

record EDSAction =
  ea_ActionID :: string
  ea_Kind :: string
  ea_TargetRef :: string
  ea_Result :: string
  ea_ExecutedAt :: string
  ea_ExecutedBy :: string

record EDSOutcome =
  eo_OutcomeCode :: string
  eo_Narrative :: string
  eo_Attributes :: "string gomap"

record EDSAudit =
  eu_Timestamp :: string
  eu_Actor :: string
  eu_Event :: string
  eu_Detail :: string

record EDSExecution =
  ed_ExecutionID :: string
  ed_TenantID :: string
  ed_ResourceID :: string
  ed_CustomerID :: string
  ed_Operation :: string
  ed_State :: string
  ed_ResultingResourceState :: string
  ed_StartedAt :: string
  ed_ExecutedAt :: string
  ed_CompletedAt :: string
  ed_UpdatedAt :: string
  ed_WFSteps :: "EDSStep list"
  ed_Actions :: "EDSAction list"
  ed_Outcome :: "EDSOutcome option"
  ed_Failure :: "EDSFailure option"
  ed_Audit :: "EDSAudit list"
  ed_SchemaVersion :: string

record EDSExecutionPage =
  ep_Items :: "EDSExecution list"
  ep_TotalCount :: int
  ep_NextCursor :: string

definition executionStatus :: "ExecutionStatus gomap" where
  "executionStatus =
    [(''PENDING'', ExecQueued), (''QUEUED'', ExecQueued), (''IN_PROGRESS'', ExecRunning), (''RUNNING'', ExecRunning),
     (''SUCCEEDED'', ExecCompleted), (''ERRORED'', ExecFailed), (''ABORTED'', ExecCancelled), (''EXPIRED'', ExecTimedOut)]"

definition MapExecutionStatus :: "string \<Rightarrow> ExecutionStatus" where
  "MapExecutionStatus s = (case gomap_get executionStatus (strings_ToUpper (strings_TrimSpace s)) of Some v \<Rightarrow> v | None \<Rightarrow> ExecUnknown)"

definition resultingResourceStatus :: "ResourceStatus gomap" where
  "resultingResourceStatus =
    [(''LIVE'', StatusActive), (''ACTIVE'', StatusActive), (''PAUSED'', StatusSuspended), (''SUSPENDED'', StatusSuspended),
     (''IMPAIRED'', StatusDegraded), (''REMOVING'', StatusTerminating), (''REMOVED'', StatusTerminated), (''FAILED'', StatusError),
     (''PROVISIONED'', StatusActive), (''BUILDING'', StatusPending)]"

definition MapResultingResourceStatus :: "string \<Rightarrow> ResourceStatus" where
  "MapResultingResourceStatus s =
     (case gomap_get resultingResourceStatus (strings_ToUpper (strings_TrimSpace s)) of Some v \<Rightarrow> v | None \<Rightarrow> StatusUnknown)"

definition mapFailure :: "EDSFailure option \<Rightarrow> ExecutionError option" where
  "mapFailure f = (case f of None \<Rightarrow> None
     | Some x \<Rightarrow> if ef_FailureCode x = [] \<and> ef_Detail x = [] then None
         else Some \<lparr>ee_Code = ef_FailureCode x, ee_Message = ef_Detail x, ee_Retryable = ef_Transient x, ee_Step = ef_AtStep x\<rparr>)"

definition map_step :: "mapper_lib \<Rightarrow> EDSStep \<Rightarrow> WorkflowStep" where
  "map_step lib s = \<lparr>ws_ID = es_StepID s, ws_Name = es_Label s, ws_Sequence = es_Ordinal s, ws_Status = MapExecutionStatus (es_State s),
     ws_StartedAt = parseTime lib [es_StartedAt s], ws_CompletedAt = parseTime lib [es_CompletedAt s], ws_Attempt = es_Attempt s,
     ws_Error = mapFailure (es_Failure s)\<rparr>"

definition map_action :: "mapper_lib \<Rightarrow> EDSAction \<Rightarrow> Action" where
  "map_action lib a = \<lparr>ac_ID = ea_ActionID a, ac_Type = ea_Kind a, ac_Target = ea_TargetRef a, ac_Outcome = ea_Result a,
     ac_PerformedAt = parseTime lib [ea_ExecutedAt a], ac_PerformedBy = ea_ExecutedBy a\<rparr>"

definition map_outcome :: "EDSOutcome option \<Rightarrow> ExecutionResult option" where
  "map_outcome o' = (case o' of None \<Rightarrow> None
     | Some x \<Rightarrow> if eo_OutcomeCode x \<noteq> [] \<or> eo_Narrative x \<noteq> []
         then Some \<lparr>er_Outcome = eo_OutcomeCode x, er_Summary = eo_Narrative x, er_Values = copyMap (eo_Attributes x)\<rparr> else None)"

definition map_audit :: "mapper_lib \<Rightarrow> EDSAudit \<Rightarrow> AuditEntry" where
  "map_audit lib a = \<lparr>ae_At = parseTime lib [eu_Timestamp a], ae_Actor = eu_Actor a, ae_Action = eu_Event a, ae_Details = eu_Detail a\<rparr>"

definition one_record :: "mapper_lib \<Rightarrow> EDSExecution \<Rightarrow> string \<Rightarrow> Execution" where
  "one_record lib r tenantID =
    \<lparr>ex_ExecutionID = ed_ExecutionID r, ex_TenantID = firstNonEmpty [ed_TenantID r, tenantID], ex_ResourceID = ed_ResourceID r,
     ex_CustomerID = ed_CustomerID r, ex_Operation = ed_Operation r, ex_Status = MapExecutionStatus (ed_State r),
     ex_Steps = map (map_step lib) (filter (\<lambda>s. es_StepID s \<noteq> []) (ed_WFSteps r)),
     ex_Actions = map (map_action lib) (filter (\<lambda>a. ea_ActionID a \<noteq> []) (ed_Actions r)),
     ex_Result = map_outcome (ed_Outcome r), ex_Error = mapFailure (ed_Failure r), ex_Audit = map (map_audit lib) (ed_Audit r),
     ex_StartedAt = parseTime lib [ed_StartedAt r, ed_ExecutedAt r], ex_CompletedAt = parseTime lib [ed_CompletedAt r],
     ex_UpdatedAt = parseTime lib [ed_UpdatedAt r, ed_CompletedAt r, ed_ExecutedAt r, ed_StartedAt r],
     ex_ResourceStatusAfter = MapResultingResourceStatus (ed_ResultingResourceState r), ex_SchemaVersion = ed_SchemaVersion r\<rparr>"

definition map_One :: "mapper_lib \<Rightarrow> string list option \<Rightarrow> EDSExecution \<Rightarrow> string \<Rightarrow> goerr + Execution" where
  "map_One lib accepted r tenantID =
     (case checkSchema lib SourceExecution accepted (ed_SchemaVersion r) of Some e \<Rightarrow> Inl e
      | None \<Rightarrow>
          if ed_TenantID r \<noteq> [] \<and> tenantID \<noteq> [] \<and> ed_TenantID r \<noteq> tenantID
          then Inl (WithOp ''mapper.execution.one'' (WithSource (source_string SourceExecution)
                 (err_New CodeTenantMismatch ''execution source returned a record belonging to another tenant'')))
          else if ed_ExecutionID r = []
          then Inl (WithSource (source_string SourceExecution) (err_New CodeUpstreamInvalidPayload ''execution record is missing its execution identifier''))
          else Inr (one_record lib r tenantID))"

text \<open>The loop of \<^verbatim>\<open>Page\<close> over the items, with the records kept so far and the count of dropped ones.\<close>

fun page_loop :: "mapper_lib \<Rightarrow> string list option \<Rightarrow> string \<Rightarrow> EDSExecution list \<Rightarrow> Execution list \<Rightarrow> int \<Rightarrow> goerr + Execution list \<times> int" where
  "page_loop lib accepted tenantID [] out dropped = Inr (out, dropped)"
| "page_loop lib accepted tenantID (r # rs) out dropped =
     (case map_One lib accepted r tenantID of
        Inl e \<Rightarrow> if CodeOf (Some e) = Some CodeTenantMismatch then Inl e else page_loop lib accepted tenantID rs out (dropped + 1)
      | Inr e \<Rightarrow> page_loop lib accepted tenantID rs (out @ [e]) dropped)"

definition map_Page :: "mapper_lib \<Rightarrow> string list option \<Rightarrow> EDSExecutionPage \<Rightarrow> string \<Rightarrow> goerr + ExecutionList \<times> int" where
  "map_Page lib accepted src tenantID =
     (case page_loop lib accepted tenantID (ep_Items src) [] 0 of Inl e \<Rightarrow> Inl e
      | Inr (kept, dropped) \<Rightarrow>
          let items = SortExecutionsByRecency kept
          in Inr (\<lparr>el_ResourceID = (if length items > 0 then ex_ResourceID (items ! 0) else []), el_Items = items,
                    el_Total = ep_TotalCount src, el_NextCursor = ep_NextCursor src\<rparr>, dropped))"

section \<open>Lemmas\<close>

lemma checkSchema_None_iff: "checkSchema lib src accepted got = None \<longleftrightarrow> accepted = None \<or> got = [] \<or> got \<in> set (the accepted)"
  by (auto simp: checkSchema_def Let_def split: option.splits)

lemma checkSchema_code: "checkSchema lib src accepted got = Some e \<Longrightarrow> CodeOf (Some e) = Some CodeSchemaVersionMismatch"
  by (auto simp: checkSchema_def Let_def err_New_def split: option.splits if_splits)

lemma firstNonEmpty_own: "\<not> (a \<noteq> [] \<and> t \<noteq> [] \<and> a \<noteq> t) \<Longrightarrow> t \<noteq> [] \<Longrightarrow> firstNonEmpty [a, t] = t"
  by auto

lemma map_Resource_Inr:
  "map_Resource lib accepted src tenantID = Inr (r, f) \<Longrightarrow> \<exists>o'. src = Some o' \<and> checkSchema lib SourceOperational accepted (op_schema_version o') = None
     \<and> \<not> (op_tenant_id o' \<noteq> [] \<and> tenantID \<noteq> [] \<and> op_tenant_id o' \<noteq> tenantID) \<and> op_resource_id o' \<noteq> []
     \<and> r = resource_record o' tenantID \<and> f = map_freshness (op_freshness o')"
  by (auto simp: map_Resource_def split: option.splits if_splits)

lemma map_freshness_sel [simp]: "fr_State (map_freshness f) = FreshnessUnknown" "fr_ObservedAt (map_freshness f) = ts (last_updated f)"
  by (simp_all add: map_freshness_def last_updated_def zero_Freshness_def ts_def split: option.split)

lemma resource_record_sel [simp]:
  "re_TenantID (resource_record o' t) = firstNonEmpty [op_tenant_id o', t]" "re_ResourceID (resource_record o' t) = op_resource_id o'"
  "re_ObservedAt (resource_record o' t) = ts (last_updated (op_freshness o'))" "re_Status (resource_record o' t) = MapOperationalStatus (op_state o')"
  by (simp_all add: resource_record_def del: firstNonEmpty.simps)

lemma map_Resource_own:
  assumes "map_Resource lib accepted src tenantID = Inr (r, f)" "tenantID \<noteq> []"
  shows "re_TenantID r = tenantID \<and> re_ResourceID r \<noteq> [] \<and> fr_State f = FreshnessUnknown \<and> fr_ObservedAt f = re_ObservedAt r"
  using map_Resource_Inr[OF assms(1)] assms(2) by (auto simp del: firstNonEmpty.simps intro!: firstNonEmpty_own)

lemma map_State_own:
  "map_State resp tenantID = Inr (r, f) \<Longrightarrow> re_TenantID r = tenantID \<and> re_ResourceID r \<noteq> [] \<and> fr_State f = FreshnessUnknown \<and> fr_ObservedAt f = re_ObservedAt r"
  by (auto simp: map_State_def split: option.splits if_splits)

lemma map_One_Inr:
  "map_One lib accepted r tenantID = Inr e \<Longrightarrow> checkSchema lib SourceExecution accepted (ed_SchemaVersion r) = None
     \<and> \<not> (ed_TenantID r \<noteq> [] \<and> tenantID \<noteq> [] \<and> ed_TenantID r \<noteq> tenantID) \<and> ed_ExecutionID r \<noteq> [] \<and> e = one_record lib r tenantID"
  by (auto simp: map_One_def split: option.splits if_splits)

lemma one_record_sel [simp]:
  "ex_TenantID (one_record lib r t) = firstNonEmpty [ed_TenantID r, t]" "ex_ExecutionID (one_record lib r t) = ed_ExecutionID r"
  "ex_Status (one_record lib r t) = MapExecutionStatus (ed_State r)"
  by (simp_all add: one_record_def del: firstNonEmpty.simps)

lemma map_One_own:
  assumes "map_One lib accepted r tenantID = Inr e" "tenantID \<noteq> []"
  shows "ex_TenantID e = tenantID \<and> ex_ExecutionID e \<noteq> []"
  using map_One_Inr[OF assms(1)] assms(2) by (auto simp del: firstNonEmpty.simps intro!: firstNonEmpty_own)

lemma map_One_code:
  "map_One lib accepted r tenantID = Inl e \<Longrightarrow> CodeOf (Some e) \<in> {Some CodeSchemaVersionMismatch, Some CodeTenantMismatch, Some CodeUpstreamInvalidPayload}"
  by (auto simp: map_One_def err_New_def dest: checkSchema_code split: option.splits if_splits)

definition kept_items :: "mapper_lib \<Rightarrow> string list option \<Rightarrow> string \<Rightarrow> EDSExecution list \<Rightarrow> Execution list" where
  "kept_items lib accepted t rs = List.map_filter (\<lambda>r. case map_One lib accepted r t of Inl _ \<Rightarrow> None | Inr e \<Rightarrow> Some e) rs"

lemma kept_items_simps [simp]:
  "kept_items lib accepted t [] = []"
  "map_One lib accepted r t = Inl e \<Longrightarrow> kept_items lib accepted t (r # rs) = kept_items lib accepted t rs"
  "map_One lib accepted r t = Inr x \<Longrightarrow> kept_items lib accepted t (r # rs) = x # kept_items lib accepted t rs"
  by (simp_all add: kept_items_def List.map_filter_simps)

lemma kept_items_iff: "x \<in> set (kept_items lib accepted t rs) \<longleftrightarrow> (\<exists>r \<in> set rs. map_One lib accepted r t = Inr x)"
proof (induction rs)
  case (Cons r rs)
  then show ?case by (cases "map_One lib accepted r t") auto
qed simp

lemma page_loop_Inr:
  "page_loop lib accepted t rs out d = Inr (kept, d') \<Longrightarrow>
     kept = out @ kept_items lib accepted t rs \<and> d' = d + int (length rs) - int (length (kept_items lib accepted t rs))
   \<and> (\<forall>r \<in> set rs. \<forall>e. map_One lib accepted r t = Inl e \<longrightarrow> CodeOf (Some e) \<noteq> Some CodeTenantMismatch)"
proof (induction rs arbitrary: out d)
  case (Cons r rs)
  show ?case
  proof (cases "map_One lib accepted r t")
    case (Inl e)
    then have "CodeOf (Some e) \<noteq> Some CodeTenantMismatch" "page_loop lib accepted t rs out (d + 1) = Inr (kept, d')"
      using Cons.prems by (simp_all split: if_splits)
    then show ?thesis using Cons.IH[of out "d + 1"] Inl by simp
  next
    case (Inr x)
    then show ?thesis using Cons.prems Cons.IH[of "out @ [x]" d] by simp
  qed
qed simp

lemma page_loop_Inl: "page_loop lib accepted t rs out d = Inl e \<Longrightarrow> CodeOf (Some e) = Some CodeTenantMismatch"
proof (induction rs arbitrary: out d)
  case (Cons r rs)
  then show ?case by (cases "map_One lib accepted r t") (auto split: if_splits)
qed simp

lemma map_Page_Inr:
  assumes "map_Page lib accepted src t = Inr (l, d)"
  shows "el_Items l = SortExecutionsByRecency (kept_items lib accepted t (ep_Items src))" "el_NextCursor l = ep_NextCursor src"
    "d = int (length (ep_Items src)) - int (length (el_Items l))"
    "\<And>r e. r \<in> set (ep_Items src) \<Longrightarrow> map_One lib accepted r t = Inl e \<Longrightarrow> CodeOf (Some e) \<noteq> Some CodeTenantMismatch"
proof -
  obtain kept where k: "page_loop lib accepted t (ep_Items src) [] 0 = Inr (kept, d)" "el_Items l = SortExecutionsByRecency kept" "el_NextCursor l = ep_NextCursor src"
    using assms by (auto simp: map_Page_def Let_def split: sum.splits)
  note p = page_loop_Inr[OF k(1)]
  show "el_Items l = SortExecutionsByRecency (kept_items lib accepted t (ep_Items src))" "el_NextCursor l = ep_NextCursor src" using k p by simp_all
  then have "length (el_Items l) = length (kept_items lib accepted t (ep_Items src))" by (metis SortExecutionsByRecency_mset size_mset)
  then show "d = int (length (ep_Items src)) - int (length (el_Items l))" using p by simp
  show "\<And>r e. r \<in> set (ep_Items src) \<Longrightarrow> map_One lib accepted r t = Inl e \<Longrightarrow> CodeOf (Some e) \<noteq> Some CodeTenantMismatch" using p by blast
qed

lemma map_Page_Inl: "map_Page lib accepted src t = Inl e \<Longrightarrow> CodeOf (Some e) = Some CodeTenantMismatch"
  by (auto simp: map_Page_def Let_def dest: page_loop_Inl split: sum.splits)

end
