(* ===== verification/Bulkhead.thy ===== *)
theory Bulkhead
  imports Config Errs
begin

text \<open>
  \<^verbatim>\<open>internal/resilience/bulkhead.go\<close>: bounded concurrency with a bounded queue. The two channels are
  counters of the tokens they hold. Neither \<^verbatim>\<open>Acquire\<close> nor the release function is atomic: every channel
  operation, every atomic counter update and the compare-and-swap of the release function is a step of
  its own, taken by one of any number of concurrent callers. A caller is a natural number and has a
  phase, the place it has reached. The gauge callback is not modelled.
\<close>

section \<open>State\<close>

text \<open>The phases, in the order of the code: the fast path took a slot (\<open>Took\<close>) or found none
  (\<open>Queueing\<close>); the queue token is sent (\<open>Queued\<close>), then the caller is counted as waiting and stands
  at the final \<^verbatim>\<open>select\<close> (\<open>Waiting\<close>), which gives it a slot (\<open>TookQueued\<close>) or an error (\<open>Refusing\<close>);
  then the two deferred calls run (\<open>Leaving\<close>, \<open>Unqueuing\<close>, with the error to return, if any). A holder's
  release wins the compare-and-swap (\<open>Releasing\<close>), receives the slot token (\<open>Freed\<close>) and lowers
  \<^verbatim>\<open>inFlight\<close> (\<open>Released\<close>).\<close>

datatype phase = NotStarted | Took | Queueing | Rejecting goerr | Queued | Waiting | TookQueued
  | Refusing goerr | Leaving "goerr option" | Unqueuing "goerr option"
  | Holding | Releasing | Freed | Released | Failed goerr

record Bulkhead =
  bh_name :: string
  bh_enabled :: bool
  bh_semCap :: nat
  bh_waitCap :: nat
  bh_acquire :: duration
  bh_sem :: nat
  bh_waitSlots :: nat
  bh_inFlight :: int
  bh_waiting :: int
  bh_rejected :: int
  bh_phase :: "nat \<Rightarrow> phase"

definition NewBulkhead :: "string \<Rightarrow> BulkheadConfig \<Rightarrow> Bulkhead" where
  "NewBulkhead name cfg =
     \<lparr>bh_name = name, bh_enabled = bh_Enabled cfg,
      bh_semCap = (if bh_Enabled cfg then nat (if bh_MaxConcurrent cfg < 1 then 1 else bh_MaxConcurrent cfg) else 0),
      bh_waitCap = (if bh_Enabled cfg then nat (if bh_MaxQueue cfg < 0 then 0 else bh_MaxQueue cfg) else 0),
      bh_acquire = bh_AcquireTimeout cfg, bh_sem = 0, bh_waitSlots = 0, bh_inFlight = 0, bh_waiting = 0,
      bh_rejected = 0, bh_phase = (\<lambda>_. NotStarted)\<rparr>"

definition set_phase :: "nat \<Rightarrow> phase \<Rightarrow> Bulkhead \<Rightarrow> Bulkhead" where
  "set_phase i p b = b\<lparr>bh_phase := (bh_phase b)(i := p)\<rparr>"

section \<open>The steps of Acquire\<close>

text \<open>\<^verbatim>\<open>select\<close> with a default: the fast path sends a slot token if the channel has room.\<close>

definition fastPath :: "nat \<Rightarrow> Bulkhead \<Rightarrow> Bulkhead" where
  "fastPath i b = (if bh_sem b < bh_semCap b then set_phase i Took (b\<lparr>bh_sem := bh_sem b + 1\<rparr>)
     else set_phase i Queueing b)"

text \<open>\<^verbatim>\<open>enter\<close>: the counter, after the token. A waiter that entered goes on to its deferred calls.\<close>

definition enter :: "nat \<Rightarrow> Bulkhead \<Rightarrow> Bulkhead" where
  "enter i b = set_phase i (if bh_phase b i = TookQueued then Leaving None else Holding)
     (b\<lparr>bh_inFlight := bh_inFlight b + 1\<rparr>)"

definition queueAdmission :: "nat \<Rightarrow> Bulkhead \<Rightarrow> Bulkhead" where
  "queueAdmission i b =
     (if bh_waitSlots b < bh_waitCap b then set_phase i Queued (b\<lparr>bh_waitSlots := bh_waitSlots b + 1\<rparr>)
      else set_phase i (Rejecting (WithOp ''bulkhead.queue_full'' (WithSource (bh_name b) ErrBulkheadFull))) b)"

definition countWaiting :: "nat \<Rightarrow> Bulkhead \<Rightarrow> Bulkhead" where
  "countWaiting i b = set_phase i Waiting (b\<lparr>bh_waiting := bh_waiting b + 1\<rparr>)"

text \<open>The three cases of the final \<^verbatim>\<open>select\<close>.\<close>

definition waitAcquire :: "nat \<Rightarrow> Bulkhead \<Rightarrow> Bulkhead" where
  "waitAcquire i b = set_phase i TookQueued (b\<lparr>bh_sem := bh_sem b + 1\<rparr>)"

definition waitTimeout :: "nat \<Rightarrow> Bulkhead \<Rightarrow> Bulkhead" where
  "waitTimeout i b =
     set_phase i (Refusing (WithOp ''bulkhead.acquire_timeout'' (WithSource (bh_name b) ErrBulkheadFull))) b"

definition waitCtxDone :: "nat \<Rightarrow> goerr \<Rightarrow> Bulkhead \<Rightarrow> Bulkhead" where
  "waitCtxDone i ctxErr b =
     set_phase i (Refusing (WithOp ''bulkhead.ctx_done'' (WithSource (bh_name b)
        (err_Wrap CodeUpstreamTimeout ''cancelled while waiting for source capacity'' ctxErr)))) b"

text \<open>\<^verbatim>\<open>rejected.Add(1)\<close>, of a caller refused at the queue or in the \<^verbatim>\<open>select\<close>.\<close>

definition countRejected :: "nat \<Rightarrow> phase \<Rightarrow> Bulkhead \<Rightarrow> Bulkhead" where
  "countRejected i p b = set_phase i p (b\<lparr>bh_rejected := bh_rejected b + 1\<rparr>)"

text \<open>The deferred calls of a waiter, last registered first: \<^verbatim>\<open>waiting.Add(-1)\<close>, then the receive from
  \<^verbatim>\<open>waitSlots\<close>, after which \<^verbatim>\<open>Acquire\<close> has returned.\<close>

definition uncountWaiting :: "nat \<Rightarrow> goerr option \<Rightarrow> Bulkhead \<Rightarrow> Bulkhead" where
  "uncountWaiting i r b = set_phase i (Unqueuing r) (b\<lparr>bh_waiting := bh_waiting b - 1\<rparr>)"

definition leaveQueue :: "nat \<Rightarrow> goerr option \<Rightarrow> Bulkhead \<Rightarrow> Bulkhead" where
  "leaveQueue i r b = set_phase i (case r of None \<Rightarrow> Holding | Some e \<Rightarrow> Failed e)
     (b\<lparr>bh_waitSlots := bh_waitSlots b - 1\<rparr>)"

section \<open>The steps of the release function\<close>

definition releaseOnce :: "nat \<Rightarrow> Bulkhead \<Rightarrow> Bulkhead" where
  "releaseOnce i b = set_phase i Releasing b"

definition releaseSlot :: "nat \<Rightarrow> Bulkhead \<Rightarrow> Bulkhead" where
  "releaseSlot i b = set_phase i Freed (b\<lparr>bh_sem := bh_sem b - 1\<rparr>)"

definition releaseCount :: "nat \<Rightarrow> Bulkhead \<Rightarrow> Bulkhead" where
  "releaseCount i b = set_phase i Released (b\<lparr>bh_inFlight := bh_inFlight b - 1\<rparr>)"

text \<open>A whole call of the release function, when no other caller moves in between. The failed
  compare-and-swap of a repeated call is the else branch.\<close>

definition release :: "nat \<Rightarrow> Bulkhead \<Rightarrow> Bulkhead" where
  "release i b = (if bh_phase b i = Holding then releaseCount i (releaseSlot i (releaseOnce i b)) else b)"

section \<open>Runs\<close>

text \<open>The next step of caller \<open>i\<close> that is its own doing: \<open>None\<close> when it has finished or blocks on a
  channel. A receive from an empty channel blocks, and so does the final \<^verbatim>\<open>select\<close> without a free slot,
  unless a timeout or a cancellation comes.\<close>

definition own_step :: "nat \<Rightarrow> Bulkhead \<Rightarrow> Bulkhead option" where
  "own_step i b = (case bh_phase b i of
       NotStarted \<Rightarrow> Some (fastPath i b)
     | Took \<Rightarrow> Some (enter i b)
     | Queueing \<Rightarrow> Some (queueAdmission i b)
     | Rejecting e \<Rightarrow> Some (countRejected i (Failed e) b)
     | Queued \<Rightarrow> Some (countWaiting i b)
     | Waiting \<Rightarrow> if bh_sem b < bh_semCap b then Some (waitAcquire i b) else None
     | TookQueued \<Rightarrow> Some (enter i b)
     | Refusing e \<Rightarrow> Some (countRejected i (Leaving (Some e)) b)
     | Leaving r \<Rightarrow> Some (uncountWaiting i r b)
     | Unqueuing r \<Rightarrow> if 0 < bh_waitSlots b then Some (leaveQueue i r b) else None
     | Holding \<Rightarrow> Some (releaseOnce i b)
     | Releasing \<Rightarrow> if 0 < bh_sem b then Some (releaseSlot i b) else None
     | Freed \<Rightarrow> Some (releaseCount i b)
     | Released \<Rightarrow> None
     | Failed e \<Rightarrow> None)"

text \<open>One step of some caller of an enabled bulkhead. The timeout channel exists only for a positive
  acquire timeout; the caller's context may end at any time.\<close>

inductive bulkhead_step :: "Bulkhead \<Rightarrow> Bulkhead \<Rightarrow> bool" where
  own: "own_step i b = Some b' \<Longrightarrow> bulkhead_step b b'"
| timeout: "bh_phase b i = Waiting \<Longrightarrow> 0 < bh_acquire b \<Longrightarrow> bulkhead_step b (waitTimeout i b)"
| ctx_done: "bh_phase b i = Waiting \<Longrightarrow> bulkhead_step b (waitCtxDone i e b)"

inductive bulkhead_reachable :: "Bulkhead \<Rightarrow> Bulkhead \<Rightarrow> bool" for b0 where
  start: "bulkhead_reachable b0 b0"
| move: "bulkhead_reachable b0 b \<Longrightarrow> bulkhead_step b b' \<Longrightarrow> bulkhead_reachable b0 b'"

inductive_cases bulkhead_stepE: "bulkhead_step b b'"

text \<open>A run in which only the named callers move, each by its own steps.\<close>

fun own_run :: "nat list \<Rightarrow> Bulkhead \<Rightarrow> Bulkhead option" where
  "own_run [] b = Some b"
| "own_run (i # is) b = (case own_step i b of None \<Rightarrow> None | Some b' \<Rightarrow> own_run is b')"

definition Stats :: "Bulkhead \<Rightarrow> int \<times> int \<times> int \<times> int" where
  "Stats b = (if \<not> bh_enabled b then (0, 0, 0, 0)
     else (bh_inFlight b, bh_waiting b, bh_rejected b, int (bh_semCap b)))"

definition Saturated :: "Bulkhead \<Rightarrow> bool" where
  "Saturated b = (if \<not> bh_enabled b then False else bh_inFlight b \<ge> int (bh_semCap b))"

section \<open>What a caller holds in each phase\<close>

text \<open>A token of \<^verbatim>\<open>sem\<close>, a unit of \<^verbatim>\<open>inFlight\<close>, a token of \<^verbatim>\<open>waitSlots\<close>, a unit of \<^verbatim>\<open>waiting\<close>, a unit of
  \<^verbatim>\<open>rejected\<close>.\<close>

fun holds_slot :: "phase \<Rightarrow> bool" where
  "holds_slot Took = True"
| "holds_slot TookQueued = True"
| "holds_slot (Leaving r) \<longleftrightarrow> r = None"
| "holds_slot (Unqueuing r) \<longleftrightarrow> r = None"
| "holds_slot Holding = True"
| "holds_slot Releasing = True"
| "holds_slot _ = False"

fun counted_in :: "phase \<Rightarrow> bool" where
  "counted_in (Leaving r) \<longleftrightarrow> r = None"
| "counted_in (Unqueuing r) \<longleftrightarrow> r = None"
| "counted_in Holding = True"
| "counted_in Releasing = True"
| "counted_in Freed = True"
| "counted_in _ = False"

fun in_queue :: "phase \<Rightarrow> bool" where
  "in_queue Queued = True"
| "in_queue Waiting = True"
| "in_queue TookQueued = True"
| "in_queue (Refusing e) = True"
| "in_queue (Leaving r) = True"
| "in_queue (Unqueuing r) = True"
| "in_queue _ = False"

fun counted_waiting :: "phase \<Rightarrow> bool" where
  "counted_waiting Waiting = True"
| "counted_waiting TookQueued = True"
| "counted_waiting (Refusing e) = True"
| "counted_waiting (Leaving r) = True"
| "counted_waiting _ = False"

fun counted_rejected :: "phase \<Rightarrow> bool" where
  "counted_rejected (Leaving r) \<longleftrightarrow> r \<noteq> None"
| "counted_rejected (Unqueuing r) \<longleftrightarrow> r \<noteq> None"
| "counted_rejected (Failed e) = True"
| "counted_rejected _ = False"

text \<open>A caller that is not between a channel operation and the counter update beside it.\<close>

fun settled :: "phase \<Rightarrow> bool" where
  "settled NotStarted = True"
| "settled Queueing = True"
| "settled Waiting = True"
| "settled Holding = True"
| "settled Released = True"
| "settled (Failed e) = True"
| "settled _ = False"

fun refusal :: "phase \<Rightarrow> goerr option" where
  "refusal (Rejecting e) = Some e"
| "refusal (Refusing e) = Some e"
| "refusal (Leaving r) = r"
| "refusal (Unqueuing r) = r"
| "refusal (Failed e) = Some e"
| "refusal _ = None"

text \<open>How many of its own steps a caller is from the end of its call.\<close>

fun rank :: "phase \<Rightarrow> nat" where
  "rank NotStarted = 10"
| "rank Took = 4"
| "rank Queueing = 9"
| "rank (Rejecting e) = 1"
| "rank Queued = 8"
| "rank Waiting = 7"
| "rank TookQueued = 6"
| "rank (Refusing e) = 6"
| "rank (Leaving r) = 5"
| "rank (Unqueuing r) = 4"
| "rank Holding = 3"
| "rank Releasing = 2"
| "rank Freed = 1"
| "rank Released = 0"
| "rank (Failed e) = 0"

definition callers :: "(phase \<Rightarrow> bool) \<Rightarrow> Bulkhead \<Rightarrow> nat set" where
  "callers P b = {i. P (bh_phase b i)}"

abbreviation started :: "phase \<Rightarrow> bool" where
  "started p \<equiv> p \<noteq> NotStarted"

section \<open>The invariant\<close>

definition bulkhead_ok :: "Bulkhead \<Rightarrow> bool" where
  "bulkhead_ok b \<longleftrightarrow> finite (callers started b)
   \<and> bh_sem b = card (callers holds_slot b) \<and> bh_sem b \<le> bh_semCap b
   \<and> bh_waitSlots b = card (callers in_queue b) \<and> bh_waitSlots b \<le> bh_waitCap b
   \<and> bh_inFlight b = int (card (callers counted_in b))
   \<and> bh_waiting b = int (card (callers counted_waiting b))
   \<and> bh_rejected b = int (card (callers counted_rejected b))
   \<and> (\<forall>i e. refusal (bh_phase b i) = Some e \<longrightarrow> IsDegradable (Some e))"

lemma set_phase_sel [simp]:
  "bh_sem (set_phase i p b) = bh_sem b" "bh_waitSlots (set_phase i p b) = bh_waitSlots b"
  "bh_inFlight (set_phase i p b) = bh_inFlight b" "bh_waiting (set_phase i p b) = bh_waiting b"
  "bh_rejected (set_phase i p b) = bh_rejected b"
  "bh_semCap (set_phase i p b) = bh_semCap b" "bh_waitCap (set_phase i p b) = bh_waitCap b"
  "bh_phase (set_phase i p b) = (bh_phase b)(i := p)" "bh_acquire (set_phase i p b) = bh_acquire b"
  "bh_name (set_phase i p b) = bh_name b" "bh_enabled (set_phase i p b) = bh_enabled b"
  by (simp_all add: set_phase_def)

lemma phase_mem [simp]: "i \<in> callers P b \<longleftrightarrow> P (bh_phase b i)"
  by (simp add: callers_def)

lemma callers_finite: "finite (callers started b) \<Longrightarrow> \<not> P NotStarted \<Longrightarrow> finite (callers P b)"
  by (erule rev_finite_subset) (auto simp: callers_def)

lemma card_callers:
  assumes "finite (callers P b)" "bh_phase b' = (bh_phase b)(i := q)"
  shows "int (card (callers P b')) = int (card (callers P b)) + of_bool (P q) - of_bool (P (bh_phase b i))"
proof -
  have "callers P b' = (if P q then insert i (callers P b) else callers P b - {i})"
    using assms(2) by (auto simp: callers_def)
  moreover have "P (bh_phase b i) \<Longrightarrow> 0 < card (callers P b)"
    using assms(1) by (auto simp: card_gt_0_iff callers_def)
  ultimately show ?thesis
    using assms(1) by (auto simp: card_insert_if card_Diff_singleton_if of_nat_diff)
qed

lemma card_pos: "finite (callers P b) \<Longrightarrow> P (bh_phase b i) \<Longrightarrow> 0 < card (callers P b)"
  by (auto simp: card_gt_0_iff callers_def)

text \<open>What one micro step may do to the books, stated once for all of them.\<close>

lemma bulkhead_ok_upd:
  assumes "bulkhead_ok b" "bh_phase b' = (bh_phase b)(i := q)" "q \<noteq> NotStarted"
    and "int (bh_sem b') = int (bh_sem b) + of_bool (holds_slot q) - of_bool (holds_slot (bh_phase b i))"
    and "int (bh_waitSlots b') = int (bh_waitSlots b) + of_bool (in_queue q) - of_bool (in_queue (bh_phase b i))"
    and "bh_inFlight b' = bh_inFlight b + of_bool (counted_in q) - of_bool (counted_in (bh_phase b i))"
    and "bh_waiting b' = bh_waiting b + of_bool (counted_waiting q) - of_bool (counted_waiting (bh_phase b i))"
    and "bh_rejected b' = bh_rejected b + of_bool (counted_rejected q) - of_bool (counted_rejected (bh_phase b i))"
    and "bh_semCap b' = bh_semCap b" "bh_waitCap b' = bh_waitCap b"
    and "bh_sem b' \<le> bh_semCap b" "bh_waitSlots b' \<le> bh_waitCap b"
    and "\<And>e. refusal q = Some e \<Longrightarrow> IsDegradable (Some e)"
  shows "bulkhead_ok b'"
proof -
  have fin: "finite (callers started b)" using assms(1) by (simp add: bulkhead_ok_def)
  have "callers started b' = insert i (callers started b)" using assms(2,3) by (auto simp: callers_def)
  then have fin': "finite (callers started b')" using fin by simp
  have c: "int (card (callers P b')) = int (card (callers P b)) + of_bool (P q) - of_bool (P (bh_phase b i))"
    if "\<not> P NotStarted" for P
    by (rule card_callers[OF callers_finite[of b P, OF fin that] assms(2)])
  note cs = c[of holds_slot] c[of in_queue] c[of counted_in] c[of counted_waiting] c[of counted_rejected]
  have d: "refusal (bh_phase b' j) = Some e \<longrightarrow> IsDegradable (Some e)" for j e
    using assms(1,2) assms(13)[of e] by (cases "j = i") (auto simp only: bulkhead_ok_def fun_upd_apply if_True if_False refl)
  have e: "bh_sem b' = card (callers holds_slot b')" "bh_waitSlots b' = card (callers in_queue b')"
    "bh_inFlight b' = int (card (callers counted_in b'))" "bh_waiting b' = int (card (callers counted_waiting b'))"
    "bh_rejected b' = int (card (callers counted_rejected b'))"
    using assms(1,4-8) cs unfolding bulkhead_ok_def by simp_all
  show ?thesis unfolding bulkhead_ok_def using fin' d e assms(9-12) by simp
qed

lemmas bulkhead_steps = fastPath_def enter_def queueAdmission_def countWaiting_def waitAcquire_def waitTimeout_def
  waitCtxDone_def countRejected_def uncountWaiting_def leaveQueue_def releaseOnce_def releaseSlot_def releaseCount_def

lemma refusals_degradable:
  "IsDegradable (Some (WithOp op (WithSource src ErrBulkheadFull)))"
  "IsDegradable (Some (WithOp op (WithSource src (err_Wrap CodeUpstreamTimeout m c))))"
  by (simp_all add: err_ctors IsDegradable_def err_Class_def)

lemma own_step_phase:
  assumes "own_step i b = Some b'"
  shows "\<exists>q. bh_phase b' = (bh_phase b)(i := q) \<and> q \<noteq> NotStarted \<and> rank q < rank (bh_phase b i)
    \<and> (bh_phase b i = Waiting \<longrightarrow> q = TookQueued) \<and> bh_semCap b' = bh_semCap b \<and> bh_waitCap b' = bh_waitCap b
    \<and> bh_acquire b' = bh_acquire b \<and> bh_enabled b' = bh_enabled b"
  using assms by (cases "bh_phase b i") (simp_all add: own_step_def bulkhead_steps split: if_splits option.splits, auto)

lemma own_step_ok:
  assumes "bulkhead_ok b" "own_step i b = Some b'"
  shows "bulkhead_ok b'"
proof -
  have caps: "bh_sem b \<le> bh_semCap b" "bh_waitSlots b \<le> bh_waitCap b"
    and deg: "\<And>e. refusal (bh_phase b i) = Some e \<Longrightarrow> IsDegradable (Some e)"
    using assms(1) unfolding bulkhead_ok_def by blast+
  show ?thesis
    by (rule bulkhead_ok_upd[OF assms(1), where i = i and q = "bh_phase b' i"];
        use assms(2) caps deg in \<open>cases "bh_phase b i"\<close>;
        auto simp: own_step_def bulkhead_steps refusals_degradable of_nat_diff split: if_splits option.splits)
qed

lemma refuse_ok:
  assumes "bulkhead_ok b" "bh_phase b i = Waiting" "IsDegradable (Some e)"
  shows "bulkhead_ok (set_phase i (Refusing e) b)"
  using assms(1) by (intro bulkhead_ok_upd[OF assms(1), where i = i and q = "Refusing e"])
    (auto simp: assms(2,3) bulkhead_ok_def)

lemma bulkhead_ok_step: "bulkhead_step b b' \<Longrightarrow> bulkhead_ok b \<Longrightarrow> bulkhead_ok b'"
  by (erule bulkhead_stepE)
    (auto intro: own_step_ok refuse_ok simp: waitTimeout_def waitCtxDone_def refusals_degradable)

lemma bulkhead_ok_New: "bulkhead_ok (NewBulkhead name cfg)"
  by (simp add: bulkhead_ok_def NewBulkhead_def callers_def)

lemma bulkhead_ok_reachable: "bulkhead_reachable b0 b \<Longrightarrow> bulkhead_ok b0 \<Longrightarrow> bulkhead_ok b"
  by (induction rule: bulkhead_reachable.induct) (auto intro: bulkhead_ok_step)

definition same_bulkhead :: "Bulkhead \<Rightarrow> Bulkhead \<Rightarrow> bool" where
  "same_bulkhead b b' \<longleftrightarrow> bh_semCap b' = bh_semCap b \<and> bh_waitCap b' = bh_waitCap b \<and> bh_acquire b' = bh_acquire b
     \<and> bh_enabled b' = bh_enabled b"

lemma step_same: "bulkhead_step b b' \<Longrightarrow> same_bulkhead b b'"
  by (erule bulkhead_stepE) (auto simp: same_bulkhead_def waitTimeout_def waitCtxDone_def dest: own_step_phase)

lemma reachable_same: "bulkhead_reachable b0 b \<Longrightarrow> same_bulkhead b0 b"
  by (induction rule: bulkhead_reachable.induct) (auto simp: same_bulkhead_def dest: step_same)

lemma reachable_facts:
  assumes "bulkhead_reachable (NewBulkhead name cfg) b" "bh_Enabled cfg"
  shows "bulkhead_ok b" "bh_semCap b = nat (max 1 (bh_MaxConcurrent cfg))" "bh_waitCap b = nat (max 0 (bh_MaxQueue cfg))"
    "bh_enabled b"
  using bulkhead_ok_reachable[OF assms(1) bulkhead_ok_New] reachable_same[OF assms(1)] assms(2)
  by (auto simp: same_bulkhead_def NewBulkhead_def max_def)

lemma own_run_reachable: "own_run is b = Some b' \<Longrightarrow> bulkhead_reachable b0 b \<Longrightarrow> bulkhead_reachable b0 b'"
  by (induction "is" arbitrary: b) (auto split: option.splits dest: bulkhead_reachable.move bulkhead_step.own)

section \<open>Counters against tokens\<close>

fun entering :: "phase \<Rightarrow> bool" where
  "entering Took = True" | "entering TookQueued = True" | "entering _ = False"

fun off_count :: "phase \<Rightarrow> bool" where
  "off_count Queued = True" | "off_count (Unqueuing r) = True" | "off_count _ = False"

lemma card_callers_split:
  assumes "finite (callers started b)" "\<not> P NotStarted" "\<And>p. P p \<longleftrightarrow> Q p \<or> R p" "\<And>p. \<not> (Q p \<and> R p)"
  shows "card (callers P b) = card (callers Q b) + card (callers R b)"
proof -
  have "callers P b = callers Q b \<union> callers R b" "callers Q b \<inter> callers R b = {}"
    using assms(3,4) by (auto simp: callers_def)
  moreover have "finite (callers P b)" by (rule callers_finite[of b P, OF assms(1,2)])
  ultimately show ?thesis by (simp add: card_Un_disjoint)
qed

lemma in_flight_drift:
  assumes "finite (callers started b)"
  shows "int (card (callers counted_in b))
    = int (card (callers holds_slot b)) - int (card (callers entering b)) + int (card (callers ((=) Freed) b))"
proof -
  let ?A = "\<lambda>p. holds_slot p \<and> counted_in p"
  have "card (callers holds_slot b) = card (callers ?A b) + card (callers entering b)"
    by (rule card_callers_split[OF assms], simp; case_tac p; simp)
  moreover have "card (callers counted_in b) = card (callers ?A b) + card (callers ((=) Freed) b)"
    by (rule card_callers_split[OF assms], simp; case_tac p; simp)
  ultimately show ?thesis by simp
qed

lemma waiting_drift:
  assumes "finite (callers started b)"
  shows "int (card (callers counted_waiting b)) = int (card (callers in_queue b)) - int (card (callers off_count b))"
proof -
  have "card (callers in_queue b) = card (callers counted_waiting b) + card (callers off_count b)"
    by (rule card_callers_split[OF assms], simp; case_tac p; simp)
  then show ?thesis by simp
qed

lemma callers_settled:
  assumes "\<And>i. settled (bh_phase b i)" "\<And>p. settled p \<Longrightarrow> P p = Q p"
  shows "callers P b = callers Q b"
  using assms by (auto simp: callers_def)

fun is_failed :: "phase \<Rightarrow> bool" where
  "is_failed (Failed e) = True" | "is_failed _ = False"

lemma settled_counts:
  assumes "\<And>i. settled (bh_phase b i)"
  shows "callers holds_slot b = callers ((=) Holding) b" "callers counted_in b = callers ((=) Holding) b"
    "callers counted_waiting b = callers ((=) Waiting) b" "callers counted_rejected b = callers is_failed b"
  by (rule callers_settled[OF assms]; case_tac p; simp)+

section \<open>Properties\<close>

text \<open>C23: Whatever the interleaving of callers, atomic step by atomic step, at most \<^verbatim>\<open>max_concurrent\<close> of them
  hold a slot and at most \<^verbatim>\<open>max_queue\<close> are in the queue. The counters of \<^verbatim>\<open>Stats\<close> differ from these
  numbers only by the callers between a channel operation and its counter: \<^verbatim>\<open>inFlight\<close> is the slots held,
  less the callers that took one and have not counted it, plus those that gave one back and still
  count; \<^verbatim>\<open>waiting\<close> lags the queue alike. When no caller is in between, \<^verbatim>\<open>Stats\<close> is exact and the
  bulkhead reports saturation exactly when every slot is held. (In between it may be wrong: the
  witness is a run in which one slot shows two calls in flight.)\<close>

theorem bulkhead_bounds_concurrency:
  assumes "bulkhead_reachable (NewBulkhead name cfg) b" "bh_Enabled cfg"
  shows "card (callers ((=) Holding) b) \<le> card (callers holds_slot b)
    \<and> card (callers holds_slot b) \<le> nat (max 1 (bh_MaxConcurrent cfg))
    \<and> card (callers ((=) Waiting) b) \<le> card (callers in_queue b)
    \<and> card (callers in_queue b) \<le> nat (max 0 (bh_MaxQueue cfg))
    \<and> Stats b = (int (card (callers holds_slot b)) - int (card (callers entering b)) + int (card (callers ((=) Freed) b)),
        int (card (callers in_queue b)) - int (card (callers off_count b)),
        int (card (callers counted_rejected b)), max 1 (bh_MaxConcurrent cfg))
    \<and> ((\<forall>i. settled (bh_phase b i)) \<longrightarrow>
         Stats b = (int (card (callers ((=) Holding) b)), int (card (callers ((=) Waiting) b)),
           int (card (callers is_failed b)), max 1 (bh_MaxConcurrent cfg))
       \<and> (Saturated b \<longleftrightarrow> card (callers ((=) Holding) b) = nat (max 1 (bh_MaxConcurrent cfg))))"
proof -
  note r = reachable_facts[OF assms]
  have fin: "finite (callers started b)"
    and n: "card (callers holds_slot b) \<le> nat (max 1 (bh_MaxConcurrent cfg))"
      "card (callers in_queue b) \<le> nat (max 0 (bh_MaxQueue cfg))"
    and st: "Stats b = (int (card (callers counted_in b)), int (card (callers counted_waiting b)),
      int (card (callers counted_rejected b)), max 1 (bh_MaxConcurrent cfg))"
    using r(1) r(4) unfolding bulkhead_ok_def r(2,3) by (auto simp: Stats_def r(2))
  have "card (callers ((=) Holding) b) \<le> card (callers holds_slot b)"
    "card (callers ((=) Waiting) b) \<le> card (callers in_queue b)"
    by (rule card_mono[OF callers_finite[OF fin]]; auto simp: callers_def)+
  moreover have "Stats b = (int (card (callers ((=) Holding) b)), int (card (callers ((=) Waiting) b)),
       int (card (callers is_failed b)), max 1 (bh_MaxConcurrent cfg))
     \<and> (Saturated b \<longleftrightarrow> card (callers ((=) Holding) b) = nat (max 1 (bh_MaxConcurrent cfg)))"
    if "\<forall>i. settled (bh_phase b i)"
  proof -
    note c = settled_counts[of b, OF that[rule_format]]
    have "Saturated b \<longleftrightarrow> int (card (callers counted_in b)) \<ge> int (bh_semCap b)"
      using r(1,4) by (simp add: Saturated_def bulkhead_ok_def)
    then show ?thesis using st n(1) unfolding c r(2) by auto
  qed
  ultimately show ?thesis using n st unfolding in_flight_drift[OF fin] waiting_drift[OF fin] by blast
qed

definition example_bulkhead_cfg :: BulkheadConfig where
  "example_bulkhead_cfg = \<lparr>bh_Enabled = True, bh_MaxConcurrent = 1, bh_AcquireTimeout = 50 * millisecond, bh_MaxQueue = 1\<rparr>"

theorem bulkhead_bounds_concurrency_witness:
  "\<exists>b. own_run [1, 1, 1, 1, 2, 2] (NewBulkhead ''eds'' example_bulkhead_cfg) = Some b
     \<and> card (callers holds_slot b) \<le> 1 \<and> fst (Stats b) = 2"
proof -
  let ?b0 = "NewBulkhead ''eds'' example_bulkhead_cfg"
  obtain b where b: "own_run [1, 1, 1, 1, 2, 2] ?b0 = Some b" "fst (Stats b) = 2"
    by (simp add: NewBulkhead_def example_bulkhead_cfg_def own_step_def bulkhead_steps set_phase_def Stats_def)
  have "bulkhead_reachable ?b0 b" by (rule own_run_reachable[OF b(1) bulkhead_reachable.start])
  from bulkhead_bounds_concurrency[OF this] b show ?thesis by (auto simp: example_bulkhead_cfg_def)
qed

section \<open>Every call comes to an end\<close>

definition total_rank :: "nat set \<Rightarrow> Bulkhead \<Rightarrow> nat" where
  "total_rank S b = (\<Sum>i\<in>S. rank (bh_phase b i))"

lemma own_step_rank:
  assumes "own_step i b = Some b'" "finite S" "i \<in> S"
  shows "total_rank S b' < total_rank S b"
proof -
  obtain q where q: "bh_phase b' = (bh_phase b)(i := q)" "rank q < rank (bh_phase b i)"
    using own_step_phase[OF assms(1)] by blast
  show ?thesis unfolding total_rank_def
    by (rule sum_strict_mono_ex1[OF assms(2)]) (use assms(3) q in \<open>auto simp: less_imp_le intro!: bexI[of _ i]\<close>)
qed

lemma own_run_length:
  "own_run is b = Some b' \<Longrightarrow> finite S \<Longrightarrow> set is \<subseteq> S \<Longrightarrow> length is + total_rank S b' \<le> total_rank S b"
proof (induction "is" arbitrary: b)
  case (Cons i "is")
  then obtain b1 where "own_step i b = Some b1" "own_run is b1 = Some b'" by (auto split: option.splits)
  then show ?case using Cons own_step_rank[of i b b1 S] by fastforce
qed simp

lemma rank_le: "started p \<Longrightarrow> rank p \<le> 9"
  by (cases p) simp_all

lemma total_rank_le:
  "finite (callers started b) \<Longrightarrow> total_rank (callers started b) b \<le> 9 * card (callers started b)"
  unfolding total_rank_def using sum_bounded_above[of "callers started b" "\<lambda>i. rank (bh_phase b i)" 9]
  by (simp add: rank_le mult.commute)

text \<open>What a run of own steps keeps.\<close>

lemma own_run_ok: "own_run is b = Some b' \<Longrightarrow> bulkhead_ok b \<Longrightarrow> bulkhead_ok b' \<and> same_bulkhead b b'"
proof (induction "is" arbitrary: b)
  case (Cons i "is")
  then obtain b1 where s: "own_step i b = Some b1" "own_run is b1 = Some b'" by (auto split: option.splits)
  have "same_bulkhead b b1" by (rule step_same[OF bulkhead_step.own[OF s(1)]])
  then show ?case using Cons.IH[OF s(2) own_step_ok[OF Cons.prems(2) s(1)]] by (simp add: same_bulkhead_def)
qed (simp add: same_bulkhead_def)

lemma own_run_started:
  "own_run is b = Some b' \<Longrightarrow> set is \<subseteq> callers started b \<Longrightarrow> callers started b' = callers started b"
proof (induction "is" arbitrary: b)
  case (Cons i "is")
  then obtain b1 where s: "own_step i b = Some b1" "own_run is b1 = Some b'" by (auto split: option.splits)
  have "callers started b1 = callers started b"
    using own_step_phase[OF s(1)] Cons.prems(2) by (auto simp: callers_def fun_upd_apply split: if_splits)
  then show ?case using Cons.IH[OF s(2)] Cons.prems(2) by simp
qed simp

fun will_be_served :: "phase \<Rightarrow> bool" where
  "will_be_served p \<longleftrightarrow> holds_slot p \<or> p \<in> {Waiting, Freed, Released}"

lemma own_step_served:
  assumes "own_step i b = Some b'" "will_be_served (bh_phase b j)"
  shows "will_be_served (bh_phase b' j)"
  using assms by (cases "j = i"; cases "bh_phase b i")
    (auto simp: own_step_def bulkhead_steps split: if_splits option.splits)

lemma own_run_served: "own_run is b = Some b' \<Longrightarrow> will_be_served (bh_phase b j) \<Longrightarrow> will_be_served (bh_phase b' j)"
  by (induction "is" arbitrary: b) (auto simp del: will_be_served.simps split: option.splits dest: own_step_served)

lemma receives_never_block:
  assumes "bulkhead_ok b" "bh_phase b i = Releasing \<or> bh_phase b i = Unqueuing r"
  shows "own_step i b \<noteq> None"
proof -
  have fin: "finite (callers started b)" using assms(1) by (simp add: bulkhead_ok_def)
  show ?thesis using assms card_pos[OF callers_finite[of b holds_slot, OF fin], of i]
      card_pos[OF callers_finite[of b in_queue, OF fin], of i]
    by (auto simp: own_step_def bulkhead_ok_def)
qed

lemma own_step_None:
  assumes "bulkhead_ok b" "own_step i b = None"
  shows "bh_phase b i = Released \<or> (\<exists>e. bh_phase b i = Failed e) \<or> bh_phase b i = Waiting \<and> bh_sem b = bh_semCap b"
  using assms(2) receives_never_block[OF assms(1), of i] assms(1)
  by (cases "bh_phase b i") (auto simp: own_step_def bulkhead_ok_def split: if_splits)

text \<open>No deadlock: when nobody can move by himself, everybody has finished.\<close>

lemma stuck_is_finished:
  assumes "bulkhead_ok b" "0 < bh_semCap b" "\<And>i. i \<in> callers started b \<Longrightarrow> own_step i b = None"
  shows "(\<forall>i\<in>callers started b. bh_phase b i = Released \<or> (\<exists>e. bh_phase b i = Failed e \<and> IsDegradable (Some e)))
    \<and> bh_sem b = 0 \<and> bh_waitSlots b = 0 \<and> bh_inFlight b = 0 \<and> bh_waiting b = 0"
proof -
  have phases: "bh_phase b i = NotStarted \<or> bh_phase b i = Released \<or> (\<exists>e. bh_phase b i = Failed e)
      \<or> bh_phase b i = Waiting \<and> bh_sem b = bh_semCap b" for i
    using own_step_None[OF assms(1) assms(3)] by (cases "started (bh_phase b i)") auto
  have none: "callers holds_slot b = {}"
  proof -
    have "\<not> holds_slot (bh_phase b i)" for i using phases[of i] by auto
    then show ?thesis by (simp add: callers_def)
  qed
  then have "bh_sem b = 0" using assms(1) by (simp add: bulkhead_ok_def)
  then have ph: "bh_phase b i = NotStarted \<or> bh_phase b i = Released \<or> (\<exists>e. bh_phase b i = Failed e)" for i
    using phases[of i] assms(2) by auto
  have empty: "callers P b = {}" if "\<not> P NotStarted" "\<not> P Released" "\<And>e. \<not> P (Failed e)" for P
  proof -
    have "\<not> P (bh_phase b i)" for i using ph[of i] that by auto
    then show ?thesis by (simp add: callers_def)
  qed
  have deg: "IsDegradable (Some e)" if "bh_phase b i = Failed e" for i e
    using assms(1) that unfolding bulkhead_ok_def by (metis refusal.simps(5))
  have "bh_phase b i = Released \<or> (\<exists>e. bh_phase b i = Failed e \<and> IsDegradable (Some e))" if "i \<in> callers started b" for i
    using ph[of i] deg[of i] that by auto
  then show ?thesis using assms(1) empty[of holds_slot] empty[of in_queue] empty[of counted_in] empty[of counted_waiting]
    by (auto simp: bulkhead_ok_def)
qed

lemma run_to_the_end:
  assumes "finite (callers started b)"
  shows "\<exists>is b'. own_run is b = Some b' \<and> set is \<subseteq> callers started b \<and> (\<forall>i\<in>callers started b. own_step i b' = None)"
  using assms
proof (induction "total_rank (callers started b) b" arbitrary: b rule: less_induct)
  case less
  show ?case
  proof (cases "\<forall>i\<in>callers started b. own_step i b = None")
    case True
    then show ?thesis by (intro exI[of _ "[]"] exI[of _ b]) simp
  next
    case False
    then obtain i b1 where i: "i \<in> callers started b" "own_step i b = Some b1" by auto
    have c: "callers started b1 = callers started b"
      using own_run_started[of "[i]" b b1] i by simp
    obtain "is" b' where "own_run is b1 = Some b'" "set is \<subseteq> callers started b"
      "\<forall>j\<in>callers started b. own_step j b' = None"
      using less.hyps[of b1] own_step_rank[OF i(2) less.prems i(1)] less.prems unfolding c by blast
    then show ?thesis using i by (intro exI[of _ "i # is"] exI[of _ b']) simp
  qed
qed

text \<open>C24: No caller is stuck and no slot leaks, with or without an acquire timeout. From every reachable state
  of an enabled bulkhead, let the callers inside it move by their own steps, in any order, each
  holder calling its release: the run ends after at most nine steps per caller, there is such a
  run to the end, and at its end every caller that was waiting got a slot and released it, every
  caller has released or was refused with a degradable error, both channels are empty and
  \<^verbatim>\<open>inFlight\<close> and \<^verbatim>\<open>waiting\<close> are 0. The receives from the channels never block.\<close>

theorem bulkhead_no_leak:
  assumes "bulkhead_reachable (NewBulkhead name cfg) b" "bh_Enabled cfg"
  shows "(\<forall>i r. bh_phase b i = Releasing \<or> bh_phase b i = Unqueuing r \<longrightarrow> own_step i b \<noteq> None)
    \<and> (\<forall>is b'. own_run is b = Some b' \<and> set is \<subseteq> callers started b \<longrightarrow> length is \<le> 9 * card (callers started b))
    \<and> (\<exists>is b'. own_run is b = Some b' \<and> set is \<subseteq> callers started b \<and> (\<forall>i\<in>callers started b. own_step i b' = None))
    \<and> (\<forall>is b'. own_run is b = Some b' \<and> set is \<subseteq> callers started b \<and> (\<forall>i\<in>callers started b. own_step i b' = None) \<longrightarrow>
         (\<forall>i. bh_phase b i = Waiting \<longrightarrow> bh_phase b' i = Released)
       \<and> (\<forall>i\<in>callers started b. bh_phase b' i = Released \<or> (\<exists>e. bh_phase b' i = Failed e \<and> IsDegradable (Some e)))
       \<and> bh_sem b' = 0 \<and> bh_waitSlots b' = 0 \<and> bh_inFlight b' = 0 \<and> bh_waiting b' = 0)"
proof -
  note r = reachable_facts[OF assms]
  have fin: "finite (callers started b)" using r(1) by (simp add: bulkhead_ok_def)
  have len: "length is \<le> 9 * card (callers started b)" if "own_run is b = Some b'" "set is \<subseteq> callers started b" for "is" b'
    using own_run_length[OF that(1) fin that(2)] total_rank_le[OF fin] by linarith
  have fin_end: "(\<forall>i. bh_phase b i = Waiting \<longrightarrow> bh_phase b' i = Released)
       \<and> (\<forall>i\<in>callers started b. bh_phase b' i = Released \<or> (\<exists>e. bh_phase b' i = Failed e \<and> IsDegradable (Some e)))
       \<and> bh_sem b' = 0 \<and> bh_waitSlots b' = 0 \<and> bh_inFlight b' = 0 \<and> bh_waiting b' = 0"
    if run: "own_run is b = Some b'" "set is \<subseteq> callers started b" and stuck: "\<forall>i\<in>callers started b. own_step i b' = None"
    for "is" b'
  proof -
    have same: "callers started b' = callers started b" by (rule own_run_started[OF run])
    have ok: "bulkhead_ok b'" "0 < bh_semCap b'"
      using own_run_ok[OF run(1) r(1)] r(2) by (auto simp: same_bulkhead_def)
    note e = stuck_is_finished[OF ok, unfolded same, OF stuck[rule_format]]
    have "bh_phase b' i = Released" if w: "bh_phase b i = Waiting" for i
    proof -
      have "i \<in> callers started b" using w by simp
      moreover have "will_be_served (bh_phase b' i)" using own_run_served[OF run(1), of i] w by simp
      ultimately show ?thesis using e by fastforce
    qed
    then show ?thesis using e by blast
  qed
  show ?thesis using receives_never_block[OF r(1)] len run_to_the_end[OF fin] fin_end by blast
qed

definition no_timeout_cfg :: BulkheadConfig where
  "no_timeout_cfg = example_bulkhead_cfg\<lparr>bh_AcquireTimeout := 0\<rparr>"

text \<open>Without an acquire timeout, caller 1 holds the only slot and caller 2 waits: every run to the end serves it.\<close>

theorem bulkhead_no_leak_witness:
  "\<exists>b. own_run [1, 1, 2, 2, 2] (NewBulkhead ''eds'' no_timeout_cfg) = Some b \<and> bh_phase b 2 = Waiting
     \<and> (\<exists>is b'. own_run is b = Some b' \<and> bh_phase b' 2 = Released \<and> bh_sem b' = 0)"
proof -
  let ?b0 = "NewBulkhead ''eds'' no_timeout_cfg"
  obtain b where b: "own_run [1, 1, 2, 2, 2] ?b0 = Some b" "bh_phase b 2 = Waiting"
    by (simp add: NewBulkhead_def example_bulkhead_cfg_def no_timeout_cfg_def own_step_def bulkhead_steps set_phase_def)
  have "bulkhead_reachable ?b0 b" by (rule own_run_reachable[OF b(1) bulkhead_reachable.start])
  note l = bulkhead_no_leak[OF this]
  have "bh_Enabled no_timeout_cfg" by (simp add: example_bulkhead_cfg_def no_timeout_cfg_def)
  with l b show ?thesis by metis
qed

end
