(* ===== verification/Retry.thy ===== *)
theory Retry
  imports Config Errs
begin

text \<open>
  \<^verbatim>\<open>internal/resilience/retry.go\<close>: bounded retries with capped, jittered backoff under a budget. What
  one turn of the loop meets outside the retrier (the context's state, the outcome of the call,
  two clock readings, the random number, the outcome of the sleep) is a record, and a run is
  given by such a record for every attempt number. The result carries the delays slept, in
  order, beside the error. \<^verbatim>\<open>float64\<close> arithmetic is the exact rounding of \<open>GoTime\<close>.
\<close>

section \<open>Operations\<close>

record Attempt =
  at_ctxErr :: "goerr option"
  at_result :: "goerr option"
  at_now1 :: time
  at_now2 :: time
  at_rand :: rat
  at_sleepErr :: "goerr option"

record RetryRun =
  rr_err :: "goerr option"
  rr_calls :: nat
  rr_delays :: "duration list"

definition backoff :: "RetryConfig \<Rightarrow> int \<Rightarrow> rat \<Rightarrow> duration" where
  "backoff cfg attempt rnd =
     (let base = f64_of_int (rt_BaseBackoff cfg)
      in if base \<le> 0 then 0
         else let exp0 = f64_mul base (2 ^ nat (attempt - 1));
                  maxB = f64_of_int (rt_MaxBackoff cfg);
                  exp1 = (if maxB > 0 \<and> exp0 > maxB then maxB else exp0);
                  f = rt_JitterFraction cfg
           in if f \<le> 0 then f64_to_int exp1
              else let f1 = (if f > 1 then 1 else f);
                       lo = f64_mul exp1 (f64_sub 1 f1)
                in f64_to_int (f64_add lo (f64_mul rnd (f64_sub exp1 lo))))"

definition budget :: "RetryConfig \<Rightarrow> time option \<Rightarrow> time \<Rightarrow> duration" where
  "budget cfg deadline start =
     (let ratio = (if rt_BudgetRatio cfg \<le> 0 \<or> rt_BudgetRatio cfg > 1 then 1 else rt_BudgetRatio cfg)
      in case deadline of None \<Rightarrow> maxDuration
         | Some dl \<Rightarrow> (let total = time_Sub dl start
             in if total \<le> 0 then 0 else f64_to_int (f64_mul (f64_of_int total) ratio)))"

definition canAfford :: "time option \<Rightarrow> time \<Rightarrow> duration \<Rightarrow> duration \<Rightarrow> time \<Rightarrow> time \<Rightarrow> bool" where
  "canAfford deadline start bud delay now1 now2 =
     (let elapsed = time_Sub now1 start
      in if dur_add elapsed delay \<ge> bud then False
         else (case deadline of None \<Rightarrow> True | Some dl \<Rightarrow> time_Before (time_Add now2 delay) dl))"

definition errExpired :: "goerr \<Rightarrow> goerr" where
  "errExpired e = err_Wrap CodeUpstreamTimeout ''request deadline exceeded before attempt'' e"

text \<open>The loop of \<^verbatim>\<open>Do\<close> from attempt \<open>attempt\<close> on, with \<open>left\<close> attempts to go.\<close>

fun retry_loop :: "RetryConfig \<Rightarrow> time option \<Rightarrow> time \<Rightarrow> duration \<Rightarrow> (nat \<Rightarrow> Attempt) \<Rightarrow> nat \<Rightarrow> nat
    \<Rightarrow> goerr option \<Rightarrow> RetryRun" where
  "retry_loop cfg dl start bud env attempt 0 lastErr = \<lparr>rr_err = lastErr, rr_calls = 0, rr_delays = []\<rparr>"
| "retry_loop cfg dl start bud env attempt (Suc left) lastErr =
    (let a = env attempt
     in case at_ctxErr a of
          Some e \<Rightarrow> \<lparr>rr_err = (case lastErr of Some l \<Rightarrow> Some l | None \<Rightarrow> Some (errExpired e)), rr_calls = 0, rr_delays = []\<rparr>
        | None \<Rightarrow>
           (case at_result a of
              None \<Rightarrow> \<lparr>rr_err = None, rr_calls = 1, rr_delays = []\<rparr>
            | Some err \<Rightarrow>
               if left = 0 \<or> \<not> IsRetryable (Some err) then \<lparr>rr_err = Some err, rr_calls = 1, rr_delays = []\<rparr>
               else let delay = backoff cfg (int attempt) (at_rand a)
                 in if \<not> canAfford dl start bud delay (at_now1 a) (at_now2 a)
                    then \<lparr>rr_err = Some err, rr_calls = 1, rr_delays = []\<rparr>
                    else if at_sleepErr a \<noteq> None then \<lparr>rr_err = Some err, rr_calls = 1, rr_delays = [delay]\<rparr>
                    else let rest = retry_loop cfg dl start bud env (Suc attempt) left (Some err)
                      in \<lparr>rr_err = rr_err rest, rr_calls = Suc (rr_calls rest), rr_delays = delay # rr_delays rest\<rparr>))"

definition max_attempts :: "RetryConfig \<Rightarrow> bool \<Rightarrow> nat" where
  "max_attempts cfg idempotent =
     (if rt_Enabled cfg \<and> idempotent then nat (max 1 (rt_MaxAttempts cfg)) else 1)"

definition retry_Do :: "RetryConfig \<Rightarrow> time option \<Rightarrow> time \<Rightarrow> bool \<Rightarrow> (nat \<Rightarrow> Attempt) \<Rightarrow> RetryRun" where
  "retry_Do cfg dl start idempotent env =
     retry_loop cfg dl start (budget cfg dl start) env 1 (max_attempts cfg idempotent) None"

definition sleepCtx :: "duration \<Rightarrow> goerr option \<Rightarrow> goerr option" where
  "sleepCtx d ctxDoneFirst = (if d \<le> 0 then None else ctxDoneFirst)"

section \<open>Lemmas\<close>

lemma loop_calls_bound: "rr_calls (retry_loop cfg dl st b env k n l) \<le> n"
  by (induction cfg dl st b env k n l rule: retry_loop.induct) (auto simp: Let_def split: option.split)

lemma loop_delays_bound: "length (rr_delays (retry_loop cfg dl st b env k n l)) \<le> rr_calls (retry_loop cfg dl st b env k n l)"
  by (induction cfg dl st b env k n l rule: retry_loop.induct) (auto simp: Let_def split: option.split)

text \<open>The calls before the last one ended in a retryable error, and the error returned is that of the
  last call made, or the expiry of the context before any.\<close>

lemma loop_earlier_retryable:
  "j + 1 < rr_calls (retry_loop cfg dl st b env k n l) \<Longrightarrow>
     \<exists>err. at_result (env (k + j)) = Some err \<and> IsRetryable (Some err)"
proof (induction cfg dl st b env k n l arbitrary: j rule: retry_loop.induct)
  case (2 cfg dl st b env k left l)
  then show ?case
    by (cases j) (fastforce simp: Let_def split: option.splits if_splits)+
qed simp

lemma loop_result:
  "rr_err (retry_loop cfg dl st b env k n l) =
     (let c = rr_calls (retry_loop cfg dl st b env k n l)
      in if 0 < c then at_result (env (k + c - 1))
         else if n = 0 then l
         else (case l of Some e \<Rightarrow> Some e | None \<Rightarrow> map_option errExpired (at_ctxErr (env k))))"
proof (induction cfg dl st b env k n l rule: retry_loop.induct)
  case (2 cfg dl st b env k left l)
  show ?case
  proof (cases "at_ctxErr (env k)")
    case (Some e)
    then show ?thesis by (simp add: Let_def split: option.split)
  next
    case ctx: None
    show ?thesis
    proof (cases "at_result (env k)")
      case None
      then show ?thesis using ctx by simp
    next
      case (Some err)
      let ?d = "backoff cfg (int k) (at_rand (env k))"
      let ?rest = "retry_loop cfg dl st b env (Suc k) left (Some err)"
      show ?thesis
      proof (cases "left = 0 \<or> \<not> IsRetryable (Some err) \<or> \<not> canAfford dl st b ?d (at_now1 (env k)) (at_now2 (env k))
            \<or> at_sleepErr (env k) \<noteq> None")
        case True
        then show ?thesis using ctx Some by (auto simp: Let_def)
      next
        case False
        then have IH: "rr_err ?rest = (if 0 < rr_calls ?rest then at_result (env (Suc k + rr_calls ?rest - 1)) else Some err)"
          using 2[of "env k" err ?d] ctx Some by (simp add: Let_def)
        show ?thesis using False ctx Some IH by (auto simp: Let_def)
      qed
    qed
  qed
qed simp

lemma loop_delays_affordable:
  "d \<in> set (rr_delays (retry_loop cfg dl st b env k n l)) \<Longrightarrow>
     \<exists>j. canAfford dl st b d (at_now1 (env j)) (at_now2 (env j)) \<and> d = backoff cfg (int j) (at_rand (env j))"
proof (induction cfg dl st b env k n l rule: retry_loop.induct)
  case (2 cfg dl st b env k left l)
  let ?d = "backoff cfg (int k) (at_rand (env k))"
  from 2(2) obtain err where e: "at_ctxErr (env k) = None" "at_result (env k) = Some err"
    "\<not> (left = 0 \<or> \<not> IsRetryable (Some err))" "canAfford dl st b ?d (at_now1 (env k)) (at_now2 (env k))"
    by (auto simp: Let_def split: option.splits if_splits)
  show ?case
  proof (cases "d = ?d")
    case True
    then show ?thesis using e(4) by blast
  next
    case False
    then have s: "at_sleepErr (env k) = None" and d: "d \<in> set (rr_delays (retry_loop cfg dl st b env (Suc k) left (Some err)))"
      using 2(2) e by (auto simp: Let_def split: if_splits)
    show ?thesis using 2(1)[OF refl e(1,2,3) refl _ _ d] e(4) s by simp
  qed
qed simp

section \<open>Properties\<close>

text \<open>C26: A call is attempted at most \<^verbatim>\<open>max_attempts\<close> times, and at most once when retrying is off or the
  operation is not idempotent; a call is repeated only after a retryable error; and the result is
  that of the last attempt made (success exactly if it succeeded), or a timeout error when the
  context had already expired before the first.\<close>

theorem retry_bounded_and_selective:
  "rr_calls (retry_Do cfg dl start idempotent env) \<le> nat (max 1 (rt_MaxAttempts cfg))
   \<and> (rr_calls (retry_Do cfg dl start idempotent env) \<le> 1 \<or> rt_Enabled cfg \<and> idempotent)
   \<and> list_all (\<lambda>j. \<exists>err. at_result (env j) = Some err \<and> IsRetryable (Some err)) [1..<rr_calls (retry_Do cfg dl start idempotent env)]
   \<and> rr_err (retry_Do cfg dl start idempotent env) =
       (if 0 < rr_calls (retry_Do cfg dl start idempotent env)
        then at_result (env (rr_calls (retry_Do cfg dl start idempotent env)))
        else map_option errExpired (at_ctxErr (env 1)))"
proof -
  let ?r = "retry_Do cfg dl start idempotent env"
  have b: "rr_calls ?r \<le> max_attempts cfg idempotent" unfolding retry_Do_def by (rule loop_calls_bound)
  have 1: "rr_calls ?r \<le> nat (max 1 (rt_MaxAttempts cfg))"
    using b by (auto simp: max_attempts_def max_def split: if_splits)
  have 2: "rr_calls ?r \<le> 1 \<or> rt_Enabled cfg \<and> idempotent" using b by (auto simp: max_attempts_def split: if_splits)
  have 3: "\<exists>err. at_result (env j) = Some err \<and> IsRetryable (Some err)" if "1 \<le> j" "j < rr_calls ?r" for j
    using loop_earlier_retryable[of "j - 1" cfg dl start "budget cfg dl start" env 1 "max_attempts cfg idempotent" None] that
    by (simp add: retry_Do_def)
  have n: "max_attempts cfg idempotent \<noteq> 0" by (simp add: max_attempts_def max_def)
  have 4: "rr_err ?r = (if 0 < rr_calls ?r then at_result (env (rr_calls ?r)) else map_option errExpired (at_ctxErr (env 1)))"
    using loop_result[of cfg dl start "budget cfg dl start" env 1 "max_attempts cfg idempotent" None] n
    by (simp add: retry_Do_def Let_def)
  show ?thesis using 1 2 3 4 by (simp add: list_all_iff)
qed

text \<open>Every delay the retrier sleeps fits the retry budget and the deadline: the time already spent plus
  the delay is below the budget, and a clock reading taken after the failed attempt plus the
  delay is before the context's deadline.\<close>

theorem retry_delays_within_budget:
  assumes "d \<in> set (rr_delays (retry_Do cfg (Some deadline) start idempotent env))"
  shows "\<exists>j. dur_add (time_Sub (at_now1 (env j)) start) d < budget cfg (Some deadline) start
    \<and> at_now2 (env j) + d < deadline \<and> d = backoff cfg (int j) (at_rand (env j))"
proof -
  obtain j where "canAfford (Some deadline) start (budget cfg (Some deadline) start) d (at_now1 (env j)) (at_now2 (env j))"
    "d = backoff cfg (int j) (at_rand (env j))"
    using loop_delays_affordable[OF assms[unfolded retry_Do_def]] by blast
  then show ?thesis
    by (intro exI[of _ j]) (auto simp: canAfford_def Let_def time_Before_def time_Add_def not_le split: if_splits)
qed

definition example_retry_cfg :: RetryConfig where
  "example_retry_cfg = \<lparr>rt_Enabled = True, rt_MaxAttempts = 3, rt_BaseBackoff = 20 * millisecond, rt_MaxBackoff = 400 * millisecond,
     rt_JitterFraction = 1, rt_PerAttemptTimeout = 0, rt_BudgetRatio = 1 / 2\<rparr>"

definition example_attempt :: "nat \<Rightarrow> Attempt" where
  "example_attempt k = \<lparr>at_ctxErr = None, at_result = (if k < 2 then Some ErrCircuitOpen else None),
     at_now1 = 10 * millisecond, at_now2 = 10 * millisecond, at_rand = 1 / 2, at_sleepErr = None\<rparr>"

theorem retry_delays_within_budget_witness:
  "10 * millisecond \<in> set (rr_delays (retry_Do example_retry_cfg (Some (400 * millisecond)) 0 True example_attempt))
   \<and> dur_add (10 * millisecond) (10 * millisecond) < budget example_retry_cfg (Some (400 * millisecond)) 0"
proof -
  have m: "10 * millisecond \<in> set (rr_delays (retry_Do example_retry_cfg (Some (400 * millisecond)) 0 True example_attempt))"
    by code_simp
  have t: "time_Sub (10 * millisecond) 0 = 10 * millisecond" by code_simp
  from retry_delays_within_budget[OF m] m t show ?thesis by (auto simp: example_attempt_def)
qed

end
