(* ===== verification/Executor.thy ===== *)
theory Executor
  imports Breaker Bulkhead Retry
begin

text \<open>
  \<^verbatim>\<open>internal/resilience/executor.go\<close>: the call wrapper of one source, bulkhead outermost, then the
  breaker, then the retried operation under one deadline. The environment of a call (what other
  callers do to the bulkhead while this one waits, the clock readings, what each attempt meets)
  is an argument. The call hook is not modelled.
\<close>

section \<open>Acquire as one caller sees it\<close>

datatype wait_outcome = WaitAcquired | WaitTimedOut | WaitCtxDone goerr

text \<open>The steps of one caller in the order of the code. \<open>others\<close> is what the other callers do to the
  bulkhead while this one is queued, \<open>w\<close> the case of the final \<^verbatim>\<open>select\<close> that is taken; a slot can
  only be taken if there is one. \<open>refused\<close> is the way out of the \<^verbatim>\<open>select\<close> with an error.\<close>

definition refused :: "nat \<Rightarrow> Bulkhead \<Rightarrow> goerr option \<times> Bulkhead" where
  "refused i b = (case bh_phase b i of
       Refusing e \<Rightarrow> (Some e, leaveQueue i (Some e) (uncountWaiting i (Some e) (countRejected i (Leaving (Some e)) b)))
     | _ \<Rightarrow> (None, b))"

definition bulkhead_Acquire :: "nat \<Rightarrow> (Bulkhead \<Rightarrow> Bulkhead) \<Rightarrow> wait_outcome \<Rightarrow> Bulkhead \<Rightarrow> goerr option \<times> Bulkhead" where
  "bulkhead_Acquire i others w b =
     (if \<not> bh_enabled b then (None, b)
      else let b1 = fastPath i b
        in if bh_phase b1 i = Took then (None, enter i b1)
           else let b2 = queueAdmission i b1
             in case bh_phase b2 i of
                  Rejecting e \<Rightarrow> (Some e, countRejected i (Failed e) b2)
                | _ \<Rightarrow> (let b3 = others (countWaiting i b2)
                    in case w of
                         WaitAcquired \<Rightarrow> if bh_sem b3 < bh_semCap b3
                           then (None, leaveQueue i None (uncountWaiting i None (enter i (waitAcquire i b3))))
                           else refused i (waitTimeout i b3)
                       | WaitTimedOut \<Rightarrow> refused i (waitTimeout i b3)
                       | WaitCtxDone c \<Rightarrow> refused i (waitCtxDone i c b3)))"

section \<open>Executor\<close>

record Executor =
  xe_Name :: string
  xe_Breaker :: Breaker
  xe_Retry :: RetryConfig
  xe_Bulkhead :: Bulkhead
  xe_timeout :: duration

definition NewExecutor :: "string \<Rightarrow> SourceCommon \<Rightarrow> time \<Rightarrow> Executor" where
  "NewExecutor name cfg now = \<lparr>xe_Name = name, xe_Breaker = NewBreaker name (sc_Breaker cfg) now, xe_Retry = sc_Retry cfg,
     xe_Bulkhead = NewBulkhead name (sc_Bulkhead cfg), xe_timeout = sc_CallTimeout cfg\<rparr>"

text \<open>The deadline of \<^verbatim>\<open>withBoundedTimeout\<close>; \<^verbatim>\<open>context.WithTimeout\<close> keeps an earlier parent deadline.\<close>

definition withBoundedTimeout :: "time option \<Rightarrow> duration \<Rightarrow> time \<Rightarrow> time \<Rightarrow> time option" where
  "withBoundedTimeout deadline d now1 now2 =
     (if d \<le> 0 then deadline
      else case deadline of
        None \<Rightarrow> Some (time_Add now2 d)
      | Some dl \<Rightarrow> if time_Sub dl now1 < d then Some dl else Some (min dl (time_Add now2 d)))"

record CallEnv =
  ce_others :: "Bulkhead \<Rightarrow> Bulkhead"
  ce_wait :: wait_outcome
  ce_allow :: BreakerClock
  ce_until :: time
  ce_withTimeout :: time
  ce_retryStart :: time
  ce_attempts :: "nat \<Rightarrow> Attempt"
  ce_report :: BreakerClock

record CallResult =
  cr_err :: "goerr option"
  cr_calls :: nat
  cr_exec :: Executor

definition call :: "nat \<Rightarrow> CallEnv \<Rightarrow> time option \<Rightarrow> bool \<Rightarrow> duration \<Rightarrow> Executor \<Rightarrow> CallResult" where
  "call i env deadline idempotent timeoutOverride x =
     (case bulkhead_Acquire i (ce_others env) (ce_wait env) (xe_Bulkhead x) of
        (Some e, bh) \<Rightarrow> \<lparr>cr_err = Some e, cr_calls = 0, cr_exec = x\<lparr>xe_Bulkhead := bh\<rparr>\<rparr>
      | (None, bh) \<Rightarrow>
         (case Allow (ce_allow env) (xe_Breaker x) of
            (Some e, br) \<Rightarrow> \<lparr>cr_err = Some e, cr_calls = 0, cr_exec = x\<lparr>xe_Breaker := br, xe_Bulkhead := release i bh\<rparr>\<rparr>
          | (None, br) \<Rightarrow>
             (let timeout = (if timeoutOverride > 0 then timeoutOverride else xe_timeout x);
                  dl = withBoundedTimeout deadline timeout (ce_until env) (ce_withTimeout env);
                  run = retry_Do (xe_Retry x) dl (ce_retryStart env) idempotent (ce_attempts env)
              in \<lparr>cr_err = rr_err run, cr_calls = rr_calls run,
                  cr_exec = x\<lparr>xe_Breaker := report (ce_report env) (rr_err run) br, xe_Bulkhead := release i bh\<rparr>\<rparr>)))"

definition Healthy :: "time \<Rightarrow> Executor option \<Rightarrow> bool" where
  "Healthy now e = (case e of None \<Rightarrow> False
     | Some x \<Rightarrow> if fst (breaker_State now (xe_Breaker x)) = StateOpen then False else \<not> Saturated (xe_Bulkhead x))"

definition HealthDetail :: "time \<Rightarrow> Executor option \<Rightarrow> string" where
  "HealthDetail now e = (case e of None \<Rightarrow> ''UNCONFIGURED''
     | Some x \<Rightarrow> (case fst (breaker_State now (xe_Breaker x)) of
          StateOpen \<Rightarrow> ''CIRCUIT_OPEN''
        | StateHalfOpen \<Rightarrow> if Saturated (xe_Bulkhead x) then ''SATURATED'' else ''CIRCUIT_HALF_OPEN''
        | StateClosed \<Rightarrow> if Saturated (xe_Bulkhead x) then ''SATURATED'' else ''HEALTHY''))"

definition ClassifyTimeout :: "string \<Rightarrow> goerr option \<Rightarrow> goerr option" where
  "ClassifyTimeout source err = (case err of None \<Rightarrow> None
     | Some e \<Rightarrow> if CodeOf err = Some CodeUpstreamTimeout then err
        else if err_Is ContextDeadlineExceeded e
        then Some (WithSource source (err_Wrap CodeUpstreamTimeout ''data source did not respond within the allotted time'' e))
        else err)"

section \<open>Lemmas\<close>

lemma refused_select [simp]:
  "fst (refused i (waitTimeout i b)) = Some (WithOp ''bulkhead.acquire_timeout'' (WithSource (bh_name b) ErrBulkheadFull))"
  "refused i (waitTimeout i b) = (Some e, b') \<Longrightarrow> bh_phase b' i = Failed e"
  "refused i (waitCtxDone i c b) = (Some e, b') \<Longrightarrow> bh_phase b' i = Failed e"
  "fst (refused i (waitCtxDone i c b)) \<noteq> None"
  by (auto simp: refused_def bulkhead_steps)

lemma refused_not_None [simp]: "refused i (waitTimeout i b) \<noteq> (None, b')" "refused i (waitCtxDone i c b) \<noteq> (None, b')"
  using refused_select(1,4)[of i] by (metis fst_conv option.distinct(1))+

lemma queueAdmission_phase: "bh_phase (queueAdmission i b) i = Queued \<or> (\<exists>e. bh_phase (queueAdmission i b) i = Rejecting e)"
  by (simp add: queueAdmission_def)

lemma fastPath_phase: "bh_phase (fastPath i b) i = Took \<or> bh_phase (fastPath i b) i = Queueing"
  by (simp add: fastPath_def)

lemma enter_phase:
  "bh_phase (enter i (fastPath i b)) i = Holding"
  "bh_phase (leaveQueue i None b) i = Holding"
  "bh_phase (countRejected i p b) i = p"
  using fastPath_phase[of i b] by (auto simp: enter_def leaveQueue_def countRejected_def)

lemma acquired_phase:
  "bulkhead_Acquire i others w b = (None, b') \<Longrightarrow> bh_enabled b \<Longrightarrow> bh_phase b' i = Holding"
  using queueAdmission_phase[of i "fastPath i b"]
  by (auto simp: bulkhead_Acquire_def Let_def enter_phase split: if_splits wait_outcome.splits)

lemma refused_phase:
  "bulkhead_Acquire i others w b = (Some e, b') \<Longrightarrow> bh_phase b' i = Failed e"
  using queueAdmission_phase[of i "fastPath i b"]
  by (auto simp: bulkhead_Acquire_def Let_def enter_phase split: if_splits wait_outcome.splits)

lemma release_not_holding: "bh_phase (release i b) i \<noteq> Holding"
  by (simp add: release_def releaseCount_def)

lemma release_frees: "bh_phase b i = Holding \<Longrightarrow> \<not> holds_slot (bh_phase (release i b) i)"
  by (simp add: release_def releaseCount_def)

text \<open>The call composes the steps of the bulkhead: with nobody else moving it is a run of this caller.\<close>

lemma fast_acquire_is_run:
  "bh_enabled b \<Longrightarrow> bh_phase b i = NotStarted \<Longrightarrow> bh_sem b < bh_semCap b \<Longrightarrow>
    own_run [i, i] b = Some (snd (bulkhead_Acquire i others w b))"
  by (simp add: own_step_def bulkhead_Acquire_def Let_def fastPath_def)

lemma release_is_run:
  "bh_phase b i = Holding \<Longrightarrow> 0 < bh_sem b \<Longrightarrow> own_run [i, i, i] b = Some (release i b)"
  by (simp add: own_step_def release_def releaseOnce_def releaseSlot_def)

lemma withBoundedTimeout_le:
  "withBoundedTimeout (Some dl) d now1 now2 = Some dl' \<Longrightarrow> dl' \<le> dl"
  by (auto simp: withBoundedTimeout_def split: if_splits)

lemma withBoundedTimeout_bounds_call:
  "0 < d \<Longrightarrow> d \<le> maxDuration \<Longrightarrow> now1 \<le> now2 \<Longrightarrow> \<exists>dl'. withBoundedTimeout deadline d now1 now2 = Some dl' \<and> dl' \<le> now2 + d"
  by (auto simp: withBoundedTimeout_def time_Add_def time_Sub_def maxDuration_def minDuration_def
      split: option.splits if_splits)

section \<open>Properties\<close>

text \<open>C25: The layers of a call fail in order and clean up after themselves. Refused by the bulkhead, the
  call touches neither the breaker nor the source; refused by the breaker, it does not touch the
  source; in every case the caller holds no slot of an enabled bulkhead afterwards; and the source is called at
  most \<^verbatim>\<open>max_attempts\<close> times, once if the operation is not idempotent.\<close>

theorem call_layers:
  assumes "r = call i env deadline idempotent override x"
  shows "(fst (bulkhead_Acquire i (ce_others env) (ce_wait env) (xe_Bulkhead x)) \<noteq> None \<longrightarrow>
            cr_calls r = 0 \<and> xe_Breaker (cr_exec r) = xe_Breaker x
          \<and> cr_err r = fst (bulkhead_Acquire i (ce_others env) (ce_wait env) (xe_Bulkhead x)))
       \<and> (fst (bulkhead_Acquire i (ce_others env) (ce_wait env) (xe_Bulkhead x)) = None
            \<and> fst (Allow (ce_allow env) (xe_Breaker x)) \<noteq> None \<longrightarrow>
            cr_calls r = 0 \<and> cr_err r = fst (Allow (ce_allow env) (xe_Breaker x)))
       \<and> bh_phase (xe_Bulkhead (cr_exec r)) i \<noteq> Holding
       \<and> (bh_enabled (xe_Bulkhead x) \<longrightarrow> \<not> holds_slot (bh_phase (xe_Bulkhead (cr_exec r)) i))
       \<and> cr_calls r \<le> nat (max 1 (rt_MaxAttempts (xe_Retry x)))
       \<and> (\<not> idempotent \<longrightarrow> cr_calls r \<le> 1)"
proof -
  have n: "rr_calls (retry_Do (xe_Retry x) dl st idempotent (ce_attempts env)) \<le> max_attempts (xe_Retry x) idempotent" for dl st
    unfolding retry_Do_def by (rule loop_calls_bound)
  have m: "max_attempts (xe_Retry x) idempotent \<le> nat (max 1 (rt_MaxAttempts (xe_Retry x)))"
    "\<not> idempotent \<Longrightarrow> max_attempts (xe_Retry x) idempotent = 1"
    by (auto simp: max_attempts_def max_def)
  show ?thesis
  proof (cases "bulkhead_Acquire i (ce_others env) (ce_wait env) (xe_Bulkhead x)")
    case (Pair e bh)
    show ?thesis
    proof (cases e)
      case (Some err)
      then show ?thesis using Pair refused_phase[of i "ce_others env" "ce_wait env" "xe_Bulkhead x" err bh] assms
        by (simp add: call_def)
    next
      case None
      obtain a br where a: "Allow (ce_allow env) (xe_Breaker x) = (a, br)" by (cases "Allow (ce_allow env) (xe_Breaker x)")
      have free: "bh_enabled (xe_Bulkhead x) \<longrightarrow> \<not> holds_slot (bh_phase (release i bh) i)"
        using release_frees[of bh i] acquired_phase[of i "ce_others env" "ce_wait env" "xe_Bulkhead x" bh] None Pair by simp
      show ?thesis
      proof (cases a)
        case Some
        then show ?thesis using None Pair a free release_not_holding by (simp add: assms call_def)
      next
        case allowed: None
        then show ?thesis using None Pair a free release_not_holding order_trans[OF n m(1)] n m(2)
          by (simp add: assms call_def Let_def) (metis n)
      qed
    qed
  qed
qed


definition example_source :: SourceCommon where
  "example_source = \<lparr>sc_CallTimeout = 400 * millisecond, sc_Retry = example_retry_cfg,
     sc_Breaker = \<lparr>br_Enabled = True, br_FailureThreshold = 1 / 2, br_MinimumRequests = 20, br_Window = 30 * second,
       br_OpenTimeout = 5 * second, br_HalfOpenMaxCalls = 3, br_HalfOpenSuccesses = 2\<rparr>,
     sc_Bulkhead = example_bulkhead_cfg, sc_TLS = zero_TLSConfig, sc_AcceptedSchemaVersions = []\<rparr>"

definition example_env :: CallEnv where
  "example_env = \<lparr>ce_others = (\<lambda>b. b), ce_wait = WaitTimedOut,
     ce_allow = \<lparr>bc_current = 1, bc_record = 1, bc_trip = 1, bc_open = 1\<rparr>, ce_until = 2, ce_withTimeout = 2,
     ce_retryStart = 2, ce_attempts = example_attempt,
     ce_report = \<lparr>bc_current = 3, bc_record = 3, bc_trip = 3, bc_open = 3\<rparr>\<rparr>"

theorem call_layers_witness:
  "bh_phase (xe_Bulkhead (cr_exec (call 7 example_env None False 0 (NewExecutor ''ods'' example_source 0)))) 7 \<noteq> Holding
   \<and> cr_calls (call 7 example_env None False 0 (NewExecutor ''ods'' example_source 0)) \<le> 1"
  using call_layers[OF refl, where i = 7 and env = example_env and deadline = None and idempotent = False
      and override = 0 and x = "NewExecutor ''ods'' example_source 0"] by blast

text \<open>The deadline of a call is never later than the caller's own, and with a positive timeout every call
  has one no later than the timeout from now.\<close>

theorem call_deadline_bounded:
  assumes "0 < d" "d \<le> maxDuration" "now1 \<le> now2"
  shows "\<exists>dl'. withBoundedTimeout deadline d now1 now2 = Some dl' \<and> dl' \<le> now2 + d \<and> (\<forall>dl. deadline = Some dl \<longrightarrow> dl' \<le> dl)"
proof -
  obtain dl' where "withBoundedTimeout deadline d now1 now2 = Some dl'" "dl' \<le> now2 + d"
    using withBoundedTimeout_bounds_call[OF assms] by blast
  then show ?thesis using withBoundedTimeout_le[of _ d now1 now2 dl'] by (intro exI[of _ dl']) auto
qed

theorem call_deadline_bounded_witness:
  "\<exists>dl'. withBoundedTimeout (Some 500) 400 10 11 = Some dl' \<and> dl' \<le> 411 \<and> dl' \<le> 500"
  using call_deadline_bounded[of 400 10 11 "Some 500"] by (simp add: maxDuration_def)

text \<open>The two health reports agree: a source is healthy exactly when its detail is HEALTHY or
  CIRCUIT_HALF_OPEN, and an unhealthy one is named as unconfigured, open or saturated.\<close>

theorem health_reports_agree:
  "(Healthy now x \<longleftrightarrow> HealthDetail now x = ''HEALTHY'' \<or> HealthDetail now x = ''CIRCUIT_HALF_OPEN'')
   \<and> HealthDetail now x \<in> {''HEALTHY'', ''CIRCUIT_HALF_OPEN'', ''CIRCUIT_OPEN'', ''SATURATED'', ''UNCONFIGURED''}"
  by (cases x) (auto simp: Healthy_def HealthDetail_def split: State.split)

end
