(* ===== verification/Adapters.thy ===== *)
theory Adapters
  imports Mapper Executor FreshnessEval Security Correlation Service
begin

text \<open>
  The two source adapters: \<^verbatim>\<open>internal/datasource/operational/adapter.go\<close> (gRPC) and
  \<^verbatim>\<open>internal/datasource/execution/adapter.go\<close> (REST). The generated client and the HTTP client are arguments: functions of the attempt
  number and the request to a reply, so the results hold for every behaviour of a source. Each method runs through the executor of
  \<open>Executor\<close>, whose attempts meet those replies. The error kept for the health report is the error
  itself; its rendering is an argument. Dialling, transports, TLS material and closing are not modelled.
\<close>

section \<open>A guarded call\<close>

record Turn =
  tu_caller :: nat
  tu_env :: CallEnv

text \<open>\<open>fn k\<close> is the outcome of the closure on attempt \<open>k\<close>; the value a method returns is the one that
  its last, successful attempt assigned.\<close>

definition exec_Call :: "Turn \<Rightarrow> time option \<Rightarrow> duration \<Rightarrow> (nat \<Rightarrow> goerr + 'a) \<Rightarrow> Executor \<Rightarrow> (goerr + 'a) \<times> Executor" where
  "exec_Call tu deadline timeout fn x =
     (let env = (tu_env tu)\<lparr>ce_attempts := \<lambda>k. (ce_attempts (tu_env tu) k)\<lparr>at_result := (case fn k of Inl e \<Rightarrow> Some e | Inr _ \<Rightarrow> None)\<rparr>\<rparr>;
          r = call (tu_caller tu) env deadline True timeout x
      in (case cr_err r of Some e \<Rightarrow> Inl e | None \<Rightarrow> fn (cr_calls r), cr_exec r))"

section \<open>The operational adapter\<close>

text \<open>The code of an error status is never OK.\<close>

datatype grpc_code = GCanceled | GUnknown | GInvalidArgument | GDeadlineExceeded | GNotFound | GAlreadyExists | GPermissionDenied
  | GResourceExhausted | GFailedPrecondition | GAborted | GOutOfRange | GUnimplemented | GInternal | GUnavailable | GDataLoss | GUnauthenticated

datatype rpc_error = RpcStatus grpc_code goerr | RpcOther goerr

definition OPERATIONAL :: string where "OPERATIONAL = ''OPERATIONAL''"

definition tag :: "string \<Rightarrow> string \<Rightarrow> goerr \<Rightarrow> goerr" where
  "tag src op e = WithOp op (WithSource src e)"

fun ops_classify :: "rpc_error \<Rightarrow> string \<Rightarrow> goerr" where
  "ops_classify (RpcOther err) op =
     (if err_Is ContextDeadlineExceeded err then tag OPERATIONAL op (err_Wrap CodeUpstreamTimeout ''operational source timed out'' err)
      else tag OPERATIONAL op (err_Wrap CodeUpstreamUnavailable ''operational source call failed'' err))"
| "ops_classify (RpcStatus c err) op =
     (case c of
        GNotFound \<Rightarrow> tag OPERATIONAL op (err_New CodeNotFound ''resource not found'')
      | GInvalidArgument \<Rightarrow> tag OPERATIONAL op (err_New CodeInvalidRequest ''operational source rejected the request'')
      | GFailedPrecondition \<Rightarrow> tag OPERATIONAL op (err_New CodeInvalidRequest ''operational source rejected the request'')
      | GOutOfRange \<Rightarrow> tag OPERATIONAL op (err_New CodeInvalidRequest ''operational source rejected the request'')
      | GPermissionDenied \<Rightarrow> tag OPERATIONAL op (err_New CodeForbidden ''operational source denied access'')
      | GUnauthenticated \<Rightarrow> tag OPERATIONAL op (err_New CodeUnauthenticated ''operational source rejected the service credentials'')
      | GDeadlineExceeded \<Rightarrow> tag OPERATIONAL op (err_Wrap CodeUpstreamTimeout ''operational source did not respond in time'' err)
      | GResourceExhausted \<Rightarrow> tag OPERATIONAL op (err_Wrap CodeRateLimited ''operational source is rate limiting the BFF'' err)
      | GUnavailable \<Rightarrow> tag OPERATIONAL op (err_Wrap CodeUpstreamUnavailable ''operational source is unavailable'' err)
      | GAborted \<Rightarrow> tag OPERATIONAL op (err_Wrap CodeUpstreamUnavailable ''operational source is unavailable'' err)
      | GCanceled \<Rightarrow> NotRetryable (tag OPERATIONAL op (err_Wrap CodeUpstreamUnavailable ''operational source call was cancelled'' err))
      | GUnimplemented \<Rightarrow> tag OPERATIONAL op (err_Wrap CodeSchemaVersionMismatch ''operational source does not implement this method'' err)
      | _ \<Rightarrow> tag OPERATIONAL op (err_Wrap CodeUpstreamUnavailable ''operational source returned an unexpected error'' err))"

record OpsCall =
  oq_mdTenant :: string
  oq_mdCorrelation :: string
  oq_TenantId :: string
  oq_CorrelationId :: string
  oq_Principal :: string
  oq_ResourceIds :: "string list"
  oq_FieldMask :: "string list"

text \<open>\<^verbatim>\<open>outgoing\<close> (the metadata) and \<^verbatim>\<open>reqContext\<close> (the message), with the ids and the mask of the request.\<close>

definition ops_request :: "Ctx \<Rightarrow> string \<Rightarrow> string list \<Rightarrow> string list \<Rightarrow> OpsCall" where
  "ops_request ctx tenantID ids fmask = \<lparr>oq_mdTenant = tenantID, oq_mdCorrelation = cx_CorrelationID ctx, oq_TenantId = tenantID,
     oq_CorrelationId = cx_CorrelationID ctx, oq_Principal = cx_Subject ctx, oq_ResourceIds = ids, oq_FieldMask = fmask\<rparr>"

record FreshnessResponse =
  gf_found :: bool
  gf_freshness :: "FreshnessEnvelope option"

datatype HealthState = HEALTH_UNSPECIFIED | HEALTH_SERVING | HEALTH_DEGRADED | HEALTH_NOT_SERVING

record OpsClient =
  oc_GetResourceFreshness :: "nat \<Rightarrow> OpsCall \<Rightarrow> rpc_error + FreshnessResponse"
  oc_GetResource :: "nat \<Rightarrow> OpsCall \<Rightarrow> rpc_error + OperationalResource option"
  oc_GetResourceState :: "nat \<Rightarrow> OpsCall \<Rightarrow> rpc_error + GetResourceStateResponse option"
  oc_BatchGetResources :: "nat \<Rightarrow> OpsCall \<Rightarrow> rpc_error + OperationalResource option list"
  oc_Health :: "rpc_error + HealthState"

record OpsAdapter =
  oa_exec :: Executor
  oa_accepted :: "string list option"
  oa_cfg :: OperationalSourceConfig
  oa_lastErr :: "goerr option"

definition tsOf :: "Timestamp option \<Rightarrow> time" where
  "tsOf p = (case p of None \<Rightarrow> 0 | Some p \<Rightarrow> if \<not> ts_IsValid p then 0 else ts_AsTime p)"

definition ops_finish :: "(goerr + 'a) \<times> Executor \<Rightarrow> OpsAdapter \<Rightarrow> (goerr + 'a) \<times> OpsAdapter" where
  "ops_finish r a = (case r of (Inl e, x) \<Rightarrow> (Inl e, a\<lparr>oa_exec := x, oa_lastErr := Some e\<rparr>) | (Inr v, x) \<Rightarrow> (Inr v, a\<lparr>oa_exec := x\<rparr>))"

definition observation_of :: "FreshnessResponse \<Rightarrow> Observation" where
  "observation_of resp =
     (if \<not> gf_found resp then zero_Observation
      else case gf_freshness resp of
        None \<Rightarrow> zero_Observation\<lparr>ob_Found := True\<rparr>
      | Some f \<Rightarrow> \<lparr>ob_Found = True, ob_LastUpdated = tsOf (fe_last_updated f), ob_SourceTime = tsOf (fe_server_time f),
          ob_Version = fe_version f, ob_RefreshSource = fe_refresh_source f\<rparr>)"

definition ops_ProbeFreshness :: "OpsClient \<Rightarrow> Turn \<Rightarrow> Ctx \<Rightarrow> string \<Rightarrow> string \<Rightarrow> OpsAdapter \<Rightarrow> (goerr + Observation) \<times> OpsAdapter" where
  "ops_ProbeFreshness cl tu ctx tenantID resourceID a =
     ops_finish (exec_Call tu (cx_deadline ctx) (ops_ProbeTimeout (oa_cfg a))
       (\<lambda>k. case oc_GetResourceFreshness cl k (ops_request ctx tenantID [resourceID] []) of
          Inl e \<Rightarrow> Inl (ops_classify e ''ProbeFreshness'') | Inr resp \<Rightarrow> Inr (observation_of resp)) (oa_exec a)) a"

definition ops_GetResource :: "mapper_lib \<Rightarrow> OpsClient \<Rightarrow> Turn \<Rightarrow> Ctx \<Rightarrow> string \<Rightarrow> string \<Rightarrow> ReadOptions \<Rightarrow> OpsAdapter
    \<Rightarrow> (goerr + Resource \<times> Freshness) \<times> OpsAdapter" where
  "ops_GetResource lib cl tu ctx tenantID resourceID opts a =
     ops_finish (exec_Call tu (cx_deadline ctx) (ro_Timeout opts)
       (\<lambda>k. case oc_GetResource cl k (ops_request ctx tenantID [resourceID] (ro_Fields opts)) of
          Inl e \<Rightarrow> Inl (ops_classify e ''GetResource'') | Inr resp \<Rightarrow> map_Resource lib (oa_accepted a) resp tenantID) (oa_exec a)) a"

definition ops_GetResourceState :: "OpsClient \<Rightarrow> Turn \<Rightarrow> Ctx \<Rightarrow> string \<Rightarrow> string \<Rightarrow> OpsAdapter \<Rightarrow> (goerr + Resource \<times> Freshness) \<times> OpsAdapter" where
  "ops_GetResourceState cl tu ctx tenantID resourceID a =
     ops_finish (exec_Call tu (cx_deadline ctx) 0
       (\<lambda>k. case oc_GetResourceState cl k (ops_request ctx tenantID [resourceID] []) of
          Inl e \<Rightarrow> Inl (ops_classify e ''GetResourceState'') | Inr resp \<Rightarrow> map_State resp tenantID) (oa_exec a)) a"

fun batch_loop :: "mapper_lib \<Rightarrow> string list option \<Rightarrow> string \<Rightarrow> OperationalResource option list \<Rightarrow> Resource list \<Rightarrow> goerr + Resource list" where
  "batch_loop lib accepted tenantID [] out = Inr out"
| "batch_loop lib accepted tenantID (r # rs) out =
     (case map_Resource lib accepted r tenantID of
        Inl e \<Rightarrow> if CodeOf (Some e) = Some CodeTenantMismatch then Inl e else batch_loop lib accepted tenantID rs out
      | Inr (m, _) \<Rightarrow> batch_loop lib accepted tenantID rs (out @ [m]))"

definition ops_BatchGetResources :: "mapper_lib \<Rightarrow> OpsClient \<Rightarrow> Turn \<Rightarrow> Ctx \<Rightarrow> string \<Rightarrow> string list \<Rightarrow> OpsAdapter
    \<Rightarrow> (goerr + Resource list) \<times> OpsAdapter" where
  "ops_BatchGetResources lib cl tu ctx tenantID ids a =
     (if length ids = 0 then (Inr [], a)
      else ops_finish (exec_Call tu (cx_deadline ctx) 0
        (\<lambda>k. case oc_BatchGetResources cl k (ops_request ctx tenantID ids []) of
           Inl e \<Rightarrow> Inl (ops_classify e ''BatchGetResources'') | Inr rs \<Rightarrow> batch_loop lib (oa_accepted a) tenantID rs []) (oa_exec a)) a)"

definition ops_Health :: "(goerr \<Rightarrow> string) \<Rightarrow> time \<Rightarrow> OpsAdapter \<Rightarrow> SourceHealth" where
  "ops_Health render now a = \<lparr>sh_Available = Healthy now (Some (oa_exec a)), sh_Detail = HealthDetail now (Some (oa_exec a)),
     sh_LastError = (case oa_lastErr a of None \<Rightarrow> [] | Some e \<Rightarrow> render e), sh_CheckedAt = now\<rparr>"

definition ops_Ping :: "OpsClient \<Rightarrow> goerr option" where
  "ops_Ping cl = (case oc_Health cl of Inl e \<Rightarrow> Some (ops_classify e ''Health'')
     | Inr st \<Rightarrow> if st = HEALTH_NOT_SERVING
         then Some (WithSource OPERATIONAL (err_New CodeUpstreamUnavailable ''operational source reports it is not serving'')) else None)"

section \<open>The execution adapter\<close>

definition EXECUTION :: string where "EXECUTION = ''EXECUTION''"

text \<open>What the HTTP client answers: the request could not be built, the exchange failed (the flag says whether the error is a network
  timeout), or a response whose body decodes, is empty, or is malformed.\<close>

datatype 'm json_body = JsonDecoded 'm | JsonEOF | JsonMalformed goerr

datatype 'm http_reply = NotBuilt goerr | TransportFailed goerr bool | Responded int Header "'m json_body"

record EdsCall =
  eq_Path :: string
  eq_Query :: "string gomap"
  eq_Correlation :: string
  eq_Tenant :: "string option"

record EdsClient =
  ec_execution :: "nat \<Rightarrow> EdsCall \<Rightarrow> EDSExecution http_reply"
  ec_page :: "nat \<Rightarrow> EdsCall \<Rightarrow> EDSExecutionPage http_reply"
  ec_health :: "EdsCall \<Rightarrow> string http_reply"

record EdsAdapter =
  xa_basePath :: string
  xa_exec :: Executor
  xa_accepted :: "string list option"
  xa_cfg :: ExecutionSourceConfig
  xa_lastErr :: "goerr option"
  xa_droppedRecords :: int

definition classifyStatus :: "int \<Rightarrow> Header \<Rightarrow> string \<Rightarrow> goerr option" where
  "classifyStatus st hdr op =
     (if 200 \<le> st \<and> st < 300 then None
      else if st = 404 then Some (tag EXECUTION op (err_New CodeNotFound ''execution record not found''))
      else if st = 401 then Some (tag EXECUTION op (err_New CodeUnauthenticated ''execution source rejected the service credentials''))
      else if st = 403 then Some (tag EXECUTION op (err_New CodeForbidden ''execution source denied access''))
      else if st = 429 then
        (let e = tag EXECUTION op (err_New CodeRateLimited ''execution source is rate limiting the BFF''); ra = header_Get hdr ''Retry-After''
         in Some (if ra \<noteq> [] then WithDetail ''retry_after'' (DStr ra) e else e))
      else if 400 \<le> st \<and> st < 500 then
        Some (WithDetail ''status'' (DInt st) (tag EXECUTION op (err_New CodeInvalidRequest ''execution source rejected the request'')))
      else if st = 504 then Some (tag EXECUTION op (err_New CodeUpstreamTimeout ''execution source timed out upstream''))
      else Some (WithDetail ''status'' (DInt st) (tag EXECUTION op (err_New CodeUpstreamUnavailable ''execution source returned a server error''))))"

definition classifyTransport :: "goerr \<Rightarrow> bool \<Rightarrow> string \<Rightarrow> goerr" where
  "classifyTransport err netTimeout op =
     (if err_Is ContextCanceled err
      then NotRetryable (tag EXECUTION op (err_Wrap CodeUpstreamUnavailable ''execution source call was cancelled'' err))
      else if err_Is ContextDeadlineExceeded err \<or> netTimeout
      then tag EXECUTION op (err_Wrap CodeUpstreamTimeout ''execution source did not respond in time'' err)
      else tag EXECUTION op (err_Wrap CodeUpstreamUnavailable ''execution source is unreachable'' err))"

definition eds_get :: "'m http_reply \<Rightarrow> string \<Rightarrow> goerr + 'm" where
  "eds_get rsp op =
     (case rsp of
        NotBuilt e \<Rightarrow> Inl (tag EXECUTION op (err_Wrap CodeInternal ''could not build execution source request'' e))
      | TransportFailed e t \<Rightarrow> Inl (classifyTransport e t op)
      | Responded st hdr body \<Rightarrow>
          (case classifyStatus st hdr op of Some e \<Rightarrow> Inl e
           | None \<Rightarrow> (case body of
                JsonEOF \<Rightarrow> Inl (tag EXECUTION op (err_New CodeUpstreamInvalidPayload ''execution source returned an empty body''))
              | JsonMalformed e \<Rightarrow> Inl (tag EXECUTION op (err_Wrap CodeUpstreamInvalidPayload ''execution source returned a malformed response'' e))
              | JsonDecoded m \<Rightarrow> Inr m)))"

text \<open>Paths. \<^verbatim>\<open>url.PathEscape\<close> escapes a segment; setting \<^verbatim>\<open>URL.Path\<close> and rendering the URL escapes the whole path once more. The base
  URL's own path needs no escaping.\<close>

definition unreserved :: "char \<Rightarrow> bool" where
  "unreserved c = (let n = (of_char c :: nat) in
     (48 \<le> n \<and> n \<le> 57) \<or> (65 \<le> n \<and> n \<le> 90) \<or> (97 \<le> n \<and> n \<le> 122) \<or> c \<in> {CHR ''-'', CHR ''_'', CHR ''.'', CHR ''~''})"

definition upper_hex :: "nat \<Rightarrow> char" where
  "upper_hex n = ''0123456789ABCDEF'' ! n"

definition percent :: "char \<Rightarrow> string" where
  "percent c = (let n = (of_char c :: nat) in [CHR ''%'', upper_hex (n div 16), upper_hex (n mod 16)])"

definition url_escape :: "(char \<Rightarrow> bool) \<Rightarrow> string \<Rightarrow> string" where
  "url_escape keep s = concat (map (\<lambda>c. if unreserved c \<or> keep c then [c] else percent c) s)"

definition PathEscape :: "string \<Rightarrow> string" where
  "PathEscape = url_escape (\<lambda>c. c \<in> set ''$&+:=@'')"

definition EscapedPath :: "string \<Rightarrow> string" where
  "EscapedPath = url_escape (\<lambda>c. c \<in> set ''$&+,/:;=@'')"

definition joinPath :: "string \<Rightarrow> string \<Rightarrow> string" where
  "joinPath base p = (if base = [] \<or> base = ''/'' then p else if last base = CHR ''/'' then butlast base @ p else base @ p)"

definition eds_request :: "Ctx \<Rightarrow> EdsAdapter \<Rightarrow> string \<Rightarrow> string gomap \<Rightarrow> string \<Rightarrow> EdsCall" where
  "eds_request ctx a path q tenantID = \<lparr>eq_Path = EscapedPath (joinPath (xa_basePath a) path), eq_Query = q, eq_Correlation = cx_CorrelationID ctx,
     eq_Tenant = (if tenantID \<noteq> [] then Some tenantID else None)\<rparr>"

definition eds_finish :: "(goerr + 'a) \<times> Executor \<Rightarrow> EdsAdapter \<Rightarrow> (goerr + 'a) \<times> EdsAdapter" where
  "eds_finish r a = (case r of (Inl e, x) \<Rightarrow> (Inl e, a\<lparr>xa_exec := x, xa_lastErr := Some e\<rparr>) | (Inr v, x) \<Rightarrow> (Inr v, a\<lparr>xa_exec := x\<rparr>))"

definition eds_GetLatestExecution :: "mapper_lib \<Rightarrow> EdsClient \<Rightarrow> Turn \<Rightarrow> Ctx \<Rightarrow> string \<Rightarrow> string \<Rightarrow> EdsAdapter \<Rightarrow> (goerr + Execution) \<times> EdsAdapter" where
  "eds_GetLatestExecution lib cl tu ctx tenantID resourceID a =
     eds_finish (exec_Call tu (cx_deadline ctx) 0
       (\<lambda>k. case eds_get (ec_execution cl k (eds_request ctx a (''/eds/v1/resources/'' @ PathEscape resourceID @ ''/latest-execution'') [(''tenantId'', tenantID)] tenantID))
              ''GetLatestExecution'' of
          Inl e \<Rightarrow> Inl e | Inr rec \<Rightarrow> map_One lib (xa_accepted a) rec tenantID) (xa_exec a)) a"

definition execution_query :: "string \<Rightarrow> ReadOptions \<Rightarrow> string gomap" where
  "execution_query tenantID opts =
     (let q = [(''tenantId'', tenantID)]; q = (if ro_IncludeAudit opts then gomap_put ''includeAudit'' ''true'' q else q)
      in if ro_IncludeSteps opts then gomap_put ''includeSteps'' ''true'' q else q)"

definition eds_GetExecution :: "mapper_lib \<Rightarrow> EdsClient \<Rightarrow> Turn \<Rightarrow> Ctx \<Rightarrow> string \<Rightarrow> string \<Rightarrow> ReadOptions \<Rightarrow> EdsAdapter
    \<Rightarrow> (goerr + Execution) \<times> EdsAdapter" where
  "eds_GetExecution lib cl tu ctx tenantID executionID opts a =
     eds_finish (exec_Call tu (cx_deadline ctx) (ro_Timeout opts)
       (\<lambda>k. case eds_get (ec_execution cl k (eds_request ctx a (''/eds/v1/executions/'' @ PathEscape executionID) (execution_query tenantID opts) tenantID)) ''GetExecution'' of
          Inl e \<Rightarrow> Inl e | Inr rec \<Rightarrow> map_One lib (xa_accepted a) rec tenantID) (xa_exec a)) a"

definition page_limit :: "ExecutionSourceConfig \<Rightarrow> PageRequest \<Rightarrow> int" where
  "page_limit cfg page =
     (let limit = (if pg_Limit page \<le> 0 then exs_HistoryPageSize cfg else pg_Limit page)
      in if exs_MaxHistoryItems cfg > 0 \<and> limit > exs_MaxHistoryItems cfg then exs_MaxHistoryItems cfg else limit)"

definition list_query :: "string \<Rightarrow> string \<Rightarrow> int \<Rightarrow> PageRequest \<Rightarrow> ReadOptions \<Rightarrow> string gomap" where
  "list_query tenantID resourceID limit page opts =
     (let q = [(''tenantId'', tenantID), (''resourceId'', resourceID), (''limit'', itoa limit)];
          q = (if pg_Cursor page \<noteq> [] then gomap_put ''cursor'' (pg_Cursor page) q else q)
      in if ro_IncludeAudit opts then gomap_put ''includeAudit'' ''true'' q else q)"

definition eds_ListExecutions :: "mapper_lib \<Rightarrow> EdsClient \<Rightarrow> Turn \<Rightarrow> Ctx \<Rightarrow> string \<Rightarrow> string \<Rightarrow> PageRequest \<Rightarrow> ReadOptions \<Rightarrow> EdsAdapter
    \<Rightarrow> (goerr + ExecutionList) \<times> EdsAdapter" where
  "eds_ListExecutions lib cl tu ctx tenantID resourceID page opts a =
     (case eds_finish (exec_Call tu (cx_deadline ctx) (ro_Timeout opts)
        (\<lambda>k. case eds_get (ec_page cl k (eds_request ctx a ''/eds/v1/executions'' (list_query tenantID resourceID (page_limit (xa_cfg a) page) page opts) tenantID))
               ''ListExecutions'' of
           Inl e \<Rightarrow> Inl e | Inr p \<Rightarrow> map_Page lib (xa_accepted a) p tenantID) (xa_exec a)) a of
        (Inl e, a') \<Rightarrow> (Inl e, a')
      | (Inr (l, dropped), a') \<Rightarrow>
          (Inr (if el_ResourceID l = [] then l\<lparr>el_ResourceID := resourceID\<rparr> else l),
           if dropped > 0 then a'\<lparr>xa_droppedRecords := wrap64 (xa_droppedRecords a' + dropped)\<rparr> else a'))"

definition eds_Health :: "(goerr \<Rightarrow> string) \<Rightarrow> time \<Rightarrow> EdsAdapter \<Rightarrow> SourceHealth" where
  "eds_Health render now a = \<lparr>sh_Available = Healthy now (Some (xa_exec a)), sh_Detail = HealthDetail now (Some (xa_exec a)),
     sh_LastError = (case xa_lastErr a of None \<Rightarrow> [] | Some e \<Rightarrow> render e), sh_CheckedAt = now\<rparr>"

definition eds_Ping :: "EdsClient \<Rightarrow> Ctx \<Rightarrow> EdsAdapter \<Rightarrow> goerr option" where
  "eds_Ping cl ctx a =
     (case eds_get (ec_health cl (eds_request ctx a ''/eds/v1/health'' [] [])) ''Health'' of Inl e \<Rightarrow> Some e
      | Inr st \<Rightarrow> if st \<noteq> [] \<and> st \<noteq> ''ok'' \<and> st \<noteq> ''degraded''
          then Some (WithSource EXECUTION (err_New CodeUpstreamUnavailable ''execution source reports it is not serving'')) else None)"

end
