(* ===== verification/AdapterProps.thy ===== *)
theory AdapterProps
  imports Adapters
begin

text \<open>
  What the adapters guarantee whatever the sources answer: records of the asker's tenant only, complete and ordered history pages, errors that
  count against a source exactly when they are evidence against it, and where the freshness probe and the full read disagree.
\<close>

section \<open>Lemmas: a guarded call\<close>

lemma retry_Do_success:
  assumes "rr_err (retry_Do cfg dl st idem env) = None"
  shows "0 < rr_calls (retry_Do cfg dl st idem env) \<and> at_result (env (rr_calls (retry_Do cfg dl st idem env))) = None"
proof -
  obtain n where n: "max_attempts cfg idem = Suc n" by (cases "max_attempts cfg idem") (auto simp: max_attempts_def max_def split: if_splits)
  let ?run = "retry_loop cfg dl st (budget cfg dl st) env 1 (Suc n) None"
  have c: "0 < rr_calls ?run"
  proof (rule ccontr)
    assume "\<not> 0 < rr_calls ?run"
    then have "at_ctxErr (env 1) \<noteq> None" by (auto simp: Let_def split: option.splits if_splits)
    then show False using assms n by (auto simp: retry_Do_def)
  qed
  then show ?thesis using assms n loop_result[of cfg dl st "budget cfg dl st" env 1 "Suc n" None] by (simp add: retry_Do_def Let_def)
qed

lemma call_success:
  assumes "cr_err (call i env dl idem timeout x) = None"
  shows "0 < cr_calls (call i env dl idem timeout x) \<and> at_result (ce_attempts env (cr_calls (call i env dl idem timeout x))) = None"
  using assms retry_Do_success by (auto simp: call_def Let_def split: prod.splits option.splits)

text \<open>A successful call returns what one of its attempts, numbered from one, returned.\<close>

lemma exec_Call_Inr:
  assumes "fst (exec_Call tu dl timeout fn x) = Inr v"
  shows "\<exists>k > 0. fn k = Inr v"
proof -
  let ?env = "(tu_env tu)\<lparr>ce_attempts := \<lambda>k. (ce_attempts (tu_env tu) k)\<lparr>at_result := (case fn k of Inl e \<Rightarrow> Some e | Inr _ \<Rightarrow> None)\<rparr>\<rparr>"
  have "cr_err (call (tu_caller tu) ?env dl True timeout x) = None" "fn (cr_calls (call (tu_caller tu) ?env dl True timeout x)) = Inr v"
    using assms by (simp_all add: exec_Call_def Let_def split: option.splits)
  then show ?thesis using call_success by blast
qed

text \<open>An error of a method is the executor's; the closure's last result is never an error of its own that the executor missed.\<close>

lemma exec_Call_Inl:
  assumes "fst (exec_Call tu dl timeout fn x) = Inl e"
  shows "\<exists>env. cr_err (call (tu_caller tu) env dl True timeout x) = Some e"
proof -
  let ?env = "(tu_env tu)\<lparr>ce_attempts := \<lambda>k. (ce_attempts (tu_env tu) k)\<lparr>at_result := (case fn k of Inl e \<Rightarrow> Some e | Inr _ \<Rightarrow> None)\<rparr>\<rparr>"
  let ?r = "call (tu_caller tu) ?env dl True timeout x"
  have "cr_err ?r \<noteq> None"
  proof
    assume n: "cr_err ?r = None"
    then have "at_result (ce_attempts ?env (cr_calls ?r)) = None" using call_success by blast
    then show False using assms n by (simp add: exec_Call_def Let_def split: sum.splits)
  qed
  then show ?thesis using assms by (auto simp: exec_Call_def Let_def intro!: exI[of _ ?env])
qed

lemma kept_items_length: "length (kept_items lib acc t rs) \<le> length rs"
proof (induction rs)
  case (Cons r rs)
  then show ?case by (cases "map_One lib acc r t") auto
qed simp

lemma adapter_finish_sel [simp]:
  "fst (ops_finish r a) = fst r" "fst (eds_finish q b) = fst q" "xa_droppedRecords (snd (eds_finish q b)) = xa_droppedRecords b"
  by (auto simp: ops_finish_def eds_finish_def split: prod.split sum.split)

lemma batch_loop_own:
  "batch_loop lib acc t rs out = Inr res \<Longrightarrow> t \<noteq> [] \<Longrightarrow> \<forall>r \<in> set out. re_TenantID r = t \<Longrightarrow> \<forall>r \<in> set res. re_TenantID r = t"
proof (induction rs arbitrary: out)
  case (Cons r rs)
  show ?case
  proof (cases "map_Resource lib acc r t")
    case (Inl e)
    then have "batch_loop lib acc t rs out = Inr res" using Cons.prems(1) by (simp split: if_splits)
    then show ?thesis using Cons.IH Cons.prems(2,3) by blast
  next
    case (Inr mf)
    obtain m f where mf: "mf = (m, f)" by force
    then have loop: "batch_loop lib acc t rs (out @ [m]) = Inr res" using Inr Cons.prems(1) by simp
    have "re_TenantID m = t" using map_Resource_own[of lib acc r t m f] Inr mf Cons.prems(2) by blast
    then have "\<forall>r \<in> set (out @ [m]). re_TenantID r = t" using Cons.prems(3) by auto
    from Cons.IH[OF loop Cons.prems(2) this] show ?thesis .
  qed
qed simp

lemma eds_get_Inr: "eds_get rsp op = Inr m \<Longrightarrow> \<exists>st hdr. rsp = Responded st hdr (JsonDecoded m) \<and> 200 \<le> st \<and> st < 300"
  by (auto simp: eds_get_def classifyStatus_def Let_def split: http_reply.splits json_body.splits if_splits option.splits)

text \<open>What a successful listing comes from: the page of one attempt.\<close>

lemma eds_ListExecutions_Inr:
  assumes "fst (eds_ListExecutions lib cl tu ctx t rid page opts a) = Inr l"
  shows "\<exists>k p st hdr l0 d. ec_page cl k (eds_request ctx a ''/eds/v1/executions'' (list_query t rid (page_limit (xa_cfg a) page) page opts) t)
      = Responded st hdr (JsonDecoded p) \<and> map_Page lib (xa_accepted a) p t = Inr (l0, d) \<and> el_Items l = el_Items l0 \<and> el_NextCursor l = el_NextCursor l0
    \<and> xa_droppedRecords (snd (eds_ListExecutions lib cl tu ctx t rid page opts a))
      = (if d > 0 then wrap64 (xa_droppedRecords a + d) else xa_droppedRecords a)"
proof -
  let ?req = "eds_request ctx a ''/eds/v1/executions'' (list_query t rid (page_limit (xa_cfg a) page) page opts) t"
  let ?fn = "\<lambda>k. case eds_get (ec_page cl k ?req) ''ListExecutions'' of Inl e \<Rightarrow> Inl e | Inr p \<Rightarrow> map_Page lib (xa_accepted a) p t"
  let ?run = "eds_finish (exec_Call tu (cx_deadline ctx) (ro_Timeout opts) ?fn (xa_exec a)) a"
  have def: "eds_ListExecutions lib cl tu ctx t rid page opts a = (case ?run of (Inl e, a') \<Rightarrow> (Inl e, a')
      | (Inr (l, dropped), a') \<Rightarrow> (Inr (if el_ResourceID l = [] then l\<lparr>el_ResourceID := rid\<rparr> else l),
           if dropped > 0 then a'\<lparr>xa_droppedRecords := wrap64 (xa_droppedRecords a' + dropped)\<rparr> else a'))"
    by (simp add: eds_ListExecutions_def)
  obtain l0 d a' where r: "?run = (Inr (l0, d), a')" using assms unfolding def by (auto split: prod.splits sum.splits)
  then obtain k where k: "?fn k = Inr (l0, d)" using exec_Call_Inr[of tu "cx_deadline ctx" "ro_Timeout opts" ?fn "xa_exec a" "(l0, d)"]
    by (metis adapter_finish_sel(2) fst_conv)
  then obtain p where p: "eds_get (ec_page cl k ?req) ''ListExecutions'' = Inr p" "map_Page lib (xa_accepted a) p t = Inr (l0, d)"
    by (auto split: sum.splits)
  have "xa_droppedRecords a' = xa_droppedRecords a" using r adapter_finish_sel(3) by (metis snd_conv)
  moreover obtain st hdr where "ec_page cl k ?req = Responded st hdr (JsonDecoded p)" using eds_get_Inr[OF p(1)] by blast
  moreover have "el_Items l = el_Items l0" "el_NextCursor l = el_NextCursor l0" using assms unfolding def r by (auto split: if_splits)
  ultimately show ?thesis using p(2) unfolding def r
    by (intro exI[of _ k] exI[of _ p] exI[of _ st] exI[of _ hdr] exI[of _ l0] exI[of _ d]) simp
qed

section \<open>Lemmas: paths\<close>

lemma url_escape_id: "list_all (\<lambda>c. unreserved c \<or> keep c) s \<Longrightarrow> url_escape keep s = s"
  unfolding url_escape_def by (induction s) auto

lemma id_char_kept: "id_char c \<Longrightarrow> unreserved c \<or> c = CHR '':''"
  by (auto simp: id_char_def unreserved_def Let_def)

lemma safe_id_escape:
  assumes "safe_id v"
  shows "PathEscape v = v \<and> EscapedPath v = v"
proof -
  have "list_all (\<lambda>c. unreserved c \<or> c = CHR '':'') v" using assms id_char_kept by (auto simp: safe_id_def list_all_iff)
  then show ?thesis unfolding PathEscape_def EscapedPath_def by (auto intro!: url_escape_id simp: list_all_iff)
qed

lemma EscapedPath_append: "EscapedPath (a @ b) = EscapedPath a @ EscapedPath b"
  by (simp add: EscapedPath_def url_escape_def)

text \<open>An id of the public API is sent as it is; an id that needs escaping is escaped twice, so the source decodes another id.\<close>

lemma safe_id_path: "safe_id v \<Longrightarrow> EscapedPath (''/eds/v1/executions/'' @ PathEscape v) = ''/eds/v1/executions/'' @ v"
proof -
  have "EscapedPath ''/eds/v1/executions/'' = ''/eds/v1/executions/''" by code_simp
  then show "safe_id v \<Longrightarrow> ?thesis" using safe_id_escape[of v] by (simp add: EscapedPath_append del: append.simps)
qed

lemma odd_id_path: "EscapedPath (''/eds/v1/executions/'' @ PathEscape ''a/b'') = ''/eds/v1/executions/a%252Fb''"
  by code_simp

section \<open>An example\<close>

definition demo_mapper_lib :: mapper_lib where
  "demo_mapper_lib = \<lparr>ml_Parse = \<lambda>layout v. if v = ''t1'' then Some 100 else if v = ''t2'' then Some 200 else None, ml_Quote = \<lambda>s. s\<rparr>"

definition quiet_source :: SourceCommon where
  "quiet_source = example_source\<lparr>sc_Breaker := (sc_Breaker example_source)\<lparr>br_Enabled := False\<rparr>, sc_Bulkhead := example_bulkhead_cfg\<lparr>bh_Enabled := False\<rparr>\<rparr>"

definition demo_turn :: Turn where
  "demo_turn = \<lparr>tu_caller = 0, tu_env = example_env\<lparr>ce_attempts := \<lambda>k. \<lparr>at_ctxErr = None, at_result = None, at_now1 = 0, at_now2 = 0, at_rand = 0, at_sleepErr = None\<rparr>\<rparr>\<rparr>"

definition demo_eds_cfg :: ExecutionSourceConfig where
  "demo_eds_cfg = \<lparr>exs_Common = quiet_source, exs_BaseURL = ''http://eds'', exs_MaxIdleConns = 1, exs_MaxIdleConnsPerHost = 1, exs_IdleConnTimeout = 0,
     exs_HistoryPageSize = 20, exs_MaxHistoryItems = 50\<rparr>"

definition demo_eds :: EdsAdapter where
  "demo_eds = \<lparr>xa_basePath = [], xa_exec = NewExecutor ''EXECUTION'' quiet_source 0, xa_accepted = None, xa_cfg = demo_eds_cfg, xa_lastErr = None,
     xa_droppedRecords = 0\<rparr>"

definition demo_item :: "string \<Rightarrow> string \<Rightarrow> EDSExecution" where
  "demo_item eid upd = \<lparr>ed_ExecutionID = eid, ed_TenantID = ''acme'', ed_ResourceID = ''r-1'', ed_CustomerID = [], ed_Operation = [], ed_State = ''SUCCEEDED'',
     ed_ResultingResourceState = [], ed_StartedAt = [], ed_ExecutedAt = [], ed_CompletedAt = [], ed_UpdatedAt = upd, ed_WFSteps = [], ed_Actions = [],
     ed_Outcome = None, ed_Failure = None, ed_Audit = [], ed_SchemaVersion = []\<rparr>"

definition demo_page :: EDSExecutionPage where
  "demo_page = \<lparr>ep_Items = [demo_item ''e-1'' ''t1'', demo_item [] ''t1'', demo_item ''e-2'' ''t2''], ep_TotalCount = 3, ep_NextCursor = ''c''\<rparr>"

definition demo_eds_client :: EdsClient where
  "demo_eds_client = \<lparr>ec_execution = \<lambda>_ _. Responded 200 [] (JsonDecoded (demo_item ''e-1'' ''t1'')),
     ec_page = \<lambda>_ _. Responded 200 [] (JsonDecoded demo_page), ec_health = \<lambda>_. Responded 200 [] (JsonDecoded ''ok'')\<rparr>"

definition demo_opts :: ReadOptions where
  "demo_opts = \<lparr>ro_Timeout = 0, ro_IncludeAudit = False, ro_IncludeSteps = False, ro_Fields = []\<rparr>"

definition demo_list_page :: PageRequest where "demo_list_page = \<lparr>pg_Limit = 0, pg_Cursor = []\<rparr>"

abbreviation demo_listing :: "(goerr + ExecutionList) \<times> EdsAdapter" where
  "demo_listing \<equiv> eds_ListExecutions demo_mapper_lib demo_eds_client demo_turn background ''acme'' ''r-1'' demo_list_page demo_opts demo_eds"

lemma demo_listing_runs:
  "(case demo_listing of (Inr l, a) \<Rightarrow> map ex_ExecutionID (el_Items l) = [''e-2'', ''e-1''] \<and> xa_droppedRecords a = 1 | _ \<Rightarrow> False)"
  by code_simp

section \<open>Properties\<close>

text \<open>C6: An adapter hands out records of the asker's tenant only. Whatever the sources answer, on whichever attempt, a resource, the state of a
  resource, a batch of resources, an execution and a page of executions returned for a tenant carry that tenant; a resource or a state also
  carries an id, the freshness that comes with it is not evaluated yet, and its time of observation is the record's. The reply to a state
  query names no tenant, so its record is stamped with the asker's; it is a reply to a request made for that tenant and resource.\<close>

theorem adapters_return_own_tenant:
  assumes "tenantID \<noteq> []"
  shows "(\<forall>r f. fst (ops_GetResource lib oc tu ctx tenantID rid opts oa) = Inr (r, f) \<longrightarrow>
            re_TenantID r = tenantID \<and> re_ResourceID r \<noteq> [] \<and> fr_State f = FreshnessUnknown \<and> fr_ObservedAt f = re_ObservedAt r)
       \<and> (\<forall>r f. fst (ops_GetResourceState oc tu ctx tenantID rid oa) = Inr (r, f) \<longrightarrow>
            re_TenantID r = tenantID \<and> re_ResourceID r \<noteq> [] \<and> fr_State f = FreshnessUnknown \<and> fr_ObservedAt f = re_ObservedAt r
          \<and> (\<exists>k resp. oc_GetResourceState oc k (ops_request ctx tenantID [rid] []) = Inr (Some resp) \<and> re_ResourceID r = st_resource_id resp
               \<and> re_Status r = MapOperationalStatus (st_state resp)))
       \<and> (\<forall>rs. fst (ops_BatchGetResources lib oc tu ctx tenantID ids oa) = Inr rs \<longrightarrow> (\<forall>r \<in> set rs. re_TenantID r = tenantID))
       \<and> (\<forall>e. fst (eds_GetLatestExecution lib xc tu ctx tenantID rid xa) = Inr e \<longrightarrow> ex_TenantID e = tenantID \<and> ex_ExecutionID e \<noteq> [])
       \<and> (\<forall>e. fst (eds_GetExecution lib xc tu ctx tenantID eid opts xa) = Inr e \<longrightarrow> ex_TenantID e = tenantID \<and> ex_ExecutionID e \<noteq> [])
       \<and> (\<forall>l. fst (eds_ListExecutions lib xc tu ctx tenantID rid page opts xa) = Inr l \<longrightarrow> (\<forall>e \<in> set (el_Items l). ex_TenantID e = tenantID))"
proof (intro conjI allI impI)
  fix r f
  assume "fst (ops_GetResource lib oc tu ctx tenantID rid opts oa) = Inr (r, f)"
  then obtain resp where "map_Resource lib (oa_accepted oa) resp tenantID = Inr (r, f)"
    by (auto simp: ops_GetResource_def dest!: exec_Call_Inr split: sum.splits)
  from map_Resource_own[OF this assms] show "re_TenantID r = tenantID" "re_ResourceID r \<noteq> []" "fr_State f = FreshnessUnknown" "fr_ObservedAt f = re_ObservedAt r"
    by simp_all
next
  fix r f
  assume "fst (ops_GetResourceState oc tu ctx tenantID rid oa) = Inr (r, f)"
  then obtain k resp where k: "oc_GetResourceState oc k (ops_request ctx tenantID [rid] []) = Inr resp" "map_State resp tenantID = Inr (r, f)"
    by (auto simp: ops_GetResourceState_def dest!: exec_Call_Inr split: sum.splits)
  from map_State_own[OF k(2)] show "re_TenantID r = tenantID" "re_ResourceID r \<noteq> []" "fr_State f = FreshnessUnknown" "fr_ObservedAt f = re_ObservedAt r"
    by simp_all
  show "\<exists>k resp. oc_GetResourceState oc k (ops_request ctx tenantID [rid] []) = Inr (Some resp) \<and> re_ResourceID r = st_resource_id resp
      \<and> re_Status r = MapOperationalStatus (st_state resp)"
    using k by (intro exI[of _ k] exI[of _ "the resp"]) (auto simp: map_State_def split: option.splits if_splits)
next
  fix rs
  assume "fst (ops_BatchGetResources lib oc tu ctx tenantID ids oa) = Inr rs"
  then show "\<forall>r \<in> set rs. re_TenantID r = tenantID"
    by (auto simp: ops_BatchGetResources_def assms dest!: exec_Call_Inr batch_loop_own split: sum.splits if_splits)
next
  fix e
  assume "fst (eds_GetLatestExecution lib xc tu ctx tenantID rid xa) = Inr e"
  then obtain rec where "map_One lib (xa_accepted xa) rec tenantID = Inr e"
    by (auto simp: eds_GetLatestExecution_def dest!: exec_Call_Inr split: sum.splits)
  from map_One_own[OF this assms] show "ex_TenantID e = tenantID" "ex_ExecutionID e \<noteq> []" by simp_all
next
  fix e
  assume "fst (eds_GetExecution lib xc tu ctx tenantID eid opts xa) = Inr e"
  then obtain rec where "map_One lib (xa_accepted xa) rec tenantID = Inr e"
    by (auto simp: eds_GetExecution_def dest!: exec_Call_Inr split: sum.splits)
  from map_One_own[OF this assms] show "ex_TenantID e = tenantID" "ex_ExecutionID e \<noteq> []" by simp_all
next
  fix l
  assume "fst (eds_ListExecutions lib xc tu ctx tenantID rid page opts xa) = Inr l"
  then obtain p l0 d where "map_Page lib (xa_accepted xa) p tenantID = Inr (l0, d)" "el_Items l = el_Items l0"
    by (auto dest!: eds_ListExecutions_Inr)
  then show "\<forall>e \<in> set (el_Items l). ex_TenantID e = tenantID"
    using map_One_own[OF _ assms] by (auto simp: map_Page_Inr(1) kept_items_iff)
qed

theorem adapters_return_own_tenant_witness:
  "case fst demo_listing of Inr l \<Rightarrow> length (el_Items l) = 2 \<and> (\<forall>e \<in> set (el_Items l). ex_TenantID e = ''acme'') | Inl _ \<Rightarrow> False"
proof -
  have t: "''acme'' \<noteq> []" by simp
  have "case fst demo_listing of Inr l \<Rightarrow> length (el_Items l) = 2 | Inl _ \<Rightarrow> False" by code_simp
  then obtain l where l: "fst demo_listing = Inr l" "length (el_Items l) = 2" by (auto split: sum.splits)
  with adapters_return_own_tenant[OF t, of demo_mapper_lib _ demo_turn background "''r-1''" demo_opts _ _ demo_eds_client demo_eds _ demo_list_page]
  show ?thesis by (simp add: l)
qed

text \<open>C28: A page of executions is complete and newest first. A listing that succeeds returns, for the page that some attempt of it received,
  exactly the records that map (as many times as they occur), newest first, with the source's cursor; no record of the
  page belongs to another tenant, and the counter of dropped records grows by the number of those left out.\<close>

theorem history_page_complete:
  assumes "fst (eds_ListExecutions lib cl tu ctx t rid page opts a) = Inr l" "0 \<le> xa_droppedRecords a"
    "\<forall>k c st hdr p. ec_page cl k c = Responded st hdr (JsonDecoded p) \<longrightarrow> xa_droppedRecords a + int (length (ep_Items p)) < 2 ^ 63"
  shows "\<exists>k st hdr p. ec_page cl k (eds_request ctx a ''/eds/v1/executions'' (list_query t rid (page_limit (xa_cfg a) page) page opts) t)
      = Responded st hdr (JsonDecoded p)
    \<and> mset (el_Items l) = mset (kept_items lib (xa_accepted a) t (ep_Items p)) \<and> el_NextCursor l = ep_NextCursor p
    \<and> sorted_wrt (\<lambda>x y. executionOrderKey y \<le> executionOrderKey x) (el_Items l)
    \<and> (\<forall>r \<in> set (ep_Items p). \<forall>e. map_One lib (xa_accepted a) r t = Inl e \<longrightarrow> CodeOf (Some e) \<noteq> Some CodeTenantMismatch)
    \<and> xa_droppedRecords (snd (eds_ListExecutions lib cl tu ctx t rid page opts a))
      = xa_droppedRecords a + int (length (ep_Items p)) - int (length (el_Items l))"
proof -
  let ?req = "eds_request ctx a ''/eds/v1/executions'' (list_query t rid (page_limit (xa_cfg a) page) page opts) t"
  obtain k p st hdr l0 d where k: "ec_page cl k ?req = Responded st hdr (JsonDecoded p)" "map_Page lib (xa_accepted a) p t = Inr (l0, d)"
      "el_Items l = el_Items l0" "el_NextCursor l = el_NextCursor l0"
      "xa_droppedRecords (snd (eds_ListExecutions lib cl tu ctx t rid page opts a)) = (if d > 0 then wrap64 (xa_droppedRecords a + d) else xa_droppedRecords a)"
    using eds_ListExecutions_Inr[OF assms(1)] by blast
  note m = map_Page_Inr[OF k(2)]
  have len: "length (el_Items l) \<le> length (ep_Items p)"
    using m(1) k(3) by (metis SortExecutionsByRecency_mset size_mset kept_items_length)
  have "xa_droppedRecords a + int (length (ep_Items p)) < 2 ^ 63" using assms(3) k(1) by blast
  then have "in_int64 (xa_droppedRecords a + d)" if "d > 0"
    using assms(2) m(3) that by (intro in_int64_small) (simp_all add: maxDuration_def)
  then have "xa_droppedRecords (snd (eds_ListExecutions lib cl tu ctx t rid page opts a)) = xa_droppedRecords a + d"
    using k(5) len m(3) k(3) by auto
  then show ?thesis using k m SortExecutionsByRecency_sorted
    by (intro exI[of _ k] exI[of _ st] exI[of _ hdr] exI[of _ p]) auto
qed

theorem history_page_complete_witness:
  "\<exists>l. fst demo_listing = Inr l \<and> mset (el_Items l) = mset (kept_items demo_mapper_lib None ''acme'' (ep_Items demo_page)) \<and> xa_droppedRecords (snd demo_listing) = 1"
proof -
  have "case demo_listing of (Inr l, a) \<Rightarrow> length (el_Items l) = 2 | _ \<Rightarrow> False" by code_simp
  then obtain l where l: "fst demo_listing = Inr l" "length (el_Items l) = 2" by (auto split: prod.splits sum.splits)
  have d: "0 \<le> xa_droppedRecords demo_eds" by (simp add: demo_eds_def)
  have b: "\<forall>k c st hdr p. ec_page demo_eds_client k c = Responded st hdr (JsonDecoded p) \<longrightarrow> xa_droppedRecords demo_eds + int (length (ep_Items p)) < 2 ^ 63"
    by (auto simp: demo_eds_client_def demo_eds_def demo_page_def)
  from history_page_complete[OF l(1) d b] l show ?thesis
    by (auto simp: demo_eds_client_def demo_page_def) (simp_all add: demo_eds_def)
qed

text \<open>An error counts against a source exactly when it is evidence against it. On the operational side the breaker abstains for the statuses that
  blame the caller or the contract and records every other failure (a call the caller cancelled included); on the execution side it abstains
  for the client errors other than 429. A 2xx response is no error, and the errors it abstains for are never retried.\<close>

theorem client_faults_do_not_count:
  "report clk (Some (ops_classify (RpcStatus c cause) op)) b =
     (if c \<in> {GNotFound, GInvalidArgument, GFailedPrecondition, GOutOfRange, GPermissionDenied, GUnauthenticated, GUnimplemented}
      then Abstain b else Record clk (Some (ops_classify (RpcStatus c cause) op)) b)
   \<and> (case classifyStatus st hdr op of
        None \<Rightarrow> 200 \<le> st \<and> st < 300
      | Some e \<Rightarrow> \<not> (200 \<le> st \<and> st < 300)
          \<and> report clk (Some e) b = (if 400 \<le> st \<and> st < 500 \<and> st \<noteq> 429 then Abstain b else Record clk (Some e) b)
          \<and> IsRetryable (Some e) = (\<not> (400 \<le> st \<and> st < 500 \<and> st \<noteq> 429)))"
proof (rule conjI)
  show "report clk (Some (ops_classify (RpcStatus c cause) op)) b =
     (if c \<in> {GNotFound, GInvalidArgument, GFailedPrecondition, GOutOfRange, GPermissionDenied, GUnauthenticated, GUnimplemented}
      then Abstain b else Record clk (Some (ops_classify (RpcStatus c cause) op)) b)"
    by (cases c) (simp_all add: report_def isClientFault_def tag_def err_New_def err_Wrap_def)
  show "case classifyStatus st hdr op of
        None \<Rightarrow> 200 \<le> st \<and> st < 300
      | Some e \<Rightarrow> \<not> (200 \<le> st \<and> st < 300)
          \<and> report clk (Some e) b = (if 400 \<le> st \<and> st < 500 \<and> st \<noteq> 429 then Abstain b else Record clk (Some e) b)
          \<and> IsRetryable (Some e) = (\<not> (400 \<le> st \<and> st < 500 \<and> st \<noteq> 429))"
    by (simp add: classifyStatus_def Let_def report_def isClientFault_def tag_def err_New_def IsRetryable_def defaultRetryable_def)
qed

text \<open>The probe and the read disagree about a timestamp that is present but zero. The mapper takes it for absent, so the freshness read
  with the record evaluates to UNKNOWN, as the mapper's comment requires; the adapter's probe takes it for
  1970, so the same answer of the source evaluates to STALE once the TTL is shorter than the time since then.\<close>

theorem zero_timestamp_probed_as_epoch:
  assumes "fe_last_updated f = Some \<lparr>tp_seconds = 0, tp_nanos = 0\<rparr>" "fe_server_time f = None"
    "gf_found resp" "gf_freshness resp = Some f" "secondsToEpoch * 10 ^ 9 + ttl < now" "now \<le> secondsToEpoch * 10 ^ 9 + maxDuration" "0 < ttl"
  shows "ev_State (Evaluate (observation_of resp) ttl skew now) = FreshnessStale
    \<and> ev_State (EvaluateFreshness (map_freshness (Some f)) ttl skew now) = FreshnessUnknown"
proof -
  have ob: "observation_of resp = \<lparr>ob_Found = True, ob_LastUpdated = secondsToEpoch * 10 ^ 9, ob_SourceTime = 0, ob_Version = fe_version f,
      ob_RefreshSource = fe_refresh_source f\<rparr>"
    using assms(1-4) by (simp add: observation_of_def tsOf_def ts_IsValid_def ts_AsTime_def secondsToEpoch_def)
  have age: "time_Sub now 62135596800000000000 = now - 62135596800000000000"
    using assms(5-7) by (simp add: time_Sub_def minDuration_def secondsToEpoch_def)
  have "ev_State (Evaluate (observation_of resp) ttl skew now) = FreshnessStale"
    using assms(5,7) by (simp add: ob Evaluate_def Let_def age time_IsZero_def secondsToEpoch_def)
  moreover have "ev_State (EvaluateFreshness (map_freshness (Some f)) ttl skew now) = FreshnessUnknown"
    using assms(1) by (simp add: EvaluateFreshness_def Evaluate_def last_updated_def ts_def ts_IsValid_def time_IsZero_def)
  ultimately show ?thesis ..
qed

theorem zero_timestamp_probed_as_epoch_witness:
  "let f = \<lparr>fe_last_updated = Some \<lparr>tp_seconds = 0, tp_nanos = 0\<rparr>, fe_server_time = None, fe_refresh_source = [], fe_version = 0\<rparr> in
   ev_State (Evaluate (observation_of \<lparr>gf_found = True, gf_freshness = Some f\<rparr>) (30 * second) 0 (63871000000 * second)) = FreshnessStale
   \<and> ev_State (EvaluateFreshness (map_freshness (Some f)) (30 * second) 0 (63871000000 * second)) = FreshnessUnknown"
  unfolding Let_def
  by (rule zero_timestamp_probed_as_epoch) (simp_all add: secondsToEpoch_def second_def maxDuration_def)

end
