(* ===== verification/ConfigProvider.thy ===== *)
theory ConfigProvider
  imports ConfigLoad
begin

text \<open>
  \<^verbatim>\<open>internal/config/provider.go\<close>: the configuration the service reads, and the reloads that
  replace it. \<^verbatim>\<open>Load\<close> and \<^verbatim>\<open>hashFile\<close> read the outside world, so every reload takes what they
  returned that time as arguments; a tick of \<^verbatim>\<open>Watch\<close> is one \<open>reloadIfChanged\<close>. Observers are
  not modelled.
\<close>

section \<open>Operations\<close>

record Provider =
  pv_current :: Config
  pv_path :: string
  pv_lastHash :: string
  pv_reloads :: int
  pv_failures :: int

definition NewFileProvider :: "(string \<Rightarrow> load_error + Config) \<Rightarrow> (string \<Rightarrow> string) \<Rightarrow> string
    \<Rightarrow> load_error + Provider" where
  "NewFileProvider ld hashFile path =
     (case ld path of Inl e \<Rightarrow> Inl e
      | Inr cfg \<Rightarrow> Inr \<lparr>pv_current = cfg, pv_path = path, pv_lastHash = hashFile path,
          pv_reloads = 0, pv_failures = 0\<rparr>)"

definition Reload :: "(string \<Rightarrow> load_error + Config) \<Rightarrow> Provider \<Rightarrow> load_error option \<times> Provider" where
  "Reload ld p =
     (case ld (pv_path p) of
        Inl e \<Rightarrow> (Some e, p\<lparr>pv_failures := pv_failures p + 1\<rparr>)
      | Inr cfg \<Rightarrow> (None, p\<lparr>pv_current := cfg, pv_reloads := pv_reloads p + 1\<rparr>))"

definition reloadIfChanged :: "(string \<Rightarrow> load_error + Config) \<Rightarrow> (string \<Rightarrow> string) \<Rightarrow> Provider \<Rightarrow> Provider" where
  "reloadIfChanged ld hashFile p =
     (let h = hashFile (pv_path p)
      in if h = [] then p
         else if h = pv_lastHash p then p
         else (case ld (pv_path p) of
            Inl e \<Rightarrow> p\<lparr>pv_failures := pv_failures p + 1, pv_lastHash := h\<rparr>
          | Inr cfg \<Rightarrow> p\<lparr>pv_current := cfg, pv_lastHash := h, pv_reloads := pv_reloads p + 1\<rparr>))"

datatype provider_op = OpReload "string \<Rightarrow> string list \<Rightarrow> Config \<Rightarrow> string + Config" "string list"
  | OpTick "string \<Rightarrow> string list \<Rightarrow> Config \<Rightarrow> string + Config" "string list" "string \<Rightarrow> string"

text \<open>The environment at a reload: what decoding the file gives, the process environment and the
  file's hash. \<^verbatim>\<open>Load\<close> is \<open>load\<close> applied to them.\<close>

fun provider_step :: "provider_op \<Rightarrow> Provider \<Rightarrow> Provider" where
  "provider_step (OpReload decode environ) p = snd (Reload (\<lambda>path. load decode path environ) p)"
| "provider_step (OpTick decode environ hashFile) p =
     reloadIfChanged (\<lambda>path. load decode path environ) hashFile p"

section \<open>The served configuration is always valid\<close>

definition provider_ok :: "Provider \<Rightarrow> bool" where
  "provider_ok p \<longleftrightarrow> Validate (pv_current p) = [] \<and> 0 \<le> pv_reloads p \<and> 0 \<le> pv_failures p"

lemma load_validates: "load decode path environ = Inr cfg \<Longrightarrow> Validate cfg = []"
  by (auto simp: load_def Let_def split: sum.splits if_splits)

interpretation provider: guarded_component provider_step provider_ok
proof unfold_locales
  fix p a assume "provider_ok p"
  then show "provider_ok (provider_step a p)"
    by (cases a) (auto simp: provider_ok_def Reload_def reloadIfChanged_def Let_def load_validates
        split: sum.splits)
qed

lemma NewFileProvider_ok:
  "NewFileProvider (\<lambda>p. load decode p environ) h path = Inr p \<Longrightarrow> provider_ok p"
  by (auto simp: NewFileProvider_def provider_ok_def load_validates split: sum.splits)

lemma reload_changes_only_on_success:
  "pv_current (provider_step a p) \<noteq> pv_current p \<Longrightarrow>
     pv_reloads (provider_step a p) = pv_reloads p + 1 \<and> pv_failures (provider_step a p) = pv_failures p"
  by (cases a) (auto simp: Reload_def reloadIfChanged_def Let_def split: sum.splits if_splits)

lemma tick_idempotent:
  "provider_step (OpTick d e h) (provider_step (OpTick d e h) p) = provider_step (OpTick d e h) p"
  by (auto simp: reloadIfChanged_def Let_def split: sum.splits)

text \<open>C37: Whatever the file, its hash and the environment do between reloads, the configuration
  the provider serves always passes \<^verbatim>\<open>Validate\<close>; a reload that fails leaves it in force and only
  counts a failure; and a broken file that does not change is not loaded again at the next tick.\<close>

theorem provider_serves_valid_config:
  assumes "NewFileProvider (\<lambda>q. load decode q environ) h path = Inr p"
  shows "Validate (pv_current (fold provider_step ops p)) = []
    \<and> (load d (pv_path p) e = Inl err \<longrightarrow>
        pv_current (provider_step (OpReload d e) p) = pv_current p
        \<and> pv_current (provider_step (OpTick d e h') p) = pv_current p)
    \<and> provider_step (OpTick d e h') (provider_step (OpTick d e h') p) = provider_step (OpTick d e h') p"
  using provider.run_inv[OF NewFileProvider_ok[OF assms], of ops] tick_idempotent
  by (auto simp: provider_ok_def Reload_def reloadIfChanged_def Let_def)

lemma load_Default: "load (\<lambda>_ _ cfg. Inr cfg) path environ = Inr Default"
proof -
  have "mergeRoutingDefaults Default Default = Default" by code_simp
  with Default_validates show ?thesis by (simp add: load_def)
qed

theorem provider_serves_valid_config_witness:
  "\<exists>p. NewFileProvider (\<lambda>q. load (\<lambda>_ _ cfg. Inr cfg) q []) (\<lambda>_. ''h0'') ''bff.yaml'' = Inr p
     \<and> Validate (pv_current (fold provider_step
          [OpTick (\<lambda>_ _ _. Inl ''parse error'') [] (\<lambda>_. ''h1''), OpReload (\<lambda>_ _ cfg. Inr cfg) []] p)) = []
     \<and> pv_current (provider_step (OpTick (\<lambda>_ _ _. Inl ''parse error'') [] (\<lambda>_. ''h1'')) p) = pv_current p"
proof -
  define p where "p = \<lparr>pv_current = Default, pv_path = ''bff.yaml'', pv_lastHash = ''h0'', pv_reloads = 0, pv_failures = 0\<rparr>"
  have p: "NewFileProvider (\<lambda>q. load (\<lambda>_ _ cfg. Inr cfg) q []) (\<lambda>_. ''h0'') ''bff.yaml'' = Inr p"
    by (simp add: NewFileProvider_def load_Default p_def)
  have e: "load (\<lambda>_ _ _. Inl ''parse error'') (pv_path p) [] = Inl (DecodeFailed ''parse error'')"
    by (simp add: load_def)
  show ?thesis
    using p e provider_serves_valid_config[OF p, of "[OpTick (\<lambda>_ _ _. Inl ''parse error'') [] (\<lambda>_. ''h1''),
        OpReload (\<lambda>_ _ cfg. Inr cfg) []]" "\<lambda>_ _ _. Inl ''parse error''" "[]"] by blast
qed

end
