(* ===== verification/Admin.thy ===== *)
theory Admin
  imports Api ConfigProvider
begin

text \<open>
  The rest of \<^verbatim>\<open>internal/api/server.go\<close>: the server's two flags and the admin surface (probes, build information, the
  effective routing policy). The listeners themselves, and what \<^verbatim>\<open>http.Server.Shutdown\<close> reports, are outside; the metrics endpoint is the
  exporter's.
\<close>

section \<open>The server\<close>

record BuildInfo =
  bi_Version :: string
  bi_Commit :: string
  bi_BuildDate :: string
  bi_GoVersion :: string

record Server =
  sr_ready :: bool
  sr_live :: bool
  sr_buildInfo :: BuildInfo

definition server_New :: "BuildInfo \<Rightarrow> Server" where
  "server_New b = \<lparr>sr_ready = False, sr_live = True, sr_buildInfo = b\<rparr>"

definition MarkReady :: "Server \<Rightarrow> Server" where
  "MarkReady s = s\<lparr>sr_ready := True\<rparr>"

text \<open>The two listeners report an error or none; \<^verbatim>\<open>errors.Join\<close> of no error is nil.\<close>

definition Shutdown :: "goerr option \<Rightarrow> goerr option \<Rightarrow> Server \<Rightarrow> goerr list \<times> Server" where
  "Shutdown pub adm s =
     ((case pub of None \<Rightarrow> [] | Some e \<Rightarrow> [e]) @ (case adm of None \<Rightarrow> [] | Some e \<Rightarrow> [e]), s\<lparr>sr_ready := False\<rparr>)"

section \<open>Admin routes\<close>

record RoutingEntry =
  ro_preferred_source :: string
  ro_ttl :: duration
  ro_cache_ttl :: duration
  ro_fallback :: string
  ro_allow_stale :: bool
  ro_max_stale :: duration
  ro_consistency :: string

record RoutingReport =
  rr_tenant :: string
  rr_request_types :: "RoutingEntry gomap"
  rr_defaults :: RoutingDefaults
  rr_reload_count :: int
  rr_reload_failures :: int

datatype admin_body = StatusBody string | ReadyBody string "(string \<times> bool \<times> string) list" | HealthBody string BuildInfo | BuildBody BuildInfo
  | RoutingBody RoutingReport

definition livez :: "Server \<Rightarrow> nat \<times> admin_body" where
  "livez s = (if \<not> sr_live s then (503, StatusBody ''dead'') else (200, StatusBody ''alive''))"

definition readyz :: "SourceHealth \<times> SourceHealth \<Rightarrow> Server \<Rightarrow> nat \<times> admin_body" where
  "readyz health s =
     (if \<not> sr_ready s then (503, StatusBody ''starting'')
      else case health of (ops, exec) \<Rightarrow>
        (200, ReadyBody (if \<not> sh_Available ops \<and> \<not> sh_Available exec then ''degraded'' else ''ready'')
           [(''operational'', sh_Available ops, sh_Detail ops), (''execution'', sh_Available exec, sh_Detail exec)]))"

definition healthz :: "Server \<Rightarrow> nat \<times> admin_body" where
  "healthz s = (if \<not> sr_ready s then (503, HealthBody ''starting'' (sr_buildInfo s)) else (200, HealthBody ''ok'' (sr_buildInfo s)))"

definition buildinfo :: "Server \<Rightarrow> nat \<times> admin_body" where
  "buildinfo s = (200, BuildBody (sr_buildInfo s))"

definition Stats :: "Provider \<Rightarrow> int \<times> int" where
  "Stats p = (pv_reloads p, pv_failures p)"

definition routing_entry :: "Config \<Rightarrow> string \<Rightarrow> string \<Rightarrow> RoutingEntry" where
  "routing_entry cfg tenant name =
     (let rule = fst (ResolveRule cfg tenant name) in
      \<lparr>ro_preferred_source = ru_PreferredSource rule, ro_ttl = ru_TTL rule, ro_cache_ttl = ru_CacheTTL rule, ro_fallback = ru_Fallback rule,
       ro_allow_stale = ru_AllowStale rule, ro_max_stale = ru_MaxStale rule, ro_consistency = ru_Consistency rule\<rparr>)"

definition config_routing :: "Provider \<Rightarrow> string \<Rightarrow> nat \<times> admin_body" where
  "config_routing p tenant =
     (let cfg = pv_current p; (reloads, failures) = Stats p in
      (200, RoutingBody \<lparr>rr_tenant = tenant,
        rr_request_types = fold (\<lambda>(name, _) out. gomap_put name (routing_entry cfg tenant name) out) (rc_RequestTypes (cfg_Routing cfg)) [],
        rr_defaults = ResolveDefaults cfg tenant, rr_reload_count = reloads, rr_reload_failures = failures\<rparr>))"

section \<open>Lemmas\<close>

text \<open>Probes do not depend on the sources: an outage of both neither restarts the process nor takes it out of service.\<close>

lemma probes_ignore_sources: "sr_live s \<Longrightarrow> sr_ready s \<Longrightarrow> fst (livez s) = 200 \<and> fst (readyz h s) = 200 \<and> fst (healthz s) = 200"
  by (simp add: livez_def readyz_def healthz_def split: prod.split)

datatype server_op = OpMarkReady | OpShutdown "goerr option" "goerr option"

fun server_step :: "server_op \<Rightarrow> Server \<Rightarrow> Server" where
  "server_step OpMarkReady s = MarkReady s"
| "server_step (OpShutdown a b) s = snd (Shutdown a b s)"

interpretation server: guarded_component server_step "\<lambda>s. sr_live s \<and> sr_buildInfo s = b" for b
proof unfold_locales
  fix s :: Server and a
  assume "sr_live s \<and> sr_buildInfo s = b"
  then show "sr_live (server_step a s) \<and> sr_buildInfo (server_step a s) = b" by (cases a) (simp_all add: MarkReady_def Shutdown_def)
qed

text \<open>The process is ready exactly from the last time it was marked ready to the shutdown that follows, and always alive.\<close>

lemma server_run:
  "sr_live (fold server_step ops (server_New b))
   \<and> (sr_ready (fold server_step ops (server_New b)) \<longleftrightarrow> ops \<noteq> [] \<and> last ops = OpMarkReady)"
proof (induction ops rule: rev_induct)
  case (snoc a ops)
  then show ?case by (cases a) (simp_all add: MarkReady_def Shutdown_def)
qed (simp add: server_New_def)

text \<open>The routing report shows the rule that routing resolves for the tenant, for each configured request type.\<close>

lemma routing_report_fold:
  "gomap_get (fold (\<lambda>(name, _) out. gomap_put name (f name) out) ms acc) k = (if k \<in> fst ` set ms then Some (f k) else gomap_get acc k)"
  by (induction ms arbitrary: acc) auto

lemma config_routing_effective:
  assumes "gomap_get (rc_RequestTypes (cfg_Routing (pv_current p))) name = Some r" "config_routing p tenant = (st, RoutingBody rep)"
  shows "gomap_get (rr_request_types rep) name = Some (routing_entry (pv_current p) tenant name) \<and> rr_defaults rep = ResolveDefaults (pv_current p) tenant"
proof -
  let ?ms = "rc_RequestTypes (cfg_Routing (pv_current p))"
  have m: "name \<in> fst ` set ?ms" using assms(1) by (force simp: gomap_get_def dest: map_of_SomeD)
  have "rr_request_types rep = fold (\<lambda>(name, _) out. gomap_put name (routing_entry (pv_current p) tenant name) out) ?ms []"
    "rr_defaults rep = ResolveDefaults (pv_current p) tenant" using assms(2) by (auto simp: config_routing_def Let_def Stats_def)
  then show ?thesis using m by (simp only: routing_report_fold) simp
qed

end
