(* ===== verification/Redis.thy ===== *)
theory Redis
  imports CacheManager "HOL-Library.Word"
begin

text \<open>
  \<^verbatim>\<open>internal/cache/redis.go\<close>: the second cache tier. The Redis client is an argument, a record of the commands the code sends, over a server
  state; what the code relies on of the server is \<open>redis_ok\<close>. The JSON form of an entry is an argument too: a decoder may give back an
  entry that differs from the one encoded. A command whose effect depends on the server's clock takes its reading. The SCAN loop need not end by
  itself, so it is a \<^theory_text>\<open>partial_function\<close>; the deadline of its context ends it. A value is a byte string.
\<close>

section \<open>The client and its options\<close>

record RedisOptions =
  ro_Addr :: string
  ro_DB :: int
  ro_Username :: string
  ro_Password :: string
  ro_PoolSize :: int
  ro_MinIdleConns :: int
  ro_DialTimeout :: duration
  ro_ReadTimeout :: duration
  ro_WriteTimeout :: duration
  ro_TLS :: "(bool \<times> string) option"

text \<open>\<^verbatim>\<open>NewRedis\<close>: the options of the client, with \<^verbatim>\<open>InsecureSkipVerify\<close> and \<^verbatim>\<open>ServerName\<close> of the TLS settings, and the
  deadline of each command. \<open>getenv\<close> reads the environment.\<close>

definition NewRedis :: "(string \<Rightarrow> string) \<Rightarrow> RedisConfig \<Rightarrow> RedisOptions \<times> duration" where
  "NewRedis getenv cfg =
     (\<lparr>ro_Addr = rds_Addr cfg, ro_DB = rds_DB cfg, ro_Username = rds_Username cfg, ro_Password = getenv (rds_PasswordEnv cfg),
       ro_PoolSize = rds_PoolSize cfg, ro_MinIdleConns = rds_MinIdle cfg, ro_DialTimeout = rds_DialTimeout cfg,
       ro_ReadTimeout = rds_ReadTimeout cfg, ro_WriteTimeout = rds_WriteTimeout cfg,
       ro_TLS = if tls_Enabled (rds_TLS cfg) then Some (tls_InsecureSkipVerify (rds_TLS cfg), tls_ServerName (rds_TLS cfg)) else None\<rparr>,
      if rds_ReadTimeout cfg \<le> 0 then 200 * millisecond else rds_ReadTimeout cfg)"

datatype redis_get = RNil | RBytes string | RErr string

record 's RedisClient =
  rk_Get :: "time \<Rightarrow> string \<Rightarrow> 's \<Rightarrow> redis_get \<times> 's"
  rk_Set :: "time \<Rightarrow> string \<Rightarrow> string \<Rightarrow> duration \<Rightarrow> 's \<Rightarrow> string option \<times> 's"
  rk_Del :: "string list \<Rightarrow> 's \<Rightarrow> string option \<times> 's"
  rk_Unlink :: "string list \<Rightarrow> 's \<Rightarrow> string option \<times> 's"
  rk_Scan :: "64 word \<Rightarrow> string \<Rightarrow> int \<Rightarrow> 's \<Rightarrow> (string + string list \<times> 64 word) \<times> 's"
  rk_SetNX :: "time \<Rightarrow> string \<Rightarrow> string \<Rightarrow> duration \<Rightarrow> 's \<Rightarrow> (string + bool) \<times> 's"

record 'p EntryCodec =
  ec_Marshal :: "'p Entry \<Rightarrow> string + string"
  ec_Unmarshal :: "string \<Rightarrow> 'p Entry option"

section \<open>Operations\<close>

definition redis_Get :: "'s RedisClient \<Rightarrow> 'p EntryCodec \<Rightarrow> time \<Rightarrow> string \<Rightarrow> 's \<Rightarrow> (cache_err + 'p Entry) \<times> 's" where
  "redis_Get cl co clk key s =
     (case rk_Get cl clk key s of (r, s') \<Rightarrow>
       (case r of
          RErr e \<Rightarrow> Inl (BackendErr (''cache: redis get: '' @ e))
        | RNil \<Rightarrow> Inl ErrMiss
        | RBytes raw \<Rightarrow>
            (case ec_Unmarshal co raw of None \<Rightarrow> Inl ErrMiss
             | Some e \<Rightarrow> if ce_SchemaVersion e \<noteq> EntrySchemaVersion then Inl ErrMiss else Inr e), s'))"

definition redis_Set :: "'s RedisClient \<Rightarrow> 'p EntryCodec \<Rightarrow> time \<Rightarrow> string \<Rightarrow> 'p Entry \<Rightarrow> duration \<Rightarrow> 's \<Rightarrow> cache_err option \<times> 's" where
  "redis_Set cl co clk key e ttl s =
     (if ttl \<le> 0 then (None, s)
      else case ec_Marshal co (e\<lparr>ce_SchemaVersion := EntrySchemaVersion\<rparr>) of
        Inl err \<Rightarrow> (Some (BackendErr (''cache: encode entry: '' @ err)), s)
      | Inr raw \<Rightarrow> (case rk_Set cl clk key raw ttl s of
            (Some err, s') \<Rightarrow> (Some (BackendErr (''cache: redis set: '' @ err)), s') | (None, s') \<Rightarrow> (None, s')))"

definition redis_Delete :: "'s RedisClient \<Rightarrow> string \<Rightarrow> 's \<Rightarrow> cache_err option \<times> 's" where
  "redis_Delete cl key s = (case rk_Del cl [key] s of
     (Some err, s') \<Rightarrow> (Some (BackendErr (''cache: redis del: '' @ err)), s') | (None, s') \<Rightarrow> (None, s'))"

definition scanBatch :: int where "scanBatch = 256"

text \<open>\<open>ctxErr i\<close> is what \<^verbatim>\<open>ctx.Err()\<close> returns after the \<open>i\<close>-th batch.\<close>

partial_function (option) scan_loop :: "'s RedisClient \<Rightarrow> (nat \<Rightarrow> string option) \<Rightarrow> string \<Rightarrow> nat \<Rightarrow> 64 word \<Rightarrow> 's \<Rightarrow> (cache_err option \<times> 's) option" where
  "scan_loop cl ctxErr pat i cursor s =
     (case rk_Scan cl cursor pat scanBatch s of
        (Inl e, s') \<Rightarrow> Some (Some (BackendErr (''cache: redis scan: '' @ e)), s')
      | (Inr (keys, nxt), s') \<Rightarrow>
          (case (if length keys > 0 then rk_Unlink cl keys s' else (None, s')) of
             (Some e, s2) \<Rightarrow> Some (Some (BackendErr (''cache: redis unlink: '' @ e)), s2)
           | (None, s2) \<Rightarrow>
               if nxt = 0 then Some (None, s2)
               else (case ctxErr i of
                 Some e \<Rightarrow> Some (Some (BackendErr (''cache: redis scan cancelled: '' @ e)), s2)
               | None \<Rightarrow> scan_loop cl ctxErr pat (Suc i) nxt s2)))"

definition redis_DeletePrefix :: "'s RedisClient \<Rightarrow> (nat \<Rightarrow> string option) \<Rightarrow> string \<Rightarrow> 's \<Rightarrow> (cache_err option \<times> 's) option" where
  "redis_DeletePrefix cl ctxErr pre s = scan_loop cl ctxErr (pre @ ''*'') 0 0 s"

definition AcquireLock :: "'s RedisClient \<Rightarrow> time \<Rightarrow> string \<Rightarrow> duration \<Rightarrow> 's \<Rightarrow> (cache_err + bool) \<times> 's" where
  "AcquireLock cl clk key ttl s = (case rk_SetNX cl clk (key @ '':lock'') ''1'' ttl s of
     (Inl e, s') \<Rightarrow> (Inl (BackendErr (''cache: redis lock: '' @ e)), s') | (Inr ok, s') \<Rightarrow> (Inr ok, s'))"

definition ReleaseLock :: "'s RedisClient \<Rightarrow> string \<Rightarrow> 's \<Rightarrow> 's" where
  "ReleaseLock cl key s = snd (rk_Del cl [key @ '':lock''] s)"

section \<open>What the code relies on\<close>

text \<open>The server holds a map from keys to bytes. It may forget a key at any time (expiry, eviction) and never invents one: a read returns what is held; a write
  adds its own pair at most, and may fail to; DEL and UNLINK remove what they name. \<open>pend p c s\<close> are the keys that an iteration at cursor \<open>c\<close> of pattern \<open>p\<close> has yet to report:
  all that match at the start; each key a batch takes off is in its reply; a returned cursor of zero leaves none. Unlinking the reply takes
  off no other key. A pattern that is a literal followed by a star matches every key with that prefix.\<close>

definition glob_literal :: "string \<Rightarrow> bool" where
  "glob_literal p \<longleftrightarrow> list_all (\<lambda>c. c \<notin> set ''*?[]^'' \<and> c \<noteq> CHR 0x5C) p"

definition adds_at_most :: "string \<Rightarrow> string \<Rightarrow> (string \<rightharpoonup> string) \<Rightarrow> (string \<rightharpoonup> string) \<Rightarrow> bool" where
  "adds_at_most k raw m m' \<longleftrightarrow> (\<forall>j y. m' j = Some y \<longrightarrow> (j, y) = (k, raw) \<or> m j = Some y)"

definition redis_ok :: "'s RedisClient \<Rightarrow> ('s \<Rightarrow> string \<rightharpoonup> string) \<Rightarrow> (string \<Rightarrow> 64 word \<Rightarrow> 's \<Rightarrow> string set) \<Rightarrow> bool" where
  "redis_ok cl kv pend \<longleftrightarrow>
     (\<forall>t k s r s'. rk_Get cl t k s = (r, s') \<longrightarrow> kv s' \<subseteq>\<^sub>m kv s \<and> (\<forall>raw. r = RBytes raw \<longrightarrow> kv s k = Some raw))
   \<and> (\<forall>t k raw ttl s. adds_at_most k raw (kv s) (kv (snd (rk_Set cl t k raw ttl s))))
   \<and> (\<forall>t k raw ttl s. adds_at_most k raw (kv s) (kv (snd (rk_SetNX cl t k raw ttl s))))
   \<and> (\<forall>ks s e s'. rk_Del cl ks s = (e, s') \<longrightarrow> kv s' \<subseteq>\<^sub>m kv s \<and> (e = None \<longrightarrow> set ks \<inter> dom (kv s') = {}))
   \<and> (\<forall>ks s e s'. rk_Unlink cl ks s = (e, s') \<longrightarrow> kv s' \<subseteq>\<^sub>m kv s \<and> (e = None \<longrightarrow> set ks \<inter> dom (kv s') = {}))
   \<and> (\<forall>ks s p c. pend p c s \<inter> dom (kv (snd (rk_Unlink cl ks s))) \<subseteq> pend p c (snd (rk_Unlink cl ks s)))
   \<and> (\<forall>p c n s. kv (snd (rk_Scan cl c p n s)) \<subseteq>\<^sub>m kv s)
   \<and> (\<forall>p c n s keys nxt s'. rk_Scan cl c p n s = (Inr (keys, nxt), s') \<longrightarrow>
        pend p c s \<inter> dom (kv s') \<subseteq> set keys \<union> (if nxt = 0 then {} else pend p nxt s'))
   \<and> (\<forall>p s. glob_literal p \<longrightarrow> {k \<in> dom (kv s). strings_HasPrefix k p} \<subseteq> pend (p @ ''*'') 0 s)"

lemma redis_okD:
  assumes "redis_ok cl kv pend"
  shows redis_get: "rk_Get cl t k s = (r, s') \<Longrightarrow> kv s' \<subseteq>\<^sub>m kv s \<and> (\<forall>raw. r = RBytes raw \<longrightarrow> kv s k = Some raw)"
    and redis_set: "adds_at_most k raw (kv s) (kv (snd (rk_Set cl t k raw ttl s)))"
    and redis_setnx: "adds_at_most k raw (kv s) (kv (snd (rk_SetNX cl t k raw ttl s)))"
    and redis_del: "rk_Del cl ks s = (e, s') \<Longrightarrow> kv s' \<subseteq>\<^sub>m kv s \<and> (e = None \<longrightarrow> set ks \<inter> dom (kv s') = {})"
    and redis_unlink: "rk_Unlink cl ks s = (e, s') \<Longrightarrow> kv s' \<subseteq>\<^sub>m kv s \<and> (e = None \<longrightarrow> set ks \<inter> dom (kv s') = {})"
    and redis_unlink_pend: "pend p c s \<inter> dom (kv (snd (rk_Unlink cl ks s))) \<subseteq> pend p c (snd (rk_Unlink cl ks s))"
    and redis_scan_shrinks: "kv (snd (rk_Scan cl c p n s)) \<subseteq>\<^sub>m kv s"
    and redis_scan: "rk_Scan cl c p n s = (Inr (keys, nxt), s') \<Longrightarrow>
      pend p c s \<inter> dom (kv s') \<subseteq> set keys \<union> (if nxt = 0 then {} else pend p nxt s')"
    and redis_match: "glob_literal p \<Longrightarrow> {k \<in> dom (kv s). strings_HasPrefix k p} \<subseteq> pend (p @ ''*'') 0 s"
  using assms unfolding redis_ok_def by simp_all

section \<open>The flush\<close>

text \<open>One batch: the server forgets at most, and what the iteration still owes and the server still holds is owed by the next cursor.\<close>

lemma scan_batch:
  assumes ok: "redis_ok cl kv pend" and sc: "rk_Scan cl c p n s = (Inr (keys, nxt), s1)"
    and ul: "(if length keys > 0 then rk_Unlink cl keys s1 else (None, s1)) = (e, s2)"
  shows "kv s2 \<subseteq>\<^sub>m kv s \<and> (e = None \<longrightarrow> pend p c s \<inter> dom (kv s2) \<subseteq> (if nxt = 0 then {} else pend p nxt s2))"
proof -
  have m1: "kv s1 \<subseteq>\<^sub>m kv s" using redis_scan_shrinks[OF ok, of c p n s] sc by simp
  have o: "pend p c s \<inter> dom (kv s1) \<subseteq> set keys \<union> (if nxt = 0 then {} else pend p nxt s1)"
    by (rule redis_scan[OF ok sc])
  show ?thesis
  proof (cases "keys = []")
    case True
    then show ?thesis using m1 o ul by auto
  next
    case False
    then have u: "rk_Unlink cl keys s1 = (e, s2)" using ul by simp
    have m2: "kv s2 \<subseteq>\<^sub>m kv s1" "e = None \<Longrightarrow> set keys \<inter> dom (kv s2) = {}" using redis_unlink[OF ok u] by auto
    have "pend p nxt s1 \<inter> dom (kv s2) \<subseteq> pend p nxt s2" using redis_unlink_pend[OF ok, of p nxt s1 keys] u by simp
    moreover have "dom (kv s2) \<subseteq> dom (kv s1)" using m2(1) by (rule map_le_implies_dom_le)
    ultimately have "pend p c s \<inter> dom (kv s2) \<subseteq> (if nxt = 0 then {} else pend p nxt s2)" if "e = None"
      using o m2(2)[OF that] by (cases "nxt = 0") (simp_all, blast+)
    then show ?thesis using map_le_trans[OF m2(1) m1] by blast
  qed
qed

text \<open>The loop: the server forgets at most, and a loop that returns no error leaves none of the keys it started out owing.\<close>

lemma scan_loop_effect:
  assumes ret: "scan_loop cl ctxErr p i c s = Some rs"
  shows "redis_ok cl kv pend \<longrightarrow> kv (snd rs) \<subseteq>\<^sub>m kv s \<and> (fst rs = None \<longrightarrow> pend p c s \<inter> dom (kv (snd rs)) = {})"
proof (rule scan_loop.raw_induct[where P = "\<lambda>cl ctxErr p i c s rs. redis_ok cl kv pend \<longrightarrow>
    kv (snd rs) \<subseteq>\<^sub>m kv s \<and> (fst rs = None \<longrightarrow> pend p c s \<inter> dom (kv (snd rs)) = {})", OF _ ret], rule impI)
  fix f cl ctxErr p i c s rs
  assume IH: "\<And>cl ctxErr p i c s rs. f cl ctxErr p i c s = Some rs \<Longrightarrow> redis_ok cl kv pend \<longrightarrow>
      kv (snd rs) \<subseteq>\<^sub>m kv s \<and> (fst rs = None \<longrightarrow> pend p c s \<inter> dom (kv (snd rs)) = {})"
    and eq: "(case rk_Scan cl c p scanBatch s of
        (Inl e, s') \<Rightarrow> Some (Some (BackendErr (''cache: redis scan: '' @ e)), s')
      | (Inr (keys, nxt), s') \<Rightarrow>
          (case (if length keys > 0 then rk_Unlink cl keys s' else (None, s')) of
             (Some e, s2) \<Rightarrow> Some (Some (BackendErr (''cache: redis unlink: '' @ e)), s2)
           | (None, s2) \<Rightarrow>
               if nxt = 0 then Some (None, s2)
               else (case ctxErr i of
                 Some e \<Rightarrow> Some (Some (BackendErr (''cache: redis scan cancelled: '' @ e)), s2)
               | None \<Rightarrow> f cl ctxErr p (Suc i) nxt s2))) = Some rs"
    and ok: "redis_ok cl kv pend"
  obtain x s1 where sc: "rk_Scan cl c p scanBatch s = (x, s1)" by (cases "rk_Scan cl c p scanBatch s")
  show "kv (snd rs) \<subseteq>\<^sub>m kv s \<and> (fst rs = None \<longrightarrow> pend p c s \<inter> dom (kv (snd rs)) = {})"
  proof (cases x)
    case (Inl e)
    then show ?thesis using eq sc redis_scan_shrinks[OF ok, of c p scanBatch s] by auto
  next
    case (Inr kn)
    obtain keys nxt where kn: "kn = (keys, nxt)" by (cases kn)
    obtain e s2 where ul: "(if length keys > 0 then rk_Unlink cl keys s1 else (None, s1)) = (e, s2)" by force
    note b = scan_batch[OF ok sc[unfolded Inr kn] ul]
    consider (stop) "snd rs = s2" "fst rs = None \<longrightarrow> e = None \<and> nxt = 0" | (more) "f cl ctxErr p (Suc i) nxt s2 = Some rs" "e = None" "nxt \<noteq> 0"
      using eq unfolding sc Inr kn prod.case sum.case ul by (auto split: option.splits if_splits)
    then show ?thesis
    proof cases
      case stop
      then show ?thesis using b by auto
    next
      case more
      have ih: "kv (snd rs) \<subseteq>\<^sub>m kv s2" "fst rs = None \<Longrightarrow> pend p nxt s2 \<inter> dom (kv (snd rs)) = {}" using IH[OF more(1)] ok by auto
      have "dom (kv (snd rs)) \<subseteq> dom (kv s2)" using ih(1) by (rule map_le_implies_dom_le)
      moreover have "pend p c s \<inter> dom (kv s2) \<subseteq> pend p nxt s2" "kv s2 \<subseteq>\<^sub>m kv s" using b more(2,3) by simp_all
      ultimately show ?thesis using ih(2) map_le_trans[OF ih(1)] by blast
    qed
  qed
qed

text \<open>The loop returns once its context has ended: the error is seen at the batch after which the context reports it.\<close>

lemma scan_loop_error: "rk_Scan cl c p scanBatch s = (Inl e, s1) \<Longrightarrow>
    scan_loop cl ctxErr p i c s = Some (Some (BackendErr (''cache: redis scan: '' @ e)), s1)"
  by (subst scan_loop.simps) simp

lemma scan_loop_batch:
  assumes "rk_Scan cl c p scanBatch s = (Inr (keys, nxt), s1)" "(if length keys > 0 then rk_Unlink cl keys s1 else (None, s1)) = (e, s2)"
  shows "scan_loop cl ctxErr p i c s =
    (case e of Some e \<Rightarrow> Some (Some (BackendErr (''cache: redis unlink: '' @ e)), s2)
     | None \<Rightarrow> if nxt = 0 then Some (None, s2)
         else (case ctxErr i of Some e \<Rightarrow> Some (Some (BackendErr (''cache: redis scan cancelled: '' @ e)), s2) | None \<Rightarrow> scan_loop cl ctxErr p (Suc i) nxt s2))"
  unfolding scan_loop.simps[of cl ctxErr p i c s] assms(1) prod.case sum.case assms(2) ..

lemma scan_loop_returns: "ctxErr n \<noteq> None \<Longrightarrow> i \<le> n \<Longrightarrow> \<exists>rs. scan_loop cl ctxErr p i c s = Some rs"
proof (induction "n - i" arbitrary: i c s rule: less_induct)
  case less
  obtain x s1 where sc: "rk_Scan cl c p scanBatch s = (x, s1)" by force
  show ?case
  proof (cases x)
    case (Inl e)
    with sc show ?thesis by (simp add: scan_loop_error)
  next
    case (Inr kn)
    obtain keys nxt where kn: "kn = (keys, nxt)" by force
    obtain e s2 where ul: "(if length keys > 0 then rk_Unlink cl keys s1 else (None, s1)) = (e, s2)" by force
    have "\<exists>rs. scan_loop cl ctxErr p (Suc i) nxt s2 = Some rs" if "ctxErr i = None"
    proof -
      have "i \<noteq> n" using that less.prems(1) by auto
      then show ?thesis using less.hyps[of "Suc i"] less.prems by auto
    qed
    then show ?thesis unfolding scan_loop_batch[OF sc[unfolded Inr kn] ul] by (cases e; cases "ctxErr i") auto
  qed
qed

section \<open>Reads, writes and the lock\<close>

lemma redis_Get_hit:
  assumes "redis_ok cl kv pend" "redis_Get cl co t k s = (Inr e, s')"
  shows "\<exists>raw. kv s k = Some raw \<and> ec_Unmarshal co raw = Some e \<and> ce_SchemaVersion e = EntrySchemaVersion"
proof -
  obtain r where g: "rk_Get cl t k s = (r, s')" using assms(2) by (cases "rk_Get cl t k s") (auto simp: redis_Get_def)
  with assms(2) obtain raw where "r = RBytes raw" "ec_Unmarshal co raw = Some e" "ce_SchemaVersion e = EntrySchemaVersion"
    by (auto simp: redis_Get_def split: redis_get.splits option.splits if_splits)
  then show ?thesis using redis_get[OF assms(1) g] by auto
qed

text \<open>What a run of operations leaves in the server.\<close>

datatype 'p redis_op = RoGet time string | RoSet time string "'p Entry" duration | RoDelete string | RoDeletePrefix "nat \<Rightarrow> string option" string
  | RoAcquire time string duration | RoRelease string

fun redis_step :: "'s RedisClient \<Rightarrow> 'p EntryCodec \<Rightarrow> 'p redis_op \<Rightarrow> 's \<Rightarrow> 's" where
  "redis_step cl co (RoGet t k) s = snd (redis_Get cl co t k s)"
| "redis_step cl co (RoSet t k e ttl) s = snd (redis_Set cl co t k e ttl s)"
| "redis_step cl co (RoDelete k) s = snd (redis_Delete cl k s)"
| "redis_step cl co (RoDeletePrefix c p) s = (case redis_DeletePrefix cl c p s of None \<Rightarrow> s | Some (_, s') \<Rightarrow> s')"
| "redis_step cl co (RoAcquire t k ttl) s = snd (AcquireLock cl t k ttl s)"
| "redis_step cl co (RoRelease k) s = ReleaseLock cl k s"

text \<open>The writes of an operation: the encoding of an entry stamped with the schema version under its key, or the mark of a lock under the lock's key.\<close>

definition redis_writes :: "'p EntryCodec \<Rightarrow> 'p redis_op \<Rightarrow> (string \<times> string) set" where
  "redis_writes co a = (case a of
     RoSet t k e ttl \<Rightarrow> (case ec_Marshal co (e\<lparr>ce_SchemaVersion := EntrySchemaVersion\<rparr>) of Inr raw \<Rightarrow> {(k, raw)} | Inl _ \<Rightarrow> {})
   | RoAcquire t k ttl \<Rightarrow> {(k @ '':lock'', ''1'')} | _ \<Rightarrow> {})"

lemma map_le_mem: "m' \<subseteq>\<^sub>m m \<Longrightarrow> m' j = Some y \<Longrightarrow> m j = Some y"
  by (metis domI map_le_def)

lemma redis_step_writes:
  assumes ok: "redis_ok cl kv pend" and m: "kv (redis_step cl co a s) k = Some raw"
  shows "(k, raw) \<in> redis_writes co a \<or> kv s k = Some raw"
proof (cases a)
  case (RoGet t j)
  then have "redis_step cl co a s = snd (rk_Get cl t j s)" by (simp add: redis_Get_def split: prod.split)
  then show ?thesis using redis_get[OF ok, of t j s] m by (cases "rk_Get cl t j s") (auto dest: map_le_mem)
next
  case (RoSet t j e ttl)
  show ?thesis
  proof (cases "ec_Marshal co (e\<lparr>ce_SchemaVersion := EntrySchemaVersion\<rparr>)")
    case (Inr b)
    have "redis_step cl co a s = s \<or> redis_step cl co a s = snd (rk_Set cl t j b ttl s)"
      by (auto simp: RoSet redis_Set_def Inr split: prod.split option.split)
    then have "kv s k = Some raw \<or> kv (snd (rk_Set cl t j b ttl s)) k = Some raw" using m by auto
    then have "kv s k = Some raw \<or> (k, raw) = (j, b)" using redis_set[OF ok, of j b s t ttl] by (simp add: adds_at_most_def) blast
    then show ?thesis by (auto simp: RoSet redis_writes_def Inr)
  qed (use m in \<open>simp add: RoSet redis_Set_def split: if_splits\<close>)
next
  case (RoDelete j)
  then have "redis_step cl co a s = snd (rk_Del cl [j] s)" by (simp add: redis_Delete_def split: prod.split option.split)
  then show ?thesis using redis_del[OF ok, of "[j]" s] m by (cases "rk_Del cl [j] s") (auto dest: map_le_mem)
next
  case (RoDeletePrefix c p)
  show ?thesis
  proof (cases "scan_loop cl c (p @ ''*'') 0 0 s")
    case (Some rs)
    have "kv (snd rs) \<subseteq>\<^sub>m kv s" by (rule conjunct1[OF mp[OF scan_loop_effect[OF Some] ok]])
    moreover have "redis_step cl co a s = snd rs" by (cases rs) (simp add: RoDeletePrefix redis_DeletePrefix_def Some)
    ultimately show ?thesis using m map_le_mem[of "kv (snd rs)" "kv s" k raw] by simp
  qed (use m in \<open>simp add: RoDeletePrefix redis_DeletePrefix_def\<close>)
next
  case (RoAcquire t j ttl)
  then have "redis_step cl co a s = snd (rk_SetNX cl t (j @ '':lock'') ''1'' ttl s)" by (simp add: AcquireLock_def split: prod.split sum.split)
  then have "kv s k = Some raw \<or> (k, raw) = (j @ '':lock'', ''1'')"
    using m redis_setnx[OF ok, of "j @ '':lock''" "''1''" s t ttl] by (simp add: adds_at_most_def) blast
  then show ?thesis by (auto simp: RoAcquire redis_writes_def)
next
  case (RoRelease j)
  then have "redis_step cl co a s = snd (rk_Del cl [j @ '':lock''] s)" by (simp add: ReleaseLock_def)
  then show ?thesis using redis_del[OF ok, of "[j @ '':lock'']" s] m by (cases "rk_Del cl [j @ '':lock''] s") (auto dest: map_le_mem)
qed

lemma redis_run_writes:
  "redis_ok cl kv pend \<Longrightarrow> kv (fold (redis_step cl co) ops s) k = Some raw \<Longrightarrow> (\<exists>a \<in> set ops. (k, raw) \<in> redis_writes co a) \<or> kv s k = Some raw"
proof (induction ops arbitrary: s)
  case (Cons a ops)
  from Cons.prems(2) have "kv (fold (redis_step cl co) ops (redis_step cl co a s)) k = Some raw" by simp
  from Cons.IH[OF Cons.prems(1) this] show ?case using redis_step_writes[OF Cons.prems(1), of co a s k raw] by (meson list.set_intros)
qed simp

section \<open>Flushing a tenant\<close>

text \<open>A concrete server: an association list, where a SCAN reports the matching keys in one batch and nothing expires.\<close>

definition glob_matches :: "string \<Rightarrow> string \<Rightarrow> bool" where
  "glob_matches pat k = (if pat \<noteq> [] \<and> last pat = CHR ''*'' then strings_HasPrefix k (butlast pat) else k = pat)"

definition toy_redis :: "string gomap RedisClient" where
  "toy_redis = \<lparr>rk_Get = \<lambda>t k s. (case gomap_get s k of None \<Rightarrow> RNil | Some b \<Rightarrow> RBytes b, s),
     rk_Set = \<lambda>t k b ttl s. (None, gomap_put k b s), rk_Del = \<lambda>ks s. (None, fold gomap_del ks s), rk_Unlink = \<lambda>ks s. (None, fold gomap_del ks s),
     rk_Scan = \<lambda>c p n s. (Inr (filter (glob_matches p) (map fst s), 0), s),
     rk_SetNX = \<lambda>t k b ttl s. (if gomap_get s k = None then (Inr True, gomap_put k b s) else (Inr False, s))\<rparr>"

definition toy_pend :: "string \<Rightarrow> 64 word \<Rightarrow> string gomap \<Rightarrow> string set" where
  "toy_pend p c s = {k \<in> dom (gomap_get s). glob_matches p k}"

lemma fold_gomap_del: "gomap_get (fold gomap_del ks s) k = (if k \<in> set ks then None else gomap_get s k)"
  by (induction ks arbitrary: s) auto

lemma dom_gomap_get: "dom (gomap_get s) = fst ` set s"
  by (simp add: gomap_get_def[abs_def] dom_map_of_conv_image_fst)

lemma toy_scan: "scan_loop toy_redis ctxErr p i c s = Some (None, fold gomap_del (filter (glob_matches p) (map fst s)) s)"
proof -
  let ?ks = "filter (glob_matches p) (map fst s)"
  have "rk_Scan toy_redis c p scanBatch s = (Inr (?ks, 0), s)" by (simp add: toy_redis_def)
  moreover have "(if length ?ks > 0 then rk_Unlink toy_redis ?ks s else (None, s)) = (None, fold gomap_del ?ks s)"
    by (cases ?ks) (simp_all only: toy_redis_def RedisClient.simps list.size fold_simps id_apply if_True, simp_all)
  ultimately show ?thesis by (simp add: scan_loop_batch)
qed

lemma toy_redis_ok: "redis_ok toy_redis gomap_get toy_pend"
proof -
  have "{k \<in> dom (gomap_get s). strings_HasPrefix k p} \<subseteq> toy_pend (p @ ''*'') 0 s" for p s
    by (auto simp: toy_pend_def glob_matches_def)
  moreover have "toy_pend p c s \<inter> dom (gomap_get s) \<subseteq> set (filter (glob_matches p) (map fst s))" for p c s
    by (auto simp: toy_pend_def dom_gomap_get)
  moreover have "gomap_get (fold gomap_del ks s) \<subseteq>\<^sub>m gomap_get s \<and> set ks \<inter> dom (gomap_get (fold gomap_del ks s)) = {}" for ks and s :: "string gomap"
    by (auto simp: map_le_def fold_gomap_del split: if_splits)
  moreover have "toy_pend p c s \<inter> dom (gomap_get (fold gomap_del ks s)) \<subseteq> toy_pend p c (fold gomap_del ks s)" for p c ks s
    by (auto simp: toy_pend_def)
  ultimately show ?thesis
    by (simp add: redis_ok_def toy_redis_def adds_at_most_def split: option.split)
qed

text \<open>C17: Flushing a tenant on Redis ends and is complete. Under a literal key prefix, once the deadline of the operation has passed the loop of
  SCAN and UNLINK returns; if it returns no error, no key of the tenant is held any more, whatever its request type, resource, variant; and at no point is a
  key added.\<close>

theorem redis_flush_complete:
  assumes "redis_ok cl kv pend" "hash_ok hash" "glob_literal (TenantPrefix hash pre t)" "ctxErr n \<noteq> None"
  shows "\<exists>r s'. redis_DeletePrefix cl ctxErr (TenantPrefix hash pre t) s = Some (r, s') \<and> kv s' \<subseteq>\<^sub>m kv s
    \<and> (r = None \<longrightarrow> (\<forall>k. k_Prefix k = pre \<longrightarrow> k_TenantID k = t \<longrightarrow> kv s' (key_String hash k) = None))"
proof -
  obtain r s' where d: "scan_loop cl ctxErr (TenantPrefix hash pre t @ ''*'') 0 0 s = Some (r, s')"
    using scan_loop_returns[where ctxErr = ctxErr, OF assms(4) le0] by (metis surj_pair)
  note e = mp[OF scan_loop_effect[OF d] assms(1), simplified]
  have "kv s' (key_String hash k) = None" if "r = None" "k_Prefix k = pre" "k_TenantID k = t" for k
  proof (rule ccontr)
    assume n: "kv s' (key_String hash k) \<noteq> None"
    then have "key_String hash k \<in> dom (kv s)" using e by (auto simp: map_le_def dom_def)
    moreover have "strings_HasPrefix (key_String hash k) (TenantPrefix hash pre t)" using TenantPrefix_match[OF assms(2), of k t] that(2,3) by simp
    ultimately have "key_String hash k \<in> pend (TenantPrefix hash pre t @ ''*'') 0 s" using redis_match[OF assms(1,3), of s] by blast
    then show False using e that(1) n by auto
  qed
  then show ?thesis using d e by (auto simp: redis_DeletePrefix_def)
qed

theorem redis_flush_complete_witness:
  "let k = demo_key ''acme''; s = [(key_String demo_hash k, ''{}''), (key_String demo_hash (demo_key ''acme2''), ''{}'')]
   in \<exists>r s'. redis_DeletePrefix toy_redis (\<lambda>i. if i = 0 then None else Some ''deadline'') (TenantPrefix demo_hash ''bff'' ''acme'') s = Some (r, s')
     \<and> r = None \<and> gomap_get s' (key_String demo_hash k) = None"
proof -
  let ?k = "demo_key ''acme''" and ?c = "\<lambda>i :: nat. if i = 0 then None else Some ''deadline''"
  let ?s = "[(key_String demo_hash ?k, ''{}''), (key_String demo_hash (demo_key ''acme2''), ''{}'')]"
  have h: "hash_ok demo_hash" by (auto simp: hash_ok_def demo_hash_def list_all_iff safe_char_def Let_def split: if_splits)
  have g: "glob_literal (TenantPrefix demo_hash ''bff'' ''acme'')" by code_simp
  have c: "?c 1 \<noteq> None" by simp
  obtain r s' where r: "redis_DeletePrefix toy_redis ?c (TenantPrefix demo_hash ''bff'' ''acme'') ?s = Some (r, s')"
      "r = None \<longrightarrow> (\<forall>k. k_Prefix k = ''bff'' \<longrightarrow> k_TenantID k = ''acme'' \<longrightarrow> gomap_get s' (key_String demo_hash k) = None)"
    using redis_flush_complete[where ctxErr = ?c, OF toy_redis_ok h g c, of ?s] by blast
  have "r = None" using r(1) by (simp add: redis_DeletePrefix_def toy_scan)
  with r show ?thesis by (simp add: demo_key_def)
qed

end
