(* ===== verification/SourceKit.thy ===== *)
theory SourceKit
  imports Api
begin

text \<open>
  What the two reference sources (\<^verbatim>\<open>cmd/opsource\<close>, \<^verbatim>\<open>cmd/exsource\<close>) share. Decimal numerals: \<^verbatim>\<open>strconv.Itoa\<close> and \<^verbatim>\<open>strconv.Atoi\<close> invert each
  other on the 64-bit integers that are not negative, and a zero-padded numeral of \<^verbatim>\<open>fmt.Sprintf\<close> determines its number. The
  update of a setting from an optional field of a decoded body, and the decoding of a path segment.
\<close>

section \<open>Optional fields\<close>

definition given :: "'a option \<Rightarrow> ('a \<Rightarrow> 's \<Rightarrow> 's) \<Rightarrow> 's \<Rightarrow> 's" where
  "given p f s = (case p of None \<Rightarrow> s | Some x \<Rightarrow> f x s)"

lemma given_keeps: "P s \<Longrightarrow> (\<And>x. P s \<Longrightarrow> P (f x s)) \<Longrightarrow> P (given p f s)"
  by (simp add: given_def split: option.split)

section \<open>Decimal numerals\<close>

definition pad0 :: "nat \<Rightarrow> string \<Rightarrow> string" where
  "pad0 w s = replicate (w - length s) CHR ''0'' @ s"

text \<open>\<^verbatim>\<open>fmt.Sprintf\<close> of a verb such as \<^verbatim>\<open>%03d\<close>, on a number that is not negative.\<close>

definition sprintf_d :: "nat \<Rightarrow> nat \<Rightarrow> string" where
  "sprintf_d w n = pad0 w (digits n)"

definition strconv_Itoa :: "int \<Rightarrow> string" where
  "strconv_Itoa n = (if n < 0 then ''-'' @ digits (nat (- n)) else digits (nat n))"

definition numeral_value :: "string \<Rightarrow> int option" where
  "numeral_value s = map_option (foldl (\<lambda>a v. a * 10 + int v) 0) (those (map digit_val s))"

lemma those_append: "those (xs @ ys) = (case those xs of None \<Rightarrow> None | Some a \<Rightarrow> map_option ((@) a) (those ys))"
proof (induction xs)
  case Nil
  then show ?case by (cases "those ys") simp_all
next
  case (Cons x xs)
  then show ?case by (cases x; cases "those xs"; cases "those ys") auto
qed

lemma numeral_value_snoc:
  "numeral_value (s @ [c]) = (case (numeral_value s, digit_val c) of (Some a, Some v) \<Rightarrow> Some (a * 10 + int v) | _ \<Rightarrow> None)"
  by (auto simp: numeral_value_def those_append split: option.splits)

lemma digit_val_of [simp]: "d < 10 \<Longrightarrow> digit_val (char_of (48 + d)) = Some d"
  by (simp add: digit_val_def Let_def of_char_of)

declare digits.simps [simp del]

lemma digits_value: "numeral_value (digits n) = Some (int n)"
proof (induction n rule: digits.induct)
  case (1 n)
  show ?case
  proof (cases "n < 10")
    case True
    then show ?thesis by (simp add: digits.simps[of n] numeral_value_def)
  next
    case False
    have "digits n = digits (n div 10) @ [char_of (48 + n mod 10)]" using False by (subst digits.simps) simp
    moreover have "int (n div 10) * 10 + int (n mod 10) = int n" by (metis div_mult_mod_eq of_nat_add of_nat_mult of_nat_numeral)
    ultimately show ?thesis using 1 False by (simp add: numeral_value_snoc)
  qed
qed

lemma digits_ne [simp]: "digits n \<noteq> []"
  by (subst digits.simps) simp

lemma digits_chars: "c \<in> set (digits n) \<Longrightarrow> digit_val c \<noteq> None"
proof (induction n rule: digits.induct)
  case (1 n)
  then show ?case by (cases "n < 10") (auto simp: digits.simps[of n])
qed

lemma pad0_value: "numeral_value (pad0 w s) = numeral_value s"
proof -
  have "numeral_value (replicate k CHR ''0'' @ s) = numeral_value s" for k
  proof (induction k)
    case (Suc k)
    have "digit_val CHR ''0'' = Some 0" by (simp add: digit_val_def)
    with Suc show ?case by (simp add: numeral_value_def option.map_comp comp_def)
  qed simp
  then show ?thesis by (simp add: pad0_def)
qed

lemma sprintf_d_inject [simp]: "sprintf_d w m = sprintf_d w n \<longleftrightarrow> m = n"
  by (metis digits_value pad0_value sprintf_d_def of_nat_eq_iff option.inject)

lemma Atoi_Itoa:
  assumes "0 \<le> n" "n < 2 ^ 63"
  shows "Atoi (strconv_Itoa n) = Some n"
proof -
  have d: "strconv_Itoa n = digits (nat n)" using assms(1) by (simp add: strconv_Itoa_def)
  have "digit_val (hd (digits (nat n))) \<noteq> None" by (rule digits_chars[OF hd_in_set]) simp
  moreover have "digit_val CHR ''-'' = None" "digit_val CHR ''+'' = None" by (simp_all add: digit_val_def)
  ultimately have h: "hd (digits (nat n)) \<noteq> CHR ''-''" "hd (digits (nat n)) \<noteq> CHR ''+''" by metis+
  obtain vs where vs: "those (map digit_val (digits (nat n))) = Some vs" "foldl (\<lambda>a v. a * 10 + int v) 0 vs = n"
    using digits_value[of "nat n"] assms(1) by (auto simp: numeral_value_def)
  show ?thesis using assms by (simp add: Atoi_def d h vs Let_def)
qed

lemma Itoa_ne [simp]: "strconv_Itoa n \<noteq> []"
  by (simp add: strconv_Itoa_def)

lemma itoa_Itoa: "0 \<le> n \<Longrightarrow> itoa n = strconv_Itoa n"
  by (auto simp: itoa_def strconv_Itoa_def digits.simps[of 0] char_of_def bit_0)

section \<open>Path segments\<close>

text \<open>A wildcard of the mux matches one segment of the escaped path and its value is the segment unescaped; a percent sign that does not start an
  escape is left in place (the server rejects such a request before the mux sees it).\<close>

definition hex_val :: "char \<Rightarrow> nat option" where
  "hex_val c = (let n = (of_char c :: nat) in
     if 48 \<le> n \<and> n \<le> 57 then Some (n - 48) else if 65 \<le> n \<and> n \<le> 70 then Some (n - 55) else if 97 \<le> n \<and> n \<le> 102 then Some (n - 87) else None)"

fun PathUnescape :: "string \<Rightarrow> string" where
  "PathUnescape (c # a # b # rest) =
     (if c = CHR ''%'' \<and> hex_val a \<noteq> None \<and> hex_val b \<noteq> None
      then char_of (16 * the (hex_val a) + the (hex_val b)) # PathUnescape rest
      else c # PathUnescape (a # b # rest))"
| "PathUnescape s = s"

lemma PathUnescape_id: "CHR ''%'' \<notin> set s \<Longrightarrow> PathUnescape s = s"
  by (induction s rule: PathUnescape.induct) auto

lemma split_on_append: "sep \<notin> set a \<Longrightarrow> split_on sep (a @ sep # b) cur = (rev cur @ a) # split_on sep b []"
  by (induction a arbitrary: cur) auto

lemma split_on_last: "sep \<notin> set a \<Longrightarrow> split_on sep a cur = [rev cur @ a]"
  by (induction a arbitrary: cur) auto

end
