(* ===== verification/EnvOverlay.thy ===== *)
theory EnvOverlay
  imports SourceKit
begin

text \<open>
  The overlay of environment variables onto the parsed configuration tree (\<^verbatim>\<open>internal/config/config.go\<close>). The tree is the YAML library's: a mapping holds its
  keys and values in order, and a key node is its text. The code writes into the tree in place; the model returns the tree, since a failed
  overlay discards it. \<open>ParseFloat\<close> tells whether \<^verbatim>\<open>strconv.ParseFloat\<close> accepts a text, \<open>ParseDuration\<close> is the library's.
\<close>

section \<open>Durations\<close>

definition duration_Parse :: "(string \<Rightarrow> duration option) \<Rightarrow> string \<Rightarrow> duration option" where
  "duration_Parse ParseDuration s0 =
     (let s = strings_TrimSpace s0 in if s = [] then Some 0 else if s = ''0'' then Some 0 else ParseDuration s)"

section \<open>The tree\<close>

datatype ynode = YDocument "ynode list" | YMapping "(string \<times> ynode) list" | YSequence "ynode list" | YScalar string string | YAlias

definition isInt :: "string \<Rightarrow> bool" where
  "isInt v \<longleftrightarrow> Atoi v \<noteq> None"

definition isFloat :: "(string \<Rightarrow> bool) \<Rightarrow> string \<Rightarrow> bool" where
  "isFloat ParseFloat v = (if isInt v then False else ParseFloat v)"

definition scalarNode :: "(string \<Rightarrow> bool) \<Rightarrow> string \<Rightarrow> ynode" where
  "scalarNode pf v =
     YScalar (if v = ''true'' \<or> v = ''false'' then ''!!bool'' else if isInt v then ''!!int'' else if isFloat pf v then ''!!float'' else ''!!str'') v"

fun doc_depth :: "ynode \<Rightarrow> nat" where
  "doc_depth (YDocument []) = 1"
| "doc_depth (YDocument (n # ns)) = Suc (doc_depth n)"
| "doc_depth _ = 0"

text \<open>Storing under a key replaces the first entry of that key or appends one. A path is never empty; an error is the path that
  the message \<^verbatim>\<open>cannot set %q: parent is not a mapping\<close> quotes.\<close>

function setYAMLPath :: "(string \<Rightarrow> bool) \<Rightarrow> ynode \<Rightarrow> string list \<Rightarrow> string \<Rightarrow> string list + ynode" where
  "setYAMLPath pf (YDocument content) path v =
     (case content of
        [] \<Rightarrow> map_sum id (\<lambda>n. YDocument [n]) (setYAMLPath pf (YMapping []) path v)
      | n # ns \<Rightarrow> map_sum id (\<lambda>n'. YDocument (n' # ns)) (setYAMLPath pf n path v))"
| "setYAMLPath pf (YMapping kvs) path v =
     (case path of
        [] \<Rightarrow> Inl []
      | head # rest \<Rightarrow>
          (case gomap_get kvs head of
             Some child \<Rightarrow>
               if rest = [] then Inr (YMapping (gomap_put head (scalarNode pf v) kvs))
               else map_sum id (\<lambda>c. YMapping (gomap_put head c kvs)) (setYAMLPath pf child rest v)
           | None \<Rightarrow>
               if rest = [] then Inr (YMapping (gomap_put head (scalarNode pf v) kvs))
               else map_sum id (\<lambda>c. YMapping (gomap_put head c kvs)) (setYAMLPath pf (YMapping []) rest v)))"
| "setYAMLPath pf (YSequence ns) path v = Inl path"
| "setYAMLPath pf (YScalar t x) path v = Inl path"
| "setYAMLPath pf YAlias path v = Inl path"
  by pat_completeness auto
termination
  by (relation "measures [\<lambda>(pf, n, path, v). length path, \<lambda>(pf, n, path, v). doc_depth n]") auto

section \<open>The environment\<close>

definition envPrefix :: string where "envPrefix = ''BFF_''"
definition envSeparator :: string where "envSeparator = ''__''"

fun split_separator :: "string \<Rightarrow> string \<Rightarrow> string list" where
  "split_separator (a # b # s) cur = (if a = CHR ''_'' \<and> b = CHR ''_'' then rev cur # split_separator s [] else split_separator (b # s) (a # cur))"
| "split_separator [a] cur = [rev (a # cur)]"
| "split_separator [] cur = [rev cur]"

definition env_path :: "string \<Rightarrow> string list" where
  "env_path key = split_separator (strings_ToLower (drop (length envPrefix) key)) []"

text \<open>An error is the variable and the path it could not set.\<close>

fun applyEnv :: "(string \<Rightarrow> bool) \<Rightarrow> ynode \<Rightarrow> string list \<Rightarrow> (string \<times> string list) + ynode" where
  "applyEnv pf doc [] = Inr doc"
| "applyEnv pf doc (kv # environ) =
     (if CHR ''='' \<notin> set kv then applyEnv pf doc environ
      else
       let key = takeWhile (\<lambda>c. c \<noteq> CHR ''='') kv; val = tl (dropWhile (\<lambda>c. c \<noteq> CHR ''='') kv) in
       if \<not> strings_HasPrefix key envPrefix then applyEnv pf doc environ
       else let path = env_path key in
         if path = [] \<or> hd path = [] then applyEnv pf doc environ
         else (case setYAMLPath pf doc path val of
             Inl e \<Rightarrow> Inl (key, e)
           | Inr doc' \<Rightarrow> applyEnv pf doc' environ))"

definition EnvKeyFor :: "string \<Rightarrow> string" where
  "EnvKeyFor dotted = envPrefix @ strings_ToUpper (concat (map (\<lambda>c. if c = CHR ''.'' then envSeparator else [c]) dotted))"

definition SecretFromEnv :: "(string \<Rightarrow> string) \<Rightarrow> string \<Rightarrow> string" where
  "SecretFromEnv getenv name = (if name = [] then [] else getenv name)"

text \<open>The tree an empty or absent file is taken for.\<close>

definition loaded_doc :: "ynode option \<Rightarrow> ynode" where
  "loaded_doc d = (case d of None \<Rightarrow> YDocument [YMapping []] | Some n \<Rightarrow> n)"

section \<open>Lemmas\<close>

text \<open>What the tree holds at a path.\<close>

fun yget :: "ynode \<Rightarrow> string list \<Rightarrow> ynode option" where
  "yget (YDocument (n # ns)) path = yget n path"
| "yget (YDocument []) path = None"
| "yget (YMapping kvs) (k # ks) = (case gomap_get kvs k of None \<Rightarrow> None | Some c \<Rightarrow> yget c ks)"
| "yget n [] = Some n"
| "yget n (k # ks) = None"

lemma map_sum_Inr: "map_sum id f x = Inr y \<longleftrightarrow> (\<exists>m. x = Inr m \<and> y = f m)"
  by (cases x) auto

text \<open>The two ways a tree is written: through the document's first node, and under one key of a mapping.\<close>

lemma set_document_Inr:
  "setYAMLPath pf (YDocument content) path v = Inr n' \<Longrightarrow>
     \<exists>m. setYAMLPath pf (if content = [] then YMapping [] else hd content) path v = Inr m \<and> n' = YDocument (m # tl content)"
  unfolding setYAMLPath.simps(1) by (cases content) (auto simp: map_sum_Inr simp del: setYAMLPath.simps)

lemma set_mapping_Inr:
  assumes "setYAMLPath pf (YMapping kvs) path v = Inr n'"
  obtains (last) h where "path = [h]" "n' = YMapping (gomap_put h (scalarNode pf v) kvs)"
  | (deeper) h r c where "path = h # r" "r \<noteq> []"
      "setYAMLPath pf (case gomap_get kvs h of None \<Rightarrow> YMapping [] | Some child \<Rightarrow> child) r v = Inr c" "n' = YMapping (gomap_put h c kvs)"
proof (cases path)
  case Nil
  then show thesis using assms by (simp add: setYAMLPath.simps(2))
next
  case (Cons h r)
  show thesis
  proof (cases "r = []")
    case True
    then show thesis using assms last Cons by (simp add: setYAMLPath.simps(2) split: option.splits)
  next
    case False
    then have "map_sum id (\<lambda>c. YMapping (gomap_put h c kvs)) (setYAMLPath pf (case gomap_get kvs h of None \<Rightarrow> YMapping [] | Some child \<Rightarrow> child) r v) = Inr n'"
      using assms setYAMLPath.simps(2)[of pf kvs "h # r" v, unfolded list.case] False unfolding Cons by (cases "gomap_get kvs h") (simp_all del: setYAMLPath.simps)
    then show thesis using deeper[OF Cons False] by (auto simp: map_sum_Inr)
  qed
qed

declare setYAMLPath.simps(1,2) [simp del]

text \<open>One induction for both laws: over a write that succeeds.\<close>

lemma set_law:
  "setYAMLPath pf n path v = Inr n' \<Longrightarrow> yget n' path = Some (scalarNode pf v)
     \<and> (\<forall>q. \<not> prefix path q \<longrightarrow> \<not> prefix q path \<longrightarrow> yget n' q = yget n q)"
proof (induction "(length path, doc_depth n)" arbitrary: n path n' rule: wf_induct_rule[OF wf_lex_prod[OF wf_less_than wf_less_than], case_names less])
  case less
  show ?case
  proof (cases n)
    case (YDocument content)
    let ?m = "if content = [] then YMapping [] else hd content"
    obtain m where m: "setYAMLPath pf ?m path v = Inr m" "n' = YDocument (m # tl content)"
      using set_document_Inr less.prems YDocument by blast
    have "doc_depth ?m < doc_depth n" using YDocument by (cases content) auto
    then have "((length path, doc_depth ?m), (length path, doc_depth n)) \<in> less_than <*lex*> less_than" by simp
    from less.hyps[OF this m(1)]
    have ih: "yget m path = Some (scalarNode pf v)" "\<And>q. \<not> prefix path q \<Longrightarrow> \<not> prefix q path \<Longrightarrow> yget m q = yget ?m q" by blast+
    have "yget ?m q = yget n q" if "\<not> prefix q path" for q
      using that YDocument by (cases content; cases q) auto
    then show ?thesis using ih m(2) by simp
  next
    case (YMapping kvs)
    from less.prems[unfolded YMapping] show ?thesis
    proof (cases rule: set_mapping_Inr)
      case (last h)
      have "yget n' q = yget n q" if q: "\<not> prefix path q" "\<not> prefix q path" for q
      proof (cases q)
        case (Cons k ks)
        then have "k \<noteq> h" using q(1) last(1) by auto
        then show ?thesis using Cons last(2) YMapping by simp
      qed (use q in simp)
      then show ?thesis using last by (simp add: scalarNode_def)
    next
      case (deeper h r c)
      have "((length r, doc_depth (case gomap_get kvs h of None \<Rightarrow> YMapping [] | Some child \<Rightarrow> child)), (length path, doc_depth n)) \<in> less_than <*lex*> less_than"
        using deeper(1) by simp
      from less.hyps[OF this deeper(3)]
      have ih: "yget c r = Some (scalarNode pf v)"
          "\<And>q. \<not> prefix r q \<Longrightarrow> \<not> prefix q r \<Longrightarrow> yget c q = yget (case gomap_get kvs h of None \<Rightarrow> YMapping [] | Some child \<Rightarrow> child) q" by blast+
      have "yget n' q = yget n q" if q: "\<not> prefix path q" "\<not> prefix q path" for q
      proof (cases q)
        case (Cons k ks)
        show ?thesis
        proof (cases "k = h")
          case True
          then have k: "\<not> prefix r ks" "\<not> prefix ks r" using q deeper(1) Cons by auto
          obtain j js where "ks = j # js" using k(2) by (cases ks) auto
          then show ?thesis using ih(2)[OF k] True Cons deeper(4) YMapping by (simp split: option.split)
        next
          case False
          then show ?thesis using Cons deeper(4) YMapping by simp
        qed
      qed (use q in simp)
      then show ?thesis using ih(1) deeper(1,4) by simp
    qed
  qed (use less.prems in simp_all)
qed

text \<open>The segments a variable name can carry.\<close>

fun no_double :: "string \<Rightarrow> bool" where
  "no_double (a # b # s) \<longleftrightarrow> \<not> (a = CHR ''_'' \<and> b = CHR ''_'') \<and> no_double (b # s)"
| "no_double _ \<longleftrightarrow> True"

definition env_segment :: "string \<Rightarrow> bool" where
  "env_segment s \<longleftrightarrow> s \<noteq> [] \<and> last s \<noteq> CHR ''_'' \<and> no_double s \<and> list_all (\<lambda>c. char_lower c = c \<and> c \<noteq> CHR ''='' \<and> c \<noteq> CHR ''.'') s"

fun join_with :: "string \<Rightarrow> string list \<Rightarrow> string" where
  "join_with sep [] = []"
| "join_with sep [x] = x"
| "join_with sep (x # y # xs) = x @ sep @ join_with sep (y # xs)"

lemma split_segment: "s \<noteq> [] \<Longrightarrow> last s \<noteq> CHR ''_'' \<Longrightarrow> no_double s \<Longrightarrow>
    split_separator (s @ ''__'' @ rest) cur = (rev cur @ s) # split_separator rest []"
proof (induction s arbitrary: cur rule: no_double.induct)
  case (1 a b s)
  then show ?case by (auto split: if_splits)
next
  case "2_2"
  then show ?case by simp
qed simp_all

lemma split_last_segment: "s \<noteq> [] \<Longrightarrow> no_double s \<Longrightarrow> split_separator s cur = [rev cur @ s]"
  by (induction s arbitrary: cur rule: no_double.induct) auto

lemma split_join: "segs \<noteq> [] \<Longrightarrow> list_all env_segment segs \<Longrightarrow> split_separator (join_with ''__'' segs) [] = segs"
  by (induction "''__''" segs rule: join_with.induct) (auto simp: env_segment_def split_last_segment split_segment[simplified])

lemma lower_upper: "char_lower c = c \<Longrightarrow> char_lower (char_upper c) = c"
  by (cases c) (auto simp: char_lower_code char_upper_code split: if_splits)

lemma dots_to_separators:
  "list_all env_segment segs \<Longrightarrow> concat (map (\<lambda>c. if c = CHR ''.'' then envSeparator else [c]) (join_with ''.'' segs)) = join_with ''__'' segs"
proof -
  have one: "concat (map (\<lambda>c. if c = CHR ''.'' then envSeparator else [c]) s) = s" if "env_segment s" for s
  proof -
    have "list_all (\<lambda>c. c \<noteq> CHR ''.'') s" using that by (auto simp: env_segment_def list_all_iff)
    then show ?thesis by (induction s) auto
  qed
  show "list_all env_segment segs \<Longrightarrow> ?thesis"
    by (induction "''.''" segs rule: join_with.induct) (auto simp: one envSeparator_def)
qed

lemma join_chars: "c \<in> set (join_with sep segs) \<Longrightarrow> c \<in> set sep \<or> (\<exists>s \<in> set segs. c \<in> set s)"
  by (induction sep segs rule: join_with.induct) auto

lemma upper_not_equals: "char_upper c = CHR ''='' \<longleftrightarrow> c = CHR ''=''"
  by (cases c) (auto simp: char_upper_code)

lemma env_key_path:
  assumes "segs \<noteq> []" "list_all env_segment segs"
  shows "env_path (EnvKeyFor (join_with ''.'' segs)) = segs" "CHR ''='' \<notin> set (EnvKeyFor (join_with ''.'' segs))"
    "strings_HasPrefix (EnvKeyFor (join_with ''.'' segs)) envPrefix"
proof -
  let ?j = "join_with ''__'' segs"
  have k: "EnvKeyFor (join_with ''.'' segs) = envPrefix @ strings_ToUpper ?j" by (simp add: EnvKeyFor_def dots_to_separators[OF assms(2)])
  have ch: "char_lower c = c \<and> c \<noteq> CHR ''=''" if "c \<in> set ?j" for c
  proof -
    from join_chars[OF that] consider "c = CHR ''_''" | s where "s \<in> set segs" "c \<in> set s" by auto
    then show ?thesis
    proof cases
      case 1
      then show ?thesis by (simp add: char_lower_code)
    next
      case 2
      then have "env_segment s" using assms(2) by (simp add: list_all_iff)
      then show ?thesis using 2(2) by (simp add: env_segment_def list_all_iff)
    qed
  qed
  have "map (char_lower \<circ> char_upper) ?j = ?j" using ch by (intro map_idI) (simp add: lower_upper)
  then have "strings_ToLower (strings_ToUpper ?j) = ?j" by (simp add: strings_ToLower_def strings_ToUpper_def)
  then show "env_path (EnvKeyFor (join_with ''.'' segs)) = segs" by (simp add: env_path_def k split_join[OF assms])
  have "CHR ''='' \<notin> char_upper ` set ?j" using ch upper_not_equals by (metis imageE)
  then show "CHR ''='' \<notin> set (EnvKeyFor (join_with ''.'' segs))" by (simp add: k envPrefix_def strings_ToUpper_def)
  show "strings_HasPrefix (EnvKeyFor (join_with ''.'' segs)) envPrefix" by (simp add: k strings_HasPrefix_def)
qed

lemma applyEnv_one:
  assumes "segs \<noteq> []" "list_all env_segment segs"
  shows "applyEnv pf doc ((EnvKeyFor (join_with ''.'' segs) @ ''='' @ v) # environ) =
    (case setYAMLPath pf doc segs v of Inl e \<Rightarrow> Inl (EnvKeyFor (join_with ''.'' segs), e) | Inr doc' \<Rightarrow> applyEnv pf doc' environ)"
proof -
  let ?k = "EnvKeyFor (join_with ''.'' segs)"
  note e = env_key_path[OF assms]
  have "\<forall>c \<in> set ?k. c \<noteq> CHR ''=''" using e(2) by auto
  then have s: "takeWhile (\<lambda>c. c \<noteq> CHR ''='') (?k @ ''='' @ v) = ?k" "dropWhile (\<lambda>c. c \<noteq> CHR ''='') (?k @ ''='' @ v) = ''='' @ v" by simp_all
  have h: "hd segs \<noteq> []" using assms by (cases segs) (auto simp: env_segment_def)
  show ?thesis using assms(1) h e(1,3) unfolding applyEnv.simps s Let_def by simp
qed

text \<open>What a variable cannot name: a path with a capital letter in it, since names are lower-cased before they are split.\<close>

lemma lower_idem: "char_lower (char_lower c) = char_lower c"
  by (cases c) (simp add: char_lower_code)

lemma split_chars: "\<forall>s \<in> set (split_separator t cur). set s \<subseteq> set t \<union> set cur"
  by (induction t cur rule: split_separator.induct) auto

lemma env_path_lower:
  assumes "seg \<in> set (env_path k)" "c \<in> set seg"
  shows "char_lower c = c"
proof -
  have "c \<in> set (strings_ToLower (drop (length envPrefix) k))"
    using bspec[OF split_chars, of seg "strings_ToLower (drop (length envPrefix) k)" "[]"] assms unfolding env_path_def by auto
  then show ?thesis by (auto simp: strings_ToLower_def lower_idem)
qed

section \<open>Properties\<close>

text \<open>C39: An environment override sets the setting it names, and nothing else. For a dotted path of segments that a variable name can carry (lower case, no
  double or final underscore), the variable that \<open>EnvKeyFor\<close> documents either fails the start or leaves the value at that path, typed by its
  text, and every path that is neither above nor below it as it was. Keys with a capital letter (field names such as subState, mixed-case tenants)
  are not such paths: no variable names them (\<open>env_path_lower\<close>).\<close>

theorem env_override_sets_its_path:
  assumes "segs \<noteq> []" "list_all env_segment segs" "applyEnv pf doc [EnvKeyFor (join_with ''.'' segs) @ ''='' @ v] = Inr doc'"
  shows "yget doc' segs = Some (scalarNode pf v) \<and> (\<forall>q. \<not> prefix segs q \<longrightarrow> \<not> prefix q segs \<longrightarrow> yget doc' q = yget doc q)"
proof -
  have "setYAMLPath pf doc segs v = Inr doc'" using assms(3) unfolding applyEnv_one[OF assms(1,2)] by (cases "setYAMLPath pf doc segs v") simp_all
  then show ?thesis by (rule set_law)
qed

theorem env_override_sets_its_path_witness:
  "\<exists>doc'. applyEnv (\<lambda>_. False) (YDocument [YMapping [(''server'', YMapping [(''http_addr'', YScalar ''!!str'' '':1'')])]]) [''BFF_CACHE__ENABLED=false''] = Inr doc'
     \<and> yget doc' [''cache'', ''enabled''] = Some (YScalar ''!!bool'' ''false'') \<and> yget doc' [''server'', ''http_addr''] = Some (YScalar ''!!str'' '':1'')"
proof -
  let ?d = "YDocument [YMapping [(''server'', YMapping [(''http_addr'', YScalar ''!!str'' '':1'')])]]" and ?s = "[''cache'', ''enabled'']"
  have k: "EnvKeyFor (join_with ''.'' ?s) @ ''='' @ ''false'' = ''BFF_CACHE__ENABLED=false''" by code_simp
  have ok: "list_all env_segment ?s" by code_simp
  have "\<not> isl (applyEnv (\<lambda>_. False) ?d [''BFF_CACHE__ENABLED=false''])" by code_simp
  then obtain d' where d: "applyEnv (\<lambda>_. False) ?d [''BFF_CACHE__ENABLED=false''] = Inr d'" by (cases "applyEnv (\<lambda>_. False) ?d [''BFF_CACHE__ENABLED=false'']") auto
  have sc: "scalarNode (\<lambda>_. False) ''false'' = YScalar ''!!bool'' ''false''" by (simp add: scalarNode_def)
  from env_override_sets_its_path[OF _ ok, where v = "''false''", unfolded k, OF _ d] have
    "yget d' ?s = Some (YScalar ''!!bool'' ''false'')" "yget d' [''server'', ''http_addr''] = yget ?d [''server'', ''http_addr'']"
    by (simp_all add: sc)
  then show ?thesis using d by simp
qed

end
