(* ===== verification/Wiring.thy ===== *)
theory Wiring
  imports Deployment Redis AdapterProps ConfigProvider EnvOverlay Security RateLimit
begin

text \<open>
  \<^verbatim>\<open>cmd/bff/main.go\<close> and the constructors it calls: what the process builds from a configuration, in which order,
  and what it closes again. TLS material (\<^verbatim>\<open>buildCredentials\<close>, \<^verbatim>\<open>buildTLS\<close>), the options of the gRPC connection and of the
  HTTP transport, the cache backend (\<^verbatim>\<open>cache.Build\<close>), the object graph (\<^verbatim>\<open>build\<close>) and the run of the process
  (\<^verbatim>\<open>run\<close>, \<^verbatim>\<open>main\<close>). Files, the environment, dialling, certificates and signals are arguments.
\<close>

section \<open>TLS\<close>

record ('pool, 'cert) TlsClient =
  tc_MinVersion :: int
  tc_ServerName :: string
  tc_InsecureSkipVerify :: bool
  tc_RootCAs :: "'pool option"
  tc_Certificates :: "'cert list"

text \<open>\<open>fl_Pool\<close> is \<^verbatim>\<open>AppendCertsFromPEM\<close> on an empty pool.\<close>

record ('pool, 'cert) Files =
  fl_ReadFile :: "string \<Rightarrow> string + string"
  fl_Pool :: "string \<Rightarrow> 'pool option"
  fl_LoadX509KeyPair :: "string \<Rightarrow> string \<Rightarrow> string + 'cert"

definition tls_roots :: "string \<Rightarrow> ('pool, 'cert) Files \<Rightarrow> TLSConfig \<Rightarrow> string + 'pool option" where
  "tls_roots src fl cfg =
     (if tls_CAFile cfg = [] then Inr None
      else case fl_ReadFile fl (tls_CAFile cfg) of
        Inl e \<Rightarrow> Inl (src @ '': read CA file: '' @ e)
      | Inr pem \<Rightarrow> (case fl_Pool fl pem of
            None \<Rightarrow> Inl (src @ '': CA file contains no usable certificates'')
          | Some pool \<Rightarrow> Inr (Some pool)))"

definition tls_certificates :: "string \<Rightarrow> ('pool, 'cert) Files \<Rightarrow> TLSConfig \<Rightarrow> string + 'cert list" where
  "tls_certificates src fl cfg =
     (if tls_CertFile cfg \<noteq> [] \<and> tls_KeyFile cfg \<noteq> [] then
        (case fl_LoadX509KeyPair fl (tls_CertFile cfg) (tls_KeyFile cfg) of
           Inl e \<Rightarrow> Inl (src @ '': load client certificate: '' @ e)
         | Inr cert \<Rightarrow> Inr [cert])
      else Inr [])"

definition tls_client :: "string \<Rightarrow> ('pool, 'cert) Files \<Rightarrow> TLSConfig \<Rightarrow> string + ('pool, 'cert) TlsClient" where
  "tls_client src fl cfg =
     (case tls_roots src fl cfg of Inl e \<Rightarrow> Inl e
      | Inr roots \<Rightarrow> (case tls_certificates src fl cfg of Inl e \<Rightarrow> Inl e
          | Inr certs \<Rightarrow> Inr \<lparr>tc_MinVersion = 0x0303, tc_ServerName = tls_ServerName cfg,
              tc_InsecureSkipVerify = tls_InsecureSkipVerify cfg, tc_RootCAs = roots, tc_Certificates = certs\<rparr>))"

text \<open>\<open>None\<close> stands for \<^verbatim>\<open>insecure.NewCredentials()\<close>, a connection in the clear.\<close>

definition buildCredentials :: "('pool, 'cert) Files \<Rightarrow> TLSConfig \<Rightarrow> string + ('pool, 'cert) TlsClient option" where
  "buildCredentials fl cfg =
     (if \<not> tls_Enabled cfg then Inr None
      else case tls_client ''operational'' fl cfg of Inl e \<Rightarrow> Inl e | Inr tc \<Rightarrow> Inr (Some tc))"

definition buildTLS :: "('pool, 'cert) Files \<Rightarrow> TLSConfig \<Rightarrow> string + ('pool, 'cert) TlsClient" where
  "buildTLS fl cfg = tls_client ''execution'' fl cfg"

section \<open>The adapters\<close>

record ('pool, 'cert) DialOptions =
  do_Credentials :: "('pool, 'cert) TlsClient option"
  do_KeepaliveTime :: duration
  do_KeepaliveTimeout :: duration
  do_PermitWithoutStream :: bool
  do_MaxCallRecvMsgSize :: int
  do_DefaultServiceConfig :: "string option"

definition round_robin :: string where
  "round_robin = ''{\"loadBalancingConfig\":[{\"round_robin\":{}}]}''"

definition dial_options :: "('pool, 'cert) TlsClient option \<Rightarrow> OperationalSourceConfig \<Rightarrow> ('pool, 'cert) DialOptions" where
  "dial_options creds cfg =
     \<lparr>do_Credentials = creds, do_KeepaliveTime = ops_KeepaliveTime cfg, do_KeepaliveTimeout = ops_KeepaliveTimeout cfg,
      do_PermitWithoutStream = True, do_MaxCallRecvMsgSize = ops_MaxRecvMsgBytes cfg,
      do_DefaultServiceConfig = if ops_UseRoundRobin cfg then Some round_robin else None\<rparr>"

text \<open>\<open>newClient\<close> is \<^verbatim>\<open>grpc.NewClient\<close>: an error or the connection, here its address and options.\<close>

definition operational_New ::
  "(string \<Rightarrow> ('pool, 'cert) DialOptions \<Rightarrow> string + 'conn) \<Rightarrow> ('pool, 'cert) Files \<Rightarrow> OperationalSourceConfig \<Rightarrow> Executor
     \<Rightarrow> string list option \<Rightarrow> string + 'conn \<times> OpsAdapter" where
  "operational_New newClient fl cfg exec accepted =
     (case buildCredentials fl (sc_TLS (ops_Common cfg)) of Inl e \<Rightarrow> Inl e
      | Inr creds \<Rightarrow> (case newClient (ops_Addr cfg) (dial_options creds cfg) of
            Inl e \<Rightarrow> Inl (''operational: dial '' @ ops_Addr cfg @ '': '' @ e)
          | Inr conn \<Rightarrow> Inr (conn, \<lparr>oa_exec = exec, oa_accepted = accepted, oa_cfg = cfg, oa_lastErr = None\<rparr>)))"

record ('pool, 'cert) Transport =
  tr_DialTimeout :: duration
  tr_KeepAlive :: duration
  tr_MaxIdleConns :: int
  tr_MaxIdleConnsPerHost :: int
  tr_MaxConnsPerHost :: int
  tr_IdleConnTimeout :: duration
  tr_TLSHandshakeTimeout :: duration
  tr_ForceAttemptHTTP2 :: bool
  tr_TLSClientConfig :: "('pool, 'cert) TlsClient option"

definition plain_transport :: "ExecutionSourceConfig \<Rightarrow> ('pool, 'cert) Transport" where
  "plain_transport cfg =
     \<lparr>tr_DialTimeout = sc_CallTimeout (exs_Common cfg), tr_KeepAlive = 30 * second, tr_MaxIdleConns = exs_MaxIdleConns cfg,
      tr_MaxIdleConnsPerHost = exs_MaxIdleConnsPerHost cfg, tr_MaxConnsPerHost = wrap64 (exs_MaxIdleConnsPerHost cfg * 2),
      tr_IdleConnTimeout = exs_IdleConnTimeout cfg, tr_TLSHandshakeTimeout = 5 * second, tr_ForceAttemptHTTP2 = True,
      tr_TLSClientConfig = None\<rparr>"

text \<open>\<open>parseURL\<close> is \<^verbatim>\<open>url.Parse\<close>, of which the adapter keeps the path.\<close>

definition execution_New ::
  "(string \<Rightarrow> string + string) \<Rightarrow> ('pool, 'cert) Files \<Rightarrow> ExecutionSourceConfig \<Rightarrow> Executor \<Rightarrow> string list option
     \<Rightarrow> string + ('pool, 'cert) Transport \<times> EdsAdapter" where
  "execution_New parseURL fl cfg exec accepted =
     (case parseURL (exs_BaseURL cfg) of
        Inl e \<Rightarrow> Inl (''execution: parse base_url: '' @ e)
      | Inr base \<Rightarrow>
          (let tls = sc_TLS (exs_Common cfg);
               adapter = \<lparr>xa_basePath = base, xa_exec = exec, xa_accepted = accepted, xa_cfg = cfg, xa_lastErr = None, xa_droppedRecords = 0\<rparr>
           in if \<not> tls_Enabled tls then Inr (plain_transport cfg, adapter)
              else case buildTLS fl tls of Inl e \<Rightarrow> Inl e
                | Inr tc \<Rightarrow> Inr ((plain_transport cfg)\<lparr>tr_TLSClientConfig := Some tc\<rparr>, adapter)))"

section \<open>The cache backend\<close>

type_synonym redis_handle = "RedisOptions \<times> duration"

datatype 'p Backend = NoBackend | MemoryBackend "'p Memory" | RedisBackend redis_handle | LayeredBackend "'p Memory" redis_handle duration

definition cache_Build :: "(string \<Rightarrow> string) \<Rightarrow> CacheConfig \<Rightarrow> string + 'p Backend" where
  "cache_Build getenv cfg =
     (if \<not> cc_Enabled cfg \<or> cc_Backend cfg = ''none'' then Inr NoBackend
      else if cc_Backend cfg = ''memory'' then Inr (MemoryBackend (NewMemory (l1_MaxEntries (cc_L1 cfg))))
      else if cc_Backend cfg = ''redis'' then Inr (RedisBackend (NewRedis getenv (cc_Redis cfg)))
      else if cc_Backend cfg = ''layered'' then
        Inr (LayeredBackend (NewMemory (l1_MaxEntries (cc_L1 cfg))) (NewRedis getenv (cc_Redis cfg)) (l1_TTL (cc_L1 cfg)))
      else Inl (''cache: unknown backend '' @ cc_Backend cfg))"

section \<open>The object graph\<close>

text \<open>What the constructors read from the world. \<open>wo_now n\<close> is the \<open>n\<close>-th reading of the clock.\<close>

record ('pool, 'cert, 'conn) World =
  wo_getenv :: "string \<Rightarrow> string"
  wo_files :: "('pool, 'cert) Files"
  wo_newClient :: "string \<Rightarrow> ('pool, 'cert) DialOptions \<Rightarrow> string + 'conn"
  wo_parseURL :: "string \<Rightarrow> string + string"
  wo_now :: "nat \<Rightarrow> time"

record ('pool, 'cert, 'conn, 'p, 'l) Components =
  co_ops :: "'conn \<times> OpsAdapter"
  co_eds :: "('pool, 'cert) Transport \<times> EdsAdapter"
  co_backend :: "'p Backend"
  co_catalog :: FieldCatalog
  co_precedence :: SourcePrecedencePolicy
  co_freshness :: FreshnessEval.Manager
  co_auth :: Authenticator
  co_limiter :: "'l RateLimiter"

datatype handle = HOperational | HExecution | HCache
datatype event = Opened handle | Closed handle

definition backend_events :: "(handle \<Rightarrow> event) \<Rightarrow> 'p Backend \<Rightarrow> event list" where
  "backend_events ev b = (case b of NoBackend \<Rightarrow> [] | _ \<Rightarrow> [ev HCache])"

definition cleanup :: "'p Backend \<Rightarrow> event list" where
  "cleanup b = [Closed HOperational, Closed HExecution] @ backend_events Closed b"

text \<open>The components with what the cleanup function will close, or the error; and the events up to the return.\<close>

definition build ::
  "('pool, 'cert, 'conn) World \<Rightarrow> Config
     \<Rightarrow> (string + ('pool, 'cert, 'conn, 'p, 'l) Components \<times> event list) \<times> event list" where
  "build w cfg =
     (let ops_cfg = src_Operational (cfg_Sources cfg); eds_cfg = src_Execution (cfg_Sources cfg);
          opsExec = NewExecutor ''OPERATIONAL'' (ops_Common ops_cfg) (wo_now w 0);
          edsExec = NewExecutor ''EXECUTION'' (exs_Common eds_cfg) (wo_now w 1)
      in case operational_New (wo_newClient w) (wo_files w) ops_cfg opsExec (accepted_versions (sc_AcceptedSchemaVersions (ops_Common ops_cfg))) of
        Inl e \<Rightarrow> (Inl (''operational adapter: '' @ e), [])
      | Inr ops \<Rightarrow>
     (case execution_New (wo_parseURL w) (wo_files w) eds_cfg edsExec (accepted_versions (sc_AcceptedSchemaVersions (exs_Common eds_cfg))) of
        Inl e \<Rightarrow> (Inl (''execution adapter: '' @ e), [Opened HOperational, Closed HOperational])
      | Inr eds \<Rightarrow>
     (case cache_Build (wo_getenv w) (cfg_Cache cfg) of
        Inl e \<Rightarrow> (Inl (''cache: '' @ e), [Opened HOperational, Opened HExecution, Closed HOperational, Closed HExecution])
      | Inr backend \<Rightarrow>
     (let opened = [Opened HOperational, Opened HExecution] @ backend_events Opened backend
      in case buildAuthenticator (cfg_Security cfg) (SecretFromEnv (wo_getenv w) (jwt_HS256SecretEnv (sec_JWT (cfg_Security cfg)))) of
        Inl e \<Rightarrow> (Inl e, opened @ [Closed HOperational, Closed HExecution])
      | Inr auth \<Rightarrow>
          (Inr (\<lparr>co_ops = ops, co_eds = eds, co_backend = backend, co_catalog = NewFieldCatalog (cfg_Precedence cfg),
                 co_precedence = NewPrecedence (cfg_Precedence cfg),
                 co_freshness = FreshnessEval.NewManager True (df_ProbeCacheTTL (rc_Defaults (cfg_Routing cfg))), co_auth = auth,
                 co_limiter = NewRateLimiter (sec_RateLimit (cfg_Security cfg)) (wo_now w 2)\<rparr>, cleanup backend), opened)))))"

section \<open>The process\<close>

definition NewProvider :: "Config \<Rightarrow> Provider" where
  "NewProvider cfg = \<lparr>pv_current = cfg, pv_path = [], pv_lastHash = [], pv_reloads = 0, pv_failures = 0\<rparr>"

definition newConfigProvider :: "(string \<Rightarrow> load_error + Config) \<Rightarrow> (string \<Rightarrow> string) \<Rightarrow> string \<Rightarrow> load_error + Provider" where
  "newConfigProvider ld hashFile path =
     (if path = [] then (case ld [] of Inl e \<Rightarrow> Inl e | Inr cfg \<Rightarrow> Inr (NewProvider cfg))
      else NewFileProvider ld hashFile path)"

text \<open>\<^verbatim>\<open>Watch\<close> ticks only for a provider with a path and a positive interval; \<open>ticks\<close> is what the world holds at each tick before the
  context ends: the decoder's answer, the environment and the file's hash.\<close>

type_synonym tick = "(string \<Rightarrow> string list \<Rightarrow> Config \<Rightarrow> string + Config) \<times> string list \<times> (string \<Rightarrow> string)"

definition tick_op :: "tick \<Rightarrow> provider_op" where
  "tick_op t = (case t of (decode, environ, hashFile) \<Rightarrow> OpTick decode environ hashFile)"

definition Watch :: "duration \<Rightarrow> tick list \<Rightarrow> Provider \<Rightarrow> Provider" where
  "Watch interval ticks p = (if pv_path p = [] \<or> interval \<le> 0 then p else fold (\<lambda>t. provider_step (tick_op t)) ticks p)"

record RunFlags =
  fg_config :: string
  fg_printConfig :: bool
  fg_validate :: bool
  fg_version :: bool

text \<open>How the outside answers one run: the encoder of the printed configuration, the telemetry exporters, and whether a listener
  failed (\<open>None\<close>: a signal ended the run).\<close>

record RunWorld =
  rn_load :: "string \<Rightarrow> load_error + Config"
  rn_hash :: "string \<Rightarrow> string"
  rn_encode :: "Config \<Rightarrow> string option"
  rn_telemetry :: "string option"
  rn_listener :: "string option"

datatype action = PrintedVersion | PrintedValid | PrintedConfig Config | TelemetryUp | TelemetryDown | Handle event
  | Listening Config | ServerReady | ListenerFailed string | Drained

datatype fatal = FatalConfig load_error | FatalText string

definition printEffectiveConfig :: "(Config \<Rightarrow> string option) \<Rightarrow> Config \<Rightarrow> action list \<times> fatal option" where
  "printEffectiveConfig enc cfg =
     (let redacted = Redacted cfg in
      case enc redacted of None \<Rightarrow> ([PrintedConfig redacted], None)
      | Some e \<Rightarrow> ([], Some (FatalText (''printing configuration: '' @ e))))"

text \<open>The deferred calls run last to first: the cleanup, then the telemetry. The watcher runs beside the listeners.\<close>

definition run_process :: "('pool, 'cert, 'conn) World \<Rightarrow> RunWorld \<Rightarrow> RunFlags \<Rightarrow> action list \<times> fatal option" where
  "run_process w rw fg =
     (if fg_version fg then ([PrintedVersion], None)
      else case newConfigProvider (rn_load rw) (rn_hash rw) (fg_config fg) of
        Inl e \<Rightarrow> ([], Some (FatalConfig e))
      | Inr provider \<Rightarrow>
     (let cfg = pv_current provider in
      if fg_validate fg then ([PrintedValid], None)
      else if fg_printConfig fg then printEffectiveConfig (rn_encode rw) cfg
      else case rn_telemetry rw of
        Some e \<Rightarrow> ([], Some (FatalText (''observability: '' @ e)))
      | None \<Rightarrow>
     (case build w cfg :: (string + ('pool, 'cert, 'conn, unit, unit) Components \<times> event list) \<times> event list of
        (Inl e, evs) \<Rightarrow> (TelemetryUp # map Handle evs @ [TelemetryDown], Some (FatalText e))
      | (Inr (co, closing), evs) \<Rightarrow>
          (TelemetryUp # map Handle evs @ [Listening cfg, ServerReady]
             @ (case rn_listener rw of None \<Rightarrow> [] | Some e \<Rightarrow> [ListenerFailed e])
             @ [Drained] @ map Handle closing @ [TelemetryDown], None))))"

definition exit_code :: "fatal option \<Rightarrow> int" where
  "exit_code r = (case r of None \<Rightarrow> 0 | Some _ \<Rightarrow> 1)"

text \<open>Build metadata of a binary built without linker flags: the settings of the debug information, in order.\<close>

definition build_metadata :: "(string \<times> string) list option \<Rightarrow> string \<times> string \<Rightarrow> string \<times> string" where
  "build_metadata info m =
     (if fst m \<noteq> ''none'' then m
      else case info of None \<Rightarrow> m
      | Some settings \<Rightarrow> fold (\<lambda>(k, v) (c, d). if k = ''vcs.revision'' then (v, d) else if k = ''vcs.time'' then (c, v) else (c, d)) settings m)"

section \<open>Lemmas\<close>

lemma validated_backend_builds:
  assumes "Validate cfg = []"
  shows "\<not> isl (cache_Build getenv (cfg_Cache cfg))"
  using assms by (auto simp: cache_Build_def Validate_def validateCache_def bad_if_def Let_def split: if_splits)

text \<open>A reload can only happen to a provider with a file, and what a watched provider serves stays valid.\<close>

lemma newConfigProvider_valid:
  assumes "newConfigProvider (\<lambda>q. load decode q environ) h path = Inr p"
  shows "Validate (pv_current (Watch interval ticks p)) = []"
proof -
  have "provider_ok p" using assms
    by (auto simp: newConfigProvider_def NewProvider_def provider_ok_def load_validates split: if_splits sum.splits dest: NewFileProvider_ok)
  then have "provider_ok (fold provider_step (map tick_op ticks) p)" by (rule provider.run_inv)
  then show ?thesis using \<open>provider_ok p\<close> by (simp add: Watch_def provider_ok_def fold_map comp_def)
qed

text \<open>What a log of events leaves open, oldest first.\<close>

fun still_open :: "event list \<Rightarrow> handle list \<Rightarrow> handle list" where
  "still_open [] hs = hs"
| "still_open (Opened h # evs) hs = still_open evs (hs @ [h])"
| "still_open (Closed h # evs) hs = still_open evs (filter (\<lambda>x. x \<noteq> h) hs)"

lemma build_success:
  assumes "build w cfg = (Inr (co, closing), evs)"
  shows "closing = cleanup (co_backend co) \<and> evs = [Opened HOperational, Opened HExecution] @ backend_events Opened (co_backend co)
    \<and> cache_Build (wo_getenv w) (cfg_Cache cfg) = Inr (co_backend co) \<and> oa_cfg (snd (co_ops co)) = src_Operational (cfg_Sources cfg)
    \<and> xa_cfg (snd (co_eds co)) = src_Execution (cfg_Sources cfg)"
  using assms by (auto simp: build_def Let_def operational_New_def execution_New_def split: sum.splits if_splits)

text \<open>The parts are those the wired service is made of.\<close>

lemma wired_parts:
  assumes "build w cfg = (Inr (co, closing), evs)" "rt_catalog R = co_catalog co"
  shows "sv_prec (wired R cfg hash) = co_precedence co" "sv_catalog (wired R cfg hash) = Some (co_catalog co)"
  using assms by (auto simp: build_def Let_def wired_def split: sum.splits if_splits)

text \<open>A run that got as far as serving: the configuration is valid, the listeners stop before the sources close, the telemetry goes last,
  and the exit code is zero even if a listener failed.\<close>

lemma serving_run:
  assumes "run_process w rw fg = (acts, r)" "Listening cfg \<in> set acts" "rn_load rw = (\<lambda>q. load decode q environ)"
  shows "Validate cfg = []" and "exit_code r = 0" and "last acts = TelemetryDown"
    and "\<exists>pre closing. acts = pre @ Drained # map Handle closing @ [TelemetryDown] \<and> (\<forall>h. Handle (Closed h) \<notin> set pre)"
proof -
  obtain p where p: "newConfigProvider (rn_load rw) (rn_hash rw) (fg_config fg) = Inr p" "\<not> fg_version fg" "\<not> fg_validate fg" "\<not> fg_printConfig fg"
      "rn_telemetry rw = None"
    using assms(1,2) by (auto simp: run_process_def Let_def printEffectiveConfig_def split: if_splits sum.splits option.splits)
  obtain b evs where b: "(build w (pv_current p) :: (string + ('a, 'b, 'c, unit, unit) Components \<times> event list) \<times> event list) = (b, evs)" by force
  obtain co closing where c: "b = Inr (co, closing)"
    using assms(1,2) p b by (cases b) (auto simp: run_process_def Let_def)
  have acts: "acts = TelemetryUp # map Handle evs @ [Listening (pv_current p), ServerReady]
      @ (case rn_listener rw of None \<Rightarrow> [] | Some e \<Rightarrow> [ListenerFailed e]) @ [Drained] @ map Handle closing @ [TelemetryDown]" "r = None"
    using assms(1) p b c by (auto simp: run_process_def Let_def)
  have "cfg = pv_current p" using assms(2) by (auto simp: acts split: option.splits)
  moreover have "Validate (pv_current p) = []" using newConfigProvider_valid[where interval = 0 and ticks = "[]"] p(1) assms(3) by (auto simp: Watch_def)
  ultimately show "Validate cfg = []" by simp
  show "exit_code r = 0" "last acts = TelemetryDown" by (simp_all add: acts exit_code_def)
  have "evs = [Opened HOperational, Opened HExecution] @ backend_events Opened (co_backend co)" using build_success[of w _ co closing evs] b c by simp
  then have "\<forall>h. Handle (Closed h) \<notin> set (TelemetryUp # map Handle evs @ [Listening (pv_current p), ServerReady]
      @ (case rn_listener rw of None \<Rightarrow> [] | Some e \<Rightarrow> [ListenerFailed e]))"
    by (auto simp: backend_events_def split: option.splits Backend.splits)
  then show "\<exists>pre closing. acts = pre @ Drained # map Handle closing @ [TelemetryDown] \<and> (\<forall>h. Handle (Closed h) \<notin> set pre)"
    by (intro exI[of _ "TelemetryUp # map Handle evs @ [Listening (pv_current p), ServerReady] @ (case rn_listener rw of None \<Rightarrow> [] | Some e \<Rightarrow> [ListenerFailed e])"]
        exI[of _ closing]) (simp add: acts)
qed

text \<open>The same configuration with every TLS connection told not to verify its peer.\<close>

definition skip_tls :: TLSConfig where
  "skip_tls = zero_TLSConfig\<lparr>tls_Enabled := True, tls_InsecureSkipVerify := True\<rparr>"

definition skip_verify :: "Config \<Rightarrow> Config" where
  "skip_verify cfg =
     (let src = cfg_Sources cfg; o' = src_Operational src; e = src_Execution src; c = cfg_Cache cfg in
      cfg\<lparr>cfg_Sources := \<lparr>src_Operational = o'\<lparr>ops_Common := (ops_Common o')\<lparr>sc_TLS := skip_tls\<rparr>\<rparr>,
            src_Execution = e\<lparr>exs_Common := (exs_Common e)\<lparr>sc_TLS := skip_tls\<rparr>\<rparr>\<rparr>,
          cfg_Cache := c\<lparr>cc_Redis := (cc_Redis c)\<lparr>rds_TLS := skip_tls\<rparr>\<rparr>\<rparr>)"

lemma Validate_ignores_tls: "Validate (skip_verify cfg) = Validate cfg"
proof -
  have "validateServer (skip_verify cfg) = validateServer cfg" "validateSecurity (skip_verify cfg) = validateSecurity cfg"
    "validateRouting (skip_verify cfg) = validateRouting cfg" "validatePrecedence (skip_verify cfg) = validatePrecedence cfg"
    "validateTenants (skip_verify cfg) = validateTenants cfg" "validateObservability (skip_verify cfg) = validateObservability cfg"
    "validateCache (skip_verify cfg) = validateCache cfg"
    by (simp_all add: skip_verify_def Let_def validateServer_def validateSecurity_def validateRouting_def validatePrecedence_def validateTenants_def
        validateObservability_def validateCache_def cong del: option.case_cong_weak prod.case_cong_weak)
  moreover have "validateSources (skip_verify cfg) = validateSources cfg"
    by (simp add: skip_verify_def Let_def validateSources_def validateSourceCommon_def)
  ultimately show ?thesis by (simp add: Validate_def)
qed

section \<open>Properties\<close>

text \<open>Nothing stays open but one. When the start-up fails, the adapters opened so far are closed again, and the cache backend stays
  open exactly if it was opened, that is when the authenticator is what failed; when it succeeds, the cleanup function
  closes everything that was opened.\<close>

theorem build_closes_what_it_opens:
  "case build w cfg :: (string + ('pool, 'cert, 'conn, 'p, 'l) Components \<times> event list) \<times> event list of
     (Inr (co, closing), evs) \<Rightarrow> still_open (evs @ closing) [] = []
   | (Inl e, evs) \<Rightarrow> still_open evs [] = (if Opened HCache \<in> set evs then [HCache] else [])"
  by (auto simp: build_def Let_def cleanup_def backend_events_def split: sum.splits Backend.splits)

text \<open>Certificate checks can be switched off in any environment. Of every configuration that passes validation, the variant whose three TLS
  connections skip the verification of the peer passes it too, and the credentials, the transport and the Redis client built from it
  accept any certificate.\<close>

theorem unverified_tls_passes_validation:
  assumes "Validate cfg = []"
  shows "Validate (skip_verify cfg) = []
    \<and> (\<exists>tc. buildCredentials fl (sc_TLS (ops_Common (src_Operational (cfg_Sources (skip_verify cfg))))) = Inr (Some tc) \<and> tc_InsecureSkipVerify tc)
    \<and> (\<exists>tc. buildTLS fl (sc_TLS (exs_Common (src_Execution (cfg_Sources (skip_verify cfg))))) = Inr tc \<and> tc_InsecureSkipVerify tc)
    \<and> ro_TLS (fst (NewRedis getenv (cc_Redis (cfg_Cache (skip_verify cfg))))) = Some (True, [])"
  using assms
  by (simp add: Validate_ignores_tls)
    (simp add: skip_verify_def skip_tls_def zero_TLSConfig_def Let_def buildCredentials_def buildTLS_def tls_client_def tls_roots_def tls_certificates_def NewRedis_def)

theorem unverified_tls_passes_validation_witness:
  "Validate (skip_verify Default) = []"
  using unverified_tls_passes_validation[OF Default_validates] by blast

end
