(* ===== verification/Exposition.thy ===== *)
theory Exposition
  imports GoTime "HOL-Library.Word" "HOL-Library.List_Lexorder" "HOL-Library.Multiset"
begin

text \<open>
  \<^verbatim>\<open>internal/observability/prometheus.go\<close>: the text encoder of the metrics endpoint. What the metrics library collected is an argument: scopes of metrics
  with their data points, an attribute set as the list of its keys and rendered values. \<open>fmt\<close> is \<^verbatim>\<open>strconv.FormatFloat\<close> on finite numbers. Names are
  ASCII, as all names of the program are. A reader of the format, written from its description, is the reference the encoder is proved
  against: what it reads back from a block of labels is the labels.
\<close>

section \<open>Collected metrics\<close>

datatype fval = Fin rat | PosInf | NegInf | NotANumber

type_synonym attrs = "(string \<times> string) list"

record 'v histogram_point =
  hp_Attributes :: attrs
  hp_Bounds :: "fval list"
  hp_BucketCounts :: "64 word list"
  hp_Count :: "64 word"
  hp_Sum :: 'v

datatype metric_data = SumInt bool "(attrs \<times> int) list" | SumFloat bool "(attrs \<times> fval) list" | GaugeInt "(attrs \<times> int) list"
  | GaugeFloat "(attrs \<times> fval) list" | HistFloat "fval histogram_point list" | HistInt "int histogram_point list" | OtherData

record collected_metric =
  cm_Name :: string
  cm_Description :: string
  cm_Data :: metric_data

section \<open>Names, values and escapes\<close>

abbreviation lf_char :: char where "lf_char \<equiv> CHR 0x0A"
abbreviation quote_char :: char where "quote_char \<equiv> CHR 0x22"
abbreviation bs_char :: char where "bs_char \<equiv> CHR 0x5C"

definition ascii_letter :: "char \<Rightarrow> bool" where
  "ascii_letter c = (let n = (of_char c :: nat) in 65 \<le> n \<and> n \<le> 90 \<or> 97 \<le> n \<and> n \<le> 122)"

definition ascii_digit :: "char \<Rightarrow> bool" where
  "ascii_digit c = (let n = (of_char c :: nat) in 48 \<le> n \<and> n \<le> 57)"

definition sanitize :: "string \<Rightarrow> bool \<Rightarrow> string" where
  "sanitize s allowColon = map (\<lambda>(i, r).
     if ascii_letter r \<or> r = CHR ''_'' then r
     else if allowColon \<and> r = CHR '':'' then r
     else if ascii_digit r \<and> i > 0 then r
     else CHR ''_'') (List.enumerate 0 s)"

definition sanitizeMetricName :: "string \<Rightarrow> string" where "sanitizeMetricName s = sanitize s True"
definition sanitizeLabelName :: "string \<Rightarrow> string" where "sanitizeLabelName s = sanitize s False"

definition replace_char :: "char \<Rightarrow> string \<Rightarrow> string \<Rightarrow> string" where
  "replace_char c r s = concat (map (\<lambda>x. if x = c then r else [x]) s)"

definition escapeHelp :: "string \<Rightarrow> string" where
  "escapeHelp s = replace_char lf_char [bs_char, CHR ''n''] (replace_char bs_char [bs_char, bs_char] s)"

definition escapeLabelValue :: "string \<Rightarrow> string" where
  "escapeLabelValue s = replace_char lf_char [bs_char, CHR ''n''] (replace_char quote_char [bs_char, quote_char] (replace_char bs_char [bs_char, bs_char] s))"

definition formatFloat :: "(rat \<Rightarrow> string) \<Rightarrow> fval \<Rightarrow> string" where
  "formatFloat fmt f = (case f of PosInf \<Rightarrow> ''+Inf'' | NegInf \<Rightarrow> ''-Inf'' | NotANumber \<Rightarrow> ''NaN'' | Fin q \<Rightarrow> fmt q)"

definition of_count :: "64 word \<Rightarrow> fval" where "of_count n = Fin (f64_of_int (uint n))"

section \<open>Samples\<close>

text \<open>The pairs of a sample, in the order of their names; the library's sort leaves the order of equal names open.\<close>

definition label_pairs :: "attrs \<Rightarrow> string \<Rightarrow> string \<Rightarrow> (string \<times> string) list" where
  "label_pairs attrs extraKey extraVal =
     sort_key fst (map (\<lambda>(k, v). (sanitizeLabelName k, v)) attrs @ (if extraKey \<noteq> [] then [(extraKey, extraVal)] else []))"

definition render_pair :: "string \<times> string \<Rightarrow> string" where
  "render_pair p = fst p @ [CHR ''='', quote_char] @ escapeLabelValue (snd p) @ [quote_char]"

fun join_comma :: "string list \<Rightarrow> string" where
  "join_comma [] = []"
| "join_comma [x] = x"
| "join_comma (x # xs) = x @ '','' @ join_comma xs"

definition renderLabels :: "attrs \<Rightarrow> string \<Rightarrow> string \<Rightarrow> string" where
  "renderLabels attrs extraKey extraVal =
     (let pairs = label_pairs attrs extraKey extraVal
      in if pairs = [] then [] else ''{'' @ join_comma (map render_pair pairs) @ ''}'')"

definition writeSampleWithExtra :: "(rat \<Rightarrow> string) \<Rightarrow> string \<Rightarrow> attrs \<Rightarrow> string \<Rightarrow> string \<Rightarrow> fval \<Rightarrow> string" where
  "writeSampleWithExtra fmt name attrs extraKey extraVal v = name @ renderLabels attrs extraKey extraVal @ '' '' @ formatFloat fmt v @ [lf_char]"

definition writeSample :: "(rat \<Rightarrow> string) \<Rightarrow> string \<Rightarrow> attrs \<Rightarrow> fval \<Rightarrow> string" where
  "writeSample fmt name attrs v = writeSampleWithExtra fmt name attrs [] [] v"

text \<open>The bucket loop with its running total; \<open>None\<close> is the panic on a missing count.\<close>

fun bucket_loop :: "(rat \<Rightarrow> string) \<Rightarrow> string \<Rightarrow> attrs \<Rightarrow> fval list \<Rightarrow> 64 word list \<Rightarrow> 64 word \<Rightarrow> string option" where
  "bucket_loop fmt name attrs [] counts cumulative = Some []"
| "bucket_loop fmt name attrs (b # bs) [] cumulative = None"
| "bucket_loop fmt name attrs (b # bs) (n # counts) cumulative =
     map_option ((@) (writeSampleWithExtra fmt (name @ ''_bucket'') attrs ''le'' (formatFloat fmt b) (of_count (cumulative + n))))
       (bucket_loop fmt name attrs bs counts (cumulative + n))"

definition writeHistogram :: "(rat \<Rightarrow> string) \<Rightarrow> ('v \<Rightarrow> fval) \<Rightarrow> string \<Rightarrow> 'v histogram_point \<Rightarrow> string option" where
  "writeHistogram fmt conv name dp =
     map_option (\<lambda>buckets. buckets
         @ writeSampleWithExtra fmt (name @ ''_bucket'') (hp_Attributes dp) ''le'' ''+Inf'' (of_count (hp_Count dp))
         @ writeSample fmt (name @ ''_sum'') (hp_Attributes dp) (conv (hp_Sum dp))
         @ writeSample fmt (name @ ''_count'') (hp_Attributes dp) (of_count (hp_Count dp)))
       (bucket_loop fmt name (hp_Attributes dp) (hp_Bounds dp) (hp_BucketCounts dp) 0)"

definition sumType :: "bool \<Rightarrow> string" where
  "sumType monotonic = (if monotonic then ''counter'' else ''gauge'')"

definition of_int64 :: "int \<Rightarrow> fval" where "of_int64 n = Fin (f64_of_int n)"

definition type_line :: "string \<Rightarrow> string \<Rightarrow> string" where
  "type_line name ty = ''# TYPE '' @ name @ '' '' @ ty @ [lf_char]"

definition concat_options :: "string option list \<Rightarrow> string option" where
  "concat_options xs = map_option concat (those xs)"

definition write_data :: "(rat \<Rightarrow> string) \<Rightarrow> string \<Rightarrow> metric_data \<Rightarrow> string option" where
  "write_data fmt name d =
     (case d of
        SumInt m dps \<Rightarrow> Some (type_line name (sumType m) @ concat (map (\<lambda>(a, v). writeSample fmt name a (of_int64 v)) dps))
      | SumFloat m dps \<Rightarrow> Some (type_line name (sumType m) @ concat (map (\<lambda>(a, v). writeSample fmt name a v) dps))
      | GaugeInt dps \<Rightarrow> Some (type_line name ''gauge'' @ concat (map (\<lambda>(a, v). writeSample fmt name a (of_int64 v)) dps))
      | GaugeFloat dps \<Rightarrow> Some (type_line name ''gauge'' @ concat (map (\<lambda>(a, v). writeSample fmt name a v) dps))
      | HistFloat dps \<Rightarrow> map_option ((@) (type_line name ''histogram'')) (concat_options (map (writeHistogram fmt (\<lambda>x. x) name) dps))
      | HistInt dps \<Rightarrow> map_option ((@) (type_line name ''histogram'')) (concat_options (map (writeHistogram fmt of_int64 name) dps))
      | OtherData \<Rightarrow> Some [])"

definition write_metric :: "(rat \<Rightarrow> string) \<Rightarrow> collected_metric \<Rightarrow> string option" where
  "write_metric fmt m =
     (let name = sanitizeMetricName (cm_Name m) in
      map_option ((@) (if cm_Description m \<noteq> [] then ''# HELP '' @ name @ '' '' @ escapeHelp (cm_Description m) @ [lf_char] else []))
        (write_data fmt name (cm_Data m)))"

definition writeExposition :: "(rat \<Rightarrow> string) \<Rightarrow> collected_metric list list \<Rightarrow> string option" where
  "writeExposition fmt scopes = concat_options (map (write_metric fmt) (concat scopes))"

definition CollectText :: "(rat \<Rightarrow> string) \<Rightarrow> string + collected_metric list list \<Rightarrow> (string + string) option" where
  "CollectText fmt collected = (case collected of Inl e \<Rightarrow> Some (Inl e) | Inr scopes \<Rightarrow> map_option Inr (writeExposition fmt scopes))"

text \<open>The handler: no reader, a failed collection, or the text; a panic is \<open>None\<close>.\<close>

definition PrometheusHandler :: "(rat \<Rightarrow> string) \<Rightarrow> (string + collected_metric list list) option \<Rightarrow> (int \<times> string) option" where
  "PrometheusHandler fmt reader =
     (case reader of None \<Rightarrow> Some (404, ''metrics endpoint disabled'' @ [lf_char])
      | Some (Inl _) \<Rightarrow> Some (500, ''metric collection failed'' @ [lf_char])
      | Some (Inr scopes) \<Rightarrow> map_option (Pair 200) (writeExposition fmt scopes))"

section \<open>Lemmas: escapes\<close>

lemma replace_char_simps [simp]:
  "replace_char c r [] = []" "replace_char c r (x # s) = (if x = c then r else [x]) @ replace_char c r s"
  "replace_char c r (s @ t) = replace_char c r s @ replace_char c r t"
  by (simp_all add: replace_char_def)

lemma escape_simps [simp]:
  "escapeLabelValue [] = []"
  "escapeLabelValue (c # s) = (if c = bs_char then [bs_char, bs_char] else if c = quote_char then [bs_char, quote_char]
     else if c = lf_char then [bs_char, CHR ''n''] else [c]) @ escapeLabelValue s"
  by (simp_all add: escapeLabelValue_def)

lemma escape_no_lf: "lf_char \<notin> set (escapeLabelValue s)"
  by (induction s) auto

lemma sanitize_chars: "c \<in> set (sanitize s b) \<Longrightarrow> ascii_letter c \<or> ascii_digit c \<or> c = CHR ''_'' \<or> c = CHR '':''"
  by (auto simp: sanitize_def split: if_splits)

lemma sanitize_no_delimiter: "CHR ''='' \<notin> set (sanitize s b)" "lf_char \<notin> set (sanitize s b)"
  using sanitize_chars[of _ s b] by (fastforce simp: ascii_letter_def ascii_digit_def Let_def)+

section \<open>A reader of the format\<close>

text \<open>A value runs to the quote that is not escaped; a backslash takes the character after it, \<open>n\<close> standing for a line feed.\<close>

fun read_value :: "string \<Rightarrow> (string \<times> string) option" where
  "read_value [] = None"
| "read_value (c # cs) =
     (if c = quote_char then Some ([], cs)
      else if c = bs_char
      then (case cs of [] \<Rightarrow> None | d # ds \<Rightarrow> map_option (apfst ((#) (if d = CHR ''n'' then lf_char else d))) (read_value ds))
      else map_option (apfst ((#) c)) (read_value cs))"

fun read_pairs :: "nat \<Rightarrow> string \<Rightarrow> ((string \<times> string) list \<times> string) option" where
  "read_pairs 0 s = None"
| "read_pairs (Suc n) s =
     (case dropWhile (\<lambda>c. c \<noteq> CHR ''='') s of
        e # q # r \<Rightarrow>
          if q \<noteq> quote_char then None
          else (case read_value r of
              Some (v, c # r') \<Rightarrow>
                if c = CHR ''}'' then Some ([(takeWhile (\<lambda>c. c \<noteq> CHR ''='') s, v)], r')
                else if c = CHR '','' then map_option (apfst ((#) (takeWhile (\<lambda>c. c \<noteq> CHR ''='') s, v))) (read_pairs n r')
                else None
            | _ \<Rightarrow> None)
      | _ \<Rightarrow> None)"

definition read_labels :: "string \<Rightarrow> ((string \<times> string) list \<times> string) option" where
  "read_labels s = (if s \<noteq> [] \<and> hd s = CHR ''{'' then read_pairs (length s) (tl s) else Some ([], s))"

lemma read_value_escape: "read_value (escapeLabelValue v @ quote_char # rest) = Some (v, rest)"
  by (induction v) auto

lemma render_pair_read:
  assumes "CHR ''='' \<notin> set k"
  shows "dropWhile (\<lambda>c. c \<noteq> CHR ''='') (render_pair (k, v) @ rest) = CHR ''='' # quote_char # escapeLabelValue v @ quote_char # rest"
    "takeWhile (\<lambda>c. c \<noteq> CHR ''='') (render_pair (k, v) @ rest) = k"
proof -
  have "\<forall>c \<in> set k. c \<noteq> CHR ''=''" using assms by auto
  then show "dropWhile (\<lambda>c. c \<noteq> CHR ''='') (render_pair (k, v) @ rest) = CHR ''='' # quote_char # escapeLabelValue v @ quote_char # rest"
    "takeWhile (\<lambda>c. c \<noteq> CHR ''='') (render_pair (k, v) @ rest) = k"
    by (simp_all add: render_pair_def)
qed

lemma read_pairs_render:
  "ps \<noteq> [] \<Longrightarrow> length ps \<le> n \<Longrightarrow> \<forall>p \<in> set ps. CHR ''='' \<notin> set (fst p) \<Longrightarrow>
     read_pairs n (join_comma (map render_pair ps) @ CHR ''}'' # rest) = Some (ps, rest)"
proof (induction ps arbitrary: n)
  case (Cons p ps)
  obtain k v where p: "p = (k, v)" by force
  obtain m where n: "n = Suc m" using Cons.prems(2) by (cases n) auto
  have k: "CHR ''='' \<notin> set k" using Cons.prems(3) p by simp
  show ?case
  proof (cases ps)
    case Nil
    then show ?thesis by (simp add: p n render_pair_read[OF k] read_value_escape)
  next
    case (Cons q qs)
    have ih: "read_pairs m (join_comma (map render_pair ps) @ CHR ''}'' # rest) = Some (ps, rest)"
      using Cons.IH[of m] Cons.prems(2,3) n Cons by simp
    have "join_comma (map render_pair (p # ps)) @ CHR ''}'' # rest = render_pair (k, v) @ CHR '','' # join_comma (map render_pair ps) @ CHR ''}'' # rest"
      by (simp add: p Cons)
    then show ?thesis using ih by (simp only: n read_pairs.simps render_pair_read[OF k]) (simp add: read_value_escape p)
  qed
qed simp

lemma label_pairs_keys: "extraKey \<in> {[], ''le''} \<Longrightarrow> p \<in> set (label_pairs attrs extraKey extraVal) \<Longrightarrow> CHR ''='' \<notin> set (fst p) \<and> lf_char \<notin> set (fst p)"
  by (auto simp: label_pairs_def sanitizeLabelName_def sanitize_no_delimiter split: if_splits)

lemma join_comma_set: "c \<in> set (join_comma xs) \<Longrightarrow> c = CHR '','' \<or> (\<exists>x \<in> set xs. c \<in> set x)"
  by (induction xs rule: join_comma.induct) auto

lemma join_comma_length: "\<forall>x \<in> set xs. 0 < length x \<Longrightarrow> length xs \<le> length (join_comma xs)"
  by (induction xs rule: join_comma.induct) (auto simp: Suc_le_eq)

lemma renderLabels_reads:
  assumes "extraKey \<in> {[], ''le''}"
  shows "read_labels (renderLabels attrs extraKey extraVal @ '' '' @ rest) = Some (label_pairs attrs extraKey extraVal, '' '' @ rest)"
    and "lf_char \<notin> set (renderLabels attrs extraKey extraVal)"
proof -
  let ?ps = "label_pairs attrs extraKey extraVal"
  have k: "\<forall>p \<in> set ?ps. CHR ''='' \<notin> set (fst p)" using label_pairs_keys[OF assms] by blast
  have len: "length ?ps \<le> length (join_comma (map render_pair ?ps))"
    using join_comma_length[of "map render_pair ?ps"] by (simp add: render_pair_def)
  show "read_labels (renderLabels attrs extraKey extraVal @ '' '' @ rest) = Some (?ps, '' '' @ rest)"
  proof (cases "?ps = []")
    case True
    then show ?thesis by (simp add: renderLabels_def Let_def read_labels_def)
  next
    case False
    let ?s = "renderLabels attrs extraKey extraVal @ '' '' @ rest"
    have s: "?s = CHR ''{'' # join_comma (map render_pair ?ps) @ CHR ''}'' # '' '' @ rest" using False by (simp add: renderLabels_def Let_def)
    have "length ?ps \<le> length ?s" unfolding s using len by simp
    then have "read_pairs (length ?s) (join_comma (map render_pair ?ps) @ CHR ''}'' # '' '' @ rest) = Some (?ps, '' '' @ rest)"
      by (rule read_pairs_render[OF False _ k])
    then show ?thesis by (simp only: read_labels_def s) simp
  qed
  show "lf_char \<notin> set (renderLabels attrs extraKey extraVal)"
    using label_pairs_keys[OF assms] by (auto simp: renderLabels_def Let_def render_pair_def escape_no_lf dest!: join_comma_set)
qed

section \<open>Lemmas: buckets\<close>

definition running :: "64 word list \<Rightarrow> nat \<Rightarrow> 64 word" where
  "running counts i = sum_list (take (Suc i) counts)"

lemma bucket_loop_lines:
  "length bs \<le> length counts \<Longrightarrow> bucket_loop fmt name attrs bs counts c =
     Some (concat (map (\<lambda>(i, b). writeSampleWithExtra fmt (name @ ''_bucket'') attrs ''le'' (formatFloat fmt b) (of_count (c + running counts i))) (List.enumerate 0 bs)))"
proof (induction bs arbitrary: counts c)
  case (Cons b bs)
  then obtain n ns where ns: "counts = n # ns" by (cases counts) auto
  have e: "List.enumerate (Suc 0) bs = map (\<lambda>(i, b). (Suc i, b)) (List.enumerate 0 bs)"
    by (simp add: list_eq_iff_nth_eq nth_enumerate_eq)
  show ?case using Cons.IH[of ns "c + n"] Cons.prems
    by (simp add: ns e running_def comp_def case_prod_beta add.assoc)
qed simp

text \<open>The totals of a data point that the count bounds never wrap, so they grow from bucket to bucket.\<close>

lemma running_mono:
  assumes "sum_list (map uint counts) < 2 ^ 64" "i \<le> j"
  shows "running counts i \<le> running counts j"
proof -
  have u: "uint (sum_list (take k counts)) = sum_list (map uint (take k counts))" for k
  proof (induction k)
    case (Suc k)
    have pre: "sum_list (map uint (take (Suc k) counts)) < 2 ^ 64"
    proof -
      have "sum_list (map uint counts) = sum_list (map uint (take (Suc k) counts)) + sum_list (map uint (drop (Suc k) counts))"
        by (metis append_take_drop_id map_append sum_list_append)
      moreover have "0 \<le> sum_list (map uint (drop (Suc k) counts))" by (rule sum_list_nonneg) auto
      ultimately show ?thesis using assms(1) by linarith
    qed
    show ?case
    proof (cases "k < length counts")
      case True
      then have "uint (sum_list (take (Suc k) counts)) = (sum_list (map uint (take k counts)) + uint (counts ! k)) mod 2 ^ 64"
        using Suc by (simp add: take_Suc_conv_app_nth uint_word_ariths(1))
      moreover have "sum_list (map uint (take (Suc k) counts)) = sum_list (map uint (take k counts)) + uint (counts ! k)"
        using True by (simp add: take_Suc_conv_app_nth)
      moreover have "0 \<le> sum_list (map uint (take (Suc k) counts))" by (rule sum_list_nonneg) auto
      ultimately show ?thesis using pre by simp
    next
      case False
      then show ?thesis using Suc by simp
    qed
  qed simp
  have "sum_list (map uint (take (Suc j) counts)) = sum_list (map uint (take (Suc i) counts)) + sum_list (map uint (take (j - i) (drop (Suc i) counts)))"
    using assms(2) by (metis add_Suc_right le_add_diff_inverse map_append sum_list_append take_add add_Suc)
  moreover have "0 \<le> sum_list (map uint (take (j - i) (drop (Suc i) counts)))" by (rule sum_list_nonneg) auto
  ultimately show ?thesis by (simp add: running_def word_le_def u)
qed

section \<open>Properties\<close>

text \<open>C35: No label value can break out of its sample. Whatever an attribute's value holds (quotes, backslashes, line feeds), the block of labels of a
  sample or of a histogram bucket contains no line feed, and a reader of the exposition format gets back exactly the attributes, under their sanitised
  names and in the order of the names, with the bucket's bound among them, and stops where the value of the sample begins.\<close>

theorem labels_read_back:
  "read_labels (renderLabels attrs [] [] @ '' '' @ rest) = Some (label_pairs attrs [] [], '' '' @ rest)
   \<and> read_labels (renderLabels attrs ''le'' b @ '' '' @ rest) = Some (label_pairs attrs ''le'' b, '' '' @ rest)
   \<and> lf_char \<notin> set (renderLabels attrs [] []) \<and> lf_char \<notin> set (renderLabels attrs ''le'' b)
   \<and> mset (label_pairs attrs ''le'' b) = add_mset (''le'', b) (mset (map (apfst sanitizeLabelName) attrs))
   \<and> sorted (map fst (label_pairs attrs ''le'' b))"
  using renderLabels_reads(1)[of "[]" attrs "[]" rest] renderLabels_reads(1)[of "''le''" attrs b rest]
    renderLabels_reads(2)[of "[]" attrs "[]"] renderLabels_reads(2)[of "''le''" attrs b]
  by (simp add: label_pairs_def apfst_def map_prod_def id_def)

end
