(* ===== verification/Telemetry.thy ===== *)
theory Telemetry
  imports Exposition Correlation Config Breaker
begin

text \<open>
  \<^verbatim>\<open>internal/observability/logging.go\<close> and \<^verbatim>\<open>metrics.go\<close>: the level and the redaction of log lines, the identity a request's
  logger carries, the table of instruments and the helpers that record on them. A log handler is a function from a
  record's attributes to what it prints; a meter is the list of what was recorded.
\<close>

section \<open>Logging\<close>

definition redacted :: string where "redacted = ''[REDACTED]''"

datatype log_level = LevelDebug | LevelInfo | LevelWarn | LevelError

fun level_rank :: "log_level \<Rightarrow> int" where
  "level_rank LevelDebug = -4" | "level_rank LevelInfo = 0" | "level_rank LevelWarn = 4" | "level_rank LevelError = 8"

text \<open>An attribute of \<^verbatim>\<open>slog\<close>: a key and a printed value, or a group of attributes. A handler calls \<^verbatim>\<open>ReplaceAttr\<close> for every attribute
  that is not a group.\<close>

datatype log_attr = LAttr string string | LGroup string "log_attr list"

record LogHandler =
  lh_Level :: log_level
  lh_AddSource :: bool
  lh_redact :: "string set"
  lh_text :: bool

definition log_level_of :: "string \<Rightarrow> log_level" where
  "log_level_of s =
     (let l = strings_ToLower s in
      if l = ''debug'' then LevelDebug else if l = ''warn'' then LevelWarn else if l = ''error'' then LevelError else LevelInfo)"

definition NewLogger :: "LogConfig \<Rightarrow> LogHandler" where
  "NewLogger cfg =
     \<lparr>lh_Level = log_level_of (log_Level cfg), lh_AddSource = log_AddSource cfg, lh_redact = set (map strings_ToLower (log_RedactKeys cfg)),
      lh_text = strings_EqualFold (log_Format cfg) ''text''\<rparr>"

definition ReplaceAttr :: "LogHandler \<Rightarrow> string \<times> string \<Rightarrow> string \<times> string" where
  "ReplaceAttr h a = (if strings_ToLower (fst a) \<in> lh_redact h then (fst a, redacted) else a)"

fun rendered :: "LogHandler \<Rightarrow> log_attr \<Rightarrow> log_attr" where
  "rendered h (LAttr k v) = (case ReplaceAttr h (k, v) of (k', v') \<Rightarrow> LAttr k' v')"
| "rendered h (LGroup k as) = LGroup k (map (rendered h) as)"

definition log_line :: "LogHandler \<Rightarrow> log_level \<Rightarrow> log_attr list \<Rightarrow> log_attr list option" where
  "log_line h l as = (if level_rank l < level_rank (lh_Level h) then None else Some (map (rendered h) as))"

text \<open>\<open>sp\<close> holds the trace and span ids of a valid span context.\<close>

definition logger_attrs :: "Ctx \<Rightarrow> (string \<times> string) option \<Rightarrow> log_attr list" where
  "logger_attrs ctx sp =
     [LAttr k v. (k, v) \<leftarrow> [(''correlation_id'', cx_CorrelationID ctx), (''request_id'', cx_RequestID ctx), (''tenant_id'', cx_TenantID ctx),
        (''principal'', cx_Subject ctx)], v \<noteq> []]
     @ (case sp of None \<Rightarrow> [] | Some (t, s) \<Rightarrow> [LAttr ''trace_id'' t, LAttr ''span_id'' s])"

section \<open>Instruments\<close>

datatype instrument_kind = Counter | UpDownCounter | Histogram | Gauge

text \<open>Kind, name, description and unit, in the order of creation.\<close>

type_synonym instrument = "instrument_kind \<times> string \<times> string \<times> string"

definition instruments :: "instrument list" where
  "instruments =
    [(Counter, ''bff_request_total'', ''API requests served, by route and outcome'', ''{request}''),
     (Histogram, ''bff_request_latency'', ''End-to-end API request latency'', ''s''),
     (UpDownCounter, ''bff_concurrent_requests'', ''API requests currently in flight'', ''{request}''),
     (Histogram, ''operational_source_latency'', ''Latency of calls to the Operational Data Source'', ''s''),
     (Histogram, ''execution_source_latency'', ''Latency of calls to the Execution Data Source'', ''s''),
     (Histogram, ''aggregation_latency'', ''Time spent fanning out and merging source results'', ''s''),
     (Histogram, ''data_freshness_age'', ''Age of the data served, as evaluated against its TTL'', ''s''),
     (Counter, ''operational_ttl_hit_total'', ''Requests where operational data was within TTL'', ''{request}''),
     (Counter, ''operational_ttl_miss_total'', ''Requests where operational data exceeded TTL'', ''{request}''),
     (Counter, ''execution_fallback_total'', ''Requests redirected to the Execution source after an operational miss or failure'', ''{request}''),
     (Counter, ''routing_decision_total'', ''Routing decisions, by target and rule'', ''{decision}''),
     (Counter, ''datasource_error_total'', ''Errors returned by a data source, by source and error code'', ''{error}''),
     (Counter, ''cache_hit_total'', ''Cache hits, by layer'', ''{lookup}''),
     (Counter, ''cache_miss_total'', ''Cache misses'', ''{lookup}''),
     (Counter, ''cache_error_total'', ''Cache backend errors (fail-open)'', ''{error}''),
     (Counter, ''partial_response_total'', ''Responses served with one or more sources missing'', ''{response}''),
     (Counter, ''stale_response_total'', ''Responses served from data past its freshness TTL'', ''{response}''),
     (Counter, ''circuit_breaker_transition_total'', ''Circuit breaker state transitions'', ''{transition}''),
     (Gauge, ''circuit_breaker_state'', ''Circuit breaker state: 0 closed, 1 half-open, 2 open'', ''{state}''),
     (UpDownCounter, ''bulkhead_in_flight'', ''Calls currently held by a source bulkhead'', ''{call}''),
     (Counter, ''bulkhead_rejected_total'', ''Calls rejected because a bulkhead was saturated'', ''{call}''),
     (Counter, ''rate_limited_total'', ''Requests rejected by the rate limiter'', ''{request}''),
     (Counter, ''precedence_conflict_total'', ''Fields where two sources disagreed and precedence had to choose'', ''{field}''),
     (Counter, ''schema_version_mismatch_total'', ''Source responses declaring an unsupported schema version'', ''{response}''),
     (Counter, ''clock_skew_detected_total'', ''Freshness evaluations where source and BFF clocks disagreed beyond tolerance'', ''{evaluation}''),
     (Counter, ''config_reload_total'', ''Configuration reloads, by outcome'', ''{reload}'')]"

text \<open>Creating the instruments: after the first error nothing more is asked of the meter.\<close>

fun new_metrics :: "(instrument \<Rightarrow> string option) \<Rightarrow> instrument list \<Rightarrow> string option" where
  "new_metrics meter [] = None"
| "new_metrics meter (i # is) =
     (case meter i of Some e \<Rightarrow> Some (''observability: instrument '' @ fst (snd i) @ '': '' @ e) | None \<Rightarrow> new_metrics meter is)"

definition NewMetrics :: "(instrument \<Rightarrow> string option) \<Rightarrow> string option" where
  "NewMetrics meter = new_metrics meter instruments"

section \<open>Recording\<close>

text \<open>A measurement: the instrument, the value and the attributes. \<open>None\<close> is the nil \<^verbatim>\<open>*Metrics\<close>.\<close>

type_synonym measurement = "string \<times> rat \<times> attrs"

definition RecordSourceLatency :: "string \<Rightarrow> duration \<Rightarrow> attrs \<Rightarrow> measurement list option \<Rightarrow> measurement list option" where
  "RecordSourceLatency source d as m =
     (case m of None \<Rightarrow> None
      | Some ms \<Rightarrow> Some (if source = ''OPERATIONAL'' then ms @ [(''operational_source_latency'', dur_Seconds d, as)]
          else if source = ''EXECUTION'' then ms @ [(''execution_source_latency'', dur_Seconds d, as)] else ms))"

definition RecordTTL :: "bool \<Rightarrow> attrs \<Rightarrow> measurement list option \<Rightarrow> measurement list option" where
  "RecordTTL hit as m =
     (case m of None \<Rightarrow> None
      | Some ms \<Rightarrow> Some (ms @ [(if hit then ''operational_ttl_hit_total'' else ''operational_ttl_miss_total'', 1, as)]))"

definition RecordCache :: "bool \<Rightarrow> string \<Rightarrow> measurement list option \<Rightarrow> measurement list option" where
  "RecordCache hit layer m =
     (case m of None \<Rightarrow> None
      | Some ms \<Rightarrow> Some (ms @ [(if hit then ''cache_hit_total'' else ''cache_miss_total'', 1, [(''cache_layer'', layer)])]))"

definition BreakerStateValue :: "string \<Rightarrow> int" where
  "BreakerStateValue s = (if s = ''closed'' then 0 else if s = ''half-open'' then 1 else if s = ''open'' then 2 else -1)"

section \<open>Lemmas\<close>

lemma new_metrics_none: "new_metrics meter is = None \<longleftrightarrow> (\<forall>i \<in> set is. meter i = None)"
  by (induction "is") (auto split: option.splits)

lemma new_metrics_prefix:
  assumes "meter i = Some e" "\<forall>j \<in> set pre. meter j = None"
  shows "new_metrics meter (pre @ i # rest) = Some (''observability: instrument '' @ fst (snd i) @ '': '' @ e)"
  using assms by (induction pre) auto

text \<open>Every state of a breaker has its own value on the gauge.\<close>

lemma breaker_gauge: "BreakerStateValue (state_String s) \<in> {0, 1, 2}" "BreakerStateValue (state_String s) = BreakerStateValue (state_String s') \<longleftrightarrow> s = s'"
  by (cases s; cases s'; simp add: BreakerStateValue_def)+

text \<open>The exposition renames none of the instruments and merges no two of them.\<close>

lemma instrument_names:
  "map (sanitizeMetricName \<circ> fst \<circ> snd) instruments = map (fst \<circ> snd) instruments" "distinct (map (fst \<circ> snd) instruments)"
  by (simp_all add: instruments_def sanitizeMetricName_def sanitize_def ascii_letter_def ascii_digit_def)

text \<open>The attributes of a line with the names of the groups around them.\<close>

fun flat :: "string list \<Rightarrow> log_attr \<Rightarrow> (string list \<times> string \<times> string) list" where
  "flat gs (LAttr k v) = [(gs, k, v)]"
| "flat gs (LGroup k as) = concat (map (flat (gs @ [k])) as)"

lemma flat_rendered: "flat gs (rendered h a) = map (\<lambda>(g, kv). (g, ReplaceAttr h kv)) (flat gs a)"
proof (induction a arbitrary: gs)
  case (LAttr k v)
  then show ?case by (simp split: prod.split)
next
  case (LGroup k as)
  then have "map (flat (gs @ [k])) (map (rendered h) as) = map (map (\<lambda>(g, kv). (g, ReplaceAttr h kv))) (map (flat (gs @ [k])) as)" by simp
  then show ?case by (simp only: flat.simps rendered.simps map_concat)
qed

text \<open>Log lines: at every depth the value of a redacted key, however it is spelled, is masked, and nothing else changes.\<close>

lemma redaction_is_exact:
  assumes "log_line (NewLogger cfg) l as = Some out"
  shows "concat (map (flat []) out) = map (\<lambda>(g, k, v). (g, k, if strings_ToLower k \<in> set (map strings_ToLower (log_RedactKeys cfg)) then redacted else v)) (concat (map (flat []) as))"
proof -
  have "map (flat []) out = map (map (\<lambda>(g, kv). (g, ReplaceAttr (NewLogger cfg) kv))) (map (flat []) as)"
    using assms by (auto simp: log_line_def flat_rendered split: if_splits)
  then have "concat (map (flat []) out) = map (\<lambda>(g, kv). (g, ReplaceAttr (NewLogger cfg) kv)) (concat (map (flat []) as))"
    by (simp only: map_concat)
  then show ?thesis by (auto simp: ReplaceAttr_def NewLogger_def intro!: map_cong)
qed

end
