(* ===== verification/OpSource.thy ===== *)
theory OpSource
  imports AdapterProps SourceKit
begin

text \<open>
  \<^verbatim>\<open>cmd/opsource/main.go\<close>: the reference operational source, an in-memory store behind the gRPC contract, with the chaos controls of its admin
  port. What one call meets is a record: the clock (read once per rendered record), the draws of the random generator and whether the
  caller's context ends before the injected delay. A read or write under a lock is one step. Process start-up, the listeners and logging are not
  modelled. The last sections put the store behind the operational adapter: the generated client is the server's own methods.
\<close>

section \<open>State\<close>

text \<open>The fields of \<^verbatim>\<open>chaos\<close> and of its copy \<^verbatim>\<open>chaosSnapshot\<close> are the same; the mutex is not modelled.\<close>

record OpsChaos =
  ch_latencyMin :: duration
  ch_latencyMax :: duration
  ch_failureRate :: rat
  ch_unavailable :: bool
  ch_probeUnavailable :: bool
  ch_staleBy :: duration
  ch_clockSkew :: duration
  ch_partial :: bool
  ch_schemaVersion :: string

record OpsServer =
  os_store :: "OperationalResource gomap"
  os_ageOffset :: "duration gomap"
  os_chaos :: OpsChaos

section \<open>Timestamps\<close>

definition timestamppb_New :: "time \<Rightarrow> Timestamp" where
  "timestamppb_New t = \<lparr>tp_seconds = t div 10 ^ 9 - secondsToEpoch, tp_nanos = t mod 10 ^ 9\<rparr>"

lemma AsTime_New [simp]: "ts_AsTime (timestamppb_New t) = t"
  by (simp add: ts_AsTime_def timestamppb_New_def)

section \<open>Seeding\<close>

definition tenantFor :: "nat \<Rightarrow> string" where
  "tenantFor i = (if i mod 3 = 0 then ''acme'' else if i mod 3 = 1 then ''local'' else ''globex'')"

definition seed_age :: "nat \<Rightarrow> duration" where
  "seed_age i = int (i mod 7) * 5 * second"

definition seed_id :: "nat \<Rightarrow> string" where
  "seed_id i = ''R'' @ sprintf_d 3 i"

definition seed_record :: "time \<Rightarrow> nat \<Rightarrow> OperationalResource" where
  "seed_record now i =
     (let region = [''eu-west-1'', ''us-east-1''] ! (i mod 2) in
      \<lparr>op_resource_id = seed_id i, op_customer_ref = ''C'' @ sprintf_d 3 (i mod 9 + 1), op_tenant_id = tenantFor i,
       op_resource_type = [''compute'', ''database'', ''queue'', ''gateway''] ! (i mod 4),
       op_state = [STATE_ACTIVE, STATE_PROVISIONING, STATE_DEGRADED, STATE_SUSPENDED] ! (i mod 4),
       op_substate = [[], ''scaling'', ''reconciling'', ''healthy''] ! (i mod 4),
       op_ownership = Some \<lparr>or_owner_id = ''team-'' @ digits (i mod 5 + 1), or_owner_type = ''team'',
         or_owner_email = ''team-'' @ digits (i mod 5 + 1) @ ''@example.invalid'', or_cost_centre = ''CC-'' @ sprintf_d 2 (i mod 12 + 1)\<rparr>,
       op_configuration = [(''tier'', [''standard'', ''premium''] ! (i mod 2)), (''replicas'', digits (i mod 5 + 1)), (''region'', region)],
       op_metrics = [Some \<lparr>ms_name = ''cpu_utilisation'', ms_value = rat_of_nat (20 + i mod 70), ms_unit = ''percent'', ms_sampled_at = Some (timestamppb_New now)\<rparr>,
                     Some \<lparr>ms_name = ''requests_per_second'', ms_value = rat_of_nat (100 + i * 3), ms_unit = ''rps'', ms_sampled_at = Some (timestamppb_New now)\<rparr>],
       op_topology = Some \<lparr>tr_region = region, tr_zone = region @ ''a'', tr_cluster = ''cluster-'' @ digits (i mod 3 + 1),
         tr_upstream_refs = [''R'' @ sprintf_d 3 (max 1 (i - 1))], tr_downstream_refs = [''R'' @ sprintf_d 3 (i + 1)]\<rparr>,
       op_operational_metadata = [(''managed_by'', ''reference-ods'')], op_labels = [(''env'', ''local'')],
       op_freshness = Some \<lparr>fe_last_updated = Some (timestamppb_New (time_Add now (- seed_age i))), fe_server_time = Some (timestamppb_New now),
         fe_refresh_source = ''poller'', fe_version = of_nat i\<rparr>,
       op_in_flight_execution_ref = (if i mod 5 = 1 then ''E'' @ sprintf_d 3 i @ ''-0'' else []),
       op_schema_version = ''ods.v1''\<rparr>)"

definition seed_step :: "time \<Rightarrow> nat \<Rightarrow> OpsServer \<Rightarrow> OpsServer" where
  "seed_step now i s = s\<lparr>os_ageOffset := gomap_put (seed_id i) (seed_age i) (os_ageOffset s),
     os_store := gomap_put (seed_id i) (seed_record now i) (os_store s)\<rparr>"

definition ops_seed :: "time \<Rightarrow> int \<Rightarrow> OpsServer \<Rightarrow> OpsServer" where
  "ops_seed now n s = fold (seed_step now) [1..<nat n + 1] s"

definition calm :: OpsChaos where
  "calm = \<lparr>ch_latencyMin = 0, ch_latencyMax = 0, ch_failureRate = 0, ch_unavailable = False, ch_probeUnavailable = False, ch_staleBy = 0,
     ch_clockSkew = 0, ch_partial = False, ch_schemaVersion = ''ods.v1''\<rparr>"

definition ops_newServer :: "time \<Rightarrow> int \<Rightarrow> OpsServer" where
  "ops_newServer now n = ops_seed now n \<lparr>os_store = [], os_ageOffset = [], os_chaos = calm\<rparr>"

section \<open>What a call meets\<close>

text \<open>\<open>ov_draw n\<close> is \<^verbatim>\<open>rand.Int64N(n)\<close>; \<open>ov_ctx d\<close> the error of the context if it ends before a timer of \<open>d\<close> fires; \<open>ov_now i\<close> the
  clock at the \<open>i\<close>-th rendering.\<close>

record OpsEnv =
  ov_now :: "nat \<Rightarrow> time"
  ov_draw :: "int \<Rightarrow> int"
  ov_float :: rat
  ov_ctx :: "duration \<Rightarrow> rpc_error option"

text \<open>The delay: \<open>None\<close> is the panic of \<^verbatim>\<open>rand.Int64N\<close> on a width that is not positive, which a wrapped difference can be.\<close>

definition delay :: "OpsEnv \<Rightarrow> OpsChaos \<Rightarrow> int \<Rightarrow> rpc_error option option" where
  "delay v c weight =
     (if ch_latencyMax c \<le> 0 \<or> weight \<le> 0 then Some None
      else let w = dur_sub (ch_latencyMax c) (ch_latencyMin c) in
        if ch_latencyMax c > ch_latencyMin c \<and> w \<le> 0 then None
        else let d = (if ch_latencyMax c > ch_latencyMin c then dur_add (ch_latencyMin c) (ov_draw v w) else ch_latencyMin c);
                 d = go_quot d weight
          in Some (if d \<le> 0 then None else ov_ctx v d))"

definition chaos_error :: "string \<Rightarrow> rpc_error" where
  "chaos_error msg = RpcStatus GUnavailable (Opaque msg None)"

definition maybeFail :: "OpsEnv \<Rightarrow> OpsChaos \<Rightarrow> rpc_error option" where
  "maybeFail v c =
     (if ch_unavailable c then Some (chaos_error ''operational source is unavailable (chaos)'')
      else if ch_failureRate c > 0 \<and> ov_float v < ch_failureRate c then Some (chaos_error ''operational source transient failure (chaos)'')
      else None)"

text \<open>The opening of every method: a delay, then an injected failure, then the work.\<close>

definition admitted_call :: "OpsEnv \<Rightarrow> OpsChaos \<Rightarrow> int \<Rightarrow> (rpc_error + 'a) \<Rightarrow> (rpc_error + 'a) option" where
  "admitted_call v c weight k =
     (case delay v c weight of None \<Rightarrow> None
      | Some (Some e) \<Rightarrow> Some (Inl e)
      | Some None \<Rightarrow> (case maybeFail v c of Some e \<Rightarrow> Some (Inl e) | None \<Rightarrow> Some k))"

section \<open>RPCs\<close>

definition ops_get :: "OpsServer \<Rightarrow> string \<Rightarrow> string \<Rightarrow> OperationalResource option" where
  "ops_get s id' tenant =
     (case gomap_get (os_store s) id' of None \<Rightarrow> None
      | Some r \<Rightarrow> if tenant \<noteq> [] \<and> op_tenant_id r \<noteq> tenant then None else Some r)"

definition freshnessFor :: "OpsServer \<Rightarrow> OpsChaos \<Rightarrow> time \<Rightarrow> OperationalResource \<Rightarrow> FreshnessEnvelope" where
  "freshnessFor s c now r =
     (let offset = (case gomap_get (os_ageOffset s) (op_resource_id r) of None \<Rightarrow> 0 | Some d \<Rightarrow> d) in
      \<lparr>fe_last_updated = Some (timestamppb_New (time_Add (time_Add now (dur_neg offset)) (dur_neg (ch_staleBy c)))),
       fe_server_time = Some (timestamppb_New (time_Add now (ch_clockSkew c))),
       fe_refresh_source = (case op_freshness r of None \<Rightarrow> [] | Some f \<Rightarrow> fe_refresh_source f),
       fe_version = (case op_freshness r of None \<Rightarrow> 0 | Some f \<Rightarrow> fe_version f)\<rparr>)"

definition ops_render :: "OpsServer \<Rightarrow> OpsChaos \<Rightarrow> time \<Rightarrow> OperationalResource \<Rightarrow> OperationalResource" where
  "ops_render s c now r =
     (let out = \<lparr>op_resource_id = op_resource_id r, op_customer_ref = op_customer_ref r, op_tenant_id = op_tenant_id r,
           op_resource_type = op_resource_type r, op_state = op_state r, op_substate = op_substate r, op_ownership = None,
           op_configuration = op_configuration r, op_metrics = [], op_topology = None, op_operational_metadata = [], op_labels = [],
           op_freshness = Some (freshnessFor s c now r), op_in_flight_execution_ref = op_in_flight_execution_ref r,
           op_schema_version = ch_schemaVersion c\<rparr>
      in if ch_partial c then out
         else out\<lparr>op_ownership := op_ownership r, op_metrics := op_metrics r, op_topology := op_topology r,
                  op_operational_metadata := op_operational_metadata r, op_labels := op_labels r\<rparr>)"

definition rpc_GetResourceFreshness :: "OpsEnv \<Rightarrow> string \<Rightarrow> string \<Rightarrow> OpsServer \<Rightarrow> (rpc_error + FreshnessResponse) option" where
  "rpc_GetResourceFreshness v tenant id' s =
     (let c = os_chaos s in
      if ch_probeUnavailable c then Some (Inl (chaos_error ''freshness probe is unavailable''))
      else admitted_call v c 10
        (Inr (case ops_get s id' tenant of None \<Rightarrow> \<lparr>gf_found = False, gf_freshness = None\<rparr>
              | Some r \<Rightarrow> \<lparr>gf_found = True, gf_freshness = Some (freshnessFor s c (ov_now v 0) r)\<rparr>)))"

definition not_found :: "string \<Rightarrow> rpc_error" where
  "not_found id' = RpcStatus GNotFound (Opaque (''resource '' @ id' @ '' not found'') None)"

definition rpc_GetResource :: "OpsEnv \<Rightarrow> string \<Rightarrow> string \<Rightarrow> OpsServer \<Rightarrow> (rpc_error + OperationalResource option) option" where
  "rpc_GetResource v tenant id' s =
     (let c = os_chaos s in admitted_call v c 1
        (case ops_get s id' tenant of None \<Rightarrow> Inl (not_found id') | Some r \<Rightarrow> Inr (Some (ops_render s c (ov_now v 0) r))))"

definition rpc_GetResourceState :: "OpsEnv \<Rightarrow> string \<Rightarrow> string \<Rightarrow> OpsServer \<Rightarrow> (rpc_error + GetResourceStateResponse option) option" where
  "rpc_GetResourceState v tenant id' s =
     (let c = os_chaos s in admitted_call v c 2
        (case ops_get s id' tenant of None \<Rightarrow> Inl (not_found id')
         | Some r \<Rightarrow> Inr (Some \<lparr>st_resource_id = op_resource_id r, st_state = op_state r, st_substate = op_substate r,
             st_freshness = Some (freshnessFor s c (ov_now v 0) r), st_in_flight_execution_ref = op_in_flight_execution_ref r\<rparr>)))"

text \<open>The loop of the batch: the records found, in the order asked, and the ids that are missing.\<close>

fun ops_batch :: "OpsEnv \<Rightarrow> string \<Rightarrow> OpsServer \<Rightarrow> nat \<Rightarrow> string list \<Rightarrow> OperationalResource list \<times> string list" where
  "ops_batch v tenant s n [] = ([], [])"
| "ops_batch v tenant s n (i # ids) =
     (case ops_get s i tenant of
        Some r \<Rightarrow> (case ops_batch v tenant s (Suc n) ids of (out, miss) \<Rightarrow> (ops_render s (os_chaos s) (ov_now v n) r # out, miss))
      | None \<Rightarrow> (case ops_batch v tenant s n ids of (out, miss) \<Rightarrow> (out, i # miss)))"

definition rpc_BatchGetResources :: "OpsEnv \<Rightarrow> string \<Rightarrow> string list \<Rightarrow> OpsServer \<Rightarrow> (rpc_error + OperationalResource list \<times> string list) option" where
  "rpc_BatchGetResources v tenant ids s = admitted_call v (os_chaos s) 1 (Inr (ops_batch v tenant s 0 ids))"

definition rpc_Health :: "OpsServer \<Rightarrow> HealthState \<times> string" where
  "rpc_Health s = (let c = os_chaos s in
     if ch_unavailable c then (HEALTH_NOT_SERVING, ''chaos: unavailable'')
     else if ch_failureRate c > 0 then (HEALTH_DEGRADED, ''chaos: injected failures'') else (HEALTH_SERVING, []))"

section \<open>The admin surface\<close>

record OpsChaosBody =
  cb_LatencyMinMS :: "int option"
  cb_LatencyMaxMS :: "int option"
  cb_FailureRate :: "rat option"
  cb_Unavailable :: "bool option"
  cb_ProbeUnavailable :: "bool option"
  cb_StaleBySeconds :: "rat option"
  cb_ClockSkewSeconds :: "rat option"
  cb_Partial :: "bool option"
  cb_SchemaVersion :: "string option"

text \<open>\<^verbatim>\<open>time.Duration(x * float64(time.Second))\<close>; a float out of the range converts to the least integer, as amd64 does.\<close>

definition of_seconds :: "rat \<Rightarrow> duration" where
  "of_seconds x = (let n = f64_to_int (f64_mul x 1000000000) in if in_int64 n then n else minDuration)"

definition ops_put_chaos :: "OpsChaosBody \<Rightarrow> OpsChaos \<Rightarrow> OpsChaos" where
  "ops_put_chaos b c =
     given (cb_SchemaVersion b) (\<lambda>x c. c\<lparr>ch_schemaVersion := x\<rparr>) (given (cb_Partial b) (\<lambda>x c. c\<lparr>ch_partial := x\<rparr>)
     (given (cb_ClockSkewSeconds b) (\<lambda>x c. c\<lparr>ch_clockSkew := of_seconds x\<rparr>) (given (cb_StaleBySeconds b) (\<lambda>x c. c\<lparr>ch_staleBy := of_seconds x\<rparr>)
     (given (cb_ProbeUnavailable b) (\<lambda>x c. c\<lparr>ch_probeUnavailable := x\<rparr>) (given (cb_Unavailable b) (\<lambda>x c. c\<lparr>ch_unavailable := x\<rparr>)
     (given (cb_FailureRate b) (\<lambda>x c. c\<lparr>ch_failureRate := x\<rparr>)
     (given (cb_LatencyMaxMS b) (\<lambda>x c. c\<lparr>ch_latencyMax := wrap64 (x * millisecond)\<rparr>)
     (given (cb_LatencyMinMS b) (\<lambda>x c. c\<lparr>ch_latencyMin := wrap64 (x * millisecond)\<rparr>) c))))))))"

definition ops_reset_chaos :: "OpsChaos \<Rightarrow> OpsChaos" where
  "ops_reset_chaos c = c\<lparr>ch_latencyMin := 0, ch_latencyMax := 0, ch_failureRate := 0, ch_unavailable := False, ch_probeUnavailable := False,
     ch_staleBy := 0, ch_clockSkew := 0, ch_partial := False, ch_schemaVersion := ''ods.v1''\<rparr>"

record OpsChaosView =
  cv_latency_min_ms :: int
  cv_latency_max_ms :: int
  cv_failure_rate :: rat
  cv_unavailable :: bool
  cv_probe_unavailable :: bool
  cv_stale_by_seconds :: rat
  cv_clock_skew_seconds :: rat
  cv_partial :: bool
  cv_schema_version :: string

definition ops_view_chaos :: "OpsChaos \<Rightarrow> OpsChaosView" where
  "ops_view_chaos c = \<lparr>cv_latency_min_ms = dur_Milliseconds (ch_latencyMin c), cv_latency_max_ms = dur_Milliseconds (ch_latencyMax c),
     cv_failure_rate = ch_failureRate c, cv_unavailable = ch_unavailable c, cv_probe_unavailable = ch_probeUnavailable c,
     cv_stale_by_seconds = dur_Seconds (ch_staleBy c), cv_clock_skew_seconds = dur_Seconds (ch_clockSkew c), cv_partial = ch_partial c,
     cv_schema_version = ch_schemaVersion c\<rparr>"

text \<open>\<open>OrAborted\<close> is the connection closed by a panic, here of a nil freshness. A request of the admin port by its route; a body that does not decode carries the decoder's error, a query value is what the parser returned.\<close>

datatype ops_admin = OaHealthz | OaLivez | OaReadyz | OaGetChaos | OaPutChaos "string + OpsChaosBody" | OaDeleteChaos
  | OaTouch string | OaAge string rat | OaInFlight string string | OaResources

datatype ops_admin_reply = OrStatus string | OrError int string | OrChaos OpsChaosView | OrTouched string "64 word" | OrAged string rat
  | OrInFlight string string | OrAborted | OrResources int "string list"

definition ops_touch :: "string \<Rightarrow> OpsServer \<Rightarrow> ops_admin_reply \<times> OpsServer" where
  "ops_touch id' s =
     (case gomap_get (os_store s) id' of None \<Rightarrow> (OrError 404 ''not found'', s)
      | Some r \<Rightarrow>
          (case op_freshness r of None \<Rightarrow> (OrAborted, s\<lparr>os_ageOffset := gomap_put id' 0 (os_ageOffset s)\<rparr>)
           | Some f \<Rightarrow>
              (OrTouched id' (fe_version f + 1),
               s\<lparr>os_ageOffset := gomap_put id' 0 (os_ageOffset s),
                 os_store := gomap_put id' (r\<lparr>op_freshness := Some (f\<lparr>fe_version := fe_version f + 1\<rparr>)\<rparr>) (os_store s)\<rparr>)))"

definition ops_age :: "string \<Rightarrow> rat \<Rightarrow> OpsServer \<Rightarrow> ops_admin_reply \<times> OpsServer" where
  "ops_age id' secs s =
     (case gomap_get (os_store s) id' of None \<Rightarrow> (OrError 404 ''not found'', s)
      | Some _ \<Rightarrow>
          let d = dur_add (case gomap_get (os_ageOffset s) id' of None \<Rightarrow> 0 | Some d \<Rightarrow> d) (of_seconds secs)
          in (OrAged id' (dur_Seconds d), s\<lparr>os_ageOffset := gomap_put id' d (os_ageOffset s)\<rparr>))"

definition ops_in_flight :: "string \<Rightarrow> string \<Rightarrow> OpsServer \<Rightarrow> ops_admin_reply \<times> OpsServer" where
  "ops_in_flight id' exec s =
     (case gomap_get (os_store s) id' of None \<Rightarrow> (OrError 404 ''not found'', s)
      | Some r \<Rightarrow> (OrInFlight id' exec, s\<lparr>os_store := gomap_put id' (r\<lparr>op_in_flight_execution_ref := exec\<rparr>) (os_store s)\<rparr>))"

fun ops_adminRoutes :: "ops_admin \<Rightarrow> OpsServer \<Rightarrow> ops_admin_reply \<times> OpsServer" where
  "ops_adminRoutes OaHealthz s = (OrStatus ''ok'', s)"
| "ops_adminRoutes OaLivez s = (OrStatus ''alive'', s)"
| "ops_adminRoutes OaReadyz s = (OrStatus ''ready'', s)"
| "ops_adminRoutes OaGetChaos s = (OrChaos (ops_view_chaos (os_chaos s)), s)"
| "ops_adminRoutes (OaPutChaos body) s =
     (case body of Inl e \<Rightarrow> (OrError 400 e, s) | Inr b \<Rightarrow> (OrStatus ''updated'', s\<lparr>os_chaos := ops_put_chaos b (os_chaos s)\<rparr>))"
| "ops_adminRoutes OaDeleteChaos s = (OrStatus ''reset'', s\<lparr>os_chaos := ops_reset_chaos (os_chaos s)\<rparr>)"
| "ops_adminRoutes (OaTouch i) s = ops_touch i s"
| "ops_adminRoutes (OaAge i secs) s = ops_age i secs s"
| "ops_adminRoutes (OaInFlight i e) s = ops_in_flight i e s"
| "ops_adminRoutes OaResources s = (OrResources (int (length (os_store s))) (map fst (os_store s)), s)"

section \<open>The server behind the adapter's client\<close>

text \<open>The generated client calls the server's methods. A server that panicked is gone: the client sees an unavailable connection.\<close>

definition carried :: "(rpc_error + 'a) option \<Rightarrow> rpc_error + 'a" where
  "carried r = (case r of None \<Rightarrow> Inl (RpcStatus GUnavailable (Opaque ''connection closed'' None)) | Some x \<Rightarrow> x)"

definition ops_client :: "(nat \<Rightarrow> OpsEnv) \<Rightarrow> OpsServer \<Rightarrow> OpsClient" where
  "ops_client v s = \<lparr>
     oc_GetResourceFreshness = \<lambda>k q. carried (rpc_GetResourceFreshness (v k) (oq_TenantId q) (concat (take 1 (oq_ResourceIds q))) s),
     oc_GetResource = \<lambda>k q. carried (rpc_GetResource (v k) (oq_TenantId q) (concat (take 1 (oq_ResourceIds q))) s),
     oc_GetResourceState = \<lambda>k q. carried (rpc_GetResourceState (v k) (oq_TenantId q) (concat (take 1 (oq_ResourceIds q))) s),
     oc_BatchGetResources = \<lambda>k q. map_sum id (map Some \<circ> fst) (carried (rpc_BatchGetResources (v k) (oq_TenantId q) (oq_ResourceIds q) s)),
     oc_Health = Inr (fst (rpc_Health s))\<rparr>"

section \<open>Well-formedness\<close>

definition ops_record_ok :: "string \<times> OperationalResource \<Rightarrow> bool" where
  "ops_record_ok p \<longleftrightarrow> op_resource_id (snd p) = fst p \<and> fst p \<noteq> [] \<and> op_tenant_id (snd p) \<noteq> [] \<and> op_freshness (snd p) \<noteq> None"

definition chaos_in_range :: "OpsChaos \<Rightarrow> bool" where
  "chaos_in_range c \<longleftrightarrow> in_int64 (ch_latencyMin c) \<and> in_int64 (ch_latencyMax c) \<and> in_int64 (ch_staleBy c) \<and> in_int64 (ch_clockSkew c)"

text \<open>Keys are the ids of their records, every record has an owner, a freshness and an age, and every duration is a 64-bit integer.\<close>

definition ops_wf :: "OpsServer \<Rightarrow> bool" where
  "ops_wf s \<longleftrightarrow> distinct (map fst (os_store s)) \<and> distinct (map fst (os_ageOffset s)) \<and> fst ` set (os_ageOffset s) = fst ` set (os_store s)
     \<and> list_all ops_record_ok (os_store s) \<and> list_all (in_int64 \<circ> snd) (os_ageOffset s) \<and> chaos_in_range (os_chaos s)"

definition ops_owner :: "OpsServer \<Rightarrow> string \<Rightarrow> string option" where
  "ops_owner s i = map_option op_tenant_id (gomap_get (os_store s) i)"

lemma gomap_put_keys [simp]: "fst ` set (gomap_put k v m) = insert k (fst ` set m)"
  by (simp add: gomap_put_def dom_update)

lemma gomap_put_all: "list_all P m \<Longrightarrow> P (k, v) \<Longrightarrow> list_all P (gomap_put k v m)"
  unfolding gomap_put_def by (induction m) auto

lemma gomap_get_key: "gomap_get m k = Some v \<Longrightarrow> k \<in> fst ` set m"
  by (force dest: gomap_get_in_set)

lemma ops_wf_record:
  "ops_wf s \<Longrightarrow> gomap_get (os_store s) k = Some r \<Longrightarrow> op_resource_id r = k \<and> k \<noteq> [] \<and> op_tenant_id r \<noteq> [] \<and> op_freshness r \<noteq> None
     \<and> (\<exists>d. gomap_get (os_ageOffset s) k = Some d \<and> in_int64 d)"
proof -
  assume wf: "ops_wf s" and g: "gomap_get (os_store s) k = Some r"
  have "(k, r) \<in> set (os_store s)" by (rule gomap_get_in_set[OF g])
  moreover have "k \<in> fst ` set (os_ageOffset s)" using gomap_get_key[OF g] wf by (simp add: ops_wf_def)
  then obtain d where "(k, d) \<in> set (os_ageOffset s)" by force
  ultimately show ?thesis using wf by (fastforce simp: ops_wf_def list_all_iff ops_record_ok_def intro: gomap_get_of_set)
qed

lemma ops_wf_put:
  "ops_wf s \<Longrightarrow> ops_record_ok (k, r) \<Longrightarrow> in_int64 d \<Longrightarrow>
     ops_wf (s\<lparr>os_ageOffset := gomap_put k d (os_ageOffset s), os_store := gomap_put k r (os_store s)\<rparr>)"
  by (auto simp: ops_wf_def intro!: gomap_put_all)

lemma ops_wf_put_store: "ops_wf s \<Longrightarrow> gomap_get (os_store s) k = Some r' \<Longrightarrow> ops_record_ok (k, r) \<Longrightarrow> ops_wf (s\<lparr>os_store := gomap_put k r (os_store s)\<rparr>)"
  by (auto simp: ops_wf_def intro!: gomap_put_all dest: gomap_get_key)

lemma ops_wf_put_age: "ops_wf s \<Longrightarrow> gomap_get (os_store s) k = Some r \<Longrightarrow> in_int64 d \<Longrightarrow> ops_wf (s\<lparr>os_ageOffset := gomap_put k d (os_ageOffset s)\<rparr>)"
  by (auto simp: ops_wf_def intro!: gomap_put_all dest: gomap_get_key)

lemma of_seconds_range [simp]: "in_int64 (of_seconds x)"
  by (simp add: of_seconds_def Let_def) (simp add: in_int64_def minDuration_def maxDuration_def)

lemma in_int64_0 [simp]: "in_int64 0"
  by (simp add: in_int64_def minDuration_def maxDuration_def)

lemma ops_put_chaos_range: "chaos_in_range c \<Longrightarrow> chaos_in_range (ops_put_chaos b c)"
  unfolding ops_put_chaos_def by (intro given_keeps[where P = chaos_in_range]) (simp_all add: chaos_in_range_def)

lemma ops_admin_wf: "ops_wf s \<Longrightarrow> ops_wf (snd (ops_adminRoutes a s))"
proof (induction a s rule: ops_adminRoutes.induct)
  case (5 body s)
  then show ?case by (auto simp: ops_wf_def ops_put_chaos_range split: sum.splits)
next
  case (6 s)
  then show ?case by (simp add: ops_wf_def chaos_in_range_def ops_reset_chaos_def)
next
  case (7 i s)
  then show ?case by (auto simp: ops_touch_def ops_record_ok_def dest: ops_wf_record intro!: ops_wf_put split: option.splits)
next
  case (8 i secs s)
  then show ?case by (auto simp: ops_age_def Let_def dur_add_def intro!: ops_wf_put_age split: option.splits)
next
  case (9 i e s)
  then show ?case by (auto simp: ops_in_flight_def ops_record_ok_def dest: ops_wf_record intro!: ops_wf_put_store split: option.splits)
qed simp_all

interpretation ops_server: guarded_component "\<lambda>a s. snd (ops_adminRoutes a s)" ops_wf
  by unfold_locales (rule ops_admin_wf)

lemma ops_admin_owner: "ops_owner (snd (ops_adminRoutes a s)) = ops_owner s"
proof (induction a s rule: ops_adminRoutes.induct)
qed (auto simp: ops_owner_def ops_touch_def ops_age_def ops_in_flight_def Let_def fun_eq_iff split: option.splits sum.splits)

lemma seed_step_wf: "ops_wf s \<Longrightarrow> ops_wf (seed_step now i s)"
  unfolding seed_step_def
  by (rule ops_wf_put)
    (auto simp: ops_record_ok_def seed_record_def seed_id_def tenantFor_def seed_age_def Let_def in_int64_def minDuration_def maxDuration_def second_def)

lemma seed_owner: "ops_owner (seed_step now i s) = (ops_owner s)(seed_id i \<mapsto> tenantFor i)"
  by (auto simp: ops_owner_def seed_step_def seed_record_def Let_def)

lemma seed_id_inject [simp]: "seed_id i = seed_id j \<longleftrightarrow> i = j"
  by (simp add: seed_id_def)

lemma fold_seed:
  "ops_wf s \<Longrightarrow> ops_wf (fold (seed_step now) is s)
   \<and> ops_owner (fold (seed_step now) is s) (seed_id i) = (if i \<in> set is then Some (tenantFor i) else ops_owner s (seed_id i))"
  by (induction "is" arbitrary: s) (auto simp: seed_step_wf seed_owner)

lemma newServer_wf: "ops_wf (ops_newServer now n)"
  and newServer_owner: "ops_owner (ops_newServer now n) (seed_id i) = (if 1 \<le> i \<and> int i \<le> n then Some (tenantFor i) else None)"
proof -
  let ?e = "\<lparr>os_store = [], os_ageOffset = [], os_chaos = calm\<rparr>"
  have "ops_wf ?e" by (simp add: ops_wf_def calm_def chaos_in_range_def)
  note f = fold_seed[OF this, of now "[1..<nat n + 1]" i]
  show "ops_wf (ops_newServer now n)" using f by (simp add: ops_newServer_def ops_seed_def)
  show "ops_owner (ops_newServer now n) (seed_id i) = (if 1 \<le> i \<and> int i \<le> n then Some (tenantFor i) else None)"
    using f by (auto simp: ops_newServer_def ops_seed_def ops_owner_def nat_less_eq_zless)
qed

section \<open>What the adapter reads\<close>

text \<open>The instants a protobuf timestamp can carry and the model's zero time is not.\<close>

definition in_calendar :: "time \<Rightarrow> bool" where
  "in_calendar t \<longleftrightarrow> 0 < t \<and> t < (secondsToEpoch + 253402300800) * 10 ^ 9"

lemma tsOf_New: "in_calendar t \<Longrightarrow> tsOf (Some (timestamppb_New t)) = t"
proof -
  assume c: "in_calendar t"
  have "t div 10 ^ 9 < secondsToEpoch + 253402300800" using c unfolding in_calendar_def secondsToEpoch_def by simp linarith
  moreover have "0 \<le> t div 10 ^ 9" using c by (simp add: in_calendar_def pos_imp_zdiv_nonneg_iff)
  ultimately have "ts_IsValid (timestamppb_New t)" by (simp add: ts_IsValid_def timestamppb_New_def)
  then show ?thesis by (simp add: tsOf_def)
qed

lemma admitted_call_Inr: "carried (admitted_call v c w k) = Inr x \<Longrightarrow> k = Inr x"
  by (auto simp: admitted_call_def carried_def split: option.splits)

definition ops_offset :: "OpsServer \<Rightarrow> string \<Rightarrow> duration" where
  "ops_offset s i = (case gomap_get (os_ageOffset s) i of None \<Rightarrow> 0 | Some d \<Rightarrow> d)"

text \<open>The age a probe reports: what the record has accumulated, the injected staleness, and the injected skew.\<close>

definition reported_age :: "OpsServer \<Rightarrow> string \<Rightarrow> duration" where
  "reported_age s i = ops_offset s i + ch_staleBy (os_chaos s) + ch_clockSkew (os_chaos s)"

lemma probe_observes:
  assumes "fst (ops_ProbeFreshness (ops_client v s) tu ctx t i a) = Inr ob"
  shows "\<exists>k > 0. ob = observation_of (case ops_get s i t of None \<Rightarrow> \<lparr>gf_found = False, gf_freshness = None\<rparr>
      | Some r \<Rightarrow> \<lparr>gf_found = True, gf_freshness = Some (freshnessFor s (os_chaos s) (ov_now (v k) 0) r)\<rparr>)"
proof -
  obtain k where k: "0 < k" "(case oc_GetResourceFreshness (ops_client v s) k (ops_request ctx t [i] []) of
      Inl e \<Rightarrow> Inl (ops_classify e ''ProbeFreshness'') | Inr resp \<Rightarrow> Inr (observation_of resp)) = Inr ob"
    using assms by (auto simp: ops_ProbeFreshness_def dest!: exec_Call_Inr)
  then obtain resp where r: "carried (rpc_GetResourceFreshness (v k) t i s) = Inr resp" "ob = observation_of resp"
    by (auto simp: ops_client_def ops_request_def split: sum.splits)
  from r(1) have "resp = (case ops_get s i t of None \<Rightarrow> \<lparr>gf_found = False, gf_freshness = None\<rparr>
      | Some x \<Rightarrow> \<lparr>gf_found = True, gf_freshness = Some (freshnessFor s (os_chaos s) (ov_now (v k) 0) x)\<rparr>)"
    by (auto simp: rpc_GetResourceFreshness_def Let_def carried_def dest!: admitted_call_Inr[unfolded carried_def] split: if_splits)
  with k r show ?thesis by blast
qed

text \<open>The verdict on an observation of a given age, whatever the clock of the evaluation reads.\<close>

lemma Evaluate_of_age:
  assumes "ob_Found ob" "ob_LastUpdated ob \<noteq> 0" "ob_SourceTime ob \<noteq> 0" "ob_SourceTime ob - ob_LastUpdated ob = age"
    and "in_int64 age" "age \<noteq> minDuration"
  shows "ev_State (Evaluate ob ttl tol now) =
      (if age < 0 \<and> tol < - age then FreshnessUnknown else if 0 < ttl \<and> age \<le> ttl then FreshnessFresh else FreshnessStale)
    \<and> ev_Age (Evaluate ob ttl tol now) = max 0 age"
proof -
  have "time_Sub (ob_SourceTime ob) (ob_LastUpdated ob) = age" using assms(4,5) time_Sub_exact by auto
  then show ?thesis using assms(1-3,5,6) by (auto simp: Evaluate_def Let_def time_IsZero_def not_less max_def)
qed

lemma in_int64_neg: "in_int64 d \<Longrightarrow> d \<noteq> minDuration \<Longrightarrow> dur_neg d = - d"
  by simp

section \<open>Properties\<close>

text \<open>C38: The reference operational source starts and stays well-formed. Whatever calls its admin port receives, every key of the store is the
  id of its record, every record has an owner, a freshness and an age of 64 bits, and each seeded resource is still held for the tenant it
  was seeded for, and for no other.\<close>

theorem ops_server_well_formed:
  "ops_wf (fold (\<lambda>a s. snd (ops_adminRoutes a s)) reqs (ops_newServer now n))
   \<and> ops_owner (fold (\<lambda>a s. snd (ops_adminRoutes a s)) reqs (ops_newServer now n)) (seed_id i)
     = (if 1 \<le> i \<and> int i \<le> n then Some (tenantFor i) else None)"
proof -
  have "ops_owner (fold (\<lambda>a s. snd (ops_adminRoutes a s)) reqs s) = ops_owner s" for s
    by (induction reqs arbitrary: s) (simp_all add: ops_admin_owner)
  then show ?thesis using ops_server.run_inv[OF newServer_wf[of now n], of reqs] newServer_owner[of now n i] by simp
qed

text \<open>C29: The freshness of a probed record is its injected age. A probe of the reference source through the adapter that returns an observation of a
  held record evaluates, whatever the gateway's clock reads and however long the source has been running, to the age made
  of the record's offset, the injected staleness and the injected skew: fresh if that age is within the TTL, stale beyond it, unknown when it is
  negative beyond the tolerance. Without skew this is the documented effect of the \<^verbatim>\<open>stale_by_seconds\<close> and \<^verbatim>\<open>age\<close> controls. With skew it
  departs from \<^verbatim>\<open>spec/testing.md\<close> and \<^verbatim>\<open>spec/operational-source.md\<close>, which expect an unaffected age and UNKNOWN for a gross offset: the code shifts
  only \<^verbatim>\<open>server_time\<close>, so the skew counts as age (\<open>skew_counts_as_age\<close>).\<close>

theorem reference_probe_verdict:
  assumes "ops_wf s" "ops_get s i t = Some r" "fst (ops_ProbeFreshness (ops_client v s) tu ctx t i a) = Inr ob"
    and "\<forall>k. in_calendar (ov_now (v k) 0 - ops_offset s i - ch_staleBy (os_chaos s)) \<and> in_calendar (ov_now (v k) 0 + ch_clockSkew (os_chaos s))"
    and "ops_offset s i \<noteq> minDuration" "ch_staleBy (os_chaos s) \<noteq> minDuration" "in_int64 (reported_age s i)" "reported_age s i \<noteq> minDuration"
  shows "ev_State (Evaluate ob ttl tol now) =
      (if reported_age s i < 0 \<and> tol < - reported_age s i then FreshnessUnknown
       else if 0 < ttl \<and> reported_age s i \<le> ttl then FreshnessFresh else FreshnessStale)
    \<and> ev_Age (Evaluate ob ttl tol now) = max 0 (reported_age s i)"
proof -
  have g: "gomap_get (os_store s) i = Some r" using assms(2) by (auto simp: ops_get_def split: option.splits if_splits)
  note w = ops_wf_record[OF assms(1) g]
  have o: "in_int64 (ops_offset s i)" using w by (auto simp: ops_offset_def)
  have st: "in_int64 (ch_staleBy (os_chaos s))" using assms(1) by (simp add: ops_wf_def chaos_in_range_def)
  obtain k where k: "ob = observation_of \<lparr>gf_found = True, gf_freshness = Some (freshnessFor s (os_chaos s) (ov_now (v k) 0) r)\<rparr>"
    using probe_observes[OF assms(3)] assms(2) by auto
  let ?n = "ov_now (v k) 0"
  have fs: "freshnessFor s (os_chaos s) ?n r = \<lparr>fe_last_updated = Some (timestamppb_New (?n - ops_offset s i - ch_staleBy (os_chaos s))),
      fe_server_time = Some (timestamppb_New (?n + ch_clockSkew (os_chaos s))), fe_refresh_source = (case op_freshness r of None \<Rightarrow> [] | Some f \<Rightarrow> fe_refresh_source f),
      fe_version = (case op_freshness r of None \<Rightarrow> 0 | Some f \<Rightarrow> fe_version f)\<rparr>"
    using w in_int64_neg[OF o assms(5)] in_int64_neg[OF st assms(6)]
    by (simp add: freshnessFor_def time_Add_def ops_offset_def Let_def del: dur_neg_id)
  have c: "in_calendar (?n - ops_offset s i - ch_staleBy (os_chaos s))" "in_calendar (?n + ch_clockSkew (os_chaos s))" using assms(4) by auto
  have ob: "ob_Found ob" "ob_LastUpdated ob = ?n - ops_offset s i - ch_staleBy (os_chaos s)" "ob_SourceTime ob = ?n + ch_clockSkew (os_chaos s)"
    by (simp_all add: k fs observation_of_def tsOf_New[OF c(1)] tsOf_New[OF c(2)])
  show ?thesis
    by (rule Evaluate_of_age) (use ob c assms(7,8) in \<open>auto simp: in_calendar_def reported_age_def\<close>)
qed

definition demo_ops_cfg :: OperationalSourceConfig where
  "demo_ops_cfg = \<lparr>ops_Common = quiet_source, ops_Addr = ''ods:9101'', ops_DialTimeout = 0, ops_ProbeTimeout = 0, ops_KeepaliveTime = 0,
     ops_KeepaliveTimeout = 0, ops_MaxRecvMsgBytes = 0, ops_UseRoundRobin = False, ops_WaitForReadyCalls = False\<rparr>"

definition demo_ops :: OpsAdapter where
  "demo_ops = \<lparr>oa_exec = NewExecutor ''OPERATIONAL'' quiet_source 0, oa_accepted = None, oa_cfg = demo_ops_cfg, oa_lastErr = None\<rparr>"

definition demo_ops_env :: OpsEnv where
  "demo_ops_env = \<lparr>ov_now = \<lambda>_. 63900000000 * second, ov_draw = \<lambda>_. 0, ov_float = 0, ov_ctx = \<lambda>_. None\<rparr>"

definition stale_server :: OpsServer where
  "stale_server = (ops_newServer (63900000000 * second) 2)\<lparr>os_chaos := calm\<lparr>ch_staleBy := 120 * second\<rparr>\<rparr>"

abbreviation demo_probe :: "OpsServer \<Rightarrow> goerr + Observation" where
  "demo_probe s \<equiv> fst (ops_ProbeFreshness (ops_client (\<lambda>_. demo_ops_env) s) demo_turn background ''local'' ''R001'' demo_ops)"

lemma demo_probe_runs: "\<not> isl (demo_probe stale_server) \<and> ops_get stale_server ''R001'' ''local'' \<noteq> None
    \<and> reported_age stale_server ''R001'' = 125 * second \<and> ops_offset stale_server ''R001'' = 5 * second"
  by code_simp

text \<open>The documented scenario of a source two minutes stale: the record, five seconds old, is reported stale at 125 seconds.\<close>

theorem reference_probe_verdict_witness:
  "\<exists>ob. demo_probe stale_server = Inr ob \<and> ev_State (Evaluate ob (30 * second) (2 * second) (63900000000 * second)) = FreshnessStale
     \<and> ev_Age (Evaluate ob (30 * second) (2 * second) (63900000000 * second)) = 125 * second"
proof -
  note d = demo_probe_runs
  obtain ob where ob: "demo_probe stale_server = Inr ob" using d by (cases "demo_probe stale_server") auto
  obtain r where r: "ops_get stale_server ''R001'' ''local'' = Some r" using d by auto
  have wf: "ops_wf stale_server" using newServer_wf[of "63900000000 * second" 2]
    by (auto simp: stale_server_def ops_wf_def chaos_in_range_def calm_def in_int64_def minDuration_def maxDuration_def second_def)
  have ch: "os_chaos stale_server = calm\<lparr>ch_staleBy := 120 * second\<rparr>" by (simp add: stale_server_def)
  have "ev_State (Evaluate ob (30 * second) (2 * second) (63900000000 * second)) =
      (if reported_age stale_server ''R001'' < 0 \<and> 2 * second < - reported_age stale_server ''R001'' then FreshnessUnknown
       else if 0 < 30 * second \<and> reported_age stale_server ''R001'' \<le> 30 * second then FreshnessFresh else FreshnessStale)
    \<and> ev_Age (Evaluate ob (30 * second) (2 * second) (63900000000 * second)) = max 0 (reported_age stale_server ''R001'')"
    by (rule reference_probe_verdict[OF wf r ob])
      (use d in \<open>simp_all add: ch calm_def in_calendar_def demo_ops_env_def second_def secondsToEpoch_def minDuration_def maxDuration_def in_int64_def\<close>)
  with ob d show ?thesis by (simp add: second_def)
qed

text \<open>The reported clock ten minutes fast: the record, five seconds old, counts as stale by those ten minutes.\<close>

lemma skew_counts_as_age:
  "case demo_probe ((ops_newServer (63900000000 * second) 2)\<lparr>os_chaos := calm\<lparr>ch_clockSkew := 600 * second\<rparr>\<rparr>) of Inl _ \<Rightarrow> False
   | Inr ob \<Rightarrow> ev_State (Evaluate ob (30 * second) (2 * second) (63900000000 * second)) = FreshnessStale
       \<and> ev_Age (Evaluate ob (30 * second) (2 * second) (63900000000 * second)) = 605 * second"
  by code_simp

section \<open>Isolation of tenants\<close>

text \<open>Two states look alike to a tenant if it finds the same records, of the same ages, under the same chaos.\<close>

definition same_view :: "string \<Rightarrow> OpsServer \<Rightarrow> OpsServer \<Rightarrow> bool" where
  "same_view t s s' \<longleftrightarrow> os_chaos s = os_chaos s' \<and> (\<forall>i. ops_get s i t = ops_get s' i t)
     \<and> (\<forall>i r. ops_get s i t = Some r \<longrightarrow> ops_offset s (op_resource_id r) = ops_offset s' (op_resource_id r))"

lemma same_view_freshness: "same_view t s s' \<Longrightarrow> ops_get s i t = Some r \<Longrightarrow> freshnessFor s c n r = freshnessFor s' c n r"
  by (auto simp: same_view_def freshnessFor_def ops_offset_def Let_def)

lemma same_view_render: "same_view t s s' \<Longrightarrow> ops_get s i t = Some r \<Longrightarrow> ops_render s c n r = ops_render s' c n r"
  by (simp add: ops_render_def Let_def same_view_freshness)

lemma same_view_get: "same_view t s s' \<Longrightarrow> ops_get s' i t = ops_get s i t" "same_view t s s' \<Longrightarrow> os_chaos s' = os_chaos s"
  by (simp_all add: same_view_def)

lemma same_view_batch: "same_view t s s' \<Longrightarrow> ops_batch v t s' n ids = ops_batch v t s n ids"
  by (induction v t s n ids rule: ops_batch.induct) (auto simp: same_view_get same_view_render split: option.splits)

lemma same_view_rpcs:
  assumes "same_view t s s'"
  shows "rpc_GetResourceFreshness v t i s' = rpc_GetResourceFreshness v t i s" "rpc_GetResource v t i s' = rpc_GetResource v t i s"
    "rpc_GetResourceState v t i s' = rpc_GetResourceState v t i s" "rpc_BatchGetResources v t ids s' = rpc_BatchGetResources v t ids s"
  using same_view_get[OF assms] same_view_freshness[OF assms] same_view_render[OF assms] same_view_batch[OF assms]
  by (auto simp: rpc_GetResourceFreshness_def rpc_GetResource_def rpc_GetResourceState_def rpc_BatchGetResources_def Let_def split: option.split)

fun admin_target :: "ops_admin \<Rightarrow> string option" where
  "admin_target (OaTouch i) = Some i"
| "admin_target (OaAge i _) = Some i"
| "admin_target (OaInFlight i _) = Some i"
| "admin_target _ = None"

lemma admin_touches_target:
  "admin_target a = Some i \<Longrightarrow> j \<noteq> i \<Longrightarrow> gomap_get (os_store (snd (ops_adminRoutes a s))) j = gomap_get (os_store s) j
     \<and> gomap_get (os_ageOffset (snd (ops_adminRoutes a s))) j = gomap_get (os_ageOffset s) j"
  "admin_target a = Some i \<Longrightarrow> os_chaos (snd (ops_adminRoutes a s)) = os_chaos s"
  by (cases a; auto simp: ops_touch_def ops_age_def ops_in_flight_def Let_def split: option.splits)+

lemma foreign_admin_view:
  assumes "ops_wf s" "t \<noteq> []" "admin_target a = Some i" "ops_owner s i \<noteq> Some t"
  shows "same_view t s (snd (ops_adminRoutes a s))"
proof -
  let ?s = "snd (ops_adminRoutes a s)"
  have none: "ops_get x i t = None" if "ops_owner x i \<noteq> Some t" for x
    using that assms(2) by (auto simp: ops_get_def ops_owner_def split: option.splits)
  have "ops_get s i t = None" "ops_get ?s i t = None" using none assms(4) by (simp_all add: ops_admin_owner)
  moreover have "ops_get s j t = ops_get ?s j t" if "j \<noteq> i" for j
    using admin_touches_target(1)[OF assms(3) that, of s] by (simp add: ops_get_def)
  ultimately have g: "ops_get s j t = ops_get ?s j t" for j by (cases "j = i") auto
  moreover have "ops_offset s (op_resource_id r) = ops_offset ?s (op_resource_id r)" if "ops_get s j t = Some r" for j r
  proof -
    have "op_resource_id r = j" using that ops_wf_record[OF assms(1), of j r] by (auto simp: ops_get_def split: option.splits if_splits)
    moreover have "j \<noteq> i" using that \<open>ops_get s i t = None\<close> by auto
    ultimately show ?thesis using admin_touches_target(1)[OF assms(3), of j s] by (simp add: ops_offset_def)
  qed
  ultimately show ?thesis using admin_touches_target(2)[OF assms(3), of s] by (simp add: same_view_def)
qed

text \<open>Nothing done to another tenant's resource shows. Every RPC of the reference source answers a tenant the same after a resource it does
  not own was touched, aged or marked in flight: found or not, the record, its state, its freshness, the batch.\<close>

theorem foreign_changes_invisible:
  assumes "ops_wf s" "t \<noteq> []" "admin_target a = Some i" "ops_owner s i \<noteq> Some t" "s' = snd (ops_adminRoutes a s)"
  shows "rpc_GetResourceFreshness v t j s' = rpc_GetResourceFreshness v t j s \<and> rpc_GetResource v t j s' = rpc_GetResource v t j s
    \<and> rpc_GetResourceState v t j s' = rpc_GetResourceState v t j s \<and> rpc_BatchGetResources v t ids s' = rpc_BatchGetResources v t ids s"
  using same_view_rpcs[OF foreign_admin_view[OF assms(1-4)]] assms(5) by simp

theorem foreign_changes_invisible_witness:
  "let s' = snd (ops_adminRoutes (OaTouch ''R003'') (ops_newServer 0 3))
   in rpc_GetResource demo_ops_env ''local'' ''R003'' s' = rpc_GetResource demo_ops_env ''local'' ''R003'' (ops_newServer 0 3)"
proof -
  have "tenantFor 3 = ''acme''" "seed_id 3 = ''R003''" by code_simp+
  then have "ops_owner (ops_newServer 0 3) ''R003'' \<noteq> Some ''local''" using newServer_owner[of 0 3 3] by simp
  from foreign_changes_invisible[OF newServer_wf _ _ this refl, of "OaTouch ''R003''" demo_ops_env "''R003''" "[]"] show ?thesis by simp
qed

end
