(* ===== verification/ExSource.thy ===== *)
theory ExSource
  imports AdapterProps SourceKit
begin

text \<open>
  \<^verbatim>\<open>cmd/exsource/main.go\<close>: the reference execution source, an in-memory store of execution records behind the REST contract, with its chaos
  controls. The two maps of the code share arrays: \<^verbatim>\<open>byResource\<close> holds a slice per resource and \<^verbatim>\<open>byID\<close> holds pointers to
  elements of such arrays, so the model has a heap of arrays, a slice is an address and a pointer an address with an index. What a request meets is a
  record: draws of the random generator, whether its context ends during the injected delay, and whether the runtime can
  allocate a slice of a given capacity. \<open>fmt3339\<close> is \<^verbatim>\<open>Time.Format\<close> with the layout of RFC 3339. Process start-up, listeners and logging are not modelled.
\<close>

section \<open>State\<close>

record ExChaos =
  xc_baseLatency :: duration
  xc_jitter :: duration
  xc_failureRate :: rat
  xc_unavailable :: bool
  xc_malformed :: bool
  xc_schemaVer :: string

record ExServer =
  xs_arrays :: "EDSExecution list list"
  xs_byResource :: "nat gomap"
  xs_byID :: "(nat \<times> nat) gomap"
  xs_chaos :: ExChaos

text \<open>The slice of a resource; the slice of an unknown one is nil.\<close>

definition resource_slice :: "ExServer \<Rightarrow> string \<Rightarrow> EDSExecution list" where
  "resource_slice s rid = (case gomap_get (xs_byResource s) rid of None \<Rightarrow> [] | Some a \<Rightarrow> if a < length (xs_arrays s) then xs_arrays s ! a else [])"

definition deref :: "ExServer \<Rightarrow> nat \<times> nat \<Rightarrow> EDSExecution option" where
  "deref s p = (if fst p < length (xs_arrays s) \<and> snd p < length (xs_arrays s ! fst p) then Some (xs_arrays s ! fst p ! snd p) else None)"

text \<open>Storing a freshly allocated array as the slice of a resource and pointing the index at its elements, in order.\<close>

definition reindex :: "nat \<Rightarrow> EDSExecution list \<Rightarrow> (nat \<times> nat) gomap \<Rightarrow> (nat \<times> nat) gomap" where
  "reindex a xs m = fold (\<lambda>(k, e) m. gomap_put (ed_ExecutionID e) (a, k) m) (List.enumerate 0 xs) m"

definition store_slice :: "string \<Rightarrow> EDSExecution list \<Rightarrow> ExServer \<Rightarrow> ExServer" where
  "store_slice rid xs s = (let a = length (xs_arrays s) in
     s\<lparr>xs_arrays := xs_arrays s @ [xs], xs_byResource := gomap_put rid a (xs_byResource s), xs_byID := reindex a xs (xs_byID s)\<rparr>)"

section \<open>Seeding\<close>

definition edsStates :: "string list" where
  "edsStates = [''SUCCEEDED'', ''IN_PROGRESS'', ''ERRORED'', ''PENDING'', ''ABORTED'']"

definition edsOperations :: "string list" where
  "edsOperations = [''ACTIVATE'', ''SUSPEND'', ''RESIZE'', ''MIGRATE'', ''RECONFIGURE'']"

definition edsResultingStates :: "string list" where
  "edsResultingStates = [''LIVE'', ''PAUSED'', ''IMPAIRED'', ''BUILDING'', ''FAILED'']"

definition ex_tenantFor :: "nat \<Rightarrow> string" where
  "ex_tenantFor i = (if i mod 3 = 0 then ''acme'' else if i mod 3 = 1 then ''local'' else ''globex'')"

definition zero_Step :: EDSStep where
  "zero_Step = \<lparr>es_StepID = [], es_Label = [], es_Ordinal = 0, es_State = [], es_StartedAt = [], es_CompletedAt = [], es_Attempt = 0, es_Failure = None\<rparr>"

definition seed_execution :: "(time \<Rightarrow> string) \<Rightarrow> time \<Rightarrow> nat \<Rightarrow> nat \<Rightarrow> EDSExecution" where
  "seed_execution fmt3339 now i j =
     (let state = edsStates ! ((i + j) mod 5);
          operation = edsOperations ! ((i + j) mod 5);
          resourceID = ''R'' @ sprintf_d 3 i;
          started = time_Add now (- (int ((j + 1) * 17) * minute));
          completed = time_Add started (90 * second);
          terminal = (state \<noteq> ''IN_PROGRESS'' \<and> state \<noteq> ''PENDING'')
      in \<lparr>ed_ExecutionID = ''E'' @ sprintf_d 3 i @ ''-'' @ digits j, ed_TenantID = ex_tenantFor i, ed_ResourceID = resourceID,
          ed_CustomerID = ''C'' @ sprintf_d 3 (i mod 9 + 1), ed_Operation = operation, ed_State = state,
          ed_ResultingResourceState = edsResultingStates ! ((i + j) mod 5), ed_StartedAt = fmt3339 started, ed_ExecutedAt = fmt3339 started,
          ed_CompletedAt = (if terminal then fmt3339 completed else []), ed_UpdatedAt = fmt3339 completed,
          ed_WFSteps =
            [zero_Step\<lparr>es_StepID := ''validate'', es_Label := ''Validate request'', es_Ordinal := 1, es_State := ''SUCCEEDED'',
               es_StartedAt := fmt3339 started, es_CompletedAt := fmt3339 (time_Add started (5 * second)), es_Attempt := 1\<rparr>,
             zero_Step\<lparr>es_StepID := ''apply'', es_Label := ''Apply change'', es_Ordinal := 2, es_State := state,
               es_StartedAt := fmt3339 (time_Add started (5 * second)), es_Attempt := 1\<rparr>,
             zero_Step\<lparr>es_StepID := ''verify'', es_Label := ''Verify outcome'', es_Ordinal := 3, es_State := state,
               es_StartedAt := fmt3339 (time_Add started (60 * second)), es_Attempt := 1\<rparr>],
          ed_Actions = [\<lparr>ea_ActionID = ''a1'', ea_Kind = ''api.call'', ea_TargetRef = resourceID, ea_Result = ''ok'',
             ea_ExecutedAt = fmt3339 (time_Add started (10 * second)), ea_ExecutedBy = ''workflow-engine''\<rparr>],
          ed_Outcome = (if terminal then Some \<lparr>eo_OutcomeCode = state, eo_Narrative = operation @ '' completed with state '' @ state,
             eo_Attributes = [(''durationSeconds'', ''90'')]\<rparr> else None),
          ed_Failure = (if state = ''ERRORED'' then Some \<lparr>ef_FailureCode = ''DOWNSTREAM_REJECTED'',
             ef_Detail = ''the target system rejected the change'', ef_Transient = False, ef_AtStep = ''apply''\<rparr> else None),
          ed_Audit = [\<lparr>eu_Timestamp = fmt3339 started, eu_Actor = ''workflow-engine'', eu_Event = ''execution.started'', eu_Detail = []\<rparr>,
             \<lparr>eu_Timestamp = fmt3339 completed, eu_Actor = ''workflow-engine'', eu_Event = ''execution.'' @ strings_ToLower state, eu_Detail = []\<rparr>],
          ed_SchemaVersion = ''eds.v1''\<rparr>)"

text \<open>\<^verbatim>\<open>sort.SliceStable\<close> by descending \<^verbatim>\<open>UpdatedAt\<close>, compared as strings.\<close>

definition sort_newest :: "EDSExecution list \<Rightarrow> EDSExecution list" where
  "sort_newest xs = rev (sort_key ed_UpdatedAt (rev xs))"

definition ex_seed_step :: "(time \<Rightarrow> string) \<Rightarrow> time \<Rightarrow> nat \<Rightarrow> ExServer \<Rightarrow> ExServer" where
  "ex_seed_step fmt3339 now i s =
     store_slice (''R'' @ sprintf_d 3 i) (sort_newest (map (seed_execution fmt3339 now i) [0..<i mod 4 + 1])) s"

definition ex_seed :: "(time \<Rightarrow> string) \<Rightarrow> time \<Rightarrow> int \<Rightarrow> ExServer \<Rightarrow> ExServer" where
  "ex_seed fmt3339 now n s = fold (ex_seed_step fmt3339 now) [1..<nat n + 1] s"

definition ex_newServer :: "(time \<Rightarrow> string) \<Rightarrow> time \<Rightarrow> int \<Rightarrow> duration \<Rightarrow> ExServer" where
  "ex_newServer fmt3339 now n baseLatency = ex_seed fmt3339 now n
     \<lparr>xs_arrays = [], xs_byResource = [], xs_byID = [],
      xs_chaos = \<lparr>xc_baseLatency = baseLatency, xc_jitter = go_quot baseLatency 2, xc_failureRate = 0, xc_unavailable = False, xc_malformed = False,
        xc_schemaVer = ''eds.v1''\<rparr>\<rparr>"

section \<open>Serving\<close>

record ExEnv =
  xv_draw :: "int \<Rightarrow> int"
  xv_ctxDone :: "duration \<Rightarrow> bool"
  xv_float :: rat
  xv_allocates :: "int \<Rightarrow> bool"

text \<open>What a handler leaves behind: nothing written, which the server sends as an empty 200; an error document; a body; or a panic, on which the
  server closes the connection.\<close>

datatype 'm ex_reply = XNothing | XError int string | XBody 'm | XPanic

definition ex_render :: "ExServer \<Rightarrow> bool \<Rightarrow> EDSExecution \<Rightarrow> EDSExecution" where
  "ex_render s includeAudit e =
     (let e = e\<lparr>ed_SchemaVersion := xc_schemaVer (xs_chaos s)\<rparr>;
          e = (if \<not> includeAudit then e\<lparr>ed_Audit := []\<rparr> else e)
      in if xc_malformed (xs_chaos s) then e\<lparr>ed_ExecutionID := []\<rparr> else e)"

text \<open>\<^verbatim>\<open>admit\<close>: \<open>None\<close> when the request is to be served.\<close>

definition admit :: "ExEnv \<Rightarrow> ExServer \<Rightarrow> 'm ex_reply option" where
  "admit v s =
     (let c = xs_chaos s in
      if xc_unavailable c then Some (XError 503 ''execution source is unavailable'')
      else let d = (if xc_jitter c > 0 then dur_add (xc_baseLatency c) (xv_draw v (xc_jitter c)) else xc_baseLatency c) in
        if d > 0 \<and> xv_ctxDone v d then Some XNothing
        else if xc_failureRate c > 0 \<and> xv_float v < xc_failureRate c then Some (XError 502 ''transient execution source failure'')
        else None)"

definition ex_health :: "ExServer \<Rightarrow> string ex_reply" where
  "ex_health s = (let c = xs_chaos s in
     if xc_unavailable c then XError 503 ''unavailable'' else if xc_failureRate c > 0 then XBody ''degraded'' else XBody ''ok'')"

definition of_query :: "string gomap \<Rightarrow> string \<Rightarrow> string" where
  "of_query q k = (case gomap_get q k of None \<Rightarrow> [] | Some v \<Rightarrow> v)"

definition visible_to :: "string \<Rightarrow> EDSExecution \<Rightarrow> bool" where
  "visible_to tenant e \<longleftrightarrow> \<not> (tenant \<noteq> [] \<and> ed_TenantID e \<noteq> tenant)"

definition query_int :: "string \<Rightarrow> (int \<Rightarrow> bool) \<Rightarrow> int \<Rightarrow> int" where
  "query_int v ok dflt = (if v \<noteq> [] then (case Atoi v of Some n \<Rightarrow> if ok n then n else dflt | None \<Rightarrow> dflt) else dflt)"

definition ex_list :: "ExEnv \<Rightarrow> string gomap \<Rightarrow> ExServer \<Rightarrow> EDSExecutionPage ex_reply" where
  "ex_list v q s =
     (case admit v s of Some r \<Rightarrow> r
      | None \<Rightarrow>
          let tenant = of_query q ''tenantId''; resourceID = of_query q ''resourceId'' in
          if resourceID = [] then XError 400 ''resourceId is required''
          else
           let limit = query_int (of_query q ''limit'') (\<lambda>n. n > 0) 25;
               offset = query_int (of_query q ''cursor'') (\<lambda>n. n \<ge> 0) 0;
               includeAudit = (of_query q ''includeAudit'' = ''true'')
           in if \<not> xv_allocates v limit then XPanic
              else
               let items = map (ex_render s includeAudit) (filter (visible_to tenant) (resource_slice s resourceID));
                   total = int (length items);
                   offset = (if offset > total then total else offset);
                   end' = min (wrap64 (offset + limit)) total
               in if end' < offset then XPanic
                  else XBody \<lparr>ep_Items = take (nat (end' - offset)) (drop (nat offset) items), ep_TotalCount = total,
                         ep_NextCursor = (if end' < total then strconv_Itoa end' else [])\<rparr>)"

definition ex_get :: "ExEnv \<Rightarrow> string \<Rightarrow> string gomap \<Rightarrow> ExServer \<Rightarrow> EDSExecution ex_reply" where
  "ex_get v executionID q s =
     (case admit v s of Some r \<Rightarrow> r
      | None \<Rightarrow>
          let tenant = of_query q ''tenantId''; includeAudit = (of_query q ''includeAudit'' = ''true'') in
          (case gomap_get (xs_byID s) executionID of None \<Rightarrow> XError 404 ''execution not found''
           | Some p \<Rightarrow> (case deref s p of None \<Rightarrow> XPanic
               | Some rec \<Rightarrow> if tenant \<noteq> [] \<and> ed_TenantID rec \<noteq> tenant then XError 404 ''execution not found''
                   else XBody (ex_render s includeAudit rec))))"

definition ex_latest :: "ExEnv \<Rightarrow> string \<Rightarrow> string gomap \<Rightarrow> ExServer \<Rightarrow> EDSExecution ex_reply" where
  "ex_latest v resourceID q s =
     (case admit v s of Some r \<Rightarrow> r
      | None \<Rightarrow>
          (case find (visible_to (of_query q ''tenantId'')) (resource_slice s resourceID) of
             Some e \<Rightarrow> XBody (ex_render s False e)
           | None \<Rightarrow> XError 404 ''no executions for this resource''))"

section \<open>The admin surface\<close>

record ExChaosBody =
  xb_BaseLatencyMS :: "int option"
  xb_JitterMS :: "int option"
  xb_FailureRate :: "rat option"
  xb_Unavailable :: "bool option"
  xb_Malformed :: "bool option"
  xb_SchemaVersion :: "string option"

definition ex_put_chaos :: "ExChaosBody \<Rightarrow> ExChaos \<Rightarrow> ExChaos" where
  "ex_put_chaos b c =
     given (xb_SchemaVersion b) (\<lambda>x c. c\<lparr>xc_schemaVer := x\<rparr>) (given (xb_Malformed b) (\<lambda>x c. c\<lparr>xc_malformed := x\<rparr>)
     (given (xb_Unavailable b) (\<lambda>x c. c\<lparr>xc_unavailable := x\<rparr>) (given (xb_FailureRate b) (\<lambda>x c. c\<lparr>xc_failureRate := x\<rparr>)
     (given (xb_JitterMS b) (\<lambda>x c. c\<lparr>xc_jitter := wrap64 (x * millisecond)\<rparr>)
     (given (xb_BaseLatencyMS b) (\<lambda>x c. c\<lparr>xc_baseLatency := wrap64 (x * millisecond)\<rparr>) c)))))"

definition ex_reset_chaos :: "ExChaos \<Rightarrow> ExChaos" where
  "ex_reset_chaos c = c\<lparr>xc_baseLatency := 120 * millisecond, xc_jitter := 60 * millisecond, xc_failureRate := 0, xc_unavailable := False,
     xc_malformed := False, xc_schemaVer := ''eds.v1''\<rparr>"

record ExChaosView =
  xw_base_latency_ms :: int
  xw_jitter_ms :: int
  xw_failure_rate :: rat
  xw_unavailable :: bool
  xw_malformed :: bool
  xw_schema_version :: string

definition ex_view_chaos :: "ExChaos \<Rightarrow> ExChaosView" where
  "ex_view_chaos c = \<lparr>xw_base_latency_ms = dur_Milliseconds (xc_baseLatency c), xw_jitter_ms = dur_Milliseconds (xc_jitter c),
     xw_failure_rate = xc_failureRate c, xw_unavailable = xc_unavailable c, xw_malformed = xc_malformed c, xw_schema_version = xc_schemaVer c\<rparr>"

definition default_to :: "string \<Rightarrow> string \<Rightarrow> string" where
  "default_to d v = (if v = [] then d else v)"

definition unixNano :: "time \<Rightarrow> int" where
  "unixNano t = wrap64 (t - secondsToEpoch * 10 ^ 9)"

definition started_execution :: "(time \<Rightarrow> string) \<Rightarrow> time \<Rightarrow> string \<Rightarrow> string gomap \<Rightarrow> EDSExecution" where
  "started_execution fmt3339 now resourceID q =
    \<lparr>ed_ExecutionID = ''E-'' @ strconv_Itoa (unixNano now), ed_TenantID = default_to ''local'' (of_query q ''tenantId''), ed_ResourceID = resourceID, ed_CustomerID = [],
     ed_Operation = default_to ''RECONFIGURE'' (of_query q ''operation''), ed_State = default_to ''IN_PROGRESS'' (of_query q ''state''),
     ed_ResultingResourceState = default_to ''BUILDING'' (of_query q ''resultingState''), ed_StartedAt = fmt3339 now, ed_ExecutedAt = [], ed_CompletedAt = [],
     ed_UpdatedAt = fmt3339 now, ed_WFSteps = [], ed_Actions = [], ed_Outcome = None, ed_Failure = None, ed_Audit = [], ed_SchemaVersion = ''eds.v1''\<rparr>"

definition ex_start :: "(time \<Rightarrow> string) \<Rightarrow> time \<Rightarrow> string \<Rightarrow> string gomap \<Rightarrow> ExServer \<Rightarrow> EDSExecution \<times> ExServer" where
  "ex_start fmt3339 now resourceID q s =
     (let rec = started_execution fmt3339 now resourceID q in (rec, store_slice resourceID (rec # resource_slice s resourceID) s))"

datatype ex_admin = XaHealthz | XaLivez | XaReadyz | XaGetChaos | XaPutChaos "string + ExChaosBody" | XaDeleteChaos | XaStart time string "string gomap"

datatype ex_admin_reply = XrStatus string | XrError int string | XrChaos ExChaosView | XrCreated EDSExecution

fun ex_adminRoutes :: "(time \<Rightarrow> string) \<Rightarrow> ex_admin \<Rightarrow> ExServer \<Rightarrow> ex_admin_reply \<times> ExServer" where
  "ex_adminRoutes f XaHealthz s = (XrStatus ''ok'', s)"
| "ex_adminRoutes f XaLivez s = (XrStatus ''alive'', s)"
| "ex_adminRoutes f XaReadyz s = (XrStatus ''ready'', s)"
| "ex_adminRoutes f XaGetChaos s = (XrChaos (ex_view_chaos (xs_chaos s)), s)"
| "ex_adminRoutes f (XaPutChaos body) s =
     (case body of Inl e \<Rightarrow> (XrError 400 e, s) | Inr b \<Rightarrow> (XrStatus ''updated'', s\<lparr>xs_chaos := ex_put_chaos b (xs_chaos s)\<rparr>))"
| "ex_adminRoutes f XaDeleteChaos s = (XrStatus ''reset'', s\<lparr>xs_chaos := ex_reset_chaos (xs_chaos s)\<rparr>)"
| "ex_adminRoutes f (XaStart now rid q) s = (case ex_start f now rid q s of (rec, s') \<Rightarrow> (XrCreated rec, s'))"

section \<open>The index agrees with the lists\<close>

definition slice_ok :: "ExServer \<Rightarrow> string \<times> nat \<Rightarrow> bool" where
  "slice_ok s p \<longleftrightarrow> snd p < length (xs_arrays s) \<and>
     list_all (\<lambda>e. ed_ResourceID e = fst p \<and> ed_ExecutionID e \<noteq> [] \<and> ed_ExecutionID e \<in> fst ` set (xs_byID s)) (xs_arrays s ! snd p)"

definition pointer_ok :: "ExServer \<Rightarrow> string \<times> nat \<times> nat \<Rightarrow> bool" where
  "pointer_ok s p \<longleftrightarrow> fst (snd p) \<in> snd ` set (xs_byResource s) \<and> map_option ed_ExecutionID (deref s (snd p)) = Some (fst p)"

definition ex_wf :: "ExServer \<Rightarrow> bool" where
  "ex_wf s \<longleftrightarrow> distinct (map fst (xs_byResource s)) \<and> distinct (map fst (xs_byID s)) \<and> list_all (slice_ok s) (xs_byResource s) \<and> list_all (pointer_ok s) (xs_byID s)"

lemma gomap_put_mem: "distinct (map fst m) \<Longrightarrow> p \<in> set (gomap_put k v m) \<longleftrightarrow> p = (k, v) \<or> fst p \<noteq> k \<and> p \<in> set m"
  unfolding gomap_put_def by (induction m) (auto simp: image_iff)

lemma reindex_Nil: "reindex a [] m = m"
  by (simp add: reindex_def)

lemma reindex_snoc: "reindex a (xs @ [x]) m = gomap_put (ed_ExecutionID x) (a, length xs) (reindex a xs m)"
  by (simp add: reindex_def enumerate_append_eq)

lemma reindex_distinct: "distinct (map fst m) \<Longrightarrow> distinct (map fst (reindex a xs m))"
  by (induction xs rule: rev_induct) (simp_all add: reindex_Nil reindex_snoc)

lemma reindex_keys: "fst ` set (reindex a xs m) = ed_ExecutionID ` set xs \<union> fst ` set m"
  by (induction xs rule: rev_induct) (simp_all add: reindex_Nil reindex_snoc gomap_put_def dom_update)

lemma reindex_mem:
  "distinct (map fst m) \<Longrightarrow> (i, p) \<in> set (reindex a xs m) \<Longrightarrow>
     (\<exists>k < length xs. p = (a, k) \<and> ed_ExecutionID (xs ! k) = i) \<or> i \<notin> ed_ExecutionID ` set xs \<and> (i, p) \<in> set m"
proof (induction xs rule: rev_induct)
  case Nil
  then show ?case by (simp add: reindex_Nil)
next
  case (snoc x xs)
  from snoc.prems(2) have "i = ed_ExecutionID x \<and> p = (a, length xs) \<or> i \<noteq> ed_ExecutionID x \<and> (i, p) \<in> set (reindex a xs m)"
    by (simp add: reindex_snoc gomap_put_mem[OF reindex_distinct[OF snoc.prems(1)]])
  then show ?case
  proof
    assume "i = ed_ExecutionID x \<and> p = (a, length xs)"
    then show ?thesis by (intro disjI1 exI[of _ "length xs"]) simp
  next
    assume i: "i \<noteq> ed_ExecutionID x \<and> (i, p) \<in> set (reindex a xs m)"
    from snoc.IH[OF snoc.prems(1)] i show ?thesis by (force simp: nth_append)
  qed
qed

lemma slice_mem: "ex_wf s \<Longrightarrow> (rid, a) \<in> set (xs_byResource s) \<Longrightarrow> resource_slice s rid = xs_arrays s ! a \<and> slice_ok s (rid, a)"
  by (auto simp: ex_wf_def list_all_iff slice_ok_def resource_slice_def gomap_get_of_set)

text \<open>Replacing the slice of a resource by one that keeps its ids keeps the agreement: a pointer into the old array is replaced with the rest.\<close>

lemma store_slice_wf:
  assumes wf: "ex_wf s" and own: "\<forall>e \<in> set xs. ed_ResourceID e = rid \<and> ed_ExecutionID e \<noteq> []"
    and keep: "ed_ExecutionID ` set (resource_slice s rid) \<subseteq> ed_ExecutionID ` set xs"
  shows "ex_wf (store_slice rid xs s)"
proof -
  let ?a = "length (xs_arrays s)" and ?s = "store_slice rid xs s"
  have d: "distinct (map fst (xs_byResource s))" "distinct (map fst (xs_byID s))" using wf by (simp_all add: ex_wf_def)
  have flds: "xs_arrays ?s = xs_arrays s @ [xs]" "xs_byResource ?s = gomap_put rid ?a (xs_byResource s)" "xs_byID ?s = reindex ?a xs (xs_byID s)"
    by (simp_all add: store_slice_def Let_def)
  have sl: "slice_ok ?s p" if "p \<in> set (xs_byResource ?s)" for p
  proof (cases "p = (rid, ?a)")
    case True
    then show ?thesis using own by (auto simp: slice_ok_def flds reindex_keys list_all_iff)
  next
    case False
    then have "p \<in> set (xs_byResource s)" using that by (simp add: flds gomap_put_mem[OF d(1)])
    then have "slice_ok s p" using wf by (simp add: ex_wf_def list_all_iff)
    then show ?thesis by (auto simp: slice_ok_def flds reindex_keys list_all_iff nth_append)
  qed
  have po: "pointer_ok ?s (i, p)" if "(i, p) \<in> set (xs_byID ?s)" for i p
  proof -
    from reindex_mem[OF d(2), of i p ?a xs] that consider (new) k where "k < length xs" "p = (?a, k)" "ed_ExecutionID (xs ! k) = i"
      | (old) "i \<notin> ed_ExecutionID ` set xs" "(i, p) \<in> set (xs_byID s)" by (auto simp: flds)
    then show ?thesis
    proof cases
      case new
      have "(rid, ?a) \<in> set (xs_byResource ?s)" by (simp add: flds gomap_put_mem[OF d(1)])
      then have "?a \<in> snd ` set (xs_byResource ?s)" by force
      with new show ?thesis by (simp add: pointer_ok_def deref_def flds)
    next
      case old
      then have ok: "pointer_ok s (i, p)" using wf by (auto simp: ex_wf_def list_all_iff)
      then obtain r where r: "(r, fst p) \<in> set (xs_byResource s)" by (force simp: pointer_ok_def)
      have p: "fst p < ?a" "snd p < length (xs_arrays s ! fst p)" "ed_ExecutionID (xs_arrays s ! fst p ! snd p) = i"
        using ok by (auto simp: pointer_ok_def deref_def split: if_splits)
      have "r \<noteq> rid"
      proof
        assume "r = rid"
        then have "xs_arrays s ! fst p ! snd p \<in> set (resource_slice s rid)" using slice_mem[OF wf r] p(2) by simp
        then show False using keep old(1) p(3) by blast
      qed
      then have "(r, fst p) \<in> set (xs_byResource ?s)" using r by (simp add: flds gomap_put_mem[OF d(1)])
      then have "fst p \<in> snd ` set (xs_byResource ?s)" by force
      with p show ?thesis by (simp add: pointer_ok_def deref_def flds nth_append)
    qed
  qed
  show ?thesis unfolding ex_wf_def list_all_iff
    using sl po d by (auto simp: flds reindex_distinct)
qed

lemma resource_slice_wf: "ex_wf s \<Longrightarrow> \<forall>e \<in> set (resource_slice s rid). ed_ResourceID e = rid \<and> ed_ExecutionID e \<noteq> []"
proof (cases "gomap_get (xs_byResource s) rid")
  case (Some a)
  moreover assume "ex_wf s"
  ultimately show ?thesis using slice_mem[of s rid a] gomap_get_in_set[OF Some] by (auto simp: slice_ok_def list_all_iff)
qed (simp add: resource_slice_def)

lemma resource_slice_store:
  assumes "ex_wf s"
  shows "resource_slice (store_slice rid xs s) r = (if r = rid then xs else resource_slice s r)"
proof -
  have "a < length (xs_arrays s)" if "gomap_get (xs_byResource s) r = Some a" for a
    using slice_mem[OF assms gomap_get_in_set[OF that]] by (simp add: slice_ok_def)
  then show ?thesis by (auto simp: resource_slice_def store_slice_def Let_def nth_append split: option.split)
qed

lemma ex_start_wf: "ex_wf s \<Longrightarrow> ex_wf (snd (ex_start f now rid q s))"
  unfolding ex_start_def Let_def snd_conv
  by (rule store_slice_wf) (auto simp: started_execution_def dest: resource_slice_wf)

lemma ex_wf_chaos [simp]: "ex_wf (s\<lparr>xs_chaos := c\<rparr>) = ex_wf s"
proof -
  have "slice_ok (s\<lparr>xs_chaos := c\<rparr>) = slice_ok s" "pointer_ok (s\<lparr>xs_chaos := c\<rparr>) = pointer_ok s"
    by (simp_all add: fun_eq_iff slice_ok_def pointer_ok_def deref_def)
  then show ?thesis by (simp add: ex_wf_def)
qed

lemma ex_admin_wf: "ex_wf s \<Longrightarrow> ex_wf (snd (ex_adminRoutes f a s))"
proof (cases a)
  case (XaStart now rid q)
  then show "ex_wf s \<Longrightarrow> ?thesis" using ex_start_wf[of s f now rid q] by (cases "ex_start f now rid q s") simp
qed (auto split: sum.splits)

interpretation ex_server: guarded_component "\<lambda>a s. snd (ex_adminRoutes f a s)" ex_wf
  by unfold_locales (rule ex_admin_wf)

lemma sort_newest_set [simp]: "set (sort_newest xs) = set xs"
  by (simp add: sort_newest_def)

lemma seed_execution_ids: "ed_ResourceID (seed_execution f now i j) = ''R'' @ sprintf_d 3 i" "ed_ExecutionID (seed_execution f now i j) \<noteq> []"
  "ed_TenantID (seed_execution f now i j) = ex_tenantFor i"
  by (simp_all add: seed_execution_def Let_def)

lemma ex_seed_wf: "ex_wf s \<Longrightarrow> \<forall>i \<in> set is. resource_slice s (''R'' @ sprintf_d 3 i) = [] \<Longrightarrow> distinct is \<Longrightarrow> ex_wf (fold (ex_seed_step f now) is s)"
proof (induction "is" arbitrary: s)
  case (Cons i "is")
  have "ex_wf (ex_seed_step f now i s)"
    unfolding ex_seed_step_def by (rule store_slice_wf[OF Cons.prems(1)]) (use Cons.prems(2) in \<open>auto simp: seed_execution_ids\<close>)
  moreover have "\<forall>j \<in> set is. resource_slice (ex_seed_step f now i s) (''R'' @ sprintf_d 3 j) = []"
    using Cons.prems by (auto simp: ex_seed_step_def resource_slice_store)
  ultimately show ?case using Cons.IH Cons.prems(3) by simp
qed simp

lemma ex_newServer_wf: "ex_wf (ex_newServer f now n lat)"
  unfolding ex_newServer_def ex_seed_def
  by (rule ex_seed_wf) (simp_all add: ex_wf_def resource_slice_def)

section \<open>Pages\<close>

text \<open>A reader that asks for page after page, each time with the cursor of the page before, at most \<open>fuel\<close> times.\<close>

fun follow_cursor :: "nat \<Rightarrow> (string \<Rightarrow> EDSExecutionPage ex_reply) \<Rightarrow> string \<Rightarrow> EDSExecution list option" where
  "follow_cursor 0 ask cur = None"
| "follow_cursor (Suc fuel) ask cur =
     (case ask cur of
        XBody p \<Rightarrow> if ep_NextCursor p = [] then Some (ep_Items p) else map_option ((@) (ep_Items p)) (follow_cursor fuel ask (ep_NextCursor p))
      | _ \<Rightarrow> None)"

definition visible_history :: "ExServer \<Rightarrow> string \<Rightarrow> string \<Rightarrow> bool \<Rightarrow> EDSExecution list" where
  "visible_history s tenant rid audit = map (ex_render s audit) (filter (visible_to tenant) (resource_slice s rid))"

text \<open>What the adapter's query asks for.\<close>

lemma of_list_query:
  "of_query (list_query t rid n pg opts) ''tenantId'' = t" "of_query (list_query t rid n pg opts) ''resourceId'' = rid"
  "of_query (list_query t rid n pg opts) ''limit'' = itoa n" "of_query (list_query t rid n pg opts) ''cursor'' = pg_Cursor pg"
  "of_query (list_query t rid n pg opts) ''includeAudit'' = (if ro_IncludeAudit opts then ''true'' else [])"
  by (simp_all add: of_query_def list_query_def Let_def gomap_put_def)

lemma ex_list_page:
  assumes "admit v s = (None :: EDSExecutionPage ex_reply option)" "rid \<noteq> []" "0 < n" "n < 2 ^ 62" "xv_allocates v n"
    and "int (length (visible_history s t rid (ro_IncludeAudit opts))) < 2 ^ 62" "0 \<le> off" "off \<le> int (length (visible_history s t rid (ro_IncludeAudit opts)))"
    and "pg_Cursor pg = (if off = 0 then [] else strconv_Itoa off)"
  shows "ex_list v (list_query t rid n pg opts) s =
    (let all = visible_history s t rid (ro_IncludeAudit opts); e = min (off + n) (int (length all))
     in XBody \<lparr>ep_Items = take (nat (e - off)) (drop (nat off) all), ep_TotalCount = int (length all),
          ep_NextCursor = (if e < int (length all) then strconv_Itoa e else [])\<rparr>)"
proof -
  let ?q = "list_query t rid n pg opts" and ?all = "visible_history s t rid (ro_IncludeAudit opts)"
  have l: "query_int (of_query ?q ''limit'') (\<lambda>n. n > 0) 25 = n"
    using assms(3,4) by (simp add: of_list_query query_int_def itoa_Itoa Atoi_Itoa)
  have o: "query_int (of_query ?q ''cursor'') (\<lambda>n. n \<ge> 0) 0 = off"
    using assms(6-9) by (auto simp: of_list_query query_int_def Atoi_Itoa)
  have w: "wrap64 (off + n) = off + n" using assms(3,4,6-8) by (intro wrap64_id in_int64_small) (simp_all add: maxDuration_def)
  have a: "(of_query ?q ''includeAudit'' = ''true'') = ro_IncludeAudit opts" by (simp add: of_list_query)
  have h: "map (ex_render s (of_query ?q ''includeAudit'' = ''true'')) (filter (visible_to (of_query ?q ''tenantId'')) (resource_slice s (of_query ?q ''resourceId''))) = ?all"
    by (simp add: visible_history_def a of_list_query)
  show ?thesis using assms(1,2,3,5,7,8) w unfolding ex_list_def Let_def h l o
    by (simp add: of_list_query)
qed

lemma follow_from:
  assumes "admit v s = (None :: EDSExecutionPage ex_reply option)" "rid \<noteq> []" "0 < n" "n < 2 ^ 62" "xv_allocates v n"
    and "int (length (visible_history s t rid (ro_IncludeAudit opts))) < 2 ^ 62" "0 \<le> off" "off \<le> int (length (visible_history s t rid (ro_IncludeAudit opts)))"
    and "int (length (visible_history s t rid (ro_IncludeAudit opts))) - off \<le> int fuel * n" "0 < fuel"
  shows "follow_cursor fuel (\<lambda>c. ex_list v (list_query t rid n \<lparr>pg_Limit = n, pg_Cursor = c\<rparr> opts) s) (if off = 0 then [] else strconv_Itoa off)
    = Some (drop (nat off) (visible_history s t rid (ro_IncludeAudit opts)))"
  using assms(7-10)
proof (induction fuel arbitrary: off)
  case (Suc fuel)
  let ?all = "visible_history s t rid (ro_IncludeAudit opts)" and ?ask = "\<lambda>c. ex_list v (list_query t rid n \<lparr>pg_Limit = n, pg_Cursor = c\<rparr> opts) s"
  note pg = ex_list_page[OF assms(1-6) Suc.prems(1,2), of "\<lparr>pg_Limit = n, pg_Cursor = if off = 0 then [] else strconv_Itoa off\<rparr>", simplified]
  show ?case
  proof (cases "off + n < int (length ?all)")
    case False
    then show ?thesis by (simp add: pg Let_def)
  next
    case True
    then have "0 < fuel" using Suc.prems(3) by (cases fuel) auto
    then have ih: "follow_cursor fuel ?ask (strconv_Itoa (off + n)) = Some (drop (nat (off + n)) ?all)"
      using Suc.IH[of "off + n"] Suc.prems(1,3) assms(3) True by (simp add: algebra_simps)
    have "take (nat n) (drop (nat off) ?all) @ drop (nat (off + n)) ?all = drop (nat off) ?all"
      using Suc.prems(1) assms(3) by (metis append_take_drop_id drop_drop nat_add_distrib add.commute less_imp_le)
    then show ?thesis using True by (simp add: pg Let_def ih min_def)
  qed
qed simp

lemma index_sound:
  assumes wf: "ex_wf s" and i: "gomap_get (xs_byID s) i = Some p"
  shows "\<exists>e. deref s p = Some e \<and> ed_ExecutionID e = i \<and> e \<in> set (resource_slice s (ed_ResourceID e))"
proof -
  have ok: "pointer_ok s (i, p)" using wf gomap_get_in_set[OF i] by (auto simp: ex_wf_def list_all_iff)
  then obtain rid where r: "(rid, fst p) \<in> set (xs_byResource s)" by (force simp: pointer_ok_def)
  obtain e where e: "deref s p = Some e" "ed_ExecutionID e = i" using ok by (auto simp: pointer_ok_def)
  then have "e \<in> set (xs_arrays s ! fst p)" by (auto simp: deref_def split: if_splits)
  then show ?thesis using e slice_mem[OF wf r] by (auto simp: slice_ok_def list_all_iff)
qed

section \<open>The server behind the adapter's client\<close>

text \<open>The routes of the public port, on the segments of a path that needs no cleaning; a wildcard does not match an empty segment.\<close>

datatype ex_route = RtHealth | RtList | RtGet string | RtLatest string | RtNone

definition route_of :: "string \<Rightarrow> ex_route" where
  "route_of path =
     (let segs = split_on CHR ''/'' path [] in
      if segs = [[], ''eds'', ''v1'', ''health''] then RtHealth
      else if segs = [[], ''eds'', ''v1'', ''executions''] then RtList
      else if length segs = 5 \<and> take 4 segs = [[], ''eds'', ''v1'', ''executions''] \<and> segs ! 4 \<noteq> [] then RtGet (PathUnescape (segs ! 4))
      else if length segs = 6 \<and> take 4 segs = [[], ''eds'', ''v1'', ''resources''] \<and> segs ! 4 \<noteq> [] \<and> segs ! 5 = ''latest-execution''
      then RtLatest (PathUnescape (segs ! 4)) else RtNone)"

text \<open>What the HTTP client receives. The wire structs survive encoding and decoding; the body of an error is never read.\<close>

definition received :: "'m ex_reply \<Rightarrow> 'm http_reply" where
  "received r = (case r of
     XNothing \<Rightarrow> Responded 200 [] JsonEOF
   | XError st msg \<Rightarrow> Responded st [] (JsonMalformed (Opaque msg None))
   | XBody m \<Rightarrow> Responded 200 [] (JsonDecoded m)
   | XPanic \<Rightarrow> TransportFailed (Opaque ''EOF'' None) False)"

definition ex_client :: "(nat \<Rightarrow> ExEnv) \<Rightarrow> ExServer \<Rightarrow> EdsClient" where
  "ex_client v s = \<lparr>
     ec_execution = \<lambda>k q. received (case route_of (eq_Path q) of RtGet i \<Rightarrow> ex_get (v k) i (eq_Query q) s | RtLatest r \<Rightarrow> ex_latest (v k) r (eq_Query q) s
        | _ \<Rightarrow> XError 404 ''404 page not found''),
     ec_page = \<lambda>k q. received (case route_of (eq_Path q) of RtList \<Rightarrow> ex_list (v k) (eq_Query q) s | _ \<Rightarrow> XError 404 ''404 page not found''),
     ec_health = \<lambda>q. received (case route_of (eq_Path q) of RtHealth \<Rightarrow> ex_health s | _ \<Rightarrow> XError 404 ''404 page not found'')\<rparr>"

lemma safe_id_segment: "safe_id i \<Longrightarrow> i \<noteq> [] \<and> CHR ''/'' \<notin> set i \<and> PathUnescape i = i"
proof -
  assume s: "safe_id i"
  have "\<not> id_char CHR ''/''" "\<not> id_char CHR ''%''" by (simp_all add: id_char_def)
  then have "CHR ''/'' \<notin> set i" "CHR ''%'' \<notin> set i" using s by (auto simp: safe_id_def list_all_iff)
  then show ?thesis using s by (auto simp: safe_id_def PathUnescape_id)
qed

lemma route_get: "safe_id i \<Longrightarrow> route_of (''/eds/v1/executions/'' @ i) = RtGet i"
proof -
  assume s: "safe_id i"
  have "split_on CHR ''/'' (''/eds/v1/executions/'' @ i) [] = [[], ''eds'', ''v1'', ''executions'', i]"
    using safe_id_segment[OF s] by (simp add: split_on_last)
  then show ?thesis using safe_id_segment[OF s] by (simp add: route_of_def Let_def)
qed

lemma route_latest: "safe_id i \<Longrightarrow> route_of (''/eds/v1/resources/'' @ i @ ''/latest-execution'') = RtLatest i"
proof -
  assume s: "safe_id i"
  have "split_on CHR ''/'' (i @ ''/latest-execution'') [] = [i, ''latest-execution'']"
    using split_on_append[of "CHR ''/''" i "''latest-execution''" "[]"] safe_id_segment[OF s] by simp
  then have "split_on CHR ''/'' (''/eds/v1/resources/'' @ i @ ''/latest-execution'') [] = [[], ''eds'', ''v1'', ''resources'', i, ''latest-execution'']"
    by simp
  then show ?thesis using safe_id_segment[OF s] by (simp add: route_of_def Let_def)
qed

lemma received_Inr: "eds_get (received r) op = Inr m \<Longrightarrow> (\<And>st msg. r = XError st msg \<Longrightarrow> \<not> (200 \<le> st \<and> st < 300)) \<Longrightarrow> r = XBody m"
  by (auto simp: received_def eds_get_def classifyStatus_def Let_def split: ex_reply.splits if_splits)

section \<open>An example\<close>

definition demo_ex_server :: ExServer where
  "demo_ex_server = ex_newServer (\<lambda>t. if t < 0 then ''t1'' else ''t2'') 0 3 0"

definition demo_ex_env :: ExEnv where
  "demo_ex_env = \<lparr>xv_draw = \<lambda>_. 0, xv_ctxDone = \<lambda>_. False, xv_float = 0, xv_allocates = \<lambda>n. n \<le> 1000\<rparr>"

lemma demo_ex_server_wf: "ex_wf demo_ex_server"
  unfolding demo_ex_server_def by (rule ex_newServer_wf)

abbreviation demo_latest :: "goerr + Execution" where
  "demo_latest \<equiv> fst (eds_GetLatestExecution demo_mapper_lib (ex_client (\<lambda>_. demo_ex_env) demo_ex_server) demo_turn background ''acme'' ''R003'' demo_eds)"

lemma demo_reads_run:
  "(case demo_latest of Inr e \<Rightarrow> ex_ExecutionID e = ''E003-0'' | Inl _ \<Rightarrow> False)"
  "map ed_ExecutionID (visible_history demo_ex_server ''acme'' ''R003'' False) = [''E003-0'', ''E003-1'', ''E003-2'', ''E003-3'']"
  by code_simp+

section \<open>Properties\<close>

text \<open>C31: The two maps of the reference execution source stay views of the same records. Whatever calls its admin port receives, every pointer of the index
  by id leads to a record with that id which the current list of its resource holds, and every record of a list is in the index and names
  its resource.\<close>

theorem ex_index_agrees:
  assumes "s = fold (\<lambda>a s. snd (ex_adminRoutes fmt3339 a s)) reqs (ex_newServer fmt3339 now n lat)"
  shows "(\<forall>i p. gomap_get (xs_byID s) i = Some p \<longrightarrow>
      (\<exists>e. deref s p = Some e \<and> ed_ExecutionID e = i \<and> e \<in> set (resource_slice s (ed_ResourceID e))))
    \<and> (\<forall>rid. \<forall>e \<in> set (resource_slice s rid). ed_ResourceID e = rid \<and> gomap_get (xs_byID s) (ed_ExecutionID e) \<noteq> None)"
proof -
  have wf: "ex_wf s" unfolding assms by (rule ex_server.run_inv[OF ex_newServer_wf])
  note index_sound[OF wf]
  moreover have "ed_ResourceID e = rid \<and> gomap_get (xs_byID s) (ed_ExecutionID e) \<noteq> None" if m: "e \<in> set (resource_slice s rid)" for rid e
  proof -
    obtain a where a: "gomap_get (xs_byResource s) rid = Some a" using m by (cases "gomap_get (xs_byResource s) rid") (auto simp: resource_slice_def)
    have "e \<in> set (xs_arrays s ! a)" "slice_ok s (rid, a)" using slice_mem[OF wf gomap_get_in_set[OF a]] m by auto
    then show ?thesis by (auto simp: slice_ok_def list_all_iff gomap_get_def map_of_eq_None_iff)
  qed
  ultimately show ?thesis by blast
qed

theorem ex_index_agrees_witness:
  "let s = fold (\<lambda>a s. snd (ex_adminRoutes (\<lambda>_. ''t1'') a s)) [XaStart 5 ''R003'' []] (ex_newServer (\<lambda>_. ''t1'') 0 3 0)
   in length (resource_slice s ''R003'') = 5 \<and> (\<forall>e \<in> set (resource_slice s ''R003''). ed_ResourceID e = ''R003'' \<and> gomap_get (xs_byID s) (ed_ExecutionID e) \<noteq> None)"
proof -
  let ?s = "fold (\<lambda>a s. snd (ex_adminRoutes (\<lambda>_. ''t1'') a s)) [XaStart 5 ''R003'' []] (ex_newServer (\<lambda>_. ''t1'') 0 3 0)"
  let ?n = "ex_newServer (\<lambda>_. ''t1'') 0 3 0"
  have "length (resource_slice ?n ''R003'') = 4" by code_simp
  then have "length (resource_slice ?s ''R003'') = 5" by (simp add: ex_start_def Let_def resource_slice_store[OF ex_newServer_wf])
  then show ?thesis using ex_index_agrees[of ?s, OF refl] unfolding Let_def by blast
qed

text \<open>C30: Following the cursors of the reference source reads the whole history, once. Asked with the adapter's own query for pages of any positive size, a reader that
  goes on with each page's cursor ends after at most one page more than the history has full pages, and the pages together are
  the tenant's records of the resource in their order, each exactly once.\<close>

theorem cursors_cover_history:
  assumes "admit v s = (None :: EDSExecutionPage ex_reply option)" "rid \<noteq> []" "0 < n" "n < 2 ^ 62" "xv_allocates v n"
    and "int (length (visible_history s t rid (ro_IncludeAudit opts))) < 2 ^ 62"
  shows "follow_cursor (Suc (length (visible_history s t rid (ro_IncludeAudit opts)) div nat n))
      (\<lambda>c. ex_list v (list_query t rid n \<lparr>pg_Limit = n, pg_Cursor = c\<rparr> opts) s) []
    = Some (visible_history s t rid (ro_IncludeAudit opts))"
proof -
  let ?len = "length (visible_history s t rid (ro_IncludeAudit opts))"
  have "?len \<le> Suc (?len div nat n) * nat n" using assms(3) by (metis dividend_less_div_times less_imp_le mult_Suc zero_less_nat_eq add.commute)
  then have "int ?len \<le> int (Suc (?len div nat n)) * n" using assms(3) by (metis of_nat_le_iff of_nat_mult int_nat_eq less_imp_le)
  then show ?thesis using follow_from[OF assms, of 0 "Suc (?len div nat n)"] by simp
qed

lemma ex_get_replies:
  "ex_get v i q s = XError st msg \<Longrightarrow> \<not> (200 \<le> st \<and> st < 300)" "ex_latest v i q s = XError st msg \<Longrightarrow> \<not> (200 \<le> st \<and> st < 300)"
  by (auto simp: ex_get_def ex_latest_def admit_def Let_def split: option.splits if_splits)

lemma eds_path:
  assumes "xa_basePath a = []" "safe_id i"
  shows "eq_Path (eds_request ctx a (''/eds/v1/executions/'' @ PathEscape i) q t) = ''/eds/v1/executions/'' @ i"
    "eq_Path (eds_request ctx a (''/eds/v1/resources/'' @ PathEscape i @ ''/latest-execution'') q t) = ''/eds/v1/resources/'' @ i @ ''/latest-execution''"
proof -
  have e: "EscapedPath ''/eds/v1/resources/'' = ''/eds/v1/resources/''" "EscapedPath ''/latest-execution'' = ''/latest-execution''" by code_simp+
  show "eq_Path (eds_request ctx a (''/eds/v1/executions/'' @ PathEscape i) q t) = ''/eds/v1/executions/'' @ i"
    using assms safe_id_path[OF assms(2)] by (simp add: eds_request_def joinPath_def del: append.simps)
  show "eq_Path (eds_request ctx a (''/eds/v1/resources/'' @ PathEscape i @ ''/latest-execution'') q t) = ''/eds/v1/resources/'' @ i @ ''/latest-execution''"
    using assms safe_id_escape[OF assms(2)] e by (simp add: eds_request_def joinPath_def EscapedPath_append del: append.simps)
qed

lemma ex_client_execution:
  assumes "xa_basePath a = []" "safe_id i"
  shows "ec_execution (ex_client v s) k (eds_request ctx a (''/eds/v1/executions/'' @ PathEscape i) q t) = received (ex_get (v k) i q s)"
    "ec_execution (ex_client v s) k (eds_request ctx a (''/eds/v1/resources/'' @ PathEscape i @ ''/latest-execution'') q t) = received (ex_latest (v k) i q s)"
proof -
  have q: "eq_Query (eds_request ctx a p q t) = q" for p by (simp add: eds_request_def)
  show "ec_execution (ex_client v s) k (eds_request ctx a (''/eds/v1/executions/'' @ PathEscape i) q t) = received (ex_get (v k) i q s)"
    by (simp only: ex_client_def EdsClient.simps eds_path[OF assms] route_get[OF assms(2)] ex_route.simps q)
  show "ec_execution (ex_client v s) k (eds_request ctx a (''/eds/v1/resources/'' @ PathEscape i @ ''/latest-execution'') q t) = received (ex_latest (v k) i q s)"
    by (simp only: ex_client_def EdsClient.simps eds_path[OF assms] route_latest[OF assms(2)] ex_route.simps q)
qed

lemma adapter_latest_Inr:
  assumes "fst (eds_GetLatestExecution lib (ex_client v s) tu ctx t i a) = Inr e" "xa_basePath a = []" "safe_id i"
  shows "\<exists>k rec. ex_latest (v k) i [(''tenantId'', t)] s = XBody rec \<and> map_One lib (xa_accepted a) rec t = Inr e"
proof -
  obtain k where k: "(case eds_get (received (ex_latest (v k) i [(''tenantId'', t)] s)) ''GetLatestExecution'' of Inl e \<Rightarrow> Inl e
      | Inr rec \<Rightarrow> map_One lib (xa_accepted a) rec t) = Inr e"
    using exec_Call_Inr[OF assms(1)[unfolded eds_GetLatestExecution_def adapter_finish_sel ex_client_execution(2)[OF assms(2,3)]]] by blast
  then obtain rec where r: "eds_get (received (ex_latest (v k) i [(''tenantId'', t)] s)) ''GetLatestExecution'' = Inr rec" "map_One lib (xa_accepted a) rec t = Inr e"
    by (auto split: sum.splits)
  have "ex_latest (v k) i [(''tenantId'', t)] s = XBody rec" by (rule received_Inr[OF r(1) ex_get_replies(2)])
  with r(2) show ?thesis by blast
qed

lemma adapter_get_Inr:
  assumes "fst (eds_GetExecution lib (ex_client v s) tu ctx t i opts a) = Inr e" "xa_basePath a = []" "safe_id i"
  shows "\<exists>k rec. ex_get (v k) i (execution_query t opts) s = XBody rec \<and> map_One lib (xa_accepted a) rec t = Inr e"
proof -
  obtain k where k: "(case eds_get (received (ex_get (v k) i (execution_query t opts) s)) ''GetExecution'' of Inl e \<Rightarrow> Inl e
      | Inr rec \<Rightarrow> map_One lib (xa_accepted a) rec t) = Inr e"
    using exec_Call_Inr[OF assms(1)[unfolded eds_GetExecution_def adapter_finish_sel ex_client_execution(1)[OF assms(2,3)]]] by blast
  then obtain rec where r: "eds_get (received (ex_get (v k) i (execution_query t opts) s)) ''GetExecution'' = Inr rec" "map_One lib (xa_accepted a) rec t = Inr e"
    by (auto split: sum.splits)
  have "ex_get (v k) i (execution_query t opts) s = XBody rec" by (rule received_Inr[OF r(1) ex_get_replies(1)])
  with r(2) show ?thesis by blast
qed

lemma of_execution_query:
  "of_query (execution_query t opts) ''tenantId'' = t" "of_query (execution_query t opts) ''includeAudit'' = (if ro_IncludeAudit opts then ''true'' else [])"
  by (simp_all add: of_query_def execution_query_def Let_def gomap_put_def)

theorem cursors_cover_history_witness:
  "map_option (map ed_ExecutionID) (follow_cursor 2 (\<lambda>c. ex_list demo_ex_env (list_query ''acme'' ''R003'' 3 \<lparr>pg_Limit = 3, pg_Cursor = c\<rparr> demo_opts) demo_ex_server) [])
     = Some [''E003-0'', ''E003-1'', ''E003-2'', ''E003-3'']"
proof -
  let ?h = "visible_history demo_ex_server ''acme'' ''R003'' (ro_IncludeAudit demo_opts)"
  have h: "map ed_ExecutionID ?h = [''E003-0'', ''E003-1'', ''E003-2'', ''E003-3'']" using demo_reads_run(2) by (simp add: demo_opts_def)
  have "length (map ed_ExecutionID ?h) = 4" unfolding h by simp
  then have len: "length ?h = 4" by simp
  have ad: "admit demo_ex_env demo_ex_server = (None :: EDSExecutionPage ex_reply option)" by code_simp
  have d: "4 div nat 3 = (1::nat)" by simp
  have al: "xv_allocates demo_ex_env 3" by (simp add: demo_ex_env_def)
  have "follow_cursor (Suc (length ?h div nat 3))
      (\<lambda>c. ex_list demo_ex_env (list_query ''acme'' ''R003'' 3 \<lparr>pg_Limit = 3, pg_Cursor = c\<rparr> demo_opts) demo_ex_server) [] = Some ?h"
    by (rule cursors_cover_history[OF ad _ _ _ al]) (simp_all add: len)
  then show ?thesis by (simp only: len d Suc_1 option.map h)
qed

text \<open>An execution read through the adapter is the stored one. From the reference source, the latest execution of a resource is the first
  record of its list that the tenant owns, and an execution by id is the record the index holds for it, which is the tenant's and in the list of its resource; each is
  mapped as the source renders it, and the audit trail is empty unless it was asked for.\<close>

theorem executions_read_as_stored:
  assumes "ex_wf s" "t \<noteq> []" "xa_basePath a = []" "safe_id i" "i \<notin> {''.'', ''..''}"
  shows "(\<forall>e. fst (eds_GetLatestExecution lib (ex_client v s) tu ctx t i a) = Inr e \<longrightarrow>
       (\<exists>x. find (\<lambda>x. ed_TenantID x = t) (resource_slice s i) = Some x \<and> e = one_record lib (ex_render s False x) t \<and> ex_Audit e = []))
    \<and> (\<forall>e. fst (eds_GetExecution lib (ex_client v s) tu ctx t i opts a) = Inr e \<longrightarrow>
       (\<exists>x. x \<in> set (resource_slice s (ed_ResourceID x)) \<and> ed_ExecutionID x = i \<and> ed_TenantID x = t
          \<and> e = one_record lib (ex_render s (ro_IncludeAudit opts) x) t \<and> (ro_IncludeAudit opts \<or> ex_Audit e = [])))"
proof (intro conjI allI impI)
  fix e
  assume "fst (eds_GetLatestExecution lib (ex_client v s) tu ctx t i a) = Inr e"
  then obtain k rec where "ex_latest (v k) i [(''tenantId'', t)] s = XBody rec" and m: "map_One lib (xa_accepted a) rec t = Inr e"
    using adapter_latest_Inr assms(3,4) by blast
  moreover have "visible_to t = (\<lambda>x. ed_TenantID x = t)" using assms(2) by (auto simp: visible_to_def)
  ultimately obtain x where "find (\<lambda>x. ed_TenantID x = t) (resource_slice s i) = Some x" "rec = ex_render s False x"
    by (auto simp: ex_latest_def of_query_def admit_def Let_def split: option.splits if_splits)
  with map_One_Inr[OF m] show "\<exists>x. find (\<lambda>x. ed_TenantID x = t) (resource_slice s i) = Some x \<and> e = one_record lib (ex_render s False x) t \<and> ex_Audit e = []"
    by (auto simp: one_record_def ex_render_def Let_def)
next
  fix e
  assume "fst (eds_GetExecution lib (ex_client v s) tu ctx t i opts a) = Inr e"
  then obtain k rec where "ex_get (v k) i (execution_query t opts) s = XBody rec" and m: "map_One lib (xa_accepted a) rec t = Inr e"
    using adapter_get_Inr assms(3,4) by blast
  then obtain p x where p: "gomap_get (xs_byID s) i = Some p" "deref s p = Some x" "ed_TenantID x = t" "rec = ex_render s (ro_IncludeAudit opts) x"
    using assms(2) by (auto simp: ex_get_def of_execution_query admit_def Let_def split: option.splits if_splits)
  have "ed_ExecutionID x = i \<and> x \<in> set (resource_slice s (ed_ResourceID x))" using index_sound[OF assms(1) p(1)] p(2) by auto
  with p map_One_Inr[OF m] show "\<exists>x. x \<in> set (resource_slice s (ed_ResourceID x)) \<and> ed_ExecutionID x = i \<and> ed_TenantID x = t
      \<and> e = one_record lib (ex_render s (ro_IncludeAudit opts) x) t \<and> (ro_IncludeAudit opts \<or> ex_Audit e = [])"
    by (intro exI[of _ x]) (auto simp: one_record_def ex_render_def Let_def)
qed

theorem executions_read_as_stored_witness:
  "\<exists>e x. demo_latest = Inr e \<and> find (\<lambda>x. ed_TenantID x = ''acme'') (resource_slice demo_ex_server ''R003'') = Some x
     \<and> ex_ExecutionID e = ed_ExecutionID x \<and> ex_Audit e = []"
proof -
  obtain e where e: "demo_latest = Inr e" using demo_reads_run(1) by (cases demo_latest) auto
  have "\<not> xc_malformed (xs_chaos demo_ex_server)" by code_simp
  moreover have "safe_id ''R003''" by code_simp
  moreover have "xa_basePath demo_eds = []" by (simp add: demo_eds_def)
  ultimately show ?thesis
    using executions_read_as_stored[OF demo_ex_server_wf, of "''acme''" demo_eds "''R003''" demo_mapper_lib "\<lambda>_. demo_ex_env" demo_turn background] e
    by (fastforce simp: ex_render_def Let_def)
qed

end
