(* ===== verification/Spec2Isabelle.thy ===== *)
theory Spec2Isabelle
  imports BreakerProps EndToEnd AdapterProps Admin Wiring Telemetry OpSource ExSource
begin

text \<open>
  A verification development for the TTL-aware backend-for-frontend (Go module \<^verbatim>\<open>ttl-aware-bff\<close>).

  \<^bold>\<open>The program.\<close> The service answers read requests about a tenant's resources from two systems of record: the
  operational data source (current state, gRPC) and the execution data source (workflow history, REST). A request is
  classified (\<^verbatim>\<open>internal/classifier\<close>), answered from a cache when policy allows
  (\<^verbatim>\<open>internal/cache\<close>), and otherwise routed (\<^verbatim>\<open>internal/router\<close>) by required fields, consistency, source health and the
  measured freshness of the operational copy (\<^verbatim>\<open>internal/freshness\<close>). The calls run concurrently
  (\<^verbatim>\<open>internal/aggregation\<close>) behind a bulkhead, a circuit breaker, a retrier and timeouts
  (\<^verbatim>\<open>internal/resilience\<close>); the records are merged field by field under a precedence policy
  (\<^verbatim>\<open>internal/policy\<close>). When the chosen source fails, the configured fallback, and last an expired
  cache entry, may answer instead (\<^verbatim>\<open>internal/application\<close>). In front of it stand the HTTP middleware and handlers
  (\<^verbatim>\<open>internal/api\<close>) with token authentication and role-based access (\<^verbatim>\<open>internal/security\<close>); behind it the source adapters
  and record mappers (\<^verbatim>\<open>internal/datasource\<close>, \<^verbatim>\<open>internal/mapper\<close>). Every knob is configuration with per-tenant
  overrides and hot reload (\<^verbatim>\<open>internal/config\<close>). \<^verbatim>\<open>cmd/bff\<close> wires the parts; \<^verbatim>\<open>cmd/opsource\<close> and \<^verbatim>\<open>cmd/exsource\<close> are
  reference implementations of the two systems of record.

  \<^bold>\<open>Theories and sources.\<close>
  \<^item> \<open>Prelude\<close>: Go maps as association lists, strings, the locale \<open>guarded_component\<close> (a step function with an
    invariant, its runs) that the stateful components interpret. \<open>GoTime\<close>: instants and durations in nanoseconds with
    64-bit wrap-around and Go's saturating subtraction. \<open>Errs\<close>: \<^verbatim>\<open>pkg/errs\<close>. \<open>Domain\<close>: \<^verbatim>\<open>internal/domain\<close>.
  \<^item> \<open>Config\<close>, \<open>ConfigLoad\<close>, \<open>ConfigProvider\<close>: the configuration tree, tenant resolution, defaults, merge, validation,
    and the provider with its reloads. \<open>EnvOverlay\<close>: environment variables laid over the parsed YAML tree.
  \<^item> \<open>PolicyFields\<close>, \<open>Classifier\<close>, \<open>FreshnessEval\<close>: the field catalogue, classification, freshness evaluation and the
    probe memo. \<open>Router\<close> models \<^verbatim>\<open>router.go\<close> rule by rule; \<open>RouterProps\<close> has the lemmas about the
    chain, \<open>RoutingPolicy\<close> what a decision guarantees.
  \<^item> \<open>Breaker\<close> and \<open>BreakerProps\<close>, \<open>Bulkhead\<close>, \<open>RateLimit\<close>, \<open>Retry\<close>, \<open>Executor\<close>: \<^verbatim>\<open>internal/resilience\<close>, one theory per
    file. The breaker's ring of buckets is shown to refine a log of outcomes; the bulkhead is a
    transition system of interleaved callers in which every channel operation and every counter update is a step of its own.
  \<^item> \<open>Cache\<close> (entries and keys), \<open>MemoryCache\<close> (the in-process cache, refining a recency list), \<open>CacheManager\<close> (the
    two-tier cache and the cache-aside manager over any backend), \<open>CachePort\<close> (the backend contract as the locale \<open>cache_port\<close>,
    the two-tier cache as a \<open>sublocale\<close>, both interpreted on the model), \<open>CacheAside\<close> (what the manager guarantees),
    \<open>Redis\<close> (the Redis backend over any client; the documented contract of SCAN is a hypothesis, with a concrete server that meets it). Redis is no
    instance of \<open>cache_port\<close>: what it returns has been through JSON, which keeps durations only as floating-point seconds, so \<open>Redis\<close> states what its
    keys hold up to the codec.
  \<^item> \<open>Precedence\<close> and \<open>Aggregation\<close>: field resolution, fan-out and merge.
  \<^item> \<open>Service\<close> models \<^verbatim>\<open>application/service.go\<close> over its ports; \<open>ServiceProps\<close> has its lemmas and
    the runs of the service, \<open>Lifecycle\<close> the properties of the lifecycle for any ports, \<open>Deployment\<close> those of the
    service wired to the routing engine, with an example deployment that whole requests run through.
  \<^item> \<open>Jwk\<close> and \<open>Security\<close>: published keys, key providers, authentication, tenant resolution and authorisation.
    \<open>Correlation\<close>: request ids and the request context. \<open>Response\<close>, \<open>Api\<close>, \<open>ApiProps\<close>: the response writer, the middleware chain, the
    handlers and the public routes. \<open>Admin\<close>: probes, readiness and the routing report. \<open>EndToEnd\<close>: the API over the service, with runs of HTTP exchanges.
  \<^item> \<open>Mapper\<close>, \<open>Adapters\<close>, \<open>AdapterProps\<close>: wire records and their mapping, the two adapters over arbitrary clients, error classification.
  \<item> \<open>SourceKit\<close> (number formats and path escapes both sources share), \<open>OpSource\<close> and \<open>ExSource\<close>: the reference sources with their injected faults and admin
    ports. Each is also a client of its adapter (\<open>ops_client\<close>, \<open>ex_client\<close>), so that what the gateway reads is followed from the stored
    record; the execution source keeps its two maps over explicitly allocated arrays, as the Go slices do.
  \<item> \<open>Wiring\<close>: TLS material, connection options, the cache backend, the object graph with what start-up opens and closes, and the order of a run.
    \<open>Telemetry\<close>: log levels, redaction, instruments and recording. \<open>Exposition\<close>: the Prometheus text encoder and a reader of the format.

  \<^bold>\<open>Conventions.\<close> A struct is a record whose fields carry a short prefix, an enum a datatype, an error a value of
  \<open>goerr\<close>, a fallible call a sum with the error on the left. Every reading of a clock, every answer of
  a source, the completion order of goroutines, the random jitter and third-party code (token bucket,
  SHA-256, JSON encoding, singleflight) are arguments, so the theorems hold for all of their
  behaviours. Methods under a mutex are atomic steps. An entry that a call stamps through its pointer is a result of that call
  (\<open>manager_store\<close>, \<open>Store\<close>). Within one phase of a request (routing, fetch, reply) the
  service's clock is read once.

  \<^bold>\<open>Bounds.\<close> The retry loop, the eviction loop, the digit loop and the descent into a YAML tree are total with a
  measure. The SCAN loop of the Redis backend is a partial function, proved to return once its context has ended. The reader that
  follows cursors takes as fuel one page more than the history has full pages, proved to be enough. A caller of the bulkhead
  ends after at most nine steps of its own, by a rank on its phases. Every other loop is structural.

  \<^bold>\<open>What is shown.\<close> Tenant isolation from the token to the response: only verified tokens authenticate, use cases run only for
  authorised principals as their own tenant, adapters and cache hand out that tenant's data only (the cache for identifiers its keys show verbatim,
  \<open>plain_id\<close>; an identifier spelled like a digest can collide with another); that every dispatched request is answered with
  one document, which hides the cause of an error; that routing and the resource views only use sources reported
  available; honesty of fallback and stale replies; strong reads independent of the cache; the TTL and
  staleness bounds of routing; cache-aside correctness and lifetimes; exact tripping, recovery and bounded probing of
  the breaker; bounded concurrency without leaks; bounded, selective retries; tenant isolation of rate
  limiting; determinism of the fan-out and truthfulness of the merge; complete history pages; throttled key fetches; validated configuration; complete flushes on
  Redis; exact environment overrides; samples no label value can break; well-formed reference sources whose two indexes agree and whose
  injected ages are what the gateway's verdicts measure; a start-up that closes what it opened.
  Where the code departs from its documentation the development proves what it does
  (\<open>audit_entries_reach_unaudited_reads\<close>, \<open>reference_probe_verdict\<close>, and the lemmas \<open>skew_counts_as_age\<close>, \<open>env_path_lower\<close>, \<open>invalidation_keeps_execution_views\<close>,
  \<open>outer_layers_are_tenant_blind\<close>, \<open>zero_timestamp_probed_as_epoch\<close>, \<open>unverified_tls_passes_validation\<close>, \<open>build_closes_what_it_opens\<close>,
  \<open>serving_run\<close>, \<open>recovered_panic_is_uncorrelated\<close>, \<open>far_future_is_fresh\<close>, \<open>tenant_patch_escapes_validation\<close>, \<open>odd_id_path\<close>).

  \<^bold>\<open>Not modelled.\<close> Where metrics, spans and log lines are emitted and their hooks, the construction of the OpenTelemetry pipelines
  (\<^verbatim>\<open>observability/otel.go\<close>), generated protobuf code, test helpers, the third-party Redis, gRPC, HTTP and YAML
  libraries (arguments of the definitions that use them), the parsing of flags, signals, and the sockets of the listeners.
\<close>

end
